(* ===== verification/Cedrus_Prelude.thy ===== *)
theory Cedrus_Prelude
  imports Main "HOL-Library.Word"
begin

text \<open>What the components share: the C integer types the driver uses, the kernel's
  arithmetic macros, C arrays as lists with the loops that update them in place, and
  bit strings written most significant bit first.  The collection \<open>arr_simps\<close> rewrites
  array reads after a loop, \<open>arr_intros\<close> proves that a loop keeps the shape of an array
  (its dimensions and what holds of its elements), \<open>hdr_simps\<close> unfolds constants of
  the kernel headers.\<close>

named_theorems arr_simps \<open>reads of an array after the loops that update it\<close>
named_theorems arr_intros \<open>loops keep dimensions and element conditions\<close>
named_theorems hdr_simps \<open>constants of the kernel and register headers\<close>

type_synonym u8 = "8 word"
type_synonym u16 = "16 word"
type_synonym u32 = "32 word"
type_synonym u64 = "64 word"

section \<open>The kernel's arithmetic macros\<close>

text \<open>\<open>min_t\<close> and \<open>clamp\<close> of linux/minmax.h; \<open>ALIGN\<close> and \<open>DIV_ROUND_UP\<close> on
  values that do not wrap.\<close>

definition min_t :: "'a::linorder \<Rightarrow> 'a \<Rightarrow> 'a" where
  "min_t a b = (if a < b then a else b)"

definition clamp :: "'a::linorder \<Rightarrow> 'a \<Rightarrow> 'a \<Rightarrow> 'a" where
  "clamp v lo hi = min (max v lo) hi"

definition ALIGN :: "nat \<Rightarrow> nat \<Rightarrow> nat" where
  "ALIGN x a = (x + a - 1) div a * a"

definition DIV_ROUND_UP :: "nat \<Rightarrow> nat \<Rightarrow> nat" where
  "DIV_ROUND_UP n d = (n + d - 1) div d"

lemma clamp_bounds: "lo \<le> hi \<Longrightarrow> lo \<le> clamp v lo hi \<and> clamp v lo hi \<le> hi"
  by (auto simp: clamp_def min_def max_def)

lemma clamp_id: "lo \<le> v \<Longrightarrow> v \<le> hi \<Longrightarrow> clamp v lo hi = v"
  by (auto simp: clamp_def min_def max_def)

lemma min_t_eq_min: "min_t a b = min a b"
  by (auto simp: min_t_def min_def)

lemma ALIGN_ge: "0 < a \<Longrightarrow> x \<le> ALIGN x a"
proof -
  assume "0 < a"
  then have "x + a - 1 < a + (x + a - 1) div a * a"
    using dividend_less_div_times[of a "x + a - 1"] by simp
  then show ?thesis by (simp add: ALIGN_def)
qed

lemma ALIGN_dvd: "a dvd ALIGN x a"
  by (simp add: ALIGN_def)

lemma ALIGN_lt: "0 < a \<Longrightarrow> ALIGN x a < x + a"
proof -
  assume a: "0 < a"
  have "(x + a - 1) div a * a \<le> x + a - 1" by (rule div_times_less_eq_dividend)
  also have "x + a - 1 < x + a" using a by simp
  finally show ?thesis by (simp add: ALIGN_def)
qed

lemma unat_ucast_mod:
  "unat ((ucast :: 'a::len word \<Rightarrow> 'b::len word) x) = unat x mod 2 ^ LENGTH('b)"
  by (simp add: unsigned_ucast_eq take_bit_eq_mod)

lemma unat_lt2p: "unat (x :: 'a::len word) < 2 ^ LENGTH('a)"
  by (rule unsigned_less)

lemma unat_ucast_up:
  assumes "LENGTH('a) \<le> LENGTH('b)"
  shows "unat ((ucast :: 'a::len word \<Rightarrow> 'b::len word) x) = unat x"
proof -
  have "(2::nat) ^ LENGTH('a) \<le> 2 ^ LENGTH('b)" using assms by simp
  then have "unat x < 2 ^ LENGTH('b)" using unat_lt2p[of x] by linarith
  then show ?thesis by (simp add: unat_ucast_mod)
qed

lemma unat_word_of_int:
  assumes "0 \<le> i" "i < 2 ^ LENGTH('a)"
  shows "unat (word_of_int i :: 'a::len word) = nat i"
proof -
  have "uint (word_of_int i :: 'a word) = i" using assms by (simp add: uint_word_of_int)
  then show ?thesis by (simp only: unat_eq_nat_uint)
qed

lemma bit_le_unat: "bit (w :: 'a::len word) n \<Longrightarrow> 2 ^ n \<le> unat w"
proof -
  assume "bit w n"
  then have "bit (unat w) n" using bit_imp_le_length[of w n] by (simp add: bit_unsigned_iff)
  then have "odd (unat w div 2 ^ n)" by (simp add: bit_iff_odd)
  then have "unat w div 2 ^ n \<noteq> 0" by (metis even_zero)
  then show ?thesis by (metis div_less not_le)
qed

lemma unat_less_bits: "(\<And>n. k \<le> n \<Longrightarrow> \<not> bit (w :: 'a::len word) n) \<Longrightarrow> unat w < 2 ^ k"
proof -
  assume a: "\<And>n. k \<le> n \<Longrightarrow> \<not> bit w n"
  have "take_bit k w = w"
    by (rule bit_word_eqI) (use a not_le in \<open>auto simp: bit_take_bit_iff\<close>)
  then have "unat w = take_bit k (unat w)" by (metis unsigned_take_bit_eq)
  then show ?thesis by (metis take_bit_nat_less_exp)
qed

section \<open>Arrays and the loops over them\<close>

text \<open>A C array is a list.  \<open>arr_upd i f xs\<close> is the assignment \<open>xs[i] = f(xs[i])\<close>;
  \<open>arr_for n f xs\<close> is the loop \<open>for (i = 0; i < n; i++) xs[i] = f(i, xs[i])\<close>.  Every
  model of this development keeps its indices inside the array, which the shape lemmas
  below show.\<close>

definition arr_upd :: "nat \<Rightarrow> ('a \<Rightarrow> 'a) \<Rightarrow> 'a list \<Rightarrow> 'a list" where
  "arr_upd i f xs = xs[i := f (xs ! i)]"

primrec arr_for :: "nat \<Rightarrow> (nat \<Rightarrow> 'a \<Rightarrow> 'a) \<Rightarrow> 'a list \<Rightarrow> 'a list" where
  "arr_for 0 f xs = xs"
| "arr_for (Suc n) f xs = arr_upd n (f n) (arr_for n f xs)"

lemma length_arr_upd [simp]: "length (arr_upd i f xs) = length xs"
  by (simp add: arr_upd_def)

lemma nth_arr_upd [arr_simps]:
  "j < length xs \<Longrightarrow> arr_upd i f xs ! j = (if j = i then f (xs ! j) else xs ! j)"
  by (simp add: arr_upd_def nth_list_update)

lemma length_arr_for [simp]: "length (arr_for n f xs) = length xs"
  by (induction n) simp_all

lemma nth_arr_for [arr_simps]:
  "j < length xs \<Longrightarrow> arr_for n f xs ! j = (if j < n then f j (xs ! j) else xs ! j)"
  by (induction n) (auto simp: nth_arr_upd less_Suc_eq)

lemma arr_for_full:
  "arr_for (length xs) f xs = map (\<lambda>j. f j (xs ! j)) [0..<length xs]"
  by (rule nth_equalityI) (simp_all add: nth_arr_for)

text \<open>\<open>arr n P xs\<close>: the array has \<open>n\<close> elements and element \<open>i\<close> satisfies \<open>P i\<close>.\<close>

primrec arr_from :: "nat \<Rightarrow> (nat \<Rightarrow> 'a \<Rightarrow> bool) \<Rightarrow> 'a list \<Rightarrow> bool" where
  "arr_from k P [] = True"
| "arr_from k P (x # xs) = (P k x \<and> arr_from (Suc k) P xs)"

definition arr :: "nat \<Rightarrow> (nat \<Rightarrow> 'a \<Rightarrow> bool) \<Rightarrow> 'a list \<Rightarrow> bool" where
  "arr n P xs = (length xs = n \<and> arr_from 0 P xs)"

lemma arr_from_iff: "arr_from k P xs = (\<forall>i<length xs. P (k + i) (xs ! i))"
proof (induction xs arbitrary: k)
  case Nil
  then show ?case by simp
next
  case (Cons x xs)
  show ?case (is "?l = (\<forall>i<length (x # xs). ?Q i)")
    by (simp add: Cons All_less_Suc2)
qed

lemma arr_iff: "arr n P xs = (length xs = n \<and> (\<forall>i<n. P i (xs ! i)))"
  by (auto simp: arr_def arr_from_iff)

lemma arrD: "arr n P xs \<Longrightarrow> i < n \<Longrightarrow> P i (xs ! i)"
  by (simp add: arr_iff)

lemma arr_length: "arr n P xs \<Longrightarrow> length xs = n"
  by (simp add: arr_def)

lemma arr_mono: "arr n P xs \<Longrightarrow> (\<And>i x. i < n \<Longrightarrow> P i x \<Longrightarrow> Q i x) \<Longrightarrow> arr n Q xs"
  by (simp add: arr_iff)

lemma arr_upd_arr [arr_intros]:
  "arr n P xs \<Longrightarrow> (i < n \<Longrightarrow> P i (xs ! i) \<Longrightarrow> P i (f (xs ! i))) \<Longrightarrow> arr n P (arr_upd i f xs)"
  by (auto simp: arr_iff nth_arr_upd)

lemma arr_for_arr [arr_intros]:
  "arr n P xs \<Longrightarrow> (\<And>i x. i < k \<Longrightarrow> i < n \<Longrightarrow> P i x \<Longrightarrow> P i (f i x)) \<Longrightarrow> arr n P (arr_for k f xs)"
  by (simp add: arr_iff nth_arr_for)

text \<open>A loop whose body writes several arrays of one structure: \<open>for_upto n body s\<close> runs
  \<open>body\<close> for the indices below \<open>n\<close> in order.\<close>

primrec for_upto :: "nat \<Rightarrow> (nat \<Rightarrow> 's \<Rightarrow> 's) \<Rightarrow> 's \<Rightarrow> 's" where
  "for_upto 0 body s = s"
| "for_upto (Suc n) body s = body n (for_upto n body s)"

lemma for_upto_inv:
  "I s \<Longrightarrow> (\<And>i t. i < n \<Longrightarrow> I t \<Longrightarrow> I (body i t)) \<Longrightarrow> I (for_upto n body s)"
  by (induction n) auto

lemma for_upto_same:
  "(\<And>i t. i < n \<Longrightarrow> g (body i t) = g t) \<Longrightarrow> g (for_upto n body s) = g s"
  by (induction n) auto

text \<open>A field that iteration \<open>i\<close> changes by \<open>arr_upd i (f i)\<close> has gone through the loop
  \<open>arr_for\<close>.\<close>

lemma for_upto_field:
  "(\<And>i t. i < n \<Longrightarrow> g (body i t) = arr_upd i (f i) (g t)) \<Longrightarrow>
   g (for_upto n body s) = arr_for n f (g s)"
  by (induction n) auto

section \<open>Bits, most significant first\<close>

primrec msb_bits :: "nat \<Rightarrow> nat \<Rightarrow> bool list" where
  "msb_bits 0 v = []"
| "msb_bits (Suc n) v = odd (v div 2 ^ n) # msb_bits n v"

definition bits_nat :: "bool list \<Rightarrow> nat" where
  "bits_nat bs = foldl (\<lambda>a b. 2 * a + of_bool b) 0 bs"

lemma length_msb_bits [simp]: "length (msb_bits n v) = n"
  by (induction n) simp_all

lemma foldl_msb_bits:
  "foldl (\<lambda>a b. 2 * a + of_bool b) a (msb_bits n v) = a * 2 ^ n + v mod 2 ^ n"
proof (induction n arbitrary: a)
  case 0
  then show ?case by simp
next
  case (Suc n)
  have "v mod 2 ^ Suc n = v mod 2 ^ n + 2 ^ n * (v div 2 ^ n mod 2)"
    using mod_mult2_eq[of v "2 ^ n" 2] by (simp add: mult.commute)
  moreover have "v div 2 ^ n mod 2 = of_bool (odd (v div 2 ^ n))"
    by (simp add: odd_iff_mod_2_eq_one)
  ultimately show ?case
    by (simp only: msb_bits.simps foldl_Cons Suc.IH) (simp add: algebra_simps)
qed

lemma bits_nat_msb_bits [simp]: "bits_nat (msb_bits n v) = v mod 2 ^ n"
  by (simp add: bits_nat_def foldl_msb_bits)

lemma msb_bits_mod: "msb_bits n (v mod 2 ^ n) = msb_bits n v"
proof -
  have "k \<le> n \<Longrightarrow> msb_bits k (v mod 2 ^ n) = msb_bits k v" for k
  proof (induction k)
    case (Suc k)
    have "odd (v mod 2 ^ n div 2 ^ k) = odd (v div 2 ^ k)"
      using Suc.prems bit_take_bit_iff[of n v k] by (simp add: bit_iff_odd take_bit_eq_mod)
    then show ?case using Suc by simp
  qed simp
  then show ?thesis by simp
qed

lemma bits_nat_inj:
  "length bs = length cs \<Longrightarrow> bits_nat bs = bits_nat cs \<Longrightarrow> bs = cs"
proof (induction bs arbitrary: cs rule: rev_induct)
  case Nil
  then show ?case by simp
next
  case (snoc b bs)
  obtain c ds where cs: "cs = ds @ [c]"
    using snoc.prems(1) by (metis length_append_singleton nat.simps(3) list.size(3) rev_exhaust)
  have "2 * bits_nat bs + of_bool b = 2 * bits_nat ds + (of_bool c :: nat)"
    using snoc.prems(2) by (simp add: cs bits_nat_def)
  then have "bits_nat bs = bits_nat ds \<and> b = c"
    by (cases b; cases c; simp; presburger)
  then show ?case using snoc cs by simp
qed

end
