(* ===== verification/Vp9_Probs.thy ===== *)
theory Vp9_Probs
  imports Vp9_Tables
begin

unbundle bit_operations_syntax

text \<open>The probability state of the VP9 decoder and its forward update, after
  \<open>cedrus_vp9_helper.c\<close>: the frame context with its default value, the delta update of a
  probability (\<open>update_prob\<close>), the update of every table of the context from the
  compressed header (\<open>cedrus_vp9_fw_update_probs\<close>) and the reset of the saved contexts
  (\<open>cedrus_vp9_reset_frame_ctx\<close>).  The predicate \<open>ctx_all Q R\<close> gives the dimensions of
  every table together with a condition on its entries.\<close>

section \<open>Constants of the Linux VP9 controls\<close>

definition V4L2_VP9_FRAME_FLAG_KEY_FRAME :: u32 where
  [hdr_simps]: "V4L2_VP9_FRAME_FLAG_KEY_FRAME = 0x1"
definition V4L2_VP9_FRAME_FLAG_ERROR_RESILIENT :: u32 where
  [hdr_simps]: "V4L2_VP9_FRAME_FLAG_ERROR_RESILIENT = 0x4"
definition V4L2_VP9_FRAME_FLAG_INTRA_ONLY :: u32 where
  [hdr_simps]: "V4L2_VP9_FRAME_FLAG_INTRA_ONLY = 0x8"
definition V4L2_VP9_FRAME_FLAG_ALLOW_HIGH_PREC_MV :: u32 where
  [hdr_simps]: "V4L2_VP9_FRAME_FLAG_ALLOW_HIGH_PREC_MV = 0x10"

definition V4L2_VP9_TX_MODE_SELECT :: u8 where
  [hdr_simps]: "V4L2_VP9_TX_MODE_SELECT = 4"
definition V4L2_VP9_INTERP_FILTER_SWITCHABLE :: u8 where
  [hdr_simps]: "V4L2_VP9_INTERP_FILTER_SWITCHABLE = 4"
definition V4L2_VP9_REFERENCE_MODE_SINGLE_REFERENCE :: u8 where
  [hdr_simps]: "V4L2_VP9_REFERENCE_MODE_SINGLE_REFERENCE = 0"
definition V4L2_VP9_REFERENCE_MODE_COMPOUND_REFERENCE :: u8 where
  [hdr_simps]: "V4L2_VP9_REFERENCE_MODE_COMPOUND_REFERENCE = 1"
definition V4L2_VP9_REFERENCE_MODE_SELECT :: u8 where
  [hdr_simps]: "V4L2_VP9_REFERENCE_MODE_SELECT = 2"
definition V4L2_VP9_RESET_FRAME_CTX_SPEC :: u8 where
  [hdr_simps]: "V4L2_VP9_RESET_FRAME_CTX_SPEC = 1"
definition V4L2_VP9_RESET_FRAME_CTX_ALL :: u8 where
  [hdr_simps]: "V4L2_VP9_RESET_FRAME_CTX_ALL = 2"

definition flag_set :: "u32 \<Rightarrow> u32 \<Rightarrow> bool" where
  "flag_set flags bits = (flags AND bits \<noteq> 0)"

section \<open>The frame context\<close>

record vp9_frame_context =
  tx8 :: "u8 list list"
  tx16 :: "u8 list list"
  tx32 :: "u8 list list"
  coef :: "u8 list list list list list list"
  skip :: "u8 list"
  inter_mode :: "u8 list list"
  interp_filter :: "u8 list list"
  is_inter :: "u8 list"
  comp_mode :: "u8 list"
  single_ref :: "u8 list list"
  comp_ref :: "u8 list"
  y_mode :: "u8 list list"
  uv_mode :: "u8 list list"
  partition_probs :: "u8 list list"
  mv_joint :: "u8 list"
  mv_sign :: "u8 list"
  mv_classes :: "u8 list list"
  mv_class0_bit :: "u8 list"
  mv_bits :: "u8 list list"
  mv_class0_fr :: "u8 list list list"
  mv_fr :: "u8 list list"
  mv_class0_hp :: "u8 list"
  mv_hp :: "u8 list"

text \<open>The compressed header carries one delta per probability, and the transform mode.\<close>

record vp9_compressed_hdr = vp9_frame_context +
  tx_mode :: u8

text \<open>The fields of the frame control the helper reads.\<close>

record vp9_frame =
  vf_flags :: u32
  vf_reset_frame_context :: u8
  vf_frame_context_idx :: u8
  vf_interpolation_filter :: u8
  vf_reference_mode :: u8

definition default_coef :: "u8 list list list list list list" where
  "default_coef =
    [[default_coef_4x4_0, default_coef_4x4_1],
     [default_coef_8x8_0, default_coef_8x8_1],
     [default_coef_16x16_0, default_coef_16x16_1],
     [default_coef_32x32_0, default_coef_32x32_1]]"

definition default_probs :: vp9_frame_context where
  "default_probs = \<lparr>
    tx8 = default_tx8, tx16 = default_tx16, tx32 = default_tx32,
    coef = default_coef, skip = default_skip, inter_mode = default_inter_mode,
    interp_filter = default_interp_filter, is_inter = default_is_inter,
    comp_mode = default_comp_mode, single_ref = default_single_ref,
    comp_ref = default_comp_ref, y_mode = default_y_mode, uv_mode = default_uv_mode,
    partition_probs = default_partition, mv_joint = default_mv_joint,
    mv_sign = default_mv_sign, mv_classes = default_mv_classes,
    mv_class0_bit = default_mv_class0_bit, mv_bits = default_mv_bits,
    mv_class0_fr = default_mv_class0_fr, mv_fr = default_mv_fr,
    mv_class0_hp = default_mv_class0_hp, mv_hp = default_mv_hp \<rparr>"

definition BAND_6 :: "nat \<Rightarrow> nat" where
  "BAND_6 band = (if band = 0 then 3 else 6)"

section \<open>The update of one probability\<close>

text \<open>C's \<open>int\<close> arithmetic: all values stay within a few hundred, so \<open>int\<close> is exact.\<close>

definition inv_recenter_nonneg :: "int \<Rightarrow> int \<Rightarrow> int" where
  "inv_recenter_nonneg v m =
    (if v > 2 * m then v
     else if v AND 1 \<noteq> 0 then m - drop_bit 1 (v + 1)
     else m + drop_bit 1 v)"

definition update_prob :: "int \<Rightarrow> int \<Rightarrow> int" where
  "update_prob delta prob =
    (if delta = 0 then prob
     else if prob \<le> 128 then 1 + inv_recenter_nonneg delta (prob - 1)
     else 255 - inv_recenter_nonneg delta (255 - prob))"

definition update_mv_prob :: "int \<Rightarrow> int \<Rightarrow> int" where
  "update_mv_prob delta prob = (if delta = 0 then prob else delta)"

text \<open>The assignments \<open>p[n] = update_prob(d[n], p[n])\<close> on \<open>u8\<close> cells: the \<open>int\<close> result
  is truncated to eight bits.\<close>

definition upd :: "u8 \<Rightarrow> u8 \<Rightarrow> u8" where
  "upd d p = word_of_int (update_prob (uint d) (uint p))"

definition upd_mv :: "u8 \<Rightarrow> u8 \<Rightarrow> u8" where
  "upd_mv d p = word_of_int (update_mv_prob (uint d) (uint p))"

section \<open>The update of each table\<close>

definition update_tx_probs ::
    "vp9_compressed_hdr \<Rightarrow> vp9_frame_context \<Rightarrow> vp9_frame_context" where
  "update_tx_probs deltas = for_upto 2 (\<lambda>i probs.
    let d8x8 = tx8 deltas ! i; d16x16 = tx16 deltas ! i; d32x32 = tx32 deltas ! i in
    probs\<lparr> tx8 := arr_upd i (arr_upd 0 (upd (d8x8 ! 0))) (tx8 probs),
      tx16 := arr_upd i (\<lambda>p16x16. arr_upd 1 (upd (d16x16 ! 1))
        (arr_upd 0 (upd (d16x16 ! 0)) p16x16)) (tx16 probs),
      tx32 := arr_upd i (\<lambda>p32x32. arr_upd 2 (upd (d32x32 ! 2))
        (arr_upd 1 (upd (d32x32 ! 1)) (arr_upd 0 (upd (d32x32 ! 0)) p32x32)))
        (tx32 probs) \<rparr>)"

definition update_coeff ::
    "u8 list list list \<Rightarrow> u8 list list list \<Rightarrow> u8 list list list" where
  "update_coeff deltas probs =
    arr_for 6 (\<lambda>l. arr_for (BAND_6 l) (\<lambda>m. arr_for 3 (\<lambda>n. upd (deltas ! l ! m ! n)))) probs"

text \<open>The loop over the transform sizes leaves after the size that equals \<open>tx_mode\<close>:
  \<open>update_coef_loop n i\<close> has \<open>n\<close> iterations left and \<open>i\<close> is the loop variable.\<close>

primrec update_coef_loop ::
    "nat \<Rightarrow> nat \<Rightarrow> vp9_compressed_hdr \<Rightarrow> vp9_frame_context \<Rightarrow> vp9_frame_context" where
  "update_coef_loop 0 i deltas probs = probs"
| "update_coef_loop (Suc n) i deltas probs =
    (let probs = probs\<lparr> coef := arr_upd i (arr_for 2 (\<lambda>j. arr_for 2 (\<lambda>k.
                   update_coeff (coef deltas ! i ! j ! k)))) (coef probs) \<rparr>
     in if unat (tx_mode deltas) = i then probs
        else update_coef_loop n (Suc i) deltas probs)"

definition update_coef_probs ::
    "vp9_compressed_hdr \<Rightarrow> vp9_frame_context \<Rightarrow> vp9_frame_context" where
  "update_coef_probs deltas probs = update_coef_loop 4 0 deltas probs"

definition update_skip_probs ::
    "vp9_compressed_hdr \<Rightarrow> vp9_frame_context \<Rightarrow> vp9_frame_context" where
  "update_skip_probs deltas probs =
    probs\<lparr> skip := arr_for 3 (\<lambda>i. upd (skip deltas ! i)) (skip probs) \<rparr>"

definition update_inter_mode_probs ::
    "vp9_compressed_hdr \<Rightarrow> vp9_frame_context \<Rightarrow> vp9_frame_context" where
  "update_inter_mode_probs deltas probs =
    probs\<lparr> inter_mode := arr_for 7 (\<lambda>i p. let d = inter_mode deltas ! i in
      arr_upd 2 (upd (d ! 2)) (arr_upd 1 (upd (d ! 1)) (arr_upd 0 (upd (d ! 0)) p)))
      (inter_mode probs) \<rparr>"

definition update_interp_filter_probs ::
    "vp9_compressed_hdr \<Rightarrow> vp9_frame_context \<Rightarrow> vp9_frame_context" where
  "update_interp_filter_probs deltas probs =
    probs\<lparr> interp_filter := arr_for 4 (\<lambda>i p. let d = interp_filter deltas ! i in
      arr_upd 1 (upd (d ! 1)) (arr_upd 0 (upd (d ! 0)) p)) (interp_filter probs) \<rparr>"

definition update_is_inter_probs ::
    "vp9_compressed_hdr \<Rightarrow> vp9_frame_context \<Rightarrow> vp9_frame_context" where
  "update_is_inter_probs deltas probs =
    probs\<lparr> is_inter := arr_for 4 (\<lambda>i. upd (is_inter deltas ! i)) (is_inter probs) \<rparr>"

definition update_frame_reference_mode_probs ::
    "u8 \<Rightarrow> vp9_compressed_hdr \<Rightarrow> vp9_frame_context \<Rightarrow> vp9_frame_context" where
  "update_frame_reference_mode_probs ref_mode deltas probs =
    (let probs = (if ref_mode = V4L2_VP9_REFERENCE_MODE_SELECT
           then probs\<lparr> comp_mode :=
             arr_for 5 (\<lambda>i. upd (comp_mode deltas ! i)) (comp_mode probs) \<rparr>
           else probs);
         probs = (if ref_mode \<noteq> V4L2_VP9_REFERENCE_MODE_COMPOUND_REFERENCE
           then probs\<lparr> single_ref := arr_for 5 (\<lambda>i p. let d = single_ref deltas ! i in
             arr_upd 1 (upd (d ! 1)) (arr_upd 0 (upd (d ! 0)) p)) (single_ref probs) \<rparr>
           else probs)
     in if ref_mode \<noteq> V4L2_VP9_REFERENCE_MODE_SINGLE_REFERENCE
        then probs\<lparr> comp_ref :=
          arr_for 5 (\<lambda>i. upd (comp_ref deltas ! i)) (comp_ref probs) \<rparr>
        else probs)"

definition update_y_mode_probs ::
    "vp9_compressed_hdr \<Rightarrow> vp9_frame_context \<Rightarrow> vp9_frame_context" where
  "update_y_mode_probs deltas probs =
    probs\<lparr> y_mode := arr_for 4 (\<lambda>i. arr_for 9 (\<lambda>j. upd (y_mode deltas ! i ! j)))
      (y_mode probs) \<rparr>"

definition update_partition_probs ::
    "vp9_compressed_hdr \<Rightarrow> vp9_frame_context \<Rightarrow> vp9_frame_context" where
  "update_partition_probs deltas = for_upto 4 (\<lambda>i. for_upto 4 (\<lambda>j probs.
    let d = partition_probs deltas ! (i * 4 + j) in
    probs\<lparr> partition_probs := arr_upd (i * 4 + j) (\<lambda>p.
      arr_upd 2 (upd (d ! 2)) (arr_upd 1 (upd (d ! 1)) (arr_upd 0 (upd (d ! 0)) p)))
      (partition_probs probs) \<rparr>))"

definition update_mv_probs ::
    "'a vp9_frame_scheme \<Rightarrow> vp9_compressed_hdr \<Rightarrow> vp9_frame_context \<Rightarrow> vp9_frame_context" where
  "update_mv_probs frame deltas probs =
    (let d = mv_joint deltas;
         probs = probs\<lparr> mv_joint := arr_upd 2 (upd_mv (d ! 2))
           (arr_upd 1 (upd_mv (d ! 1)) (arr_upd 0 (upd_mv (d ! 0)) (mv_joint probs))) \<rparr>
     in for_upto 2 (\<lambda>i probs.
       let probs = probs\<lparr>
             mv_sign := arr_upd i (upd_mv (mv_sign deltas ! i)) (mv_sign probs),
             mv_classes := arr_upd i (arr_for 10 (\<lambda>j. upd_mv (mv_classes deltas ! i ! j)))
               (mv_classes probs),
             mv_class0_bit := arr_upd i (upd_mv (mv_class0_bit deltas ! i))
               (mv_class0_bit probs),
             mv_bits := arr_upd i (arr_for 10 (\<lambda>j. upd_mv (mv_bits deltas ! i ! j)))
               (mv_bits probs),
             mv_class0_fr := arr_upd i (arr_for 2 (\<lambda>j p.
               let d = mv_class0_fr deltas ! i ! j in
               arr_upd 2 (upd_mv (d ! 2)) (arr_upd 1 (upd_mv (d ! 1))
                 (arr_upd 0 (upd_mv (d ! 0)) p)))) (mv_class0_fr probs),
             mv_fr := arr_upd i (arr_for 3 (\<lambda>j. upd_mv (mv_fr deltas ! i ! j)))
               (mv_fr probs) \<rparr>
       in if flag_set (vf_flags frame) V4L2_VP9_FRAME_FLAG_ALLOW_HIGH_PREC_MV
          then probs\<lparr>
             mv_class0_hp := arr_upd i (upd_mv (mv_class0_hp deltas ! i))
               (mv_class0_hp probs),
             mv_hp := arr_upd i (upd_mv (mv_hp deltas ! i)) (mv_hp probs) \<rparr>
          else probs) probs)"

section \<open>The update of the context\<close>

definition fw_update_probs ::
    "'a vp9_frame_scheme \<Rightarrow> vp9_compressed_hdr \<Rightarrow> vp9_frame_context \<Rightarrow> vp9_frame_context" where
  "fw_update_probs frame deltas probs =
    (let probs = (if tx_mode deltas = V4L2_VP9_TX_MODE_SELECT
                  then update_tx_probs deltas probs else probs);
         probs = update_coef_probs deltas probs;
         probs = update_skip_probs deltas probs
     in if flag_set (vf_flags frame) V4L2_VP9_FRAME_FLAG_KEY_FRAME \<or>
           flag_set (vf_flags frame) V4L2_VP9_FRAME_FLAG_INTRA_ONLY
        then probs
        else
          let probs = update_inter_mode_probs deltas probs;
              probs = (if vf_interpolation_filter frame = V4L2_VP9_INTERP_FILTER_SWITCHABLE
                       then update_interp_filter_probs deltas probs else probs);
              probs = update_is_inter_probs deltas probs;
              probs = update_frame_reference_mode_probs (vf_reference_mode frame) deltas probs;
              probs = update_y_mode_probs deltas probs;
              probs = update_partition_probs deltas probs
          in update_mv_probs frame deltas probs)"

text \<open>\<open>cedrus_vp9_reset_frame_ctx\<close> returns the context index to use and the saved
  contexts.\<close>

definition reset_frame_ctx ::
    "'a vp9_frame_scheme \<Rightarrow> vp9_frame_context list \<Rightarrow> u8 \<times> vp9_frame_context list" where
  "reset_frame_ctx frame frame_context =
    (let fctx_idx = vf_frame_context_idx frame; flags = vf_flags frame in
     if flag_set flags V4L2_VP9_FRAME_FLAG_KEY_FRAME \<or>
        flag_set flags V4L2_VP9_FRAME_FLAG_INTRA_ONLY \<or>
        flag_set flags V4L2_VP9_FRAME_FLAG_ERROR_RESILIENT
     then
       (0,
        if flag_set flags V4L2_VP9_FRAME_FLAG_KEY_FRAME \<or>
           flag_set flags V4L2_VP9_FRAME_FLAG_ERROR_RESILIENT \<or>
           vf_reset_frame_context frame = V4L2_VP9_RESET_FRAME_CTX_ALL
        then arr_for 4 (\<lambda>i _. default_probs) frame_context
        else if vf_reset_frame_context frame = V4L2_VP9_RESET_FRAME_CTX_SPEC
        then frame_context[unat fctx_idx := default_probs]
        else frame_context)
     else (fctx_idx, frame_context))"

section \<open>The delta update is a bijection\<close>

lemma inv_recenter_nonneg_alt:
  "0 \<le> v \<Longrightarrow> inv_recenter_nonneg v m =
    (if v > 2 * m then v else if odd v then m - (v + 1) div 2 else m + v div 2)"
  by (simp add: inv_recenter_nonneg_def and_one_eq drop_bit_eq_div odd_iff_mod_2_eq_one)

text \<open>The encoder's side of the recentring.\<close>

definition recenter_nonneg :: "int \<Rightarrow> int \<Rightarrow> int" where
  "recenter_nonneg v m =
    (if v > 2 * m then v else if v \<ge> m then 2 * (v - m) else 2 * (m - v) - 1)"

definition remap_prob :: "int \<Rightarrow> int \<Rightarrow> int" where
  "remap_prob target prob =
    (if prob \<le> 128 then recenter_nonneg (target - 1) (prob - 1)
     else recenter_nonneg (255 - target) (255 - prob))"

lemma inv_recenter_recenter:
  "0 \<le> v \<Longrightarrow> 0 \<le> m \<Longrightarrow> inv_recenter_nonneg (recenter_nonneg v m) m = v"
  by (auto simp: inv_recenter_nonneg_alt recenter_nonneg_def)

lemma recenter_inv_recenter:
  assumes "0 \<le> v" "0 \<le> m"
  shows "recenter_nonneg (inv_recenter_nonneg v m) m = v"
proof -
  have "odd v \<or> even v" by simp
  then obtain k where "v = 2 * k \<or> v = 2 * k + 1" by (meson evenE oddE)
  then show ?thesis using assms
    by (auto simp: inv_recenter_nonneg_alt recenter_nonneg_def)
qed

lemma inv_recenter_range:
  assumes "0 \<le> v" "0 \<le> m"
  shows "0 \<le> inv_recenter_nonneg v m \<and> inv_recenter_nonneg v m \<le> max v (2 * m)"
  using assms by (auto simp: inv_recenter_nonneg_alt elim!: oddE)

lemma update_prob_range:
  "1 \<le> p \<Longrightarrow> p \<le> 255 \<Longrightarrow> 0 \<le> d \<Longrightarrow> d \<le> 254 \<Longrightarrow>
   1 \<le> update_prob d p \<and> update_prob d p \<le> 255"
  using inv_recenter_range[of d "p - 1"] inv_recenter_range[of d "255 - p"]
  by (auto simp: update_prob_def)

lemma update_prob_remap:
  "1 \<le> p \<Longrightarrow> p \<le> 255 \<Longrightarrow> 1 \<le> t \<Longrightarrow> t \<le> 255 \<Longrightarrow>
   0 \<le> remap_prob t p \<and> remap_prob t p \<le> 254 \<and> update_prob (remap_prob t p) p = t"
  using inv_recenter_recenter[of "t - 1" "p - 1"] inv_recenter_recenter[of "255 - t" "255 - p"]
  by (auto simp: update_prob_def remap_prob_def recenter_nonneg_def split: if_splits)

lemma update_prob_alt:
  "1 \<le> p \<Longrightarrow> p \<le> 255 \<Longrightarrow> update_prob d p =
    (if p \<le> 128 then 1 + inv_recenter_nonneg d (p - 1)
     else 255 - inv_recenter_nonneg d (255 - p))"
  by (simp add: update_prob_def inv_recenter_nonneg_alt)

lemma remap_update_prob:
  assumes p: "1 \<le> p" "p \<le> 255" and d: "0 \<le> d"
  shows "remap_prob (update_prob d p) p = d"
  using recenter_inv_recenter[OF d, of "p - 1"] recenter_inv_recenter[OF d, of "255 - p"] p
  by (simp add: update_prob_alt remap_prob_def)

lemma uint_u8_le: "uint (x :: u8) \<le> 255"
  using uint_lt2p[of x] by simp

lemma u8_nonzero_iff: "x \<noteq> (0 :: u8) \<longleftrightarrow> 1 \<le> uint x"
proof -
  have "x = 0 \<longleftrightarrow> uint x = 0" by (rule uint_0_iff[symmetric])
  then show ?thesis using uint_ge_0[of x] by linarith
qed

lemma u8_not_255_iff: "x \<noteq> (255 :: u8) \<longleftrightarrow> uint x \<le> 254"
proof -
  have "x = 255 \<longleftrightarrow> uint x = 255" by (simp add: word_uint_eq_iff)
  then show ?thesis using uint_u8_le[of x] by auto
qed

lemma uint_upd:
  "p \<noteq> 0 \<Longrightarrow> d \<noteq> 255 \<Longrightarrow> uint (upd d p) = update_prob (uint d) (uint p)"
  using update_prob_range[of "uint p" "uint d"] uint_u8_le[of p]
  by (simp add: upd_def u8_nonzero_iff u8_not_255_iff uint_word_of_int take_bit_eq_mod)

lemma upd_nonzero: "p \<noteq> 0 \<Longrightarrow> d \<noteq> 255 \<Longrightarrow> upd d p \<noteq> 0"
  using update_prob_range[of "uint p" "uint d"] uint_upd[of p d] uint_u8_le[of p]
  by (simp add: u8_nonzero_iff u8_not_255_iff)

lemma upd_zero [simp]: "upd 0 p = p"
  by (simp add: upd_def update_prob_def)

lemma upd_mv_alt: "upd_mv d p = (if d = 0 then p else d)"
  by (auto simp: upd_mv_def update_mv_prob_def uint_0_iff)

lemma upd_mv_nonzero: "p \<noteq> 0 \<Longrightarrow> upd_mv d p \<noteq> 0"
  by (simp add: upd_mv_alt)

lemma upd_bij:
  assumes "p \<noteq> 0"
  shows "bij_betw (\<lambda>d. upd d p) {d. d \<noteq> 255} {t. t \<noteq> 0}"
proof (rule bij_betw_byWitness[where f' = "\<lambda>t. word_of_int (remap_prob (uint t) (uint p))"])
  have p: "1 \<le> uint p" "uint p \<le> 255" using assms uint_u8_le by (auto simp: u8_nonzero_iff)
  show "\<forall>d\<in>{d. d \<noteq> 255}. word_of_int (remap_prob (uint (upd d p)) (uint p)) = d"
    using assms p by (auto simp: uint_upd remap_update_prob u8_not_255_iff)
  have r: "uint (word_of_int (remap_prob (uint t) (uint p)) :: u8) = remap_prob (uint t) (uint p)
      \<and> remap_prob (uint t) (uint p) \<le> 254" if "t \<noteq> 0" for t :: u8
    using that p update_prob_remap[of "uint p" "uint t"] uint_u8_le[of t]
    by (simp add: u8_nonzero_iff uint_word_of_int take_bit_eq_mod)
  show "\<forall>t\<in>{t. t \<noteq> 0}. upd (word_of_int (remap_prob (uint t) (uint p))) p = t"
    using p r update_prob_remap[of "uint p"] uint_u8_le
    by (auto simp: upd_def u8_nonzero_iff)
  show "(\<lambda>d. upd d p) ` {d. d \<noteq> 255} \<subseteq> {t. t \<noteq> 0}"
    using assms upd_nonzero by auto
  show "(\<lambda>t. word_of_int (remap_prob (uint t) (uint p))) ` {t :: u8. t \<noteq> 0} \<subseteq> {d :: u8. d \<noteq> 255}"
  proof (rule image_subsetI)
    fix t :: u8
    assume "t \<in> {t. t \<noteq> 0}"
    then show "word_of_int (remap_prob (uint t) (uint p)) \<in> {d :: u8. d \<noteq> 255}"
      using r[of t] by (simp add: u8_not_255_iff)
  qed
qed

lemma upd_255: "p \<noteq> 0 \<Longrightarrow> upd 255 p = 0"
  using uint_u8_le[of p]
  by (auto simp: upd_def update_prob_def inv_recenter_nonneg_alt u8_nonzero_iff)

section \<open>Dimensions and entries of the tables\<close>

abbreviation row :: "nat \<Rightarrow> ('a \<Rightarrow> bool) \<Rightarrow> 'a list \<Rightarrow> bool" where
  "row n Q \<equiv> arr n (\<lambda>_. Q)"

definition coef_all :: "(u8 \<Rightarrow> bool) \<Rightarrow> u8 list list list list list list \<Rightarrow> bool" where
  "coef_all Q = row 4 (row 2 (row 2 (arr 6 (\<lambda>l. arr 6 (\<lambda>m. row 3 (\<lambda>p. m < BAND_6 l \<longrightarrow> Q p))))))"

definition modes_all :: "(u8 \<Rightarrow> bool) \<Rightarrow> 'a vp9_frame_context_scheme \<Rightarrow> bool" where
  "modes_all Q c =
    (row 2 (row 1 Q) (tx8 c) \<and> row 2 (row 2 Q) (tx16 c) \<and> row 2 (row 3 Q) (tx32 c) \<and>
     coef_all Q (coef c) \<and> row 3 Q (skip c) \<and> row 7 (row 3 Q) (inter_mode c) \<and>
     row 4 (row 2 Q) (interp_filter c) \<and> row 4 Q (is_inter c) \<and> row 5 Q (comp_mode c) \<and>
     row 5 (row 2 Q) (single_ref c) \<and> row 5 Q (comp_ref c) \<and> row 4 (row 9 Q) (y_mode c) \<and>
     row 10 (row 9 Q) (uv_mode c) \<and> row 16 (row 3 Q) (partition_probs c))"

definition mv_all :: "(u8 \<Rightarrow> bool) \<Rightarrow> 'a vp9_frame_context_scheme \<Rightarrow> bool" where
  "mv_all R c =
    (row 3 R (mv_joint c) \<and> row 2 R (mv_sign c) \<and> row 2 (row 10 R) (mv_classes c) \<and>
     row 2 R (mv_class0_bit c) \<and> row 2 (row 10 R) (mv_bits c) \<and>
     row 2 (row 2 (row 3 R)) (mv_class0_fr c) \<and> row 2 (row 3 R) (mv_fr c) \<and>
     row 2 R (mv_class0_hp c) \<and> row 2 R (mv_hp c))"

definition ctx_all :: "(u8 \<Rightarrow> bool) \<Rightarrow> (u8 \<Rightarrow> bool) \<Rightarrow> 'a vp9_frame_context_scheme \<Rightarrow> bool" where
  "ctx_all Q R c = (modes_all Q c \<and> mv_all R c)"

text \<open>A context is valid when every probability the decoder reads is nonzero; the delta
  255 is the one that would produce a zero.\<close>

definition valid_probs :: "'a vp9_frame_context_scheme \<Rightarrow> bool" where
  "valid_probs = ctx_all (\<lambda>p. p \<noteq> 0) (\<lambda>p. p \<noteq> 0)"

definition valid_deltas :: "'a vp9_frame_context_scheme \<Rightarrow> bool" where
  "valid_deltas = ctx_all (\<lambda>d. d \<noteq> 255) (\<lambda>_. True)"

lemmas ctx_defs = ctx_all_def modes_all_def mv_all_def valid_probs_def valid_deltas_def

section \<open>Element updates lift to tables\<close>

locale cell_update =
  fixes u :: "u8 \<Rightarrow> u8 \<Rightarrow> u8" and Q D :: "u8 \<Rightarrow> bool"
  assumes cell: "Q p \<Longrightarrow> D d \<Longrightarrow> Q (u d p)"
begin

lemma row_for: "row n Q p \<Longrightarrow> row n D d \<Longrightarrow> row n Q (arr_for k (\<lambda>i. u (d ! i)) p)"
  by (auto simp: arr_iff arr_simps cell)

lemma row_upd: "row n Q p \<Longrightarrow> row n D d \<Longrightarrow> row n Q (arr_upd i (u (d ! i)) p)"
  by (auto simp: arr_iff arr_simps cell)

lemma row_upd2:
  "row n Q p \<Longrightarrow> row n D d \<Longrightarrow> row n Q (arr_upd 1 (u (d ! 1)) (arr_upd 0 (u (d ! 0)) p))"
  by (intro row_upd)

lemma row_upd3:
  "row n Q p \<Longrightarrow> row n D d \<Longrightarrow>
   row n Q (arr_upd 2 (u (d ! 2)) (arr_upd 1 (u (d ! 1)) (arr_upd 0 (u (d ! 0)) p)))"
  by (intro row_upd)

lemma tab_for:
  assumes "row n P t" and "row n E e"
    and "\<And>x d. P x \<Longrightarrow> E d \<Longrightarrow> P (f d x)"
  shows "row n P (arr_for k (\<lambda>i. f (e ! i)) t)"
  using assms by (auto simp: arr_iff arr_simps)

lemma tab_upd:
  assumes "row n P t" and "row n E e"
    and "\<And>x d. P x \<Longrightarrow> E d \<Longrightarrow> P (f d x)"
  shows "row n P (arr_upd i (f (e ! i)) t)"
  using assms by (auto simp: arr_iff arr_simps)

lemmas tab_intros = tab_for tab_upd row_for row_upd2 row_upd3 row_upd

end

interpretation up: cell_update upd "\<lambda>p. p \<noteq> 0" "\<lambda>d. d \<noteq> 255"
  by unfold_locales (rule upd_nonzero)

interpretation upmv: cell_update upd_mv "\<lambda>p. p \<noteq> 0" "\<lambda>_. True"
  by unfold_locales (rule upd_mv_nonzero)

lemma update_coeff_all:
  assumes "arr 6 (\<lambda>l. arr 6 (\<lambda>m. row 3 (\<lambda>p. m < BAND_6 l \<longrightarrow> p \<noteq> 0))) c"
    and "arr 6 (\<lambda>l. arr 6 (\<lambda>m. row 3 (\<lambda>d. m < BAND_6 l \<longrightarrow> d \<noteq> 255))) d"
  shows "arr 6 (\<lambda>l. arr 6 (\<lambda>m. row 3 (\<lambda>p. m < BAND_6 l \<longrightarrow> p \<noteq> 0))) (update_coeff d c)"
  using assms unfolding update_coeff_def
  by (auto simp: arr_iff arr_simps upd_nonzero)

lemma update_coef_loop_others:
  "modes_all Q (update_coef_loop n i d c) = (modes_all Q (c\<lparr>coef := coef (update_coef_loop n i d c)\<rparr>))
   \<and> mv_all R (update_coef_loop n i d c) = mv_all R c"
  by (induction n arbitrary: i c) (simp_all add: modes_all_def mv_all_def Let_def)

lemma coef_allD:
  "coef_all Q c \<Longrightarrow> i < 4 \<Longrightarrow> j < 2 \<Longrightarrow> k < 2 \<Longrightarrow>
   arr 6 (\<lambda>l. arr 6 (\<lambda>m. row 3 (\<lambda>p. m < BAND_6 l \<longrightarrow> Q p))) (c ! i ! j ! k)"
  by (simp add: coef_all_def arr_iff)

lemma update_coef_loop_all:
  "coef_all (\<lambda>p. p \<noteq> 0) (coef c) \<Longrightarrow> coef_all (\<lambda>d. d \<noteq> 255) (coef d) \<Longrightarrow>
   coef_all (\<lambda>p. p \<noteq> 0) (coef (update_coef_loop n i d c))"
proof (induction n arbitrary: i c)
  case 0
  then show ?case by simp
next
  case (Suc n)
  have "coef_all (\<lambda>p. p \<noteq> 0) (arr_upd i (arr_for 2 (\<lambda>j. arr_for 2 (\<lambda>k.
          update_coeff (coef d ! i ! j ! k)))) (coef c))"
    using Suc.prems(1) coef_allD[OF Suc.prems(2)] unfolding coef_all_def
    by (intro arr_upd_arr arr_for_arr update_coeff_all) auto
  then show ?case using Suc by (simp add: Let_def)
qed

lemma update_tx_probs_all:
  assumes "valid_probs c" "valid_deltas d"
  shows "valid_probs (update_tx_probs d c)"
  unfolding update_tx_probs_def
proof (rule for_upto_inv[where I = valid_probs])
  show "valid_probs c" by fact
next
  fix i and t :: vp9_frame_context
  assume "valid_probs t"
  then show "valid_probs (let d8x8 = tx8 d ! i; d16x16 = tx16 d ! i; d32x32 = tx32 d ! i in
    t\<lparr> tx8 := arr_upd i (arr_upd 0 (upd (d8x8 ! 0))) (tx8 t),
      tx16 := arr_upd i (\<lambda>p16x16. arr_upd 1 (upd (d16x16 ! 1))
        (arr_upd 0 (upd (d16x16 ! 0)) p16x16)) (tx16 t),
      tx32 := arr_upd i (\<lambda>p32x32. arr_upd 2 (upd (d32x32 ! 2))
        (arr_upd 1 (upd (d32x32 ! 1)) (arr_upd 0 (upd (d32x32 ! 0)) p32x32)))
        (tx32 t) \<rparr>)"
    using assms(2) unfolding ctx_defs Let_def
    by simp (intro conjI; (elim conjE)?; (rule up.tab_upd, assumption, assumption, intro up.tab_intros; assumption)?)
qed

lemma update_coef_probs_all:
  assumes "valid_probs c" "valid_deltas d"
  shows "valid_probs (update_coef_probs d c)"
  using assms update_coef_loop_all[of c d 4 0]
    update_coef_loop_others[of "\<lambda>p. p \<noteq> 0" 4 0 d c "\<lambda>p. p \<noteq> 0"]
  unfolding update_coef_probs_def ctx_defs by simp

lemma valid_field_updates:
  assumes "valid_probs (c :: 'a vp9_frame_context_scheme)"
  shows "row 3 (\<lambda>p. p \<noteq> 0) a \<Longrightarrow> valid_probs (c\<lparr>skip := a\<rparr>)"
    and "row 7 (row 3 (\<lambda>p. p \<noteq> 0)) b \<Longrightarrow> valid_probs (c\<lparr>inter_mode := b\<rparr>)"
    and "row 4 (row 2 (\<lambda>p. p \<noteq> 0)) b \<Longrightarrow> valid_probs (c\<lparr>interp_filter := b\<rparr>)"
    and "row 4 (\<lambda>p. p \<noteq> 0) a \<Longrightarrow> valid_probs (c\<lparr>is_inter := a\<rparr>)"
    and "row 5 (\<lambda>p. p \<noteq> 0) a \<Longrightarrow> valid_probs (c\<lparr>comp_mode := a\<rparr>)"
    and "row 5 (row 2 (\<lambda>p. p \<noteq> 0)) b \<Longrightarrow> valid_probs (c\<lparr>single_ref := b\<rparr>)"
    and "row 5 (\<lambda>p. p \<noteq> 0) a \<Longrightarrow> valid_probs (c\<lparr>comp_ref := a\<rparr>)"
    and "row 4 (row 9 (\<lambda>p. p \<noteq> 0)) b \<Longrightarrow> valid_probs (c\<lparr>y_mode := b\<rparr>)"
    and "row 10 (row 9 (\<lambda>p. p \<noteq> 0)) b \<Longrightarrow> valid_probs (c\<lparr>uv_mode := b\<rparr>)"
    and "row 16 (row 3 (\<lambda>p. p \<noteq> 0)) b \<Longrightarrow> valid_probs (c\<lparr>partition_probs := b\<rparr>)"
    and "coef_all (\<lambda>p. p \<noteq> 0) e \<Longrightarrow> valid_probs (c\<lparr>coef := e\<rparr>)"
  using assms by (simp_all add: ctx_defs)

lemma valid_fields:
  assumes "valid_probs (c :: 'a vp9_frame_context_scheme)"
  shows "row 3 (\<lambda>p. p \<noteq> 0) (skip c)" "row 7 (row 3 (\<lambda>p. p \<noteq> 0)) (inter_mode c)"
    "row 4 (row 2 (\<lambda>p. p \<noteq> 0)) (interp_filter c)" "row 4 (\<lambda>p. p \<noteq> 0) (is_inter c)"
    "row 5 (\<lambda>p. p \<noteq> 0) (comp_mode c)" "row 5 (row 2 (\<lambda>p. p \<noteq> 0)) (single_ref c)"
    "row 5 (\<lambda>p. p \<noteq> 0) (comp_ref c)" "row 4 (row 9 (\<lambda>p. p \<noteq> 0)) (y_mode c)"
    "row 10 (row 9 (\<lambda>p. p \<noteq> 0)) (uv_mode c)" "row 16 (row 3 (\<lambda>p. p \<noteq> 0)) (partition_probs c)"
    "coef_all (\<lambda>p. p \<noteq> 0) (coef c)"
  using assms by (simp_all add: ctx_defs)

lemma delta_fields:
  assumes "valid_deltas (d :: 'a vp9_frame_context_scheme)"
  shows "row 3 (\<lambda>p. p \<noteq> 255) (skip d)" "row 7 (row 3 (\<lambda>p. p \<noteq> 255)) (inter_mode d)"
    "row 4 (row 2 (\<lambda>p. p \<noteq> 255)) (interp_filter d)" "row 4 (\<lambda>p. p \<noteq> 255) (is_inter d)"
    "row 5 (\<lambda>p. p \<noteq> 255) (comp_mode d)" "row 5 (row 2 (\<lambda>p. p \<noteq> 255)) (single_ref d)"
    "row 5 (\<lambda>p. p \<noteq> 255) (comp_ref d)" "row 4 (row 9 (\<lambda>p. p \<noteq> 255)) (y_mode d)"
    "row 10 (row 9 (\<lambda>p. p \<noteq> 255)) (uv_mode d)" "row 16 (row 3 (\<lambda>p. p \<noteq> 255)) (partition_probs d)"
    "coef_all (\<lambda>p. p \<noteq> 255) (coef d)"
  using assms by (simp_all add: ctx_defs)

lemma update_skip_probs_all:
  assumes c: "valid_probs c" and d: "valid_deltas d"
  shows "valid_probs (update_skip_probs d c)"
  unfolding update_skip_probs_def Let_def
  by (intro valid_field_updates c up.row_for
      valid_fields[OF c] delta_fields[OF d])

lemma update_is_inter_probs_all:
  assumes c: "valid_probs c" and d: "valid_deltas d"
  shows "valid_probs (update_is_inter_probs d c)"
  unfolding update_is_inter_probs_def Let_def
  by (intro valid_field_updates c up.row_for
      valid_fields[OF c] delta_fields[OF d])

lemma update_inter_mode_probs_all:
  assumes c: "valid_probs c" and d: "valid_deltas d"
  shows "valid_probs (update_inter_mode_probs d c)"
  unfolding update_inter_mode_probs_def Let_def
  by (intro valid_field_updates c up.tab_for[where e = "inter_mode d" and E = "row 3 (\<lambda>d. d \<noteq> 255)"] up.row_upd3
      valid_fields[OF c] delta_fields[OF d])

lemma update_interp_filter_probs_all:
  assumes c: "valid_probs c" and d: "valid_deltas d"
  shows "valid_probs (update_interp_filter_probs d c)"
  unfolding update_interp_filter_probs_def Let_def
  by (intro valid_field_updates c up.tab_for[where e = "interp_filter d" and E = "row 2 (\<lambda>d. d \<noteq> 255)"] up.row_upd2
      valid_fields[OF c] delta_fields[OF d])

lemma update_y_mode_probs_all:
  assumes c: "valid_probs c" and d: "valid_deltas d"
  shows "valid_probs (update_y_mode_probs d c)"
  unfolding update_y_mode_probs_def Let_def
  by (intro valid_field_updates c up.tab_for[where e = "y_mode d" and E = "row 9 (\<lambda>d. d \<noteq> 255)"] up.row_for
      valid_fields[OF c] delta_fields[OF d])

lemma update_frame_reference_mode_probs_all:
  assumes c: "valid_probs c" and d: "valid_deltas d"
  shows "valid_probs (update_frame_reference_mode_probs r d c)"
proof -
  have cm: "valid_probs (t\<lparr>comp_mode := arr_for 5 (\<lambda>i. upd (comp_mode d ! i)) (comp_mode t)\<rparr>)"
    if t: "valid_probs t" for t :: vp9_frame_context
    by (intro valid_field_updates t up.row_for valid_fields[OF t] delta_fields[OF d])
  have cr: "valid_probs (t\<lparr>comp_ref := arr_for 5 (\<lambda>i. upd (comp_ref d ! i)) (comp_ref t)\<rparr>)"
    if t: "valid_probs t" for t :: vp9_frame_context
    by (intro valid_field_updates t up.row_for valid_fields[OF t] delta_fields[OF d])
  have sr: "valid_probs (t\<lparr>single_ref := arr_for 5 (\<lambda>i p. arr_upd 1 (upd (single_ref d ! i ! 1))
      (arr_upd 0 (upd (single_ref d ! i ! 0)) p)) (single_ref t)\<rparr>)"
    if t: "valid_probs t" for t :: vp9_frame_context
    by (intro valid_field_updates t up.tab_for[where e = "single_ref d" and E = "row 2 (\<lambda>d. d \<noteq> 255)"] up.row_upd2
        valid_fields[OF t] delta_fields[OF d])
  show ?thesis
    unfolding update_frame_reference_mode_probs_def Let_def
    by (intro if_split[where P = valid_probs, THEN iffD2] conjI impI cm cr sr c)
qed

lemma update_partition_probs_all:
  assumes "valid_probs c" "valid_deltas d"
  shows "valid_probs (update_partition_probs d c)"
  unfolding update_partition_probs_def
proof (intro for_upto_inv[where I = valid_probs])
  show "valid_probs c" by fact
next
  fix i j and t :: vp9_frame_context
  assume t: "valid_probs t"
  show "valid_probs (let d = partition_probs d ! (i * 4 + j) in
    t\<lparr> partition_probs := arr_upd (i * 4 + j) (\<lambda>p.
      arr_upd 2 (upd (d ! 2)) (arr_upd 1 (upd (d ! 1)) (arr_upd 0 (upd (d ! 0)) p)))
      (partition_probs t) \<rparr>)"
    unfolding Let_def
    by (intro valid_field_updates t up.tab_upd[where e = "partition_probs d" and E = "row 3 (\<lambda>d. d \<noteq> 255)"] up.row_upd3
        valid_fields[OF t] delta_fields[OF assms(2)])
qed

lemma valid_mv_updates:
  assumes "valid_probs (c :: 'a vp9_frame_context_scheme)"
  shows "row 3 (\<lambda>p. p \<noteq> 0) a \<Longrightarrow> valid_probs (c\<lparr>mv_joint := a\<rparr>)"
    and "row 2 (\<lambda>p. p \<noteq> 0) a \<Longrightarrow> valid_probs (c\<lparr>mv_sign := a\<rparr>)"
    and "row 2 (row 10 (\<lambda>p. p \<noteq> 0)) b \<Longrightarrow> valid_probs (c\<lparr>mv_classes := b\<rparr>)"
    and "row 2 (\<lambda>p. p \<noteq> 0) a \<Longrightarrow> valid_probs (c\<lparr>mv_class0_bit := a\<rparr>)"
    and "row 2 (row 10 (\<lambda>p. p \<noteq> 0)) b \<Longrightarrow> valid_probs (c\<lparr>mv_bits := b\<rparr>)"
    and "row 2 (row 2 (row 3 (\<lambda>p. p \<noteq> 0))) e \<Longrightarrow> valid_probs (c\<lparr>mv_class0_fr := e\<rparr>)"
    and "row 2 (row 3 (\<lambda>p. p \<noteq> 0)) b \<Longrightarrow> valid_probs (c\<lparr>mv_fr := b\<rparr>)"
    and "row 2 (\<lambda>p. p \<noteq> 0) a \<Longrightarrow> valid_probs (c\<lparr>mv_class0_hp := a\<rparr>)"
    and "row 2 (\<lambda>p. p \<noteq> 0) a \<Longrightarrow> valid_probs (c\<lparr>mv_hp := a\<rparr>)"
  using assms by (simp_all add: ctx_defs)

lemma valid_mv_fields:
  assumes "valid_probs (c :: 'a vp9_frame_context_scheme)"
  shows "row 3 (\<lambda>p. p \<noteq> 0) (mv_joint c)" "row 2 (\<lambda>p. p \<noteq> 0) (mv_sign c)"
    "row 2 (row 10 (\<lambda>p. p \<noteq> 0)) (mv_classes c)" "row 2 (\<lambda>p. p \<noteq> 0) (mv_class0_bit c)"
    "row 2 (row 10 (\<lambda>p. p \<noteq> 0)) (mv_bits c)"
    "row 2 (row 2 (row 3 (\<lambda>p. p \<noteq> 0))) (mv_class0_fr c)"
    "row 2 (row 3 (\<lambda>p. p \<noteq> 0)) (mv_fr c)" "row 2 (\<lambda>p. p \<noteq> 0) (mv_class0_hp c)"
    "row 2 (\<lambda>p. p \<noteq> 0) (mv_hp c)"
  using assms by (simp_all add: ctx_defs)

lemma update_mv_probs_all:
  assumes "valid_probs c"
  shows "valid_probs (update_mv_probs f d c)"
proof -
  have joint: "valid_probs (c\<lparr> mv_joint := arr_upd 2 (upd_mv (mv_joint d ! 2))
      (arr_upd 1 (upd_mv (mv_joint d ! 1)) (arr_upd 0 (upd_mv (mv_joint d ! 0)) (mv_joint c))) \<rparr>)"
    by (intro valid_mv_updates assms arr_upd_arr valid_mv_fields[OF assms] upd_mv_nonzero)
  show ?thesis
    unfolding update_mv_probs_def Let_def
    apply (rule for_upto_inv[where I = valid_probs, OF joint])
    apply (rule if_split[where P = valid_probs, THEN iffD2], intro conjI impI)
    subgoal premises p for i t
      by simp (intro valid_mv_updates p(2) arr_upd_arr arr_for_arr upd_mv_nonzero
          valid_mv_fields[OF p(2)]; assumption)
    subgoal premises p for i t
      by simp (intro valid_mv_updates p(2) arr_upd_arr arr_for_arr upd_mv_nonzero
          valid_mv_fields[OF p(2)]; assumption)
    done
qed

lemma fw_update_probs_all:
  assumes c: "valid_probs c" and d: "valid_deltas d"
  shows "valid_probs (fw_update_probs f d c)"
  unfolding fw_update_probs_def Let_def
  by (intro if_split[where P = valid_probs, THEN iffD2] conjI impI update_mv_probs_all
      update_partition_probs_all update_y_mode_probs_all update_frame_reference_mode_probs_all
      update_is_inter_probs_all update_interp_filter_probs_all update_inter_mode_probs_all
      update_skip_probs_all update_coef_probs_all update_tx_probs_all c d)

lemma default_coef_valid: "coef_all (\<lambda>p. p \<noteq> 0) default_coef"
  unfolding coef_all_def default_coef_def
    default_coef_4x4_0_def default_coef_4x4_1_def default_coef_8x8_0_def default_coef_8x8_1_def
    default_coef_16x16_0_def default_coef_16x16_1_def default_coef_32x32_0_def default_coef_32x32_1_def
  by (simp add: arr_def BAND_6_def)

lemma default_probs_valid: "valid_probs default_probs"
  unfolding ctx_defs default_probs_def
  by (simp add: default_coef_valid)
    (simp add: arr_def default_tx8_def default_tx16_def default_tx32_def default_skip_def
      default_inter_mode_def default_interp_filter_def default_is_inter_def default_comp_mode_def
      default_single_ref_def default_comp_ref_def default_y_mode_def default_uv_mode_def
      default_partition_def default_mv_joint_def default_mv_sign_def default_mv_classes_def
      default_mv_class0_bit_def default_mv_bits_def default_mv_class0_fr_def default_mv_fr_def
      default_mv_class0_hp_def default_mv_hp_def)

section \<open>What the update leaves alone\<close>

text \<open>The tables a frame of intra prediction owns; the remaining tables are the inter
  part of the context.\<close>

definition same_inter :: "vp9_frame_context \<Rightarrow> vp9_frame_context \<Rightarrow> bool" where
  "same_inter c c' =
    (c' = c\<lparr> tx8 := tx8 c', tx16 := tx16 c', tx32 := tx32 c', coef := coef c', skip := skip c' \<rparr>)"

lemma same_inter_iff:
  "same_inter c c' \<longleftrightarrow>
    inter_mode c' = inter_mode c \<and> interp_filter c' = interp_filter c \<and> is_inter c' = is_inter c \<and>
    comp_mode c' = comp_mode c \<and> single_ref c' = single_ref c \<and> comp_ref c' = comp_ref c \<and>
    y_mode c' = y_mode c \<and> uv_mode c' = uv_mode c \<and> partition_probs c' = partition_probs c \<and>
    mv_joint c' = mv_joint c \<and> mv_sign c' = mv_sign c \<and> mv_classes c' = mv_classes c \<and>
    mv_class0_bit c' = mv_class0_bit c \<and> mv_bits c' = mv_bits c \<and>
    mv_class0_fr c' = mv_class0_fr c \<and> mv_fr c' = mv_fr c \<and>
    mv_class0_hp c' = mv_class0_hp c \<and> mv_hp c' = mv_hp c"
  unfolding same_inter_def by (cases c; cases c') auto

lemma same_inter_trans: "same_inter a b \<Longrightarrow> same_inter b c \<Longrightarrow> same_inter a c"
  by (simp add: same_inter_iff)

lemma same_inter_tx: "same_inter c (update_tx_probs d c)"
  unfolding update_tx_probs_def
  by (rule for_upto_inv[where I = "same_inter c"]) (simp_all add: same_inter_iff Let_def)

lemma same_inter_coef_loop: "same_inter c (update_coef_loop n i d c)"
proof (induction n arbitrary: i c)
  case 0
  then show ?case by (simp add: same_inter_iff)
next
  case (Suc n)
  show ?case
    by (simp add: Let_def) (simp add: same_inter_iff same_inter_trans[OF _ Suc, unfolded same_inter_iff])
qed

lemma same_inter_coef: "same_inter c (update_coef_probs d c)"
  unfolding update_coef_probs_def by (rule same_inter_coef_loop)

lemma same_inter_skip: "same_inter c (update_skip_probs d c)"
  by (simp add: same_inter_iff update_skip_probs_def)

lemma fw_update_intra:
  assumes "flag_set (vf_flags f) V4L2_VP9_FRAME_FLAG_KEY_FRAME \<or>
           flag_set (vf_flags f) V4L2_VP9_FRAME_FLAG_INTRA_ONLY"
  shows "same_inter c (fw_update_probs f d c)"
proof -
  let ?c = "if tx_mode d = V4L2_VP9_TX_MODE_SELECT then update_tx_probs d c else c"
  have "fw_update_probs f d c = update_skip_probs d (update_coef_probs d ?c)"
    using assms by (simp add: fw_update_probs_def Let_def)
  moreover have "same_inter c ?c"
    using same_inter_tx by (simp add: same_inter_iff)
  ultimately show ?thesis
    using same_inter_trans same_inter_coef same_inter_skip by metis
qed

section \<open>The coefficient tables after the update\<close>

lemma coef_update_others [simp]:
  "coef (update_skip_probs d c) = coef c"
  "coef (update_inter_mode_probs d c) = coef c"
  "coef (update_interp_filter_probs d c) = coef c"
  "coef (update_is_inter_probs d c) = coef c"
  "coef (update_frame_reference_mode_probs r d c) = coef c"
  "coef (update_y_mode_probs d c) = coef c"
  by (simp_all add: update_skip_probs_def update_inter_mode_probs_def
      update_interp_filter_probs_def update_is_inter_probs_def
      update_frame_reference_mode_probs_def update_y_mode_probs_def Let_def)

lemma coef_update_tx [simp]: "coef (update_tx_probs d c) = coef c"
  unfolding update_tx_probs_def by (rule for_upto_same) (simp add: Let_def)

lemma coef_update_partition [simp]: "coef (update_partition_probs d c) = coef c"
  unfolding update_partition_probs_def by (intro for_upto_same) (simp add: Let_def)

lemma coef_update_mv [simp]: "coef (update_mv_probs f d c) = coef c"
  unfolding update_mv_probs_def Let_def
  by (rule trans, rule for_upto_same[where g = coef]) simp_all

lemma coef_fw_update: "coef (fw_update_probs f d c) = coef (update_coef_probs d c)"
proof -
  have "coef (update_coef_loop n i d c) = coef (update_coef_loop n i d c')"
    if "coef c = coef c'" for n i and c c' :: vp9_frame_context
    using that by (induction n arbitrary: i c c') (simp_all add: Let_def)
  then have "coef (update_coef_probs d (update_tx_probs d c)) = coef (update_coef_probs d c)"
    unfolding update_coef_probs_def by (rule allI[THEN spec]) simp
  then show ?thesis by (simp add: fw_update_probs_def Let_def)
qed

lemma coef_update_loop_nth:
  "length (coef c) = 4 \<Longrightarrow> s < 4 \<Longrightarrow> i \<le> unat (tx_mode d) \<Longrightarrow> n + i = 4 \<Longrightarrow>
   coef (update_coef_loop n i d c) ! s =
    (if i \<le> s \<and> s \<le> unat (tx_mode d)
     then arr_for 2 (\<lambda>j. arr_for 2 (\<lambda>k. update_coeff (coef d ! s ! j ! k))) (coef c ! s)
     else coef c ! s)"
proof (induction n arbitrary: i c)
  case 0
  then show ?case by simp
next
  case (Suc n)
  then show ?case by (auto simp: Let_def arr_simps)
qed

lemma update_coeff_nth:
  assumes "arr 6 (\<lambda>l. row 6 (row 3 (\<lambda>_. True))) p" "l < 6" "m < 6" "n < 3"
  shows "update_coeff d p ! l ! m ! n =
    (if m < BAND_6 l then upd (d ! l ! m ! n) (p ! l ! m ! n) else p ! l ! m ! n)"
  using assms by (simp add: update_coeff_def arr_iff arr_simps)

lemma fw_update_coef_nth:
  assumes "coef_all (\<lambda>_. True) (coef c)"
    and "s < 4" "j < 2" "k < 2" "l < 6" "m < 6" "n < 3"
  shows "coef (fw_update_probs f d c) ! s ! j ! k ! l ! m ! n =
    (if s \<le> unat (tx_mode d) \<and> m < BAND_6 l
     then upd (coef d ! s ! j ! k ! l ! m ! n) (coef c ! s ! j ! k ! l ! m ! n)
     else coef c ! s ! j ! k ! l ! m ! n)"
proof -
  have len: "length (coef c) = 4" "length (coef c ! s) = 2" "length (coef c ! s ! j) = 2"
    using assms by (simp_all add: coef_all_def arr_iff)
  have "coef (fw_update_probs f d c) ! s =
    (if s \<le> unat (tx_mode d)
     then arr_for 2 (\<lambda>j. arr_for 2 (\<lambda>k. update_coeff (coef d ! s ! j ! k))) (coef c ! s)
     else coef c ! s)"
    using coef_update_loop_nth[of c s 0 d 4] len(1) assms(2)
    by (simp add: coef_fw_update update_coef_probs_def)
  moreover have "arr 6 (\<lambda>l. row 6 (row 3 (\<lambda>_. True))) (coef c ! s ! j ! k)"
    using coef_allD[OF assms(1-4)] by simp
  ultimately show ?thesis
    using assms len by (simp add: arr_simps update_coeff_nth)
qed

section \<open>Properties\<close>

text \<open>C16: for a nonzero probability the forward update is a bijection from the deltas
  other than 255 onto the nonzero probabilities: each target value is reached by exactly one
  delta, and delta 255 is the only one that makes a probability zero.\<close>

theorem upd_bijective:
  assumes "p \<noteq> 0"
  shows "bij_betw (\<lambda>d. upd d p) {d. d \<noteq> 255} {t. t \<noteq> 0} \<and> upd 255 p = 0"
  using upd_bij[OF assms] upd_255[OF assms] by simp

theorem upd_bijective_witness:
  "bij_betw (\<lambda>d. upd d 200) {d. d \<noteq> 255} {t. t \<noteq> 0} \<and> upd 255 200 = 0"
  by (rule upd_bijective) simp

text \<open>\<open>cedrus_vp9_fw_update_probs\<close> takes a valid context (all dimensions right,
  no probability the decoder reads is zero) to a valid context, for every frame type and every
  compressed header without a 255 delta.\<close>

theorem fw_update_probs_valid:
  assumes "valid_probs c" and "valid_deltas d"
  shows "valid_probs (fw_update_probs f d c)"
  using assms by (rule fw_update_probs_all)

text \<open>Sample inputs of the witnesses: an inter frame, and a compressed header with all deltas
  zero.\<close>

definition sample_frame :: "u32 \<Rightarrow> vp9_frame" where
  "sample_frame flags = \<lparr>vf_flags = flags, vf_reset_frame_context = 1, vf_frame_context_idx = 2,
    vf_interpolation_filter = 4, vf_reference_mode = 2\<rparr>"

definition zero_hdr :: "u8 \<Rightarrow> vp9_compressed_hdr" where
  "zero_hdr m = \<lparr>
    tx8 = replicate 2 (replicate 1 0), tx16 = replicate 2 (replicate 2 0), tx32 = replicate 2 (replicate 3 0),
    coef = replicate 4 (replicate 2 (replicate 2 (replicate 6 (replicate 6 (replicate 3 0))))),
    skip = replicate 3 0, inter_mode = replicate 7 (replicate 3 0), interp_filter = replicate 4 (replicate 2 0),
    is_inter = replicate 4 0, comp_mode = replicate 5 0, single_ref = replicate 5 (replicate 2 0),
    comp_ref = replicate 5 0, y_mode = replicate 4 (replicate 9 0),
    uv_mode = replicate 10 (replicate 9 0), partition_probs = replicate 16 (replicate 3 0),
    mv_joint = replicate 3 0, mv_sign = replicate 2 0, mv_classes = replicate 2 (replicate 10 0),
    mv_class0_bit = replicate 2 0, mv_bits = replicate 2 (replicate 10 0),
    mv_class0_fr = replicate 2 (replicate 2 (replicate 3 0)), mv_fr = replicate 2 (replicate 3 0),
    mv_class0_hp = replicate 2 0, mv_hp = replicate 2 0, tx_mode = m \<rparr>"

lemma zero_hdr_valid: "valid_deltas (zero_hdr m)"
  unfolding ctx_defs coef_all_def by (simp add: zero_hdr_def arr_iff)

theorem fw_update_probs_valid_witness:
  "valid_probs (fw_update_probs (sample_frame 0x10)
    (zero_hdr 4 \<lparr>skip := [7, 254, 0], mv_joint := [255, 0, 1]\<rparr>) default_probs)"
proof (rule fw_update_probs_valid[OF default_probs_valid])
  show "valid_deltas (zero_hdr 4 \<lparr>skip := [7, 254, 0], mv_joint := [255, 0, 1]\<rparr>)"
    using zero_hdr_valid[of 4] by (simp add: ctx_defs arr_def)
qed

text \<open>The coefficient probabilities after the forward update.  A probability of
  transform size \<open>s\<close>, band \<open>l\<close>, context \<open>m\<close> is updated by its delta exactly when \<open>s\<close> is not
  larger than \<open>tx_mode\<close> and the context exists in that band; every other one keeps its value.
  This holds for every frame type.\<close>

theorem fw_update_probs_coef:
  assumes "coef_all (\<lambda>_. True) (coef c)"
    and "s < 4" "j < 2" "k < 2" "l < 6" "m < 6" "n < 3"
  shows "coef (fw_update_probs f d c) ! s ! j ! k ! l ! m ! n =
    (if s \<le> unat (tx_mode d) \<and> m < BAND_6 l
     then upd (coef d ! s ! j ! k ! l ! m ! n) (coef c ! s ! j ! k ! l ! m ! n)
     else coef c ! s ! j ! k ! l ! m ! n)"
  using assms by (rule fw_update_coef_nth)

lemma coef_all_mono: "coef_all Q c \<Longrightarrow> (\<And>p. Q p \<Longrightarrow> R p) \<Longrightarrow> coef_all R c"
  unfolding coef_all_def arr_iff by blast

theorem fw_update_probs_coef_witness:
  "coef (fw_update_probs (sample_frame 0x10) (zero_hdr 1) default_probs) ! 1 ! 0 ! 0 ! 0 ! 2 ! 1 =
    coef default_probs ! 1 ! 0 ! 0 ! 0 ! 2 ! 1"
proof -
  have "coef_all (\<lambda>_. True) (coef default_probs)"
    by (rule coef_all_mono[OF default_coef_valid, folded default_probs_def[THEN arg_cong[of _ _ coef],
          simplified vp9_frame_context.select_convs]]) simp
  from fw_update_probs_coef[OF this, of 1 0 0 0 2 1 "sample_frame 0x10" "zero_hdr 1"]
  show ?thesis by (simp add: zero_hdr_def BAND_6_def)
qed

text \<open>On key frames and intra-only frames the forward update leaves the whole inter
  part of the context (modes, references, motion vectors) untouched: it returns after the
  transform, coefficient and skip probabilities.\<close>

theorem fw_update_probs_intra:
  assumes "flag_set (vf_flags f) V4L2_VP9_FRAME_FLAG_KEY_FRAME \<or>
           flag_set (vf_flags f) V4L2_VP9_FRAME_FLAG_INTRA_ONLY"
  shows "same_inter c (fw_update_probs f d c)"
  using assms by (rule fw_update_intra)

theorem fw_update_probs_intra_witness:
  "same_inter default_probs (fw_update_probs (sample_frame 0x8)
    (zero_hdr 4 \<lparr>mv_joint := [9, 9, 9]\<rparr>) default_probs)"
  by (rule fw_update_probs_intra) (simp add: sample_frame_def flag_set_def hdr_simps)

text \<open>\<open>cedrus_vp9_reset_frame_ctx\<close> on the four saved contexts: key frames,
  error-resilient frames and a reset of all contexts store the default probabilities in all
  four, an intra-only frame with a specific reset in the frame's own context only, and any other
  frame keeps them; the index used afterwards is 0 for exactly the frames that are independent
  of the past.\<close>

theorem reset_frame_ctx_contexts:
  assumes "length ctxs = 4"
  shows "fst (reset_frame_ctx f ctxs) =
      (if flag_set (vf_flags f) V4L2_VP9_FRAME_FLAG_KEY_FRAME \<or>
          flag_set (vf_flags f) V4L2_VP9_FRAME_FLAG_INTRA_ONLY \<or>
          flag_set (vf_flags f) V4L2_VP9_FRAME_FLAG_ERROR_RESILIENT
       then 0 else vf_frame_context_idx f) \<and>
    length (snd (reset_frame_ctx f ctxs)) = 4 \<and>
    (\<forall>i<4. snd (reset_frame_ctx f ctxs) ! i =
      (if flag_set (vf_flags f) V4L2_VP9_FRAME_FLAG_KEY_FRAME \<or>
          flag_set (vf_flags f) V4L2_VP9_FRAME_FLAG_ERROR_RESILIENT \<or>
          (flag_set (vf_flags f) V4L2_VP9_FRAME_FLAG_INTRA_ONLY \<and>
           (vf_reset_frame_context f = V4L2_VP9_RESET_FRAME_CTX_ALL \<or>
            vf_reset_frame_context f = V4L2_VP9_RESET_FRAME_CTX_SPEC \<and>
              i = unat (vf_frame_context_idx f)))
       then default_probs else ctxs ! i))"
  using assms by (auto simp: reset_frame_ctx_def Let_def arr_simps nth_list_update)

theorem reset_frame_ctx_contexts_witness:
  "fst (reset_frame_ctx (sample_frame 0x8) (replicate 4 (default_probs\<lparr>skip := []\<rparr>))) = 0 \<and>
   snd (reset_frame_ctx (sample_frame 0x8) (replicate 4 (default_probs\<lparr>skip := []\<rparr>))) ! 2 =
     default_probs"
  using reset_frame_ctx_contexts[of "replicate 4 (default_probs\<lparr>skip := []\<rparr>)" "sample_frame 0x8"]
  by (simp add: sample_frame_def flag_set_def hdr_simps)

end
