(* ===== verification/Vp9_Adapt.thy ===== *)
theory Vp9_Adapt
  imports Vp9_Probs
begin

text \<open>The backward adaptation of \<open>cedrus_vp9_helper.c\<close>: the division by multiplication
  (\<open>fastdiv\<close>), the merge of one probability with its counts (\<open>merge_prob\<close>), the unrolled
  tree merges (variants A to G) and the two entry points
  \<open>cedrus_vp9_adapt_coef_probs\<close> and \<open>cedrus_vp9_adapt_noncoef_probs\<close>.  All arithmetic is
  that of \<open>u32\<close>, wrapped; the lemmas compare it with the arithmetic of the VP9
  specification on natural numbers and the unrolled merges with the recursive tree merge
  they stand for.\<close>

section \<open>Division\<close>

definition DIV_INV :: "nat \<Rightarrow> u32" where
  "DIV_INV d = ucast ((2 ^ 32 + (word_of_nat d - 1)) div word_of_nat d :: u64)"

definition fastdiv_inv :: "u32 list" where
  "fastdiv_inv = map DIV_INV [2..<257]"

definition fastdiv :: "u32 \<Rightarrow> u16 \<Rightarrow> u32" where
  "fastdiv dividend divisor =
    (if divisor = 0 then 0
     else if divisor = 1 then dividend
     else if length fastdiv_inv \<le> unat divisor - 2 then dividend
     else ucast (drop_bit 32 ((ucast dividend :: u64) * ucast (fastdiv_inv ! (unat divisor - 2)))))"

section \<open>The merge of one probability\<close>

definition merge_prob :: "u8 \<Rightarrow> u32 \<Rightarrow> u32 \<Rightarrow> u16 \<Rightarrow> u32 \<Rightarrow> u8" where
  "merge_prob pre_prob ct0 ct1 count_sat max_update_factor =
    (let den = ct0 + ct1 in
     if den = 0 then pre_prob
     else
       let prob = clamp ((push_bit 8 ct0 + drop_bit 1 den) div den) 1 255;
           count = min_t den (ucast count_sat);
           factor = fastdiv (max_update_factor * count) count_sat
       in ucast (ucast pre_prob + drop_bit 8 ((prob - ucast pre_prob) * factor + 128)))"

definition noncoef_merge_prob :: "u8 \<Rightarrow> u32 \<Rightarrow> u32 \<Rightarrow> u8" where
  "noncoef_merge_prob pre_prob ct0 ct1 = merge_prob pre_prob ct0 ct1 20 128"

text \<open>The assignment \<open>p[n] = merge_prob(p[n], a, b, ...)\<close>.\<close>

abbreviation mrg :: "nat \<Rightarrow> u32 \<Rightarrow> u32 \<Rightarrow> u16 \<Rightarrow> u32 \<Rightarrow> u8 list \<Rightarrow> u8 list" where
  "mrg n a b sat uf \<equiv> arr_upd n (\<lambda>p. merge_prob p a b sat uf)"

abbreviation nmrg :: "nat \<Rightarrow> u32 \<Rightarrow> u32 \<Rightarrow> u8 list \<Rightarrow> u8 list" where
  "nmrg n a b \<equiv> arr_upd n (\<lambda>p. noncoef_merge_prob p a b)"

section \<open>The unrolled tree merges\<close>

definition merge_probs_variant_a :: "u32 list \<Rightarrow> u16 \<Rightarrow> u32 \<Rightarrow> u8 list \<Rightarrow> u8 list" where
  "merge_probs_variant_a c count_sat update_factor p =
    (let p = mrg 1 (c ! 0) (c ! 1 + c ! 2) count_sat update_factor p
     in mrg 2 (c ! 1) (c ! 2) count_sat update_factor p)"

definition merge_probs_variant_b :: "u32 list \<Rightarrow> u16 \<Rightarrow> u32 \<Rightarrow> u8 list \<Rightarrow> u8 list" where
  "merge_probs_variant_b c count_sat update_factor p =
    mrg 0 (c ! 0) (c ! 1) count_sat update_factor p"

definition merge_probs_variant_c :: "u32 list \<Rightarrow> u8 list \<Rightarrow> u8 list" where
  "merge_probs_variant_c c p =
    (let p = nmrg 0 (c ! 2) (c ! 1 + c ! 0 + c ! 3) p;
         p = nmrg 1 (c ! 0) (c ! 1 + c ! 3) p
     in nmrg 2 (c ! 1) (c ! 3) p)"

definition merge_probs_variant_d :: "u32 list \<Rightarrow> u8 list \<Rightarrow> u8 list" where
  "merge_probs_variant_d c p =
    (let sum = c ! 1 + c ! 2 + c ! 3 + c ! 4 + c ! 5 + c ! 6 + c ! 7 + c ! 8 + c ! 9;
         p = nmrg 0 (c ! 0) sum p;
         sum = sum - c ! 9;
         p = nmrg 1 (c ! 9) sum p;
         sum = sum - c ! 1;
         p = nmrg 2 (c ! 1) sum p;
         s2 = c ! 2 + c ! 4 + c ! 5;
         sum = sum - s2;
         p = nmrg 3 s2 sum p;
         s2 = s2 - c ! 2;
         p = nmrg 4 (c ! 2) s2 p;
         p = nmrg 5 (c ! 4) (c ! 5) p;
         sum = sum - c ! 3;
         p = nmrg 6 (c ! 3) sum p;
         sum = sum - c ! 8;
         p = nmrg 7 (c ! 8) sum p
     in nmrg 8 (c ! 6) (c ! 7) p)"

definition merge_probs_variant_e :: "u32 list \<Rightarrow> u8 list \<Rightarrow> u8 list" where
  "merge_probs_variant_e c p =
    (let p = nmrg 0 (c ! 0) (c ! 1 + c ! 2 + c ! 3) p;
         p = nmrg 1 (c ! 1) (c ! 2 + c ! 3) p
     in nmrg 2 (c ! 2) (c ! 3) p)"

definition merge_probs_variant_f :: "u32 list \<Rightarrow> u8 list \<Rightarrow> u8 list" where
  "merge_probs_variant_f c p =
    (let p = nmrg 0 (c ! 0) (c ! 1 + c ! 2) p
     in nmrg 1 (c ! 1) (c ! 2) p)"

definition merge_probs_variant_g :: "u32 list \<Rightarrow> u8 list \<Rightarrow> u8 list" where
  "merge_probs_variant_g c p =
    (let sum = c ! 1 + c ! 2 + c ! 3 + c ! 4 + c ! 5 + c ! 6 + c ! 7 + c ! 8 + c ! 9 + c ! 10;
         p = nmrg 0 (c ! 0) sum p;
         sum = sum - c ! 1;
         p = nmrg 1 (c ! 1) sum p;
         sum = sum - (c ! 2 + c ! 3);
         p = nmrg 2 (c ! 2 + c ! 3) sum p;
         p = nmrg 3 (c ! 2) (c ! 3) p;
         sum = sum - (c ! 4 + c ! 5);
         p = nmrg 4 (c ! 4 + c ! 5) sum p;
         p = nmrg 5 (c ! 4) (c ! 5) p;
         sum = sum - c ! 6;
         p = nmrg 6 (c ! 6) sum p;
         p = nmrg 7 (c ! 7 + c ! 8) (c ! 9 + c ! 10) p;
         p = nmrg 8 (c ! 7) (c ! 8) p
     in nmrg 9 (c ! 9) (c ! 10) p)"

section \<open>The symbol counts\<close>

text \<open>\<open>struct v4l2_vp9_frame_symbol_counts\<close> holds pointers to the count arrays; the helper
  only reads through them, so the model holds the arrays.  \<open>ct_eob\<close> has the two
  counts \<open>*eob[i][j][k][l][m][0]\<close> and \<open>*eob[i][j][k][l][m][1]\<close> as its last dimension.\<close>

record vp9_symbol_counts =
  ct_partition :: "u32 list list"
  ct_skip :: "u32 list list"
  ct_intra_inter :: "u32 list list"
  ct_tx32p :: "u32 list list"
  ct_tx16p :: "u32 list list"
  ct_tx8p :: "u32 list list"
  ct_y_mode :: "u32 list list"
  ct_uv_mode :: "u32 list list"
  ct_comp :: "u32 list list"
  ct_comp_ref :: "u32 list list"
  ct_single_ref :: "u32 list list list"
  ct_mv_mode :: "u32 list list"
  ct_filter :: "u32 list list"
  ct_mv_joint :: "u32 list"
  ct_sign :: "u32 list list"
  ct_classes :: "u32 list list"
  ct_class0 :: "u32 list list"
  ct_bits :: "u32 list list list"
  ct_class0_fp :: "u32 list list list"
  ct_fp :: "u32 list list"
  ct_class0_hp :: "u32 list list"
  ct_hp :: "u32 list list"
  ct_coeff :: "u32 list list list list list list"
  ct_eob :: "u32 list list list list list list"

section \<open>Adaptation of the coefficients\<close>

definition adapt_probs_variant_a_coef :: "u32 list \<Rightarrow> u32 \<Rightarrow> u8 list \<Rightarrow> u8 list" where
  "adapt_probs_variant_a_coef c update_factor p = merge_probs_variant_a c 24 update_factor p"

definition adapt_probs_variant_b_coef :: "u32 list \<Rightarrow> u32 \<Rightarrow> u8 list \<Rightarrow> u8 list" where
  "adapt_probs_variant_b_coef c update_factor p = merge_probs_variant_b c 24 update_factor p"

definition adapt_coeff_cell :: "u32 list \<Rightarrow> u32 list \<Rightarrow> u32 \<Rightarrow> u8 list \<Rightarrow> u8 list" where
  "adapt_coeff_cell coeff eob uf p =
    (let counts_more_coefs = [eob ! 1, eob ! 0 - eob ! 1];
         p = adapt_probs_variant_a_coef coeff uf p
     in adapt_probs_variant_b_coef counts_more_coefs uf p)"

definition adapt_coeff_block :: "nat \<Rightarrow> nat \<Rightarrow> nat \<Rightarrow> vp9_symbol_counts \<Rightarrow> u32 \<Rightarrow>
    u8 list list list \<Rightarrow> u8 list list list" where
  "adapt_coeff_block i j k counts uf =
    arr_for 6 (\<lambda>l. arr_for (BAND_6 l) (\<lambda>m.
      adapt_coeff_cell (ct_coeff counts ! i ! j ! k ! l ! m) (ct_eob counts ! i ! j ! k ! l ! m) uf))"

definition adapt_coef_probs_uf ::
    "vp9_symbol_counts \<Rightarrow> u32 \<Rightarrow> vp9_frame_context \<Rightarrow> vp9_frame_context" where
  "adapt_coef_probs_uf counts uf probs =
    probs\<lparr> coef := arr_for 4 (\<lambda>i. arr_for 2 (\<lambda>j. arr_for 2 (\<lambda>k.
      adapt_coeff_block i j k counts uf))) (coef probs) \<rparr>"

definition adapt_coef_probs ::
    "vp9_symbol_counts \<Rightarrow> bool \<Rightarrow> bool \<Rightarrow> vp9_frame_context \<Rightarrow> vp9_frame_context" where
  "adapt_coef_probs counts use_128 frame_is_intra probs =
    (if frame_is_intra then adapt_coef_probs_uf counts 112 probs
     else if use_128 then adapt_coef_probs_uf counts 128 probs
     else adapt_coef_probs_uf counts 112 probs)"

section \<open>Adaptation of the other probabilities\<close>

definition adapt_probs_variant_b :: "u32 list \<Rightarrow> u8 list \<Rightarrow> u8 list" where
  "adapt_probs_variant_b c p = merge_probs_variant_b c 20 128 p"

definition adapt_probs_variant_c :: "u32 list \<Rightarrow> u8 list \<Rightarrow> u8 list" where
  "adapt_probs_variant_c c p = merge_probs_variant_c c p"

definition adapt_probs_variant_d :: "u32 list \<Rightarrow> u8 list \<Rightarrow> u8 list" where
  "adapt_probs_variant_d c p = merge_probs_variant_d c p"

definition adapt_probs_variant_e :: "u32 list \<Rightarrow> u8 list \<Rightarrow> u8 list" where
  "adapt_probs_variant_e c p = merge_probs_variant_e c p"

definition adapt_probs_variant_f :: "u32 list \<Rightarrow> u8 list \<Rightarrow> u8 list" where
  "adapt_probs_variant_f c p = merge_probs_variant_f c p"

definition adapt_probs_variant_g :: "u32 list \<Rightarrow> u8 list \<Rightarrow> u8 list" where
  "adapt_probs_variant_g c p = merge_probs_variant_g c p"

definition adapt_prob :: "u8 \<Rightarrow> u32 list \<Rightarrow> u8" where
  "adapt_prob prob counts = noncoef_merge_prob prob (counts ! 0) (counts ! 1)"

definition adapt_mv_component :: "vp9_symbol_counts \<Rightarrow> u32 \<Rightarrow> nat \<Rightarrow>
    vp9_frame_context \<Rightarrow> vp9_frame_context" where
  "adapt_mv_component counts flags i probs =
    (let probs = probs\<lparr>
           mv_sign := arr_upd i (\<lambda>p. adapt_prob p (ct_sign counts ! i)) (mv_sign probs),
           mv_classes := arr_upd i (adapt_probs_variant_g (ct_classes counts ! i))
             (mv_classes probs),
           mv_class0_bit := arr_upd i (\<lambda>p. adapt_prob p (ct_class0 counts ! i))
             (mv_class0_bit probs),
           mv_bits := arr_upd i (arr_for 10 (\<lambda>j p. adapt_prob p (ct_bits counts ! i ! j)))
             (mv_bits probs),
           mv_class0_fr := arr_upd i (arr_for 2 (\<lambda>j.
             adapt_probs_variant_e (ct_class0_fp counts ! i ! j))) (mv_class0_fr probs),
           mv_fr := arr_upd i (adapt_probs_variant_e (ct_fp counts ! i)) (mv_fr probs) \<rparr>
     in if \<not> flag_set flags V4L2_VP9_FRAME_FLAG_ALLOW_HIGH_PREC_MV then probs
        else probs\<lparr>
           mv_class0_hp := arr_upd i (\<lambda>p. adapt_prob p (ct_class0_hp counts ! i))
             (mv_class0_hp probs),
           mv_hp := arr_upd i (\<lambda>p. adapt_prob p (ct_hp counts ! i)) (mv_hp probs) \<rparr>)"

definition adapt_noncoef_probs :: "vp9_symbol_counts \<Rightarrow> u8 \<Rightarrow> u8 \<Rightarrow> u8 \<Rightarrow> u32 \<Rightarrow>
    vp9_frame_context \<Rightarrow> vp9_frame_context" where
  "adapt_noncoef_probs counts reference_mode interpolation_filter txmode flags probs =
    (let probs = probs\<lparr> is_inter :=
           arr_for 4 (\<lambda>i p. adapt_prob p (ct_intra_inter counts ! i)) (is_inter probs) \<rparr>;
         probs = probs\<lparr> comp_mode :=
           arr_for 5 (\<lambda>i p. adapt_prob p (ct_comp counts ! i)) (comp_mode probs) \<rparr>;
         probs = probs\<lparr> comp_ref :=
           arr_for 5 (\<lambda>i p. adapt_prob p (ct_comp_ref counts ! i)) (comp_ref probs) \<rparr>;
         probs = (if reference_mode \<noteq> V4L2_VP9_REFERENCE_MODE_COMPOUND_REFERENCE
           then probs\<lparr> single_ref := arr_for 5 (\<lambda>i. arr_for 2 (\<lambda>j p.
             adapt_prob p (ct_single_ref counts ! i ! j))) (single_ref probs) \<rparr>
           else probs);
         probs = probs\<lparr> inter_mode :=
           arr_for 7 (\<lambda>i. adapt_probs_variant_c (ct_mv_mode counts ! i)) (inter_mode probs) \<rparr>;
         probs = probs\<lparr> y_mode :=
           arr_for 4 (\<lambda>i. adapt_probs_variant_d (ct_y_mode counts ! i)) (y_mode probs) \<rparr>;
         probs = probs\<lparr> uv_mode :=
           arr_for 10 (\<lambda>i. adapt_probs_variant_d (ct_uv_mode counts ! i)) (uv_mode probs) \<rparr>;
         probs = probs\<lparr> partition_probs :=
           arr_for 16 (\<lambda>i. adapt_probs_variant_e (ct_partition counts ! i))
             (partition_probs probs) \<rparr>;
         probs = probs\<lparr> skip :=
           arr_for 3 (\<lambda>i p. adapt_prob p (ct_skip counts ! i)) (skip probs) \<rparr>;
         probs = (if interpolation_filter = V4L2_VP9_INTERP_FILTER_SWITCHABLE
           then probs\<lparr> interp_filter :=
             arr_for 4 (\<lambda>i. adapt_probs_variant_f (ct_filter counts ! i)) (interp_filter probs) \<rparr>
           else probs);
         probs = (if txmode = V4L2_VP9_TX_MODE_SELECT
           then for_upto 2 (\<lambda>i probs. probs\<lparr>
             tx8 := arr_upd i (adapt_probs_variant_b (ct_tx8p counts ! i)) (tx8 probs),
             tx16 := arr_upd i (adapt_probs_variant_f (ct_tx16p counts ! i)) (tx16 probs),
             tx32 := arr_upd i (adapt_probs_variant_e (ct_tx32p counts ! i)) (tx32 probs) \<rparr>) probs
           else probs);
         probs = probs\<lparr> mv_joint := adapt_probs_variant_e (ct_mv_joint counts) (mv_joint probs) \<rparr>
     in for_upto 2 (adapt_mv_component counts flags) probs)"

section \<open>Segment features\<close>

definition V4L2_VP9_SEGMENT_FEATURE_ENABLED :: "nat \<Rightarrow> u8" where
  "V4L2_VP9_SEGMENT_FEATURE_ENABLED feature = push_bit feature 1"

definition seg_feat_enabled :: "u8 list \<Rightarrow> nat \<Rightarrow> nat \<Rightarrow> bool" where
  "seg_feat_enabled feature_enabled feature segid =
    (let m = V4L2_VP9_SEGMENT_FEATURE_ENABLED feature
     in feature_enabled ! segid AND m \<noteq> 0)"

section \<open>Division by multiplication is exact\<close>

lemma div_by_inverse:
  fixes n d :: nat
  assumes d: "0 < d" and n: "n * (d - 1) < B"
  shows "n * ((B + (d - 1)) div d) div B = n div d"
proof -
  define v where "v = (B + (d - 1)) div d"
  define e where "e = d - 1 - (B + (d - 1)) mod d"
  have lt: "(B + (d - 1)) mod d \<le> d - 1"
    using d mod_less_divisor[of d "B + (d - 1)"] by linarith
  have "v * d + (B + (d - 1)) mod d = B + (d - 1)" by (simp add: v_def)
  then have vd: "v * d = B + e" using lt by (simp add: e_def)
  have ne: "n * e < B"
  proof -
    have "n * e \<le> n * (d - 1)" unfolding e_def by (intro mult_le_mono2) linarith
    then show ?thesis using n by linarith
  qed
  have "d * (n * v) = n * B + n * e" 
    using arg_cong[OF vd, of "\<lambda>x. n * x"] by (simp add: algebra_simps)
  also have "n * B = d * (n div d) * B + (n mod d) * B"
    by (simp add: add_mult_distrib[symmetric])
  finally have eq: "d * (n * v) = d * ((n div d) * B) + ((n mod d) * B + n * e)"
    by (simp add: algebra_simps)
  have r: "(n mod d) * B + n * e < d * B"
  proof -
    have "Suc (n mod d) * B \<le> d * B" using d by (intro mult_le_mono1) (simp add: Suc_leI)
    then show ?thesis using ne by simp
  qed
  have lo: "(n div d) * B \<le> n * v"
    using eq d by (metis le_add1 nat_mult_le_cancel1)
  have hi: "n * v < (n div d) * B + B"
  proof -
    have "d * (n * v) < d * ((n div d) * B + B)" using eq r by (simp add: algebra_simps)
    then show ?thesis using d by simp
  qed
  have "0 < B" using n by linarith
  then have "n * v div B = n div d"
    using lo hi by (intro div_nat_eqI) (simp_all add: algebra_simps)
  then show ?thesis by (simp add: v_def)
qed

lemma length_fastdiv_inv [simp]: "length fastdiv_inv = 255"
  by (simp add: fastdiv_inv_def)

lemma unat_DIV_INV:
  assumes "2 \<le> d" "d \<le> 256"
  shows "unat (DIV_INV d) = (2 ^ 32 + (d - 1)) div d"
proof -
  have d1: "word_of_nat d - 1 = (word_of_nat (d - 1) :: u64)" using assms by (simp add: of_nat_diff)
  have d2: "unat (word_of_nat d :: u64) = d" "unat (word_of_nat (d - 1) :: u64) = d - 1"
    using assms by (simp_all only: unat_of_nat) simp_all
  have s: "unat (2 ^ 32 + word_of_nat (d - 1) :: u64) = 2 ^ 32 + (d - 1)"
    using assms d2 by (subst unat_add_lem[THEN iffD1]) simp_all
  have "(2 ^ 32 + (d - 1)) div d < 2 ^ 32"
    using assms by (intro div_less_iff_less_mult[THEN iffD2]) auto
  then show ?thesis
    unfolding DIV_INV_def d1 using s d2
    by (simp add: unat_ucast_mod unat_div take_bit_eq_mod unsigned_ucast_eq)
qed

lemma unat_fastdiv:
  assumes "2 \<le> unat d" "unat d \<le> 256"
  shows "unat (fastdiv n d) = unat n * ((2 ^ 32 + (unat d - 1)) div unat d) div 2 ^ 32"
proof -
  have nth: "fastdiv_inv ! (unat d - 2) = DIV_INV (unat d)"
  proof -
    have "2 + (unat d - 2) = unat d" and "unat d - 2 < 257 - 2" using assms by simp_all
    then show ?thesis
      unfolding fastdiv_inv_def using nth_map_upt[of "unat d - 2" 257 2 DIV_INV] by simp_all
  qed
  have d: "d \<noteq> 0" "d \<noteq> 1" using assms by auto
  let ?v = "DIV_INV (unat d)"
  have "unat n * unat ?v < 2 ^ 32 * 2 ^ 32"
    using unat_lt2p[of n] unat_lt2p[of ?v] by (intro mult_strict_mono) auto
  then have p: "unat ((ucast n :: u64) * ucast ?v) = unat n * unat ?v"
    by (subst unat_mult_lem[THEN iffD1]) (simp_all add: unat_ucast_up)
  have "unat n * unat ?v div 2 ^ 32 < 2 ^ 32"
    using \<open>unat n * unat ?v < 2 ^ 32 * 2 ^ 32\<close> by (intro less_mult_imp_div_less)
  moreover have "unat (drop_bit 32 ((ucast n :: u64) * ucast ?v)) = unat n * unat ?v div 2 ^ 32"
    by (simp add: drop_bit_eq_div unat_div p)
  moreover have "\<not> length fastdiv_inv \<le> unat d - 2" using assms by simp
  ultimately show ?thesis
    using assms d nth unfolding fastdiv_def
    by (simp only: if_False unat_ucast_mod unat_DIV_INV) simp
qed

lemma fastdiv_exact_nat:
  assumes "1 \<le> unat d" "unat d \<le> 256" "unat n * (unat d - 1) < 2 ^ 32"
  shows "unat (fastdiv n d) = unat n div unat d"
proof (cases "unat d = 1")
  case True
  then have "d = 1" by (simp add: word_unat_eq_iff)
  then show ?thesis by (simp add: fastdiv_def)
next
  case False
  then show ?thesis using assms unat_fastdiv[of d n] div_by_inverse[of "unat d" "unat n" "2 ^ 32"]
    by simp
qed

section \<open>The merge of one probability against the specification\<close>

text \<open>The merge of the VP9 specification (8.4.1), on natural numbers.\<close>

definition merge_prob_spec :: "nat \<Rightarrow> nat \<Rightarrow> nat \<Rightarrow> nat \<Rightarrow> nat \<Rightarrow> nat" where
  "merge_prob_spec preProb ct0 ct1 countSat maxUpdateFactor =
    (let den = ct0 + ct1;
         prob = (if den = 0 then 128 else clamp ((ct0 * 256 + den div 2) div den) 1 255);
         count = min den countSat;
         factor = maxUpdateFactor * count div countSat
     in (preProb * (256 - factor) + prob * factor + 128) div 256)"

lemma round2_wrapped:
  fixes pre :: u8 and prob factor :: u32
  assumes P: "unat prob \<le> 255" and F: "unat factor \<le> 256"
  shows "unat (ucast (ucast pre + drop_bit 8 ((prob - ucast pre) * factor + 128)) :: u8) =
    (unat pre * (256 - unat factor) + unat prob * unat factor + 128) div 256"
proof -
  define a p f where "a = uint pre" and "p = uint prob" and "f = uint factor"
  have wp: "prob = word_of_int p" and wf: "factor = word_of_int f" and wa: "ucast pre = (word_of_int a :: u32)"
    by (simp_all add: a_def p_def f_def)
  have w: "(prob - ucast pre) * factor + 128 = (word_of_int ((p - a) * f + 128) :: u32)"
    unfolding wa unfolding wp wf by simp
  define X where "X = (p - a) * f + 128"
  have "uint (drop_bit 8 (word_of_int X :: u32)) = drop_bit 8 (take_bit 32 X)"
    by (simp add: unsigned_drop_bit_eq uint_word_of_int take_bit_eq_mod)
  then have "uint (ucast (ucast pre + drop_bit 8 (word_of_int X :: u32)) :: u8) =
      (a + drop_bit 8 (take_bit 32 X)) mod 2 ^ 8"
    using uint_u8_le[of pre]
    by (simp add: a_def unsigned_ucast_eq uint_word_ariths take_bit_eq_mod mod_mod_cancel)
  also have "\<dots> = (a + take_bit 8 (drop_bit 8 (take_bit 32 X))) mod 2 ^ 8"
    by (simp add: take_bit_eq_mod mod_simps)
  also have "take_bit 8 (drop_bit 8 (take_bit 32 X)) = take_bit 8 (drop_bit 8 X)"
    by (simp add: drop_bit_take_bit)
  also have "(a + take_bit 8 (drop_bit 8 X)) mod 2 ^ 8 = (a + X div 256) mod 256"
    by (simp add: take_bit_eq_mod mod_simps drop_bit_eq_div)
  also have "a + X div 256 = (a * 256 + X) div 256" by simp
  also have "a * 256 + X = int (unat pre * (256 - unat factor) + unat prob * unat factor + 128)"
  proof -
    have "int (256 - unat factor) = 256 - f" using F by (simp add: f_def)
    moreover have "int (unat pre) = a" "int (unat prob) = p" "int (unat factor) = f"
      by (simp_all add: a_def p_def f_def)
    ultimately show ?thesis by (simp only: of_nat_add of_nat_mult X_def) (simp add: algebra_simps)
  qed
  finally have "uint (ucast (ucast pre + drop_bit 8 (word_of_int X :: u32)) :: u8) =
      int ((unat pre * (256 - unat factor) + unat prob * unat factor + 128) div 256 mod 256)"
    by (simp only: zdiv_int zmod_int) simp
  moreover have "(unat pre * (256 - unat factor) + unat prob * unat factor + 128) div 256 < 256"
  proof -
    have "unat pre * (256 - unat factor) \<le> 255 * (256 - unat factor)"
      using unat_lt2p[of pre] by (intro mult_le_mono1) simp
    moreover have "unat prob * unat factor \<le> 255 * unat factor"
      using P by (intro mult_le_mono1)
    moreover have "255 * (256 - unat factor) + 255 * unat factor = 255 * 256"
      using F by simp
    ultimately show ?thesis by linarith
  qed
  ultimately show ?thesis unfolding w X_def[symmetric] by (metis mod_less nat_int unat_eq_nat_uint)
qed

lemma merge_prob_den_0: "ct0 + ct1 = 0 \<Longrightarrow> merge_prob pre ct0 ct1 sat uf = pre"
  by (simp add: merge_prob_def)

lemma u32_clamp: "unat (clamp (x :: u32) 1 255) = clamp (unat x) 1 255"
  by (auto simp: clamp_def word_le_nat_alt min_def max_def)

lemma unat_min_t_sat: "unat (min_t (den :: u32) (ucast (sat :: u16))) = min (unat den) (unat sat)"
  by (auto simp: min_t_def word_less_nat_alt unat_ucast_up)

text \<open>The factor a merge uses: \<open>max_update_factor * count / count_sat\<close>.\<close>

lemma merge_factor:
  assumes sat: "1 \<le> unat sat" "unat sat \<le> 256" and uf: "unat uf \<le> 256"
  shows "unat (fastdiv (uf * min_t den (ucast sat)) sat) = unat uf * min (unat den) (unat sat) div unat sat"
    and "unat uf * min (unat den) (unat sat) div unat sat \<le> 256"
proof -
  let ?count = "min_t den (ucast sat :: u32)"
  have cle: "unat ?count \<le> unat sat" by (simp add: unat_min_t_sat)
  have "unat uf * unat ?count \<le> 256 * 256"
    using uf sat cle by (intro mult_le_mono) linarith+
  then have m: "unat (uf * ?count) = unat uf * unat ?count"
    by (subst unat_mult_lem[THEN iffD1]) simp_all
  have "unat uf * unat ?count * (unat sat - 1) \<le> 256 * 256 * 255"
    using sat uf cle by (intro mult_le_mono) linarith+
  then show "unat (fastdiv (uf * ?count) sat) = unat uf * min (unat den) (unat sat) div unat sat"
    using fastdiv_exact_nat[OF sat, of "uf * ?count"] m by (simp add: unat_min_t_sat)
  have "unat uf * min (unat den) (unat sat) \<le> 256 * unat sat" using uf by (intro mult_le_mono) auto
  then have "unat uf * min (unat den) (unat sat) div unat sat \<le> 256 * unat sat div unat sat"
    by (rule div_le_mono)
  then show "unat uf * min (unat den) (unat sat) div unat sat \<le> 256" using sat by simp
qed

text \<open>Whatever the counts are, the merge is a weighted mean of the old probability and
  one between 1 and 255.\<close>

lemma merge_prob_mean:
  assumes "1 \<le> unat sat" "unat sat \<le> 256" "unat uf \<le> 256" and den: "ct0 + ct1 \<noteq> 0"
  defines "prob \<equiv> clamp ((push_bit 8 ct0 + drop_bit 1 (ct0 + ct1)) div (ct0 + ct1)) 1 255"
    and "f \<equiv> unat uf * min (unat (ct0 + ct1)) (unat sat) div unat sat"
  shows "unat (merge_prob pre ct0 ct1 sat uf) =
      (unat pre * (256 - f) + unat prob * f + 128) div 256"
    and "1 \<le> unat prob" "unat prob \<le> 255" "f \<le> 256"
proof -
  have p: "1 \<le> unat prob \<and> unat prob \<le> 255"
    unfolding prob_def u32_clamp by (rule clamp_bounds) simp
  then show "1 \<le> unat prob" "unat prob \<le> 255" by auto
  show f: "f \<le> 256" unfolding f_def by (rule merge_factor(2)[OF assms(1-3)])
  show "unat (merge_prob pre ct0 ct1 sat uf) = (unat pre * (256 - f) + unat prob * f + 128) div 256"
    unfolding merge_prob_def Let_def if_not_P[OF den] prob_def[symmetric]
    using merge_factor(1)[OF assms(1-3), of "ct0 + ct1"] p f
    by (subst round2_wrapped) (simp_all add: f_def[symmetric])
qed

lemma mean_between:
  fixes pre prob f lo hi :: nat
  assumes "lo \<le> pre" "lo \<le> prob" "pre \<le> hi" "prob \<le> hi" "f \<le> 256"
  shows "lo \<le> (pre * (256 - f) + prob * f + 128) div 256 \<and> (pre * (256 - f) + prob * f + 128) div 256 \<le> hi"
proof -
  have e: "256 - f + f = 256" using assms by simp
  have "lo * (256 - f) + lo * f \<le> pre * (256 - f) + prob * f"
    using assms by (intro add_mono mult_le_mono1)
  moreover have "pre * (256 - f) + prob * f \<le> hi * (256 - f) + hi * f"
    using assms by (intro add_mono mult_le_mono1)
  ultimately have "lo * 256 \<le> pre * (256 - f) + prob * f" "pre * (256 - f) + prob * f \<le> hi * 256"
    unfolding add_mult_distrib2[symmetric] e by simp_all
  then show ?thesis
    using div_le_mono[of "lo * 256" "pre * (256 - f) + prob * f + 128" 256]
      div_le_mono[of "pre * (256 - f) + prob * f + 128" "hi * 256 + 128" 256] by simp
qed

lemma merge_prob_nonzero:
  assumes "1 \<le> unat sat" "unat sat \<le> 256" "unat uf \<le> 256" and pre: "pre \<noteq> 0"
  shows "merge_prob pre ct0 ct1 sat uf \<noteq> 0"
proof (cases "ct0 + ct1 = 0")
  case True
  then show ?thesis using pre by (simp add: merge_prob_den_0)
next
  case False
  have "1 \<le> unat pre" using pre by (metis One_nat_def Suc_leI unat_gt_0)
  then have "1 \<le> unat (merge_prob pre ct0 ct1 sat uf)"
    unfolding merge_prob_mean(1)[OF assms(1-3) False]
    using mean_between[of 1 "unat pre" _ 255] merge_prob_mean(2-4)[OF assms(1-3) False] unat_lt2p[of pre]
    by simp
  then show ?thesis by auto
qed

lemma merge_prob_refines_spec:
  assumes den: "unat ct0 * 256 + (unat ct0 + unat ct1) div 2 < 2 ^ 32" "unat ct0 + unat ct1 < 2 ^ 32"
    and sat: "1 \<le> unat sat" "unat sat \<le> 256" and uf: "unat uf \<le> 256"
  shows "unat (merge_prob pre ct0 ct1 sat uf) =
    merge_prob_spec (unat pre) (unat ct0) (unat ct1) (unat sat) (unat uf)"
proof -
  have d: "unat (ct0 + ct1) = unat ct0 + unat ct1"
    using den(2) by (subst unat_add_lem[THEN iffD1]) simp_all
  show ?thesis
  proof (cases "ct0 + ct1 = 0")
    case True
    then have "unat ct0 + unat ct1 = 0" using d by simp
    then show ?thesis using True by (simp add: merge_prob_den_0 merge_prob_spec_def)
  next
    case False
    then have nz: "unat ct0 + unat ct1 \<noteq> 0" using d by (metis unat_eq_zero)
    have "unat (ct0 * 256) = unat ct0 * unat (256 :: u32)"
      using den(1) by (subst unat_mult_lem[THEN iffD1]) simp_all
    then have sh: "unat (push_bit 8 ct0) = unat ct0 * 256" by (simp add: push_bit_eq_mult)
    have "unat (push_bit 8 ct0 + drop_bit 1 (ct0 + ct1)) =
        unat ct0 * 256 + (unat ct0 + unat ct1) div 2"
      using den(1) sh by (subst unat_add_lem[THEN iffD1]) (simp_all add: drop_bit_eq_div unat_div d)
    then have "unat (clamp ((push_bit 8 ct0 + drop_bit 1 (ct0 + ct1)) div (ct0 + ct1)) 1 255) =
        clamp ((unat ct0 * 256 + (unat ct0 + unat ct1) div 2) div (unat ct0 + unat ct1)) 1 255"
      by (simp add: u32_clamp unat_div d)
    then show ?thesis
      unfolding merge_prob_mean(1)[OF sat uf False] merge_prob_spec_def Let_def d using nz by simp
  qed
qed

section \<open>The recursive tree merge\<close>

text \<open>A tree of the VP9 specification: \<open>VNode n l r\<close> is the inner node whose probability is
  \<open>p[n]\<close>, \<open>VLeaf s\<close> the symbol \<open>s\<close>.  \<open>merge_tree\<close> is the specification's \<open>merge_probs()\<close>:
  it merges the subtrees, then the node with the counts below its two branches.\<close>

datatype vp9_tree = VLeaf nat | VNode nat vp9_tree vp9_tree

primrec tree_count :: "u32 list \<Rightarrow> vp9_tree \<Rightarrow> u32" where
  "tree_count c (VLeaf s) = c ! s"
| "tree_count c (VNode n l r) = tree_count c l + tree_count c r"

primrec merge_tree :: "u32 list \<Rightarrow> u16 \<Rightarrow> u32 \<Rightarrow> vp9_tree \<Rightarrow> u8 list \<Rightarrow> u8 list" where
  "merge_tree c sat uf (VLeaf s) p = p"
| "merge_tree c sat uf (VNode n l r) p =
    mrg n (tree_count c l) (tree_count c r) sat uf
      (merge_tree c sat uf r (merge_tree c sat uf l p))"

definition small_token_tree :: vp9_tree where
  "small_token_tree = VNode 1 (VLeaf 0) (VNode 2 (VLeaf 1) (VLeaf 2))"

definition binary_tree :: vp9_tree where
  "binary_tree = VNode 0 (VLeaf 0) (VLeaf 1)"

definition inter_mode_tree :: vp9_tree where
  "inter_mode_tree = VNode 0 (VLeaf 2) (VNode 1 (VLeaf 0) (VNode 2 (VLeaf 1) (VLeaf 3)))"

definition intra_mode_tree :: vp9_tree where
  "intra_mode_tree = VNode 0 (VLeaf 0) (VNode 1 (VLeaf 9) (VNode 2 (VLeaf 1) (VNode 3
    (VNode 4 (VLeaf 2) (VNode 5 (VLeaf 4) (VLeaf 5)))
    (VNode 6 (VLeaf 3) (VNode 7 (VLeaf 8) (VNode 8 (VLeaf 6) (VLeaf 7)))))))"

definition partition_tree :: vp9_tree where
  "partition_tree = VNode 0 (VLeaf 0) (VNode 1 (VLeaf 1) (VNode 2 (VLeaf 2) (VLeaf 3)))"

definition interp_filter_tree :: vp9_tree where
  "interp_filter_tree = VNode 0 (VLeaf 0) (VNode 1 (VLeaf 1) (VLeaf 2))"

definition mv_class_tree :: vp9_tree where
  "mv_class_tree = VNode 0 (VLeaf 0) (VNode 1 (VLeaf 1) (VNode 2 (VNode 3 (VLeaf 2) (VLeaf 3))
    (VNode 4 (VNode 5 (VLeaf 4) (VLeaf 5)) (VNode 6 (VLeaf 6) (VNode 7
      (VNode 8 (VLeaf 7) (VLeaf 8)) (VNode 9 (VLeaf 9) (VLeaf 10)))))))"

lemma arr_upd_commute:
  "i \<noteq> j \<Longrightarrow> arr_upd i f (arr_upd j g xs) = arr_upd j g (arr_upd i f xs)"
  by (simp add: arr_upd_def list_update_swap)

lemma variant_a_tree: "merge_probs_variant_a c sat uf p = merge_tree c sat uf small_token_tree p"
  by (simp add: merge_probs_variant_a_def small_token_tree_def arr_upd_commute)

lemma variant_b_tree: "merge_probs_variant_b c sat uf p = merge_tree c sat uf binary_tree p"
  by (simp add: merge_probs_variant_b_def binary_tree_def)

lemma variant_c_tree: "merge_probs_variant_c c p = merge_tree c 20 128 inter_mode_tree p"
  by (simp add: merge_probs_variant_c_def inter_mode_tree_def Let_def noncoef_merge_prob_def algebra_simps
      arr_upd_commute)

lemma variant_d_tree: "merge_probs_variant_d c p = merge_tree c 20 128 intra_mode_tree p"
  by (simp add: merge_probs_variant_d_def intra_mode_tree_def Let_def noncoef_merge_prob_def algebra_simps
      arr_upd_commute)

lemma variant_e_tree: "merge_probs_variant_e c p = merge_tree c 20 128 partition_tree p"
  by (simp add: merge_probs_variant_e_def partition_tree_def Let_def noncoef_merge_prob_def algebra_simps
      arr_upd_commute)

lemma variant_f_tree: "merge_probs_variant_f c p = merge_tree c 20 128 interp_filter_tree p"
  by (simp add: merge_probs_variant_f_def interp_filter_tree_def Let_def noncoef_merge_prob_def algebra_simps
      arr_upd_commute)

lemma variant_g_tree: "merge_probs_variant_g c p = merge_tree c 20 128 mv_class_tree p"
  by (simp add: merge_probs_variant_g_def mv_class_tree_def Let_def noncoef_merge_prob_def algebra_simps
      arr_upd_commute)

lemmas variant_trees = variant_a_tree variant_b_tree variant_c_tree variant_d_tree
  variant_e_tree variant_f_tree variant_g_tree

section \<open>Adaptation keeps the context valid\<close>

lemma merge_tree_valid:
  assumes "1 \<le> unat sat" "unat sat \<le> 256" "unat uf \<le> 256"
  shows "row n (\<lambda>p. p \<noteq> 0) p \<Longrightarrow> row n (\<lambda>p. p \<noteq> 0) (merge_tree c sat uf t p)"
  by (induction t arbitrary: p) (auto intro!: arr_upd_arr merge_prob_nonzero[OF assms])

lemma adapt_prob_nonzero: "p \<noteq> 0 \<Longrightarrow> adapt_prob p c \<noteq> 0"
  by (simp add: adapt_prob_def noncoef_merge_prob_def merge_prob_nonzero)

lemma adapt_variants_valid:
  assumes "row n (\<lambda>p. p \<noteq> 0) p"
  shows "row n (\<lambda>p. p \<noteq> 0) (adapt_probs_variant_b c p)"
    and "row n (\<lambda>p. p \<noteq> 0) (adapt_probs_variant_c c p)"
    and "row n (\<lambda>p. p \<noteq> 0) (adapt_probs_variant_d c p)"
    and "row n (\<lambda>p. p \<noteq> 0) (adapt_probs_variant_e c p)"
    and "row n (\<lambda>p. p \<noteq> 0) (adapt_probs_variant_f c p)"
    and "row n (\<lambda>p. p \<noteq> 0) (adapt_probs_variant_g c p)"
  by (simp_all add: adapt_probs_variant_b_def adapt_probs_variant_c_def adapt_probs_variant_d_def
      adapt_probs_variant_e_def adapt_probs_variant_f_def adapt_probs_variant_g_def
      variant_trees merge_tree_valid assms)

lemma adapt_coeff_cell_valid:
  assumes "unat uf \<le> 256" "row 3 (\<lambda>p. p \<noteq> 0) p"
  shows "row 3 (\<lambda>p. p \<noteq> 0) (adapt_coeff_cell c e uf p)"
  using assms by (simp add: adapt_coeff_cell_def adapt_probs_variant_a_coef_def
      adapt_probs_variant_b_coef_def variant_trees merge_tree_valid)

lemma length_adapt_coeff_cell [simp]: "length (adapt_coeff_cell c e uf p) = length p"
  by (simp add: adapt_coeff_cell_def adapt_probs_variant_a_coef_def adapt_probs_variant_b_coef_def
      merge_probs_variant_a_def merge_probs_variant_b_def)

lemma adapt_coeff_block_valid:
  assumes uf: "unat uf \<le> 256"
    and p: "arr 6 (\<lambda>l. arr 6 (\<lambda>m. row 3 (\<lambda>p. m < BAND_6 l \<longrightarrow> p \<noteq> 0))) p"
  shows "arr 6 (\<lambda>l. arr 6 (\<lambda>m. row 3 (\<lambda>p. m < BAND_6 l \<longrightarrow> p \<noteq> 0)))
    (adapt_coeff_block i j k counts uf p)"
  unfolding adapt_coeff_block_def
proof (intro arr_for_arr p)
  fix l m and x :: "u8 list" assume "m < BAND_6 l" "row 3 (\<lambda>p. m < BAND_6 l \<longrightarrow> p \<noteq> 0) x"
  then show "row 3 (\<lambda>p. m < BAND_6 l \<longrightarrow> p \<noteq> 0) (adapt_coeff_cell
      (ct_coeff counts ! i ! j ! k ! l ! m) (ct_eob counts ! i ! j ! k ! l ! m) uf x)"
    using adapt_coeff_cell_valid[OF uf] by simp
qed

lemma adapt_coef_probs_uf_valid:
  assumes "unat uf \<le> 256" "valid_probs c"
  shows "valid_probs (adapt_coef_probs_uf counts uf c)"
  unfolding adapt_coef_probs_uf_def coef_all_def
  using valid_fields(11)[OF assms(2), unfolded coef_all_def]
  by (intro valid_field_updates(11)[OF assms(2)] adapt_coeff_block_valid arr_for_arr)
    (unfold coef_all_def, intro arr_for_arr adapt_coeff_block_valid assms(1))

lemma adapt_coef_probs_all: "valid_probs c \<Longrightarrow> valid_probs (adapt_coef_probs counts u128 intra c)"
  by (simp add: adapt_coef_probs_def adapt_coef_probs_uf_valid)

lemma valid_tx_updates:
  assumes "valid_probs (c :: 'a vp9_frame_context_scheme)"
  shows "row 2 (row 1 (\<lambda>p. p \<noteq> 0)) b \<Longrightarrow> valid_probs (c\<lparr>tx8 := b\<rparr>)"
    and "row 2 (row 2 (\<lambda>p. p \<noteq> 0)) b \<Longrightarrow> valid_probs (c\<lparr>tx16 := b\<rparr>)"
    and "row 2 (row 3 (\<lambda>p. p \<noteq> 0)) b \<Longrightarrow> valid_probs (c\<lparr>tx32 := b\<rparr>)"
  using assms by (simp_all add: ctx_defs)

lemma valid_tx_fields:
  assumes "valid_probs (c :: 'a vp9_frame_context_scheme)"
  shows "row 2 (row 1 (\<lambda>p. p \<noteq> 0)) (tx8 c)" "row 2 (row 2 (\<lambda>p. p \<noteq> 0)) (tx16 c)"
    "row 2 (row 3 (\<lambda>p. p \<noteq> 0)) (tx32 c)"
  using assms by (simp_all add: ctx_defs)

lemma valid_if: "(b \<Longrightarrow> valid_probs c) \<Longrightarrow> (\<not> b \<Longrightarrow> valid_probs d) \<Longrightarrow> valid_probs (if b then c else d)"
  by simp

lemma adapt_mv_component_valid:
  assumes p: "valid_probs c"
  shows "valid_probs (adapt_mv_component counts flags i c)"
  unfolding adapt_mv_component_def Let_def
  by (rule valid_if; simp?;
      intro valid_mv_updates p arr_upd_arr arr_for_arr adapt_prob_nonzero adapt_variants_valid
        valid_mv_fields[OF p]; assumption)

lemma adapt_tx_valid:
  assumes "valid_probs (c :: vp9_frame_context)"
  shows "valid_probs (for_upto 2 (\<lambda>i probs. probs\<lparr>
             tx8 := arr_upd i (adapt_probs_variant_b (ct_tx8p counts ! i)) (tx8 probs),
             tx16 := arr_upd i (adapt_probs_variant_f (ct_tx16p counts ! i)) (tx16 probs),
             tx32 := arr_upd i (adapt_probs_variant_e (ct_tx32p counts ! i)) (tx32 probs) \<rparr>) c)"
proof (rule for_upto_inv[where I = valid_probs, OF assms])
  fix i and t :: vp9_frame_context
  assume p: "valid_probs t"
  show "valid_probs (t\<lparr>
             tx8 := arr_upd i (adapt_probs_variant_b (ct_tx8p counts ! i)) (tx8 t),
             tx16 := arr_upd i (adapt_probs_variant_f (ct_tx16p counts ! i)) (tx16 t),
             tx32 := arr_upd i (adapt_probs_variant_e (ct_tx32p counts ! i)) (tx32 t) \<rparr>)"
    by (intro valid_tx_updates p arr_upd_arr adapt_variants_valid valid_tx_fields[OF p]; assumption)
qed

text \<open>One step of the adaptation per table.\<close>

lemma adapt_field_valid:
  assumes p: "valid_probs (c :: vp9_frame_context)"
  shows "valid_probs (c\<lparr>is_inter := arr_for 4 (\<lambda>i p. adapt_prob p (g i)) (is_inter c)\<rparr>)"
    and "valid_probs (c\<lparr>comp_mode := arr_for 5 (\<lambda>i p. adapt_prob p (g i)) (comp_mode c)\<rparr>)"
    and "valid_probs (c\<lparr>comp_ref := arr_for 5 (\<lambda>i p. adapt_prob p (g i)) (comp_ref c)\<rparr>)"
    and "valid_probs (c\<lparr>single_ref := arr_for 5 (\<lambda>i. arr_for 2 (\<lambda>j p. adapt_prob p (h i j)))
      (single_ref c)\<rparr>)"
    and "valid_probs (c\<lparr>inter_mode := arr_for 7 (\<lambda>i. adapt_probs_variant_c (g i)) (inter_mode c)\<rparr>)"
    and "valid_probs (c\<lparr>y_mode := arr_for 4 (\<lambda>i. adapt_probs_variant_d (g i)) (y_mode c)\<rparr>)"
    and "valid_probs (c\<lparr>uv_mode := arr_for 10 (\<lambda>i. adapt_probs_variant_d (g i)) (uv_mode c)\<rparr>)"
    and "valid_probs (c\<lparr>partition_probs := arr_for 16 (\<lambda>i. adapt_probs_variant_e (g i))
      (partition_probs c)\<rparr>)"
    and "valid_probs (c\<lparr>skip := arr_for 3 (\<lambda>i p. adapt_prob p (g i)) (skip c)\<rparr>)"
    and "valid_probs (c\<lparr>interp_filter := arr_for 4 (\<lambda>i. adapt_probs_variant_f (g i))
      (interp_filter c)\<rparr>)"
    and "valid_probs (c\<lparr>mv_joint := adapt_probs_variant_e a (mv_joint c)\<rparr>)"
  by ((intro valid_field_updates valid_mv_updates p arr_for_arr adapt_prob_nonzero
        adapt_variants_valid valid_fields[OF p] valid_mv_fields[OF p]; assumption))+

lemma adapt_noncoef_probs_all:
  assumes "valid_probs c"
  shows "valid_probs (adapt_noncoef_probs counts rm ifl txm flags c)"
  unfolding adapt_noncoef_probs_def Let_def
  by (rule for_upto_inv[where I = valid_probs])
    (intro adapt_field_valid adapt_tx_valid valid_if assms adapt_mv_component_valid; assumption)+

section \<open>What the adaptation leaves alone\<close>

lemma adapt_mv_component_others:
  "coef (adapt_mv_component counts flags i c) = coef c"
  "interp_filter (adapt_mv_component counts flags i c) = interp_filter c"
  "single_ref (adapt_mv_component counts flags i c) = single_ref c"
  "tx8 (adapt_mv_component counts flags i c) = tx8 c"
  "tx16 (adapt_mv_component counts flags i c) = tx16 c"
  "tx32 (adapt_mv_component counts flags i c) = tx32 c"
  "\<not> flag_set flags V4L2_VP9_FRAME_FLAG_ALLOW_HIGH_PREC_MV \<Longrightarrow>
    mv_hp (adapt_mv_component counts flags i c) = mv_hp c \<and>
    mv_class0_hp (adapt_mv_component counts flags i c) = mv_class0_hp c"
  by (simp_all add: adapt_mv_component_def Let_def)

lemma adapt_noncoef_frame:
  fixes c :: vp9_frame_context and counts rm ifl txm flags
  defines "c' \<equiv> adapt_noncoef_probs counts rm ifl txm flags c"
  shows "coef c' = coef c"
    and "ifl \<noteq> V4L2_VP9_INTERP_FILTER_SWITCHABLE \<Longrightarrow> interp_filter c' = interp_filter c"
    and "rm = V4L2_VP9_REFERENCE_MODE_COMPOUND_REFERENCE \<Longrightarrow> single_ref c' = single_ref c"
    and "txm \<noteq> V4L2_VP9_TX_MODE_SELECT \<Longrightarrow> tx8 c' = tx8 c \<and> tx16 c' = tx16 c \<and> tx32 c' = tx32 c"
    and "\<not> flag_set flags V4L2_VP9_FRAME_FLAG_ALLOW_HIGH_PREC_MV \<Longrightarrow>
      mv_hp c' = mv_hp c \<and> mv_class0_hp c' = mv_class0_hp c"
proof -
  let ?tx = "for_upto 2 (\<lambda>i probs. probs\<lparr>
             tx8 := arr_upd i (adapt_probs_variant_b (ct_tx8p counts ! i)) (tx8 probs),
             tx16 := arr_upd i (adapt_probs_variant_f (ct_tx16p counts ! i)) (tx16 probs),
             tx32 := arr_upd i (adapt_probs_variant_e (ct_tx32p counts ! i)) (tx32 probs) \<rparr>)
             :: vp9_frame_context \<Rightarrow> vp9_frame_context"
  have tx: "coef (?tx c) = coef c" "interp_filter (?tx c) = interp_filter c"
    "single_ref (?tx c) = single_ref c" "mv_hp (?tx c) = mv_hp c"
    "mv_class0_hp (?tx c) = mv_class0_hp c" for c
    by (rule for_upto_same, simp)+
  note loop = for_upto_same[of 2 _ "adapt_mv_component counts flags"]
  note unf = c'_def adapt_noncoef_probs_def Let_def
  note smp = adapt_mv_component_others tx
  show "coef c' = coef c"
    unfolding unf by (subst loop[of coef]) (simp_all add: smp)
  show "interp_filter c' = interp_filter c" if "ifl \<noteq> V4L2_VP9_INTERP_FILTER_SWITCHABLE"
    using that unfolding unf by (subst loop[of interp_filter]) (simp_all add: smp)
  show "single_ref c' = single_ref c" if "rm = V4L2_VP9_REFERENCE_MODE_COMPOUND_REFERENCE"
    using that unfolding unf by (subst loop[of single_ref]) (simp_all add: smp)
  show "tx8 c' = tx8 c \<and> tx16 c' = tx16 c \<and> tx32 c' = tx32 c" if txm: "txm \<noteq> V4L2_VP9_TX_MODE_SELECT"
  proof (intro conjI)
    show "tx8 c' = tx8 c"
      using txm unfolding unf by (subst loop[of tx8]) (simp_all add: smp)
    show "tx16 c' = tx16 c"
      using txm unfolding unf by (subst loop[of tx16]) (simp_all add: smp)
    show "tx32 c' = tx32 c"
      using txm unfolding unf by (subst loop[of tx32]) (simp_all add: smp)
  qed
  show "mv_hp c' = mv_hp c \<and> mv_class0_hp c' = mv_class0_hp c"
    if hp: "\<not> flag_set flags V4L2_VP9_FRAME_FLAG_ALLOW_HIGH_PREC_MV"
  proof (intro conjI)
    show "mv_hp c' = mv_hp c"
      using hp unfolding unf by (subst loop[of mv_hp]) (simp_all add: smp)
    show "mv_class0_hp c' = mv_class0_hp c"
      using hp unfolding unf by (subst loop[of mv_class0_hp]) (simp_all add: smp)
  qed
qed

section \<open>The adapted coefficients\<close>

lemma adapt_coef_probs_nth:
  assumes shape: "coef_all (\<lambda>_. True) (coef c)"
    and "s < 4" "j < 2" "k < 2" "l < 6" "m < 6"
  shows "coef (adapt_coef_probs counts u128 intra c) ! s ! j ! k ! l ! m =
    (let p = coef c ! s ! j ! k ! l ! m;
         ct = ct_coeff counts ! s ! j ! k ! l ! m;
         eob = ct_eob counts ! s ! j ! k ! l ! m;
         uf = (if u128 \<and> \<not> intra then 128 else 112)
     in if m < BAND_6 l
        then [merge_prob (p ! 0) (eob ! 1) (eob ! 0 - eob ! 1) 24 uf,
              merge_prob (p ! 1) (ct ! 0) (ct ! 1 + ct ! 2) 24 uf,
              merge_prob (p ! 2) (ct ! 1) (ct ! 2) 24 uf]
        else p)"
proof -
  let ?p = "coef c ! s ! j ! k ! l ! m"
  have len: "length (coef c) = 4" "length (coef c ! s) = 2" "length (coef c ! s ! j) = 2"
    "length (coef c ! s ! j ! k) = 6" "length (coef c ! s ! j ! k ! l) = 6" "length ?p = 3"
    using assms coef_allD[OF shape assms(2-4)] by (simp_all add: coef_all_def arr_iff)
  have p3: "?p = [?p ! 0, ?p ! 1, ?p ! 2]"
    using len(6) by (intro nth_equalityI) (auto simp: less_Suc_eq numeral_3_eq_3 numeral_2_eq_2)
  have cell: "adapt_coeff_cell ct eob uf ?p =
      [merge_prob (?p ! 0) (eob ! 1) (eob ! 0 - eob ! 1) 24 uf,
       merge_prob (?p ! 1) (ct ! 0) (ct ! 1 + ct ! 2) 24 uf,
       merge_prob (?p ! 2) (ct ! 1) (ct ! 2) 24 uf]" for ct eob uf
    by (subst p3) (simp add: adapt_coeff_cell_def adapt_probs_variant_a_coef_def
        adapt_probs_variant_b_coef_def merge_probs_variant_a_def merge_probs_variant_b_def
        Let_def arr_upd_def)
  have "coef (adapt_coef_probs_uf counts uf c) ! s ! j ! k ! l ! m =
    (if m < BAND_6 l
     then adapt_coeff_cell (ct_coeff counts ! s ! j ! k ! l ! m) (ct_eob counts ! s ! j ! k ! l ! m) uf ?p
     else ?p)" for uf
    using assms len by (simp add: adapt_coef_probs_uf_def adapt_coeff_block_def arr_simps)
  then show ?thesis
    by (simp add: adapt_coef_probs_def Let_def cell)
qed

section \<open>Properties\<close>

text \<open>Sample counts of the witnesses: every count is \<open>n\<close>.\<close>

definition flat_counts :: "u32 \<Rightarrow> vp9_symbol_counts" where
  "flat_counts n = \<lparr>
    ct_partition = replicate 16 (replicate 4 n), ct_skip = replicate 3 (replicate 2 n),
    ct_intra_inter = replicate 4 (replicate 2 n), ct_tx32p = replicate 2 (replicate 4 n),
    ct_tx16p = replicate 2 (replicate 4 n), ct_tx8p = replicate 2 (replicate 2 n),
    ct_y_mode = replicate 4 (replicate 10 n), ct_uv_mode = replicate 10 (replicate 10 n),
    ct_comp = replicate 5 (replicate 2 n), ct_comp_ref = replicate 5 (replicate 2 n),
    ct_single_ref = replicate 5 (replicate 2 (replicate 2 n)),
    ct_mv_mode = replicate 7 (replicate 4 n), ct_filter = replicate 4 (replicate 3 n),
    ct_mv_joint = replicate 4 n, ct_sign = replicate 2 (replicate 2 n),
    ct_classes = replicate 2 (replicate 11 n), ct_class0 = replicate 2 (replicate 2 n),
    ct_bits = replicate 2 (replicate 10 (replicate 2 n)),
    ct_class0_fp = replicate 2 (replicate 2 (replicate 4 n)), ct_fp = replicate 2 (replicate 4 n),
    ct_class0_hp = replicate 2 (replicate 2 n), ct_hp = replicate 2 (replicate 2 n),
    ct_coeff = replicate 4 (replicate 2 (replicate 2 (replicate 6 (replicate 6 (replicate 3 n))))),
    ct_eob = replicate 4 (replicate 2 (replicate 2 (replicate 6 (replicate 6 (replicate 2 n))))) \<rparr>"

text \<open>\<open>fastdiv\<close> divides exactly: for every divisor from 1 to 256 and every dividend
  with \<open>dividend * (divisor - 1) < 2^32\<close> (all the adaptation ever divides), the product with
  the rounded-up inverse, shifted right by 32, is the quotient.\<close>

theorem fastdiv_exact:
  assumes "1 \<le> unat d" "unat d \<le> 256" "unat n * (unat d - 1) < 2 ^ 32"
  shows "fastdiv n d = n div ucast d"
  using fastdiv_exact_nat[OF assms]
  by (simp add: word_unat_eq_iff unat_div unat_ucast_up)

theorem fastdiv_exact_witness: "fastdiv 2560 20 = 128"
  using fastdiv_exact[of 20 2560] by simp

text \<open>C17: \<open>merge_prob\<close> implements the merge process of section 8.4.1 of the VP9
  specification: although it computes in wrapping 32-bit arithmetic, with a difference that may
  be negative and a final truncation to eight bits, its value is the specification's weighted
  mean for all counts whose scaled sum fits in 32 bits.\<close>

theorem merge_prob_correct:
  assumes "unat ct0 * 256 + (unat ct0 + unat ct1) div 2 < 2 ^ 32" "unat ct0 + unat ct1 < 2 ^ 32"
    and "1 \<le> unat sat" "unat sat \<le> 256" and "unat uf \<le> 256"
  shows "unat (merge_prob pre ct0 ct1 sat uf) =
    merge_prob_spec (unat pre) (unat ct0) (unat ct1) (unat sat) (unat uf)"
  using assms by (rule merge_prob_refines_spec)

theorem merge_prob_correct_witness:
  "unat (merge_prob 200 3 40 24 112) = merge_prob_spec 200 3 40 24 112"
  using merge_prob_correct[of 3 40 24 112 200] by simp

text \<open>C29: each of the seven unrolled merges of the driver computes what the recursive tree
  merge of the specification computes on its tree, for all counts and probabilities, the partial
  sums it subtracts along the way included.\<close>

theorem merge_variants_are_tree_merges:
  "merge_probs_variant_a c sat uf p = merge_tree c sat uf small_token_tree p \<and>
   merge_probs_variant_b c sat uf p = merge_tree c sat uf binary_tree p \<and>
   merge_probs_variant_c c p = merge_tree c 20 128 inter_mode_tree p \<and>
   merge_probs_variant_d c p = merge_tree c 20 128 intra_mode_tree p \<and>
   merge_probs_variant_e c p = merge_tree c 20 128 partition_tree p \<and>
   merge_probs_variant_f c p = merge_tree c 20 128 interp_filter_tree p \<and>
   merge_probs_variant_g c p = merge_tree c 20 128 mv_class_tree p"
  by (intro conjI variant_trees)

text \<open>\<open>cedrus_vp9_adapt_coef_probs\<close> cell by cell: in every context that exists in its
  band the three probabilities are merged with their own counts (the more-coefficients
  probability with the end-of-block counts), saturation 24 and update factor 112, or 128 for the
  inter frame after a key frame; the contexts that do not exist are left alone.\<close>

theorem adapt_coef_probs_cells:
  assumes "coef_all (\<lambda>_. True) (coef c)"
    and "s < 4" "j < 2" "k < 2" "l < 6" "m < 6"
  shows "coef (adapt_coef_probs counts u128 intra c) ! s ! j ! k ! l ! m =
    (let p = coef c ! s ! j ! k ! l ! m;
         ct = ct_coeff counts ! s ! j ! k ! l ! m;
         eob = ct_eob counts ! s ! j ! k ! l ! m;
         uf = (if u128 \<and> \<not> intra then 128 else 112)
     in if m < BAND_6 l
        then [merge_prob (p ! 0) (eob ! 1) (eob ! 0 - eob ! 1) 24 uf,
              merge_prob (p ! 1) (ct ! 0) (ct ! 1 + ct ! 2) 24 uf,
              merge_prob (p ! 2) (ct ! 1) (ct ! 2) 24 uf]
        else p)"
  using assms by (rule adapt_coef_probs_nth)

theorem adapt_coef_probs_cells_witness:
  "coef (adapt_coef_probs (flat_counts 7) True False default_probs) ! 3 ! 1 ! 0 ! 0 ! 3 =
    coef default_probs ! 3 ! 1 ! 0 ! 0 ! 3"
proof -
  have "coef_all (\<lambda>_. True) (coef default_probs)"
    using coef_all_mono[OF default_coef_valid, of "\<lambda>_. True"] by (simp add: default_probs_def)
  from adapt_coef_probs_cells[OF this, of 3 1 0 0 3 "flat_counts 7" True False]
  show ?thesis by (simp add: BAND_6_def Let_def)
qed

text \<open>The backward adaptation keeps the context valid, whatever the counts are, even
  counts whose sums wrap: after \<open>cedrus_vp9_adapt_coef_probs\<close> and
  \<open>cedrus_vp9_adapt_noncoef_probs\<close> all dimensions are right and no probability the
  decoder reads is zero.\<close>

theorem adapt_probs_valid:
  assumes "valid_probs c"
  shows "valid_probs (adapt_noncoef_probs counts rm ifl txm flags
    (adapt_coef_probs counts' u128 intra c))"
  by (intro adapt_noncoef_probs_all adapt_coef_probs_all assms)

theorem adapt_probs_valid_witness:
  "valid_probs (adapt_noncoef_probs (flat_counts 7) 1 4 4 0x10 (adapt_coef_probs (flat_counts 7) True False default_probs))"
  by (rule adapt_probs_valid[OF default_probs_valid])

text \<open>What \<open>cedrus_vp9_adapt_noncoef_probs\<close> must not touch: the coefficients always,
  the interpolation filters unless the frame's filter is switchable, the single references of a
  compound-only frame, the transform sizes unless the frame selects them per block, and the
  high-precision motion vector bits unless the frame allows them.\<close>

theorem adapt_noncoef_probs_frame:
  "coef (adapt_noncoef_probs counts rm ifl txm flags c) = coef c \<and>
   (interp_filter (adapt_noncoef_probs counts rm ifl txm flags c) \<noteq> interp_filter c \<longrightarrow>
     ifl = V4L2_VP9_INTERP_FILTER_SWITCHABLE) \<and>
   (single_ref (adapt_noncoef_probs counts rm ifl txm flags c) \<noteq> single_ref c \<longrightarrow>
     rm \<noteq> V4L2_VP9_REFERENCE_MODE_COMPOUND_REFERENCE) \<and>
   ((tx8 (adapt_noncoef_probs counts rm ifl txm flags c), tx16 (adapt_noncoef_probs counts rm ifl txm flags c),
     tx32 (adapt_noncoef_probs counts rm ifl txm flags c)) \<noteq> (tx8 c, tx16 c, tx32 c) \<longrightarrow>
     txm = V4L2_VP9_TX_MODE_SELECT) \<and>
   ((mv_hp (adapt_noncoef_probs counts rm ifl txm flags c),
     mv_class0_hp (adapt_noncoef_probs counts rm ifl txm flags c)) \<noteq> (mv_hp c, mv_class0_hp c) \<longrightarrow>
     flag_set flags V4L2_VP9_FRAME_FLAG_ALLOW_HIGH_PREC_MV)"
  using adapt_noncoef_frame[where c = c and counts = counts and rm = rm and ifl = ifl and txm = txm and flags = flags] by auto

theorem adapt_noncoef_probs_frame_witness:
  "interp_filter (adapt_noncoef_probs (flat_counts 7) 0 1 4 0 default_probs) = default_interp_filter"
  using adapt_noncoef_probs_frame[of "flat_counts 7" 0 1 4 0 default_probs]
  by (simp add: hdr_simps default_probs_def)

end
