(* ===== verification/Cedrus_Device.thy ===== *)
theory Cedrus_Device
  imports Cedrus_Prelude
begin

unbundle bit_operations_syntax

text \<open>The device the engines share (\<open>cedrus.h\<close>, \<open>cedrus.c\<close>): its variants and
  capabilities, the translation of DMA addresses into the two address formats of the video
  engine, and register input and output.

  The driver's output to the hardware is a log of register accesses, oldest first: \<open>Write\<close> for
  \<open>writel\<close>, \<open>Poll\<close> for a bounded wait on register bits (none of the callers modelled here
  looks at the result of a wait), \<open>Delay\<close> for \<open>udelay\<close>.  What the hardware answers to a read is a parameter \<open>hw\<close> of
  the definitions that read: a function of the accesses so far and the register.\<close>

section \<open>Bit fields\<close>

definition BIT :: "nat \<Rightarrow> 'a::len word" where
  "BIT n = push_bit n 1"

definition GENMASK :: "nat \<Rightarrow> nat \<Rightarrow> 'a::len word" where
  "GENMASK h l = push_bit l (mask (h + 1 - l))"

text \<open>The macro shifts its argument as an \<open>unsigned long\<close> of 64 bits; its uses store the
  result in a \<open>u32\<close>.\<close>

definition SHIFT_AND_MASK_BITS :: "int \<Rightarrow> nat \<Rightarrow> nat \<Rightarrow> u32" where
  "SHIFT_AND_MASK_BITS v h l = ucast (push_bit l (word_of_int v) AND GENMASK h l :: u64)"

lemma bit_SHIFT_AND_MASK_BITS:
  "h < 32 \<Longrightarrow> bit (SHIFT_AND_MASK_BITS v h l) n \<longleftrightarrow> l \<le> n \<and> n \<le> h \<and> bit v (n - l)"
  by (auto simp: SHIFT_AND_MASK_BITS_def GENMASK_def bit_simps)

section \<open>Variants and capabilities\<close>

datatype errno = EINVAL | ENODEV | ENOMEM | EOPNOTSUPP | EBUSY | ENOSPC | ERANGE | EOVERFLOW

datatype cedrus_irq_status = CEDRUS_IRQ_NONE | CEDRUS_IRQ_ERROR | CEDRUS_IRQ_SUCCESS

definition CEDRUS_CAPABILITY_UNTILED :: u32 where [hdr_simps]: "CEDRUS_CAPABILITY_UNTILED = BIT 0"
definition CEDRUS_CAPABILITY_MPEG2_DEC :: u32 where [hdr_simps]: "CEDRUS_CAPABILITY_MPEG2_DEC = BIT 1"
definition CEDRUS_CAPABILITY_H264_DEC :: u32 where [hdr_simps]: "CEDRUS_CAPABILITY_H264_DEC = BIT 2"
definition CEDRUS_CAPABILITY_H265_DEC :: u32 where [hdr_simps]: "CEDRUS_CAPABILITY_H265_DEC = BIT 3"
definition CEDRUS_CAPABILITY_H265_10_DEC :: u32 where [hdr_simps]: "CEDRUS_CAPABILITY_H265_10_DEC = BIT 4"
definition CEDRUS_CAPABILITY_VP8_DEC :: u32 where [hdr_simps]: "CEDRUS_CAPABILITY_VP8_DEC = BIT 5"
definition CEDRUS_CAPABILITY_H264_ENC :: u32 where [hdr_simps]: "CEDRUS_CAPABILITY_H264_ENC = BIT 6"
definition CEDRUS_CAPABILITY_VP9_DEC :: u32 where [hdr_simps]: "CEDRUS_CAPABILITY_VP9_DEC = BIT 7"
definition CEDRUS_CAPABILITY_JPEG_ENC :: u32 where [hdr_simps]: "CEDRUS_CAPABILITY_JPEG_ENC = BIT 8"

record cedrus_variant =
  var_capabilities :: u32
  var_clock_mod_rate :: nat
  var_dma_offset :: u64
  var_enc_addr_shift :: nat

record cedrus_device =
  dev_capabilities :: u32
  dev_dma_offset :: u64
  dev_enc_addr_shift :: nat

definition cedrus_variant_sun4i_a10 :: cedrus_variant where
  "cedrus_variant_sun4i_a10 = \<lparr>var_capabilities =
    CEDRUS_CAPABILITY_MPEG2_DEC OR
    CEDRUS_CAPABILITY_H264_DEC OR
    CEDRUS_CAPABILITY_VP8_DEC,
    var_clock_mod_rate = 320000000, var_dma_offset = 0, var_enc_addr_shift = 0\<rparr>"

definition cedrus_variant_sun5i_a13 :: cedrus_variant where
  "cedrus_variant_sun5i_a13 = \<lparr>var_capabilities =
    CEDRUS_CAPABILITY_MPEG2_DEC OR
    CEDRUS_CAPABILITY_H264_DEC OR
    CEDRUS_CAPABILITY_VP8_DEC,
    var_clock_mod_rate = 320000000, var_dma_offset = 0, var_enc_addr_shift = 0\<rparr>"

definition cedrus_variant_sun7i_a20 :: cedrus_variant where
  "cedrus_variant_sun7i_a20 = \<lparr>var_capabilities =
    CEDRUS_CAPABILITY_MPEG2_DEC OR
    CEDRUS_CAPABILITY_H264_DEC OR
    CEDRUS_CAPABILITY_VP8_DEC,
    var_clock_mod_rate = 320000000, var_dma_offset = 0, var_enc_addr_shift = 0\<rparr>"

definition cedrus_variant_sun8i_a33 :: cedrus_variant where
  "cedrus_variant_sun8i_a33 = \<lparr>var_capabilities =
    CEDRUS_CAPABILITY_UNTILED OR
    CEDRUS_CAPABILITY_MPEG2_DEC OR
    CEDRUS_CAPABILITY_H264_DEC OR
    CEDRUS_CAPABILITY_VP8_DEC,
    var_clock_mod_rate = 320000000, var_dma_offset = 0, var_enc_addr_shift = 0\<rparr>"

definition cedrus_variant_sun8i_h3 :: cedrus_variant where
  "cedrus_variant_sun8i_h3 = \<lparr>var_capabilities =
    CEDRUS_CAPABILITY_UNTILED OR
    CEDRUS_CAPABILITY_MPEG2_DEC OR
    CEDRUS_CAPABILITY_H264_DEC OR
    CEDRUS_CAPABILITY_H265_DEC OR
    CEDRUS_CAPABILITY_VP8_DEC,
    var_clock_mod_rate = 402000000, var_dma_offset = 0, var_enc_addr_shift = 0\<rparr>"

definition cedrus_variant_sun8i_v3s :: cedrus_variant where
  "cedrus_variant_sun8i_v3s = \<lparr>var_capabilities =
    CEDRUS_CAPABILITY_UNTILED OR
    CEDRUS_CAPABILITY_H264_DEC OR
    CEDRUS_CAPABILITY_H264_ENC,
    var_clock_mod_rate = 402000000, var_dma_offset = 0, var_enc_addr_shift = 0\<rparr>"

definition cedrus_variant_sun8i_r40 :: cedrus_variant where
  "cedrus_variant_sun8i_r40 = \<lparr>var_capabilities =
    CEDRUS_CAPABILITY_UNTILED OR
    CEDRUS_CAPABILITY_MPEG2_DEC OR
    CEDRUS_CAPABILITY_H264_DEC OR
    CEDRUS_CAPABILITY_VP8_DEC,
    var_clock_mod_rate = 297000000, var_dma_offset = 0, var_enc_addr_shift = 0\<rparr>"

definition cedrus_variant_sun20i_d1 :: cedrus_variant where
  "cedrus_variant_sun20i_d1 = \<lparr>var_capabilities =
    CEDRUS_CAPABILITY_UNTILED OR
    CEDRUS_CAPABILITY_MPEG2_DEC OR
    CEDRUS_CAPABILITY_H264_DEC OR
    CEDRUS_CAPABILITY_H265_DEC,
    var_clock_mod_rate = 432000000, var_dma_offset = 0, var_enc_addr_shift = 0\<rparr>"

definition cedrus_variant_sun50i_a64 :: cedrus_variant where
  "cedrus_variant_sun50i_a64 = \<lparr>var_capabilities =
    CEDRUS_CAPABILITY_UNTILED OR
    CEDRUS_CAPABILITY_MPEG2_DEC OR
    CEDRUS_CAPABILITY_H264_DEC OR
    CEDRUS_CAPABILITY_H265_DEC OR
    CEDRUS_CAPABILITY_VP8_DEC,
    var_clock_mod_rate = 402000000, var_dma_offset = 0, var_enc_addr_shift = 0\<rparr>"

definition cedrus_variant_sun50i_h5 :: cedrus_variant where
  "cedrus_variant_sun50i_h5 = \<lparr>var_capabilities =
    CEDRUS_CAPABILITY_UNTILED OR
    CEDRUS_CAPABILITY_MPEG2_DEC OR
    CEDRUS_CAPABILITY_H264_DEC OR
    CEDRUS_CAPABILITY_H265_DEC OR
    CEDRUS_CAPABILITY_VP8_DEC,
    var_clock_mod_rate = 402000000, var_dma_offset = 0, var_enc_addr_shift = 0\<rparr>"

definition cedrus_variant_sun50i_h6 :: cedrus_variant where
  "cedrus_variant_sun50i_h6 = \<lparr>var_capabilities =
    CEDRUS_CAPABILITY_UNTILED OR
    CEDRUS_CAPABILITY_MPEG2_DEC OR
    CEDRUS_CAPABILITY_H264_DEC OR
    CEDRUS_CAPABILITY_H265_DEC OR
    CEDRUS_CAPABILITY_H265_10_DEC OR
    CEDRUS_CAPABILITY_VP8_DEC,
    var_clock_mod_rate = 600000000, var_dma_offset = 0, var_enc_addr_shift = 0\<rparr>"

definition cedrus_variant_sun50i_h616 :: cedrus_variant where
  "cedrus_variant_sun50i_h616 = \<lparr>var_capabilities =
    CEDRUS_CAPABILITY_UNTILED OR
    CEDRUS_CAPABILITY_MPEG2_DEC OR
    CEDRUS_CAPABILITY_H264_DEC OR
    CEDRUS_CAPABILITY_H265_DEC OR
    CEDRUS_CAPABILITY_VP8_DEC OR
    CEDRUS_CAPABILITY_VP9_DEC OR
    CEDRUS_CAPABILITY_H264_ENC OR
    CEDRUS_CAPABILITY_JPEG_ENC,
    var_clock_mod_rate = 696000000, var_dma_offset = 0, var_enc_addr_shift = 8\<rparr>"

definition cedrus_of_match :: "(string \<times> cedrus_variant) list" where
  "cedrus_of_match = [
    (''allwinner,sun4i-a10-video-engine'', cedrus_variant_sun4i_a10),
    (''allwinner,sun5i-a13-video-engine'', cedrus_variant_sun5i_a13),
    (''allwinner,sun7i-a20-video-engine'', cedrus_variant_sun7i_a20),
    (''allwinner,sun8i-a33-video-engine'', cedrus_variant_sun8i_a33),
    (''allwinner,sun8i-h3-video-engine'', cedrus_variant_sun8i_h3),
    (''allwinner,sun8i-v3s-video-engine'', cedrus_variant_sun8i_v3s),
    (''allwinner,sun8i-r40-video-engine'', cedrus_variant_sun8i_r40),
    (''allwinner,sun20i-d1-video-engine'', cedrus_variant_sun20i_d1),
    (''allwinner,sun50i-a64-video-engine'', cedrus_variant_sun50i_a64),
    (''allwinner,sun50i-h5-video-engine'', cedrus_variant_sun50i_h5),
    (''allwinner,sun50i-h6-video-engine'', cedrus_variant_sun50i_h6),
    (''allwinner,sun50i-h616-video-engine'', cedrus_variant_sun50i_h616)]"

text \<open>\<open>cedrus_resources_setup\<close> copies the variant into the device.\<close>

definition device_of_variant :: "cedrus_variant \<Rightarrow> cedrus_device" where
  "device_of_variant v = \<lparr>dev_capabilities = var_capabilities v,
    dev_dma_offset = var_dma_offset v, dev_enc_addr_shift = var_enc_addr_shift v\<rparr>"

definition cedrus_capabilities_check :: "cedrus_device \<Rightarrow> u32 \<Rightarrow> bool" where
  "cedrus_capabilities_check dev caps = (dev_capabilities dev AND caps = caps)"

section \<open>DMA addresses\<close>

definition cedrus_dma_addr :: "cedrus_device \<Rightarrow> u64 \<Rightarrow> u32" where
  "cedrus_dma_addr dev addr =
    (if addr = 0 then 0
     else if addr < dev_dma_offset dev \<or> 0xffffffff < addr - dev_dma_offset dev then 0
     else ucast (addr - dev_dma_offset dev))"

definition cedrus_enc_dma_addr :: "cedrus_device \<Rightarrow> u64 \<Rightarrow> u32" where
  "cedrus_enc_dma_addr dev addr =
    (if addr = 0 then 0
     else if dev_enc_addr_shift dev = 0 then cedrus_dma_addr dev addr
     else if 0xffffffff < drop_bit (dev_enc_addr_shift dev) addr then 0
     else ucast (drop_bit (dev_enc_addr_shift dev) addr))"

section \<open>DMA memory\<close>

text \<open>The live DMA allocations (address and size), newest first.  The allocator is a
  parameter: given the live allocations and a size it returns an address or fails.\<close>

type_synonym dma_heap = "(u64 \<times> nat) list"
type_synonym dma_alloc = "dma_heap \<Rightarrow> nat \<Rightarrow> u64 option"

definition dma_free :: "nat \<Rightarrow> u64 \<Rightarrow> dma_heap \<Rightarrow> dma_heap" where
  "dma_free sz addr heap = remove1 (addr, sz) heap"

section \<open>Formats and buffers\<close>

text \<open>The parts of \<open>v4l2_pix_format\<close>, of a frame interval, of a rectangle and of a video buffer the
  driver uses.\<close>

record pix_format =
  pix_width :: u32
  pix_height :: u32
  bytesperline :: u32
  sizeimage :: u32
  pixelformat :: u32
  pix_field :: u32
  colorspace :: u32
  xfer_func :: u32
  ycbcr_enc :: u32
  quantization :: u32

definition zero_pix :: pix_format where
  "zero_pix = \<lparr>pix_width = 0, pix_height = 0, bytesperline = 0, sizeimage = 0, pixelformat = 0,
    pix_field = 0, colorspace = 0, xfer_func = 0, ycbcr_enc = 0, quantization = 0\<rparr>"

record v4l2_fract =
  numerator :: u32
  denominator :: u32

record v4l2_rect =
  rect_left :: int
  rect_top :: int
  rect_width :: u32
  rect_height :: u32

datatype buf_flag = FLAG_KEYFRAME | FLAG_PFRAME | FLAG_ERROR

record coded_buffer =
  plane_size :: nat
  plane_payload :: nat
  buf_flags :: "buf_flag set"

section \<open>Register access\<close>

datatype io = Write u32 u32 | Poll u32 u32 | Delay nat

type_synonym io_log = "io list"
type_synonym hw_read = "io list \<Rightarrow> u32 \<Rightarrow> u32"

definition cedrus_write :: "u32 \<Rightarrow> u32 \<Rightarrow> io_log \<Rightarrow> io_log" where
  "cedrus_write reg val log = log @ [Write reg val]"

definition cedrus_poll :: "u32 \<Rightarrow> u32 \<Rightarrow> io_log \<Rightarrow> io_log" where
  "cedrus_poll reg bits log = log @ [Poll reg bits]"

definition cedrus_read :: "hw_read \<Rightarrow> u32 \<Rightarrow> io_log \<Rightarrow> u32" where
  "cedrus_read hw reg log = hw log reg"

text \<open>Several calls to \<open>cedrus_write\<close>, in order.\<close>

definition writes :: "(u32 \<times> u32) list \<Rightarrow> io_log \<Rightarrow> io_log" where
  "writes ws log = fold (\<lambda>(reg, v). cedrus_write reg v) ws log"

text \<open>The value a register was last given.\<close>

definition last_write :: "u32 \<Rightarrow> io_log \<Rightarrow> u32 option" where
  "last_write reg log =
    fold (\<lambda>e v. case e of Write r x \<Rightarrow> if r = reg then Some x else v | _ \<Rightarrow> v) log None"

lemma last_write_Nil [simp]: "last_write reg [] = None"
  by (simp add: last_write_def)

lemma last_write_snoc [simp]:
  "last_write reg (log @ [Write r x]) = (if r = reg then Some x else last_write reg log)"
  "last_write reg (log @ [Poll r x]) = last_write reg log"
  "last_write reg (log @ [Delay n]) = last_write reg log"
  by (simp_all add: last_write_def)

lemma last_write_write [simp]:
  "last_write r (cedrus_write r' x log) = (if r' = r then Some x else last_write r log)"
  "last_write r (cedrus_poll r' x log) = last_write r log"
  by (simp_all add: cedrus_write_def cedrus_poll_def)

lemma writes_Nil [simp]: "writes [] log = log"
  and writes_Cons: "writes (w # ws) log = writes ws (cedrus_write (fst w) (snd w) log)"
  by (simp_all add: writes_def case_prod_unfold)

lemma writes_append [simp]: "writes (ws @ vs) log = writes vs (writes ws log)"
  by (simp add: writes_def)

lemma last_write_writes:
  "last_write r (writes ws log) = (case map_of (rev ws) r of None \<Rightarrow> last_write r log | Some v \<Rightarrow> Some v)"
proof (induction ws arbitrary: log)
  case (Cons w ws)
  then show ?case
    by (cases w) (auto simp: writes_Cons cedrus_write_def map_add_def split: option.splits)
qed simp

lemma bit_BIT: "bit (BIT k :: u32) n \<longleftrightarrow> n = k \<and> k < 32"
  by (auto simp: BIT_def bit_push_bit_iff bit_1_iff simp del: push_bit_of_1)

text \<open>Reading a register field back, unsigned and as two's complement.\<close>

definition field :: "nat \<Rightarrow> nat \<Rightarrow> u32 \<Rightarrow> int" where
  "field h l p = take_bit (h + 1 - l) (drop_bit l (uint p))"

definition sfield :: "nat \<Rightarrow> nat \<Rightarrow> u32 \<Rightarrow> int" where
  "sfield h l p = signed_take_bit (h - l) (drop_bit l (uint p))"

lemma field_eq:
  assumes "\<And>k. l + k \<le> h \<Longrightarrow> bit p (l + k) = bit v k" "l \<le> h" "h < 32"
  shows "field h l p = take_bit (h + 1 - l) v"
  unfolding field_def
  by (rule bit_eqI) (use assms in \<open>auto simp: bit_simps\<close>)

lemma sfield_eq:
  assumes "\<And>k. l + k \<le> h \<Longrightarrow> bit p (l + k) = bit v k" "l \<le> h" "h < 32"
  shows "sfield h l p = signed_take_bit (h - l) v"
  unfolding sfield_def
  by (rule bit_eqI) (use assms assms(1)[of "h - l"] in \<open>auto simp: bit_simps min_def\<close>)

lemma unat_drop_bit64: "unat (drop_bit s (addr :: u64)) = unat addr div 2 ^ s"
  using unat_lt2p[of addr]
  by (simp add: unsigned_drop_bit_eq take_bit_nat_eq_self drop_bit_eq_div[where 'a = nat])

lemma not_less_ffff: "\<not> (0xffffffff :: u64) < a \<longleftrightarrow> unat a < 2 ^ 32"
  by (auto simp: word_less_nat_alt)

text \<open>A 32-bit address register of the decoder block holds the bus address less the
  variant's DMA offset when that fits, and 0 otherwise; a register of the shifted encoder of the
  H618 holds the address divided by the shift unit when that fits.  A bus address that is a
  multiple of the unit is therefore recovered exactly, and no address is silently truncated at
  the top.\<close>

theorem dma_addr_registers:
  "unat (cedrus_dma_addr dev addr) =
    (if addr \<noteq> 0 \<and> unat (dev_dma_offset dev) \<le> unat addr \<and>
        unat addr - unat (dev_dma_offset dev) < 2 ^ 32
     then unat addr - unat (dev_dma_offset dev) else 0) \<and>
   unat (cedrus_enc_dma_addr dev addr) =
    (if dev_enc_addr_shift dev = 0 then unat (cedrus_dma_addr dev addr)
     else if unat addr div 2 ^ dev_enc_addr_shift dev < 2 ^ 32
     then unat addr div 2 ^ dev_enc_addr_shift dev else 0)"
proof
  let ?o = "dev_dma_offset dev" and ?s = "dev_enc_addr_shift dev"
  have u: "unat (ucast a :: u32) = unat a" if "unat (a :: u64) < 2 ^ 32" for a
    using that by (simp add: unat_ucast_mod)
  show a: "unat (cedrus_dma_addr dev addr) =
    (if addr \<noteq> 0 \<and> unat ?o \<le> unat addr \<and> unat addr - unat ?o < 2 ^ 32
     then unat addr - unat ?o else 0)"
  proof (cases "unat ?o \<le> unat addr")
    case True
    then have "unat (addr - ?o) = unat addr - unat ?o" by (simp add: unat_sub word_le_nat_alt)
    then show ?thesis
      using True u[of "addr - ?o"] not_less_ffff[of "addr - ?o"]
      by (auto simp: cedrus_dma_addr_def word_less_nat_alt)
  qed (auto simp: cedrus_dma_addr_def word_less_nat_alt)
  have "unat (cedrus_enc_dma_addr dev addr) = (if unat addr div 2 ^ ?s < 2 ^ 32
     then unat addr div 2 ^ ?s else 0)" if "?s \<noteq> 0"
    using that u[of "drop_bit ?s addr"] not_less_ffff[of "drop_bit ?s addr"]
    by (auto simp: cedrus_enc_dma_addr_def unat_drop_bit64)
  then show "unat (cedrus_enc_dma_addr dev addr) =
    (if ?s = 0 then unat (cedrus_dma_addr dev addr)
     else if unat addr div 2 ^ ?s < 2 ^ 32 then unat addr div 2 ^ ?s else 0)"
    by (auto simp: cedrus_enc_dma_addr_def cedrus_dma_addr_def)
qed

lemma enc_dma_exact:
  assumes "dev_enc_addr_shift dev = s" "s \<noteq> 0" "2 ^ s dvd unat addr" "unat addr < 2 ^ (32 + s)"
  shows "unat (cedrus_enc_dma_addr dev addr) * 2 ^ s = unat addr"
proof -
  have "unat addr div 2 ^ s < 2 ^ 32"
    using assms(4) by (intro less_mult_imp_div_less) (simp add: power_add)
  then have "unat (cedrus_enc_dma_addr dev addr) = unat addr div 2 ^ s"
    using not_less_ffff[of "drop_bit s addr"] assms(1,2)
    by (auto simp: cedrus_enc_dma_addr_def unat_drop_bit64 unat_ucast_mod)
  then show ?thesis using assms(3) by simp
qed

end
