(* ===== verification/Cedrus_Regs.thy ===== *)
theory Cedrus_Regs
  imports Cedrus_Device
begin

text \<open>The registers and register fields of \<open>cedrus_regs.h\<close> that the modelled code uses, under
  the names of the header.\<close>

definition VE_ENGINE_ENC_ISP_BASE :: u32 where
  [hdr_simps]: "VE_ENGINE_ENC_ISP_BASE = 0xa00"

definition VE_ENGINE_ENC_H264_BASE :: u32 where
  [hdr_simps]: "VE_ENGINE_ENC_H264_BASE = 0xb00"

definition VE_MODE_REG :: u32 where
  [hdr_simps]: "VE_MODE_REG = 0x00"

definition VE_MODE_RAMPD :: u32 where
  [hdr_simps]: "VE_MODE_RAMPD = BIT 31"

definition VE_MODE_PIC_WIDTH_IS_4096 :: u32 where
  [hdr_simps]: "VE_MODE_PIC_WIDTH_IS_4096 = BIT 22"

definition VE_MODE_PIC_WIDTH_MORE_2048 :: u32 where
  [hdr_simps]: "VE_MODE_PIC_WIDTH_MORE_2048 = BIT 21"

definition VE_MODE_REC_WR_MODE_2MB :: u32 where
  [hdr_simps]: "VE_MODE_REC_WR_MODE_2MB = push_bit 20 1"

definition VE_MODE_DDR_MODE_BW_128 :: u32 where
  [hdr_simps]: "VE_MODE_DDR_MODE_BW_128 = push_bit 16 3"

definition VE_MODE_DDR_MODE_BW_256 :: u32 where
  [hdr_simps]: "VE_MODE_DDR_MODE_BW_256 = push_bit 16 2"

definition VE_MODE_ENC_ENABLE :: u32 where
  [hdr_simps]: "VE_MODE_ENC_ENABLE = BIT 7"

definition VE_MODE_ENC_ISP_ENABLE :: u32 where
  [hdr_simps]: "VE_MODE_ENC_ISP_ENABLE = BIT 6"

definition VE_MODE_DEC_DISABLED :: u32 where
  [hdr_simps]: "VE_MODE_DEC_DISABLED = push_bit 0 7"

definition VE_MODE_DEC_H265 :: u32 where
  [hdr_simps]: "VE_MODE_DEC_H265 = push_bit 0 4"

definition VE_MODE_DEC_VP9 :: u32 where
  [hdr_simps]: "VE_MODE_DEC_VP9 = VE_MODE_DEC_H265"

definition VE_MODE_DEC_H264 :: u32 where
  [hdr_simps]: "VE_MODE_DEC_H264 = push_bit 0 1"

definition VE_MODE_DEC_MPEG :: u32 where
  [hdr_simps]: "VE_MODE_DEC_MPEG = push_bit 0 0"

definition VE_RESET_REG :: u32 where
  [hdr_simps]: "VE_RESET_REG = 0x4"

definition VE_RESET_ENCODER_RESET :: u32 where
  [hdr_simps]: "VE_RESET_ENCODER_RESET = BIT 24"

definition VE_RESET_SYNC_IDLE :: u32 where
  [hdr_simps]: "VE_RESET_SYNC_IDLE = BIT 9"

definition VE_RESET_CACHE_SYNC_IDLE :: u32 where
  [hdr_simps]: "VE_RESET_CACHE_SYNC_IDLE = BIT 8"

definition VE_BUF_CTRL :: u32 where
  [hdr_simps]: "VE_BUF_CTRL = 0x50"

definition VE_BUF_CTRL_INTRAPRED_MIXED_RAM :: u32 where
  [hdr_simps]: "VE_BUF_CTRL_INTRAPRED_MIXED_RAM = push_bit 2 1"

definition VE_BUF_CTRL_INTRAPRED_INT_SRAM :: u32 where
  [hdr_simps]: "VE_BUF_CTRL_INTRAPRED_INT_SRAM = push_bit 2 0"

definition VE_BUF_CTRL_DBLK_MIXED_RAM :: u32 where
  [hdr_simps]: "VE_BUF_CTRL_DBLK_MIXED_RAM = push_bit 0 1"

definition VE_BUF_CTRL_DBLK_INT_SRAM :: u32 where
  [hdr_simps]: "VE_BUF_CTRL_DBLK_INT_SRAM = push_bit 0 0"

definition VE_DBLK_DRAM_BUF_ADDR :: u32 where
  [hdr_simps]: "VE_DBLK_DRAM_BUF_ADDR = 0x54"

definition VE_INTRAPRED_DRAM_BUF_ADDR :: u32 where
  [hdr_simps]: "VE_INTRAPRED_DRAM_BUF_ADDR = 0x58"

definition VE_PRIMARY_CHROMA_BUF_LEN :: u32 where
  [hdr_simps]: "VE_PRIMARY_CHROMA_BUF_LEN = 0xc4"

definition VE_PRIMARY_FB_LINE_STRIDE :: u32 where
  [hdr_simps]: "VE_PRIMARY_FB_LINE_STRIDE = 0xc8"

definition VE_PRIMARY_FB_LINE_STRIDE_CHROMA :: "int \<Rightarrow> u32" where
  [hdr_simps]: "VE_PRIMARY_FB_LINE_STRIDE_CHROMA s = SHIFT_AND_MASK_BITS s 31 16"

definition VE_PRIMARY_FB_LINE_STRIDE_LUMA :: "int \<Rightarrow> u32" where
  [hdr_simps]: "VE_PRIMARY_FB_LINE_STRIDE_LUMA s = SHIFT_AND_MASK_BITS s 15 0"

definition VE_CHROMA_BUF_LEN :: u32 where
  [hdr_simps]: "VE_CHROMA_BUF_LEN = 0xe8"

definition VE_SECONDARY_OUT_FMT_TILED_32_NV12 :: u32 where
  [hdr_simps]: "VE_SECONDARY_OUT_FMT_TILED_32_NV12 = push_bit 30 0"

definition VE_PRIMARY_OUT_FMT :: u32 where
  [hdr_simps]: "VE_PRIMARY_OUT_FMT = 0xec"

definition VE_PRIMARY_OUT_FMT_TILED_32_NV12 :: u32 where
  [hdr_simps]: "VE_PRIMARY_OUT_FMT_TILED_32_NV12 = push_bit 4 0"

definition VE_PRIMARY_OUT_FMT_NV12 :: u32 where
  [hdr_simps]: "VE_PRIMARY_OUT_FMT_NV12 = push_bit 4 4"

definition VE_H264_SPS :: u32 where
  [hdr_simps]: "VE_H264_SPS = 0x200"

definition VE_H264_SPS_MBS_ONLY :: u32 where
  [hdr_simps]: "VE_H264_SPS_MBS_ONLY = BIT 18"

definition VE_H264_SPS_MB_ADAPTIVE_FRAME_FIELD :: u32 where
  [hdr_simps]: "VE_H264_SPS_MB_ADAPTIVE_FRAME_FIELD = BIT 17"

definition VE_H264_SPS_DIRECT_8X8_INFERENCE :: u32 where
  [hdr_simps]: "VE_H264_SPS_DIRECT_8X8_INFERENCE = BIT 16"

definition VE_H264_PPS :: u32 where
  [hdr_simps]: "VE_H264_PPS = 0x204"

definition VE_H264_PPS_ENTROPY_CODING_MODE :: u32 where
  [hdr_simps]: "VE_H264_PPS_ENTROPY_CODING_MODE = BIT 15"

definition VE_H264_PPS_WEIGHTED_PRED :: u32 where
  [hdr_simps]: "VE_H264_PPS_WEIGHTED_PRED = BIT 4"

definition VE_H264_PPS_CONSTRAINED_INTRA_PRED :: u32 where
  [hdr_simps]: "VE_H264_PPS_CONSTRAINED_INTRA_PRED = BIT 1"

definition VE_H264_PPS_TRANSFORM_8X8_MODE :: u32 where
  [hdr_simps]: "VE_H264_PPS_TRANSFORM_8X8_MODE = BIT 0"

definition VE_H264_SHS :: u32 where
  [hdr_simps]: "VE_H264_SHS = 0x208"

definition VE_H264_SHS_FIRST_SLICE_IN_PIC :: u32 where
  [hdr_simps]: "VE_H264_SHS_FIRST_SLICE_IN_PIC = BIT 5"

definition VE_H264_SHS_FIELD_PIC :: u32 where
  [hdr_simps]: "VE_H264_SHS_FIELD_PIC = BIT 4"

definition VE_H264_SHS_BOTTOM_FIELD :: u32 where
  [hdr_simps]: "VE_H264_SHS_BOTTOM_FIELD = BIT 3"

definition VE_H264_SHS_DIRECT_SPATIAL_MV_PRED :: u32 where
  [hdr_simps]: "VE_H264_SHS_DIRECT_SPATIAL_MV_PRED = BIT 2"

definition VE_H264_SHS2 :: u32 where
  [hdr_simps]: "VE_H264_SHS2 = 0x20c"

definition VE_H264_SHS2_NUM_REF_IDX_ACTIVE_OVRD :: u32 where
  [hdr_simps]: "VE_H264_SHS2_NUM_REF_IDX_ACTIVE_OVRD = BIT 12"

definition VE_H264_SHS_WP :: u32 where
  [hdr_simps]: "VE_H264_SHS_WP = 0x210"

definition VE_H264_SHS_QP :: u32 where
  [hdr_simps]: "VE_H264_SHS_QP = 0x21c"

definition VE_H264_SHS_QP_SCALING_MATRIX_DEFAULT :: u32 where
  [hdr_simps]: "VE_H264_SHS_QP_SCALING_MATRIX_DEFAULT = BIT 24"

definition VE_H264_CTRL :: u32 where
  [hdr_simps]: "VE_H264_CTRL = 0x220"

definition VE_H264_CTRL_VLD_DATA_REQ_INT :: u32 where
  [hdr_simps]: "VE_H264_CTRL_VLD_DATA_REQ_INT = BIT 2"

definition VE_H264_CTRL_DECODE_ERR_INT :: u32 where
  [hdr_simps]: "VE_H264_CTRL_DECODE_ERR_INT = BIT 1"

definition VE_H264_CTRL_SLICE_DECODE_INT :: u32 where
  [hdr_simps]: "VE_H264_CTRL_SLICE_DECODE_INT = BIT 0"

definition VE_H264_CTRL_INT_MASK :: u32 where
  [hdr_simps]: "VE_H264_CTRL_INT_MASK = (VE_H264_CTRL_VLD_DATA_REQ_INT OR VE_H264_CTRL_DECODE_ERR_INT OR VE_H264_CTRL_SLICE_DECODE_INT)"

definition VE_H264_TRIGGER_TYPE :: u32 where
  [hdr_simps]: "VE_H264_TRIGGER_TYPE = 0x224"

definition VE_H264_TRIGGER_TYPE_N_BITS :: "u32 \<Rightarrow> u32" where
  [hdr_simps]: "VE_H264_TRIGGER_TYPE_N_BITS x = push_bit 8 (x AND 0x3f)"

definition VE_H264_TRIGGER_TYPE_AVC_SLICE_DECODE :: u32 where
  [hdr_simps]: "VE_H264_TRIGGER_TYPE_AVC_SLICE_DECODE = push_bit 0 8"

definition VE_H264_TRIGGER_TYPE_INIT_SWDEC :: u32 where
  [hdr_simps]: "VE_H264_TRIGGER_TYPE_INIT_SWDEC = push_bit 0 7"

definition VE_H264_TRIGGER_TYPE_FLUSH_BITS :: u32 where
  [hdr_simps]: "VE_H264_TRIGGER_TYPE_FLUSH_BITS = push_bit 0 3"

definition VE_H264_STATUS :: u32 where
  [hdr_simps]: "VE_H264_STATUS = 0x228"

definition VE_H264_STATUS_VLD_DATA_REQ_INT :: u32 where
  [hdr_simps]: "VE_H264_STATUS_VLD_DATA_REQ_INT = VE_H264_CTRL_VLD_DATA_REQ_INT"

definition VE_H264_STATUS_DECODE_ERR_INT :: u32 where
  [hdr_simps]: "VE_H264_STATUS_DECODE_ERR_INT = VE_H264_CTRL_DECODE_ERR_INT"

definition VE_H264_STATUS_VLD_BUSY :: u32 where
  [hdr_simps]: "VE_H264_STATUS_VLD_BUSY = BIT 8"

definition VE_H264_STATUS_INT_MASK :: u32 where
  [hdr_simps]: "VE_H264_STATUS_INT_MASK = VE_H264_CTRL_INT_MASK"

definition VE_H264_VLD_ADDR :: u32 where
  [hdr_simps]: "VE_H264_VLD_ADDR = 0x230"

definition VE_H264_VLD_ADDR_FIRST :: u32 where
  [hdr_simps]: "VE_H264_VLD_ADDR_FIRST = BIT 30"

definition VE_H264_VLD_ADDR_LAST :: u32 where
  [hdr_simps]: "VE_H264_VLD_ADDR_LAST = BIT 29"

definition VE_H264_VLD_ADDR_VALID :: u32 where
  [hdr_simps]: "VE_H264_VLD_ADDR_VALID = BIT 28"

definition VE_H264_VLD_ADDR_VAL :: "u64 \<Rightarrow> u32" where
  [hdr_simps]: "VE_H264_VLD_ADDR_VAL x = ucast ((x AND 0x0ffffff0) OR drop_bit 28 x)"

definition VE_H264_VLD_OFFSET :: u32 where
  [hdr_simps]: "VE_H264_VLD_OFFSET = 0x234"

definition VE_H264_VLD_LEN :: u32 where
  [hdr_simps]: "VE_H264_VLD_LEN = 0x238"

definition VE_H264_VLD_END :: u32 where
  [hdr_simps]: "VE_H264_VLD_END = 0x23c"

definition VE_H264_SDROT_CTRL :: u32 where
  [hdr_simps]: "VE_H264_SDROT_CTRL = 0x240"

definition VE_H264_OUTPUT_FRAME_IDX :: u32 where
  [hdr_simps]: "VE_H264_OUTPUT_FRAME_IDX = 0x24c"

definition VE_H264_EXTRA_BUFFER1 :: u32 where
  [hdr_simps]: "VE_H264_EXTRA_BUFFER1 = 0x250"

definition VE_H264_EXTRA_BUFFER2 :: u32 where
  [hdr_simps]: "VE_H264_EXTRA_BUFFER2 = 0x254"

definition VE_AVC_SRAM_PORT_OFFSET :: u32 where
  [hdr_simps]: "VE_AVC_SRAM_PORT_OFFSET = 0x2e0"

definition VE_AVC_SRAM_PORT_DATA :: u32 where
  [hdr_simps]: "VE_AVC_SRAM_PORT_DATA = 0x2e4"

definition VE_ISP_PIC_INFO_REG :: u32 where
  [hdr_simps]: "VE_ISP_PIC_INFO_REG = (VE_ENGINE_ENC_ISP_BASE + 0x0)"

definition VE_ISP_PIC_INFO_WIDTH_MBS :: "int \<Rightarrow> u32" where
  [hdr_simps]: "VE_ISP_PIC_INFO_WIDTH_MBS v = SHIFT_AND_MASK_BITS v 31 16"

definition VE_ISP_PIC_INFO_HEIGHT_MBS :: "int \<Rightarrow> u32" where
  [hdr_simps]: "VE_ISP_PIC_INFO_HEIGHT_MBS v = SHIFT_AND_MASK_BITS v 15 0"

definition VE_ISP_PIC_STRIDE0_REG :: u32 where
  [hdr_simps]: "VE_ISP_PIC_STRIDE0_REG = (VE_ENGINE_ENC_ISP_BASE + 0x4)"

definition VE_ISP_PIC_STRIDE0_INPUT_STRIDE_MBS :: "int \<Rightarrow> u32" where
  [hdr_simps]: "VE_ISP_PIC_STRIDE0_INPUT_STRIDE_MBS v = SHIFT_AND_MASK_BITS v 26 16"

definition VE_ISP_CTRL_REG :: u32 where
  [hdr_simps]: "VE_ISP_CTRL_REG = (VE_ENGINE_ENC_ISP_BASE + 0x8)"

definition VE_ISP_CTRL_FORMAT_YUV420SP :: u32 where
  [hdr_simps]: "VE_ISP_CTRL_FORMAT_YUV420SP = push_bit 27 0"

definition VE_ISP_CTRL_ROTATION_0 :: u32 where
  [hdr_simps]: "VE_ISP_CTRL_ROTATION_0 = push_bit 20 0"

definition VE_ISP_CTRL_COLORSPACE_BT601 :: u32 where
  [hdr_simps]: "VE_ISP_CTRL_COLORSPACE_BT601 = push_bit 1 0"

definition VE_ISP_SCALER_SIZE_REG :: u32 where
  [hdr_simps]: "VE_ISP_SCALER_SIZE_REG = (VE_ENGINE_ENC_ISP_BASE + 0x2c)"

definition VE_ISP_SCALER_SIZE_HEIGHT_MBS :: "int \<Rightarrow> u32" where
  [hdr_simps]: "VE_ISP_SCALER_SIZE_HEIGHT_MBS v = SHIFT_AND_MASK_BITS v 26 16"

definition VE_ISP_SCALER_SIZE_WIDTH_MBS :: "int \<Rightarrow> u32" where
  [hdr_simps]: "VE_ISP_SCALER_SIZE_WIDTH_MBS v = SHIFT_AND_MASK_BITS v 10 0"

definition VE_ISP_INPUT_LUMA_ADDR_REG :: u32 where
  [hdr_simps]: "VE_ISP_INPUT_LUMA_ADDR_REG = (VE_ENGINE_ENC_ISP_BASE + 0x78)"

definition VE_ISP_INPUT_CHROMA0_ADDR_REG :: u32 where
  [hdr_simps]: "VE_ISP_INPUT_CHROMA0_ADDR_REG = (VE_ENGINE_ENC_ISP_BASE + 0x7c)"

definition VE_ISP_H618_CTRL_REG :: u32 where
  [hdr_simps]: "VE_ISP_H618_CTRL_REG = (VE_ENGINE_ENC_ISP_BASE + 0xe4)"

definition VE_ENC_AVC_PARA0_REG :: u32 where
  [hdr_simps]: "VE_ENC_AVC_PARA0_REG = (VE_ENGINE_ENC_H264_BASE + 0x4)"

definition VE_ENC_AVC_PIC_INFO_REG :: u32 where
  [hdr_simps]: "VE_ENC_AVC_PIC_INFO_REG = (VE_ENGINE_ENC_H264_BASE + 0x0)"

definition VE_ENC_AVC_PARA0_EPTB_DIS :: u32 where
  [hdr_simps]: "VE_ENC_AVC_PARA0_EPTB_DIS = BIT 31"

definition VE_ENC_AVC_PARA0_FRAME_NUM :: "int \<Rightarrow> u32" where
  [hdr_simps]: "VE_ENC_AVC_PARA0_FRAME_NUM v = SHIFT_AND_MASK_BITS v 27 24"

definition VE_ENC_AVC_PARA0_BETA_OFFSET_DIV2 :: "int \<Rightarrow> u32" where
  [hdr_simps]: "VE_ENC_AVC_PARA0_BETA_OFFSET_DIV2 v = SHIFT_AND_MASK_BITS v 23 20"

definition VE_ENC_AVC_PARA0_ALPHA_OFFSET_DIV2 :: "int \<Rightarrow> u32" where
  [hdr_simps]: "VE_ENC_AVC_PARA0_ALPHA_OFFSET_DIV2 v = SHIFT_AND_MASK_BITS v 19 16"

definition VE_ENC_AVC_PARA0_FIX_MODE_NUM :: "int \<Rightarrow> u32" where
  [hdr_simps]: "VE_ENC_AVC_PARA0_FIX_MODE_NUM v = SHIFT_AND_MASK_BITS v 11 10"

definition VE_ENC_AVC_PARA0_ENTROPY_CODING_CAVLC :: u32 where
  [hdr_simps]: "VE_ENC_AVC_PARA0_ENTROPY_CODING_CAVLC = push_bit 8 0"

definition VE_ENC_AVC_PARA0_ENTROPY_CODING_CABAC :: u32 where
  [hdr_simps]: "VE_ENC_AVC_PARA0_ENTROPY_CODING_CABAC = push_bit 8 1"

definition VE_ENC_AVC_PARA0_SLICE_TYPE_I :: u32 where
  [hdr_simps]: "VE_ENC_AVC_PARA0_SLICE_TYPE_I = push_bit 4 0"

definition VE_ENC_AVC_PARA0_SLICE_TYPE_P :: u32 where
  [hdr_simps]: "VE_ENC_AVC_PARA0_SLICE_TYPE_P = push_bit 4 1"

definition VE_ENC_AVC_PARA0_REF_PIC_TYPE_FRAME :: u32 where
  [hdr_simps]: "VE_ENC_AVC_PARA0_REF_PIC_TYPE_FRAME = push_bit 2 0"

definition VE_ENC_AVC_PARA0_PIC_TYPE_FRAME :: u32 where
  [hdr_simps]: "VE_ENC_AVC_PARA0_PIC_TYPE_FRAME = push_bit 0 0"

definition VE_ENC_AVC_PARA1_REG :: u32 where
  [hdr_simps]: "VE_ENC_AVC_PARA1_REG = (VE_ENGINE_ENC_H264_BASE + 0x8)"

definition VE_ENC_AVC_PARA1_H618_MODE :: u32 where
  [hdr_simps]: "VE_ENC_AVC_PARA1_H618_MODE = BIT 27"

definition VE_ENC_AVC_PARA1_QP_CHROMA_OFFSET0 :: "int \<Rightarrow> u32" where
  [hdr_simps]: "VE_ENC_AVC_PARA1_QP_CHROMA_OFFSET0 v = SHIFT_AND_MASK_BITS v 18 16"

definition VE_ENC_AVC_PARA1_STRIDE_MBS_DIV_48 :: "int \<Rightarrow> u32" where
  [hdr_simps]: "VE_ENC_AVC_PARA1_STRIDE_MBS_DIV_48 v = SHIFT_AND_MASK_BITS v 13 10"

definition VE_ENC_AVC_PARA1_DYNAMIC_ME_EN :: u32 where
  [hdr_simps]: "VE_ENC_AVC_PARA1_DYNAMIC_ME_EN = BIT 8"

definition VE_ENC_AVC_PARA1_RC_MODE_FIXED :: u32 where
  [hdr_simps]: "VE_ENC_AVC_PARA1_RC_MODE_FIXED = push_bit 6 0"

definition VE_ENC_AVC_PARA1_FIXED_QP :: "int \<Rightarrow> u32" where
  [hdr_simps]: "VE_ENC_AVC_PARA1_FIXED_QP v = SHIFT_AND_MASK_BITS v 5 0"

definition VE_ENC_AVC_PARA2_REG :: u32 where
  [hdr_simps]: "VE_ENC_AVC_PARA2_REG = (VE_ENGINE_ENC_H264_BASE + 0xc)"

definition VE_ENC_AVC_ME_PARA_REG :: u32 where
  [hdr_simps]: "VE_ENC_AVC_ME_PARA_REG = (VE_ENGINE_ENC_H264_BASE + 0x10)"

definition VE_ENC_AVC_ME_PARA_WB_MV_INFO_DIS :: u32 where
  [hdr_simps]: "VE_ENC_AVC_ME_PARA_WB_MV_INFO_DIS = BIT 16"

definition VE_ENC_AVC_ME_PARA_QUANT_THRESHOLD_DIS :: u32 where
  [hdr_simps]: "VE_ENC_AVC_ME_PARA_QUANT_THRESHOLD_DIS = BIT 12"

definition VE_ENC_AVC_ME_PARA_SKIP_MB_DIS :: u32 where
  [hdr_simps]: "VE_ENC_AVC_ME_PARA_SKIP_MB_DIS = BIT 9"

definition VE_ENC_AVC_ME_PARA_FME_SEARCH_LEVEL :: "int \<Rightarrow> u32" where
  [hdr_simps]: "VE_ENC_AVC_ME_PARA_FME_SEARCH_LEVEL v = SHIFT_AND_MASK_BITS v 2 1"

definition VE_ENC_AVC_INT_EN_REG :: u32 where
  [hdr_simps]: "VE_ENC_AVC_INT_EN_REG = (VE_ENGINE_ENC_H264_BASE + 0x14)"

definition VE_ENC_AVC_INT_EN_MB_OVERTIME :: u32 where
  [hdr_simps]: "VE_ENC_AVC_INT_EN_MB_OVERTIME = BIT 2"

definition VE_ENC_AVC_INT_EN_STALL :: u32 where
  [hdr_simps]: "VE_ENC_AVC_INT_EN_STALL = BIT 1"

definition VE_ENC_AVC_INT_EN_FINISH :: u32 where
  [hdr_simps]: "VE_ENC_AVC_INT_EN_FINISH = BIT 0"

definition VE_ENC_AVC_INT_EN_VALUE :: u32 where
  [hdr_simps]: "VE_ENC_AVC_INT_EN_VALUE = 0xf"

definition VE_ENC_AVC_STARTTRIG_REG :: u32 where
  [hdr_simps]: "VE_ENC_AVC_STARTTRIG_REG = (VE_ENGINE_ENC_H264_BASE + 0x18)"

definition VE_ENC_AVC_STARTTRIG_ENCODE_MODE_H264 :: u32 where
  [hdr_simps]: "VE_ENC_AVC_STARTTRIG_ENCODE_MODE_H264 = push_bit 16 0"

definition VE_ENC_AVC_STARTTRIG_ENCODE_MODE_JPEG :: u32 where
  [hdr_simps]: "VE_ENC_AVC_STARTTRIG_ENCODE_MODE_JPEG = push_bit 16 1"

definition VE_ENC_AVC_STARTTRIG_NUM_BITS :: "int \<Rightarrow> u32" where
  [hdr_simps]: "VE_ENC_AVC_STARTTRIG_NUM_BITS v = SHIFT_AND_MASK_BITS v 13 8"

definition VE_ENC_AVC_STARTTRIG_TYPE_PUT_BITS :: u32 where
  [hdr_simps]: "VE_ENC_AVC_STARTTRIG_TYPE_PUT_BITS = push_bit 0 1"

definition VE_ENC_AVC_STARTTRIG_TYPE_ENC_START :: u32 where
  [hdr_simps]: "VE_ENC_AVC_STARTTRIG_TYPE_ENC_START = push_bit 0 8"

definition VE_ENC_AVC_STATUS_REG :: u32 where
  [hdr_simps]: "VE_ENC_AVC_STATUS_REG = (VE_ENGINE_ENC_H264_BASE + 0x1c)"

definition VE_ENC_AVC_STATUS_PUT_BITS_READY :: u32 where
  [hdr_simps]: "VE_ENC_AVC_STATUS_PUT_BITS_READY = BIT 9"

definition VE_ENC_AVC_STATUS_OVERTIME :: u32 where
  [hdr_simps]: "VE_ENC_AVC_STATUS_OVERTIME = BIT 3"

definition VE_ENC_AVC_STATUS_OVERTIME_MB :: u32 where
  [hdr_simps]: "VE_ENC_AVC_STATUS_OVERTIME_MB = BIT 2"

definition VE_ENC_AVC_STATUS_STALL :: u32 where
  [hdr_simps]: "VE_ENC_AVC_STATUS_STALL = BIT 1"

definition VE_ENC_AVC_STATUS_FINISH :: u32 where
  [hdr_simps]: "VE_ENC_AVC_STATUS_FINISH = BIT 0"

definition VE_ENC_AVC_STATUS_MASK :: u32 where
  [hdr_simps]: "VE_ENC_AVC_STATUS_MASK = (VE_ENC_AVC_STATUS_OVERTIME OR VE_ENC_AVC_STATUS_OVERTIME_MB OR VE_ENC_AVC_STATUS_STALL OR VE_ENC_AVC_STATUS_FINISH)"

definition VE_ENC_AVC_PUTBITSDATA_REG :: u32 where
  [hdr_simps]: "VE_ENC_AVC_PUTBITSDATA_REG = (VE_ENGINE_ENC_H264_BASE + 0x20)"

definition VE_ENC_AVC_OVERTIME_MB_REG :: u32 where
  [hdr_simps]: "VE_ENC_AVC_OVERTIME_MB_REG = (VE_ENGINE_ENC_H264_BASE + 0x24)"

definition VE_ENC_AVC_CYCLIC_INTRA_REFRESH_REG :: u32 where
  [hdr_simps]: "VE_ENC_AVC_CYCLIC_INTRA_REFRESH_REG = (VE_ENGINE_ENC_H264_BASE + 0x28)"

definition VE_ENC_AVC_RC_INIT_REG :: u32 where
  [hdr_simps]: "VE_ENC_AVC_RC_INIT_REG = (VE_ENGINE_ENC_H264_BASE + 0x2c)"

definition VE_ENC_AVC_RC_MAD_TH0_REG :: u32 where
  [hdr_simps]: "VE_ENC_AVC_RC_MAD_TH0_REG = (VE_ENGINE_ENC_H264_BASE + 0x30)"

definition VE_ENC_AVC_RC_MAD_TH1_REG :: u32 where
  [hdr_simps]: "VE_ENC_AVC_RC_MAD_TH1_REG = (VE_ENGINE_ENC_H264_BASE + 0x34)"

definition VE_ENC_AVC_RC_MAD_TH2_REG :: u32 where
  [hdr_simps]: "VE_ENC_AVC_RC_MAD_TH2_REG = (VE_ENGINE_ENC_H264_BASE + 0x38)"

definition VE_ENC_AVC_RC_MAD_TH3_REG :: u32 where
  [hdr_simps]: "VE_ENC_AVC_RC_MAD_TH3_REG = (VE_ENGINE_ENC_H264_BASE + 0x3c)"

definition VE_ENC_AVC_DYNAMIC_ME_PAR0_REG :: u32 where
  [hdr_simps]: "VE_ENC_AVC_DYNAMIC_ME_PAR0_REG = (VE_ENGINE_ENC_H264_BASE + 0x48)"

definition VE_ENC_AVC_DYNAMIC_ME_PAR1_REG :: u32 where
  [hdr_simps]: "VE_ENC_AVC_DYNAMIC_ME_PAR1_REG = (VE_ENGINE_ENC_H264_BASE + 0x4c)"

definition VE_ENC_AVC_MAD_REG :: u32 where
  [hdr_simps]: "VE_ENC_AVC_MAD_REG = (VE_ENGINE_ENC_H264_BASE + 0x50)"

definition VE_ENC_AVC_RESIDUAL_BITS_REG :: u32 where
  [hdr_simps]: "VE_ENC_AVC_RESIDUAL_BITS_REG = (VE_ENGINE_ENC_H264_BASE + 0x54)"

definition VE_ENC_AVC_HEADER_BITS_REG :: u32 where
  [hdr_simps]: "VE_ENC_AVC_HEADER_BITS_REG = (VE_ENGINE_ENC_H264_BASE + 0x58)"

definition VE_ENC_AVC_ME_INFO_REG :: u32 where
  [hdr_simps]: "VE_ENC_AVC_ME_INFO_REG = (VE_ENGINE_ENC_H264_BASE + 0x5c)"

definition VE_ENC_AVC_MV_BUF_ADDR_REG :: u32 where
  [hdr_simps]: "VE_ENC_AVC_MV_BUF_ADDR_REG = (VE_ENGINE_ENC_H264_BASE + 0x60)"

definition VE_ENC_AVC_STM_START_ADDR_REG :: u32 where
  [hdr_simps]: "VE_ENC_AVC_STM_START_ADDR_REG = (VE_ENGINE_ENC_H264_BASE + 0x80)"

definition VE_ENC_AVC_STM_END_ADDR_REG :: u32 where
  [hdr_simps]: "VE_ENC_AVC_STM_END_ADDR_REG = (VE_ENGINE_ENC_H264_BASE + 0x84)"

definition VE_ENC_AVC_STM_BIT_OFFSET_REG :: u32 where
  [hdr_simps]: "VE_ENC_AVC_STM_BIT_OFFSET_REG = (VE_ENGINE_ENC_H264_BASE + 0x88)"

definition VE_ENC_AVC_STM_BIT_MAX_REG :: u32 where
  [hdr_simps]: "VE_ENC_AVC_STM_BIT_MAX_REG = (VE_ENGINE_ENC_H264_BASE + 0x8c)"

definition VE_ENC_AVC_STM_BIT_LEN_REG :: u32 where
  [hdr_simps]: "VE_ENC_AVC_STM_BIT_LEN_REG = (VE_ENGINE_ENC_H264_BASE + 0x90)"

definition VE_ENC_AVC_REF0_ADDR_Y_REG :: u32 where
  [hdr_simps]: "VE_ENC_AVC_REF0_ADDR_Y_REG = (VE_ENGINE_ENC_H264_BASE + 0xa0)"

definition VE_ENC_AVC_REF0_ADDR_C_REG :: u32 where
  [hdr_simps]: "VE_ENC_AVC_REF0_ADDR_C_REG = (VE_ENGINE_ENC_H264_BASE + 0xa4)"

definition VE_ENC_AVC_REC_ADDR_Y_REG :: u32 where
  [hdr_simps]: "VE_ENC_AVC_REC_ADDR_Y_REG = (VE_ENGINE_ENC_H264_BASE + 0xb0)"

definition VE_ENC_AVC_REC_ADDR_C_REG :: u32 where
  [hdr_simps]: "VE_ENC_AVC_REC_ADDR_C_REG = (VE_ENGINE_ENC_H264_BASE + 0xb4)"

definition VE_ENC_AVC_SUBPIX_ADDR_LAST_REG :: u32 where
  [hdr_simps]: "VE_ENC_AVC_SUBPIX_ADDR_LAST_REG = (VE_ENGINE_ENC_H264_BASE + 0xb8)"

definition VE_ENC_AVC_SUBPIX_ADDR_NEW_REG :: u32 where
  [hdr_simps]: "VE_ENC_AVC_SUBPIX_ADDR_NEW_REG = (VE_ENGINE_ENC_H264_BASE + 0xbc)"

definition VE_ENC_AVC_MB_INFO_ADDR_REG :: u32 where
  [hdr_simps]: "VE_ENC_AVC_MB_INFO_ADDR_REG = (VE_ENGINE_ENC_H264_BASE + 0xc0)"

definition VE_ENC_AVC_DEBLK_ADDR_REG :: u32 where
  [hdr_simps]: "VE_ENC_AVC_DEBLK_ADDR_REG = (VE_ENGINE_ENC_H264_BASE + 0xc4)"

definition VE_ENC_AVC_H618_CTRL_REG :: u32 where
  [hdr_simps]: "VE_ENC_AVC_H618_CTRL_REG = (VE_ENGINE_ENC_H264_BASE + 0xe4)"

definition VE_ENC_AVC_SRAM_OFFSET_REG :: u32 where
  [hdr_simps]: "VE_ENC_AVC_SRAM_OFFSET_REG = (VE_ENGINE_ENC_H264_BASE + 0xe0)"

definition VE_ENC_AVC_SRAM_DATA_REG :: u32 where
  [hdr_simps]: "VE_ENC_AVC_SRAM_DATA_REG = (VE_ENGINE_ENC_H264_BASE + 0xe4)"

end
