(* ===== verification/H264_Bitstream.thy ===== *)
theory H264_Bitstream
  imports Cedrus_Regs
begin

text \<open>Writing an H.264 bitstream through the put-bits port of the encoder (the
  \<open>cedrus_enc_h264_coded_*\<close> functions of \<open>cedrus_enc_h264.c\<close>), and the decoding functions
  of the H.264 specification the syntax theories compare it with.

  \<open>port\<close> reads a log of register writes as the bits it requests: a put-bits trigger appends the
  low \<open>NUM_BITS\<close> bits of the data register, most significant first, and marks them raw when
  emulation prevention is switched off in \<open>PARA0\<close>.  The locale \<open>codec\<close> is the contract
  between writing and parsing a syntax structure.\<close>

named_theorems emits_intros \<open>what each writer emits\<close>

section \<open>The put-bits port\<close>

record port =
  pt_data :: u32
  pt_raw :: bool
  pt_bits :: "(bool \<times> bool) list"

definition port_step :: "io \<Rightarrow> port \<Rightarrow> port" where
  "port_step e p = (case e of
     Poll _ _ \<Rightarrow> p
   | Delay _ \<Rightarrow> p
   | Write reg v \<Rightarrow>
       if reg = VE_ENC_AVC_PUTBITSDATA_REG then p\<lparr>pt_data := v\<rparr>
       else if reg = VE_ENC_AVC_PARA0_REG
       then p\<lparr>pt_raw := (v AND VE_ENC_AVC_PARA0_EPTB_DIS \<noteq> 0)\<rparr>
       else if reg = VE_ENC_AVC_STARTTRIG_REG \<and> v AND 0xf = VE_ENC_AVC_STARTTRIG_TYPE_PUT_BITS
       then p\<lparr>pt_bits := pt_bits p @
         map (Pair (pt_raw p)) (msb_bits (unat (drop_bit 8 v AND 0x3f)) (unat (pt_data p)))\<rparr>
       else p)"

definition port :: "io_log \<Rightarrow> port" where
  "port log = fold port_step log \<lparr>pt_data = 0, pt_raw = False, pt_bits = []\<rparr>"

section \<open>The writers\<close>

definition coded_append :: "u32 \<Rightarrow> u32 \<Rightarrow> io_log \<Rightarrow> io_log" where
  "coded_append value count log =
    (let log = cedrus_poll VE_ENC_AVC_STATUS_REG VE_ENC_AVC_STATUS_PUT_BITS_READY log;
         log = cedrus_write VE_ENC_AVC_PUTBITSDATA_REG value log
     in cedrus_write VE_ENC_AVC_STARTTRIG_REG
          (VE_ENC_AVC_STARTTRIG_NUM_BITS (uint count) OR VE_ENC_AVC_STARTTRIG_TYPE_PUT_BITS) log)"

text \<open>The kernel's \<open>__fls\<close>: the index of the most significant set bit (undefined in C, and
  0 here, when there is none).\<close>

primrec fls_below :: "nat \<Rightarrow> u32 \<Rightarrow> nat" where
  "fls_below 0 x = 0"
| "fls_below (Suc n) x = (if bit x n then n else fls_below n x)"

definition fls :: "u32 \<Rightarrow> nat" where
  "fls x = fls_below 32 x"

definition coded_ue :: "u32 \<Rightarrow> io_log \<Rightarrow> io_log" where
  "coded_ue value log =
    (let bits_count = 2 * word_of_nat (fls (value + 1)) + 1
     in coded_append (value + 1) bits_count log)"

definition coded_se :: "int \<Rightarrow> io_log \<Rightarrow> io_log" where
  "coded_se value log =
    (let value_ue = (if value > 0 then word_of_int (2 * value - 1) else word_of_int (- 2 * value))
     in coded_ue value_ue log)"

text \<open>\<open>coded_bytes value n\<close> runs the loop with \<open>8 * n\<close> bits left.\<close>

primrec coded_bytes :: "u32 \<Rightarrow> nat \<Rightarrow> io_log \<Rightarrow> io_log" where
  "coded_bytes value 0 log = log"
| "coded_bytes value (Suc n) log =
    coded_bytes value n (coded_append (drop_bit (8 * n) value AND GENMASK 7 0) 8 log)"

definition coded_u32 :: "u32 \<Rightarrow> io_log \<Rightarrow> io_log" where
  "coded_u32 value log = coded_bytes value 4 log"

definition coded_u16 :: "u16 \<Rightarrow> io_log \<Rightarrow> io_log" where
  "coded_u16 value log = coded_append (ucast value) 16 log"

definition coded_u8 :: "u8 \<Rightarrow> io_log \<Rightarrow> io_log" where
  "coded_u8 value log = coded_append (ucast value) 8 log"

definition coded_bit :: "u32 \<Rightarrow> io_log \<Rightarrow> io_log" where
  "coded_bit value log = coded_append value 1 log"

definition coded_align :: "hw_read \<Rightarrow> io_log \<Rightarrow> io_log" where
  "coded_align hw log =
    (let value = cedrus_read hw VE_ENC_AVC_STM_BIT_LEN_REG log;
         bits_count = value mod 8
     in if bits_count = 0 then log else coded_append 0 (8 - bits_count) log)"

definition coded_eptb :: "hw_read \<Rightarrow> bool \<Rightarrow> io_log \<Rightarrow> io_log" where
  "coded_eptb hw enable log =
    (let value = cedrus_read hw VE_ENC_AVC_PARA0_REG log;
         value = (if enable then value AND NOT VE_ENC_AVC_PARA0_EPTB_DIS
                  else value OR VE_ENC_AVC_PARA0_EPTB_DIS)
     in cedrus_write VE_ENC_AVC_PARA0_REG value log)"

definition coded_nalu_start :: "hw_read \<Rightarrow> u8 \<Rightarrow> io_log \<Rightarrow> io_log" where
  "coded_nalu_start hw header log =
    (let log = coded_eptb hw False log;
         log = coded_u32 0x1 log;
         log = coded_u8 header log
     in coded_eptb hw True log)"

definition nalu_header :: "u8 \<Rightarrow> u8 \<Rightarrow> u8" where
  "nalu_header type ref_idc = (type AND GENMASK 4 0) OR (push_bit 5 ref_idc AND GENMASK 6 5)"

section \<open>Reading syntax elements (H.264 clauses 7.2 and 9.1)\<close>

definition u_dec :: "nat \<Rightarrow> bool list \<Rightarrow> (nat \<times> bool list) option" where
  "u_dec n bs = (if n \<le> length bs then Some (bits_nat (take n bs), drop n bs) else None)"

fun lead_zeros :: "bool list \<Rightarrow> (nat \<times> bool list) option" where
  "lead_zeros [] = None"
| "lead_zeros (True # bs) = Some (0, bs)"
| "lead_zeros (False # bs) = map_option (\<lambda>(n, r). (Suc n, r)) (lead_zeros bs)"

definition ue_dec :: "bool list \<Rightarrow> (nat \<times> bool list) option" where
  "ue_dec bs = (case lead_zeros bs of None \<Rightarrow> None
     | Some (z, r) \<Rightarrow> map_option (\<lambda>(v, r). (2 ^ z - 1 + v, r)) (u_dec z r))"

definition se_dec :: "bool list \<Rightarrow> (int \<times> bool list) option" where
  "se_dec bs = map_option (\<lambda>(k, r).
     (if odd k then int ((k + 1) div 2) else - int (k div 2), r)) (ue_dec bs)"

text \<open>The bits of the elements.\<close>

fun ilog2 :: "nat \<Rightarrow> nat" where
  "ilog2 n = (if n < 2 then 0 else Suc (ilog2 (n div 2)))"

declare ilog2.simps [simp del]

definition ue_bits :: "nat \<Rightarrow> bool list" where
  "ue_bits v = msb_bits (2 * ilog2 (v + 1) + 1) (v + 1)"

definition se_bits :: "int \<Rightarrow> bool list" where
  "se_bits v = ue_bits (if v > 0 then nat (2 * v - 1) else nat (- 2 * v))"

section \<open>Writing and parsing as a contract\<close>

locale codec =
  fixes enc :: "'a \<Rightarrow> bool list" and dec :: "bool list \<Rightarrow> ('a \<times> bool list) option"
    and ok :: "'a \<Rightarrow> bool"
  assumes dec_enc: "ok a \<Longrightarrow> dec (enc a @ r) = Some (a, r)"
begin

lemma dec_enc_Nil: "ok a \<Longrightarrow> dec (enc a) = Some (a, [])"
  using dec_enc[of a "[]"] by simp

lemma enc_prefix_free: "ok a \<Longrightarrow> ok b \<Longrightarrow> enc a @ r = enc b @ s \<Longrightarrow> a = b \<and> r = s"
  using dec_enc[of a r] dec_enc[of b s] by (metis option.inject prod.inject)

lemma enc_inj: "ok a \<Longrightarrow> ok b \<Longrightarrow> enc a = enc b \<Longrightarrow> a = b"
  using enc_prefix_free[of a b "[]" "[]"] by blast

end

lemma u_dec_msb_bits: "u_dec n (msb_bits n v @ r) = Some (v mod 2 ^ n, r)"
  by (simp add: u_dec_def)

interpretation u_codec: codec "msb_bits n" "u_dec n" "\<lambda>v. v < 2 ^ n" for n
  by (rule codec.intro) (simp only: u_dec_msb_bits mod_less)

lemma ilog2_bounds: "0 < n \<Longrightarrow> 2 ^ ilog2 n \<le> n \<and> n < 2 ^ Suc (ilog2 n)"
proof (induction n rule: ilog2.induct)
  case (1 n)
  show ?case
  proof (cases "n < 2")
    case True
    then show ?thesis using 1 by (simp add: ilog2.simps[of n])
  next
    case False
    then have "2 ^ ilog2 (n div 2) \<le> n div 2 \<and> n div 2 < 2 ^ Suc (ilog2 (n div 2))"
      using 1 by simp
    then show ?thesis using False by (auto simp: ilog2.simps[of n])
  qed
qed

lemma ilog2_unique: "2 ^ k \<le> n \<Longrightarrow> n < 2 ^ Suc k \<Longrightarrow> ilog2 n = k"
proof -
  assume a: "2 ^ k \<le> n" "n < 2 ^ Suc k"
  then have "0 < n" by (metis gr_zeroI le_zero_eq power_not_zero zero_neq_numeral)
  then have b: "2 ^ ilog2 n \<le> n" "n < 2 ^ Suc (ilog2 n)" using ilog2_bounds by auto
  have "(2::nat) ^ k < 2 ^ Suc (ilog2 n)" using a b by linarith
  moreover have "(2::nat) ^ ilog2 n < 2 ^ Suc k" using a b by linarith
  ultimately show ?thesis by (simp only: power_strict_increasing_iff one_less_numeral_iff semiring_norm)
qed

lemma msb_bits_append: "msb_bits (m + n) v = msb_bits m (v div 2 ^ n) @ msb_bits n v"
  by (induction m) (simp_all add: div_mult2_eq[symmetric] power_add mult.commute)

lemma msb_bits_zero: "v < 2 ^ k \<Longrightarrow> k \<le> n \<Longrightarrow> msb_bits n v = replicate (n - k) False @ msb_bits k v"
proof -
  assume v: "v < 2 ^ k" and k: "k \<le> n"
  have "msb_bits m 0 = replicate m False" for m by (induction m) auto
  then show ?thesis using msb_bits_append[of "n - k" k v] v k by simp
qed

lemma ue_bits_alt:
  "ue_bits v = replicate (ilog2 (v + 1)) False @ True # msb_bits (ilog2 (v + 1)) (v + 1)"
proof -
  let ?L = "ilog2 (v + 1)"
  have b: "2 ^ ?L \<le> v + 1" "v + 1 < 2 ^ Suc ?L" using ilog2_bounds[of "v + 1"] by auto
  then have "(v + 1) div 2 ^ ?L = 1" by (intro div_nat_eqI) auto
  then have "msb_bits (Suc ?L) (v + 1) = True # msb_bits ?L (v + 1)" by simp
  then show ?thesis
    unfolding ue_bits_def using msb_bits_zero[OF b(2), of "2 * ?L + 1"] by simp
qed

lemma lead_zeros_rep: "lead_zeros (replicate n False @ True # r) = Some (n, r)"
  by (induction n) simp_all

lemma ue_dec_enc [simp]: "ue_dec (ue_bits v @ r) = Some (v, r)"
proof -
  let ?L = "ilog2 (v + 1)"
  have b: "2 ^ ?L \<le> v + 1" "v + 1 < 2 ^ Suc ?L" using ilog2_bounds[of "v + 1"] by auto
  have "(v + 1) mod 2 ^ ?L = v + 1 - 2 ^ ?L"
    using b by (subst le_mod_geq) simp_all
  then have "u_dec ?L (msb_bits ?L (v + 1) @ r) = Some (v + 1 - 2 ^ ?L, r)"
    by (simp add: u_dec_def)
  then show ?thesis using b by (simp add: ue_dec_def ue_bits_alt lead_zeros_rep)
qed

interpretation ue_codec: codec ue_bits ue_dec "\<lambda>_. True"
  by unfold_locales simp

lemma se_dec_enc [simp]: "se_dec (se_bits v @ r) = Some (v, r)"
  by (auto simp: se_dec_def se_bits_def nat_diff_distrib even_nat_iff elim!: oddE)

interpretation se_codec: codec se_bits se_dec "\<lambda>_. True"
  by unfold_locales simp

section \<open>What the writers request from the port\<close>

lemma port_Nil [simp]: "port [] = \<lparr>pt_data = 0, pt_raw = False, pt_bits = []\<rparr>"
  by (simp add: port_def)

lemma port_append [simp]: "port (log @ es) = fold port_step es (port log)"
  by (simp add: port_def)

lemma starttrig_fields:
  assumes "unat (count :: u32) < 64"
  shows "(VE_ENC_AVC_STARTTRIG_NUM_BITS (uint count) OR VE_ENC_AVC_STARTTRIG_TYPE_PUT_BITS) AND 0xf =
      VE_ENC_AVC_STARTTRIG_TYPE_PUT_BITS"
    and "unat (drop_bit 8 (VE_ENC_AVC_STARTTRIG_NUM_BITS (uint count) OR
      VE_ENC_AVC_STARTTRIG_TYPE_PUT_BITS) AND 0x3f) = unat count"
proof -
  have m: "(0xf :: u32) = mask 4" "(0x3f :: u32) = mask 6" by (simp_all add: mask_eq_exp_minus_1)
  show "(VE_ENC_AVC_STARTTRIG_NUM_BITS (uint count) OR VE_ENC_AVC_STARTTRIG_TYPE_PUT_BITS) AND 0xf =
      VE_ENC_AVC_STARTTRIG_TYPE_PUT_BITS"
    unfolding m by (rule bit_word_eqI)
      (auto simp: VE_ENC_AVC_STARTTRIG_NUM_BITS_def VE_ENC_AVC_STARTTRIG_TYPE_PUT_BITS_def
        bit_simps bit_SHIFT_AND_MASK_BITS bit_1_iff)
  have lt6: "bit count n \<Longrightarrow> n < 6" for n
    using bit_le_unat[of count n] assms power_increasing[of 6 n "2 :: nat"] by (cases "n < 6") auto
  have "drop_bit 8 (VE_ENC_AVC_STARTTRIG_NUM_BITS (uint count) OR
      VE_ENC_AVC_STARTTRIG_TYPE_PUT_BITS) AND 0x3f = count"
    unfolding m by (rule bit_word_eqI)
      (auto dest: lt6 simp: VE_ENC_AVC_STARTTRIG_NUM_BITS_def VE_ENC_AVC_STARTTRIG_TYPE_PUT_BITS_def
        bit_simps bit_SHIFT_AND_MASK_BITS bit_1_iff less_Suc_eq_le[of _ 5, symmetric])
  then show "unat (drop_bit 8 (VE_ENC_AVC_STARTTRIG_NUM_BITS (uint count) OR
      VE_ENC_AVC_STARTTRIG_TYPE_PUT_BITS) AND 0x3f) = unat count" by simp
qed

text \<open>\<open>emits f bs\<close>: whatever was written before, \<open>f\<close> makes the port append \<open>bs\<close>, all of
  it escaped or not as the port is set, and leaves that setting alone.\<close>

definition emits :: "(io_log \<Rightarrow> io_log) \<Rightarrow> bool list \<Rightarrow> bool" where
  "emits f bs = (\<forall>log. pt_raw (port (f log)) = pt_raw (port log) \<and>
     pt_bits (port (f log)) = pt_bits (port log) @ map (Pair (pt_raw (port log))) bs)"

lemma emits_id [emits_intros]: "emits (\<lambda>log. log) []"
  by (simp add: emits_def)

lemma emits_comp: "emits f bs \<Longrightarrow> emits g cs \<Longrightarrow> emits (\<lambda>log. g (f log)) (bs @ cs)"
  by (simp add: emits_def)

lemma emits_if: "(c \<Longrightarrow> emits f bs) \<Longrightarrow> (\<not> c \<Longrightarrow> emits g cs) \<Longrightarrow>
  emits (\<lambda>log. if c then f log else g log) (if c then bs else cs)"
  by simp

lemma emits_append [emits_intros]:
  assumes "unat count < 64"
  shows "emits (coded_append v count) (msb_bits (unat count) (unat v))"
  unfolding emits_def coded_append_def Let_def cedrus_poll_def cedrus_write_def
  using starttrig_fields[OF assms]
  by (simp add: port_step_def VE_ENC_AVC_PUTBITSDATA_REG_def VE_ENC_AVC_PARA0_REG_def
      VE_ENC_AVC_STARTTRIG_REG_def VE_ENGINE_ENC_H264_BASE_def)

lemma fls_below_bounds:
  "bit x i \<Longrightarrow> i < n \<Longrightarrow> bit x (fls_below n x) \<and> fls_below n x < n \<and>
   (\<forall>j<n. bit x j \<longrightarrow> j \<le> fls_below n x)"
proof (induction n)
  case (Suc n)
  show ?case
  proof (cases "bit x n")
    case False
    then have "i < n" using Suc.prems by (metis less_SucE)
    then show ?thesis using Suc False by (auto simp: less_Suc_eq)
  qed auto
qed simp

lemma fls_ilog2: "x \<noteq> 0 \<Longrightarrow> fls x = ilog2 (unat x)"
proof -
  assume "x \<noteq> 0"
  then obtain i where i: "bit x i" by (metis bit_word_eqI bit_0_eq bot_apply bot_bool_def)
  then have "i < 32" using bit_imp_le_length[of x i] by simp
  note b = fls_below_bounds[OF i this, folded fls_def]
  have "unat x < 2 ^ Suc (fls x)"
    using b bit_imp_le_length[of x] by (intro unat_less_bits) (force simp: Suc_le_eq not_less)
  moreover have "2 ^ fls x \<le> unat x" using b by (simp add: bit_le_unat)
  ultimately show ?thesis using ilog2_unique by simp
qed

lemma emits_ue [emits_intros]:
  assumes "unat v < 2 ^ 32 - 1"
  shows "emits (coded_ue v) (ue_bits (unat v))"
proof -
  have v: "unat (v + 1) = unat v + 1"
    using assms by (subst unat_add_lem[THEN iffD1]) simp_all
  then have nz: "v + 1 \<noteq> 0" by auto
  have f: "fls (v + 1) = ilog2 (unat v + 1)" using fls_ilog2[OF nz] v by simp
  have "(2::nat) ^ ilog2 (unat v + 1) < 2 ^ 32"
    using ilog2_bounds[of "unat v + 1"] assms by simp
  then have "ilog2 (unat v + 1) < 32" by (simp only: power_strict_increasing_iff)
  then have "unat (word_of_nat (2 * ilog2 (unat v + 1) + 1) :: u32) = 2 * ilog2 (unat v + 1) + 1"
    by (simp only: unat_of_nat) simp
  then have c: "unat (2 * word_of_nat (fls (v + 1)) + 1 :: u32) = 2 * ilog2 (unat v + 1) + 1"
    by (simp only: f of_nat_add of_nat_mult of_nat_1 of_nat_numeral)
  then have "unat (2 * word_of_nat (fls (v + 1)) + 1 :: u32) < 64"
    using \<open>ilog2 (unat v + 1) < 32\<close> by simp
  from emits_append[OF this, of "v + 1"] show ?thesis
    unfolding c v ue_bits_def coded_ue_def[abs_def] Let_def .
qed

lemma emits_se [emits_intros]:
  assumes "- (2 ^ 31) < v" "v < 2 ^ 31"
  shows "emits (coded_se v) (se_bits v)"
proof -
  let ?k = "if v > 0 then word_of_int (2 * v - 1) else word_of_int (- 2 * v) :: u32"
  have k: "unat ?k = (if v > 0 then nat (2 * v - 1) else nat (- 2 * v))"
    using assms unat_word_of_int[of "2 * v - 1", where 'a = 32]
      unat_word_of_int[of "- 2 * v", where 'a = 32] by simp
  have "unat ?k < 2 ^ 32 - 1" unfolding k using assms by auto
  from emits_ue[OF this] show ?thesis
    unfolding k se_bits_def coded_se_def[abs_def] Let_def .
qed

lemma emits_u8 [emits_intros]: "emits (coded_u8 v) (msb_bits 8 (unat v))"
  using emits_append[of 8 "ucast v"] by (simp add: coded_u8_def[abs_def] unat_ucast_up)

lemma emits_u16 [emits_intros]: "emits (coded_u16 v) (msb_bits 16 (unat v))"
  using emits_append[of 16 "ucast v"] by (simp add: coded_u16_def[abs_def] unat_ucast_up)

lemma emits_bit [emits_intros]: "emits (coded_bit v) [odd (unat v)]"
  using emits_append[of 1 v] by (simp add: coded_bit_def[abs_def])

lemma emits_bytes: "emits (coded_bytes v n) (msb_bits (8 * n) (unat v))"
proof (induction n)
  case 0
  then show ?case by (simp add: emits_def)
next
  case (Suc n)
  have b: "unat (drop_bit (8 * n) v AND GENMASK 7 0) = unat v div 2 ^ (8 * n) mod 2 ^ 8"
  proof -
    have "drop_bit (8 * n) v AND GENMASK 7 0 = take_bit 8 (drop_bit (8 * n) v)"
      by (simp add: GENMASK_def take_bit_eq_mask)
    then have "unat (drop_bit (8 * n) v AND GENMASK 7 0) =
        take_bit 8 (drop_bit (8 * n) (take_bit 32 (unat v)))"
      by (simp only: unsigned_take_bit_eq unsigned_drop_bit_eq) simp
    then show ?thesis
      using unat_lt2p[of v] by (simp add: take_bit_nat_eq_self) (simp add: take_bit_eq_mod drop_bit_eq_div)
  qed
  have "emits (coded_append (drop_bit (8 * n) v AND GENMASK 7 0) 8) (msb_bits 8 (unat v div 2 ^ (8 * n)))"
    using emits_append[of 8 "drop_bit (8 * n) v AND GENMASK 7 0"]
    using msb_bits_mod[of 8 "unat v div 2 ^ (8 * n)"] by (simp add: b)
  from emits_comp[OF this Suc] show ?case
    using msb_bits_append[of 8 "8 * n" "unat v"] by (simp add: add.commute)
qed

lemma emits_u32 [emits_intros]: "emits (coded_u32 v) (msb_bits 32 (unat v))"
  using emits_bytes[of v 4] by (simp add: coded_u32_def[abs_def])

section \<open>Framing\<close>

text \<open>The hypothesis on the bit counter of the hardware: modulo 8 it counts the bits the
  port was given (inserted emulation-prevention bytes add multiples of 8).\<close>

definition counts_bits :: "hw_read \<Rightarrow> bool" where
  "counts_bits hw = (\<forall>log. unat (hw log VE_ENC_AVC_STM_BIT_LEN_REG) mod 8 =
     length (pt_bits (port log)) mod 8)"

text \<open>A hardware model that satisfies it: the counter is the number of bits, every other
  register reads as last written.\<close>

definition ideal_hw :: hw_read where
  "ideal_hw log reg =
    (if reg = VE_ENC_AVC_STM_BIT_LEN_REG then word_of_nat (length (pt_bits (port log)) mod 2 ^ 32)
     else case last_write reg log of None \<Rightarrow> 0 | Some v \<Rightarrow> v)"

lemma ideal_hw_counts: "counts_bits ideal_hw"
proof -
  have "unat (word_of_nat (n mod 2 ^ 32) :: u32) mod 8 = n mod 8" for n
  proof -
    have "unat (word_of_nat (n mod 2 ^ 32) :: u32) = n mod 2 ^ 32" by (simp only: unat_of_nat) simp
    then show ?thesis using mod_mod_cancel[of 8 "2 ^ 32" n] by simp
  qed
  then show ?thesis by (simp add: counts_bits_def ideal_hw_def)
qed

lemma align_port:
  assumes "counts_bits hw"
  shows "pt_raw (port (coded_align hw log)) = pt_raw (port log)"
    and "pt_bits (port (coded_align hw log)) = pt_bits (port log) @
      map (Pair (pt_raw (port log))) (replicate ((8 - length (pt_bits (port log)) mod 8) mod 8) False)"
proof -
  let ?v = "hw log VE_ENC_AVC_STM_BIT_LEN_REG"
  let ?k = "length (pt_bits (port log)) mod 8"
  have k: "unat (?v mod 8) = ?k" using assms by (simp add: counts_bits_def unat_mod_distrib)
  have zeros: "msb_bits m 0 = replicate m False" for m by (induction m) auto
  show "pt_raw (port (coded_align hw log)) = pt_raw (port log)"
    and "pt_bits (port (coded_align hw log)) = pt_bits (port log) @
      map (Pair (pt_raw (port log))) (replicate ((8 - ?k) mod 8) False)"
  proof -
    have "pt_raw (port (coded_align hw log)) = pt_raw (port log) \<and>
      pt_bits (port (coded_align hw log)) = pt_bits (port log) @
        map (Pair (pt_raw (port log))) (replicate ((8 - ?k) mod 8) False)"
    proof (cases "?v mod 8 = 0")
      case True
      then have "?k = 0" using k by simp
      then show ?thesis using True by (simp add: coded_align_def cedrus_read_def Let_def)
    next
      case False
      then have nz: "?k \<noteq> 0" using k by (metis unat_eq_zero)
      have "?v mod 8 \<le> 8" using k by (simp add: word_le_nat_alt)
      then have c: "unat (8 - ?v mod 8) = 8 - ?k" using k by (simp add: unat_sub)
      then have "unat (8 - ?v mod 8) < 64" by simp
      from emits_append[OF this, of 0] show ?thesis
        using False nz by (simp add: coded_align_def cedrus_read_def Let_def emits_def c zeros)
    qed
    then show "pt_raw (port (coded_align hw log)) = pt_raw (port log)"
      and "pt_bits (port (coded_align hw log)) = pt_bits (port log) @
        map (Pair (pt_raw (port log))) (replicate ((8 - ?k) mod 8) False)" by auto
  qed
qed

lemma eptb_port:
  "pt_raw (port (coded_eptb hw enable log)) = (\<not> enable)"
  "pt_bits (port (coded_eptb hw enable log)) = pt_bits (port log)"
proof -
  let ?v = "hw log VE_ENC_AVC_PARA0_REG"
  have "?v AND NOT VE_ENC_AVC_PARA0_EPTB_DIS AND VE_ENC_AVC_PARA0_EPTB_DIS = 0"
    by (rule bit_word_eqI) (simp add: bit_simps)
  moreover have "bit ((?v OR VE_ENC_AVC_PARA0_EPTB_DIS) AND VE_ENC_AVC_PARA0_EPTB_DIS) 31"
    by (simp add: VE_ENC_AVC_PARA0_EPTB_DIS_def BIT_def bit_simps)
  then have "(?v OR VE_ENC_AVC_PARA0_EPTB_DIS) AND VE_ENC_AVC_PARA0_EPTB_DIS \<noteq> 0" by (metis bit_0_eq bot_apply bot_bool_def)
  moreover have "VE_ENC_AVC_PARA0_REG \<noteq> VE_ENC_AVC_PUTBITSDATA_REG"
    by (simp add: hdr_simps)
  ultimately show "pt_raw (port (coded_eptb hw enable log)) = (\<not> enable)"
    "pt_bits (port (coded_eptb hw enable log)) = pt_bits (port log)"
    by (simp_all add: coded_eptb_def cedrus_read_def cedrus_write_def Let_def port_step_def and.assoc)
qed

text \<open>The start code and the NAL unit header are written unescaped; afterwards escaping is
  on.\<close>

lemma nalu_start_port:
  "pt_raw (port (coded_nalu_start hw header log)) = False"
  "pt_bits (port (coded_nalu_start hw header log)) = pt_bits (port log) @
     map (Pair True) (msb_bits 32 1 @ msb_bits 8 (unat header))"
proof -
  have "emits (\<lambda>log. coded_u8 header (coded_u32 0x1 log)) (msb_bits 32 1 @ msb_bits 8 (unat header))"
    using emits_comp[OF emits_u32[of 1] emits_u8[of header]] by (simp del: msb_bits.simps)
  then show "pt_raw (port (coded_nalu_start hw header log)) = False"
    "pt_bits (port (coded_nalu_start hw header log)) = pt_bits (port log) @
     map (Pair True) (msb_bits 32 1 @ msb_bits 8 (unat header))"
    unfolding coded_nalu_start_def Let_def
    by (simp_all add: eptb_port emits_def del: msb_bits.simps)
qed

section \<open>Properties\<close>

text \<open>The Exp-Golomb writers request bits that decode, in front of anything, to the value
  written: every unsigned value below 2^32 - 1 and every signed value of 32 bits above the
  least.\<close>

theorem golomb_writers_decode:
  assumes "unat v < 2 ^ 32 - 1" "- (2 ^ 31) < i" "i < 2 ^ 31"
  shows "(\<exists>bs. emits (coded_ue v) bs \<and> (\<forall>r. ue_dec (bs @ r) = Some (unat v, r))) \<and>
    (\<exists>bs. emits (coded_se i) bs \<and> (\<forall>r. se_dec (bs @ r) = Some (i, r)))"
  using emits_ue[OF assms(1)] emits_se[OF assms(2,3)] ue_codec.dec_enc se_codec.dec_enc by blast

theorem golomb_writers_decode_witness:
  "(\<exists>bs. emits (coded_ue 4294967294) bs \<and> (\<forall>r. ue_dec (bs @ r) = Some (4294967294, r))) \<and>
   (\<exists>bs. emits (coded_se (- 2147483647)) bs \<and> (\<forall>r. se_dec (bs @ r) = Some (- 2147483647, r)))"
  using golomb_writers_decode[of 4294967294 "- 2147483647"] by simp

end
