(* ===== verification/H264_Encoder.thy ===== *)
theory H264_Encoder
  imports H264_Bitstream
begin

text \<open>The control and state side of \<open>cedrus_enc_h264.c\<close>: the tables from control values to
  syntax values, \<open>ctrl_validate\<close> and \<open>ctrl_prepare\<close>, the context and per-frame buffers
  with the DMA memory they hold, and \<open>job_prepare\<close>, which decides type, numbering and
  quantiser of each frame.

  The menu controls are datatypes named after the V4L2 menu items; the last constructor of each
  stands for the values the \<open>default:\<close> branches of the code catch.  \<open>unsigned int\<close> is
  \<open>u32\<close> and wraps; the comparisons and assignments between \<open>int\<close> controls and
  \<open>unsigned\<close> fields convert as C does.\<close>

section \<open>Menu values\<close>

datatype h264_profile =
    PROFILE_BASELINE | PROFILE_CONSTRAINED_BASELINE | PROFILE_MAIN | PROFILE_EXTENDED
    | PROFILE_HIGH | PROFILE_HIGH_10 | PROFILE_HIGH_422 | PROFILE_HIGH_444_PREDICTIVE
    | PROFILE_HIGH_10_INTRA | PROFILE_HIGH_422_INTRA | PROFILE_HIGH_444_INTRA
    | PROFILE_CAVLC_444_INTRA | PROFILE_SCALABLE_BASELINE | PROFILE_SCALABLE_HIGH
    | PROFILE_SCALABLE_HIGH_INTRA | PROFILE_STEREO_HIGH | PROFILE_MULTIVIEW_HIGH
    | PROFILE_CONSTRAINED_HIGH | PROFILE_OTHER

datatype h264_level =
    LEVEL_1_0 | LEVEL_1B | LEVEL_1_1 | LEVEL_1_2 | LEVEL_1_3 | LEVEL_2_0 | LEVEL_2_1
    | LEVEL_2_2 | LEVEL_3_0 | LEVEL_3_1 | LEVEL_3_2 | LEVEL_4_0 | LEVEL_4_1 | LEVEL_4_2
    | LEVEL_5_0 | LEVEL_5_1 | LEVEL_5_2 | LEVEL_6_0 | LEVEL_6_1 | LEVEL_6_2 | LEVEL_OTHER

datatype vui_sar =
    VUI_SAR_IDC_UNSPECIFIED | VUI_SAR_IDC_1x1 | VUI_SAR_IDC_12x11 | VUI_SAR_IDC_10x11
    | VUI_SAR_IDC_16x11 | VUI_SAR_IDC_40x33 | VUI_SAR_IDC_24x11 | VUI_SAR_IDC_20x11
    | VUI_SAR_IDC_32x11 | VUI_SAR_IDC_80x33 | VUI_SAR_IDC_18x11 | VUI_SAR_IDC_15x11
    | VUI_SAR_IDC_64x33 | VUI_SAR_IDC_160x99 | VUI_SAR_IDC_4x3 | VUI_SAR_IDC_3x2
    | VUI_SAR_IDC_2x1 | VUI_SAR_IDC_EXTENDED

datatype loop_filter_mode =
    LOOP_FILTER_MODE_ENABLED | LOOP_FILTER_MODE_DISABLED
  | LOOP_FILTER_MODE_DISABLED_AT_SLICE_BOUNDARY | LOOP_FILTER_MODE_OTHER

datatype entropy_mode = ENTROPY_MODE_CAVLC | ENTROPY_MODE_CABAC

datatype frame_type = FRAME_TYPE_IDR | FRAME_TYPE_I | FRAME_TYPE_P | FRAME_TYPE_B

definition profile_idc :: "h264_profile \<Rightarrow> u8" where
  "profile_idc profile = (case profile of
     PROFILE_BASELINE \<Rightarrow> 66
   | PROFILE_CONSTRAINED_BASELINE \<Rightarrow> 66
   | PROFILE_MAIN \<Rightarrow> 77
   | PROFILE_EXTENDED \<Rightarrow> 88
   | PROFILE_HIGH \<Rightarrow> 100
   | PROFILE_HIGH_10 \<Rightarrow> 110
   | PROFILE_HIGH_422 \<Rightarrow> 122
   | PROFILE_HIGH_444_PREDICTIVE \<Rightarrow> 244
   | PROFILE_HIGH_10_INTRA \<Rightarrow> 110
   | PROFILE_HIGH_422_INTRA \<Rightarrow> 122
   | PROFILE_HIGH_444_INTRA \<Rightarrow> 244
   | PROFILE_CAVLC_444_INTRA \<Rightarrow> 44
   | PROFILE_SCALABLE_BASELINE \<Rightarrow> 83
   | PROFILE_SCALABLE_HIGH \<Rightarrow> 86
   | PROFILE_SCALABLE_HIGH_INTRA \<Rightarrow> 86
   | PROFILE_STEREO_HIGH \<Rightarrow> 128
   | PROFILE_MULTIVIEW_HIGH \<Rightarrow> 118
   | PROFILE_CONSTRAINED_HIGH \<Rightarrow> 100
   | PROFILE_OTHER \<Rightarrow> 0)"

definition profile_cabac_check :: "h264_profile \<Rightarrow> bool" where
  "profile_cabac_check profile = (case profile of
     PROFILE_BASELINE \<Rightarrow> False
   | PROFILE_CONSTRAINED_BASELINE \<Rightarrow> False
   | PROFILE_EXTENDED \<Rightarrow> False
   | PROFILE_CAVLC_444_INTRA \<Rightarrow> False
   | _ \<Rightarrow> True)"

definition level_idc :: "h264_level \<Rightarrow> u8" where
  "level_idc level = (case level of
     LEVEL_1_0 \<Rightarrow> 10
   | LEVEL_1B \<Rightarrow> 9
   | LEVEL_1_1 \<Rightarrow> 11
   | LEVEL_1_2 \<Rightarrow> 12
   | LEVEL_1_3 \<Rightarrow> 13
   | LEVEL_2_0 \<Rightarrow> 20
   | LEVEL_2_1 \<Rightarrow> 21
   | LEVEL_2_2 \<Rightarrow> 22
   | LEVEL_3_0 \<Rightarrow> 30
   | LEVEL_3_1 \<Rightarrow> 31
   | LEVEL_3_2 \<Rightarrow> 32
   | LEVEL_4_0 \<Rightarrow> 40
   | LEVEL_4_1 \<Rightarrow> 41
   | LEVEL_4_2 \<Rightarrow> 42
   | LEVEL_5_0 \<Rightarrow> 50
   | LEVEL_5_1 \<Rightarrow> 51
   | LEVEL_5_2 \<Rightarrow> 52
   | LEVEL_6_0 \<Rightarrow> 60
   | LEVEL_6_1 \<Rightarrow> 61
   | LEVEL_6_2 \<Rightarrow> 62
   | LEVEL_OTHER \<Rightarrow> 0)"

definition CONSTRAINT_SET0_FLAG :: u8 where [hdr_simps]: "CONSTRAINT_SET0_FLAG = BIT 7"
definition CONSTRAINT_SET1_FLAG :: u8 where [hdr_simps]: "CONSTRAINT_SET1_FLAG = BIT 6"
definition CONSTRAINT_SET3_FLAG :: u8 where [hdr_simps]: "CONSTRAINT_SET3_FLAG = BIT 4"
definition CONSTRAINT_SET4_FLAG :: u8 where [hdr_simps]: "CONSTRAINT_SET4_FLAG = BIT 3"
definition CONSTRAINT_SET5_FLAG :: u8 where [hdr_simps]: "CONSTRAINT_SET5_FLAG = BIT 2"

definition constraint_set_flags :: "h264_profile \<Rightarrow> u8" where
  "constraint_set_flags profile = (case profile of
     PROFILE_BASELINE \<Rightarrow> CONSTRAINT_SET0_FLAG
   | PROFILE_CONSTRAINED_BASELINE \<Rightarrow> CONSTRAINT_SET0_FLAG OR CONSTRAINT_SET1_FLAG
   | PROFILE_MAIN \<Rightarrow> CONSTRAINT_SET1_FLAG
   | PROFILE_CONSTRAINED_HIGH \<Rightarrow> CONSTRAINT_SET4_FLAG OR CONSTRAINT_SET5_FLAG
   | PROFILE_HIGH_10_INTRA \<Rightarrow> CONSTRAINT_SET3_FLAG
   | PROFILE_HIGH_422_INTRA \<Rightarrow> CONSTRAINT_SET3_FLAG
   | PROFILE_HIGH_444_INTRA \<Rightarrow> CONSTRAINT_SET3_FLAG
   | PROFILE_CAVLC_444_INTRA \<Rightarrow> CONSTRAINT_SET3_FLAG
   | PROFILE_SCALABLE_HIGH_INTRA \<Rightarrow> CONSTRAINT_SET3_FLAG
   | _ \<Rightarrow> 0)"

definition vui_sar_idc :: "vui_sar \<Rightarrow> u8" where
  "vui_sar_idc sar = (case sar of
     VUI_SAR_IDC_1x1 \<Rightarrow> 1
   | VUI_SAR_IDC_12x11 \<Rightarrow> 2
   | VUI_SAR_IDC_10x11 \<Rightarrow> 3
   | VUI_SAR_IDC_16x11 \<Rightarrow> 4
   | VUI_SAR_IDC_40x33 \<Rightarrow> 5
   | VUI_SAR_IDC_24x11 \<Rightarrow> 6
   | VUI_SAR_IDC_20x11 \<Rightarrow> 7
   | VUI_SAR_IDC_32x11 \<Rightarrow> 8
   | VUI_SAR_IDC_80x33 \<Rightarrow> 9
   | VUI_SAR_IDC_18x11 \<Rightarrow> 10
   | VUI_SAR_IDC_15x11 \<Rightarrow> 11
   | VUI_SAR_IDC_64x33 \<Rightarrow> 12
   | VUI_SAR_IDC_160x99 \<Rightarrow> 13
   | VUI_SAR_IDC_4x3 \<Rightarrow> 14
   | VUI_SAR_IDC_3x2 \<Rightarrow> 15
   | VUI_SAR_IDC_2x1 \<Rightarrow> 16
   | VUI_SAR_IDC_EXTENDED \<Rightarrow> 255
   | _ \<Rightarrow> 0)"

definition disable_deblocking_filter_idc :: "loop_filter_mode \<Rightarrow> u8" where
  "disable_deblocking_filter_idc mode = (case mode of
     LOOP_FILTER_MODE_ENABLED \<Rightarrow> 0
   | LOOP_FILTER_MODE_DISABLED \<Rightarrow> 1
   | LOOP_FILTER_MODE_DISABLED_AT_SLICE_BOUNDARY \<Rightarrow> 2
   | LOOP_FILTER_MODE_OTHER \<Rightarrow> 0)"

section \<open>State\<close>

datatype enc_step = STEP_START | STEP_SPS | STEP_PPS | STEP_SLICE

text \<open>The steps are compared by their enumeration order.\<close>

primrec step_rank :: "enc_step \<Rightarrow> nat" where
  "step_rank STEP_START = 0"
| "step_rank STEP_SPS = 1"
| "step_rank STEP_PPS = 2"
| "step_rank STEP_SLICE = 3"

instantiation enc_step :: linorder
begin

definition less_eq_enc_step :: "enc_step \<Rightarrow> enc_step \<Rightarrow> bool" where
  "less_eq_enc_step a b = (step_rank a \<le> step_rank b)"

definition less_enc_step :: "enc_step \<Rightarrow> enc_step \<Rightarrow> bool" where
  "less_enc_step a b = (step_rank a < step_rank b)"

instance
proof
  fix a b c :: enc_step
  show "(a < b) = (a \<le> b \<and> \<not> b \<le> a)" by (auto simp: less_eq_enc_step_def less_enc_step_def)
  show "a \<le> a" by (simp add: less_eq_enc_step_def)
  show "a \<le> b \<Longrightarrow> b \<le> c \<Longrightarrow> a \<le> c" by (simp add: less_eq_enc_step_def)
  show "a \<le> b \<Longrightarrow> b \<le> a \<Longrightarrow> a = b"
    by (cases a; cases b) (simp_all add: less_eq_enc_step_def)
  show "a \<le> b \<or> b \<le> a" by (auto simp: less_eq_enc_step_def)
qed

end

record h264_state =
  st_step :: enc_step
  st_gop_index :: u32
  st_frame_num :: u32
  st_pic_order_cnt_lsb :: u32
  st_qp_init :: u32

record h264_context =
  state :: h264_state
  mb_info_dma :: u64
  mb_info_size :: u32
  subpix_last_dma :: u64
  rec_last_dma :: u64
  rec_last_luma_size :: u32
  width_mbs :: u32
  height_mbs :: u32
  pic_order_cnt_type :: u32
  log2_max_pic_order_cnt_lsb :: u32
  log2_max_frame_num :: u32
  prepend_sps_pps_idr :: int
  profile :: h264_profile
  level :: h264_level
  vui_sar_enable :: int
  ctx_vui_sar_idc :: vui_sar
  vui_ext_sar_width :: int
  vui_ext_sar_height :: int
  entropy_mode :: entropy_mode
  chroma_qp_index_offset :: int
  loop_filter_mode :: loop_filter_mode
  loop_filter_alpha :: int
  loop_filter_beta :: int
  qp_min :: int
  qp_max :: int
  qp_i :: int
  qp_p :: int
  gop_closure :: int
  gop_size :: int
  gop_open_i_period :: int
  force_key_frame :: bool

record h264_job =
  nal_ref_idc :: u32
  job_frame_type :: frame_type
  frame_num :: u32
  pic_order_cnt_lsb :: u32
  qp :: u32
  seq_parameter_set_id :: u32
  pic_parameter_set_id :: u32
  idr_pic_id :: u32
  job_profile_idc :: u32
  job_level_idc :: u32
  job_constraint_set_flags :: u32
  entropy_coding_mode_flag :: u32
  job_chroma_qp_index_offset :: u32
  job_disable_deblocking_filter_idc :: u32
  slice_alpha_c0_offset_div2 :: int
  slice_beta_offset_div2 :: int
  cabac_init_idc :: u32

text \<open>\<open>cedrus_context_job_run\<close> clears the job before \<open>job_prepare\<close>.\<close>

definition zero_job :: h264_job where
  "zero_job = \<lparr>nal_ref_idc = 0, job_frame_type = FRAME_TYPE_IDR, frame_num = 0,
    pic_order_cnt_lsb = 0, qp = 0, seq_parameter_set_id = 0, pic_parameter_set_id = 0,
    idr_pic_id = 0, job_profile_idc = 0, job_level_idc = 0, job_constraint_set_flags = 0,
    entropy_coding_mode_flag = 0, job_chroma_qp_index_offset = 0,
    job_disable_deblocking_filter_idc = 0, slice_alpha_c0_offset_div2 = 0,
    slice_beta_offset_div2 = 0, cabac_init_idc = 0\<rparr>"

section \<open>Controls\<close>

text \<open>The controls keep their current values (\<open>ctrl->cur.val\<close>) in the control framework.\<close>

record h264_controls =
  cur_prepend_sps_pps_idr :: int
  cur_vui_sar_enable :: int
  cur_vui_sar_idc :: vui_sar
  cur_vui_ext_sar_width :: int
  cur_vui_ext_sar_height :: int
  cur_profile :: h264_profile
  cur_level :: h264_level
  cur_entropy_mode :: entropy_mode
  cur_chroma_qp_index_offset :: int
  cur_loop_filter_mode :: loop_filter_mode
  cur_loop_filter_alpha :: int
  cur_loop_filter_beta :: int
  cur_min_qp :: int
  cur_max_qp :: int
  cur_i_frame_qp :: int
  cur_p_frame_qp :: int
  cur_gop_closure :: int
  cur_gop_size :: int
  cur_i_period :: int

text \<open>A control whose value is set, with its new value (\<open>ctrl->val\<close>).\<close>

datatype h264_ctrl =
    CID_PREPEND_SPSPPS_TO_IDR int
  | CID_VUI_SAR_ENABLE int
  | CID_VUI_SAR_IDC vui_sar
  | CID_VUI_EXT_SAR_WIDTH int
  | CID_VUI_EXT_SAR_HEIGHT int
  | CID_PROFILE h264_profile
  | CID_LEVEL h264_level
  | CID_ENTROPY_MODE entropy_mode
  | CID_CHROMA_QP_INDEX_OFFSET int
  | CID_LOOP_FILTER_MODE loop_filter_mode
  | CID_LOOP_FILTER_ALPHA int
  | CID_LOOP_FILTER_BETA int
  | CID_MIN_QP int
  | CID_MAX_QP int
  | CID_I_FRAME_QP int
  | CID_P_FRAME_QP int
  | CID_GOP_CLOSURE int
  | CID_GOP_SIZE int
  | CID_I_PERIOD int
  | CID_FORCE_KEY_FRAME

text \<open>\<open>ctrl_validate\<close> reads the current value of the profile control, \<open>None\<close> when the
  context has no such control.  \<open>Inl\<close> is the error returned.\<close>

definition ctrl_validate :: "h264_profile option \<Rightarrow> h264_ctrl \<Rightarrow> errno + unit" where
  "ctrl_validate ctrl_profile ctrl = (case ctrl of
     CID_ENTROPY_MODE val \<Rightarrow>
       if val \<noteq> ENTROPY_MODE_CABAC then Inr ()
       else (case ctrl_profile of
           None \<Rightarrow> Inl ENODEV
         | Some cur \<Rightarrow> if \<not> profile_cabac_check cur then Inl EINVAL else Inr ())
   | _ \<Rightarrow> Inr ())"

definition step_back :: "enc_step \<Rightarrow> h264_context \<Rightarrow> h264_context" where
  "step_back s ctx = (if s < st_step (state ctx)
     then ctx\<lparr>state := (state ctx)\<lparr>st_step := s\<rparr>\<rparr> else ctx)"

text \<open>\<open>cedrus_enc_h264_ctrl_prepare\<close> stores current values: the framework calls it with the new value in
  \<open>ctrl->val\<close>, which it makes the current one only when the call has returned.
  \<open>s_ctrl_cavlc\<close> stands for \<open>__v4l2_ctrl_s_ctrl(ctrl_entropy, CAVLC)\<close>, the setter of the framework,
  which calls back into the driver.\<close>

definition ctrl_prepare ::
    "(h264_controls \<times> h264_context \<Rightarrow> h264_controls \<times> h264_context) \<Rightarrow> h264_ctrl \<Rightarrow>
      h264_controls \<times> h264_context \<Rightarrow> h264_controls \<times> h264_context" where
  "ctrl_prepare s_ctrl_cavlc ctrl = (\<lambda>(cs, ctx). case ctrl of
     CID_PREPEND_SPSPPS_TO_IDR _ \<Rightarrow> (cs, ctx\<lparr>prepend_sps_pps_idr := cur_prepend_sps_pps_idr cs\<rparr>)
   | CID_VUI_SAR_ENABLE _ \<Rightarrow> (cs, ctx\<lparr>vui_sar_enable := cur_vui_sar_enable cs\<rparr>)
   | CID_VUI_SAR_IDC _ \<Rightarrow> (cs, ctx\<lparr>ctx_vui_sar_idc := cur_vui_sar_idc cs\<rparr>)
   | CID_VUI_EXT_SAR_WIDTH _ \<Rightarrow> (cs, ctx\<lparr>vui_ext_sar_width := cur_vui_ext_sar_width cs\<rparr>)
   | CID_VUI_EXT_SAR_HEIGHT _ \<Rightarrow> (cs, ctx\<lparr>vui_ext_sar_height := cur_vui_ext_sar_height cs\<rparr>)
   | CID_PROFILE _ \<Rightarrow>
       (let ctx = ctx\<lparr>profile := cur_profile cs\<rparr>;
            (cs, ctx) = (if \<not> profile_cabac_check (profile ctx) then s_ctrl_cavlc (cs, ctx) else (cs, ctx))
        in (cs, step_back STEP_SPS ctx))
   | CID_LEVEL _ \<Rightarrow> (cs, step_back STEP_SPS (ctx\<lparr>level := cur_level cs\<rparr>))
   | CID_ENTROPY_MODE _ \<Rightarrow> (cs, step_back STEP_PPS (ctx\<lparr>entropy_mode := cur_entropy_mode cs\<rparr>))
   | CID_CHROMA_QP_INDEX_OFFSET _ \<Rightarrow> (cs, ctx\<lparr>chroma_qp_index_offset :=
       cur_chroma_qp_index_offset cs\<rparr>)
   | CID_LOOP_FILTER_MODE _ \<Rightarrow> (cs, ctx\<lparr>loop_filter_mode := cur_loop_filter_mode cs\<rparr>)
   | CID_LOOP_FILTER_ALPHA _ \<Rightarrow> (cs, ctx\<lparr>loop_filter_alpha := cur_loop_filter_alpha cs\<rparr>)
   | CID_LOOP_FILTER_BETA _ \<Rightarrow> (cs, ctx\<lparr>loop_filter_beta := cur_loop_filter_beta cs\<rparr>)
   | CID_MIN_QP _ \<Rightarrow> (cs, ctx\<lparr>qp_min := cur_min_qp cs\<rparr>)
   | CID_MAX_QP _ \<Rightarrow> (cs, ctx\<lparr>qp_max := cur_max_qp cs\<rparr>)
   | CID_I_FRAME_QP _ \<Rightarrow> (cs, ctx\<lparr>qp_i := cur_i_frame_qp cs\<rparr>)
   | CID_P_FRAME_QP _ \<Rightarrow> (cs, ctx\<lparr>qp_p := cur_p_frame_qp cs\<rparr>)
   | CID_GOP_CLOSURE _ \<Rightarrow> (cs, ctx\<lparr>gop_closure := cur_gop_closure cs\<rparr>)
   | CID_GOP_SIZE _ \<Rightarrow> (cs, ctx\<lparr>gop_size := cur_gop_size cs\<rparr>)
   | CID_I_PERIOD _ \<Rightarrow> (cs, ctx\<lparr>gop_open_i_period := cur_i_period cs\<rparr>)
   | CID_FORCE_KEY_FRAME \<Rightarrow> (cs, ctx\<lparr>force_key_frame := True\<rparr>))"

text \<open>Without an engine context the call is ignored.\<close>

definition ctrl_prepare_opt ::
    "(h264_controls \<times> h264_context \<Rightarrow> h264_controls \<times> h264_context) \<Rightarrow> h264_ctrl \<Rightarrow>
      h264_controls \<times> h264_context option \<Rightarrow> h264_controls \<times> h264_context option" where
  "ctrl_prepare_opt s_ctrl_cavlc ctrl = (\<lambda>(cs, octx). case octx of
     None \<Rightarrow> (cs, None)
   | Some ctx \<Rightarrow> (let (cs, ctx) = ctrl_prepare s_ctrl_cavlc ctrl (cs, ctx) in (cs, Some ctx)))"

section \<open>DMA memory\<close>

definition ALIGN_DOWN :: "nat \<Rightarrow> nat \<Rightarrow> nat" where
  "ALIGN_DOWN x a = x div a * a"

text \<open>\<open>cedrus_enc_h264_setup\<close>: \<open>ctrl_found\<close> says whether the entropy control exists and
  \<open>handler_setup\<close> is \<open>v4l2_ctrl_handler_setup\<close>, which applies the current control values
  to the context or fails.\<close>

definition h264_setup :: "dma_alloc \<Rightarrow> bool \<Rightarrow> (h264_context \<Rightarrow> errno + h264_context) \<Rightarrow> nat \<Rightarrow> nat \<Rightarrow>
    h264_context \<Rightarrow> dma_heap \<Rightarrow> (errno + h264_context) \<times> dma_heap" where
  "h264_setup alloc ctrl_found handler_setup pic_w pic_h ctx heap =
    (let w_mbs = DIV_ROUND_UP pic_w 16;
         h_mbs = DIV_ROUND_UP pic_h 16;
         size = DIV_ROUND_UP w_mbs 32 * 4096;
         ctx = ctx\<lparr>width_mbs := word_of_nat w_mbs, height_mbs := word_of_nat h_mbs,
           mb_info_size := word_of_nat size\<rparr>
     in case alloc heap size of
       None \<Rightarrow> (Inl ENOMEM, heap)
     | Some addr \<Rightarrow>
         let heap = (addr, size) # heap;
             ctx = ctx\<lparr>mb_info_dma := addr,
               state := (state ctx)\<lparr>st_step := STEP_START, st_gop_index := 0,
                 st_frame_num := 0, st_pic_order_cnt_lsb := 0\<rparr>,
               subpix_last_dma := 0, log2_max_frame_num := 8, pic_order_cnt_type := 0,
               log2_max_pic_order_cnt_lsb := 8\<rparr>
         in if \<not> ctrl_found then (Inl ENODEV, dma_free size addr heap)
            else (case handler_setup ctx of
                Inl e \<Rightarrow> (Inl e, dma_free size addr heap)
              | Inr ctx \<Rightarrow> (Inr ctx, heap)))"

definition h264_cleanup :: "h264_context \<Rightarrow> dma_heap \<Rightarrow> dma_heap" where
  "h264_cleanup ctx heap = dma_free (unat (mb_info_size ctx)) (mb_info_dma ctx) heap"

record h264_buffer =
  rec_dma :: u64
  rec_size :: nat
  rec_luma_size :: nat
  rec_chroma_size :: nat
  subpix_dma :: u64
  subpix_size :: nat

definition buffer_setup :: "dma_alloc \<Rightarrow> nat \<Rightarrow> nat \<Rightarrow> dma_heap \<Rightarrow>
    (errno + h264_buffer) \<times> dma_heap" where
  "buffer_setup alloc pic_w pic_h heap =
    (let w_mbs = DIV_ROUND_UP pic_w 16;
         h_mbs = DIV_ROUND_UP pic_h 16;
         subpix_size_width = ALIGN_DOWN ((w_mbs + 47) * 2 div 3) 32 + ALIGN w_mbs 32 * 2;
         subpix_size_height = (h_mbs * 16 + 72) div 8;
         subsize = subpix_size_width * subpix_size_height
     in case alloc heap subsize of
       None \<Rightarrow> (Inl ENOMEM, heap)
     | Some sub \<Rightarrow>
         let heap = (sub, subsize) # heap;
             luma = ALIGN w_mbs 2 * 16 * ALIGN (h_mbs + 1) 4 * 16;
             chroma = ALIGN w_mbs 2 * 16 * ALIGN (DIV_ROUND_UP h_mbs 2) 4 * 16;
             size = ALIGN (luma + chroma) 4096
         in case alloc heap size of
           None \<Rightarrow> (Inl ENOMEM, dma_free subsize sub heap)
         | Some r \<Rightarrow>
             (Inr \<lparr>rec_dma = r, rec_size = size, rec_luma_size = luma, rec_chroma_size = chroma,
                subpix_dma = sub, subpix_size = subsize\<rparr>, (r, size) # heap))"

definition buffer_cleanup :: "h264_buffer \<Rightarrow> dma_heap \<Rightarrow> dma_heap" where
  "buffer_cleanup buffer heap =
    dma_free (subpix_size buffer) (subpix_dma buffer)
      (dma_free (rec_size buffer) (rec_dma buffer) heap)"

section \<open>Preparing a job\<close>

text \<open>\<open>cedrus_enc_h264_job_prepare\<close>, with its parts as the code's comments name them.\<close>

definition job_frame_type_of :: "h264_context \<Rightarrow> frame_type" where
  "job_frame_type_of ctx =
    (if gop_closure ctx \<noteq> 0
     then (if st_gop_index (state ctx) = 0 then FRAME_TYPE_IDR else FRAME_TYPE_P)
     else if st_gop_index (state ctx) = 0 then FRAME_TYPE_IDR
     else if gop_open_i_period ctx > 0 \<and>
       st_gop_index (state ctx) mod word_of_int (gop_open_i_period ctx) = 0 then FRAME_TYPE_I
     else FRAME_TYPE_P)"

definition prepare_gop :: "h264_context \<times> h264_job \<Rightarrow> h264_context \<times> h264_job" where
  "prepare_gop = (\<lambda>(ctx, job).
    (let job = job\<lparr>job_frame_type := job_frame_type_of ctx\<rparr>;
         (ctx, job) = (if force_key_frame ctx
           then (ctx\<lparr>force_key_frame := False\<rparr>, job\<lparr>job_frame_type := FRAME_TYPE_IDR\<rparr>)
           else (ctx, job));
         i = st_gop_index (state ctx) + 1;
         i = (if gop_closure ctx \<noteq> 0 then i mod word_of_int (gop_size ctx) else i)
     in (ctx\<lparr>state := (state ctx)\<lparr>st_gop_index := i\<rparr>\<rparr>, job)))"

definition prepare_identification :: "h264_context \<times> h264_job \<Rightarrow> h264_context \<times> h264_job" where
  "prepare_identification = (\<lambda>(ctx, job).
    (let (ctx, job) = (if job_frame_type job = FRAME_TYPE_IDR
           then (let ctx = ctx\<lparr>state := (state ctx)\<lparr>st_frame_num := 0,
                       st_pic_order_cnt_lsb := 0\<rparr>\<rparr>;
                     ctx = (if prepend_sps_pps_idr ctx \<noteq> 0
                       then ctx\<lparr>state := (state ctx)\<lparr>st_step := STEP_SPS\<rparr>\<rparr> else ctx)
                 in (ctx, job\<lparr>idr_pic_id := 0\<rparr>))
           else (ctx, job));
         job = job\<lparr>frame_num := st_frame_num (state ctx)\<rparr>;
         ctx = ctx\<lparr>state := (state ctx)\<lparr>st_frame_num :=
           (st_frame_num (state ctx) + 1) mod BIT (unat (log2_max_frame_num ctx))\<rparr>\<rparr>;
         job = job\<lparr>pic_order_cnt_lsb := st_pic_order_cnt_lsb (state ctx)\<rparr>;
         ctx = ctx\<lparr>state := (state ctx)\<lparr>st_pic_order_cnt_lsb :=
           (st_pic_order_cnt_lsb (state ctx) + 2) mod
             BIT (unat (log2_max_pic_order_cnt_lsb ctx))\<rparr>\<rparr>
     in (ctx, job)))"

definition prepare_features :: "h264_context \<Rightarrow> h264_job \<Rightarrow> h264_job" where
  "prepare_features ctx job =
    (let job = job\<lparr>job_profile_idc := ucast (profile_idc (profile ctx)),
           job_level_idc := ucast (level_idc (level ctx)),
           job_constraint_set_flags := ucast (constraint_set_flags (profile ctx))\<rparr>;
         job = (if entropy_mode ctx = ENTROPY_MODE_CABAC
           then job\<lparr>entropy_coding_mode_flag := 1, cabac_init_idc :=
             (if job_frame_type job = FRAME_TYPE_IDR \<or> job_frame_type job = FRAME_TYPE_I
              then 0 else 1)\<rparr>
           else job\<lparr>entropy_coding_mode_flag := 0, cabac_init_idc := 0\<rparr>);
         job = job\<lparr>job_chroma_qp_index_offset := word_of_int (chroma_qp_index_offset ctx)\<rparr>;
         job = job\<lparr>job_disable_deblocking_filter_idc :=
           ucast (disable_deblocking_filter_idc (loop_filter_mode ctx))\<rparr>
     in if job_disable_deblocking_filter_idc job \<noteq> 1
        then job\<lparr>slice_alpha_c0_offset_div2 := loop_filter_alpha ctx,
          slice_beta_offset_div2 := loop_filter_beta ctx\<rparr>
        else job)"

definition prepare_qp :: "h264_context \<Rightarrow> h264_job \<Rightarrow> h264_job" where
  "prepare_qp ctx job =
    (let job = (case job_frame_type job of
           FRAME_TYPE_IDR \<Rightarrow> job\<lparr>qp := word_of_int (qp_i ctx)\<rparr>
         | FRAME_TYPE_I \<Rightarrow> job\<lparr>qp := word_of_int (qp_i ctx)\<rparr>
         | FRAME_TYPE_P \<Rightarrow> job\<lparr>qp := word_of_int (qp_p ctx)\<rparr>
         | FRAME_TYPE_B \<Rightarrow> job)
     in if word_of_int (qp_max ctx) < qp job then job\<lparr>qp := word_of_int (qp_max ctx)\<rparr>
        else if qp job < word_of_int (qp_min ctx) then job\<lparr>qp := word_of_int (qp_min ctx)\<rparr>
        else job)"

definition job_prepare :: "h264_context \<times> h264_job \<Rightarrow> h264_context \<times> h264_job" where
  "job_prepare = (\<lambda>(ctx, job).
    (let job = job\<lparr>seq_parameter_set_id := 0, pic_parameter_set_id := 0, nal_ref_idc := 2\<rparr>;
         (ctx, job) = prepare_gop (ctx, job);
         (ctx, job) = prepare_identification (ctx, job);
         job = prepare_features ctx job;
         job = prepare_qp ctx job;
         ctx = (if st_step (state ctx) < STEP_SLICE
           then ctx\<lparr>state := (state ctx)\<lparr>st_qp_init := qp job\<rparr>\<rparr> else ctx)
     in (ctx, job)))"

section \<open>Quantiser\<close>

lemma qp_word: "0 \<le> i \<Longrightarrow> i \<le> 51 \<Longrightarrow> uint (word_of_int i :: u32) = i"
  by (simp add: uint_word_of_int)

definition valid_qps :: "h264_context \<Rightarrow> bool" where
  "valid_qps ctx = (0 \<le> qp_min ctx \<and> qp_min ctx \<le> qp_max ctx \<and> qp_max ctx \<le> 51 \<and>
     0 \<le> qp_i ctx \<and> qp_i ctx \<le> 51 \<and> 0 \<le> qp_p ctx \<and> qp_p ctx \<le> 51)"

lemma prepare_qp_clamps:
  assumes v: "valid_qps ctx" and t: "job_frame_type job \<noteq> FRAME_TYPE_B"
  shows "uint (qp (prepare_qp ctx job)) =
    max (qp_min ctx) (min (qp_max ctx)
      (if job_frame_type job = FRAME_TYPE_P then qp_p ctx else qp_i ctx))"
proof -
  note w = qp_word[of "qp_min ctx"] qp_word[of "qp_max ctx"] qp_word[of "qp_i ctx"] qp_word[of "qp_p ctx"]
  have b: "0 \<le> qp_min ctx" "qp_min ctx \<le> qp_max ctx" "qp_max ctx \<le> 51"
    "0 \<le> qp_i ctx" "qp_i ctx \<le> 51" "0 \<le> qp_p ctx" "qp_p ctx \<le> 51"
    using v by (auto simp: valid_qps_def)
  show ?thesis
    using t b w
    by (cases "job_frame_type job")
      (simp_all add: prepare_qp_def word_less_def Let_def max_def min_def)
qed

lemma prepare_qp_le_51:
  assumes "0 \<le> qp_min ctx" "qp_min ctx \<le> 51" "0 \<le> qp_max ctx" "qp_max ctx \<le> 51"
    "0 \<le> qp_i ctx" "qp_i ctx \<le> 51" "0 \<le> qp_p ctx" "qp_p ctx \<le> 51"
    and t: "job_frame_type job \<noteq> FRAME_TYPE_B"
  shows "uint (qp (prepare_qp ctx job)) \<le> 51"
proof -
  note w = qp_word[of "qp_min ctx"] qp_word[of "qp_max ctx"] qp_word[of "qp_i ctx"] qp_word[of "qp_p ctx"]
  show ?thesis
    using assms w by (cases "job_frame_type job") (simp_all add: prepare_qp_def word_less_def Let_def)
qed

section \<open>Memory\<close>

lemma setup_heap:
  "fst (h264_setup alloc found hs w h ctx heap) = Inl e \<Longrightarrow>
   snd (h264_setup alloc found hs w h ctx heap) = heap"
  by (auto simp: h264_setup_def Let_def dma_free_def split: option.splits sum.splits if_splits)

definition keeps_mb_info :: "(h264_context \<Rightarrow> errno + h264_context) \<Rightarrow> bool" where
  "keeps_mb_info hs = (\<forall>c c'. hs c = Inr c' \<longrightarrow>
     mb_info_dma c' = mb_info_dma c \<and> mb_info_size c' = mb_info_size c)"

lemma setup_cleanup_heap:
  assumes "keeps_mb_info hs" and "DIV_ROUND_UP (DIV_ROUND_UP w 16) 32 * 4096 < 2 ^ 32"
    and r: "fst (h264_setup alloc found hs w h ctx heap) = Inr ctx'"
  shows "h264_cleanup ctx' (snd (h264_setup alloc found hs w h ctx heap)) = heap"
proof -
  let ?s = "DIV_ROUND_UP (DIV_ROUND_UP w 16) 32 * 4096"
  have s: "unat (word_of_nat ?s :: u32) = ?s"
    using assms(2) by (simp only: unat_of_nat) simp
  obtain addr where a: "alloc heap ?s = Some addr"
    using r by (cases "alloc heap ?s") (auto simp: h264_setup_def Let_def)
  then have "mb_info_dma ctx' = addr \<and> mb_info_size ctx' = word_of_nat ?s
    \<and> snd (h264_setup alloc found hs w h ctx heap) = (addr, ?s) # heap"
    using r assms(1) by (auto simp: h264_setup_def Let_def keeps_mb_info_def split: if_splits sum.splits)
  then show ?thesis using s by (simp add: h264_cleanup_def dma_free_def del: of_nat_mult)
qed

lemma buffer_setup_heap:
  "fst (buffer_setup alloc w h heap) = Inl e \<Longrightarrow> snd (buffer_setup alloc w h heap) = heap"
  by (auto simp: buffer_setup_def Let_def dma_free_def split: option.splits)

lemma buffer_setup_cleanup_heap:
  "fst (buffer_setup alloc w h heap) = Inr b \<Longrightarrow>
   buffer_cleanup b (snd (buffer_setup alloc w h heap)) = heap"
  by (auto simp: buffer_setup_def Let_def dma_free_def buffer_cleanup_def split: option.splits)

lemma DIV_ROUND_UP_ge: "0 < d \<Longrightarrow> n \<le> DIV_ROUND_UP n d * d"
  using ALIGN_ge[of d n] by (simp add: ALIGN_def DIV_ROUND_UP_def)

lemma buffer_setup_sizes:
  assumes "fst (buffer_setup alloc w h heap) = Inr b"
  shows "w * h \<le> rec_luma_size b" and "2 * rec_chroma_size b \<ge> w * h"
    and "rec_luma_size b + rec_chroma_size b \<le> rec_size b"
    and "4096 dvd rec_size b"
proof -
  define wm where "wm = DIV_ROUND_UP w 16"
  define hm where "hm = DIV_ROUND_UP h 16"
  have b: "rec_luma_size b = ALIGN wm 2 * 16 * ALIGN (hm + 1) 4 * 16"
    "rec_chroma_size b = ALIGN wm 2 * 16 * ALIGN (DIV_ROUND_UP hm 2) 4 * 16"
    "rec_size b = ALIGN (rec_luma_size b + rec_chroma_size b) 4096"
    using assms by (auto simp: buffer_setup_def Let_def wm_def hm_def split: option.splits)
  have w: "w \<le> ALIGN wm 2 * 16"
    using DIV_ROUND_UP_ge[of 16 w] ALIGN_ge[of 2 wm] by (simp add: wm_def)
  have h: "h \<le> hm * 16" using DIV_ROUND_UP_ge[of 16 h] by (simp add: hm_def)
  have "h \<le> ALIGN (hm + 1) 4 * 16" using h ALIGN_ge[of 4 "hm + 1"] by simp
  then have "w * h \<le> ALIGN wm 2 * 16 * (ALIGN (hm + 1) 4 * 16)" using w by (intro mult_le_mono)
  then show "w * h \<le> rec_luma_size b" by (simp add: b mult.assoc)
  have "hm \<le> 2 * ALIGN (DIV_ROUND_UP hm 2) 4"
    using DIV_ROUND_UP_ge[of 2 hm] ALIGN_ge[of 4 "DIV_ROUND_UP hm 2"] by simp
  then have "h \<le> 2 * (ALIGN (DIV_ROUND_UP hm 2) 4 * 16)" using h by simp
  then have "w * h \<le> ALIGN wm 2 * 16 * (2 * (ALIGN (DIV_ROUND_UP hm 2) 4 * 16))"
    using w by (intro mult_le_mono)
  then show "2 * rec_chroma_size b \<ge> w * h" by (simp add: b algebra_simps)
  show "rec_luma_size b + rec_chroma_size b \<le> rec_size b"
    unfolding b(3) by (rule ALIGN_ge) simp
  show "4096 dvd rec_size b" unfolding b(3) by (rule ALIGN_dvd)
qed

section \<open>The control framework\<close>

lemma step_back_alt:
  "step_back s c = c\<lparr>state :=
    (if s < st_step (state c) then (state c)\<lparr>st_step := s\<rparr> else state c)\<rparr>"
  by (simp add: step_back_def)

lemma step_back_simps [simp]:
  "entropy_mode (step_back s c) = entropy_mode c" "profile (step_back s c) = profile c"
  "level (step_back s c) = level c" "gop_size (step_back s c) = gop_size c"
  "chroma_qp_index_offset (step_back s c) = chroma_qp_index_offset c"
  by (simp_all add: step_back_def)

text \<open>What the framework keeps: the new value becomes the current one.\<close>

definition new_to_cur :: "h264_ctrl \<Rightarrow> h264_controls \<Rightarrow> h264_controls" where
  "new_to_cur ctrl cs = (case ctrl of
     CID_PREPEND_SPSPPS_TO_IDR v \<Rightarrow> cs\<lparr>cur_prepend_sps_pps_idr := v\<rparr>
   | CID_VUI_SAR_ENABLE v \<Rightarrow> cs\<lparr>cur_vui_sar_enable := v\<rparr>
   | CID_VUI_SAR_IDC v \<Rightarrow> cs\<lparr>cur_vui_sar_idc := v\<rparr>
   | CID_VUI_EXT_SAR_WIDTH v \<Rightarrow> cs\<lparr>cur_vui_ext_sar_width := v\<rparr>
   | CID_VUI_EXT_SAR_HEIGHT v \<Rightarrow> cs\<lparr>cur_vui_ext_sar_height := v\<rparr>
   | CID_PROFILE v \<Rightarrow> cs\<lparr>cur_profile := v\<rparr>
   | CID_LEVEL v \<Rightarrow> cs\<lparr>cur_level := v\<rparr>
   | CID_ENTROPY_MODE v \<Rightarrow> cs\<lparr>cur_entropy_mode := v\<rparr>
   | CID_CHROMA_QP_INDEX_OFFSET v \<Rightarrow> cs\<lparr>cur_chroma_qp_index_offset := v\<rparr>
   | CID_LOOP_FILTER_MODE v \<Rightarrow> cs\<lparr>cur_loop_filter_mode := v\<rparr>
   | CID_LOOP_FILTER_ALPHA v \<Rightarrow> cs\<lparr>cur_loop_filter_alpha := v\<rparr>
   | CID_LOOP_FILTER_BETA v \<Rightarrow> cs\<lparr>cur_loop_filter_beta := v\<rparr>
   | CID_MIN_QP v \<Rightarrow> cs\<lparr>cur_min_qp := v\<rparr>
   | CID_MAX_QP v \<Rightarrow> cs\<lparr>cur_max_qp := v\<rparr>
   | CID_I_FRAME_QP v \<Rightarrow> cs\<lparr>cur_i_frame_qp := v\<rparr>
   | CID_P_FRAME_QP v \<Rightarrow> cs\<lparr>cur_p_frame_qp := v\<rparr>
   | CID_GOP_CLOSURE v \<Rightarrow> cs\<lparr>cur_gop_closure := v\<rparr>
   | CID_GOP_SIZE v \<Rightarrow> cs\<lparr>cur_gop_size := v\<rparr>
   | CID_I_PERIOD v \<Rightarrow> cs\<lparr>cur_i_period := v\<rparr>
   | CID_FORCE_KEY_FRAME \<Rightarrow> cs)"

text \<open>Setting a control, as the framework documents it: \<open>try_ctrl\<close> checks the new value, nothing more
  happens when the current value is that already (a button has none), \<open>s_ctrl\<close> then sees the new value
  beside the current one, and the new one becomes current when it has returned.\<close>

definition set_ctrl :: "(h264_controls \<times> h264_context \<Rightarrow> h264_controls \<times> h264_context) \<Rightarrow> h264_ctrl \<Rightarrow>
    h264_controls \<times> h264_context \<Rightarrow> errno + h264_controls \<times> h264_context" where
  "set_ctrl s ctrl = (\<lambda>(cs, ctx).
     case ctrl_validate (Some (cur_profile cs)) ctrl of
       Inl e \<Rightarrow> Inl e
     | Inr _ \<Rightarrow>
         if ctrl \<noteq> CID_FORCE_KEY_FRAME \<and> new_to_cur ctrl cs = cs then Inr (cs, ctx)
         else (let (cs, ctx) = ctrl_prepare s ctrl (cs, ctx) in Inr (new_to_cur ctrl cs, ctx)))"

text \<open>\<open>__v4l2_ctrl_s_ctrl\<close> of the driver's own call is such a setting.  The callback of the entropy mode
  sets no control, so one level is all there is.\<close>

definition s_ctrl_contract :: "(h264_controls \<times> h264_context \<Rightarrow> h264_controls \<times> h264_context) \<Rightarrow> bool" where
  "s_ctrl_contract s = (\<forall>st. Inr (s st) = set_ctrl s (CID_ENTROPY_MODE ENTROPY_MODE_CAVLC) st)"

definition framework_s_ctrl :: "h264_controls \<times> h264_context \<Rightarrow> h264_controls \<times> h264_context" where
  "framework_s_ctrl = (\<lambda>(cs, ctx).
     if cur_entropy_mode cs = ENTROPY_MODE_CAVLC then (cs, ctx)
     else (cs\<lparr>cur_entropy_mode := ENTROPY_MODE_CAVLC\<rparr>,
       step_back STEP_PPS (ctx\<lparr>entropy_mode := cur_entropy_mode cs\<rparr>)))"

lemma entropy_current: "cs\<lparr>cur_entropy_mode := v\<rparr> = cs \<longleftrightarrow> cur_entropy_mode cs = v"
  by (metis h264_controls.select_convs(8) h264_controls.surjective h264_controls.update_convs(8))

lemma framework_s_ctrl_contract: "s_ctrl_contract framework_s_ctrl"
  by (auto simp: s_ctrl_contract_def set_ctrl_def framework_s_ctrl_def ctrl_prepare_def ctrl_validate_def
    new_to_cur_def entropy_current)

lemma s_ctrl_contract_unique: "s_ctrl_contract s \<Longrightarrow> s = framework_s_ctrl"
proof (rule ext)
  fix st assume "s_ctrl_contract s"
  then have "Inr (s st) = set_ctrl s (CID_ENTROPY_MODE ENTROPY_MODE_CAVLC) st" unfolding s_ctrl_contract_def by blast
  then show "s st = framework_s_ctrl st"
    by (cases st) (simp add: set_ctrl_def framework_s_ctrl_def ctrl_prepare_def ctrl_validate_def
      new_to_cur_def entropy_current split: if_splits)
qed

section \<open>The control table\<close>

text \<open>The ranges of \<open>cedrus_enc_h264_ctrl_configs\<close> (the framework rejects values outside
  them; a menu control accepts the items between minimum and maximum that are not skipped) and
  the default values, which are the current ones until they are set.\<close>

definition ctrl_in_range :: "h264_ctrl \<Rightarrow> bool" where
  "ctrl_in_range ctrl = (case ctrl of
     CID_PREPEND_SPSPPS_TO_IDR v \<Rightarrow> 0 \<le> v \<and> v \<le> 1
   | CID_VUI_SAR_ENABLE v \<Rightarrow> 0 \<le> v \<and> v \<le> 1
   | CID_VUI_SAR_IDC v \<Rightarrow> True
   | CID_VUI_EXT_SAR_WIDTH v \<Rightarrow> 1 \<le> v \<and> v \<le> 65535
   | CID_VUI_EXT_SAR_HEIGHT v \<Rightarrow> 1 \<le> v \<and> v \<le> 65535
   | CID_PROFILE v \<Rightarrow> v \<in> {PROFILE_BASELINE, PROFILE_CONSTRAINED_BASELINE, PROFILE_MAIN, PROFILE_HIGH}
   | CID_LEVEL v \<Rightarrow> v \<noteq> LEVEL_OTHER
   | CID_ENTROPY_MODE v \<Rightarrow> True
   | CID_CHROMA_QP_INDEX_OFFSET v \<Rightarrow> 0 \<le> v \<and> v \<le> 7
   | CID_LOOP_FILTER_MODE v \<Rightarrow> v \<noteq> LOOP_FILTER_MODE_OTHER
   | CID_LOOP_FILTER_ALPHA v \<Rightarrow> - 6 \<le> v \<and> v \<le> 6
   | CID_LOOP_FILTER_BETA v \<Rightarrow> - 6 \<le> v \<and> v \<le> 6
   | CID_MIN_QP v \<Rightarrow> 0 \<le> v \<and> v \<le> 51
   | CID_MAX_QP v \<Rightarrow> 0 \<le> v \<and> v \<le> 51
   | CID_I_FRAME_QP v \<Rightarrow> 0 \<le> v \<and> v \<le> 51
   | CID_P_FRAME_QP v \<Rightarrow> 0 \<le> v \<and> v \<le> 51
   | CID_GOP_CLOSURE v \<Rightarrow> 0 \<le> v \<and> v \<le> 1
   | CID_GOP_SIZE v \<Rightarrow> 1 \<le> v \<and> v \<le> 65535
   | CID_I_PERIOD v \<Rightarrow> 1 \<le> v \<and> v \<le> 65535
   | CID_FORCE_KEY_FRAME \<Rightarrow> True)"

definition default_controls :: h264_controls where
  "default_controls = \<lparr>cur_prepend_sps_pps_idr = 0, cur_vui_sar_enable = 0, cur_vui_sar_idc =
      VUI_SAR_IDC_UNSPECIFIED, cur_vui_ext_sar_width = 1, cur_vui_ext_sar_height = 1, cur_profile =
      PROFILE_MAIN, cur_level = LEVEL_5_1, cur_entropy_mode = ENTROPY_MODE_CAVLC, cur_chroma_qp_index_offset =
      4, cur_loop_filter_mode = LOOP_FILTER_MODE_ENABLED, cur_loop_filter_alpha = 0, cur_loop_filter_beta = 0,
      cur_min_qp = 10, cur_max_qp = 40, cur_i_frame_qp = 26, cur_p_frame_qp = 28, cur_gop_closure = 1,
      cur_gop_size = 12, cur_i_period = 12\<rparr>"

text \<open>The controls of the table, in its order, each with its current value; the button has none.\<close>

definition h264_ctrl_table :: "(h264_controls \<Rightarrow> h264_ctrl) list" where
  "h264_ctrl_table = [\<lambda>cs. CID_PREPEND_SPSPPS_TO_IDR (cur_prepend_sps_pps_idr cs), \<lambda>cs.
      CID_VUI_SAR_ENABLE (cur_vui_sar_enable cs), \<lambda>cs. CID_VUI_SAR_IDC (cur_vui_sar_idc cs),
      \<lambda>cs. CID_VUI_EXT_SAR_WIDTH (cur_vui_ext_sar_width cs), \<lambda>cs. CID_VUI_EXT_SAR_HEIGHT
      (cur_vui_ext_sar_height cs), \<lambda>cs. CID_PROFILE (cur_profile cs), \<lambda>cs. CID_LEVEL
      (cur_level cs), \<lambda>cs. CID_ENTROPY_MODE (cur_entropy_mode cs), \<lambda>cs.
      CID_CHROMA_QP_INDEX_OFFSET (cur_chroma_qp_index_offset cs), \<lambda>cs. CID_LOOP_FILTER_MODE
      (cur_loop_filter_mode cs), \<lambda>cs. CID_LOOP_FILTER_ALPHA (cur_loop_filter_alpha cs), \<lambda>cs.
      CID_LOOP_FILTER_BETA (cur_loop_filter_beta cs), \<lambda>cs. CID_MIN_QP (cur_min_qp cs), \<lambda>cs.
      CID_MAX_QP (cur_max_qp cs), \<lambda>cs. CID_I_FRAME_QP (cur_i_frame_qp cs), \<lambda>cs. CID_P_FRAME_QP
      (cur_p_frame_qp cs), \<lambda>cs. CID_GOP_CLOSURE (cur_gop_closure cs), \<lambda>cs. CID_GOP_SIZE
      (cur_gop_size cs), \<lambda>cs. CID_I_PERIOD (cur_i_period cs)]"

definition controls_in_range :: "h264_controls \<Rightarrow> bool" where
  "controls_in_range cs = list_all (\<lambda>get. ctrl_in_range (get cs)) h264_ctrl_table"

text \<open>\<open>v4l2_ctrl_handler_setup\<close> calls \<open>s_ctrl\<close> for every control that is not a
    button, with its current
  value as the new one too.\<close>

definition handler_setup :: "h264_controls \<times> h264_context \<Rightarrow> h264_controls \<times> h264_context" where
  "handler_setup st = fold (\<lambda>get st. ctrl_prepare framework_s_ctrl (get (fst st)) st) h264_ctrl_table st"

abbreviation handler_run :: "h264_controls \<Rightarrow> h264_context \<Rightarrow> errno + h264_context" where
  "handler_run cs ctx \<equiv> Inr (snd (handler_setup (cs, ctx)))"

definition ctx_in_range :: "h264_context \<Rightarrow> bool" where
  "ctx_in_range ctx =
    (0 \<le> vui_ext_sar_width ctx \<and> vui_ext_sar_width ctx \<le> 65535 \<and>
     0 \<le> vui_ext_sar_height ctx \<and> vui_ext_sar_height ctx \<le> 65535 \<and>
     profile ctx \<in> {PROFILE_BASELINE, PROFILE_CONSTRAINED_BASELINE, PROFILE_MAIN, PROFILE_HIGH} \<and>
     level ctx \<noteq> LEVEL_OTHER \<and> 0 \<le> chroma_qp_index_offset ctx \<and> chroma_qp_index_offset ctx \<le> 7 \<and>
     loop_filter_mode ctx \<noteq> LOOP_FILTER_MODE_OTHER \<and>
     - 6 \<le> loop_filter_alpha ctx \<and> loop_filter_alpha ctx \<le> 6 \<and>
     - 6 \<le> loop_filter_beta ctx \<and> loop_filter_beta ctx \<le> 6 \<and>
     0 \<le> qp_min ctx \<and> qp_min ctx \<le> 51 \<and> 0 \<le> qp_max ctx \<and> qp_max ctx \<le> 51 \<and>
     0 \<le> qp_i ctx \<and> qp_i ctx \<le> 51 \<and> 0 \<le> qp_p ctx \<and> qp_p ctx \<le> 51 \<and>
     1 \<le> gop_size ctx \<and> gop_size ctx \<le> 65535 \<and>
     1 \<le> gop_open_i_period ctx \<and> gop_open_i_period ctx \<le> 65535)"

lemma ctx_in_range_simps [simp]:
  "ctx_in_range (c\<lparr>state := x\<rparr>) = ctx_in_range c"
  "ctx_in_range (c\<lparr>entropy_mode := e\<rparr>) = ctx_in_range c"
  "ctx_in_range (c\<lparr>force_key_frame := b\<rparr>) = ctx_in_range c"
  by (simp_all add: ctx_in_range_def)

lemma step_back_in_range [simp]: "ctx_in_range (step_back s c) = ctx_in_range c"
  by (simp add: step_back_def)

lemma new_to_cur_in_range: "controls_in_range cs \<Longrightarrow> ctrl_in_range ctrl \<Longrightarrow> controls_in_range (new_to_cur ctrl cs)"
  by (cases ctrl) (simp_all add: controls_in_range_def h264_ctrl_table_def new_to_cur_def ctrl_in_range_def)

lemma cavlc_in_range [simp]: "controls_in_range (cs\<lparr>cur_entropy_mode := e\<rparr>) = controls_in_range cs"
  by (simp add: controls_in_range_def h264_ctrl_table_def ctrl_in_range_def)

lemma controls_in_range_alt:
  "controls_in_range cs \<longleftrightarrow>
    (0 \<le> cur_prepend_sps_pps_idr cs \<and> cur_prepend_sps_pps_idr cs \<le> 1) \<and>
    (0 \<le> cur_vui_sar_enable cs \<and> cur_vui_sar_enable cs \<le> 1) \<and>
    (1 \<le> cur_vui_ext_sar_width cs \<and> cur_vui_ext_sar_width cs \<le> 65535) \<and>
    (1 \<le> cur_vui_ext_sar_height cs \<and> cur_vui_ext_sar_height cs \<le> 65535) \<and>
    cur_profile cs \<in> {PROFILE_BASELINE, PROFILE_CONSTRAINED_BASELINE, PROFILE_MAIN, PROFILE_HIGH} \<and>
    cur_level cs \<noteq> LEVEL_OTHER \<and>
    (0 \<le> cur_chroma_qp_index_offset cs \<and> cur_chroma_qp_index_offset cs \<le> 7) \<and>
    cur_loop_filter_mode cs \<noteq> LOOP_FILTER_MODE_OTHER \<and>
    (- 6 \<le> cur_loop_filter_alpha cs \<and> cur_loop_filter_alpha cs \<le> 6) \<and>
    (- 6 \<le> cur_loop_filter_beta cs \<and> cur_loop_filter_beta cs \<le> 6) \<and>
    (0 \<le> cur_min_qp cs \<and> cur_min_qp cs \<le> 51) \<and> (0 \<le> cur_max_qp cs \<and> cur_max_qp cs \<le> 51) \<and>
    (0 \<le> cur_i_frame_qp cs \<and> cur_i_frame_qp cs \<le> 51) \<and>
    (0 \<le> cur_p_frame_qp cs \<and> cur_p_frame_qp cs \<le> 51) \<and>
    (0 \<le> cur_gop_closure cs \<and> cur_gop_closure cs \<le> 1) \<and>
    (1 \<le> cur_gop_size cs \<and> cur_gop_size cs \<le> 65535) \<and>
    (1 \<le> cur_i_period cs \<and> cur_i_period cs \<le> 65535)"
  by (simp add: controls_in_range_def h264_ctrl_table_def ctrl_in_range_def)

lemma ctrl_prepare_controls:
  "controls_in_range (fst (ctrl_prepare framework_s_ctrl ctrl (cs, c))) = controls_in_range cs"
  by (cases ctrl) (simp_all add: ctrl_prepare_def framework_s_ctrl_def Let_def)

lemma ctrl_prepare_context:
  assumes "controls_in_range cs" "ctx_in_range c"
  shows "ctx_in_range (snd (ctrl_prepare framework_s_ctrl ctrl (cs, c)))"
proof -
  note r = assms(1)[unfolded controls_in_range_alt] assms(2)[unfolded ctx_in_range_def]
  have p: "ctx_in_range (c\<lparr>profile := cur_profile cs\<rparr>)" "ctx_in_range (c\<lparr>level := cur_level cs\<rparr>)"
    using r by (simp_all add: ctx_in_range_def)
  show ?thesis
  proof (cases ctrl)
    case (CID_PROFILE p)
    then show ?thesis using \<open>ctx_in_range (c\<lparr>profile := cur_profile cs\<rparr>)\<close>
      by (simp add: ctrl_prepare_def framework_s_ctrl_def Let_def)
  next
    case (CID_LEVEL l)
    then show ?thesis using p(2) by (simp add: ctrl_prepare_def)
  next
    case (CID_ENTROPY_MODE e)
    then show ?thesis using assms(2) by (simp add: ctrl_prepare_def)
  qed (use r in \<open>simp_all add: ctrl_prepare_def ctx_in_range_def\<close>)
qed

lemma ctrl_prepare_in_range:
  assumes "controls_in_range cs" "ctx_in_range c" "ctrl_prepare framework_s_ctrl ctrl (cs, c) = (cs', c')"
  shows "controls_in_range cs' \<and> ctx_in_range c'"
  using ctrl_prepare_controls[of ctrl cs c] ctrl_prepare_context[OF assms(1,2), of ctrl] assms by simp

lemma set_ctrl_in_range:
  assumes "controls_in_range cs" "ctx_in_range c" "ctrl_in_range ctrl"
    "set_ctrl framework_s_ctrl ctrl (cs, c) = Inr (cs', c')"
  shows "controls_in_range cs' \<and> ctx_in_range c'"
proof (cases "ctrl_prepare framework_s_ctrl ctrl (cs, c)")
  case (Pair ds d)
  then show ?thesis using ctrl_prepare_in_range[OF assms(1,2) Pair] new_to_cur_in_range[OF _ assms(3)] assms
    by (auto simp: set_ctrl_def split: sum.splits if_splits)
qed

text \<open>What a context holds once the handler is set up.\<close>

definition handler_controls :: "h264_controls \<Rightarrow> h264_controls" where
  "handler_controls cs = (if profile_cabac_check (cur_profile cs) then cs else cs\<lparr>cur_entropy_mode := ENTROPY_MODE_CAVLC\<rparr>)"

lemma handler_setup_controls: "fst (handler_setup (cs, c)) = handler_controls cs"
  by (simp add: handler_setup_def h264_ctrl_table_def ctrl_prepare_def framework_s_ctrl_def handler_controls_def
    Let_def entropy_current)

lemma handler_setup_eq:
  "st_step (state c) = STEP_START \<Longrightarrow> handler_setup (cs, c) = (handler_controls cs, c\<lparr>prepend_sps_pps_idr :=
      cur_prepend_sps_pps_idr cs, vui_sar_enable := cur_vui_sar_enable cs, ctx_vui_sar_idc := cur_vui_sar_idc
      cs, vui_ext_sar_width := cur_vui_ext_sar_width cs, vui_ext_sar_height := cur_vui_ext_sar_height cs,
      profile := cur_profile cs, level := cur_level cs, entropy_mode := cur_entropy_mode (handler_controls
      cs), chroma_qp_index_offset := cur_chroma_qp_index_offset cs, loop_filter_mode := cur_loop_filter_mode
      cs, loop_filter_alpha := cur_loop_filter_alpha cs, loop_filter_beta := cur_loop_filter_beta cs, qp_min
      := cur_min_qp cs, qp_max := cur_max_qp cs, qp_i := cur_i_frame_qp cs, qp_p := cur_p_frame_qp cs,
      gop_closure := cur_gop_closure cs, gop_size := cur_gop_size cs, gop_open_i_period := cur_i_period cs\<rparr>)"
  by (simp add: handler_setup_def h264_ctrl_table_def ctrl_prepare_def framework_s_ctrl_def handler_controls_def
    step_back_alt less_enc_step_def Let_def entropy_current)

section \<open>Properties\<close>

definition blank_ctx :: h264_context where
  "blank_ctx = \<lparr>state = \<lparr>st_step = STEP_START, st_gop_index = 0, st_frame_num = 0,
       st_pic_order_cnt_lsb = 0, st_qp_init = 0\<rparr>,
     mb_info_dma = 0, mb_info_size = 0, subpix_last_dma = 0, rec_last_dma = 0,
     rec_last_luma_size = 0, width_mbs = 0, height_mbs = 0, pic_order_cnt_type = 0,
     log2_max_pic_order_cnt_lsb = 0, log2_max_frame_num = 0, prepend_sps_pps_idr = 0,
     profile = PROFILE_MAIN, level = LEVEL_5_1, vui_sar_enable = 0,
     ctx_vui_sar_idc = VUI_SAR_IDC_UNSPECIFIED, vui_ext_sar_width = 1, vui_ext_sar_height = 1,
     entropy_mode = ENTROPY_MODE_CAVLC, chroma_qp_index_offset = 0,
     loop_filter_mode = LOOP_FILTER_MODE_ENABLED, loop_filter_alpha = 0, loop_filter_beta = 0,
     qp_min = 0, qp_max = 0, qp_i = 0, qp_p = 0, gop_closure = 0, gop_size = 1,
     gop_open_i_period = 1, force_key_frame = False\<rparr>"

text \<open>C34: the DMA memory of the encoder is balanced: a failed \<open>setup\<close> or \<open>buffer_setup\<close> leaves the heap
  as it found it on every error path, and cleanup after a successful one returns it to what it
  was.\<close>

theorem encoder_memory_balanced:
  assumes "keeps_mb_info hs" "DIV_ROUND_UP (DIV_ROUND_UP w 16) 32 * 4096 < 2 ^ 32"
  shows "(case h264_setup alloc found hs w h ctx heap of
      (Inl e, heap') \<Rightarrow> heap' = heap | (Inr ctx', heap') \<Rightarrow> h264_cleanup ctx' heap' = heap) \<and>
    (case buffer_setup alloc w h heap of
      (Inl e, heap') \<Rightarrow> heap' = heap | (Inr buf, heap') \<Rightarrow> buffer_cleanup buf heap' = heap)"
  using setup_heap[of alloc found hs w h ctx heap] setup_cleanup_heap[OF assms, of alloc found h ctx heap]
    buffer_setup_heap[of alloc w h heap] buffer_setup_cleanup_heap[of alloc w h heap]
  by (auto split: prod.split sum.split)

theorem encoder_memory_balanced_witness:
  "case h264_setup (\<lambda>_ _. Some 4096) True Inr 3840 2160 blank_ctx [(8192, 1)] of
      (Inl e, heap') \<Rightarrow> heap' = [(8192, 1)]
    | (Inr ctx', heap') \<Rightarrow> h264_cleanup ctx' heap' = [(8192, 1)]"
  by (rule encoder_memory_balanced[THEN conjunct1])
    (simp_all add: keeps_mb_info_def DIV_ROUND_UP_def)

text \<open>A control with its current value instead of the new one.\<close>

definition current :: "h264_controls \<Rightarrow> h264_ctrl \<Rightarrow> h264_ctrl" where
  "current cs ctrl = (case ctrl of
     CID_PREPEND_SPSPPS_TO_IDR _ \<Rightarrow> CID_PREPEND_SPSPPS_TO_IDR (cur_prepend_sps_pps_idr cs)
   | CID_VUI_SAR_ENABLE _ \<Rightarrow> CID_VUI_SAR_ENABLE (cur_vui_sar_enable cs)
   | CID_VUI_SAR_IDC _ \<Rightarrow> CID_VUI_SAR_IDC (cur_vui_sar_idc cs)
   | CID_VUI_EXT_SAR_WIDTH _ \<Rightarrow> CID_VUI_EXT_SAR_WIDTH (cur_vui_ext_sar_width cs)
   | CID_VUI_EXT_SAR_HEIGHT _ \<Rightarrow> CID_VUI_EXT_SAR_HEIGHT (cur_vui_ext_sar_height cs)
   | CID_PROFILE _ \<Rightarrow> CID_PROFILE (cur_profile cs)
   | CID_LEVEL _ \<Rightarrow> CID_LEVEL (cur_level cs)
   | CID_ENTROPY_MODE _ \<Rightarrow> CID_ENTROPY_MODE (cur_entropy_mode cs)
   | CID_CHROMA_QP_INDEX_OFFSET _ \<Rightarrow> CID_CHROMA_QP_INDEX_OFFSET (cur_chroma_qp_index_offset cs)
   | CID_LOOP_FILTER_MODE _ \<Rightarrow> CID_LOOP_FILTER_MODE (cur_loop_filter_mode cs)
   | CID_LOOP_FILTER_ALPHA _ \<Rightarrow> CID_LOOP_FILTER_ALPHA (cur_loop_filter_alpha cs)
   | CID_LOOP_FILTER_BETA _ \<Rightarrow> CID_LOOP_FILTER_BETA (cur_loop_filter_beta cs)
   | CID_MIN_QP _ \<Rightarrow> CID_MIN_QP (cur_min_qp cs)
   | CID_MAX_QP _ \<Rightarrow> CID_MAX_QP (cur_max_qp cs)
   | CID_I_FRAME_QP _ \<Rightarrow> CID_I_FRAME_QP (cur_i_frame_qp cs)
   | CID_P_FRAME_QP _ \<Rightarrow> CID_P_FRAME_QP (cur_p_frame_qp cs)
   | CID_GOP_CLOSURE _ \<Rightarrow> CID_GOP_CLOSURE (cur_gop_closure cs)
   | CID_GOP_SIZE _ \<Rightarrow> CID_GOP_SIZE (cur_gop_size cs)
   | CID_I_PERIOD _ \<Rightarrow> CID_I_PERIOD (cur_i_period cs)
   | CID_FORCE_KEY_FRAME \<Rightarrow> CID_FORCE_KEY_FRAME)"

text \<open>The value of a control a context holds.\<close>

definition ctx_holds :: "h264_context \<Rightarrow> h264_ctrl \<Rightarrow> bool" where
  "ctx_holds ctx ctrl = (case ctrl of
     CID_PREPEND_SPSPPS_TO_IDR v \<Rightarrow> prepend_sps_pps_idr ctx = v
   | CID_VUI_SAR_ENABLE v \<Rightarrow> vui_sar_enable ctx = v
   | CID_VUI_SAR_IDC v \<Rightarrow> ctx_vui_sar_idc ctx = v
   | CID_VUI_EXT_SAR_WIDTH v \<Rightarrow> vui_ext_sar_width ctx = v
   | CID_VUI_EXT_SAR_HEIGHT v \<Rightarrow> vui_ext_sar_height ctx = v
   | CID_PROFILE v \<Rightarrow> profile ctx = v
   | CID_LEVEL v \<Rightarrow> level ctx = v
   | CID_ENTROPY_MODE v \<Rightarrow> entropy_mode ctx = v
   | CID_CHROMA_QP_INDEX_OFFSET v \<Rightarrow> chroma_qp_index_offset ctx = v
   | CID_LOOP_FILTER_MODE v \<Rightarrow> loop_filter_mode ctx = v
   | CID_LOOP_FILTER_ALPHA v \<Rightarrow> loop_filter_alpha ctx = v
   | CID_LOOP_FILTER_BETA v \<Rightarrow> loop_filter_beta ctx = v
   | CID_MIN_QP v \<Rightarrow> qp_min ctx = v
   | CID_MAX_QP v \<Rightarrow> qp_max ctx = v
   | CID_I_FRAME_QP v \<Rightarrow> qp_i ctx = v
   | CID_P_FRAME_QP v \<Rightarrow> qp_p ctx = v
   | CID_GOP_CLOSURE v \<Rightarrow> gop_closure ctx = v
   | CID_GOP_SIZE v \<Rightarrow> gop_size ctx = v
   | CID_I_PERIOD v \<Rightarrow> gop_open_i_period ctx = v
   | CID_FORCE_KEY_FRAME \<Rightarrow> force_key_frame ctx)"

text \<open>C21: the quantiser of every frame is the one configured for its type, clamped into the
  configured range; with the limits in the wrong order the upper limit wins, and the result
  is a valid quantiser all the same.\<close>

theorem frame_qp_clamped:
  assumes "0 \<le> qp_min ctx" "qp_min ctx \<le> 51" "0 \<le> qp_max ctx" "qp_max ctx \<le> 51"
    "0 \<le> qp_i ctx" "qp_i ctx \<le> 51" "0 \<le> qp_p ctx" "qp_p ctx \<le> 51"
    and t: "job_frame_type job \<noteq> FRAME_TYPE_B"
  shows "uint (qp (prepare_qp ctx job)) =
    (let v = (if job_frame_type job = FRAME_TYPE_P then qp_p ctx else qp_i ctx)
     in if qp_max ctx < v then qp_max ctx else max (qp_min ctx) v) \<and>
    uint (qp (prepare_qp ctx job)) \<le> 51"
proof
  note w = qp_word[of "qp_min ctx"] qp_word[of "qp_max ctx"] qp_word[of "qp_i ctx"] qp_word[of "qp_p ctx"]
  show "uint (qp (prepare_qp ctx job)) =
    (let v = (if job_frame_type job = FRAME_TYPE_P then qp_p ctx else qp_i ctx)
     in if qp_max ctx < v then qp_max ctx else max (qp_min ctx) v)"
    using assms w by (cases "job_frame_type job") (simp_all add: prepare_qp_def word_less_def Let_def max_def)
  show "uint (qp (prepare_qp ctx job)) \<le> 51" by (rule prepare_qp_le_51) fact+
qed

theorem frame_qp_clamped_witness:
  "uint (qp (prepare_qp (blank_ctx\<lparr>qp_min := 10, qp_max := 40, qp_i := 26, qp_p := 45\<rparr>)
     (zero_job\<lparr>job_frame_type := FRAME_TYPE_P\<rparr>))) = 40"
  using frame_qp_clamped[of "blank_ctx\<lparr>qp_min := 10, qp_max := 40, qp_i := 26, qp_p := 45\<rparr>"
      "zero_job\<lparr>job_frame_type := FRAME_TYPE_P\<rparr>"] by simp

end
