(* ===== verification/H264_Parse.thy ===== *)
theory H264_Parse
  imports H264_Bitstream
begin

text \<open>Parsers for the sequence and picture parameter sets and the slice header after
  clauses 7.3.2 and 7.3.3 of the H.264 specification, for the shape of stream the encoder
  produces, each with the bits it reads (\<open>sps_bits\<close>, \<open>pps_bits\<close>, \<open>slice_bits\<close>) as an
  interpretation of \<open>codec\<close>.  They are the yardstick for the writers in \<open>H264_Syntax\<close>.\<close>

section \<open>Parsing (H.264 clauses 7.3.2 and 7.3.3)\<close>

type_synonym 'a parser = "bool list \<Rightarrow> ('a \<times> bool list) option"

definition pret :: "'a \<Rightarrow> 'a parser" where
  "pret x bs = Some (x, bs)"

definition pfail :: "'a parser" where
  "pfail bs = None"

definition pbind :: "'a parser \<Rightarrow> ('a \<Rightarrow> 'b parser) \<Rightarrow> 'b parser" where
  "pbind p f bs = (case p bs of None \<Rightarrow> None | Some (x, r) \<Rightarrow> f x r)"

fun flag_dec :: "bool parser" where
  "flag_dec [] = None"
| "flag_dec (b # r) = Some (b, r)"

lemma pbind_eq: "p bs = Some (x, r) \<Longrightarrow> pbind p f bs = f x r"
  by (simp add: pbind_def)

lemma pbind_simps [simp]:
  "v < 2 ^ n \<Longrightarrow> pbind (u_dec n) f (msb_bits n v @ r) = f v r"
  "pbind ue_dec f (ue_bits k @ r) = f k r"
  "pbind se_dec g (se_bits i @ r) = g i r"
  "pbind flag_dec h (b # r) = h b r"
  "pbind (pret x) f' bs = f' x bs"
  "pret x bs = Some (x, bs)"
  by (simp_all add: pbind_def pret_def u_codec.dec_enc del: msb_bits.simps)

fun rbsp_trailing :: "unit parser" where
  "rbsp_trailing [] = None"
| "rbsp_trailing (b # r) =
    (if b \<and> length r < 8 \<and> (\<forall>x\<in>set r. \<not> x) then Some ((), []) else None)"

lemma rbsp_trailing_zeros [simp]: "k < 8 \<Longrightarrow> rbsp_trailing (True # replicate k False) = Some ((), [])"
  by simp

subsection \<open>Sequence parameter set\<close>

text \<open>The fields of a sequence parameter set of the shape the encoder uses: 4:2:0, 8 bits,
  frames only, picture order count type 0.  The parser rejects other shapes.\<close>

record sps =
  sps_profile_idc :: nat
  sps_constraint_flags :: nat
  sps_level_idc :: nat
  sps_id :: nat
  sps_log2_max_frame_num :: nat
  sps_log2_max_poc_lsb :: nat
  sps_num_ref_frames :: nat
  sps_width_mbs :: nat
  sps_height_mbs :: nat
  sps_crop :: "(nat \<times> nat \<times> nat \<times> nat) option"
  sps_sar :: "(nat \<times> (nat \<times> nat) option) option"
  sps_num_units_in_tick :: nat
  sps_time_scale :: nat
  sps_fixed_frame_rate :: bool

definition has_chroma_info :: "nat \<Rightarrow> bool" where
  "has_chroma_info idc = (idc \<in> {100, 110, 122, 244, 44, 83, 86, 118, 128, 138, 139, 134, 135})"

definition chroma_bits :: "nat \<Rightarrow> bool list" where
  "chroma_bits idc = (if has_chroma_info idc
     then ue_bits 1 @ ue_bits 0 @ ue_bits 0 @ [False, False] else [])"

definition chroma_dec :: "nat \<Rightarrow> unit parser" where
  "chroma_dec idc = (if \<not> has_chroma_info idc then pret ()
     else pbind ue_dec (\<lambda>chroma_format_idc. pbind ue_dec (\<lambda>luma8. pbind ue_dec (\<lambda>chroma8.
       pbind flag_dec (\<lambda>bypass. pbind flag_dec (\<lambda>scaling.
         if chroma_format_idc = 1 \<and> luma8 = 0 \<and> chroma8 = 0 \<and> \<not> bypass \<and> \<not> scaling
         then pret () else pfail))))))"

definition crop_bits :: "(nat \<times> nat \<times> nat \<times> nat) option \<Rightarrow> bool list" where
  "crop_bits c = (case c of None \<Rightarrow> [False]
     | Some (l, r, t, b) \<Rightarrow> [True] @ ue_bits l @ ue_bits r @ ue_bits t @ ue_bits b)"

definition crop_dec :: "(nat \<times> nat \<times> nat \<times> nat) option parser" where
  "crop_dec = pbind flag_dec (\<lambda>f. if \<not> f then pret None
     else pbind ue_dec (\<lambda>l. pbind ue_dec (\<lambda>r. pbind ue_dec (\<lambda>t. pbind ue_dec (\<lambda>b.
       pret (Some (l, r, t, b)))))))"

definition sar_bits :: "(nat \<times> (nat \<times> nat) option) option \<Rightarrow> bool list" where
  "sar_bits s = (case s of None \<Rightarrow> [False]
     | Some (idc, None) \<Rightarrow> [True] @ msb_bits 8 idc
     | Some (idc, Some (w, h)) \<Rightarrow> [True] @ msb_bits 8 idc @ msb_bits 16 w @ msb_bits 16 h)"

definition sar_dec :: "(nat \<times> (nat \<times> nat) option) option parser" where
  "sar_dec = pbind flag_dec (\<lambda>f. if \<not> f then pret None
     else pbind (u_dec 8) (\<lambda>idc. if idc \<noteq> 255 then pret (Some (idc, None))
       else pbind (u_dec 16) (\<lambda>w. pbind (u_dec 16) (\<lambda>h. pret (Some (idc, Some (w, h)))))))"

definition sar_ok :: "(nat \<times> (nat \<times> nat) option) option \<Rightarrow> bool" where
  "sar_ok s = (case s of None \<Rightarrow> True | Some (idc, None) \<Rightarrow> idc < 255
     | Some (idc, Some (w, h)) \<Rightarrow> idc = 255 \<and> w < 2 ^ 16 \<and> h < 2 ^ 16)"

interpretation crop_codec: codec crop_bits crop_dec "\<lambda>_. True"
  by unfold_locales (auto simp: crop_bits_def crop_dec_def split: option.splits)

interpretation sar_codec: codec sar_bits sar_dec sar_ok
  by unfold_locales
    (auto simp: sar_bits_def sar_dec_def sar_ok_def simp del: msb_bits.simps split: option.splits)

interpretation chroma_codec: codec "\<lambda>_. chroma_bits idc" "chroma_dec idc" "\<lambda>_. True" for idc
  by unfold_locales (auto simp: chroma_bits_def chroma_dec_def)

definition sps_bits :: "sps \<Rightarrow> bool list" where
  "sps_bits s =
     msb_bits 8 (sps_profile_idc s) @ msb_bits 8 (sps_constraint_flags s) @
     msb_bits 8 (sps_level_idc s) @ ue_bits (sps_id s) @ chroma_bits (sps_profile_idc s) @
     ue_bits (sps_log2_max_frame_num s - 4) @ ue_bits 0 @ ue_bits (sps_log2_max_poc_lsb s - 4) @
     ue_bits (sps_num_ref_frames s) @ [False] @ ue_bits (sps_width_mbs s - 1) @
     ue_bits (sps_height_mbs s - 1) @ [True, False] @ crop_bits (sps_crop s) @ [True] @
     sar_bits (sps_sar s) @ [False, False, False, True] @ msb_bits 32 (sps_num_units_in_tick s) @
     msb_bits 32 (sps_time_scale s) @ [sps_fixed_frame_rate s] @ [False, False, False, False]"

definition parse_sps :: "sps parser" where
  "parse_sps =
    pbind (u_dec 8) (\<lambda>profile. pbind (u_dec 8) (\<lambda>constraints. pbind (u_dec 8) (\<lambda>level.
    pbind ue_dec (\<lambda>id. pbind (chroma_dec profile) (\<lambda>_. pbind ue_dec (\<lambda>l2fn.
    pbind ue_dec (\<lambda>poc_type. if poc_type \<noteq> 0 then pfail else
    pbind ue_dec (\<lambda>l2poc. pbind ue_dec (\<lambda>refs. pbind flag_dec (\<lambda>gaps. pbind ue_dec (\<lambda>w.
    pbind ue_dec (\<lambda>h. pbind flag_dec (\<lambda>frame_mbs_only. if \<not> frame_mbs_only then pfail else
    pbind flag_dec (\<lambda>direct8x8. pbind crop_dec (\<lambda>crop. pbind flag_dec (\<lambda>vui. if \<not> vui then pfail else
    pbind sar_dec (\<lambda>sar. pbind flag_dec (\<lambda>overscan. pbind flag_dec (\<lambda>video_signal.
    pbind flag_dec (\<lambda>chroma_loc. if overscan \<or> video_signal \<or> chroma_loc then pfail else
    pbind flag_dec (\<lambda>timing. if \<not> timing then pfail else
    pbind (u_dec 32) (\<lambda>tick. pbind (u_dec 32) (\<lambda>scale. pbind flag_dec (\<lambda>fixed.
    pbind flag_dec (\<lambda>nal_hrd. pbind flag_dec (\<lambda>vcl_hrd. pbind flag_dec (\<lambda>pic_struct.
    pbind flag_dec (\<lambda>restriction. if gaps \<or> nal_hrd \<or> vcl_hrd \<or> restriction then pfail else
    pret \<lparr>sps_profile_idc = profile, sps_constraint_flags = constraints, sps_level_idc = level,
      sps_id = id, sps_log2_max_frame_num = l2fn + 4, sps_log2_max_poc_lsb = l2poc + 4,
      sps_num_ref_frames = refs, sps_width_mbs = w + 1, sps_height_mbs = h + 1, sps_crop = crop,
      sps_sar = sar, sps_num_units_in_tick = tick, sps_time_scale = scale,
      sps_fixed_frame_rate = fixed\<rparr>))))))))))))))))))))))))))))"

definition sps_ok :: "sps \<Rightarrow> bool" where
  "sps_ok s = (sps_profile_idc s < 2 ^ 8 \<and> sps_constraint_flags s < 2 ^ 8 \<and>
     sps_level_idc s < 2 ^ 8 \<and> 4 \<le> sps_log2_max_frame_num s \<and> 4 \<le> sps_log2_max_poc_lsb s \<and>
     1 \<le> sps_width_mbs s \<and> 1 \<le> sps_height_mbs s \<and> sar_ok (sps_sar s) \<and>
     sps_num_units_in_tick s < 2 ^ 32 \<and> sps_time_scale s < 2 ^ 32)"

lemma pbind_codecs:
  "pbind (chroma_dec idc) f (chroma_bits idc @ r) = f () r"
  "pbind crop_dec g (crop_bits c @ r) = g c r"
  "sar_ok s \<Longrightarrow> pbind sar_dec h (sar_bits s @ r) = h s r"
  by (rule pbind_eq, rule chroma_codec.dec_enc crop_codec.dec_enc sar_codec.dec_enc, simp)+

interpretation sps_codec: codec sps_bits parse_sps sps_ok
proof (unfold_locales)
  fix s r assume "sps_ok s"
  then show "parse_sps (sps_bits s @ r) = Some (s, r)"
    unfolding sps_bits_def parse_sps_def sps_ok_def
    by (simp add: pbind_codecs del: msb_bits.simps)
qed

subsection \<open>Picture parameter set\<close>

record pps =
  pps_id :: nat
  pps_sps_id :: nat
  pps_cabac :: bool
  pps_init_qp :: int
  pps_init_qs :: int
  pps_chroma_qp_offset :: int
  pps_deblocking_control :: bool

definition pps_bits :: "pps \<Rightarrow> bool list" where
  "pps_bits p =
     ue_bits (pps_id p) @ ue_bits (pps_sps_id p) @ [pps_cabac p, False] @ ue_bits 0 @ ue_bits 0 @
     ue_bits 0 @ [False] @ msb_bits 2 0 @ se_bits (pps_init_qp p - 26) @
     se_bits (pps_init_qs p - 26) @ se_bits (pps_chroma_qp_offset p) @
     [pps_deblocking_control p, False, False]"

definition parse_pps :: "pps parser" where
  "parse_pps =
    pbind ue_dec (\<lambda>id. pbind ue_dec (\<lambda>sid. pbind flag_dec (\<lambda>cabac. pbind flag_dec (\<lambda>bottom_field.
    pbind ue_dec (\<lambda>slice_groups. if bottom_field \<or> slice_groups \<noteq> 0 then pfail else
    pbind ue_dec (\<lambda>l0. pbind ue_dec (\<lambda>l1. pbind flag_dec (\<lambda>weighted. pbind (u_dec 2) (\<lambda>bipred.
    pbind se_dec (\<lambda>qp26. pbind se_dec (\<lambda>qs26. pbind se_dec (\<lambda>chroma.
    pbind flag_dec (\<lambda>deblock. pbind flag_dec (\<lambda>constrained_intra. pbind flag_dec (\<lambda>redundant.
    if l0 \<noteq> 0 \<or> l1 \<noteq> 0 \<or> weighted \<or> bipred \<noteq> 0 \<or> constrained_intra \<or> redundant then pfail else
    pret \<lparr>pps_id = id, pps_sps_id = sid, pps_cabac = cabac, pps_init_qp = 26 + qp26,
      pps_init_qs = 26 + qs26, pps_chroma_qp_offset = chroma,
      pps_deblocking_control = deblock\<rparr>)))))))))))))))"

interpretation pps_codec: codec pps_bits parse_pps "\<lambda>_. True"
proof (unfold_locales)
  fix p r
  have z: "msb_bits 2 0 = [False, False]" by (simp add: numeral_2_eq_2)
  have "pbind (u_dec 2) f (msb_bits 2 0 @ r) = f 0 r" for f :: "nat \<Rightarrow> pps parser" and r
    by (rule pbind_simps) simp
  then have "pbind (u_dec 2) f (False # False # r) = f 0 r" for f :: "nat \<Rightarrow> pps parser" and r
    by (simp add: z)
  then show "parse_pps (pps_bits p @ r) = Some (p, r)"
    unfolding pps_bits_def parse_pps_def z by simp
qed

subsection \<open>Slice header\<close>

text \<open>A slice header for a reference picture, parsed with the parameter sets it refers to; the
  parser is given the NAL unit type through \<open>idr\<close>.\<close>

record slice_hdr =
  sh_first_mb :: nat
  sh_intra :: bool
  sh_pps_id :: nat
  sh_frame_num :: nat
  sh_idr_pic_id :: "nat option"
  sh_poc_lsb :: nat
  sh_cabac_init_idc :: "nat option"
  sh_qp :: int
  sh_deblocking_idc :: nat
  sh_alpha_beta :: "(int \<times> int) option"

definition slice_bits :: "sps \<Rightarrow> pps \<Rightarrow> slice_hdr \<Rightarrow> bool list" where
  "slice_bits sp pp h =
     ue_bits (sh_first_mb h) @ ue_bits (if sh_intra h then 2 else 0) @ ue_bits (sh_pps_id h) @
     msb_bits (sps_log2_max_frame_num sp) (sh_frame_num h) @
     (case sh_idr_pic_id h of None \<Rightarrow> [] | Some i \<Rightarrow> ue_bits i) @
     msb_bits (sps_log2_max_poc_lsb sp) (sh_poc_lsb h) @
     (if sh_intra h then [] else [False, False]) @
     (if sh_idr_pic_id h \<noteq> None then [False, False] else [False]) @
     (case sh_cabac_init_idc h of None \<Rightarrow> [] | Some i \<Rightarrow> ue_bits i) @
     se_bits (sh_qp h - pps_init_qp pp) @
     (if pps_deblocking_control pp then ue_bits (sh_deblocking_idc h) @
       (case sh_alpha_beta h of None \<Rightarrow> [] | Some (a, b) \<Rightarrow> se_bits a @ se_bits b) else [])"

definition parse_slice :: "bool \<Rightarrow> sps \<Rightarrow> pps \<Rightarrow> slice_hdr parser" where
  "parse_slice idr sp pp =
    pbind ue_dec (\<lambda>first_mb. pbind ue_dec (\<lambda>stype. if stype \<noteq> 0 \<and> stype \<noteq> 2 then pfail else
    pbind ue_dec (\<lambda>id. pbind (u_dec (sps_log2_max_frame_num sp)) (\<lambda>fnum.
    pbind (if idr then pbind ue_dec (\<lambda>i. pret (Some i)) else pret None) (\<lambda>idr_id.
    pbind (u_dec (sps_log2_max_poc_lsb sp)) (\<lambda>poc.
    pbind (if stype = 0 then pbind flag_dec (\<lambda>override. pbind flag_dec (\<lambda>modification.
        if override \<or> modification then pfail else pret ())) else pret ()) (\<lambda>_.
    pbind (if idr then pbind flag_dec (\<lambda>no_output. pbind flag_dec (\<lambda>long_term.
        if no_output \<or> long_term then pfail else pret ()))
      else pbind flag_dec (\<lambda>adaptive. if adaptive then pfail else pret ())) (\<lambda>_.
    pbind (if pps_cabac pp \<and> stype \<noteq> 2 then pbind ue_dec (\<lambda>i. pret (Some i)) else pret None) (\<lambda>cabac_init.
    pbind se_dec (\<lambda>qp_delta.
    pbind (if pps_deblocking_control pp
      then pbind ue_dec (\<lambda>d. if d \<noteq> 1 then pbind se_dec (\<lambda>a. pbind se_dec (\<lambda>b. pret (d, Some (a, b))))
        else pret (d, None))
      else pret (0, Some (0, 0))) (\<lambda>(deblock, ab).
    pret \<lparr>sh_first_mb = first_mb, sh_intra = (stype = 2), sh_pps_id = id, sh_frame_num = fnum,
      sh_idr_pic_id = idr_id, sh_poc_lsb = poc, sh_cabac_init_idc = cabac_init,
      sh_qp = pps_init_qp pp + qp_delta, sh_deblocking_idc = deblock,
      sh_alpha_beta = ab\<rparr>)))))))))))"

definition slice_ok :: "bool \<Rightarrow> sps \<Rightarrow> pps \<Rightarrow> slice_hdr \<Rightarrow> bool" where
  "slice_ok idr sp pp h =
    (sh_frame_num h < 2 ^ sps_log2_max_frame_num sp \<and> sh_poc_lsb h < 2 ^ sps_log2_max_poc_lsb sp \<and>
     (idr \<longleftrightarrow> sh_idr_pic_id h \<noteq> None) \<and>
     (pps_cabac pp \<and> \<not> sh_intra h \<longleftrightarrow> sh_cabac_init_idc h \<noteq> None) \<and>
     pps_deblocking_control pp \<and> (sh_deblocking_idc h = 1 \<longleftrightarrow> sh_alpha_beta h = None))"

lemma pbind_if: "pbind (if c then p else q) f bs = (if c then pbind p f bs else pbind q f bs)"
  by simp

lemma pbind_assoc: "pbind (pbind p f) g bs = pbind p (\<lambda>x. pbind (f x) g) bs"
  by (simp add: pbind_def split: option.splits)

interpretation slice_codec: codec "slice_bits sp pp" "parse_slice idr sp pp" "slice_ok idr sp pp"
  for idr sp pp
proof (unfold_locales)
  fix h r assume ok: "slice_ok idr sp pp h"
  show "parse_slice idr sp pp (slice_bits sp pp h @ r) = Some (h, r)"
    using ok
    by (cases "sh_idr_pic_id h"; cases "sh_cabac_init_idc h"; cases "sh_alpha_beta h"; cases "sh_intra h")
      (auto simp: slice_ok_def slice_bits_def parse_slice_def pbind_if pbind_assoc
        simp del: msb_bits.simps)
qed

end
