(* ===== verification/H264_Syntax.thy ===== *)
theory H264_Syntax
  imports H264_Encoder H264_Parse
begin

text \<open>The parameter sets and the slice header \<open>cedrus_enc_h264.c\<close> writes before a frame,
  and the loop that decides which of them a frame needs.  The lemmas show which bits each writer
  requests, as the encoding of the values it means (\<open>sps_of\<close>, \<open>pps_of\<close>, \<open>slice_of\<close>), and that
  the parameter sets are byte aligned NAL units with their start codes outside the escaped
  payload.\<close>

text \<open>A sequence of calls to the writers.\<close>

definition seq :: "(io_log \<Rightarrow> io_log) list \<Rightarrow> io_log \<Rightarrow> io_log" where
  "seq ws log = fold (\<lambda>w log. w log) ws log"

section \<open>Writing the parameter sets and the slice header\<close>

definition SLICE_TYPE_P :: u8 where [hdr_simps]: "SLICE_TYPE_P = 0"
definition SLICE_TYPE_I :: u8 where [hdr_simps]: "SLICE_TYPE_I = 2"
definition NALU_TYPE_SLICE_NON_IDR :: u8 where [hdr_simps]: "NALU_TYPE_SLICE_NON_IDR = 1"
definition NALU_TYPE_SLICE_IDR :: u8 where [hdr_simps]: "NALU_TYPE_SLICE_IDR = 5"
definition NALU_TYPE_SPS :: u8 where [hdr_simps]: "NALU_TYPE_SPS = 7"
definition NALU_TYPE_PPS :: u8 where [hdr_simps]: "NALU_TYPE_PPS = 8"

definition high_profile_idc :: "u8 \<Rightarrow> bool" where
  "high_profile_idc idc = (idc = 100 \<or> idc = 110 \<or> idc = 122 \<or> idc = 244 \<or> idc = 44 \<or>
     idc = 83 \<or> idc = 86 \<or> idc = 118 \<or> idc = 128 \<or> idc = 138 \<or> idc = 139 \<or> idc = 134 \<or>
     idc = 135)"

definition sps_writers :: "v4l2_fract \<Rightarrow> v4l2_rect \<Rightarrow> h264_context \<Rightarrow> h264_job \<Rightarrow>
    (io_log \<Rightarrow> io_log) list" where
  "sps_writers timeperframe selection ctx job =
    (let coded_width = width_mbs ctx * 16;
         coded_height = height_mbs ctx * 16;
         left = word_of_int (rect_left selection);
         top = word_of_int (rect_top selection);
         crop_right = coded_width - rect_width selection - left;
         crop_bottom = coded_height - rect_height selection - top;
         prof_idc = ucast (job_profile_idc job) :: u8
     in [coded_u8 (ucast (job_profile_idc job)),
         coded_u8 (ucast (job_constraint_set_flags job)),
         coded_u8 (ucast (job_level_idc job)),
         coded_ue (seq_parameter_set_id job)] @
        (if high_profile_idc prof_idc
         then [coded_ue 1, coded_ue 0, coded_ue 0, coded_bit 0, coded_bit 0] else []) @
        [coded_ue (log2_max_frame_num ctx - 4),
         coded_ue 0,
         coded_ue (log2_max_pic_order_cnt_lsb ctx - 4),
         coded_ue 1,
         coded_bit 0,
         coded_ue (width_mbs ctx - 1),
         coded_ue (height_mbs ctx - 1),
         coded_bit 1,
         coded_bit 0] @
        (if rect_left selection \<noteq> 0 \<or> rect_top selection \<noteq> 0 \<or>
            rect_width selection \<noteq> coded_width \<or> rect_height selection \<noteq> coded_height
         then [coded_bit 1, coded_ue (left div 2), coded_ue (crop_right div 2),
               coded_ue (top div 2), coded_ue (crop_bottom div 2)]
         else [coded_bit 0]) @
        [coded_bit 1] @
        (if vui_sar_enable ctx \<noteq> 0
         then [coded_bit 1, coded_u8 (vui_sar_idc (ctx_vui_sar_idc ctx))] @
           (if ctx_vui_sar_idc ctx = VUI_SAR_IDC_EXTENDED
            then [coded_u16 (word_of_int (vui_ext_sar_width ctx)),
                  coded_u16 (word_of_int (vui_ext_sar_height ctx))] else [])
         else [coded_bit 0]) @
        [coded_bit 0,
         coded_bit 0,
         coded_bit 0,
         coded_bit 1,
         coded_u32 (numerator timeperframe),
         coded_u32 (denominator timeperframe * 2),
         coded_bit 1,
         coded_bit 0,
         coded_bit 0,
         coded_bit 0,
         coded_bit 0,
         coded_bit 1])"

definition job_configure_sps :: "hw_read \<Rightarrow> v4l2_fract \<Rightarrow> v4l2_rect \<Rightarrow> h264_context \<Rightarrow> h264_job \<Rightarrow>
    io_log \<Rightarrow> io_log" where
  "job_configure_sps hw timeperframe selection ctx job log =
    (let log = coded_nalu_start hw (nalu_header NALU_TYPE_SPS 3) log;
         log = seq (sps_writers timeperframe selection ctx job) log
     in coded_align hw log)"

definition pps_writers :: "h264_context \<Rightarrow> h264_job \<Rightarrow> (io_log \<Rightarrow> io_log) list" where
  "pps_writers ctx job =
    [coded_ue (pic_parameter_set_id job),
     coded_ue (seq_parameter_set_id job),
     coded_bit (entropy_coding_mode_flag job),
     coded_bit 0,
     coded_ue 0,
     coded_ue 0,
     coded_ue 0,
     coded_bit 0,
     coded_append 0 2,
     coded_se (sint (st_qp_init (state ctx) - 26)),
     coded_se (sint (st_qp_init (state ctx) - 26)),
     coded_se (sint (job_chroma_qp_index_offset job)),
     coded_bit 1,
     coded_bit 0,
     coded_bit 0,
     coded_bit 1]"

definition job_configure_pps :: "hw_read \<Rightarrow> h264_context \<Rightarrow> h264_job \<Rightarrow> io_log \<Rightarrow> io_log" where
  "job_configure_pps hw ctx job log =
    (let log = coded_nalu_start hw (nalu_header NALU_TYPE_PPS 3) log;
         log = seq (pps_writers ctx job) log
     in coded_align hw log)"

definition slice_type :: "h264_job \<Rightarrow> u8" where
  "slice_type job = (if job_frame_type job = FRAME_TYPE_IDR \<or> job_frame_type job = FRAME_TYPE_I
     then SLICE_TYPE_I else SLICE_TYPE_P)"

definition slice_nalu_type :: "h264_job \<Rightarrow> u8" where
  "slice_nalu_type job = (if job_frame_type job = FRAME_TYPE_IDR
     then NALU_TYPE_SLICE_IDR else NALU_TYPE_SLICE_NON_IDR)"

definition slice_writers :: "h264_context \<Rightarrow> h264_job \<Rightarrow> (io_log \<Rightarrow> io_log) list" where
  "slice_writers ctx job =
    [coded_ue 0,
     coded_ue (ucast (slice_type job)),
     coded_ue (pic_parameter_set_id job),
     coded_append (frame_num job) (log2_max_frame_num ctx)] @
    (if job_frame_type job = FRAME_TYPE_IDR then [coded_ue (idr_pic_id job)] else []) @
    (if pic_order_cnt_type ctx = 0
     then [coded_append (pic_order_cnt_lsb job) (log2_max_pic_order_cnt_lsb ctx)] else []) @
    (if slice_type job = SLICE_TYPE_P then [coded_bit 0, coded_bit 0] else []) @
    (if job_frame_type job = FRAME_TYPE_IDR then [coded_bit 0, coded_bit 0] else [coded_bit 0]) @
    (if slice_type job \<noteq> SLICE_TYPE_I \<and> entropy_coding_mode_flag job \<noteq> 0
     then [coded_ue (cabac_init_idc job)] else []) @
    [coded_se (sint (qp job - st_qp_init (state ctx))),
     coded_ue (job_disable_deblocking_filter_idc job)] @
    (if job_disable_deblocking_filter_idc job \<noteq> 1
     then [coded_se (slice_alpha_c0_offset_div2 job), coded_se (slice_beta_offset_div2 job)]
     else [])"

definition job_configure_slice_header :: "hw_read \<Rightarrow> h264_context \<Rightarrow> h264_job \<Rightarrow> io_log \<Rightarrow> io_log" where
  "job_configure_slice_header hw ctx job log =
    (let log = coded_nalu_start hw
           (nalu_header (slice_nalu_type job) (ucast (nal_ref_idc job))) log
     in seq (slice_writers ctx job) log)"

section \<open>Which headers a frame gets\<close>

text \<open>The loop of \<open>cedrus_enc_h264_job_configure_headers\<close>; it stops after the slice header.\<close>

definition set_step :: "enc_step \<Rightarrow> h264_context \<Rightarrow> h264_context" where
  "set_step s ctx = ctx\<lparr>state := (state ctx)\<lparr>st_step := s\<rparr>\<rparr>"

lemma st_step_set_step [simp]: "st_step (state (set_step s ctx)) = s"
  by (simp add: set_step_def)

function headers_loop :: "hw_read \<Rightarrow> v4l2_fract \<Rightarrow> v4l2_rect \<Rightarrow> h264_job \<Rightarrow> h264_context \<Rightarrow>
    io_log \<Rightarrow> h264_context \<times> io_log" where
  "headers_loop hw tpf sel job ctx log = (case st_step (state ctx) of
     STEP_START \<Rightarrow> headers_loop hw tpf sel job (set_step STEP_SPS ctx) log
   | STEP_SPS \<Rightarrow> headers_loop hw tpf sel job (set_step STEP_PPS ctx)
       (job_configure_sps hw tpf sel ctx job log)
   | STEP_PPS \<Rightarrow> headers_loop hw tpf sel job (set_step STEP_SLICE ctx)
       (job_configure_pps hw ctx job log)
   | STEP_SLICE \<Rightarrow> (ctx, job_configure_slice_header hw ctx job log))"
  by pat_completeness auto

termination
  by (relation "measure (\<lambda>(hw, tpf, sel, job, ctx, log). 3 - step_rank (st_step (state ctx)))")
    simp_all

declare headers_loop.simps [simp del]

definition job_configure_headers :: "hw_read \<Rightarrow> v4l2_fract \<Rightarrow> v4l2_rect \<Rightarrow> h264_job \<Rightarrow>
    h264_context \<Rightarrow> io_log \<Rightarrow> h264_context \<times> io_log" where
  "job_configure_headers hw tpf sel job ctx log =
    (let (ctx, log) = headers_loop hw tpf sel job ctx log
     in (ctx, cedrus_poll VE_RESET_REG (VE_RESET_CACHE_SYNC_IDLE OR VE_RESET_SYNC_IDLE) log))"

section \<open>What the writers emit\<close>

lemma emits_seq_Nil: "emits (seq []) []"
  by (simp add: emits_def seq_def)

lemma emits_seq_Cons: "emits w a \<Longrightarrow> emits (seq ws) b \<Longrightarrow> emits (seq (w # ws)) (a @ b)"
  by (simp add: emits_def seq_def)

lemma emits_seq_append: "emits (seq ws) a \<Longrightarrow> emits (seq vs) b \<Longrightarrow> emits (seq (ws @ vs)) (a @ b)"
  by (simp add: emits_def seq_def)

lemma emits_seq_if:
  "(c \<Longrightarrow> emits (seq ws) a) \<Longrightarrow> (\<not> c \<Longrightarrow> emits (seq vs) b) \<Longrightarrow>
   emits (seq (if c then ws else vs)) (if c then a else b)"
  by simp

lemmas emits_seq = emits_seq_append emits_seq_if emits_seq_Cons emits_seq_Nil

lemma emits_ue0 [emits_intros]: "emits (coded_ue 0) (ue_bits 0)"
  using emits_ue[of 0] by simp

lemma emits_ue1 [emits_intros]: "emits (coded_ue 1) (ue_bits 1)"
  using emits_ue[of 1] by simp

lemma emits_flag0 [emits_intros]: "emits (coded_bit 0) [False]"
  using emits_bit[of 0] by simp

lemma emits_flag1 [emits_intros]: "emits (coded_bit 1) [True]"
  using emits_bit[of 1] by simp

subsection \<open>Sequence parameter set\<close>

definition sps_of :: "v4l2_fract \<Rightarrow> v4l2_rect \<Rightarrow> h264_context \<Rightarrow> h264_job \<Rightarrow> sps" where
  "sps_of tpf sel ctx job = \<lparr>
     sps_profile_idc = unat (ucast (job_profile_idc job) :: u8),
     sps_constraint_flags = unat (ucast (job_constraint_set_flags job) :: u8),
     sps_level_idc = unat (ucast (job_level_idc job) :: u8),
     sps_id = unat (seq_parameter_set_id job),
     sps_log2_max_frame_num = unat (log2_max_frame_num ctx),
     sps_log2_max_poc_lsb = unat (log2_max_pic_order_cnt_lsb ctx),
     sps_num_ref_frames = 1,
     sps_width_mbs = unat (width_mbs ctx),
     sps_height_mbs = unat (height_mbs ctx),
     sps_crop = (if rect_left sel = 0 \<and> rect_top sel = 0 \<and>
         unat (rect_width sel) = 16 * unat (width_mbs ctx) \<and>
         unat (rect_height sel) = 16 * unat (height_mbs ctx) then None
       else Some (nat (rect_left sel) div 2,
         (16 * unat (width_mbs ctx) - unat (rect_width sel) - nat (rect_left sel)) div 2,
         nat (rect_top sel) div 2,
         (16 * unat (height_mbs ctx) - unat (rect_height sel) - nat (rect_top sel)) div 2)),
     sps_sar = (if vui_sar_enable ctx = 0 then None
       else Some (unat (vui_sar_idc (ctx_vui_sar_idc ctx)),
         if ctx_vui_sar_idc ctx = VUI_SAR_IDC_EXTENDED
         then Some (nat (vui_ext_sar_width ctx), nat (vui_ext_sar_height ctx)) else None)),
     sps_num_units_in_tick = unat (numerator tpf),
     sps_time_scale = 2 * unat (denominator tpf),
     sps_fixed_frame_rate = True\<rparr>"

text \<open>The context and selection the encoder works on: dimensions within 16 bits, the
  visible rectangle inside the coded picture, the logarithms fixed at setup.\<close>

definition sps_pre :: "v4l2_fract \<Rightarrow> v4l2_rect \<Rightarrow> h264_context \<Rightarrow> bool" where
  "sps_pre tpf sel ctx =
    (1 \<le> unat (width_mbs ctx) \<and> unat (width_mbs ctx) < 2 ^ 16 \<and>
     1 \<le> unat (height_mbs ctx) \<and> unat (height_mbs ctx) < 2 ^ 16 \<and>
     0 \<le> rect_left sel \<and> nat (rect_left sel) + unat (rect_width sel) \<le> 16 * unat (width_mbs ctx) \<and>
     0 \<le> rect_top sel \<and> nat (rect_top sel) + unat (rect_height sel) \<le> 16 * unat (height_mbs ctx) \<and>
     log2_max_frame_num ctx = 8 \<and> log2_max_pic_order_cnt_lsb ctx = 8 \<and>
     0 \<le> vui_ext_sar_width ctx \<and> vui_ext_sar_width ctx < 2 ^ 16 \<and>
     0 \<le> vui_ext_sar_height ctx \<and> vui_ext_sar_height ctx < 2 ^ 16 \<and>
     unat (denominator tpf) < 2 ^ 31)"

lemma has_chroma_info_u8: "has_chroma_info (unat (idc :: u8)) = high_profile_idc idc"
  by (simp add: has_chroma_info_def high_profile_idc_def word_unat_eq_iff)

lemma unat_crop:
  fixes w16 wd left :: u32
  assumes "unat w16 = 16 * m" "l + unat wd \<le> 16 * m" "unat left = l"
  shows "unat ((w16 - wd - left) div 2) = (16 * m - unat wd - l) div 2"
proof -
  have "unat (w16 - wd) = 16 * m - unat wd" using assms by (subst unat_sub) (simp_all add: word_le_nat_alt)
  then have "unat (w16 - wd - left) = 16 * m - unat wd - l"
    using assms by (subst unat_sub) (simp_all add: word_le_nat_alt)
  then show ?thesis by (simp add: unat_div)
qed

lemma emits_ue_small:
  "unat v = k \<Longrightarrow> k < 2 ^ 31 \<Longrightarrow> emits (coded_ue v) (ue_bits k)"
  using emits_ue[of v] by simp

lemma emits_crop:
  assumes pre: "sps_pre tpf sel ctx"
  defines "w16 \<equiv> width_mbs ctx * 16" and "h16 \<equiv> height_mbs ctx * 16"
    and "l \<equiv> word_of_int (rect_left sel) :: u32" and "t \<equiv> word_of_int (rect_top sel) :: u32"
  shows "emits (seq (if rect_left sel \<noteq> 0 \<or> rect_top sel \<noteq> 0 \<or>
            rect_width sel \<noteq> w16 \<or> rect_height sel \<noteq> h16
         then [coded_bit 1, coded_ue (l div 2), coded_ue ((w16 - rect_width sel - l) div 2),
               coded_ue (t div 2), coded_ue ((h16 - rect_height sel - t) div 2)]
         else [coded_bit 0])) (crop_bits (sps_crop (sps_of tpf sel ctx job)))"
proof -
  let ?m = "unat (width_mbs ctx)" and ?n = "unat (height_mbs ctx)"
  have b: "?m < 2 ^ 16" "?n < 2 ^ 16" "0 \<le> rect_left sel" "0 \<le> rect_top sel"
    "nat (rect_left sel) + unat (rect_width sel) \<le> 16 * ?m"
    "nat (rect_top sel) + unat (rect_height sel) \<le> 16 * ?n"
    using pre by (auto simp: sps_pre_def)
  have w: "unat w16 = 16 * ?m" unfolding w16_def using b by (subst unat_mult_lem[THEN iffD1]) simp_all
  have h: "unat h16 = 16 * ?n" unfolding h16_def using b by (subst unat_mult_lem[THEN iffD1]) simp_all
  have l: "unat l = nat (rect_left sel)" unfolding l_def using b by (intro unat_word_of_int) simp_all
  have t: "unat t = nat (rect_top sel)" unfolding t_def using b by (intro unat_word_of_int) simp_all
  have e1: "emits (coded_ue (l div 2)) (ue_bits (nat (rect_left sel) div 2))"
    using b by (intro emits_ue_small) (simp_all add: unat_div l)
  have e2: "emits (coded_ue ((w16 - rect_width sel - l) div 2))
      (ue_bits ((16 * ?m - unat (rect_width sel) - nat (rect_left sel)) div 2))"
    using b by (intro emits_ue_small unat_crop[OF w _ l]) simp_all
  have e3: "emits (coded_ue (t div 2)) (ue_bits (nat (rect_top sel) div 2))"
    using b by (intro emits_ue_small) (simp_all add: unat_div t)
  have e4: "emits (coded_ue ((h16 - rect_height sel - t) div 2))
      (ue_bits ((16 * ?n - unat (rect_height sel) - nat (rect_top sel)) div 2))"
    using b by (intro emits_ue_small unat_crop[OF h _ t]) simp_all
  have eq: "rect_width sel = w16 \<longleftrightarrow> unat (rect_width sel) = 16 * ?m"
    "rect_height sel = h16 \<longleftrightarrow> unat (rect_height sel) = 16 * ?n"
    by (simp_all add: word_unat_eq_iff w h)
  show ?thesis
  proof (cases "rect_left sel = 0 \<and> rect_top sel = 0 \<and> rect_width sel = w16 \<and> rect_height sel = h16")
    case True
    then show ?thesis
      using emits_seq_Cons[OF emits_flag0 emits_seq_Nil] eq by (simp add: sps_of_def crop_bits_def)
  next
    case False
    have "emits (seq [coded_bit 1, coded_ue (l div 2), coded_ue ((w16 - rect_width sel - l) div 2),
               coded_ue (t div 2), coded_ue ((h16 - rect_height sel - t) div 2)])
      ([True] @ ue_bits (nat (rect_left sel) div 2) @
       ue_bits ((16 * ?m - unat (rect_width sel) - nat (rect_left sel)) div 2) @
       ue_bits (nat (rect_top sel) div 2) @
       ue_bits ((16 * ?n - unat (rect_height sel) - nat (rect_top sel)) div 2) @ [])"
      by (intro emits_seq_Cons emits_flag1 e1 e2 e3 e4 emits_seq_Nil)
    then show ?thesis
      using False eq by (auto simp: sps_of_def crop_bits_def)
  qed
qed

lemma emits_sar:
  assumes pre: "sps_pre tpf sel ctx"
  shows "emits (seq (if vui_sar_enable ctx \<noteq> 0
         then [coded_bit 1, coded_u8 (vui_sar_idc (ctx_vui_sar_idc ctx))] @
           (if ctx_vui_sar_idc ctx = VUI_SAR_IDC_EXTENDED
            then [coded_u16 (word_of_int (vui_ext_sar_width ctx)),
                  coded_u16 (word_of_int (vui_ext_sar_height ctx))] else [])
         else [coded_bit 0])) (sar_bits (sps_sar (sps_of tpf sel ctx job)))"
proof -
  have w: "unat (word_of_int (vui_ext_sar_width ctx) :: u16) = nat (vui_ext_sar_width ctx)"
    "unat (word_of_int (vui_ext_sar_height ctx) :: u16) = nat (vui_ext_sar_height ctx)"
    using pre by (simp_all add: sps_pre_def unat_word_of_int)
  have a: "emits (seq [coded_bit 1, coded_u8 v]) ([True] @ msb_bits 8 (unat v) @ [])" for v
    by (intro emits_seq_Cons emits_flag1 emits_u8 emits_seq_Nil)
  have b: "emits (seq [coded_u16 (word_of_int (vui_ext_sar_width ctx)),
      coded_u16 (word_of_int (vui_ext_sar_height ctx))])
    (msb_bits 16 (nat (vui_ext_sar_width ctx)) @ msb_bits 16 (nat (vui_ext_sar_height ctx)) @ [])"
    using emits_u16[of "word_of_int (vui_ext_sar_width ctx)"]
      emits_u16[of "word_of_int (vui_ext_sar_height ctx)"]
    unfolding w by (intro emits_seq_Cons emits_seq_Nil)
  show ?thesis
    using emits_seq_append[OF a b] a emits_seq_Cons[OF emits_flag0 emits_seq_Nil]
    by (simp add: sps_of_def sar_bits_def del: msb_bits.simps)
qed

lemma emits_sps:
  assumes pre: "sps_pre tpf sel ctx" and id: "seq_parameter_set_id job = 0"
  shows "emits (seq (sps_writers tpf sel ctx job)) (sps_bits (sps_of tpf sel ctx job) @ [True])"
proof -
  have b: "1 \<le> unat (width_mbs ctx)" "unat (width_mbs ctx) < 2 ^ 16"
    "1 \<le> unat (height_mbs ctx)" "unat (height_mbs ctx) < 2 ^ 16"
    "log2_max_frame_num ctx = 8" "log2_max_pic_order_cnt_lsb ctx = 8"
    "unat (denominator tpf) < 2 ^ 31"
    using pre by (auto simp: sps_pre_def)
  have w: "emits (coded_ue (width_mbs ctx - 1)) (ue_bits (unat (width_mbs ctx) - 1))"
    "emits (coded_ue (height_mbs ctx - 1)) (ue_bits (unat (height_mbs ctx) - 1))"
    using b by (auto intro!: emits_ue_small simp: unat_sub word_le_nat_alt)
  have four: "emits (coded_ue (8 - 4)) (ue_bits (8 - 4))"
    by (rule emits_ue_small) simp_all
  have d: "unat (denominator tpf * 2) = 2 * unat (denominator tpf)"
    using b(7) by (subst unat_mult_lem[THEN iffD1]) simp_all
  have t: "emits (coded_u32 (denominator tpf * 2)) (msb_bits 32 (2 * unat (denominator tpf)))"
    using emits_u32[of "denominator tpf * 2"] unfolding d .
  have chroma: "emits (seq (if high_profile_idc idc
       then [coded_ue 1, coded_ue 0, coded_ue 0, coded_bit 0, coded_bit 0] else []))
     (chroma_bits (unat idc))" for idc
  proof -
    have "emits (seq [coded_ue 1, coded_ue 0, coded_ue 0, coded_bit 0, coded_bit 0])
      (ue_bits 1 @ ue_bits 0 @ ue_bits 0 @ [False] @ [False] @ [])"
      by (intro emits_seq_Cons emits_intros emits_seq_Nil)
    then show ?thesis by (simp add: chroma_bits_def has_chroma_info_u8 emits_seq_Nil)
  qed
  have e: "emits (seq (sps_writers tpf sel ctx job))
    ((msb_bits 8 (unat (ucast (job_profile_idc job) :: u8)) @
      msb_bits 8 (unat (ucast (job_constraint_set_flags job) :: u8)) @
      msb_bits 8 (unat (ucast (job_level_idc job) :: u8)) @ ue_bits 0 @ []) @
     chroma_bits (unat (ucast (job_profile_idc job) :: u8)) @
     (ue_bits (8 - 4) @ ue_bits 0 @ ue_bits (8 - 4) @ ue_bits 1 @ [False] @
      ue_bits (unat (width_mbs ctx) - 1) @ ue_bits (unat (height_mbs ctx) - 1) @
      [True] @ [False] @ []) @
     crop_bits (sps_crop (sps_of tpf sel ctx job)) @ ([True] @ []) @
     sar_bits (sps_sar (sps_of tpf sel ctx job)) @
     ([False] @ [False] @ [False] @ [True] @ msb_bits 32 (unat (numerator tpf)) @
      msb_bits 32 (2 * unat (denominator tpf)) @ [True] @ [False] @ [False] @ [False] @ [False] @
      [True] @ []))"
    unfolding sps_writers_def Let_def id b(5,6)
    by (intro emits_seq_append emits_seq_Cons emits_seq_Nil chroma emits_crop[OF pre]
        emits_sar[OF pre] w four t emits_intros)
  then show ?thesis
    unfolding sps_bits_def by (simp add: sps_of_def id b(5,6) del: msb_bits.simps)
qed

subsection \<open>Picture parameter set\<close>

definition pps_of :: "h264_context \<Rightarrow> h264_job \<Rightarrow> pps" where
  "pps_of ctx job = \<lparr>
     pps_id = unat (pic_parameter_set_id job),
     pps_sps_id = unat (seq_parameter_set_id job),
     pps_cabac = odd (unat (entropy_coding_mode_flag job)),
     pps_init_qp = uint (st_qp_init (state ctx)),
     pps_init_qs = uint (st_qp_init (state ctx)),
     pps_chroma_qp_offset = sint (job_chroma_qp_index_offset job),
     pps_deblocking_control = True\<rparr>"

lemma int_diff_bounds:
  fixes x y :: int
  assumes "0 \<le> x" "x < 2 ^ 16" "0 \<le> y" "y < 2 ^ 16"
  shows "- (2 ^ 31) < x - y \<and> x - y < 2 ^ 31"
  using assms by simp

lemma uint_diff_bounds:
  "uint (a :: u32) < 2 ^ 16 \<Longrightarrow> 0 \<le> y \<Longrightarrow> y < 2 ^ 16 \<Longrightarrow>
   - (2 ^ 31) < uint a - y \<and> uint a - y < 2 ^ 31"
  by (rule int_diff_bounds) simp_all

lemma sint_diff_small:
  fixes a b :: u32
  assumes "uint a < 2 ^ 16" "uint b < 2 ^ 16"
  shows "sint (a - b) = uint a - uint b"
proof -
  have "sint (a - b) = signed_take_bit 31 (uint a - uint b)"
    by (simp add: sint_uint uint_word_ariths signed_take_bit_eq_take_bit_shift take_bit_eq_mod mod_simps)
  also have "\<dots> = uint a - uint b"
    using uint_diff_bounds[of a "uint b"] assms by (intro signed_take_bit_int_eq_self) simp_all
  finally show ?thesis .
qed

lemma sint_bound: "- (2 ^ 31) \<le> sint (x :: u32) \<and> sint x < 2 ^ 31"
  using sint_range_size[of x] by (simp add: word_size)

lemma emits_pps:
  assumes ids: "seq_parameter_set_id job = 0" "pic_parameter_set_id job = 0"
    and qp: "uint (st_qp_init (state ctx)) \<le> 51"
    and chroma: "- (2 ^ 31) < sint (job_chroma_qp_index_offset job)"
  shows "emits (seq (pps_writers ctx job)) (pps_bits (pps_of ctx job) @ [True])"
proof -
  let ?q = "uint (st_qp_init (state ctx))"
  have q: "sint (st_qp_init (state ctx) - 26) = ?q - 26"
    using qp by (subst sint_diff_small) simp_all
  have eq: "emits (coded_se (sint (st_qp_init (state ctx) - 26))) (se_bits (?q - 26))"
    unfolding q using qp uint_diff_bounds[of "st_qp_init (state ctx)" 26] by (intro emits_se) simp_all
  have ec: "emits (coded_se (sint (job_chroma_qp_index_offset job)))
      (se_bits (sint (job_chroma_qp_index_offset job)))"
    using chroma sint_bound[of "job_chroma_qp_index_offset job"] by (intro emits_se) simp_all
  have e2: "emits (coded_append 0 2) (msb_bits 2 0)"
    using emits_append[of 2 0] by simp
  have "emits (seq (pps_writers ctx job))
    (ue_bits 0 @ ue_bits 0 @ [odd (unat (entropy_coding_mode_flag job))] @ [False] @ ue_bits 0 @
     ue_bits 0 @ ue_bits 0 @ [False] @ msb_bits 2 0 @ se_bits (?q - 26) @ se_bits (?q - 26) @
     se_bits (sint (job_chroma_qp_index_offset job)) @ [True] @ [False] @ [False] @ [True] @ [])"
    unfolding pps_writers_def ids
    by (intro emits_seq_Cons emits_seq_Nil eq ec e2 emits_flag0 emits_flag1 emits_bit emits_ue0)
  then show ?thesis
    unfolding pps_bits_def pps_of_def by (simp add: ids del: msb_bits.simps)
qed

subsection \<open>Slice header\<close>

definition slice_of :: "h264_job \<Rightarrow> slice_hdr" where
  "slice_of job = \<lparr>
     sh_first_mb = 0,
     sh_intra = (job_frame_type job = FRAME_TYPE_IDR \<or> job_frame_type job = FRAME_TYPE_I),
     sh_pps_id = unat (pic_parameter_set_id job),
     sh_frame_num = unat (frame_num job),
     sh_idr_pic_id = (if job_frame_type job = FRAME_TYPE_IDR then Some (unat (idr_pic_id job)) else None),
     sh_poc_lsb = unat (pic_order_cnt_lsb job),
     sh_cabac_init_idc = (if entropy_coding_mode_flag job \<noteq> 0 \<and>
         \<not> (job_frame_type job = FRAME_TYPE_IDR \<or> job_frame_type job = FRAME_TYPE_I)
       then Some (unat (cabac_init_idc job)) else None),
     sh_qp = uint (qp job),
     sh_deblocking_idc = unat (job_disable_deblocking_filter_idc job),
     sh_alpha_beta = (if job_disable_deblocking_filter_idc job = 1 then None
       else Some (slice_alpha_c0_offset_div2 job, slice_beta_offset_div2 job))\<rparr>"

definition slice_pre :: "h264_context \<Rightarrow> h264_job \<Rightarrow> bool" where
  "slice_pre ctx job =
    (pic_parameter_set_id job = 0 \<and> idr_pic_id job = 0 \<and> unat (cabac_init_idc job) \<le> 1 \<and>
     log2_max_frame_num ctx = 8 \<and> log2_max_pic_order_cnt_lsb ctx = 8 \<and> pic_order_cnt_type ctx = 0 \<and>
     uint (st_qp_init (state ctx)) \<le> 51 \<and> uint (qp job) \<le> 51 \<and>
     unat (job_disable_deblocking_filter_idc job) \<le> 2 \<and>
     - 6 \<le> slice_alpha_c0_offset_div2 job \<and> slice_alpha_c0_offset_div2 job \<le> 6 \<and>
     - 6 \<le> slice_beta_offset_div2 job \<and> slice_beta_offset_div2 job \<le> 6)"

lemma emits_slice:
  assumes pre: "slice_pre ctx job"
    and sp: "sps_log2_max_frame_num sp = 8" "sps_log2_max_poc_lsb sp = 8"
    and pp: "pps_init_qp pp = uint (st_qp_init (state ctx))" "pps_deblocking_control pp"
  shows "emits (seq (slice_writers ctx job)) (slice_bits sp pp (slice_of job))"
proof -
  let ?q = "uint (st_qp_init (state ctx))"
  have b: "pic_parameter_set_id job = 0" "idr_pic_id job = 0" "unat (cabac_init_idc job) \<le> 1"
    "log2_max_frame_num ctx = 8" "log2_max_pic_order_cnt_lsb ctx = 8" "pic_order_cnt_type ctx = 0"
    "?q \<le> 51" "uint (qp job) \<le> 51" "unat (job_disable_deblocking_filter_idc job) \<le> 2"
    "- 6 \<le> slice_alpha_c0_offset_div2 job" "slice_alpha_c0_offset_div2 job \<le> 6"
    "- 6 \<le> slice_beta_offset_div2 job" "slice_beta_offset_div2 job \<le> 6"
    using pre by (auto simp: slice_pre_def)
  let ?I = "job_frame_type job = FRAME_TYPE_IDR \<or> job_frame_type job = FRAME_TYPE_I"
  let ?idr = "job_frame_type job = FRAME_TYPE_IDR"
  have st: "emits (coded_ue (ucast (slice_type job))) (ue_bits (if ?I then 2 else 0))"
    by (intro emits_ue_small) (simp_all add: slice_type_def SLICE_TYPE_I_def SLICE_TYPE_P_def)
  have ap: "emits (coded_append v 8) (msb_bits 8 (unat v))" for v
    using emits_append[of 8 v] by simp
  have qd: "sint (qp job - st_qp_init (state ctx)) = uint (qp job) - ?q"
    using b by (intro sint_diff_small) simp_all
  have eq: "emits (coded_se (sint (qp job - st_qp_init (state ctx)))) (se_bits (uint (qp job) - ?q))"
    unfolding qd using b uint_diff_bounds[of "qp job" ?q] by (intro emits_se) simp_all
  have small: "emits (coded_ue v) (ue_bits (unat v))" if "unat v \<le> 2" for v
    using that by (intro emits_ue_small) simp_all
  have ab: "emits (coded_se (slice_alpha_c0_offset_div2 job)) (se_bits (slice_alpha_c0_offset_div2 job))"
    "emits (coded_se (slice_beta_offset_div2 job)) (se_bits (slice_beta_offset_div2 job))"
    using b by (auto intro!: emits_se)
  have tP: "slice_type job = SLICE_TYPE_P \<longleftrightarrow> \<not> ?I" and tI: "slice_type job \<noteq> SLICE_TYPE_I \<longleftrightarrow> \<not> ?I"
    by (simp_all add: slice_type_def SLICE_TYPE_I_def SLICE_TYPE_P_def)
  have c: "unat (cabac_init_idc job) \<le> 2" using b by simp
  have "emits (seq (slice_writers ctx job))
    ((ue_bits 0 @ ue_bits (if ?I then 2 else 0) @ ue_bits 0 @ msb_bits 8 (unat (frame_num job)) @ []) @
     (if ?idr then ue_bits 0 @ [] else []) @
     (msb_bits 8 (unat (pic_order_cnt_lsb job)) @ []) @
     (if \<not> ?I then [False] @ [False] @ [] else []) @
     (if ?idr then [False] @ [False] @ [] else [False] @ []) @
     (if \<not> ?I \<and> entropy_coding_mode_flag job \<noteq> 0 then ue_bits (unat (cabac_init_idc job)) @ [] else []) @
     (se_bits (uint (qp job) - ?q) @ ue_bits (unat (job_disable_deblocking_filter_idc job)) @ []) @
     (if job_disable_deblocking_filter_idc job \<noteq> 1
      then se_bits (slice_alpha_c0_offset_div2 job) @ se_bits (slice_beta_offset_div2 job) @ [] else []))"
    unfolding slice_writers_def tP tI b(1,2,4,5,6) if_P[OF refl]
    by (intro emits_seq_append emits_seq_if emits_seq_Cons emits_seq_Nil st ap eq ab
        small[OF c] small[OF b(9)] emits_flag0 emits_ue0)
  moreover have "entropy_coding_mode_flag job \<noteq> 0 \<and> \<not> ?I \<longleftrightarrow> \<not> ?I \<and> entropy_coding_mode_flag job \<noteq> 0"
    by auto
  ultimately show ?thesis
    using pp sp b(1,2)
    by (cases ?idr; cases ?I) (auto simp: slice_bits_def slice_of_def simp del: msb_bits.simps)
qed

section \<open>NAL units\<close>

text \<open>A NAL unit on the wire: start code and header unescaped, the rest escaped.\<close>

definition nal_bits :: "nat \<Rightarrow> bool list \<Rightarrow> (bool \<times> bool) list" where
  "nal_bits header payload =
     map (Pair True) (msb_bits 32 1 @ msb_bits 8 header) @ map (Pair False) payload"

definition aligned :: "io_log \<Rightarrow> bool" where
  "aligned log = (length (pt_bits (port log)) mod 8 = 0)"

definition zero_padding :: "nat \<Rightarrow> bool list" where
  "zero_padding n = replicate ((8 - n mod 8) mod 8) False"

lemma zero_padding_aligns: "(n + length (zero_padding n)) mod 8 = 0"
proof -
  have "(n + (8 - n mod 8) mod 8) mod 8 = (n mod 8 + (8 - n mod 8)) mod 8"
    by (simp only: mod_simps)
  also have "\<dots> = 0" by simp
  finally show ?thesis by (simp add: zero_padding_def)
qed

lemma nal_unaligned_port:
  assumes "emits (seq ws) payload"
  shows "pt_bits (port (seq ws (coded_nalu_start hw header log))) =
    pt_bits (port log) @ nal_bits (unat header) payload"
  using assms nalu_start_port[of hw header log]
  by (simp add: emits_def nal_bits_def del: msb_bits.simps)

lemma mod8_add:
  fixes a n :: nat
  assumes "a mod 8 = 0"
  shows "(a + 40 + n) mod 8 = n mod 8"
  using assms by presburger

lemma nal_aligned_port:
  fixes hw :: hw_read and header :: u8 and log :: io_log
  assumes hw: "counts_bits hw" and al: "aligned log" and e: "emits (seq ws) payload"
  defines "log' \<equiv> coded_align hw (seq ws (coded_nalu_start hw header log))"
  shows "pt_bits (port log') = pt_bits (port log) @
      nal_bits (unat header) (payload @ zero_padding (length payload))"
    and "aligned log'"
proof -
  let ?l = "seq ws (coded_nalu_start hw header log)"
  have raw: "pt_raw (port ?l) = False"
    using e nalu_start_port(1)[of hw header log] by (simp add: emits_def)
  have len: "length (pt_bits (port ?l)) mod 8 = length payload mod 8"
  proof -
    have "length (pt_bits (port ?l)) = length (pt_bits (port log)) + 40 + length payload"
      by (simp add: nal_unaligned_port[OF e] nal_bits_def)
    then show ?thesis using mod8_add al by (simp only: aligned_def)
  qed
  show b: "pt_bits (port log') = pt_bits (port log) @
      nal_bits (unat header) (payload @ zero_padding (length payload))"
    unfolding log'_def align_port(2)[OF hw] raw len
    by (simp only: zero_padding_def nal_unaligned_port[OF e] nal_bits_def map_append append_assoc)
  have "length (pt_bits (port log')) =
      length (pt_bits (port log)) + 40 + (length payload + length (zero_padding (length payload)))"
    unfolding b by (simp add: nal_bits_def)
  then show "aligned log'"
    using al zero_padding_aligns[of "length payload"]
      mod8_add[of "length (pt_bits (port log))" "length payload + length (zero_padding (length payload))"]
    by (simp only: aligned_def)
qed

lemma zero_padding_trailing:
  "rbsp_trailing (True # zero_padding n) = Some ((), [])"
  unfolding zero_padding_def by (rule rbsp_trailing_zeros) simp

lemma nal_headers:
  "unat (nalu_header NALU_TYPE_SPS 3) = 0x67"
  "unat (nalu_header NALU_TYPE_PPS 3) = 0x68"
  "nal_ref_idc job = 2 \<Longrightarrow> unat (nalu_header (slice_nalu_type job) (ucast (nal_ref_idc job))) =
    (if job_frame_type job = FRAME_TYPE_IDR then 0x45 else 0x41)"
  by (simp_all add: nalu_header_def NALU_TYPE_SPS_def NALU_TYPE_PPS_def slice_nalu_type_def
      NALU_TYPE_SLICE_IDR_def NALU_TYPE_SLICE_NON_IDR_def GENMASK_def mask_eq_exp_minus_1)

section \<open>The headers of a frame\<close>

definition sps_nal :: "v4l2_fract \<Rightarrow> v4l2_rect \<Rightarrow> h264_context \<Rightarrow> h264_job \<Rightarrow> (bool \<times> bool) list" where
  "sps_nal tpf sel ctx job = (let p = sps_bits (sps_of tpf sel ctx job) @ [True]
     in nal_bits 0x67 (p @ zero_padding (length p)))"

definition pps_nal :: "h264_context \<Rightarrow> h264_job \<Rightarrow> (bool \<times> bool) list" where
  "pps_nal ctx job = (let p = pps_bits (pps_of ctx job) @ [True]
     in nal_bits 0x68 (p @ zero_padding (length p)))"

definition slice_nal :: "sps \<Rightarrow> pps \<Rightarrow> h264_job \<Rightarrow> (bool \<times> bool) list" where
  "slice_nal sp pp job =
     nal_bits (if job_frame_type job = FRAME_TYPE_IDR then 0x45 else 0x41)
       (slice_bits sp pp (slice_of job))"

lemma sps_of_set_step [simp]: "sps_of tpf sel (set_step s ctx) job = sps_of tpf sel ctx job"
  by (simp add: sps_of_def set_step_def)

lemma pps_of_set_step [simp]: "pps_of (set_step s ctx) job = pps_of ctx job"
  by (simp add: pps_of_def set_step_def)

lemma pre_set_step [simp]:
  "sps_pre tpf sel (set_step s ctx) = sps_pre tpf sel ctx"
  "slice_pre (set_step s ctx) job = slice_pre ctx job"
  "st_qp_init (state (set_step s ctx)) = st_qp_init (state ctx)"
  by (simp_all add: sps_pre_def slice_pre_def set_step_def)

lemma set_step_nop: "st_step (state ctx) = s \<Longrightarrow> set_step s ctx = ctx"
  by (simp add: set_step_def)

lemma set_step_twice [simp]: "set_step s (set_step t ctx) = set_step s ctx"
  by (simp add: set_step_def)

definition headers_pre :: "v4l2_fract \<Rightarrow> v4l2_rect \<Rightarrow> h264_context \<Rightarrow> h264_job \<Rightarrow> bool" where
  "headers_pre tpf sel ctx job =
    (sps_pre tpf sel ctx \<and> slice_pre ctx job \<and> seq_parameter_set_id job = 0 \<and>
     nal_ref_idc job = 2 \<and> - (2 ^ 31) < sint (job_chroma_qp_index_offset job))"

lemma headers_loop_ctx: "fst (headers_loop hw tpf sel job ctx log) = set_step STEP_SLICE ctx"
proof (induction hw tpf sel job ctx log rule: headers_loop.induct)
  case (1 hw tpf sel job ctx log)
  note IH = 1
  show ?case
  proof (cases "st_step (state ctx)")
    case STEP_SLICE
    then show ?thesis by (simp add: headers_loop.simps[of hw tpf sel job ctx] set_step_nop)
  qed (simp_all add: headers_loop.simps[of hw tpf sel job ctx] IH)
qed

lemma step_order [simp]:
  "s \<le> STEP_SPS \<longleftrightarrow> s = STEP_START \<or> s = STEP_SPS"
  "s \<le> STEP_PPS \<longleftrightarrow> s \<noteq> STEP_SLICE"
  by (cases s; simp add: less_eq_enc_step_def)+

lemma headers_pre_set_step [simp]:
  "headers_pre tpf sel (set_step s ctx) job = headers_pre tpf sel ctx job"
  by (simp add: headers_pre_def)

lemma sps_nal_set_step [simp]: "sps_nal tpf sel (set_step s ctx) job = sps_nal tpf sel ctx job"
  "pps_nal (set_step s ctx) job = pps_nal ctx job"
  by (simp_all add: sps_nal_def pps_nal_def)

lemma sps_port:
  assumes "counts_bits hw" "aligned log" "headers_pre tpf sel ctx job"
  shows "pt_bits (port (job_configure_sps hw tpf sel ctx job log)) =
      pt_bits (port log) @ sps_nal tpf sel ctx job"
    and "aligned (job_configure_sps hw tpf sel ctx job log)"
proof -
  have e: "emits (seq (sps_writers tpf sel ctx job)) (sps_bits (sps_of tpf sel ctx job) @ [True])"
    using assms(3) by (intro emits_sps) (simp_all add: headers_pre_def)
  show "pt_bits (port (job_configure_sps hw tpf sel ctx job log)) =
      pt_bits (port log) @ sps_nal tpf sel ctx job"
    and "aligned (job_configure_sps hw tpf sel ctx job log)"
    using nal_aligned_port[OF assms(1,2) e]
    by (simp_all only: job_configure_sps_def sps_nal_def Let_def nal_headers)
qed

lemma pps_port:
  assumes "counts_bits hw" "aligned log" "headers_pre tpf sel ctx job"
  shows "pt_bits (port (job_configure_pps hw ctx job log)) = pt_bits (port log) @ pps_nal ctx job"
    and "aligned (job_configure_pps hw ctx job log)"
proof -
  have e: "emits (seq (pps_writers ctx job)) (pps_bits (pps_of ctx job) @ [True])"
    using assms(3) by (intro emits_pps) (simp_all add: headers_pre_def slice_pre_def)
  show "pt_bits (port (job_configure_pps hw ctx job log)) = pt_bits (port log) @ pps_nal ctx job"
    and "aligned (job_configure_pps hw ctx job log)"
    using nal_aligned_port[OF assms(1,2) e]
    by (simp_all only: job_configure_pps_def pps_nal_def Let_def nal_headers)
qed

lemma slice_port:
  assumes "headers_pre tpf sel ctx job"
    and sp: "sps_log2_max_frame_num sp = 8" "sps_log2_max_poc_lsb sp = 8"
    and pp: "pps_init_qp pp = uint (st_qp_init (state ctx))" "pps_deblocking_control pp"
  shows "pt_bits (port (job_configure_slice_header hw ctx job log)) =
    pt_bits (port log) @ slice_nal sp pp job"
proof -
  have pre: "slice_pre ctx job" "nal_ref_idc job = 2" using assms(1) by (simp_all add: headers_pre_def)
  show ?thesis
    using nal_unaligned_port[OF emits_slice[OF pre(1) sp pp]]
    by (simp only: job_configure_slice_header_def slice_nal_def Let_def nal_headers(3)[OF pre(2)])
qed

lemma headers_loop_port:
  assumes hw: "counts_bits hw" and pre: "headers_pre tpf sel ctx job" and al: "aligned log"
    and sp: "sps_log2_max_frame_num sp = 8" "sps_log2_max_poc_lsb sp = 8"
    and pp: "pps_init_qp pp = uint (st_qp_init (state ctx))" "pps_deblocking_control pp"
  shows "pt_bits (port (snd (headers_loop hw tpf sel job ctx log))) = pt_bits (port log) @
    (if st_step (state ctx) \<le> STEP_SPS then sps_nal tpf sel ctx job else []) @
    (if st_step (state ctx) \<le> STEP_PPS then pps_nal ctx job else []) @
    slice_nal sp pp job"
  using hw pre al pp(1)
proof (induction hw tpf sel job ctx log rule: headers_loop.induct)
  case (1 hw tpf sel job ctx log)
  show ?case
  proof (cases "st_step (state ctx)")
    case STEP_START
    then show ?thesis
      using "1.IH"(1)[OF STEP_START] "1.prems" by (simp add: headers_loop.simps[of hw tpf sel job ctx] aligned_def)
  next
    case STEP_SPS
    note sps = sps_port[OF "1.prems"(1,3,2)]
    show ?thesis
      using "1.IH"(2)[OF STEP_SPS, unfolded headers_pre_set_step pre_set_step, OF "1.prems"(1,2) sps(2) "1.prems"(4)]
        sps(1) STEP_SPS
      by (simp add: headers_loop.simps[of hw tpf sel job ctx])
  next
    case STEP_PPS
    note pps = pps_port[OF "1.prems"(1,3,2)]
    show ?thesis
      using "1.IH"(3)[OF STEP_PPS, unfolded headers_pre_set_step pre_set_step, OF "1.prems"(1,2) pps(2) "1.prems"(4)]
        pps(1) STEP_PPS
      by (simp add: headers_loop.simps[of hw tpf sel job ctx])
  next
    case STEP_SLICE
    then show ?thesis
      using slice_port[OF "1.prems"(2) sp "1.prems"(4) pp(2)]
      by (simp add: headers_loop.simps[of hw tpf sel job ctx])
  qed
qed

section \<open>Properties\<close>

text \<open>C24: which headers a frame gets.  From the step the session is in, a frame sends the sequence
  parameter set if none is current, then the picture parameter set if none is current, then
  the slice header, and leaves the session at the slice step.  Each is a NAL unit with its
  start code and header byte unescaped and its payload escaped; the parameter sets end in a
  stop bit and zero bits up to a byte boundary; the payloads are the encodings of the
  intended values.\<close>

theorem headers_by_step:
  assumes "counts_bits hw" "headers_pre tpf sel ctx job" "aligned log"
    and "sps_log2_max_frame_num sp = 8" "sps_log2_max_poc_lsb sp = 8"
    and "pps_init_qp pp = uint (st_qp_init (state ctx))" "pps_deblocking_control pp"
    and "job_configure_headers hw tpf sel job ctx log = (ctx', log')"
  shows "ctx' = set_step STEP_SLICE ctx \<and>
    pt_bits (port log') = pt_bits (port log) @
      (if st_step (state ctx) \<in> {STEP_START, STEP_SPS} then sps_nal tpf sel ctx job else []) @
      (if st_step (state ctx) \<noteq> STEP_SLICE then pps_nal ctx job else []) @
      slice_nal sp pp job"
proof -
  have l: "ctx' = fst (headers_loop hw tpf sel job ctx log)"
    "log' = cedrus_poll VE_RESET_REG (VE_RESET_CACHE_SYNC_IDLE OR VE_RESET_SYNC_IDLE)
      (snd (headers_loop hw tpf sel job ctx log))"
    using assms(8) by (auto simp: job_configure_headers_def case_prod_unfold Let_def)
  have "port log' = port (snd (headers_loop hw tpf sel job ctx log))"
    by (simp add: l(2) cedrus_poll_def port_step_def)
  then show ?thesis
    using headers_loop_port[OF assms(1,2,3,4,5,6,7)] by (simp add: l(1) headers_loop_ctx)
qed

end
