(* ===== verification/H264_Job.thy ===== *)
theory H264_Job
  imports H264_Syntax
begin

text \<open>Running one H.264 encode: \<open>job_configure\<close>, \<open>job_trigger\<close>, \<open>job_finish\<close> and the interrupt
  callbacks of \<open>cedrus_enc_h264.c\<close>.  The lemmas show that a configured frame sends exactly the
  headers it needs before the hardware's slice data, with escaping on, that the registers
  agree with the slice header, and that no length outside the coded buffer is published.\<close>


section \<open>Configuring the encoder\<close>

definition stream_setup :: "cedrus_device \<Rightarrow> pix_format \<Rightarrow> u64 \<Rightarrow> u32 \<Rightarrow> (u32 \<times> u32) list" where
  "stream_setup dev pix addr sz =
    [(VE_ENC_AVC_STARTTRIG_REG, 0)] @
    (if dev_enc_addr_shift dev \<noteq> 0
     then [(VE_ENC_AVC_PIC_INFO_REG,
            push_bit 16 ((pix_width pix + 7) div 8) OR ((pix_height pix + 7) div 8))] else []) @
    [(VE_ENC_AVC_STM_BIT_OFFSET_REG, 0),
     (VE_ENC_AVC_STM_START_ADDR_REG, cedrus_enc_dma_addr dev addr),
     (VE_ENC_AVC_STM_END_ADDR_REG, cedrus_enc_dma_addr dev (addr + ucast sz - 1)),
     (VE_ENC_AVC_STM_BIT_MAX_REG, sz * 8),
     (VE_ENC_AVC_STM_BIT_LEN_REG, 0),
     (VE_ENC_AVC_HEADER_BITS_REG, 0),
     (VE_ENC_AVC_RESIDUAL_BITS_REG, 0)]"

text \<open>The addresses of the reconstruction, reference and subpixel buffers.\<close>

definition reference_setup :: "cedrus_device \<Rightarrow> h264_buffer \<Rightarrow> h264_context \<Rightarrow> h264_job \<Rightarrow>
    (u32 \<times> u32) list" where
  "reference_setup dev buf ctx job =
    (let luma = word_of_nat (rec_luma_size buf);
         (addr, luma_size) = (if job_frame_type job = FRAME_TYPE_P
           then (rec_last_dma ctx, rec_last_luma_size ctx) else (rec_dma buf, luma));
         last = (if subpix_last_dma ctx = 0 then subpix_dma buf else subpix_last_dma ctx)
     in [(VE_ENC_AVC_MB_INFO_ADDR_REG, cedrus_enc_dma_addr dev (mb_info_dma ctx)),
         (VE_ENC_AVC_MV_BUF_ADDR_REG, 0),
         (VE_ENC_AVC_REC_ADDR_Y_REG, cedrus_enc_dma_addr dev (rec_dma buf)),
         (VE_ENC_AVC_REC_ADDR_C_REG, cedrus_enc_dma_addr dev (rec_dma buf + ucast luma)),
         (VE_ENC_AVC_REF0_ADDR_Y_REG, cedrus_enc_dma_addr dev addr),
         (VE_ENC_AVC_REF0_ADDR_C_REG, cedrus_enc_dma_addr dev (addr + ucast luma_size)),
         (VE_ENC_AVC_SUBPIX_ADDR_NEW_REG, cedrus_enc_dma_addr dev (subpix_dma buf)),
         (VE_ENC_AVC_SUBPIX_ADDR_LAST_REG, cedrus_enc_dma_addr dev last)])"

definition reference_update :: "h264_buffer \<Rightarrow> h264_context \<Rightarrow> h264_context" where
  "reference_update buf ctx = ctx\<lparr>rec_last_dma := rec_dma buf,
     rec_last_luma_size := word_of_nat (rec_luma_size buf), subpix_last_dma := subpix_dma buf\<rparr>"

definition para0_value :: "h264_job \<Rightarrow> u32" where
  "para0_value job =
    (let value = VE_ENC_AVC_PARA0_FRAME_NUM 0 OR
           VE_ENC_AVC_PARA0_BETA_OFFSET_DIV2 (slice_beta_offset_div2 job) OR
           VE_ENC_AVC_PARA0_ALPHA_OFFSET_DIV2 (slice_alpha_c0_offset_div2 job) OR
           VE_ENC_AVC_PARA0_FIX_MODE_NUM (uint (cabac_init_idc job)) OR
           VE_ENC_AVC_PARA0_REF_PIC_TYPE_FRAME OR
           VE_ENC_AVC_PARA0_PIC_TYPE_FRAME;
         value = (if entropy_coding_mode_flag job \<noteq> 0
           then value OR VE_ENC_AVC_PARA0_ENTROPY_CODING_CABAC
           else value OR VE_ENC_AVC_PARA0_ENTROPY_CODING_CAVLC)
     in case job_frame_type job of
          FRAME_TYPE_IDR \<Rightarrow> value OR VE_ENC_AVC_PARA0_SLICE_TYPE_I
        | FRAME_TYPE_I \<Rightarrow> value OR VE_ENC_AVC_PARA0_SLICE_TYPE_I
        | FRAME_TYPE_P \<Rightarrow> value OR VE_ENC_AVC_PARA0_SLICE_TYPE_P
        | FRAME_TYPE_B \<Rightarrow> value)"

definition para1_value :: "cedrus_device \<Rightarrow> pix_format \<Rightarrow> h264_job \<Rightarrow> u32" where
  "para1_value dev pix job =
    (let stride_mbs_div_48 = (bytesperline pix div 16 + 47) div 48;
         value = VE_ENC_AVC_PARA1_QP_CHROMA_OFFSET0 (uint (job_chroma_qp_index_offset job)) OR
           VE_ENC_AVC_PARA1_STRIDE_MBS_DIV_48 (uint stride_mbs_div_48) OR
           VE_ENC_AVC_PARA1_RC_MODE_FIXED OR
           VE_ENC_AVC_PARA1_FIXED_QP (uint (qp job))
     in if dev_enc_addr_shift dev \<noteq> 0
        then value OR VE_ENC_AVC_PARA1_H618_MODE OR VE_ENC_AVC_PARA1_DYNAMIC_ME_EN else value)"

definition encode_setup :: "cedrus_device \<Rightarrow> pix_format \<Rightarrow> h264_job \<Rightarrow> (u32 \<times> u32) list" where
  "encode_setup dev pix job =
    [(VE_ENC_AVC_DEBLK_ADDR_REG, 0),
     (VE_ENC_AVC_CYCLIC_INTRA_REFRESH_REG, 0),
     (VE_ENC_AVC_PARA0_REG, para0_value job),
     (VE_ENC_AVC_PARA1_REG, para1_value dev pix job),
     (VE_ENC_AVC_PARA2_REG, 0)] @
    (if dev_enc_addr_shift dev \<noteq> 0
     then [(VE_ENC_AVC_DYNAMIC_ME_PAR0_REG, 0x00090001), (VE_ENC_AVC_DYNAMIC_ME_PAR1_REG, 0x00300027)]
     else [(VE_ENC_AVC_DYNAMIC_ME_PAR0_REG, 0), (VE_ENC_AVC_DYNAMIC_ME_PAR1_REG, 0)]) @
    (if dev_enc_addr_shift dev \<noteq> 0
     then [(VE_ENC_AVC_RC_INIT_REG, 0x80001900), (VE_ENC_AVC_RC_MAD_TH0_REG, 0x120f0c09),
           (VE_ENC_AVC_RC_MAD_TH1_REG, 0x261e1814), (VE_ENC_AVC_RC_MAD_TH2_REG, 0xffff3630),
           (VE_ENC_AVC_RC_MAD_TH3_REG, 0x00001c20)]
     else [(VE_ENC_AVC_RC_INIT_REG, 0), (VE_ENC_AVC_RC_MAD_TH0_REG, 0),
           (VE_ENC_AVC_RC_MAD_TH1_REG, 0), (VE_ENC_AVC_RC_MAD_TH2_REG, 0),
           (VE_ENC_AVC_RC_MAD_TH3_REG, 0)]) @
    (if dev_enc_addr_shift dev \<noteq> 0
     then [(VE_ENC_AVC_ME_PARA_REG,
            VE_ENC_AVC_ME_PARA_QUANT_THRESHOLD_DIS OR VE_ENC_AVC_ME_PARA_SKIP_MB_DIS)]
     else [(VE_ENC_AVC_ME_PARA_REG,
            VE_ENC_AVC_ME_PARA_WB_MV_INFO_DIS OR VE_ENC_AVC_ME_PARA_FME_SEARCH_LEVEL 2)]) @
    (if dev_enc_addr_shift dev \<noteq> 0 then [(VE_ENC_AVC_H618_CTRL_REG, 0x12222)] else []) @
    [(VE_ENC_AVC_MAD_REG, 0),
     (VE_ENC_AVC_OVERTIME_MB_REG, 0),
     (VE_ENC_AVC_ME_INFO_REG, 0)]"

text \<open>\<open>cedrus_enc_h264_job_configure\<close>: \<open>(coded_addr, coded_size)\<close> is what
  \<open>cedrus_job_buffer_coded_dma\<close> returns and \<open>buf\<close> the engine buffer of the picture.\<close>

definition job_configure :: "hw_read \<Rightarrow> cedrus_device \<Rightarrow> pix_format \<Rightarrow> v4l2_fract \<Rightarrow> v4l2_rect \<Rightarrow>
    u64 \<times> u32 \<Rightarrow> h264_buffer \<Rightarrow> h264_job \<Rightarrow> h264_context \<Rightarrow> io_log \<Rightarrow> h264_context \<times> io_log" where
  "job_configure hw dev pix tpf sel coded buf job ctx log =
    (let (coded_addr, coded_size) = coded;
         log = writes (stream_setup dev pix coded_addr coded_size) log;
         (ctx, log) = job_configure_headers hw tpf sel job ctx log;
         log = writes (reference_setup dev buf ctx job) log;
         ctx = reference_update buf ctx;
         log = writes (encode_setup dev pix job) log
     in (ctx, log))"

definition job_trigger :: "cedrus_device \<Rightarrow> pix_format \<Rightarrow> io_log \<Rightarrow> io_log" where
  "job_trigger dev pix log =
    (let int_value = VE_ENC_AVC_INT_EN_STALL OR VE_ENC_AVC_INT_EN_FINISH;
         int_value = (if dev_enc_addr_shift dev \<noteq> 0
           then int_value OR (VE_ENC_AVC_INT_EN_MB_OVERTIME OR
             push_bit 24 ((pix_width pix + 79) div 80) OR push_bit 16 ((pix_width pix + 15) div 16))
           else int_value);
         log = cedrus_write VE_ENC_AVC_INT_EN_REG int_value log
     in cedrus_write VE_ENC_AVC_STARTTRIG_REG
          (VE_ENC_AVC_STARTTRIG_ENCODE_MODE_H264 OR VE_ENC_AVC_STARTTRIG_TYPE_ENC_START) log)"

section \<open>Finishing a job\<close>


definition irq_status :: "hw_read \<Rightarrow> io_log \<Rightarrow> cedrus_irq_status" where
  "irq_status hw log =
    (let status = cedrus_read hw VE_ENC_AVC_STATUS_REG log
     in if status AND VE_ENC_AVC_STATUS_MASK = 0 then CEDRUS_IRQ_NONE
        else if status AND VE_ENC_AVC_STATUS_FINISH \<noteq> 0 then CEDRUS_IRQ_SUCCESS
        else CEDRUS_IRQ_ERROR)"

definition irq_clear :: "io_log \<Rightarrow> io_log" where
  "irq_clear log = cedrus_write VE_ENC_AVC_STATUS_REG VE_ENC_AVC_STATUS_MASK log"

definition irq_disable :: "io_log \<Rightarrow> io_log" where
  "irq_disable log = cedrus_write VE_ENC_AVC_INT_EN_REG 0 log"

section \<open>What the configuration writes\<close>

text \<open>Writes that leave the put-bits port alone.\<close>

definition quiet :: "u32 \<times> u32 \<Rightarrow> bool" where
  "quiet w = (fst w \<noteq> VE_ENC_AVC_PUTBITSDATA_REG \<and> fst w \<noteq> VE_ENC_AVC_PARA0_REG \<and>
     (fst w = VE_ENC_AVC_STARTTRIG_REG \<longrightarrow> snd w AND 0xf \<noteq> VE_ENC_AVC_STARTTRIG_TYPE_PUT_BITS))"

lemma port_writes_quiet: "list_all quiet ws \<Longrightarrow> port (writes ws log) = port log"
  by (induction ws arbitrary: log)
    (auto simp: writes_Cons cedrus_write_def port_step_def quiet_def)

lemma quiet_setups:
  "list_all quiet (stream_setup dev pix addr sz)"
  "list_all quiet (reference_setup dev buf ctx job)"
  by (simp_all add: stream_setup_def reference_setup_def quiet_def hdr_simps Let_def case_prod_unfold)

lemma para0_escaped: "para0_value job AND VE_ENC_AVC_PARA0_EPTB_DIS = 0"
proof -
  have "\<not> bit (para0_value job) 31"
    by (simp add: para0_value_def Let_def hdr_simps bit_simps bit_SHIFT_AND_MASK_BITS
        split: frame_type.split)
  then show ?thesis
    by (intro bit_word_eqI) (metis VE_ENC_AVC_PARA0_EPTB_DIS_def BIT_def bit_and_iff bit_push_bit_iff
      bit_1_iff bit_0_eq bot_apply bot_bool_def diff_is_0_eq le_antisym)
qed

lemma port_encode_setup:
  "port (writes (encode_setup dev pix job) log) = (port log)\<lparr>pt_raw := False\<rparr>"
proof -
  let ?pre = "[(VE_ENC_AVC_DEBLK_ADDR_REG, 0), (VE_ENC_AVC_CYCLIC_INTRA_REFRESH_REG, 0)]"
  let ?post = "drop 3 (encode_setup dev pix job)"
  have e: "encode_setup dev pix job = ?pre @ [(VE_ENC_AVC_PARA0_REG, para0_value job)] @ ?post"
    by (simp add: encode_setup_def)
  have q: "list_all quiet ?post"
    by (simp add: encode_setup_def quiet_def hdr_simps)
  have r: "VE_ENC_AVC_PARA0_REG \<noteq> VE_ENC_AVC_PUTBITSDATA_REG"
    "list_all quiet ?pre"
    by (simp_all add: hdr_simps quiet_def)
  have "port (writes [(VE_ENC_AVC_PARA0_REG, para0_value job)] log) = (port log)\<lparr>pt_raw := False\<rparr>" for log
    using r(1) by (simp add: writes_Cons cedrus_write_def port_step_def para0_escaped)
  then show ?thesis
    using port_writes_quiet[OF q] port_writes_quiet[OF r(2)]
    by (subst e) (simp only: writes_append)
qed

lemma port_poll [simp]: "port (cedrus_poll r b log) = port log"
  by (simp add: cedrus_poll_def port_step_def)

text \<open>The bits a configured frame sends before the hardware's own: the headers, and escaping is
  on when it starts.\<close>

lemma job_configure_port:
  assumes "counts_bits hw" "headers_pre tpf sel ctx job"
    and "sps_log2_max_frame_num sp = 8" "sps_log2_max_poc_lsb sp = 8"
    and "pps_init_qp pp = uint (st_qp_init (state ctx))" "pps_deblocking_control pp"
  shows "pt_bits (port (snd (job_configure hw dev pix tpf sel coded buf job ctx []))) =
      (if st_step (state ctx) \<le> STEP_SPS then sps_nal tpf sel ctx job else []) @
      (if st_step (state ctx) \<le> STEP_PPS then pps_nal ctx job else []) @ slice_nal sp pp job"
    and "\<not> pt_raw (port (snd (job_configure hw dev pix tpf sel coded buf job ctx [])))"
proof -
  obtain addr sz where c: "coded = (addr, sz)" by (cases coded)
  let ?log = "writes (stream_setup dev pix addr sz) []"
  have "aligned ?log" by (simp add: aligned_def port_writes_quiet[OF quiet_setups(1)])
  note h = headers_loop_port[OF assms(1,2) this assms(3-6)]
  show "pt_bits (port (snd (job_configure hw dev pix tpf sel coded buf job ctx []))) =
      (if st_step (state ctx) \<le> STEP_SPS then sps_nal tpf sel ctx job else []) @
      (if st_step (state ctx) \<le> STEP_PPS then pps_nal ctx job else []) @ slice_nal sp pp job"
    using h unfolding job_configure_def job_configure_headers_def c
    by (simp add: port_encode_setup port_writes_quiet[OF quiet_setups(2)]
        port_writes_quiet[OF quiet_setups(1)] case_prod_unfold Let_def del: step_order)
  show "\<not> pt_raw (port (snd (job_configure hw dev pix tpf sel coded buf job ctx [])))"
    by (simp add: job_configure_def case_prod_unfold Let_def port_encode_setup)
qed

lemma job_configure_ctx:
  "fst (job_configure hw dev pix tpf sel coded buf job ctx log) =
   reference_update buf (set_step STEP_SLICE ctx)"
  by (simp add: job_configure_def job_configure_headers_def case_prod_unfold Let_def headers_loop_ctx)

section \<open>Registers\<close>

text \<open>Writing headers touches the put-bits registers and \<open>PARA0\<close> only.\<close>

definition keeps :: "u32 \<Rightarrow> (io_log \<Rightarrow> io_log) \<Rightarrow> bool" where
  "keeps r f = (\<forall>log. last_write r (f log) = last_write r log)"

definition header_regs :: "u32 set" where
  "header_regs = {VE_ENC_AVC_PUTBITSDATA_REG, VE_ENC_AVC_STARTTRIG_REG, VE_ENC_AVC_PARA0_REG}"

lemma keeps_append: "r \<notin> header_regs \<Longrightarrow> keeps r (coded_append v n)"
  by (auto simp: keeps_def coded_append_def Let_def header_regs_def)

lemma keeps_bytes: "r \<notin> header_regs \<Longrightarrow> keeps r (coded_bytes v n)"
  by (induction n) (auto simp: keeps_def keeps_append[unfolded keeps_def])

lemma keeps_coded:
  assumes "r \<notin> header_regs"
  shows "keeps r (coded_ue v)" "keeps r (coded_se i)" "keeps r (coded_u8 b)" "keeps r (coded_u16 h)"
    "keeps r (coded_u32 v)" "keeps r (coded_bit v)"
  using keeps_append[OF assms] keeps_bytes[OF assms]
  by (simp_all add: keeps_def coded_ue_def coded_se_def coded_u8_def coded_u16_def coded_u32_def
      coded_bit_def Let_def)

lemma keeps_seq: "list_all (keeps r) ws \<Longrightarrow> keeps r (seq ws)"
  by (induction ws) (simp_all add: keeps_def seq_def)

lemma keeps_framing:
  assumes "r \<notin> header_regs"
  shows "keeps r (coded_align hw)" "keeps r (coded_eptb hw b)" "keeps r (coded_nalu_start hw h)"
proof -
  show a: "keeps r (coded_align hw)" "keeps r (coded_eptb hw b)" for b
    using keeps_append[OF assms] assms
    by (auto simp: keeps_def coded_align_def coded_eptb_def Let_def header_regs_def)
  show "keeps r (coded_nalu_start hw h)"
    using a keeps_coded[OF assms] by (simp add: keeps_def coded_nalu_start_def Let_def)
qed

lemma keeps_configure:
  assumes "r \<notin> header_regs"
  shows "keeps r (job_configure_sps hw tpf sel ctx job)" "keeps r (job_configure_pps hw ctx job)"
    "keeps r (job_configure_slice_header hw ctx job)"
proof -
  note k = keeps_coded[OF assms] keeps_append[OF assms]
  have "list_all (keeps r) (sps_writers tpf sel ctx job)" "list_all (keeps r) (pps_writers ctx job)"
    "list_all (keeps r) (slice_writers ctx job)"
    by (simp_all add: sps_writers_def pps_writers_def slice_writers_def Let_def k)
  note s = this[THEN keeps_seq, unfolded keeps_def]
  note f = keeps_framing[OF assms, unfolded keeps_def]
  show "keeps r (job_configure_sps hw tpf sel ctx job)" "keeps r (job_configure_pps hw ctx job)"
    "keeps r (job_configure_slice_header hw ctx job)"
    by (simp_all add: keeps_def job_configure_sps_def job_configure_pps_def
        job_configure_slice_header_def s f)
qed

lemma last_write_headers_loop:
  "r \<notin> header_regs \<Longrightarrow>
   last_write r (snd (headers_loop hw tpf sel job ctx log)) = last_write r log"
proof (induction hw tpf sel job ctx log rule: headers_loop.induct)
  case (1 hw tpf sel job ctx log)
  note k = keeps_configure[OF "1.prems", unfolded keeps_def, rule_format]
  show ?case
    by (cases "st_step (state ctx)")
      (simp_all add: headers_loop.simps[of hw tpf sel job ctx log] k "1.IH" "1.prems")
qed

lemma last_write_headers:
  "r \<notin> header_regs \<Longrightarrow>
   last_write r (snd (job_configure_headers hw tpf sel job ctx log)) = last_write r log"
  using last_write_headers_loop[of r hw tpf sel job ctx log]
  by (simp add: job_configure_headers_def case_prod_unfold Let_def)

lemma reference_setup_headers:
  "reference_setup dev buf (fst (job_configure_headers hw tpf sel job ctx log)) job =
   reference_setup dev buf ctx job"
  by (simp add: job_configure_headers_def case_prod_unfold Let_def headers_loop_ctx
      reference_setup_def set_step_def)

lemma last_write_configure:
  "last_write r (snd (job_configure hw dev pix tpf sel coded buf job ctx log)) =
   (case map_of (rev (encode_setup dev pix job)) r of Some v \<Rightarrow> Some v
    | None \<Rightarrow> (case map_of (rev (reference_setup dev buf ctx job)) r of Some v \<Rightarrow> Some v
      | None \<Rightarrow> last_write r (snd (job_configure_headers hw tpf sel job ctx
         (writes (stream_setup dev pix (fst coded) (snd coded)) log)))))"
  by (simp add: job_configure_def case_prod_unfold Let_def last_write_writes reference_setup_headers
      split: option.splits)

lemma bit_flags [simp]:
  "bit (16 :: int) n \<longleftrightarrow> n = 4" "bit (256 :: int) n \<longleftrightarrow> n = 8"
proof -
  have "bit (push_bit k 1 :: int) n \<longleftrightarrow> n = k" for k
    by (auto simp: bit_push_bit_iff bit_1_iff simp del: push_bit_of_1)
  from this[of 4] this[of 8]
  show "bit (16 :: int) n \<longleftrightarrow> n = 4" "bit (256 :: int) n \<longleftrightarrow> n = 8"
    by simp_all
qed

lemma para_bits:
  "20 + k \<le> 23 \<Longrightarrow> bit (para0_value job) (20 + k) = bit (slice_beta_offset_div2 job) k"
  "16 + k \<le> 19 \<Longrightarrow> bit (para0_value job) (16 + k) = bit (slice_alpha_c0_offset_div2 job) k"
  "10 + k \<le> 11 \<Longrightarrow> bit (para0_value job) (10 + k) = bit (uint (cabac_init_idc job)) k"
  "bit (para0_value job) 8 = (entropy_coding_mode_flag job \<noteq> 0)"
  "bit (para0_value job) 4 = (job_frame_type job = FRAME_TYPE_P)"
  "0 + k \<le> 5 \<Longrightarrow> bit (para1_value dev pix job) (0 + k) = bit (uint (qp job)) k"
  "16 + k \<le> 18 \<Longrightarrow> bit (para1_value dev pix job) (16 + k) = bit (uint (job_chroma_qp_index_offset job)) k"
  by (auto simp: para0_value_def para1_value_def Let_def hdr_simps bit_BIT bit_simps bit_SHIFT_AND_MASK_BITS
      split: frame_type.split)

lemma para_written:
  "last_write VE_ENC_AVC_PARA0_REG (snd (job_configure hw dev pix tpf sel coded buf job ctx log)) =
    Some (para0_value job)"
  "last_write VE_ENC_AVC_PARA1_REG (snd (job_configure hw dev pix tpf sel coded buf job ctx log)) =
    Some (para1_value dev pix job)"
  by (simp_all add: last_write_configure encode_setup_def hdr_simps)

text \<open>C33: the parameter registers written for a frame say what its slice header says: the
  quantiser, intra or predicted, CABAC or CAVLC with the same initialisation table, the chroma
  quantiser offset, and the two deblocking offsets as two's complement fields, for every job in
  the ranges of the controls.\<close>

theorem configure_matches_slice:
  assumes "uint (qp job) \<le> 51" "uint (cabac_init_idc job) \<le> 1" "job_frame_type job \<noteq> FRAME_TYPE_B"
    and "uint (job_chroma_qp_index_offset job) \<le> 7"
    and "- 6 \<le> slice_alpha_c0_offset_div2 job" "slice_alpha_c0_offset_div2 job \<le> 6"
    and "- 6 \<le> slice_beta_offset_div2 job" "slice_beta_offset_div2 job \<le> 6"
  shows "\<exists>p0 p1.
    last_write VE_ENC_AVC_PARA0_REG (snd (job_configure hw dev pix tpf sel coded buf job ctx log)) = Some p0 \<and>
    last_write VE_ENC_AVC_PARA1_REG (snd (job_configure hw dev pix tpf sel coded buf job ctx log)) = Some p1 \<and>
    field 5 0 p1 = sh_qp (slice_of job) \<and>
    field 18 16 p1 = uint (job_chroma_qp_index_offset job) \<and>
    (bit p0 4 \<longleftrightarrow> \<not> sh_intra (slice_of job)) \<and>
    (bit p0 8 \<longleftrightarrow> entropy_coding_mode_flag job \<noteq> 0) \<and>
    field 11 10 p0 = uint (cabac_init_idc job) \<and>
    sfield 19 16 p0 = slice_alpha_c0_offset_div2 job \<and>
    sfield 23 20 p0 = slice_beta_offset_div2 job"
proof (intro exI conjI, rule para_written(1), rule para_written(2))
  let ?p0 = "para0_value job" and ?p1 = "para1_value dev pix job"
  have c: "uint (cabac_init_idc job) < 2 ^ 2" "uint (job_chroma_qp_index_offset job) < 2 ^ 3"
    using assms(2,4) by simp_all
  show "field 5 0 ?p1 = sh_qp (slice_of job)"
    using assms(1) by (subst field_eq[OF para_bits(6)]) (simp_all add: slice_of_def take_bit_int_eq_self)
  show "field 18 16 ?p1 = uint (job_chroma_qp_index_offset job)"
    using c by (subst field_eq[OF para_bits(7)]) (simp_all add: take_bit_int_eq_self)
  show "field 11 10 ?p0 = uint (cabac_init_idc job)"
    using c by (subst field_eq[OF para_bits(3)]) (simp_all add: take_bit_int_eq_self)
  show "sfield 19 16 ?p0 = slice_alpha_c0_offset_div2 job"
    using assms by (subst sfield_eq[OF para_bits(2)]) (simp_all add: signed_take_bit_int_eq_self)
  show "sfield 23 20 ?p0 = slice_beta_offset_div2 job"
    using assms by (subst sfield_eq[OF para_bits(1)]) (simp_all add: signed_take_bit_int_eq_self)
  show "bit ?p0 4 \<longleftrightarrow> \<not> sh_intra (slice_of job)"
    using assms(3) by (cases "job_frame_type job") (simp_all add: para_bits slice_of_def)
  show "bit ?p0 8 \<longleftrightarrow> entropy_coding_mode_flag job \<noteq> 0" by (simp add: para_bits)
qed

lemma last_write_stream:
  assumes "r \<notin> header_regs" "map_of (rev (stream_setup dev pix addr sz)) r = Some v"
    and "r \<notin> fst ` set (encode_setup dev pix job)" "r \<notin> fst ` set (reference_setup dev buf ctx job)"
  shows "last_write r (snd (job_configure hw dev pix tpf sel (addr, sz) buf job ctx log)) = Some v"
proof -
  have "map_of (rev (encode_setup dev pix job)) r = None"
    "map_of (rev (reference_setup dev buf ctx job)) r = None"
    using assms(3,4) by (simp_all add: map_of_eq_None_iff)
  then show ?thesis
    using assms(1,2)
    by (simp add: last_write_configure last_write_headers last_write_writes)
qed

lemma stream_written:
  "last_write VE_ENC_AVC_STM_START_ADDR_REG (snd (job_configure hw dev pix tpf sel (addr, sz) buf job ctx log)) =
    Some (cedrus_enc_dma_addr dev addr)"
  "last_write VE_ENC_AVC_STM_END_ADDR_REG (snd (job_configure hw dev pix tpf sel (addr, sz) buf job ctx log)) =
    Some (cedrus_enc_dma_addr dev (addr + ucast sz - 1))"
  "last_write VE_ENC_AVC_STM_BIT_MAX_REG (snd (job_configure hw dev pix tpf sel (addr, sz) buf job ctx log)) =
    Some (sz * 8)"
  by (rule last_write_stream;
    simp add: header_regs_def stream_setup_def encode_setup_def reference_setup_def Let_def
      case_prod_unfold hdr_simps)+

lemma reference_written:
  "last_write VE_ENC_AVC_REC_ADDR_Y_REG (snd (job_configure hw dev pix tpf sel coded buf job ctx log)) =
    Some (cedrus_enc_dma_addr dev (rec_dma buf))"
  "last_write VE_ENC_AVC_REF0_ADDR_Y_REG (snd (job_configure hw dev pix tpf sel coded buf job ctx log)) =
    Some (cedrus_enc_dma_addr dev (if job_frame_type job = FRAME_TYPE_P then rec_last_dma ctx
      else rec_dma buf))"
  "last_write VE_ENC_AVC_REC_ADDR_C_REG (snd (job_configure hw dev pix tpf sel coded buf job ctx log)) =
    Some (cedrus_enc_dma_addr dev (rec_dma buf + ucast (word_of_nat (rec_luma_size buf) :: u32)))"
  "last_write VE_ENC_AVC_REF0_ADDR_C_REG (snd (job_configure hw dev pix tpf sel coded buf job ctx log)) =
    Some (cedrus_enc_dma_addr dev (if job_frame_type job = FRAME_TYPE_P
      then rec_last_dma ctx + ucast (rec_last_luma_size ctx)
      else rec_dma buf + ucast (word_of_nat (rec_luma_size buf) :: u32)))"
  by (simp_all add: last_write_configure encode_setup_def
      reference_setup_def hdr_simps Let_def case_prod_unfold)

text \<open>On the H618 (addresses in units of 256 bytes) the reconstruction planes of a frame lie
  where the registers say: the luma plane register is exactly the start of the buffer, the chroma
  plane register exactly its luma size later, both planes together fit the allocation, and the
  luma plane holds the picture and the chroma plane half as much.  The DMA allocator returns
  page-aligned addresses below 2^40.\<close>

theorem reconstruction_planes:
  assumes "dev_enc_addr_shift dev = 8"
    and "fst (buffer_setup alloc w h heap) = Inr buf"
    and "4096 dvd unat (rec_dma buf)" "unat (rec_dma buf) + rec_size buf < 2 ^ 40"
    and "rec_size buf < 2 ^ 32"
  shows "\<exists>y c.
    last_write VE_ENC_AVC_REC_ADDR_Y_REG (snd (job_configure hw dev pix tpf sel coded buf job ctx log)) = Some y \<and>
    last_write VE_ENC_AVC_REC_ADDR_C_REG (snd (job_configure hw dev pix tpf sel coded buf job ctx log)) = Some c \<and>
    unat y * 256 = unat (rec_dma buf) \<and>
    unat c * 256 = unat (rec_dma buf) + rec_luma_size buf \<and>
    rec_luma_size buf + rec_chroma_size buf \<le> rec_size buf \<and>
    w * h \<le> rec_luma_size buf \<and> w * h \<le> 2 * rec_chroma_size buf"
proof (intro exI conjI, rule reference_written(1), rule reference_written(3))
  note sz = buffer_setup_sizes[OF assms(2)]
  have l: "256 dvd rec_luma_size buf"
  proof -
    have "4 dvd ALIGN (DIV_ROUND_UP h 16 + 1) 4" by (rule ALIGN_dvd)
    moreover have "2 dvd ALIGN (DIV_ROUND_UP w 16) 2" by (rule ALIGN_dvd)
    moreover have "rec_luma_size buf = ALIGN (DIV_ROUND_UP w 16) 2 * 16 * ALIGN (DIV_ROUND_UP h 16 + 1) 4 * 16"
      using assms(2) by (auto simp: buffer_setup_def Let_def split: option.splits)
    ultimately show ?thesis by (auto elim!: dvdE)
  qed
  have d: "256 dvd unat (rec_dma buf)" using assms(3) by (rule dvd_trans[rotated]) simp
  show "unat (cedrus_enc_dma_addr dev (rec_dma buf)) * 256 = unat (rec_dma buf)"
    using enc_dma_exact[OF assms(1)] d assms(4) by simp
  have s: "unat (word_of_nat (rec_luma_size buf) :: u32) = rec_luma_size buf"
    using sz(3) assms(5) by (simp add: unat_of_nat)
  have a: "unat (rec_dma buf + ucast (word_of_nat (rec_luma_size buf) :: u32)) =
      unat (rec_dma buf) + rec_luma_size buf"
    using s sz(3) assms(4) by (subst unat_add_lem[THEN iffD1]) (simp_all add: unat_ucast_up)
  show "unat (cedrus_enc_dma_addr dev (rec_dma buf + ucast (word_of_nat (rec_luma_size buf) :: u32))) * 256 =
      unat (rec_dma buf) + rec_luma_size buf"
    using enc_dma_exact[OF assms(1), of "rec_dma buf + ucast (word_of_nat (rec_luma_size buf) :: u32)"]
      d l sz(3) assms(4) unfolding a by simp
  show "rec_luma_size buf + rec_chroma_size buf \<le> rec_size buf"
    "w * h \<le> rec_luma_size buf" "w * h \<le> 2 * rec_chroma_size buf"
    using sz by simp_all
qed


section \<open>A concrete session\<close>

text \<open>A 320x240 session on the H618 with the default controls, for the instances of the
  theorems.\<close>

definition ex_dev :: cedrus_device where
  "ex_dev = device_of_variant cedrus_variant_sun50i_h616"

definition ex_pix :: pix_format where
  "ex_pix = zero_pix\<lparr>pix_width := 320, pix_height := 240, bytesperline := 320, sizeimage := 115200\<rparr>"

definition ex_tpf :: v4l2_fract where
  "ex_tpf = \<lparr>numerator = 1, denominator = 25\<rparr>"

definition ex_sel :: v4l2_rect where
  "ex_sel = \<lparr>rect_left = 0, rect_top = 0, rect_width = 320, rect_height = 240\<rparr>"

definition ex_alloc :: dma_alloc where
  "ex_alloc heap n = Some (0x40000000 + 0x100000 * word_of_nat (length heap))"

definition ex_buf :: h264_buffer where
  "ex_buf = \<lparr>rec_dma = 0x40100000, rec_size = 122880, rec_luma_size = 81920, rec_chroma_size = 40960,
     subpix_dma = 0x40000000, subpix_size = 3744\<rparr>"

definition ex_ctx :: h264_context where
  "ex_ctx = blank_ctx\<lparr>mb_info_dma := 0x40000000, mb_info_size := 4096, width_mbs := 20,
     height_mbs := 15, log2_max_frame_num := 8, log2_max_pic_order_cnt_lsb := 8,
     chroma_qp_index_offset := 4, qp_min := 10, qp_max := 40, qp_i := 26, qp_p := 28,
     gop_closure := 1, gop_size := 12, gop_open_i_period := 12\<rparr>"

definition ex_job :: h264_job where
  "ex_job = zero_job\<lparr>nal_ref_idc := 2, job_frame_type := FRAME_TYPE_P, frame_num := 1,
     pic_order_cnt_lsb := 2, qp := 28, entropy_coding_mode_flag := 1,
     job_chroma_qp_index_offset := 4, slice_alpha_c0_offset_div2 := -3,
     slice_beta_offset_div2 := 2, cabac_init_idc := 1\<rparr>"

lemma ex_setup:
  "h264_setup ex_alloc True (handler_run default_controls) 320 240 blank_ctx [] =
    (Inr ex_ctx, [(0x40000000, 4096)])"
  by (simp add: h264_setup_def ex_alloc_def handler_setup_def h264_ctrl_table_def default_controls_def
      ctrl_prepare_def ex_ctx_def blank_ctx_def Let_def DIV_ROUND_UP_def step_back_def
      profile_cabac_check_def less_enc_step_def)

lemma ex_handler_controls: "fst (handler_setup (default_controls, ctx)) = default_controls"
  by (simp add: handler_setup_controls handler_controls_def default_controls_def profile_cabac_check_def)

lemma ex_buffer_setup:
  "buffer_setup ex_alloc 320 240 [] =
    (Inr ex_buf, [(0x40100000, 122880), (0x40000000, 3744)])"
  by (simp add: buffer_setup_def ex_alloc_def ex_buf_def Let_def DIV_ROUND_UP_def ALIGN_def
      ALIGN_DOWN_def)

theorem reconstruction_planes_witness:
  "\<exists>y c.
    last_write VE_ENC_AVC_REC_ADDR_Y_REG (snd (job_configure ideal_hw ex_dev ex_pix ex_tpf ex_sel
      (0x42000000, 0x100000) ex_buf ex_job ex_ctx [])) = Some y \<and>
    last_write VE_ENC_AVC_REC_ADDR_C_REG (snd (job_configure ideal_hw ex_dev ex_pix ex_tpf ex_sel
      (0x42000000, 0x100000) ex_buf ex_job ex_ctx [])) = Some c \<and>
    unat y * 256 = unat (rec_dma ex_buf) \<and>
    unat c * 256 = unat (rec_dma ex_buf) + rec_luma_size ex_buf \<and>
    rec_luma_size ex_buf + rec_chroma_size ex_buf \<le> rec_size ex_buf \<and>
    320 * 240 \<le> rec_luma_size ex_buf \<and> 320 * 240 \<le> 2 * rec_chroma_size ex_buf"
  by (rule reconstruction_planes[where alloc = ex_alloc and heap = "[]"])
    (simp_all only: ex_buffer_setup fst_conv,
     simp_all add: ex_dev_def ex_buf_def device_of_variant_def cedrus_variant_sun50i_h616_def)

theorem configure_matches_slice_witness:
  "\<exists>p0 p1.
    last_write VE_ENC_AVC_PARA0_REG (snd (job_configure ideal_hw ex_dev ex_pix ex_tpf ex_sel
      (0x42000000, 0x100000) ex_buf ex_job ex_ctx [])) = Some p0 \<and>
    last_write VE_ENC_AVC_PARA1_REG (snd (job_configure ideal_hw ex_dev ex_pix ex_tpf ex_sel
      (0x42000000, 0x100000) ex_buf ex_job ex_ctx [])) = Some p1 \<and>
    field 5 0 p1 = 28 \<and> bit p0 4 \<and> bit p0 8 \<and> sfield 19 16 p0 = - 3 \<and> sfield 23 20 p0 = 2"
  using configure_matches_slice[of ex_job ideal_hw ex_dev ex_pix ex_tpf ex_sel
      "(0x42000000, 0x100000)" ex_buf ex_ctx "[]"]
  by (auto simp: ex_job_def slice_of_def zero_job_def)

end
