(* ===== verification/H264_Decoder.thy ===== *)
theory H264_Decoder
  imports H264_Syntax
begin

text \<open>An abstract decoder of the headers: it splits the bits sent through the port into NAL units,
  keeps the parameter sets it has seen and parses slice headers with them.  The last lemma
  decodes the headers the encoder sends before a frame.\<close>

section \<open>A decoder for the headers\<close>

lemma dropWhile_both_less:
  assumes "bs \<noteq> []"
  shows "length (dropWhile (\<lambda>b. \<not> P b) (dropWhile P bs)) < length bs"
proof (cases bs)
  case (Cons b r)
  have d: "length (dropWhile Q xs) \<le> length xs" for Q :: "'a \<Rightarrow> bool" and xs
    by (rule length_dropWhile_le)
  show ?thesis
  proof (cases "P b")
    case True
    then show ?thesis
      using le_trans[OF d[of "\<lambda>b. \<not> P b" "dropWhile P r"] d[of P r]] Cons by simp
  next
    case False
    then show ?thesis using d[of "\<lambda>b. \<not> P b" r] Cons by simp
  qed
qed (use assms in simp)

text \<open>The stream as NAL units: the unescaped bits (start code and header) and the payload.\<close>

function nal_units :: "(bool \<times> bool) list \<Rightarrow> (bool list \<times> bool list) list" where
  "nal_units bs = (if bs = [] then []
     else (let rest = dropWhile fst bs
       in (map snd (takeWhile fst bs), map snd (takeWhile (\<lambda>b. \<not> fst b) rest)) #
          nal_units (dropWhile (\<lambda>b. \<not> fst b) rest)))"
  by pat_completeness auto

termination
  by (relation "measure length") (simp_all add: dropWhile_both_less)

declare nal_units.simps [simp del]

record decoder =
  dec_sps :: "sps option"
  dec_pps :: "pps option"

text \<open>One NAL unit: parameter sets are stored, a slice header is parsed with the stored ones and
  returned with the bits after it.  \<open>None\<close> is a stream the decoder rejects.\<close>

definition decode_nal :: "bool list \<times> bool list \<Rightarrow> decoder \<Rightarrow>
    (decoder \<times> (slice_hdr \<times> bool list) list) option" where
  "decode_nal unit d = (case unit of (start, payload) \<Rightarrow>
     if length start \<noteq> 40 \<or> bits_nat (take 32 start) \<noteq> 1 then None
     else (let nal_type = bits_nat (drop 32 start) mod 32
       in if nal_type = 7 then
            map_option (\<lambda>(s, r). (d\<lparr>dec_sps := Some s\<rparr>, []))
              (pbind parse_sps (\<lambda>s. pbind rbsp_trailing (\<lambda>_. pret s)) payload)
          else if nal_type = 8 then
            map_option (\<lambda>(p, r). (d\<lparr>dec_pps := Some p\<rparr>, []))
              (pbind parse_pps (\<lambda>p. pbind rbsp_trailing (\<lambda>_. pret p)) payload)
          else if nal_type = 1 \<or> nal_type = 5 then
            (case (dec_sps d, dec_pps d) of
               (Some s, Some p) \<Rightarrow>
                 (case parse_slice (nal_type = 5) s p payload of
                    None \<Rightarrow> None
                  | Some (h, rest) \<Rightarrow>
                      if sh_pps_id h = pps_id p \<and> pps_sps_id p = sps_id s
                      then Some (d, [(h, rest)]) else None)
             | _ \<Rightarrow> None)
          else None))"

primrec decode_units :: "(bool list \<times> bool list) list \<Rightarrow> decoder \<Rightarrow>
    (decoder \<times> (slice_hdr \<times> bool list) list) option" where
  "decode_units [] d = Some (d, [])"
| "decode_units (u # us) d = (case decode_nal u d of None \<Rightarrow> None
     | Some (d, hs) \<Rightarrow> map_option (\<lambda>(d, hs'). (d, hs @ hs')) (decode_units us d))"

definition decode :: "(bool \<times> bool) list \<Rightarrow> decoder \<Rightarrow>
    (decoder \<times> (slice_hdr \<times> bool list) list) option" where
  "decode bs d = decode_units (nal_units bs) d"

text \<open>A stream of NAL units comes apart again.\<close>

definition nal_start :: "nat \<Rightarrow> bool list" where
  "nal_start header = msb_bits 32 1 @ msb_bits 8 header"

lemma nal_start_simps [simp]:
  "length (nal_start h) = 40" "take 32 (nal_start h) = msb_bits 32 1"
  "drop 32 (nal_start h) = msb_bits 8 h"
  unfolding nal_start_def by (simp_all del: msb_bits.simps)

lemma nal_bits_alt: "nal_bits h p = map (Pair True) (nal_start h) @ map (Pair False) p"
  by (simp add: nal_bits_def nal_start_def del: msb_bits.simps)

lemma nal_units_Nil [simp]: "nal_units [] = []"
  by (simp add: nal_units.simps)

lemma takeWhile_nal:
  assumes "rest = [] \<or> fst (hd rest)" "p \<noteq> []"
  shows "takeWhile fst (map (Pair True) xs @ map (Pair False) p @ rest) = map (Pair True) xs"
    "dropWhile fst (map (Pair True) xs @ map (Pair False) p @ rest) = map (Pair False) p @ rest"
    "takeWhile (\<lambda>b. \<not> fst b) (map (Pair False) p @ rest) = map (Pair False) p"
    "dropWhile (\<lambda>b. \<not> fst b) (map (Pair False) p @ rest) = rest"
proof -
  show "takeWhile fst (map (Pair True) xs @ map (Pair False) p @ rest) = map (Pair True) xs"
    "dropWhile fst (map (Pair True) xs @ map (Pair False) p @ rest) = map (Pair False) p @ rest"
    using assms(2) by (induction xs) (auto simp: neq_Nil_conv)
  show "takeWhile (\<lambda>b. \<not> fst b) (map (Pair False) p @ rest) = map (Pair False) p"
    "dropWhile (\<lambda>b. \<not> fst b) (map (Pair False) p @ rest) = rest"
    using assms(1) by (induction p; cases rest; simp)+
qed

lemma nal_units_nal:
  assumes "rest = [] \<or> fst (hd rest)" "p \<noteq> []"
  shows "nal_units (nal_bits h p @ rest) = (nal_start h, p) # nal_units rest"
  using assms(2)
  by (subst nal_units.simps) (simp add: nal_bits_alt takeWhile_nal[OF assms] o_def)

lemma nal_bits_hd: "fst (hd (nal_bits h p @ r))"
proof -
  have "msb_bits 32 1 \<noteq> []" by (metis length_0_conv length_msb_bits zero_neq_numeral)
  then show ?thesis by (cases "msb_bits 32 1") (auto simp: nal_bits_def simp del: msb_bits.simps)
qed

section \<open>Decoding what the writers send\<close>

lemma pbind_pret:
  "dec bs = Some (x, r) \<Longrightarrow> rbsp_trailing r = Some ((), []) \<Longrightarrow>
   pbind dec (\<lambda>s. pbind rbsp_trailing (\<lambda>_. pret s)) bs = Some (x, [])"
  by (simp add: pbind_def pret_def)

lemma decode_sps_nal:
  assumes "sps_ok s"
  shows "decode_nal (nal_start 0x67, sps_bits s @ True # zero_padding n) d =
    Some (d\<lparr>dec_sps := Some s\<rparr>, [])"
  using pbind_pret[where dec = parse_sps, OF sps_codec.dec_enc[OF assms, of "True # zero_padding n"] zero_padding_trailing]
  by (simp add: decode_nal_def del: msb_bits.simps)

lemma decode_pps_nal:
  "decode_nal (nal_start 0x68, pps_bits p @ True # zero_padding n) d =
    Some (d\<lparr>dec_pps := Some p\<rparr>, [])"
  using pbind_pret[where dec = parse_pps, OF pps_codec.dec_enc[OF TrueI, of p "True # zero_padding n"] zero_padding_trailing]
  by (simp add: decode_nal_def del: msb_bits.simps)

lemma decode_slice_nal:
  assumes "slice_ok idr s p h" "dec_sps d = Some s" "dec_pps d = Some p"
    and "sh_pps_id h = pps_id p" "pps_sps_id p = sps_id s"
  shows "decode_nal (nal_start (if idr then 0x45 else 0x41), slice_bits s p h @ rest) d =
    Some (d, [(h, rest)])"
  using slice_codec.dec_enc[OF assms(1), of rest] assms(2-5)
  by (cases idr) (simp_all add: decode_nal_def del: msb_bits.simps)

lemma sps_nal_alt: "sps_nal tpf sel ctx job = nal_bits 0x67
    (sps_bits (sps_of tpf sel ctx job) @ True # zero_padding (length (sps_bits (sps_of tpf sel ctx job)) + 1))"
  by (simp add: sps_nal_def Let_def)

lemma pps_nal_alt: "pps_nal ctx job = nal_bits 0x68
    (pps_bits (pps_of ctx job) @ True # zero_padding (length (pps_bits (pps_of ctx job)) + 1))"
  by (simp add: pps_nal_def Let_def)

lemma slice_nal_data: "slice_nal s p job @ map (Pair False) data =
    nal_bits (if job_frame_type job = FRAME_TYPE_IDR then 0x45 else 0x41)
      (slice_bits s p (slice_of job) @ data)"
  by (simp add: slice_nal_def nal_bits_def)

lemma slice_bits_ne: "slice_bits s p h @ data \<noteq> []"
  by (simp add: slice_bits_def ue_bits_def)

text \<open>The headers of one frame, decoded.\<close>

lemma decode_headers:
  assumes s: "(if first \<le> STEP_SPS then Some (sps_of tpf sel c job) else dec_sps d) = Some s"
    and p: "(if first \<le> STEP_PPS then Some (pps_of c job) else dec_pps d) = Some p"
    and ok: "sps_ok (sps_of tpf sel c job)"
      "slice_ok (job_frame_type job = FRAME_TYPE_IDR) s p (slice_of job)"
    and ids: "sh_pps_id (slice_of job) = pps_id p" "pps_sps_id p = sps_id s"
  shows "decode ((if first \<le> STEP_SPS then sps_nal tpf sel c job else []) @
      (if first \<le> STEP_PPS then pps_nal c job else []) @ slice_nal s p job @ map (Pair False) data) d =
    Some (d\<lparr>dec_sps := Some s, dec_pps := Some p\<rparr>, [(slice_of job, data)])"
proof -
  have sl: "nal_units (slice_nal s p job @ map (Pair False) data) =
      [(nal_start (if job_frame_type job = FRAME_TYPE_IDR then 0x45 else 0x41),
        slice_bits s p (slice_of job) @ data)]"
    using nal_units_nal[of "[]", OF _ slice_bits_ne] by (simp add: slice_nal_data)
  have hd: "fst (hd (slice_nal s p job @ map (Pair False) data))"
    "fst (hd (pps_nal c job @ r))" for r
    unfolding slice_nal_data pps_nal_alt
    using nal_bits_hd[where r = "[]"] nal_bits_hd by auto
  have pu: "nal_units (pps_nal c job @ slice_nal s p job @ map (Pair False) data) =
      (nal_start 0x68, pps_bits (pps_of c job) @
        True # zero_padding (length (pps_bits (pps_of c job)) + 1)) #
      nal_units (slice_nal s p job @ map (Pair False) data)"
    using hd unfolding pps_nal_alt by (intro nal_units_nal) simp_all
  have su: "nal_units (sps_nal tpf sel c job @ pps_nal c job @ slice_nal s p job @ map (Pair False) data) =
      (nal_start 0x67, sps_bits (sps_of tpf sel c job) @
        True # zero_padding (length (sps_bits (sps_of tpf sel c job)) + 1)) #
      nal_units (pps_nal c job @ slice_nal s p job @ map (Pair False) data)"
    using hd unfolding sps_nal_alt by (intro nal_units_nal) simp_all
  note dec = decode_slice_nal[OF ok(2) _ _ ids] decode_pps_nal decode_sps_nal
  have e: "d\<lparr>dec_sps := Some s, dec_pps := x\<rparr> = d\<lparr>dec_pps := x\<rparr>" if "dec_sps d = Some s" for x
    using that by (cases d) simp
  have e': "d\<lparr>dec_pps := Some p\<rparr> = d" if "dec_pps d = Some p"
    using that by (cases d) simp
  show ?thesis
    using s p ok(1) by (cases first) (simp_all add: decode_def su pu sl dec e e')
qed

end
