(* ===== verification/H264_Session.thy ===== *)
theory H264_Session
  imports H264_Job H264_Decoder
begin

text \<open>Whole streaming sessions of the H.264 encoder: \<open>setup\<close>, controls set between frames, and
  frames (\<open>job_prepare\<close> and \<open>job_configure\<close>), as the inductive predicate \<open>session\<close> beside the
  state of the decoder that is fed every frame.  The invariant says what encoder and decoder agree
  on; from it follow that every frame is decodable, which frames are random access points, the
  schedule of frame types and counters, and the chain of reference pictures.  The last section
  shows what the code leaves stale.\<close>

section \<open>What a prepared job looks like\<close>

definition gop_next :: "h264_context \<Rightarrow> u32" where
  "gop_next ctx = (let i = st_gop_index (state ctx) + 1
     in if gop_closure ctx \<noteq> 0 then i mod word_of_int (gop_size ctx) else i)"

lemma prepare_gop_alt:
  "prepare_gop (ctx, job) =
    (ctx\<lparr>force_key_frame := False, state := (state ctx)\<lparr>st_gop_index := gop_next ctx\<rparr>\<rparr>,
     job\<lparr>job_frame_type := if force_key_frame ctx then FRAME_TYPE_IDR else job_frame_type_of ctx\<rparr>)"
  by (simp add: prepare_gop_def gop_next_def Let_def)

definition id_next :: "bool \<Rightarrow> h264_context \<Rightarrow> h264_state" where
  "id_next idr ctx = (state ctx)\<lparr>
     st_step := if idr \<and> prepend_sps_pps_idr ctx \<noteq> 0 then STEP_SPS else st_step (state ctx),
     st_frame_num := ((if idr then 0 else st_frame_num (state ctx)) + 1) mod
       BIT (unat (log2_max_frame_num ctx)),
     st_pic_order_cnt_lsb := ((if idr then 0 else st_pic_order_cnt_lsb (state ctx)) + 2) mod
       BIT (unat (log2_max_pic_order_cnt_lsb ctx))\<rparr>"

lemma prepare_identification_alt:
  "prepare_identification (ctx, job) =
    (let idr = (job_frame_type job = FRAME_TYPE_IDR)
     in (ctx\<lparr>state := id_next idr ctx\<rparr>,
         job\<lparr>idr_pic_id := if idr then 0 else idr_pic_id job,
           frame_num := if idr then 0 else st_frame_num (state ctx),
           pic_order_cnt_lsb := if idr then 0 else st_pic_order_cnt_lsb (state ctx)\<rparr>))"
  by (simp add: prepare_identification_def id_next_def Let_def)

text \<open>The frame type of the next frame.\<close>

definition next_type :: "h264_context \<Rightarrow> frame_type" where
  "next_type ctx = (if force_key_frame ctx then FRAME_TYPE_IDR else job_frame_type_of ctx)"

definition next_job :: "h264_context \<Rightarrow> h264_job" where
  "next_job ctx = (let idr = (next_type ctx = FRAME_TYPE_IDR)
     in prepare_qp ctx (prepare_features ctx (zero_job\<lparr>nal_ref_idc := 2,
          job_frame_type := next_type ctx,
          frame_num := if idr then 0 else st_frame_num (state ctx),
          pic_order_cnt_lsb := if idr then 0 else st_pic_order_cnt_lsb (state ctx)\<rparr>)))"

definition next_state :: "h264_context \<Rightarrow> h264_state" where
  "next_state ctx =
    (let s = (id_next (next_type ctx = FRAME_TYPE_IDR) ctx)\<lparr>st_gop_index := gop_next ctx\<rparr>
     in if st_step s < STEP_SLICE then s\<lparr>st_qp_init := qp (next_job ctx)\<rparr> else s)"

lemma prepare_cong:
  "prepare_features (ctx\<lparr>force_key_frame := b, state := s\<rparr>) job = prepare_features ctx job"
  "prepare_qp (ctx\<lparr>force_key_frame := b, state := s\<rparr>) job = prepare_qp ctx job"
  by (simp add: prepare_features_def Let_def)
    (cases "job_frame_type job"; simp add: prepare_qp_def Let_def)

lemma job_prepare_alt:
  "job_prepare (ctx, zero_job) =
    (ctx\<lparr>force_key_frame := False, state := next_state ctx\<rparr>, next_job ctx)"
proof -
  let ?j = "zero_job\<lparr>seq_parameter_set_id := 0, pic_parameter_set_id := 0, nal_ref_idc := 2\<rparr>"
  have z: "?j = zero_job\<lparr>nal_ref_idc := 2\<rparr>" "idr_pic_id zero_job = 0"
    by (simp_all add: zero_job_def)
  let ?idr = "next_type ctx = FRAME_TYPE_IDR"
  let ?s = "(id_next ?idr ctx)\<lparr>st_gop_index := gop_next ctx\<rparr>"
  let ?j' = "zero_job\<lparr>nal_ref_idc := 2, job_frame_type := next_type ctx,
          frame_num := if ?idr then 0 else st_frame_num (state ctx),
          pic_order_cnt_lsb := if ?idr then 0 else st_pic_order_cnt_lsb (state ctx)\<rparr>"
  have g: "prepare_gop (ctx, ?j) = (ctx\<lparr>force_key_frame := False,
      state := (state ctx)\<lparr>st_gop_index := gop_next ctx\<rparr>\<rparr>,
     zero_job\<lparr>nal_ref_idc := 2, job_frame_type := next_type ctx\<rparr>)"
    by (simp add: prepare_gop_alt z next_type_def)
  have i: "prepare_identification (prepare_gop (ctx, ?j)) =
     (ctx\<lparr>force_key_frame := False, state := ?s\<rparr>, ?j')"
    unfolding g by (simp add: prepare_identification_alt id_next_def zero_job_def Let_def)
  show ?thesis
    unfolding job_prepare_def Let_def case_prod_conv
    by (simp add: i prepare_cong next_job_def next_state_def Let_def)
qed

text \<open>The fields \<open>prepare_qp\<close> leaves alone, and those \<open>prepare_features\<close> sets.\<close>

lemma prepare_qp_fields [simp]:
  "nal_ref_idc (prepare_qp c j) = nal_ref_idc j" "job_frame_type (prepare_qp c j) = job_frame_type j"
  "frame_num (prepare_qp c j) = frame_num j" "pic_order_cnt_lsb (prepare_qp c j) = pic_order_cnt_lsb j"
  "seq_parameter_set_id (prepare_qp c j) = seq_parameter_set_id j"
  "pic_parameter_set_id (prepare_qp c j) = pic_parameter_set_id j"
  "idr_pic_id (prepare_qp c j) = idr_pic_id j" "job_profile_idc (prepare_qp c j) = job_profile_idc j"
  "job_level_idc (prepare_qp c j) = job_level_idc j"
  "job_constraint_set_flags (prepare_qp c j) = job_constraint_set_flags j"
  "entropy_coding_mode_flag (prepare_qp c j) = entropy_coding_mode_flag j"
  "job_chroma_qp_index_offset (prepare_qp c j) = job_chroma_qp_index_offset j"
  "job_disable_deblocking_filter_idc (prepare_qp c j) = job_disable_deblocking_filter_idc j"
  "slice_alpha_c0_offset_div2 (prepare_qp c j) = slice_alpha_c0_offset_div2 j"
  "slice_beta_offset_div2 (prepare_qp c j) = slice_beta_offset_div2 j"
  "cabac_init_idc (prepare_qp c j) = cabac_init_idc j"
  by (cases "job_frame_type j"; simp add: prepare_qp_def Let_def)+

lemma prepare_features_fields [simp]:
  "nal_ref_idc (prepare_features c j) = nal_ref_idc j"
  "job_frame_type (prepare_features c j) = job_frame_type j"
  "frame_num (prepare_features c j) = frame_num j"
  "pic_order_cnt_lsb (prepare_features c j) = pic_order_cnt_lsb j"
  "seq_parameter_set_id (prepare_features c j) = seq_parameter_set_id j"
  "pic_parameter_set_id (prepare_features c j) = pic_parameter_set_id j"
  "idr_pic_id (prepare_features c j) = idr_pic_id j"
  "job_profile_idc (prepare_features c j) = ucast (profile_idc (profile c))"
  "job_level_idc (prepare_features c j) = ucast (level_idc (level c))"
  "job_constraint_set_flags (prepare_features c j) = ucast (constraint_set_flags (profile c))"
  "entropy_coding_mode_flag (prepare_features c j) = (if entropy_mode c = ENTROPY_MODE_CABAC then 1 else 0)"
  "job_chroma_qp_index_offset (prepare_features c j) = word_of_int (chroma_qp_index_offset c)"
  "job_disable_deblocking_filter_idc (prepare_features c j) =
    ucast (disable_deblocking_filter_idc (loop_filter_mode c))"
  "cabac_init_idc (prepare_features c j) = (if entropy_mode c = ENTROPY_MODE_CABAC \<and>
    job_frame_type j \<noteq> FRAME_TYPE_IDR \<and> job_frame_type j \<noteq> FRAME_TYPE_I then 1 else 0)"
  by (simp_all add: prepare_features_def Let_def)

lemma prepare_features_offsets [simp]:
  "slice_alpha_c0_offset_div2 (prepare_features c j) =
    (if ucast (disable_deblocking_filter_idc (loop_filter_mode c)) = (1 :: u32)
     then slice_alpha_c0_offset_div2 j else loop_filter_alpha c)"
  "slice_beta_offset_div2 (prepare_features c j) =
    (if ucast (disable_deblocking_filter_idc (loop_filter_mode c)) = (1 :: u32)
     then slice_beta_offset_div2 j else loop_filter_beta c)"
  by (simp_all add: prepare_features_def Let_def)

lemma zero_job_fields [simp]:
  "seq_parameter_set_id zero_job = 0" "pic_parameter_set_id zero_job = 0" "idr_pic_id zero_job = 0"
  "slice_alpha_c0_offset_div2 zero_job = 0" "slice_beta_offset_div2 zero_job = 0"
  by (simp_all add: zero_job_def)

lemma next_type_not_B [simp]: "next_type ctx \<noteq> FRAME_TYPE_B"
  by (simp add: next_type_def job_frame_type_of_def)

lemma next_job_type [simp]: "job_frame_type (next_job ctx) = next_type ctx"
  by (simp add: next_job_def Let_def)

lemma next_job_qp:
  assumes "ctx_in_range ctx"
  shows "uint (qp (next_job ctx)) \<le> 51"
  unfolding next_job_def Let_def
  using assms by (intro prepare_qp_le_51) (simp_all add: ctx_in_range_def)

lemma deblocking_idc_le: "unat (ucast (disable_deblocking_filter_idc m) :: u32) \<le> 2"
  by (cases m) (simp_all add: disable_deblocking_filter_idc_def)

text \<open>A picture size and session parameters the headers can express.\<close>

definition geometry :: "v4l2_fract \<Rightarrow> v4l2_rect \<Rightarrow> h264_context \<Rightarrow> bool" where
  "geometry tpf sel ctx =
    (1 \<le> unat (width_mbs ctx) \<and> unat (width_mbs ctx) < 2 ^ 16 \<and>
     1 \<le> unat (height_mbs ctx) \<and> unat (height_mbs ctx) < 2 ^ 16 \<and>
     0 \<le> rect_left sel \<and> nat (rect_left sel) + unat (rect_width sel) \<le> 16 * unat (width_mbs ctx) \<and>
     0 \<le> rect_top sel \<and> nat (rect_top sel) + unat (rect_height sel) \<le> 16 * unat (height_mbs ctx) \<and>
     log2_max_frame_num ctx = 8 \<and> log2_max_pic_order_cnt_lsb ctx = 8 \<and>
     pic_order_cnt_type ctx = 0 \<and> unat (denominator tpf) < 2 ^ 31)"

lemma ucast_bounded: "(ucast (x :: u8) :: u32) = ucast y \<longleftrightarrow> x = (y :: u8)"
  by (simp add: word_unat_eq_iff unat_ucast_up)

lemma chroma_offset_small:
  "ctx_in_range ctx \<Longrightarrow> - (2 ^ 31) < sint (word_of_int (chroma_qp_index_offset ctx) :: u32)"
  by (subst sint_sbintrunc') (simp add: ctx_in_range_def signed_take_bit_int_eq_self)

lemma next_job_slice_pre:
  assumes "ctx_in_range ctx" "geometry tpf sel ctx" "uint (st_qp_init s) \<le> 51"
  shows "slice_pre (ctx\<lparr>force_key_frame := b, state := s\<rparr>) (next_job ctx)"
  using assms next_job_qp[OF assms(1)] deblocking_idc_le[of "loop_filter_mode ctx"]
  by (simp add: slice_pre_def geometry_def)
    (simp add: next_job_def Let_def ctx_in_range_def)

lemma next_job_headers_pre:
  assumes "ctx_in_range ctx" "geometry tpf sel ctx" "uint (st_qp_init s) \<le> 51"
  shows "headers_pre tpf sel (ctx\<lparr>force_key_frame := b, state := s\<rparr>) (next_job ctx)"
  using next_job_slice_pre[OF assms] chroma_offset_small[OF assms(1)] assms(1,2)
  by (simp add: headers_pre_def sps_pre_def geometry_def ctx_in_range_def next_job_def Let_def)

section \<open>Sessions\<close>

text \<open>A frame: \<open>job_prepare\<close> on a cleared job, then \<open>job_configure\<close>, with a fresh log for the
  coded buffer the frame writes to.\<close>

definition encode_frame :: "hw_read \<Rightarrow> cedrus_device \<Rightarrow> pix_format \<Rightarrow> v4l2_fract \<Rightarrow> v4l2_rect \<Rightarrow>
    u64 \<times> u32 \<Rightarrow> h264_buffer \<Rightarrow> h264_context \<Rightarrow> h264_context \<times> h264_job \<times> io_log" where
  "encode_frame hw dev pix tpf sel coded buf ctx =
    (let (ctx, job) = job_prepare (ctx, zero_job);
         (ctx, log) = job_configure hw dev pix tpf sel coded buf job ctx []
     in (ctx, job, log))"

text \<open>A streaming session of a \<open>w\<close> by \<open>h\<close> picture: \<open>setup\<close>, which applies whatever the controls were
  set to before, then controls set between frames and frames, with the current values of the controls
  and the state of a decoder that is fed every frame.\<close>

inductive session :: "hw_read \<Rightarrow> cedrus_device \<Rightarrow> pix_format \<Rightarrow> v4l2_fract \<Rightarrow> v4l2_rect \<Rightarrow> nat \<Rightarrow> nat \<Rightarrow>
    h264_controls \<Rightarrow> h264_context \<Rightarrow> decoder \<Rightarrow> bool"
  for hw dev pix tpf sel w h where
  start: "controls_in_range cs \<Longrightarrow> h264_setup alloc True (handler_run cs) w h c0 heap = (Inr ctx, heap') \<Longrightarrow>
    session hw dev pix tpf sel w h (fst (handler_setup (cs, ctx))) ctx d"
| control: "session hw dev pix tpf sel w h cs ctx d \<Longrightarrow> ctrl_in_range ctrl \<Longrightarrow>
    set_ctrl framework_s_ctrl ctrl (cs, ctx) = Inr (cs', ctx') \<Longrightarrow> session hw dev pix tpf sel w h cs' ctx' d"
| frame: "session hw dev pix tpf sel w h cs ctx d \<Longrightarrow>
    encode_frame hw dev pix tpf sel coded buf ctx = (ctx', job, log) \<Longrightarrow>
    decode (pt_bits (port log) @ map (Pair False) data) d = Some (d', slices) \<Longrightarrow>
    session hw dev pix tpf sel w h cs ctx' d'"

text \<open>The decoder agrees with the encoder about the parameter sets the encoder takes as sent.\<close>

definition sps_agrees :: "h264_context \<Rightarrow> sps \<Rightarrow> bool" where
  "sps_agrees ctx s = (sps_id s = 0 \<and> sps_log2_max_frame_num s = 8 \<and> sps_log2_max_poc_lsb s = 8 \<and>
     sps_profile_idc s = unat (profile_idc (profile ctx)) \<and>
     sps_level_idc s = unat (level_idc (level ctx)) \<and>
     sps_constraint_flags s = unat (constraint_set_flags (profile ctx)) \<and>
     sps_width_mbs s = unat (width_mbs ctx) \<and> sps_height_mbs s = unat (height_mbs ctx))"

definition pps_agrees :: "h264_context \<Rightarrow> pps \<Rightarrow> bool" where
  "pps_agrees ctx p = (pps_id p = 0 \<and> pps_sps_id p = 0 \<and> pps_deblocking_control p \<and>
     pps_init_qp p = uint (st_qp_init (state ctx)) \<and> pps_init_qp p \<le> 51 \<and>
     (pps_cabac p \<longleftrightarrow> entropy_mode ctx = ENTROPY_MODE_CABAC))"

definition in_sync :: "h264_context \<Rightarrow> decoder \<Rightarrow> bool" where
  "in_sync ctx d =
    ((st_step (state ctx) \<in> {STEP_START, STEP_SPS} \<or> (\<exists>s. dec_sps d = Some s \<and> sps_agrees ctx s)) \<and>
     (st_step (state ctx) \<noteq> STEP_SLICE \<or> (\<exists>p. dec_pps d = Some p \<and> pps_agrees ctx p)))"

definition counters_ok :: "h264_context \<Rightarrow> bool" where
  "counters_ok ctx = (unat (st_frame_num (state ctx)) < 2 ^ 8 \<and>
     unat (st_pic_order_cnt_lsb (state ctx)) < 2 ^ 8)"

definition session_inv :: "v4l2_fract \<Rightarrow> v4l2_rect \<Rightarrow> h264_context \<Rightarrow> decoder \<Rightarrow> bool" where
  "session_inv tpf sel ctx d =
    (ctx_in_range ctx \<and> geometry tpf sel ctx \<and> counters_ok ctx \<and> in_sync ctx d)"

text \<open>The picture, the selection and the frame interval a session needs.\<close>

definition session_ok :: "hw_read \<Rightarrow> v4l2_fract \<Rightarrow> v4l2_rect \<Rightarrow> nat \<Rightarrow> nat \<Rightarrow> bool" where
  "session_ok hw tpf sel w h =
    (counts_bits hw \<and> 0 < w \<and> w \<le> 65535 \<and> 0 < h \<and> h \<le> 65535 \<and>
     0 \<le> rect_left sel \<and> nat (rect_left sel) + unat (rect_width sel) \<le> w \<and>
     0 \<le> rect_top sel \<and> nat (rect_top sel) + unat (rect_height sel) \<le> h \<and>
     unat (denominator tpf) < 2 ^ 31)"

lemma handler_setup_keeps:
  assumes "st_step (state c) = STEP_START" "c' = snd (handler_setup (cs, c))"
  shows "width_mbs c' = width_mbs c" "height_mbs c' = height_mbs c"
    "log2_max_frame_num c' = log2_max_frame_num c"
    "log2_max_pic_order_cnt_lsb c' = log2_max_pic_order_cnt_lsb c" "pic_order_cnt_type c' = pic_order_cnt_type c"
    "state c' = state c"
  unfolding assms(2) handler_setup_eq[OF assms(1)] by simp_all

lemma handler_controls_in_range: "controls_in_range (handler_controls cs) = controls_in_range cs"
  by (simp add: handler_controls_def)

lemma handler_setup_in_range:
  assumes "st_step (state c) = STEP_START" "c' = snd (handler_setup (cs, c))" "controls_in_range cs"
  shows "ctx_in_range c'"
  using assms(3) unfolding assms(2) handler_setup_eq[OF assms(1)]
  by (simp add: ctx_in_range_def controls_in_range_def h264_ctrl_table_def ctrl_in_range_def)

lemma setup_geometry:
  assumes "h264_setup alloc True (handler_run cs) w h c0 heap = (Inr ctx, heap')" "controls_in_range cs"
    and "session_ok hw tpf sel w h"
  shows "session_inv tpf sel ctx d"
proof -
  have b: "0 < w" "w \<le> 65535" "0 < h" "h \<le> 65535" using assms(3) by (auto simp: session_ok_def)
  have m: "1 \<le> DIV_ROUND_UP n 16" "DIV_ROUND_UP n 16 < 2 ^ 16" "n \<le> 16 * DIV_ROUND_UP n 16"
    if "0 < n" "n \<le> 65535" for n
    using that DIV_ROUND_UP_ge[of 16 n] by (auto simp: DIV_ROUND_UP_def)
  have u: "unat (word_of_nat n :: u32) = n" if "n < 2 ^ 16" for n
    using that by (simp add: unat_of_nat)
  obtain c where c: "snd (handler_setup (cs, c)) = ctx" "width_mbs c = word_of_nat (DIV_ROUND_UP w 16)"
    "height_mbs c = word_of_nat (DIV_ROUND_UP h 16)" "log2_max_frame_num c = 8"
    "log2_max_pic_order_cnt_lsb c = 8" "pic_order_cnt_type c = 0" "st_step (state c) = STEP_START"
    "st_frame_num (state c) = 0" "st_pic_order_cnt_lsb (state c) = 0"
    using assms(1) by (auto simp: h264_setup_def Let_def split: option.splits sum.splits)
  note k = handler_setup_keeps[OF c(7) c(1)[symmetric]] handler_setup_in_range[OF c(7) c(1)[symmetric] assms(2)]
  have "geometry tpf sel ctx"
    using assms(3) m[OF b(1,2)] m[OF b(3,4)] u[OF m(2)[OF b(1,2)]] u[OF m(2)[OF b(3,4)]]
    by (simp add: geometry_def session_ok_def k c)
  then show ?thesis using k c by (simp add: session_inv_def in_sync_def counters_ok_def)
qed

lemma agrees_simps [simp]:
  "sps_agrees (c\<lparr>state := x\<rparr>) s = sps_agrees c s" "sps_agrees (c\<lparr>entropy_mode := e\<rparr>) s = sps_agrees c s"
  "sps_agrees (c\<lparr>force_key_frame := b\<rparr>) s = sps_agrees c s"
  by (simp_all add: sps_agrees_def)

lemma step_back_step: "st_step (state (step_back s c)) = min s (st_step (state c))"
  by (auto simp: step_back_def min_def)

lemma min_SPS: "min STEP_SPS s \<in> {STEP_START, STEP_SPS}"
  by (cases s) (simp_all add: min_def less_eq_enc_step_def)

lemma step_back_sync:
  "in_sync (step_back STEP_SPS c) d"
  "in_sync c d \<Longrightarrow> in_sync (step_back STEP_PPS (c\<lparr>entropy_mode := e\<rparr>)) d"
proof -
  show "in_sync (step_back STEP_SPS c) d"
    using min_SPS[of "st_step (state c)"] by (auto simp: in_sync_def step_back_step)
  show "in_sync c d \<Longrightarrow> in_sync (step_back STEP_PPS (c\<lparr>entropy_mode := e\<rparr>)) d"
    by (cases "st_step (state c)") (auto simp: in_sync_def step_back_def less_enc_step_def)
qed

lemma sync_cong:
  assumes "in_sync c d" "state c' = state c" "profile c' = profile c" "level c' = level c"
    "entropy_mode c' = entropy_mode c" "width_mbs c' = width_mbs c" "height_mbs c' = height_mbs c"
  shows "in_sync c' d"
  using assms by (simp add: in_sync_def sps_agrees_def pps_agrees_def)

lemma ctrl_prepare_sync:
  assumes "in_sync c d"
  shows "in_sync (snd (ctrl_prepare framework_s_ctrl ctrl (cs, c))) d"
  by (cases ctrl; (rule sync_cong[OF assms]; simp add: ctrl_prepare_def; fail)?)
    (simp_all add: ctrl_prepare_def Let_def step_back_sync assms split: prod.split)

lemma step_back_geometry [simp]: "geometry tpf sel (step_back s c) = geometry tpf sel c"
  by (simp add: geometry_def step_back_def)

lemma ctrl_prepare_geometry:
  "geometry tpf sel c \<Longrightarrow> geometry tpf sel (snd (ctrl_prepare framework_s_ctrl ctrl (cs, c)))"
  by (cases ctrl)
    (simp_all add: ctrl_prepare_def framework_s_ctrl_def Let_def geometry_def step_back_def)

lemma ctrl_prepare_counters:
  "counters_ok (snd (ctrl_prepare framework_s_ctrl ctrl (cs, c))) = counters_ok c"
  by (cases ctrl)
    (simp_all add: ctrl_prepare_def framework_s_ctrl_def Let_def counters_ok_def step_back_def)

lemma set_ctrl_context:
  "set_ctrl s ctrl (cs, c) = Inr (cs', c') \<Longrightarrow> c' = c \<or> c' = snd (ctrl_prepare s ctrl (cs, c))"
  by (auto simp: set_ctrl_def case_prod_beta Let_def split: sum.splits if_splits)

lemma control_inv:
  assumes "session_inv tpf sel ctx d" "controls_in_range cs" "ctrl_in_range ctrl"
    "set_ctrl framework_s_ctrl ctrl (cs, ctx) = Inr (cs', ctx')"
  shows "session_inv tpf sel ctx' d \<and> controls_in_range cs'"
  using set_ctrl_context[OF assms(4)] set_ctrl_in_range[OF assms(2) _ assms(3,4)] assms(1)
  by (auto simp: session_inv_def ctrl_prepare_sync ctrl_prepare_geometry ctrl_prepare_counters)

section \<open>Frames\<close>

text \<open>The context with which a frame is configured.\<close>

definition prepared :: "h264_context \<Rightarrow> h264_context" where
  "prepared ctx = ctx\<lparr>force_key_frame := False, state := next_state ctx\<rparr>"

lemma next_state_simps:
  "st_step (next_state ctx) = (if next_type ctx = FRAME_TYPE_IDR \<and> prepend_sps_pps_idr ctx \<noteq> 0
    then STEP_SPS else st_step (state ctx))"
  "st_qp_init (next_state ctx) = (if st_step (next_state ctx) < STEP_SLICE
    then qp (next_job ctx) else st_qp_init (state ctx))"
  by (simp_all add: next_state_def id_next_def Let_def)

lemma less_SLICE [simp]: "s < STEP_SLICE \<longleftrightarrow> s \<noteq> STEP_SLICE"
  by (cases s) (simp_all add: less_enc_step_def)

lemma next_qp_init_le:
  assumes "session_inv tpf sel ctx d"
  shows "uint (st_qp_init (next_state ctx)) \<le> 51"
  using assms next_job_qp[of ctx]
  by (auto simp: next_state_simps session_inv_def in_sync_def pps_agrees_def split: if_splits)

lemma prepared_headers_pre:
  "session_inv tpf sel ctx d \<Longrightarrow> headers_pre tpf sel (prepared ctx) (next_job ctx)"
  unfolding prepared_def
  by (rule next_job_headers_pre) (auto simp: session_inv_def next_qp_init_le)

text \<open>The parameter sets the decoder uses for the frame.\<close>

definition frame_sps :: "v4l2_fract \<Rightarrow> v4l2_rect \<Rightarrow> h264_context \<Rightarrow> decoder \<Rightarrow> sps" where
  "frame_sps tpf sel ctx d = (if st_step (next_state ctx) \<le> STEP_SPS
     then sps_of tpf sel (prepared ctx) (next_job ctx) else the (dec_sps d))"

definition frame_pps :: "h264_context \<Rightarrow> decoder \<Rightarrow> pps" where
  "frame_pps ctx d = (if st_step (next_state ctx) \<le> STEP_PPS
     then pps_of (prepared ctx) (next_job ctx) else the (dec_pps d))"

lemma ucast_u8 [simp]: "(ucast (ucast (x :: u8) :: u32) :: u8) = x"
  using unat_lt2p[of x] by (simp add: word_unat_eq_iff unat_ucast_mod)

lemma sps_of_agrees:
  "geometry tpf sel ctx \<Longrightarrow> sps_agrees ctx (sps_of tpf sel (prepared ctx) (next_job ctx))"
  by (simp add: sps_agrees_def sps_of_def prepared_def next_job_def Let_def geometry_def)

lemma pps_of_agrees:
  assumes "session_inv tpf sel ctx d"
  shows "pps_agrees (prepared ctx) (pps_of (prepared ctx) (next_job ctx))"
  using next_qp_init_le[OF assms]
  by (simp add: pps_agrees_def pps_of_def prepared_def next_job_def Let_def)

lemma frame_sps_agrees:
  assumes "session_inv tpf sel ctx d"
  shows "sps_agrees ctx (frame_sps tpf sel ctx d)"
    and "\<not> st_step (next_state ctx) \<le> STEP_SPS \<Longrightarrow> dec_sps d = Some (frame_sps tpf sel ctx d)"
  using assms sps_of_agrees[of tpf sel ctx]
  by (auto simp: frame_sps_def session_inv_def in_sync_def next_state_simps split: if_splits)

lemma frame_pps_agrees:
  assumes "session_inv tpf sel ctx d"
  shows "pps_agrees (prepared ctx) (frame_pps ctx d)"
    and "\<not> st_step (next_state ctx) \<le> STEP_PPS \<Longrightarrow> dec_pps d = Some (frame_pps ctx d)"
proof -
  have "pps_agrees (prepared ctx) (frame_pps ctx d) \<and>
    (\<not> st_step (next_state ctx) \<le> STEP_PPS \<longrightarrow> dec_pps d = Some (frame_pps ctx d))"
  proof (cases "st_step (next_state ctx) = STEP_SLICE")
    case True
    then have "st_step (state ctx) = STEP_SLICE" by (simp add: next_state_simps split: if_splits)
    then obtain p where p: "dec_pps d = Some p" "pps_agrees ctx p"
      using assms by (auto simp: session_inv_def in_sync_def)
    have "pps_agrees (prepared ctx) p = pps_agrees ctx p"
      using True by (simp add: pps_agrees_def prepared_def next_state_simps(2))
    then show ?thesis using True p by (simp add: frame_pps_def)
  next
    case False
    then show ?thesis using pps_of_agrees[OF assms] by (simp add: frame_pps_def)
  qed
  then show "pps_agrees (prepared ctx) (frame_pps ctx d)"
    "\<not> st_step (next_state ctx) \<le> STEP_PPS \<Longrightarrow> dec_pps d = Some (frame_pps ctx d)"
    by simp_all
qed

lemma next_job_fields:
  "nal_ref_idc (next_job ctx) = 2" "seq_parameter_set_id (next_job ctx) = 0"
  "pic_parameter_set_id (next_job ctx) = 0" "idr_pic_id (next_job ctx) = 0"
  "frame_num (next_job ctx) = (if next_type ctx = FRAME_TYPE_IDR then 0 else st_frame_num (state ctx))"
  "pic_order_cnt_lsb (next_job ctx) =
    (if next_type ctx = FRAME_TYPE_IDR then 0 else st_pic_order_cnt_lsb (state ctx))"
  "entropy_coding_mode_flag (next_job ctx) = (if entropy_mode ctx = ENTROPY_MODE_CABAC then 1 else 0)"
  "cabac_init_idc (next_job ctx) = (if entropy_mode ctx = ENTROPY_MODE_CABAC \<and>
    next_type ctx \<noteq> FRAME_TYPE_IDR \<and> next_type ctx \<noteq> FRAME_TYPE_I then 1 else 0)"
  by (simp_all add: next_job_def Let_def)

lemma slice_ok_frame:
  assumes "session_inv tpf sel ctx d" "sps_agrees ctx s" "pps_agrees (prepared ctx) p"
  shows "slice_ok (next_type ctx = FRAME_TYPE_IDR) s p (slice_of (next_job ctx))"
  using assms
  by (auto simp: slice_ok_def slice_of_def next_job_fields sps_agrees_def pps_agrees_def
      session_inv_def counters_ok_def prepared_def word_unat_eq_iff)

lemma sps_ok_frame:
  assumes "session_inv tpf sel ctx d"
  shows "sps_ok (sps_of tpf sel (prepared ctx) (next_job ctx))"
proof -
  have b: "unat (ucast (x :: u32) :: u8) < 256" for x using unat_lt2p[of "ucast x :: u8"] by simp
  have "sar_ok (sps_sar (sps_of tpf sel (prepared ctx) (next_job ctx)))"
    using assms by (cases "ctx_vui_sar_idc ctx")
      (auto simp: sar_ok_def sps_of_def prepared_def vui_sar_idc_def session_inv_def ctx_in_range_def)
  then show ?thesis
    using assms b unat_lt2p[of "numerator tpf"]
    by (simp add: sps_ok_def session_inv_def geometry_def) (simp add: sps_of_def prepared_def)
qed

lemma encode_frame_alt:
  "encode_frame hw dev pix tpf sel coded buf ctx =
    (reference_update buf (set_step STEP_SLICE (prepared ctx)), next_job ctx,
     snd (job_configure hw dev pix tpf sel coded buf (next_job ctx) (prepared ctx) []))"
  by (simp add: encode_frame_def job_prepare_alt prepared_def[symmetric] case_prod_unfold Let_def
      job_configure_ctx)

lemma frame_decodes_inv:
  assumes hw: "counts_bits hw" and inv: "session_inv tpf sel ctx d"
    and f: "encode_frame hw dev pix tpf sel coded buf ctx = (ctx', job, log)"
  shows "decode (pt_bits (port log) @ map (Pair False) data) d =
    Some (d\<lparr>dec_sps := Some (frame_sps tpf sel ctx d), dec_pps := Some (frame_pps ctx d)\<rparr>,
      [(slice_of job, data)])"
    and "\<not> pt_raw (port log)"
    and "sps_agrees ctx' (frame_sps tpf sel ctx d)" "pps_agrees ctx' (frame_pps ctx d)"
    and "session_inv tpf sel ctx'
      (d\<lparr>dec_sps := Some (frame_sps tpf sel ctx d), dec_pps := Some (frame_pps ctx d)\<rparr>)"
proof -
  let ?s = "frame_sps tpf sel ctx d" and ?p = "frame_pps ctx d" and ?c = "prepared ctx"
  have e: "ctx' = reference_update buf (set_step STEP_SLICE ?c)" "job = next_job ctx"
    "log = snd (job_configure hw dev pix tpf sel coded buf job ?c [])"
    using f by (auto simp: encode_frame_alt)
  note s = frame_sps_agrees[OF inv] and p = frame_pps_agrees[OF inv]
  have pq: "sps_log2_max_frame_num ?s = 8" "sps_log2_max_poc_lsb ?s = 8"
    "pps_init_qp ?p = uint (st_qp_init (state ?c))" "pps_deblocking_control ?p"
    using s(1) p(1) by (simp_all add: sps_agrees_def pps_agrees_def)
  have st: "st_step (state ?c) = st_step (next_state ctx)" by (simp add: prepared_def)
  have hp: "headers_pre tpf sel ?c job" using prepared_headers_pre[OF inv] e(2) by simp
  note port = job_configure_port[OF hw hp pq, where dev = dev and pix = pix and coded = coded and buf = buf,
      folded e(3), unfolded st]
  show "\<not> pt_raw (port log)" by (rule port(2))
  have "decode ((if st_step (next_state ctx) \<le> STEP_SPS then sps_nal tpf sel ?c job else []) @
      (if st_step (next_state ctx) \<le> STEP_PPS then pps_nal ?c job else []) @
      slice_nal ?s ?p job @ map (Pair False) data) d =
    Some (d\<lparr>dec_sps := Some ?s, dec_pps := Some ?p\<rparr>, [(slice_of job, data)])"
  proof (rule decode_headers)
    show "(if st_step (next_state ctx) \<le> STEP_SPS then Some (sps_of tpf sel ?c job) else dec_sps d) = Some ?s"
      using s(2) e(2) by (simp add: frame_sps_def)
    show "(if st_step (next_state ctx) \<le> STEP_PPS then Some (pps_of ?c job) else dec_pps d) = Some ?p"
      using p(2) e(2) by (simp add: frame_pps_def)
    show "sps_ok (sps_of tpf sel ?c job)" using sps_ok_frame[OF inv] e(2) by simp
    show "slice_ok (job_frame_type job = FRAME_TYPE_IDR) ?s ?p (slice_of job)"
      using slice_ok_frame[OF inv s(1) p(1)] e(2) by simp
    show "sh_pps_id (slice_of job) = pps_id ?p" "pps_sps_id ?p = sps_id ?s"
      using s(1) p(1) e(2) by (simp_all add: sps_agrees_def pps_agrees_def slice_of_def next_job_fields)
  qed
  then show "decode (pt_bits (port log) @ map (Pair False) data) d =
    Some (d\<lparr>dec_sps := Some ?s, dec_pps := Some ?p\<rparr>, [(slice_of job, data)])"
    unfolding port(1) by simp
  show sa: "sps_agrees ctx' ?s" and pa: "pps_agrees ctx' ?p"
    using s(1) p(1) by (simp_all add: e sps_agrees_def pps_agrees_def reference_update_def set_step_def prepared_def)
  have c: "counters_ok ctx'"
  proof -
    have "unat ((x :: u32) mod BIT 8) < 256" for x
      by (simp add: BIT_def unat_mod_distrib)
    then show ?thesis using inv
      by (simp add: e counters_ok_def reference_update_def set_step_def prepared_def next_state_def
          id_next_def Let_def session_inv_def geometry_def)
  qed
  have "ctx_in_range ctx'" "geometry tpf sel ctx'"
    using inv by (simp_all add: e session_inv_def ctx_in_range_def geometry_def
        reference_update_def set_step_def prepared_def)
  then show "session_inv tpf sel ctx' (d\<lparr>dec_sps := Some ?s, dec_pps := Some ?p\<rparr>)"
    using sa pa c by (simp add: session_inv_def in_sync_def)
qed

lemma session_invariant:
  assumes "session hw dev pix tpf sel w h cs ctx d" "session_ok hw tpf sel w h"
  shows "session_inv tpf sel ctx d" "controls_in_range cs"
proof -
  have "session_inv tpf sel ctx d \<and> controls_in_range cs"
    using assms
  proof (induction rule: session.induct)
    case (start cs alloc c0 heap ctx heap' d)
    then show ?case
      using setup_geometry[OF start.hyps(2,1) start.prems]
      by (simp add: handler_setup_controls handler_controls_in_range)
  next
    case (control cs ctx d ctrl cs' ctx')
    then show ?case
      using control_inv[OF _ _ control.hyps(2,3), of tpf sel d] control.IH[OF control.prems] by blast
  next
    case (frame cs ctx d coded buf ctx' job log data d' slices)
    have "counts_bits hw" using frame.prems by (simp add: session_ok_def)
    note f = frame_decodes_inv[OF this conjunct1[OF frame.IH[OF frame.prems]] frame.hyps(2)]
    show ?case using f(1)[of data] f(5) frame.hyps(3) frame.IH[OF frame.prems] by simp
  qed
  then show "session_inv tpf sel ctx d" "controls_in_range cs" by simp_all
qed

section \<open>What sessions guarantee\<close>

text \<open>C1: every frame of every session is decodable.  Whatever controls were set between frames and
  whatever the picture size, the bits a frame sends (followed by the hardware's slice data) are NAL
  units a decoder that saw the earlier frames accepts: it ends with exactly one slice, whose header
  carries the values of the job and is followed by the slice data, and its parameter sets agree
  with the encoder's profile, level, picture size, entropy mode and initial quantiser; emulation
  prevention is on when the slice data starts.\<close>

theorem frame_decodes:
  assumes "session hw dev pix tpf sel w h cs ctx d" "session_ok hw tpf sel w h"
    and "encode_frame hw dev pix tpf sel coded buf ctx = (ctx', job, log)"
  shows "\<exists>d' s p. decode (pt_bits (port log) @ map (Pair False) data) d = Some (d', [(slice_of job, data)]) \<and>
    dec_sps d' = Some s \<and> sps_agrees ctx' s \<and> dec_pps d' = Some p \<and> pps_agrees ctx' p \<and>
    \<not> pt_raw (port log) \<and> session hw dev pix tpf sel w h cs ctx' d'"
proof -
  have "counts_bits hw" using assms(2) by (simp add: session_ok_def)
  note f = frame_decodes_inv[OF this session_invariant(1)[OF assms(1,2)] assms(3)]
  show ?thesis using f(1)[of data] f(2-4) session.frame[OF assms(1,3) f(1)[of data]] by auto
qed

text \<open>C30: with prepended parameter sets every IDR frame is a random access point: a decoder that has
  seen nothing before decodes it, with the parameter sets of the frame itself.\<close>

theorem idr_random_access:
  assumes "session hw dev pix tpf sel w h cs ctx d" "session_ok hw tpf sel w h"
    and "prepend_sps_pps_idr ctx \<noteq> 0" "next_type ctx = FRAME_TYPE_IDR"
    and "encode_frame hw dev pix tpf sel coded buf ctx = (ctx', job, log)"
  shows "\<exists>s p. decode (pt_bits (port log) @ map (Pair False) data) \<lparr>dec_sps = None, dec_pps = None\<rparr> =
    Some (\<lparr>dec_sps = Some s, dec_pps = Some p\<rparr>, [(slice_of job, data)]) \<and>
    sps_agrees ctx' s \<and> pps_agrees ctx' p"
proof -
  let ?d = "\<lparr>dec_sps = None, dec_pps = None\<rparr>"
  let ?c = "ctx\<lparr>state := (state ctx)\<lparr>st_step := STEP_SPS\<rparr>\<rparr>"
  have hw: "counts_bits hw" using assms(2) by (simp add: session_ok_def)
  have t: "next_type ?c = next_type ctx" by (simp add: next_type_def job_frame_type_of_def)
  have j: "next_job ?c = next_job ctx"
    unfolding next_job_def t Let_def
    using prepare_cong[where ctx = ctx and b = "force_key_frame ctx" and s = "state ?c"] by simp
  have "next_state ?c = next_state ctx"
    using assms(3,4) by (simp add: next_state_def id_next_def gop_next_def t j Let_def)
  then have e: "encode_frame hw dev pix tpf sel coded buf ?c = encode_frame hw dev pix tpf sel coded buf ctx"
    by (simp add: encode_frame_alt prepared_def j)
  have "session_inv tpf sel ?c ?d"
    using session_invariant(1)[OF assms(1,2)]
    by (simp add: session_inv_def in_sync_def counters_ok_def geometry_def)
  note inv = this
  have "encode_frame hw dev pix tpf sel coded buf ?c = (ctx', job, log)" using e assms(5) by simp
  note f = frame_decodes_inv[OF hw inv this]
  show ?thesis using f(1)[of data] f(3,4) by simp
qed

section \<open>The schedule of frame types\<close>

text \<open>The context after \<open>n\<close> frames without control changes; the buffers may differ from frame to
  frame.\<close>

primrec after_frames :: "(nat \<Rightarrow> h264_buffer) \<Rightarrow> h264_context \<Rightarrow> nat \<Rightarrow> h264_context" where
  "after_frames bufs ctx 0 = ctx"
| "after_frames bufs ctx (Suc n) =
    reference_update (bufs n) (set_step STEP_SLICE (prepared (after_frames bufs ctx n)))"

lemma after_frames_encode:
  "fst (encode_frame hw dev pix tpf sel coded (bufs n) (after_frames bufs ctx n)) =
    after_frames bufs ctx (Suc n)"
  by (simp add: encode_frame_alt)

lemma after_frames_controls [simp]:
  "gop_closure (after_frames bufs ctx n) = gop_closure ctx"
  "gop_size (after_frames bufs ctx n) = gop_size ctx"
  "gop_open_i_period (after_frames bufs ctx n) = gop_open_i_period ctx"
  "log2_max_frame_num (after_frames bufs ctx n) = log2_max_frame_num ctx"
  "log2_max_pic_order_cnt_lsb (after_frames bufs ctx n) = log2_max_pic_order_cnt_lsb ctx"
  by (induction n) (simp_all add: reference_update_def set_step_def prepared_def)

lemma after_frames_force:
  "\<not> force_key_frame ctx \<Longrightarrow> \<not> force_key_frame (after_frames bufs ctx n)"
  by (induction n) (simp_all add: reference_update_def set_step_def prepared_def)

lemma after_frames_state:
  "st_gop_index (state (after_frames bufs ctx (Suc n))) = gop_next (after_frames bufs ctx n)"
  "st_frame_num (state (after_frames bufs ctx (Suc n))) =
    st_frame_num (id_next (next_type (after_frames bufs ctx n) = FRAME_TYPE_IDR) (after_frames bufs ctx n))"
  "st_pic_order_cnt_lsb (state (after_frames bufs ctx (Suc n))) =
    st_pic_order_cnt_lsb (id_next (next_type (after_frames bufs ctx n) = FRAME_TYPE_IDR) (after_frames bufs ctx n))"
  by (simp_all add: reference_update_def set_step_def prepared_def next_state_def Let_def)


declare after_frames.simps(2) [simp del]

lemma unat_suc_mod:
  assumes "unat (i :: u32) < 65536" "1 \<le> g" "g \<le> 65535"
  shows "unat ((i + 1) mod word_of_int g) = (unat i + 1) mod nat g"
proof -
  have "unat (i + 1) = unat i + 1" using assms(1) by (subst unat_add_lem[THEN iffD1]) simp_all
  moreover have "unat (word_of_int g :: u32) = nat g" using assms(2,3) by (simp add: unat_word_of_int)
  ultimately show ?thesis by (simp add: unat_mod_distrib)
qed

lemma unat_add_mod_BIT8:
  "unat x < 256 \<Longrightarrow> unat k \<le> 2 \<Longrightarrow> unat ((x + k :: u32) mod BIT 8) = (unat x + unat k) mod 256"
  by (subst unat_mod_distrib, subst unat_add_lem[THEN iffD1]) (simp_all add: BIT_def)

lemma closed_gop_state:
  assumes g: "st_gop_index (state ctx) = 0" "\<not> force_key_frame ctx" "gop_closure ctx \<noteq> 0"
    "1 \<le> gop_size ctx" "gop_size ctx \<le> 65535"
    and l: "log2_max_frame_num ctx = 8" "log2_max_pic_order_cnt_lsb ctx = 8"
  defines "k n \<equiv> n mod nat (gop_size ctx)"
  shows "unat (st_gop_index (state (after_frames bufs ctx n))) = k n \<and>
    (k n \<noteq> 0 \<longrightarrow> unat (st_frame_num (state (after_frames bufs ctx n))) = k n mod 256 \<and>
       unat (st_pic_order_cnt_lsb (state (after_frames bufs ctx n))) = 2 * k n mod 256)"
proof (induction n)
  case 0
  then show ?case using g by (simp add: k_def)
next
  case (Suc n)
  let ?c = "after_frames bufs ctx n"
  have kn: "k n < nat (gop_size ctx)" using g(4) by (simp add: k_def)
  then have small: "unat (st_gop_index (state ?c)) < 65536" using Suc g(5) by simp
  have ks: "k (Suc n) = (k n + 1) mod nat (gop_size ctx)" by (simp add: k_def mod_Suc_eq)
  have gi: "unat (st_gop_index (state (after_frames bufs ctx (Suc n)))) = k (Suc n)"
    using unat_suc_mod[OF small g(4,5)] Suc g(3) by (simp add: after_frames_state gop_next_def ks)
  have ty: "next_type ?c = (if k n = 0 then FRAME_TYPE_IDR else FRAME_TYPE_P)"
    using Suc g(3) after_frames_force[OF g(2)]
    by (simp add: next_type_def job_frame_type_of_def unat_eq_0[symmetric] del: unat_eq_0)
  have step: "k (Suc n) = k n + 1" if "k (Suc n) \<noteq> 0"
    using that ks kn by (metis Suc_eq_plus1 Suc_lessI mod_less mod_self)
  show ?case
    using gi step Suc ty l
    by (auto simp: after_frames_state id_next_def unat_add_mod_BIT8 mod_simps)
qed

lemma closed_gop_type:
  assumes "st_gop_index (state ctx) = 0" "\<not> force_key_frame ctx" "gop_closure ctx \<noteq> 0"
    and "1 \<le> gop_size ctx" "gop_size ctx \<le> 65535"
    and "log2_max_frame_num ctx = 8" "log2_max_pic_order_cnt_lsb ctx = 8"
  shows "next_type (after_frames bufs ctx n) =
    (if n mod nat (gop_size ctx) = 0 then FRAME_TYPE_IDR else FRAME_TYPE_P)"
  using closed_gop_state[OF assms, of bufs n] assms(3) after_frames_force[OF assms(2)]
  by (simp add: next_type_def job_frame_type_of_def unat_eq_0[symmetric] del: unat_eq_0)

text \<open>C19: a closed GOP: from the start of a session, without control changes and forced key frames,
  frame \<open>n\<close> is an IDR frame exactly when the GOP size divides \<open>n\<close> and a P frame otherwise, and its
  frame number and picture order count restart at every IDR frame and wrap at 256.\<close>

theorem closed_gop_schedule:
  assumes "st_gop_index (state ctx) = 0" "\<not> force_key_frame ctx" "gop_closure ctx \<noteq> 0"
    and "1 \<le> gop_size ctx" "gop_size ctx \<le> 65535"
    and "log2_max_frame_num ctx = 8" "log2_max_pic_order_cnt_lsb ctx = 8"
  shows "job_frame_type (next_job (after_frames bufs ctx n)) =
      (if n mod nat (gop_size ctx) = 0 then FRAME_TYPE_IDR else FRAME_TYPE_P) \<and>
    unat (frame_num (next_job (after_frames bufs ctx n))) = n mod nat (gop_size ctx) mod 256 \<and>
    unat (pic_order_cnt_lsb (next_job (after_frames bufs ctx n))) =
      2 * (n mod nat (gop_size ctx)) mod 256"
  using closed_gop_state[OF assms, of bufs n] closed_gop_type[OF assms, of bufs n]
  by (auto simp: next_job_fields)

lemma open_gop_state:
  assumes "st_gop_index (state ctx) = 0" "\<not> force_key_frame ctx" "gop_closure ctx = 0"
    and "log2_max_frame_num ctx = 8" "log2_max_pic_order_cnt_lsb ctx = 8" and n: "n < 2 ^ 32"
  shows "unat (st_gop_index (state (after_frames bufs ctx n))) = n \<and>
    (n \<noteq> 0 \<longrightarrow> unat (st_frame_num (state (after_frames bufs ctx n))) = n mod 256 \<and>
       unat (st_pic_order_cnt_lsb (state (after_frames bufs ctx n))) = 2 * n mod 256)"
  using n
proof (induction n)
  case 0
  then show ?case using assms by simp
next
  case (Suc n)
  let ?c = "after_frames bufs ctx n"
  have IH: "unat (st_gop_index (state ?c)) = n"
    "n \<noteq> 0 \<Longrightarrow> unat (st_frame_num (state ?c)) = n mod 256 \<and>
       unat (st_pic_order_cnt_lsb (state ?c)) = 2 * n mod 256"
    using Suc by auto
  have "unat (st_gop_index (state ?c) + 1) = n + 1"
    using IH(1) Suc.prems by (subst unat_add_lem[THEN iffD1]) simp_all
  then have gi: "unat (st_gop_index (state (after_frames bufs ctx (Suc n)))) = Suc n"
    using assms(3) by (simp add: after_frames_state gop_next_def)
  have "next_type ?c = FRAME_TYPE_IDR \<longleftrightarrow> n = 0"
    using IH(1) assms(3) after_frames_force[OF assms(2)]
    by (simp add: next_type_def job_frame_type_of_def unat_eq_0[symmetric] del: unat_eq_0)
  then show ?case
    using gi IH(2) assms(4,5)
    by (cases "n = 0")
      (simp add: after_frames_state id_next_def BIT_def,
       simp add: after_frames_state id_next_def unat_add_mod_BIT8 mod_simps)
qed

text \<open>An open GOP: the first frame is the only IDR frame (for the first 2^32 frames, after which
  the index wraps), every multiple of the I period is an I frame, all others are P frames, and
  the counters run on modulo 256.\<close>

theorem open_gop_schedule:
  assumes "st_gop_index (state ctx) = 0" "\<not> force_key_frame ctx" "gop_closure ctx = 0"
    and "log2_max_frame_num ctx = 8" "log2_max_pic_order_cnt_lsb ctx = 8"
    and "1 \<le> gop_open_i_period ctx" "gop_open_i_period ctx \<le> 65535" and "n < 2 ^ 32"
  shows "job_frame_type (next_job (after_frames bufs ctx n)) =
      (if n = 0 then FRAME_TYPE_IDR
       else if n mod nat (gop_open_i_period ctx) = 0 then FRAME_TYPE_I else FRAME_TYPE_P) \<and>
    unat (frame_num (next_job (after_frames bufs ctx n))) = n mod 256 \<and>
    unat (pic_order_cnt_lsb (next_job (after_frames bufs ctx n))) = 2 * n mod 256"
proof -
  let ?c = "after_frames bufs ctx n"
  note k = open_gop_state[OF assms(1-5,8), of bufs]
  have "unat (word_of_int (gop_open_i_period ctx) :: u32) = nat (gop_open_i_period ctx)"
    using assms(6,7) by (simp add: unat_word_of_int)
  then have m: "st_gop_index (state ?c) mod word_of_int (gop_open_i_period ctx) = 0 \<longleftrightarrow>
      n mod nat (gop_open_i_period ctx) = 0"
    using k by (simp add: unat_eq_0[symmetric] unat_mod_distrib del: unat_eq_0)
  have z: "st_gop_index (state ?c) = 0 \<longleftrightarrow> n = 0"
    using k by (simp add: unat_eq_0[symmetric] del: unat_eq_0)
  have ty: "next_type ?c = (if n = 0 then FRAME_TYPE_IDR
       else if n mod nat (gop_open_i_period ctx) = 0 then FRAME_TYPE_I else FRAME_TYPE_P)"
    using assms(3,6) after_frames_force[OF assms(2)] m z
    by (simp add: next_type_def job_frame_type_of_def)
  show ?thesis using k by (auto simp: ty next_job_fields)
qed

section \<open>References\<close>

text \<open>Controls set between two frames; the ones that are refused change nothing.\<close>

definition apply_ctrls :: "h264_ctrl list \<Rightarrow> h264_controls \<times> h264_context \<Rightarrow> h264_controls \<times> h264_context" where
  "apply_ctrls reqs st = fold (\<lambda>ctrl st. case set_ctrl framework_s_ctrl ctrl st of Inl _ \<Rightarrow> st | Inr st \<Rightarrow> st) reqs st"

lemma apply_ctrls_refs:
  assumes "apply_ctrls reqs (cs, ctx) = (cs', ctx')"
  shows "rec_last_dma ctx' = rec_last_dma ctx \<and> rec_last_luma_size ctx' = rec_last_luma_size ctx \<and>
    subpix_last_dma ctx' = subpix_last_dma ctx"
  using assms
proof (induction reqs arbitrary: cs ctx)
  case (Cons ctrl reqs)
  have p: "rec_last_dma c = rec_last_dma ctx \<and> rec_last_luma_size c = rec_last_luma_size ctx \<and>
      subpix_last_dma c = subpix_last_dma ctx" if "c = snd (ctrl_prepare framework_s_ctrl ctrl (cs, ctx))" for c
    unfolding that by (cases ctrl) (simp_all add: ctrl_prepare_def framework_s_ctrl_def Let_def step_back_def)
  show ?case
  proof (cases "set_ctrl framework_s_ctrl ctrl (cs, ctx)")
    case (Inl e)
    then show ?thesis using Cons by (simp add: apply_ctrls_def)
  next
    case (Inr st)
    obtain ds d where st: "st = (ds, d)" by fastforce
    have "apply_ctrls reqs (ds, d) = (cs', ctx')" using Cons.prems Inr st by (simp add: apply_ctrls_def)
    then show ?thesis using Cons.IH set_ctrl_context[OF Inr[unfolded st]] p[OF refl] by metis
  qed
qed (simp add: apply_ctrls_def)

text \<open>C32: a P frame refers to the picture before it: whatever controls are set between two frames, the
  reference luma and chroma registers of a P frame hold the planes the previous frame was
  reconstructed into, while it reconstructs into its own buffer.\<close>

theorem reference_chain:
  assumes "encode_frame hw dev pix tpf sel coded buf ctx = (ctx', job, log)"
    and "apply_ctrls reqs (cs, ctx') = (cs', ctx1)"
    and "encode_frame hw' dev pix tpf sel coded' buf' ctx1 = (ctx'', job', log')"
    and "job_frame_type job' = FRAME_TYPE_P"
  shows "last_write VE_ENC_AVC_REF0_ADDR_Y_REG log' = last_write VE_ENC_AVC_REC_ADDR_Y_REG log \<and>
    last_write VE_ENC_AVC_REF0_ADDR_C_REG log' = last_write VE_ENC_AVC_REC_ADDR_C_REG log \<and>
    last_write VE_ENC_AVC_REC_ADDR_Y_REG log' = Some (cedrus_enc_dma_addr dev (rec_dma buf'))"
proof -
  have r: "rec_last_dma ctx' = rec_dma buf" "rec_last_luma_size ctx' = word_of_nat (rec_luma_size buf)"
    using assms(1) by (auto simp: encode_frame_alt reference_update_def)
  have "rec_last_dma (prepared c) = rec_last_dma c"
    "rec_last_luma_size (prepared c) = rec_last_luma_size c" for c
    by (simp_all add: prepared_def)
  then show ?thesis
    using assms r apply_ctrls_refs[OF assms(2)] by (auto simp: encode_frame_alt reference_written)
qed

section \<open>Instances\<close>

definition ex_dec :: decoder where
  "ex_dec = \<lparr>dec_sps = None, dec_pps = None\<rparr>"

lemma default_controls_in_range: "controls_in_range default_controls"
  by (simp add: controls_in_range_def h264_ctrl_table_def ctrl_in_range_def default_controls_def)

lemma ex_session: "session ideal_hw ex_dev ex_pix ex_tpf ex_sel 320 240 default_controls ex_ctx ex_dec"
  using session.start[OF default_controls_in_range ex_setup] by (simp add: ex_handler_controls)

lemma ex_session_ok: "session_ok ideal_hw ex_tpf ex_sel 320 240"
  by (simp add: session_ok_def ideal_hw_counts ex_sel_def ex_tpf_def)

definition ex_frame :: "h264_context \<Rightarrow> h264_context \<times> h264_job \<times> io_log" where
  "ex_frame ctx = encode_frame ideal_hw ex_dev ex_pix ex_tpf ex_sel (0x42000000, 0x100000) ex_buf ctx"

lemma ex_frame_eq: "encode_frame ideal_hw ex_dev ex_pix ex_tpf ex_sel (0x42000000, 0x100000) ex_buf ctx =
  (fst (ex_frame ctx), fst (snd (ex_frame ctx)), snd (snd (ex_frame ctx)))"
  by (simp add: ex_frame_def)

theorem headers_by_step_witness:
  "let (ctx', log') = job_configure_headers ideal_hw ex_tpf ex_sel (next_job ex_ctx) (prepared ex_ctx) []
   in ctx' = set_step STEP_SLICE (prepared ex_ctx) \<and>
      pt_bits (port log') = sps_nal ex_tpf ex_sel (prepared ex_ctx) (next_job ex_ctx) @
        pps_nal (prepared ex_ctx) (next_job ex_ctx) @
        slice_nal (frame_sps ex_tpf ex_sel ex_ctx ex_dec) (frame_pps ex_ctx ex_dec) (next_job ex_ctx)"
proof -
  note inv = session_invariant(1)[OF ex_session ex_session_ok]
  obtain ctx' log' where r:
    "job_configure_headers ideal_hw ex_tpf ex_sel (next_job ex_ctx) (prepared ex_ctx) [] = (ctx', log')"
    by fastforce
  have st: "st_step (state (prepared ex_ctx)) = STEP_START"
    by (simp add: prepared_def next_state_simps ex_ctx_def blank_ctx_def)
  show ?thesis
    using headers_by_step[OF ideal_hw_counts prepared_headers_pre[OF inv], of "[]"
        "frame_sps ex_tpf ex_sel ex_ctx ex_dec" "frame_pps ex_ctx ex_dec", OF _ _ _ _ _ r]
      frame_sps_agrees(1)[OF inv] frame_pps_agrees(1)[OF inv]
    by (simp add: r st aligned_def sps_agrees_def pps_agrees_def)
qed

theorem frame_decodes_witness:
  "\<exists>d' s p. decode (pt_bits (port (snd (snd (ex_frame ex_ctx)))) @ map (Pair False) [True, False]) ex_dec =
     Some (d', [(slice_of (fst (snd (ex_frame ex_ctx))), [True, False])]) \<and>
    dec_sps d' = Some s \<and> sps_agrees (fst (ex_frame ex_ctx)) s \<and>
    dec_pps d' = Some p \<and> pps_agrees (fst (ex_frame ex_ctx)) p"
  using frame_decodes[OF ex_session ex_session_ok ex_frame_eq, of "[True, False]"] by blast

text \<open>A session in which the parameter sets were asked for before it started.\<close>

definition ex_prepend_controls :: h264_controls where
  "ex_prepend_controls = default_controls\<lparr>cur_prepend_sps_pps_idr := 1\<rparr>"

lemma ex_prepend:
  "session ideal_hw ex_dev ex_pix ex_tpf ex_sel 320 240 ex_prepend_controls (ex_ctx\<lparr>prepend_sps_pps_idr := 1\<rparr>) ex_dec"
proof -
  have "controls_in_range ex_prepend_controls"
    using default_controls_in_range by (simp add: ex_prepend_controls_def controls_in_range_alt)
  moreover have "h264_setup ex_alloc True (handler_run ex_prepend_controls) 320 240 blank_ctx [] =
      (Inr (ex_ctx\<lparr>prepend_sps_pps_idr := 1\<rparr>), [(0x40000000, 4096)])"
    by (simp add: h264_setup_def ex_alloc_def handler_setup_eq ex_prepend_controls_def default_controls_def
        handler_controls_def profile_cabac_check_def ex_ctx_def blank_ctx_def Let_def DIV_ROUND_UP_def)
  moreover have "handler_controls ex_prepend_controls = ex_prepend_controls"
    by (simp add: handler_controls_def ex_prepend_controls_def default_controls_def profile_cabac_check_def)
  ultimately show ?thesis
    using session.start[of ex_prepend_controls] by (metis handler_setup_controls)
qed

theorem idr_random_access_witness:
  "\<exists>s p. decode (pt_bits (port (snd (snd (ex_frame (ex_ctx\<lparr>prepend_sps_pps_idr := 1\<rparr>))))) @
      map (Pair False) [True]) \<lparr>dec_sps = None, dec_pps = None\<rparr> =
    Some (\<lparr>dec_sps = Some s, dec_pps = Some p\<rparr>,
      [(slice_of (fst (snd (ex_frame (ex_ctx\<lparr>prepend_sps_pps_idr := 1\<rparr>)))), [True])])"
proof -
  have "next_type (ex_ctx\<lparr>prepend_sps_pps_idr := 1\<rparr>) = FRAME_TYPE_IDR"
    by (simp add: next_type_def job_frame_type_of_def ex_ctx_def blank_ctx_def)
  from idr_random_access[OF ex_prepend ex_session_ok _ this ex_frame_eq, of "[True]"]
  show ?thesis by auto
qed

theorem closed_gop_schedule_witness:
  "job_frame_type (next_job (after_frames (\<lambda>_. ex_buf) ex_ctx 24)) = FRAME_TYPE_IDR \<and>
   job_frame_type (next_job (after_frames (\<lambda>_. ex_buf) ex_ctx 30)) = FRAME_TYPE_P \<and>
   unat (frame_num (next_job (after_frames (\<lambda>_. ex_buf) ex_ctx 30))) = 6"
  using closed_gop_schedule[of ex_ctx "\<lambda>_. ex_buf" 24] closed_gop_schedule[of ex_ctx "\<lambda>_. ex_buf" 30]
  by (simp add: ex_ctx_def blank_ctx_def)

theorem open_gop_schedule_witness:
  "job_frame_type (next_job (after_frames (\<lambda>_. ex_buf) (ex_ctx\<lparr>gop_closure := 0\<rparr>) 300)) = FRAME_TYPE_I \<and>
   unat (frame_num (next_job (after_frames (\<lambda>_. ex_buf) (ex_ctx\<lparr>gop_closure := 0\<rparr>) 300))) = 44"
  using open_gop_schedule[of "ex_ctx\<lparr>gop_closure := 0\<rparr>" 300 "\<lambda>_. ex_buf"]
  by (simp add: ex_ctx_def blank_ctx_def)

theorem reference_chain_witness:
  "last_write VE_ENC_AVC_REF0_ADDR_Y_REG (snd (snd (ex_frame (fst (ex_frame ex_ctx))))) =
   last_write VE_ENC_AVC_REC_ADDR_Y_REG (snd (snd (ex_frame ex_ctx)))"
proof -
  have "job_frame_type (fst (snd (ex_frame (fst (ex_frame ex_ctx))))) = FRAME_TYPE_P"
    by (simp add: ex_frame_def encode_frame_alt next_type_def job_frame_type_of_def
        reference_update_def set_step_def prepared_def next_state_def id_next_def Let_def
        gop_next_def ex_ctx_def blank_ctx_def)
  moreover have n: "apply_ctrls [] (default_controls, fst (ex_frame ex_ctx)) = (default_controls, fst (ex_frame ex_ctx))"
    by (simp add: apply_ctrls_def)
  ultimately show ?thesis
    using reference_chain[OF ex_frame_eq[of ex_ctx] n ex_frame_eq[of "fst (ex_frame ex_ctx)"]] by simp
qed

section \<open>What control changes can leave stale\<close>

text \<open>C28: a control that is set to another value while the encoder runs takes effect one setting late: the
  callback stores the current value, which is still the old one, so the context holds the value the
  control had before, whatever it is set to, and the framework then keeps the new one.\<close>

theorem controls_lag:
  assumes "set_ctrl framework_s_ctrl ctrl (cs, ctx) = Inr (cs', ctx')" "new_to_cur ctrl cs \<noteq> cs"
  shows "ctx_holds ctx' (current cs ctrl) \<and> current cs' ctrl = ctrl \<and> \<not> ctx_holds ctx' ctrl"
proof -
  obtain ds where p: "ctrl_prepare framework_s_ctrl ctrl (cs, ctx) = (ds, ctx')" "cs' = new_to_cur ctrl ds"
    using assms by (auto simp: set_ctrl_def split: sum.splits if_splits prod.splits)
  then have "ctx' = snd (ctrl_prepare framework_s_ctrl ctrl (cs, ctx))" by simp
  moreover have "current cs' ctrl = ctrl" by (cases ctrl) (simp_all add: p(2) new_to_cur_def current_def)
  ultimately show ?thesis using assms(2)
    by (cases ctrl) (simp_all add: ctrl_prepare_def framework_s_ctrl_def ctx_holds_def current_def Let_def,
      auto simp: new_to_cur_def)
qed

lemma ex_control:
  assumes "session ideal_hw ex_dev ex_pix ex_tpf ex_sel 320 240 cs ctx d" "ctrl_in_range ctrl"
    "set_ctrl framework_s_ctrl ctrl (cs, ctx) = Inr st"
  shows "session ideal_hw ex_dev ex_pix ex_tpf ex_sel 320 240 (fst st) (snd st) d"
  using session.control[OF assms(1,2), of "fst st" "snd st"] assms(3) by simp

lemmas ex_control_simps = ctrl_in_range_def set_ctrl_def ctrl_validate_def ctrl_prepare_def new_to_cur_def
  framework_s_ctrl_def Let_def

theorem controls_lag_witness:
  "\<exists>cs' ctx'. set_ctrl framework_s_ctrl (CID_I_FRAME_QP 40) (default_controls, ex_ctx) = Inr (cs', ctx') \<and>
    cur_i_frame_qp cs' = 40 \<and> qp_i ctx' = 26"
proof -
  have n: "new_to_cur (CID_I_FRAME_QP 40) default_controls \<noteq> default_controls"
    by (simp add: new_to_cur_def default_controls_def)
  have s: "set_ctrl framework_s_ctrl (CID_I_FRAME_QP 40) (default_controls, ex_ctx) =
      Inr (default_controls\<lparr>cur_i_frame_qp := 40\<rparr>, ex_ctx\<lparr>qp_i := 26\<rparr>)"
    by (simp add: ex_control_simps default_controls_def)
  then show ?thesis using controls_lag[OF s n]
    by (simp add: ctx_holds_def current_def default_controls_def)
qed

text \<open>With that, choosing a baseline profile does not keep CABAC out of the stream: after CABAC, then
  the baseline profile and then the constrained one are set, every control is as it should be, yet the
  next frame announces the baseline profile and entropy codes with CABAC.\<close>

theorem cabac_in_baseline:
  "\<exists>cs ctx d d' s p slices. session ideal_hw ex_dev ex_pix ex_tpf ex_sel 320 240 cs ctx d \<and>
    cur_profile cs = PROFILE_CONSTRAINED_BASELINE \<and> cur_entropy_mode cs = ENTROPY_MODE_CAVLC \<and>
    decode (pt_bits (port (snd (snd (ex_frame ctx))))) d = Some (d', slices) \<and>
    dec_sps d' = Some s \<and> sps_profile_idc s = 66 \<and> dec_pps d' = Some p \<and> pps_cabac p"
proof -
  let ?set = "\<lambda>ctrl st. projr (set_ctrl framework_s_ctrl ctrl st)"
  let ?s1 = "?set (CID_ENTROPY_MODE ENTROPY_MODE_CABAC) (default_controls, ex_ctx)"
  let ?s2 = "?set (CID_PROFILE PROFILE_BASELINE) ?s1"
  let ?s3 = "?set (CID_PROFILE PROFILE_CONSTRAINED_BASELINE) ?s2"
  have e1: "?s1 = (default_controls\<lparr>cur_entropy_mode := ENTROPY_MODE_CABAC\<rparr>, ex_ctx)"
    "set_ctrl framework_s_ctrl (CID_ENTROPY_MODE ENTROPY_MODE_CABAC) (default_controls, ex_ctx) = Inr ?s1"
    by (simp_all add: ex_control_simps default_controls_def profile_cabac_check_def step_back_def ex_ctx_def blank_ctx_def
      less_enc_step_def)
  have e2: "?s2 = (default_controls\<lparr>cur_entropy_mode := ENTROPY_MODE_CABAC, cur_profile := PROFILE_BASELINE\<rparr>, ex_ctx)"
    "set_ctrl framework_s_ctrl (CID_PROFILE PROFILE_BASELINE) ?s1 = Inr ?s2"
    unfolding e1(1)
    by (simp_all add: ex_control_simps default_controls_def profile_cabac_check_def step_back_def ex_ctx_def blank_ctx_def
      less_enc_step_def)
  have e3: "cur_profile (fst ?s3) = PROFILE_CONSTRAINED_BASELINE" "cur_entropy_mode (fst ?s3) = ENTROPY_MODE_CAVLC"
    "profile (snd ?s3) = PROFILE_BASELINE" "entropy_mode (snd ?s3) = ENTROPY_MODE_CABAC"
    "set_ctrl framework_s_ctrl (CID_PROFILE PROFILE_CONSTRAINED_BASELINE) ?s2 = Inr ?s3"
    unfolding e2(1)
    by (simp_all add: ex_control_simps default_controls_def profile_cabac_check_def)
  have "session ideal_hw ex_dev ex_pix ex_tpf ex_sel 320 240 (fst ?s1) (snd ?s1) ex_dec"
    by (rule ex_control[OF ex_session _ e1(2)]) (simp add: ctrl_in_range_def)
  then have "session ideal_hw ex_dev ex_pix ex_tpf ex_sel 320 240 (fst ?s2) (snd ?s2) ex_dec"
    by (rule ex_control) (use e2(2) in \<open>simp_all only: prod.collapse, simp add: ctrl_in_range_def\<close>)
  then have s: "session ideal_hw ex_dev ex_pix ex_tpf ex_sel 320 240 (fst ?s3) (snd ?s3) ex_dec"
    by (rule ex_control) (use e3(5) in \<open>simp_all only: prod.collapse, simp add: ctrl_in_range_def\<close>)
  note f = frame_decodes_inv[OF ideal_hw_counts session_invariant(1)[OF s ex_session_ok] ex_frame_eq]
  have k: "profile (fst (ex_frame c)) = profile c" "entropy_mode (fst (ex_frame c)) = entropy_mode c" for c
    by (simp_all add: ex_frame_def encode_frame_alt reference_update_def set_step_def prepared_def)
  have "sps_profile_idc (frame_sps ex_tpf ex_sel (snd ?s3) ex_dec) = 66" "pps_cabac (frame_pps (snd ?s3) ex_dec)"
    using f(3,4) e3(3,4) by (simp_all add: sps_agrees_def pps_agrees_def k profile_idc_def)
  then show ?thesis using s e3(1,2) f(1)[of "[]"] by fastforce
qed

text \<open>C31: the chroma quantiser offset is a counterexample to agreement: its control does not step back
  to the picture parameter set, so when it has been set twice after a first frame, the decoder keeps
  the old offset while the hardware gets another one in \<open>PARA1\<close>, and not even the one that is current;
  the next frame does not send it either.\<close>

theorem chroma_offset_stale:
  "\<exists>cs ctx d p. session ideal_hw ex_dev ex_pix ex_tpf ex_sel 320 240 cs ctx d \<and>
    st_step (state ctx) = STEP_SLICE \<and> dec_pps d = Some p \<and> pps_chroma_qp_offset p = 4 \<and>
    chroma_qp_index_offset ctx = 7 \<and> cur_chroma_qp_index_offset cs = 5 \<and>
    last_write VE_ENC_AVC_PARA1_REG (snd (snd (ex_frame ctx))) =
      Some (para1_value ex_dev ex_pix (next_job ctx)) \<and>
    field 18 16 (para1_value ex_dev ex_pix (next_job ctx)) = 7 \<and>
    st_step (next_state ctx) = STEP_SLICE"
proof -
  let ?c1 = "fst (ex_frame ex_ctx)"
  let ?c2 = "?c1\<lparr>chroma_qp_index_offset := 4\<rparr>" and ?c = "?c1\<lparr>chroma_qp_index_offset := 7\<rparr>"
  let ?k2 = "default_controls\<lparr>cur_chroma_qp_index_offset := 7\<rparr>" and ?k = "default_controls\<lparr>cur_chroma_qp_index_offset := 5\<rparr>"
  let ?d = "ex_dec\<lparr>dec_sps := Some (frame_sps ex_tpf ex_sel ex_ctx ex_dec),
     dec_pps := Some (frame_pps ex_ctx ex_dec)\<rparr>"
  note f = frame_decodes_inv[OF ideal_hw_counts session_invariant(1)[OF ex_session ex_session_ok] ex_frame_eq]
  have "session ideal_hw ex_dev ex_pix ex_tpf ex_sel 320 240 default_controls ?c1 ?d"
    by (rule session.frame[OF ex_session ex_frame_eq f(1)])
  then have "session ideal_hw ex_dev ex_pix ex_tpf ex_sel 320 240 ?k2 ?c2 ?d"
    by (rule session.control[where ctrl = "CID_CHROMA_QP_INDEX_OFFSET 7"])
      (simp_all add: ex_control_simps default_controls_def)
  then have s: "session ideal_hw ex_dev ex_pix ex_tpf ex_sel 320 240 ?k ?c ?d"
    by (rule session.control[where ctrl = "CID_CHROMA_QP_INDEX_OFFSET 5"])
      (simp_all add: ex_control_simps default_controls_def)
  have st: "st_step (state ?c1) = STEP_SLICE" "prepend_sps_pps_idr ?c1 = 0"
    by (simp_all add: ex_frame_def encode_frame_alt reference_update_def set_step_def prepared_def
        ex_ctx_def blank_ctx_def)
  have p: "pps_chroma_qp_offset (frame_pps ex_ctx ex_dec) = 4"
    by (simp add: frame_pps_def next_state_simps ex_ctx_def blank_ctx_def pps_of_def next_job_def Let_def)
  have j: "job_chroma_qp_index_offset (next_job ?c) = 7" by (simp add: next_job_def Let_def)
  have "field 18 16 (para1_value ex_dev ex_pix (next_job ?c)) = 7"
    by (subst field_eq[OF para_bits(7)]) (simp_all add: j)
  then show ?thesis
    using s st p
    by (intro exI[of _ ?k] exI[of _ ?c] exI[of _ ?d] exI[of _ "frame_pps ex_ctx ex_dec"])
      (simp add: next_state_simps ex_frame_def encode_frame_alt para_written)
qed

text \<open>With a GOP size of 1 consecutive frames are IDR frames with the same \<open>idr_pic_id\<close>, which
  clause 7.4.3 of the H.264 specification requires to differ.\<close>

theorem idr_pic_id_repeats:
  "let c = ex_ctx\<lparr>gop_size := 1\<rparr>; c' = after_frames (\<lambda>_. ex_buf) c 1
   in sh_idr_pic_id (slice_of (next_job c)) = Some 0 \<and>
      sh_idr_pic_id (slice_of (next_job c')) = Some 0"
proof -
  have t: "next_type (after_frames (\<lambda>_. ex_buf) (ex_ctx\<lparr>gop_size := 1\<rparr>) n) = FRAME_TYPE_IDR" for n
    by (subst closed_gop_type) (simp_all add: ex_ctx_def blank_ctx_def)
  show ?thesis using t[of 0] t[of 1] by (simp add: Let_def slice_of_def next_job_fields)
qed

end
