(* ===== verification/Jpeg_Encoder.thy ===== *)
theory Jpeg_Encoder
  imports Cedrus_Regs
begin

text \<open>The JPEG encoder of the H618 (\<open>cedrus_enc_jpeg.c\<close> and \<open>cedrus_enc_jpeg_tables.h\<close>):
  the control, the quantisation tables of a job, the registers, finishing a job, and the software
  that wraps the hardware's entropy-coded bytes into a JPEG file in the capture buffer.\<close>

section \<open>Tables\<close>

definition jpeg_luma_quant_base :: "u8 list" where
  "jpeg_luma_quant_base = [
    0x10, 0x0b, 0x0a, 0x10, 0x18, 0x28, 0x33, 0x3d, 0x0c, 0x0c, 0x0e, 0x13,
    0x1a, 0x3a, 0x3c, 0x37, 0x0e, 0x0d, 0x10, 0x18, 0x28, 0x39, 0x45, 0x38,
    0x0e, 0x11, 0x16, 0x1d, 0x33, 0x57, 0x50, 0x3e, 0x12, 0x16, 0x25, 0x38,
    0x44, 0x6d, 0x67, 0x4d, 0x18, 0x23, 0x37, 0x40, 0x51, 0x68, 0x71, 0x5c,
    0x31, 0x40, 0x4e, 0x57, 0x67, 0x79, 0x78, 0x65, 0x48, 0x5c, 0x5f, 0x62,
    0x70, 0x64, 0x67, 0x63]"

definition jpeg_chroma_quant_base :: "u8 list" where
  "jpeg_chroma_quant_base = [
    0x11, 0x12, 0x18, 0x2f, 0x63, 0x63, 0x63, 0x63, 0x12, 0x15, 0x1a, 0x42,
    0x63, 0x63, 0x63, 0x63, 0x18, 0x1a, 0x38, 0x63, 0x63, 0x63, 0x63, 0x63,
    0x2f, 0x42, 0x63, 0x63, 0x63, 0x63, 0x63, 0x63, 0x63, 0x63, 0x63, 0x63,
    0x63, 0x63, 0x63, 0x63, 0x63, 0x63, 0x63, 0x63, 0x63, 0x63, 0x63, 0x63,
    0x63, 0x63, 0x63, 0x63, 0x63, 0x63, 0x63, 0x63, 0x63, 0x63, 0x63, 0x63,
    0x63, 0x63, 0x63, 0x63]"

definition jpeg_zigzag :: "nat list" where
  "jpeg_zigzag = [
    0x00, 0x01, 0x08, 0x10, 0x09, 0x02, 0x03, 0x0a, 0x11, 0x18, 0x20, 0x19,
    0x12, 0x0b, 0x04, 0x05, 0x0c, 0x13, 0x1a, 0x21, 0x28, 0x30, 0x29, 0x22,
    0x1b, 0x14, 0x0d, 0x06, 0x07, 0x0e, 0x15, 0x1c, 0x23, 0x2a, 0x31, 0x38,
    0x39, 0x32, 0x2b, 0x24, 0x1d, 0x16, 0x0f, 0x17, 0x1e, 0x25, 0x2c, 0x33,
    0x3a, 0x3b, 0x34, 0x2d, 0x26, 0x1f, 0x27, 0x2e, 0x35, 0x3c, 0x3d, 0x36,
    0x2f, 0x37, 0x3e, 0x3f]"

definition jpeg_dht :: "u8 list" where
  "jpeg_dht = [
    0xff, 0xc4, 0x00, 0x1f, 0x00, 0x00, 0x01, 0x05, 0x01, 0x01, 0x01, 0x01,
    0x01, 0x01, 0x00, 0x00, 0x00, 0x00, 0x00, 0x00, 0x00, 0x00, 0x01, 0x02,
    0x03, 0x04, 0x05, 0x06, 0x07, 0x08, 0x09, 0x0a, 0x0b, 0xff, 0xc4, 0x00,
    0xb5, 0x10, 0x00, 0x02, 0x01, 0x03, 0x03, 0x02, 0x04, 0x03, 0x05, 0x05,
    0x04, 0x04, 0x00, 0x00, 0x01, 0x7d, 0x01, 0x02, 0x03, 0x00, 0x04, 0x11,
    0x05, 0x12, 0x21, 0x31, 0x41, 0x06, 0x13, 0x51, 0x61, 0x07, 0x22, 0x71,
    0x14, 0x32, 0x81, 0x91, 0xa1, 0x08, 0x23, 0x42, 0xb1, 0xc1, 0x15, 0x52,
    0xd1, 0xf0, 0x24, 0x33, 0x62, 0x72, 0x82, 0x09, 0x0a, 0x16, 0x17, 0x18,
    0x19, 0x1a, 0x25, 0x26, 0x27, 0x28, 0x29, 0x2a, 0x34, 0x35, 0x36, 0x37,
    0x38, 0x39, 0x3a, 0x43, 0x44, 0x45, 0x46, 0x47, 0x48, 0x49, 0x4a, 0x53,
    0x54, 0x55, 0x56, 0x57, 0x58, 0x59, 0x5a, 0x63, 0x64, 0x65, 0x66, 0x67,
    0x68, 0x69, 0x6a, 0x73, 0x74, 0x75, 0x76, 0x77, 0x78, 0x79, 0x7a, 0x83,
    0x84, 0x85, 0x86, 0x87, 0x88, 0x89, 0x8a, 0x92, 0x93, 0x94, 0x95, 0x96,
    0x97, 0x98, 0x99, 0x9a, 0xa2, 0xa3, 0xa4, 0xa5, 0xa6, 0xa7, 0xa8, 0xa9,
    0xaa, 0xb2, 0xb3, 0xb4, 0xb5, 0xb6, 0xb7, 0xb8, 0xb9, 0xba, 0xc2, 0xc3,
    0xc4, 0xc5, 0xc6, 0xc7, 0xc8, 0xc9, 0xca, 0xd2, 0xd3, 0xd4, 0xd5, 0xd6,
    0xd7, 0xd8, 0xd9, 0xda, 0xe1, 0xe2, 0xe3, 0xe4, 0xe5, 0xe6, 0xe7, 0xe8,
    0xe9, 0xea, 0xf1, 0xf2, 0xf3, 0xf4, 0xf5, 0xf6, 0xf7, 0xf8, 0xf9, 0xfa,
    0xff, 0xc4, 0x00, 0x1f, 0x01, 0x00, 0x03, 0x01, 0x01, 0x01, 0x01, 0x01,
    0x01, 0x01, 0x01, 0x01, 0x00, 0x00, 0x00, 0x00, 0x00, 0x00, 0x01, 0x02,
    0x03, 0x04, 0x05, 0x06, 0x07, 0x08, 0x09, 0x0a, 0x0b, 0xff, 0xc4, 0x00,
    0xb5, 0x11, 0x00, 0x02, 0x01, 0x02, 0x04, 0x04, 0x03, 0x04, 0x07, 0x05,
    0x04, 0x04, 0x00, 0x01, 0x02, 0x77, 0x00, 0x01, 0x02, 0x03, 0x11, 0x04,
    0x05, 0x21, 0x31, 0x06, 0x12, 0x41, 0x51, 0x07, 0x61, 0x71, 0x13, 0x22,
    0x32, 0x81, 0x08, 0x14, 0x42, 0x91, 0xa1, 0xb1, 0xc1, 0x09, 0x23, 0x33,
    0x52, 0xf0, 0x15, 0x62, 0x72, 0xd1, 0x0a, 0x16, 0x24, 0x34, 0xe1, 0x25,
    0xf1, 0x17, 0x18, 0x19, 0x1a, 0x26, 0x27, 0x28, 0x29, 0x2a, 0x35, 0x36,
    0x37, 0x38, 0x39, 0x3a, 0x43, 0x44, 0x45, 0x46, 0x47, 0x48, 0x49, 0x4a,
    0x53, 0x54, 0x55, 0x56, 0x57, 0x58, 0x59, 0x5a, 0x63, 0x64, 0x65, 0x66,
    0x67, 0x68, 0x69, 0x6a, 0x73, 0x74, 0x75, 0x76, 0x77, 0x78, 0x79, 0x7a,
    0x82, 0x83, 0x84, 0x85, 0x86, 0x87, 0x88, 0x89, 0x8a, 0x92, 0x93, 0x94,
    0x95, 0x96, 0x97, 0x98, 0x99, 0x9a, 0xa2, 0xa3, 0xa4, 0xa5, 0xa6, 0xa7,
    0xa8, 0xa9, 0xaa, 0xb2, 0xb3, 0xb4, 0xb5, 0xb6, 0xb7, 0xb8, 0xb9, 0xba,
    0xc2, 0xc3, 0xc4, 0xc5, 0xc6, 0xc7, 0xc8, 0xc9, 0xca, 0xd2, 0xd3, 0xd4,
    0xd5, 0xd6, 0xd7, 0xd8, 0xd9, 0xda, 0xe2, 0xe3, 0xe4, 0xe5, 0xe6, 0xe7,
    0xe8, 0xe9, 0xea, 0xf2, 0xf3, 0xf4, 0xf5, 0xf6, 0xf7, 0xf8, 0xf9, 0xfa]"


section \<open>Control and job preparation\<close>

record jpeg_context =
  jctx_quality :: int

record jpeg_job =
  jjob_quality :: u32
  jjob_quant :: "u8 list list"
  jjob_header_size :: u32

definition zero_jpeg_job :: jpeg_job where
  "zero_jpeg_job = \<lparr>jjob_quality = 0, jjob_quant = [replicate 64 0, replicate 64 0],
    jjob_header_size = 0\<rparr>"

text \<open>A control whose value is set, with its new and its current value (\<open>ctrl->val\<close>, \<open>ctrl->cur.val\<close>).
  The control framework makes the new value the current one after the driver's callback has returned,
  so the quality the callback stores is the one before.\<close>

datatype jpeg_ctrl = CID_JPEG_COMPRESSION_QUALITY (jctrl_val: int) (jctrl_cur: int) | CID_JPEG_OTHER

definition jpeg_ctrl_prepare :: "jpeg_ctrl \<Rightarrow> jpeg_context option \<Rightarrow> jpeg_context option" where
  "jpeg_ctrl_prepare ctrl octx = (case octx of
     None \<Rightarrow> None
   | Some ctx \<Rightarrow> Some (case ctrl of
       CID_JPEG_COMPRESSION_QUALITY _ cur \<Rightarrow> ctx\<lparr>jctx_quality := cur\<rparr>
     | CID_JPEG_OTHER \<Rightarrow> ctx))"

definition jpeg_scale :: "u32 \<Rightarrow> u32" where
  "jpeg_scale quality = (if quality < 50 then 5000 div quality else 200 - 2 * quality)"

definition jpeg_quant :: "u32 \<Rightarrow> u8 \<Rightarrow> u8" where
  "jpeg_quant scale base =
    (let quant = (ucast base * scale + 50) div 100 in ucast (clamp quant 1 255))"

definition jpeg_job_prepare :: "jpeg_context \<Rightarrow> jpeg_job \<Rightarrow> jpeg_job" where
  "jpeg_job_prepare ctx job =
    (let quality = clamp (word_of_int (jctx_quality ctx)) 1 100;
         scale = jpeg_scale quality
     in job\<lparr>jjob_quality := quality,
       jjob_quant := [map (jpeg_quant scale) jpeg_luma_quant_base,
         map (jpeg_quant scale) jpeg_chroma_quant_base]\<rparr>)"

section \<open>Writing the header\<close>

record jpeg_header =
  hdr_data :: "u8 list"
  hdr_size :: nat
  hdr_position :: nat

text \<open>A call that returns an error code (\<open>None\<close> for 0) and the header as it leaves it; \<open>jseq\<close> is
  the \<open>if (ret) return ret\<close> chain.\<close>

type_synonym jpeg_put = "jpeg_header \<Rightarrow> errno option \<times> jpeg_header"

definition jseq :: "jpeg_put \<Rightarrow> jpeg_put \<Rightarrow> jpeg_put" where
  "jseq f g h = (case f h of (Some e, h) \<Rightarrow> (Some e, h) | (None, h) \<Rightarrow> g h)"

definition put_byte :: "u8 \<Rightarrow> jpeg_put" where
  "put_byte byte h =
    (if hdr_size h \<le> hdr_position h then (Some ENOSPC, h)
     else (None, h\<lparr>hdr_data := (hdr_data h)[hdr_position h := byte],
       hdr_position := hdr_position h + 1\<rparr>))"

primrec put_array :: "u8 list \<Rightarrow> jpeg_put" where
  "put_array [] h = (None, h)"
| "put_array (b # bs) h = jseq (put_byte b) (put_array bs) h"

definition put_u16 :: "u16 \<Rightarrow> jpeg_put" where
  "put_u16 value = jseq (put_byte (ucast (drop_bit 8 value))) (put_byte (ucast value))"

definition soi_app0 :: "u8 list" where
  "soi_app0 = [0xff, 0xd8, 0xff, 0xe0, 0x00, 0x10, 0x4a, 0x46, 0x49, 0x46, 0x00,
     0x01, 0x01, 0x00, 0x00, 0x01, 0x00, 0x01, 0x00, 0x00]"

definition sos :: "u8 list" where
  "sos = [0xff, 0xda, 0x00, 0x0c, 0x03, 0x01, 0x00, 0x02, 0x11, 0x03, 0x11, 0x00, 0x3f, 0x00]"

definition sof0 :: "u8 list" where
  "sof0 = [0xff, 0xc0, 0x00, 0x11, 0x08]"

definition dqt :: "u8 list" where
  "dqt = [0xff, 0xdb, 0x00, 0x43]"

definition put_quant_table :: "u8 \<Rightarrow> u8 list \<Rightarrow> jpeg_put" where
  "put_quant_table table quant =
    jseq (put_array dqt) (jseq (put_byte table)
      (put_array (map (\<lambda>i. quant ! i) jpeg_zigzag)))"

definition put_header :: "pix_format \<Rightarrow> u8 list list \<Rightarrow> jpeg_put" where
  "put_header pix quant =
    jseq (put_array soi_app0)
   (jseq (put_quant_table 0 (quant ! 0))
   (jseq (put_quant_table 1 (quant ! 1))
   (jseq (put_array sof0)
   (jseq (put_u16 (ucast (pix_height pix)))
   (jseq (put_u16 (ucast (pix_width pix)))
   (jseq (put_array [0x03, 0x01, 0x22, 0x00, 0x02, 0x11, 0x01, 0x03, 0x11, 0x01])
   (jseq (put_array jpeg_dht)
     (put_array sos))))))))"

section \<open>Registers\<close>

definition JPEG_HEADER_SIZE :: u32 where
  "JPEG_HEADER_SIZE = 623"

definition quant_word :: "u8 \<Rightarrow> u32" where
  "quant_word quant =
    (let reciprocal = 65536 div ucast quant :: u32;
         reciprocal = (if reciprocal < 65535 then reciprocal + 1 else 65535)
     in push_bit 16 (drop_bit 1 (ucast quant)) OR reciprocal)"

definition jpeg_job_configure :: "cedrus_device \<Rightarrow> pix_format \<Rightarrow> u64 \<times> u32 \<Rightarrow> jpeg_job \<Rightarrow> io_log \<Rightarrow>
    errno option \<times> jpeg_job \<times> io_log" where
  "jpeg_job_configure dev pix coded job log =
    (if dev_enc_addr_shift dev = 0 then (Some EOPNOTSUPP, job, log)
     else (let log = writes [(VE_ENC_AVC_STARTTRIG_REG, VE_ENC_AVC_STARTTRIG_ENCODE_MODE_JPEG),
                 (VE_ENC_AVC_PIC_INFO_REG,
                  push_bit 16 ((pix_width pix + 7) div 8) OR ((pix_height pix + 7) div 8))] log;
               (addr, sz) = coded
       in if sz < JPEG_HEADER_SIZE + 1024 \<or> 0xffffffff div 8 < sz then (Some EINVAL, job, log)
          else (None, job\<lparr>jjob_header_size := JPEG_HEADER_SIZE\<rparr>,
            writes
              ([(VE_ENC_AVC_STM_START_ADDR_REG, cedrus_enc_dma_addr dev addr),
                (VE_ENC_AVC_STM_END_ADDR_REG, cedrus_enc_dma_addr dev (addr + ucast sz - 1)),
                (VE_ENC_AVC_STM_BIT_OFFSET_REG, 0),
                (VE_ENC_AVC_STM_BIT_MAX_REG, sz * 8),
                (VE_ENC_AVC_STM_BIT_LEN_REG, 0),
                (VE_ENC_AVC_HEADER_BITS_REG, 0),
                (VE_ENC_AVC_RESIDUAL_BITS_REG, 0),
                (VE_ENC_AVC_PARA1_REG, 0xc0000000),
                (VE_ENC_AVC_INT_EN_REG, 0xf),
                (VE_ENC_AVC_STATUS_REG, 0x7),
                (VE_ENC_AVC_PARA0_REG, 0xc0000000 OR
                   push_bit 16 (1024 div ucast (jjob_quant job ! 1 ! 0)) OR
                   (1024 div ucast (jjob_quant job ! 0 ! 0))),
                (VE_ENC_AVC_SRAM_OFFSET_REG, 0)] @
               map (\<lambda>q. (VE_ENC_AVC_SRAM_DATA_REG, quant_word q))
                 (jjob_quant job ! 0 @ jjob_quant job ! 1)) log)))"

definition jpeg_job_trigger :: "pix_format \<Rightarrow> io_log \<Rightarrow> io_log" where
  "jpeg_job_trigger pix log =
    (let value = BIT 25 OR push_bit 16 ((pix_height pix + 15) div 16) OR VE_ENC_AVC_INT_EN_VALUE
     in writes [(VE_ENC_AVC_INT_EN_REG, value),
          (VE_ENC_AVC_STARTTRIG_REG,
           VE_ENC_AVC_STARTTRIG_ENCODE_MODE_JPEG OR VE_ENC_AVC_STARTTRIG_TYPE_ENC_START)] log)"

definition jpeg_irq_status :: "hw_read \<Rightarrow> io_log \<Rightarrow> cedrus_irq_status" where
  "jpeg_irq_status hw log =
    (let status = cedrus_read hw VE_ENC_AVC_STATUS_REG log
     in if status AND VE_ENC_AVC_STATUS_MASK = 0 then CEDRUS_IRQ_NONE
        else if status AND VE_ENC_AVC_STATUS_FINISH \<noteq> 0 then CEDRUS_IRQ_SUCCESS
        else CEDRUS_IRQ_ERROR)"

definition jpeg_irq_clear :: "io_log \<Rightarrow> io_log" where
  "jpeg_irq_clear log = cedrus_write VE_ENC_AVC_STATUS_REG VE_ENC_AVC_STATUS_MASK log"

definition jpeg_irq_disable :: "io_log \<Rightarrow> io_log" where
  "jpeg_irq_disable log = cedrus_write VE_ENC_AVC_INT_EN_REG 0 log"

section \<open>Finishing\<close>

record jpeg_buffer =
  jbuf_quant :: "u8 list list"
  jbuf_header_size :: u32

text \<open>\<open>vb2_plane_size\<close> is an \<open>unsigned long\<close>: the subtraction is done in 64 bits.\<close>

definition room_for :: "coded_buffer \<Rightarrow> u32 \<Rightarrow> u64" where
  "room_for buf header_size = word_of_nat (plane_size buf) - ucast header_size - 2"

definition jpeg_error :: "coded_buffer \<Rightarrow> coded_buffer" where
  "jpeg_error buf = buf\<lparr>plane_payload := 0, buf_flags := insert FLAG_ERROR (buf_flags buf)\<rparr>"

definition jpeg_job_finish :: "hw_read \<Rightarrow> bool \<Rightarrow> jpeg_job \<Rightarrow> io_log \<Rightarrow>
    jpeg_buffer option \<Rightarrow> coded_buffer \<Rightarrow> jpeg_buffer option \<times> coded_buffer" where
  "jpeg_job_finish hw state_done job log jbuf buf =
    (if \<not> state_done \<or> jbuf = None then (jbuf, buf\<lparr>plane_payload := 0\<rparr>)
     else (let jbuf = Some \<lparr>jbuf_quant = jjob_quant job, jbuf_header_size = jjob_header_size job\<rparr>;
               len = cedrus_read hw VE_ENC_AVC_STM_BIT_LEN_REG log
       in if len AND 7 \<noteq> 0 \<or> room_for buf (jjob_header_size job) < ucast (len div 8)
          then (jbuf, jpeg_error buf)
          else (jbuf, buf\<lparr>plane_payload := unat (len div 8),
            buf_flags := insert FLAG_KEYFRAME (buf_flags buf)\<rparr>)))"

definition mem_move :: "nat \<Rightarrow> nat \<Rightarrow> nat \<Rightarrow> u8 list \<Rightarrow> u8 list" where
  "mem_move dst src n bs = take dst bs @ take n (drop src bs) @ drop (dst + n) bs"

text \<open>\<open>coded\<close> is the mapping of the plane, \<open>None\<close> when there is none; the result is the buffer and
  the bytes of the plane.\<close>

definition jpeg_buffer_finish :: "pix_format \<Rightarrow> bool \<Rightarrow> jpeg_buffer option \<Rightarrow> coded_buffer \<Rightarrow>
    u8 list option \<Rightarrow> coded_buffer \<times> u8 list option" where
  "jpeg_buffer_finish pix state_done jbuf buf coded = (case jbuf of
     None \<Rightarrow> (buf, coded)
   | Some jb \<Rightarrow>
       if jbuf_header_size jb \<noteq> JPEG_HEADER_SIZE \<or> \<not> state_done \<or> FLAG_ERROR \<in> buf_flags buf
       then (buf, coded)
       else (case coded of
           None \<Rightarrow> (jpeg_error buf, None)
         | Some bytes \<Rightarrow>
             let len = word_of_nat (plane_payload buf) :: u32
             in if room_for buf (jbuf_header_size jb) < ucast len then (jpeg_error buf, Some bytes)
                else (let n = unat len; hs = unat (jbuf_header_size jb);
                          bytes = mem_move hs 0 n bytes;
                          (ret, h) = put_header pix (jbuf_quant jb)
                            \<lparr>hdr_data = bytes, hdr_size = hs, hdr_position = 0\<rparr>;
                          bytes = hdr_data h
                  in if ret \<noteq> None \<or> hdr_position h \<noteq> hs then (jpeg_error buf, Some bytes)
                     else (let n = n + hs;
                               bytes = bytes[n := 0xff, n + 1 := 0xd9]
                       in (buf\<lparr>plane_payload := n + 2\<rparr>, Some bytes)))))"

section \<open>The writers\<close>

definition hdr_wf :: "jpeg_header \<Rightarrow> bool" where
  "hdr_wf h = (hdr_position h \<le> hdr_size h \<and> hdr_size h \<le> length (hdr_data h))"

lemma jseq_assoc: "jseq (jseq f g) k = jseq f (jseq g k)"
  by (rule ext) (auto simp: jseq_def split: prod.splits option.splits)

lemma put_byte_array: "put_byte b = put_array [b]"
  by (rule ext) (simp add: jseq_def put_byte_def)

lemma put_array_append: "put_array (as @ bs) = jseq (put_array as) (put_array bs)"
proof (induction as)
  case Nil
  then show ?case by (rule_tac ext) (simp add: jseq_def)
next
  case (Cons a as)
  have "put_array ((a # as) @ bs) h = jseq (jseq (put_byte a) (put_array as)) (put_array bs) h" for h
    by (simp add: Cons jseq_assoc)
  then show ?case by (rule_tac ext) (simp add: jseq_def split: prod.splits option.splits)
qed

lemma put_array_ok:
  assumes "hdr_wf h" "hdr_position h + length bs \<le> hdr_size h"
  shows "put_array bs h = (None, h\<lparr>
      hdr_data := take (hdr_position h) (hdr_data h) @ bs @ drop (hdr_position h + length bs) (hdr_data h),
      hdr_position := hdr_position h + length bs\<rparr>)"
  using assms
proof (induction bs arbitrary: h)
  case (Cons b bs)
  let ?h = "h\<lparr>hdr_data := (hdr_data h)[hdr_position h := b], hdr_position := hdr_position h + 1\<rparr>"
  have p: "hdr_position h < length (hdr_data h)" using Cons.prems by (simp add: hdr_wf_def)
  have "put_array (b # bs) h = put_array bs ?h"
    using Cons.prems by (simp add: jseq_def put_byte_def)
  also have "\<dots> = (None, ?h\<lparr>
      hdr_data := take (hdr_position ?h) (hdr_data ?h) @ bs @ drop (hdr_position ?h + length bs) (hdr_data ?h),
      hdr_position := hdr_position ?h + length bs\<rparr>)"
    using Cons.prems by (intro Cons.IH) (simp_all add: hdr_wf_def)
  finally show ?case using p by (simp add: take_Suc_conv_app_nth)
qed simp

lemma put_array_full:
  assumes "hdr_wf h" "hdr_size h < hdr_position h + length bs"
  shows "\<exists>h'. put_array bs h = (Some ENOSPC, h') \<and> hdr_position h' = hdr_size h \<and>
    length (hdr_data h') = length (hdr_data h) \<and>
    drop (hdr_size h) (hdr_data h') = drop (hdr_size h) (hdr_data h)"
  using assms
proof (induction bs arbitrary: h)
  case (Cons b bs)
  let ?h = "h\<lparr>hdr_data := (hdr_data h)[hdr_position h := b], hdr_position := hdr_position h + 1\<rparr>"
  show ?case
  proof (cases "hdr_size h \<le> hdr_position h")
    case True
    then show ?thesis using Cons.prems by (auto simp: jseq_def put_byte_def hdr_wf_def)
  next
    case False
    then have "put_array (b # bs) h = put_array bs ?h" by (simp add: jseq_def put_byte_def)
    then show ?thesis
      using Cons.IH[of ?h] Cons.prems False by (simp add: hdr_wf_def)
  qed
qed (simp add: hdr_wf_def)

definition zigzagged :: "u8 list \<Rightarrow> u8 list" where
  "zigzagged quant = map (\<lambda>i. quant ! i) jpeg_zigzag"

definition u16_bytes :: "u16 \<Rightarrow> u8 list" where
  "u16_bytes v = [ucast (drop_bit 8 v), ucast v]"

text \<open>The bytes of the header.\<close>

definition header_bytes :: "pix_format \<Rightarrow> u8 list list \<Rightarrow> u8 list" where
  "header_bytes pix quant =
    soi_app0 @ dqt @ [0] @ zigzagged (quant ! 0) @ dqt @ [1] @ zigzagged (quant ! 1) @ sof0 @
    u16_bytes (ucast (pix_height pix)) @ u16_bytes (ucast (pix_width pix)) @
    [0x03, 0x01, 0x22, 0x00, 0x02, 0x11, 0x01, 0x03, 0x11, 0x01] @ jpeg_dht @ sos"

lemma put_header_bytes: "put_header pix quant = put_array (header_bytes pix quant)"
proof -
  have u: "put_u16 v = put_array (u16_bytes v)" for v
    unfolding put_u16_def u16_bytes_def put_byte_array put_array_append[symmetric]
    by (simp del: put_array.simps)
  show ?thesis
    by (simp only: put_header_def header_bytes_def put_quant_table_def put_array_append u
        put_byte_array zigzagged_def jseq_assoc)
qed

lemma length_header_bytes: "length (header_bytes pix quant) = 623"
  by (simp add: header_bytes_def zigzagged_def u16_bytes_def soi_app0_def dqt_def sof0_def sos_def
      jpeg_zigzag_def jpeg_dht_def)

text \<open>The header writer never writes outside its window.  With at least 623 bytes it
  succeeds and the data starts with exactly the 623 bytes of the header, with less it returns
  \<open>ENOSPC\<close>; in both cases nothing at or after the end of the window changes.\<close>

theorem header_written:
  assumes "hdr_position h = 0" "hdr_size h \<le> length (hdr_data h)"
  shows "case put_header pix quant h of (ret, h') \<Rightarrow>
    length (hdr_data h') = length (hdr_data h) \<and>
    drop (hdr_size h) (hdr_data h') = drop (hdr_size h) (hdr_data h) \<and>
    (if 623 \<le> hdr_size h
     then ret = None \<and> hdr_position h' = 623 \<and>
       hdr_data h' = header_bytes pix quant @ drop 623 (hdr_data h)
     else ret = Some ENOSPC \<and> hdr_position h' = hdr_size h)"
proof (cases "623 \<le> hdr_size h")
  case True
  then show ?thesis
    using put_array_ok[of h "header_bytes pix quant"] assms
    by (simp add: put_header_bytes hdr_wf_def length_header_bytes)
next
  case False
  then show ?thesis
    using put_array_full[of h "header_bytes pix quant"] assms
    by (auto simp: put_header_bytes hdr_wf_def length_header_bytes)
qed

section \<open>Reading a JPEG file (T.81 annex B)\<close>

function jpeg_segments :: "u8 list \<Rightarrow> ((u8 \<times> u8 list) list \<times> u8 list) option" where
  "jpeg_segments bs = (case bs of
     ff # marker # hi # lo # r \<Rightarrow>
       let n = 256 * unat hi + unat lo
       in if ff \<noteq> 0xff \<or> n < 2 \<or> length r < n - 2 then None
          else if marker = 0xda then Some ([(marker, take (n - 2) r)], drop (n - 2) r)
          else map_option (\<lambda>(ss, e). ((marker, take (n - 2) r) # ss, e)) (jpeg_segments (drop (n - 2) r))
   | _ \<Rightarrow> None)"
  by pat_completeness auto

termination
  by (relation "measure length") simp_all

declare jpeg_segments.simps [simp del]

definition jpeg_parse :: "u8 list \<Rightarrow> ((u8 \<times> u8 list) list \<times> u8 list) option" where
  "jpeg_parse bs = (case bs of a # b # r \<Rightarrow> if a = 0xff \<and> b = 0xd8 then jpeg_segments r else None
     | _ \<Rightarrow> None)"

text \<open>The zigzag order of T.81 figure A.6, diagonal by diagonal.\<close>

definition zigzag_order :: "nat list" where
  "zigzag_order = concat (map (\<lambda>d. map (\<lambda>(r, c). 8 * r + c)
     ((if odd d then id else rev) [(r, d - r). r \<leftarrow> [0..<8], r \<le> d \<and> d - r < 8])) [0..<15])"

lemma jpeg_zigzag_order: "jpeg_zigzag = zigzag_order"
  unfolding jpeg_zigzag_def by code_simp

definition dezigzag :: "u8 list \<Rightarrow> u8 list" where
  "dezigzag zz = fold (\<lambda>i q. q[zigzag_order ! i := zz ! i]) [0..<64] (replicate 64 0)"

lemma fold_upd_nth:
  assumes "distinct (map f is)" "\<forall>i\<in>set is. f i < length q"
  shows "length (fold (\<lambda>i q. q[f i := g i]) is q) = length q \<and>
    (\<forall>i\<in>set is. fold (\<lambda>i q. q[f i := g i]) is q ! f i = g i) \<and>
    (\<forall>j. j \<notin> f ` set is \<longrightarrow> fold (\<lambda>i q. q[f i := g i]) is q ! j = q ! j)"
  using assms
proof (induction "is" arbitrary: q)
  case (Cons a as)
  then show ?case by (auto simp: nth_list_update)
qed simp

lemma zigzag_perm: "distinct jpeg_zigzag \<and> set jpeg_zigzag = {0..<64} \<and> length jpeg_zigzag = 64"
  unfolding jpeg_zigzag_def by (simp, code_simp)

lemma dezigzag_zigzagged:
  assumes "length q = 64"
  shows "dezigzag (zigzagged q) = q"
proof -
  note z = zigzag_perm
  have d: "distinct (map (\<lambda>i. jpeg_zigzag ! i) [0..<64])"
    using z by (metis map_nth)
  let ?r = "fold (\<lambda>i r. r[jpeg_zigzag ! i := zigzagged q ! i]) [0..<64] (replicate 64 (0::u8))"
  have b: "\<forall>i\<in>set [0..<64]. jpeg_zigzag ! i < length (replicate 64 (0::u8))"
    using z by (metis atLeastLessThan_iff length_replicate nth_mem set_upt)
  note f = fold_upd_nth[OF d b, of "\<lambda>i. zigzagged q ! i"]
  have "?r = q"
  proof (rule nth_equalityI)
    show "length ?r = length q" using f assms by simp
    fix j assume "j < length ?r"
    then have "j \<in> set jpeg_zigzag" using f z by simp
    then obtain i where "i < 64" "j = jpeg_zigzag ! i" using z by (metis in_set_conv_nth)
    then show "?r ! j = q ! j" using f z by (simp add: zigzagged_def)
  qed
  then show ?thesis by (simp add: dezigzag_def jpeg_zigzag_order)
qed

text \<open>A Huffman table segment: one table of canonical code lengths that fits its values and leaves
  the all-ones code unused.\<close>

definition dht_ok :: "u8 list \<Rightarrow> bool" where
  "dht_ok pl = (let counts = map unat (take 16 (drop 1 pl)); vals = drop 17 pl
     in 17 \<le> length pl \<and> sum_list counts = length vals \<and> distinct vals \<and>
        sum_list (map (\<lambda>i. counts ! i * 2 ^ (15 - i)) [0..<16]) < 2 ^ 16)"

definition dht_segment :: "nat \<Rightarrow> u8 list" where
  "dht_segment k = (if k = 0 then take 29 (drop 4 jpeg_dht) else if k = 1 then take 179 (drop 37 jpeg_dht)
     else if k = 2 then take 29 (drop 220 jpeg_dht) else drop 253 jpeg_dht)"

lemma jpeg_dht_segments:
  "jpeg_dht = [0xff, 0xc4, 0x00, 0x1f] @ dht_segment 0 @ [0xff, 0xc4, 0x00, 0xb5] @ dht_segment 1 @
     [0xff, 0xc4, 0x00, 0x1f] @ dht_segment 2 @ [0xff, 0xc4, 0x00, 0xb5] @ dht_segment 3"
  "length (dht_segment 0) = 29" "length (dht_segment 1) = 179"
  "length (dht_segment 2) = 29" "length (dht_segment 3) = 179"
  by (simp_all add: dht_segment_def jpeg_dht_def)

lemma dht_segments_ok: "k < 4 \<Longrightarrow> dht_ok (dht_segment k)"
proof -
  have "dht_ok (dht_segment 0)" "dht_ok (dht_segment 1)" "dht_ok (dht_segment 2)" "dht_ok (dht_segment 3)"
    unfolding dht_ok_def dht_segment_def jpeg_dht_def
    by (simp_all add: upt_rec numeral_2_eq_2[symmetric])
  moreover assume "k < 4"
  then have "k = 0 \<or> k = 1 \<or> k = 2 \<or> k = 3" by auto
  ultimately show ?thesis by auto
qed

lemma jpeg_segments_step:
  assumes "256 * unat hi + unat lo = length pl + 2" "marker \<noteq> 0xda"
  shows "jpeg_segments (0xff # marker # hi # lo # (pl @ r)) =
    map_option (\<lambda>(ss, e). ((marker, pl) # ss, e)) (jpeg_segments r)"
  using assms by (subst jpeg_segments.simps) (simp add: Let_def)

lemma jpeg_segments_sos:
  assumes "256 * unat hi + unat lo = length pl + 2"
  shows "jpeg_segments (0xff # 0xda # hi # lo # (pl @ r)) = Some ([(0xda, pl)], r)"
  using assms by (subst jpeg_segments.simps) (simp add: Let_def)

definition app0_payload :: "u8 list" where
  "app0_payload = drop 6 soi_app0"

definition sof0_payload :: "pix_format \<Rightarrow> u8 list" where
  "sof0_payload pix = 8 # u16_bytes (ucast (pix_height pix)) @ u16_bytes (ucast (pix_width pix)) @
    [0x03, 0x01, 0x22, 0x00, 0x02, 0x11, 0x01, 0x03, 0x11, 0x01]"

definition sof_size :: "u8 list \<Rightarrow> nat \<times> nat" where
  "sof_size pl = (256 * unat (pl ! 3) + unat (pl ! 4), 256 * unat (pl ! 1) + unat (pl ! 2))"

lemma header_parses:
  "jpeg_parse (header_bytes pix quant @ data) = Some (
    [(0xe0, app0_payload), (0xdb, 0 # zigzagged (quant ! 0)), (0xdb, 1 # zigzagged (quant ! 1)),
     (0xc0, sof0_payload pix), (0xc4, dht_segment 0), (0xc4, dht_segment 1), (0xc4, dht_segment 2),
     (0xc4, dht_segment 3), (0xda, drop 4 sos)], data)"
proof -
  have e: "header_bytes pix quant @ data = 0xff # 0xd8 #
     (0xff # 0xe0 # 0 # 0x10 # (app0_payload @
     (0xff # 0xdb # 0 # 0x43 # ((0 # zigzagged (quant ! 0)) @
     (0xff # 0xdb # 0 # 0x43 # ((1 # zigzagged (quant ! 1)) @
     (0xff # 0xc0 # 0 # 0x11 # (sof0_payload pix @
     (0xff # 0xc4 # 0 # 0x1f # (dht_segment 0 @
     (0xff # 0xc4 # 0 # 0xb5 # (dht_segment 1 @
     (0xff # 0xc4 # 0 # 0x1f # (dht_segment 2 @
     (0xff # 0xc4 # 0 # 0xb5 # (dht_segment 3 @
     (0xff # 0xda # 0 # 0x0c # (drop 4 sos @ data))))))))))))))))))"
    unfolding header_bytes_def jpeg_dht_segments(1)
    by (simp add: soi_app0_def dqt_def sof0_def sos_def app0_payload_def sof0_payload_def)
  have l: "length (zigzagged q) = 64" for q using zigzag_perm by (simp add: zigzagged_def)
  have l2: "length app0_payload = 14" "length (sof0_payload pix) = 15" "length sos = 14"
    by (simp_all add: app0_payload_def soi_app0_def sof0_payload_def u16_bytes_def sos_def)
  show ?thesis
    unfolding e jpeg_parse_def
    by (simp add: jpeg_segments_step jpeg_segments_sos l l2 jpeg_dht_segments(2-5)[unfolded One_nat_def] del: append_Cons)
qed

text \<open>C18: what the header writer leaves in a large enough window is a JPEG header: in front of the
  data already there it parses into the JFIF segment, two quantisation tables, a baseline frame
  header, four Huffman tables and the scan header, with the data left over.  The quantisation tables come back from zigzag order as the
  tables of the job, the frame header carries the size of the picture, and the Huffman tables are
  complete code length tables with as many distinct values as codes.\<close>

theorem header_decodes:
  assumes "length (quant ! 0) = 64" "length (quant ! 1) = 64"
    and "hdr_position h = 0" "623 \<le> hdr_size h" "hdr_size h \<le> length (hdr_data h)"
  shows "\<exists>app q0 q1 sof h0 h1 h2 h3 scan.
    jpeg_parse (hdr_data (snd (put_header pix quant h))) = Some ([(0xe0, app), (0xdb, 0 # q0), (0xdb, 1 # q1),
      (0xc0, sof), (0xc4, h0), (0xc4, h1), (0xc4, h2), (0xc4, h3), (0xda, scan)],
      drop 623 (hdr_data h)) \<and>
    dezigzag q0 = quant ! 0 \<and> dezigzag q1 = quant ! 1 \<and>
    sof_size sof = (unat (pix_width pix) mod 2 ^ 16, unat (pix_height pix) mod 2 ^ 16) \<and>
    (\<forall>h\<in>{h0, h1, h2, h3}. dht_ok h) \<and> map hd [h0, h1, h2, h3] = [0, 0x10, 1, 0x11]"
proof -
  have u: "256 * unat (ucast (drop_bit 8 v) :: u8) + unat (ucast v :: u8) = unat (v :: u16)" for v
  proof -
    have "unat (drop_bit 8 v) = unat v div 256"
      using unat_lt2p[of v] by (simp add: unsigned_drop_bit_eq take_bit_nat_eq_self drop_bit_eq_div[where 'a = nat])
    moreover have "unat v div 256 < 256" using unat_lt2p[of v] by (simp add: less_mult_imp_div_less)
    ultimately show ?thesis by (simp add: unat_ucast_mod)
  qed
  have "sof_size (sof0_payload pix) = (unat (pix_width pix) mod 2 ^ 16, unat (pix_height pix) mod 2 ^ 16)"
    using u[of "ucast (pix_width pix)"] u[of "ucast (pix_height pix)"]
    by (simp add: sof_size_def sof0_payload_def u16_bytes_def unat_ucast_mod)
  moreover have "map hd [dht_segment 0, dht_segment 1, dht_segment 2, dht_segment 3] = [0, 0x10, 1, 0x11]"
    by (simp add: dht_segment_def jpeg_dht_def)
  moreover have "hdr_data (snd (put_header pix quant h)) = header_bytes pix quant @ drop 623 (hdr_data h)"
    using put_array_ok[of h "header_bytes pix quant"] assms(3-5)
    by (simp add: put_header_bytes hdr_wf_def length_header_bytes)
  ultimately show ?thesis
    using header_parses[of pix quant "drop 623 (hdr_data h)"] dezigzag_zigzagged[OF assms(1)] dezigzag_zigzagged[OF assms(2)]
      dht_segments_ok[of 0] dht_segments_ok[of 1] dht_segments_ok[of 2] dht_segments_ok[of 3]
    by (intro exI conjI; assumption?) simp_all
qed

section \<open>Quantisation tables\<close>

lemma unat_clamp: "lo \<le> hi \<Longrightarrow> unat (clamp (v :: u32) lo hi) = max (unat lo) (min (unat hi) (unat v))"
  by (auto simp: clamp_def word_less_nat_alt word_le_nat_alt max_def min_def)

definition scale_nat :: "nat \<Rightarrow> nat" where
  "scale_nat q = (if q < 50 then 5000 div q else 200 - 2 * q)"

lemma unat_scale:
  assumes "1 \<le> unat q" "unat q \<le> 100"
  shows "unat (jpeg_scale q) = scale_nat (unat q)" "unat (jpeg_scale q) \<le> 5000"
proof -
  have m: "unat (2 * q) = 2 * unat q" using assms by (subst unat_mult_lem[THEN iffD1]) simp_all
  have "unat (200 - 2 * q) = 200 - 2 * unat q"
    using assms m by (subst unat_sub) (simp_all add: word_le_nat_alt)
  then show "unat (jpeg_scale q) = scale_nat (unat q)"
    by (simp add: jpeg_scale_def scale_nat_def word_less_nat_alt unat_div)
  moreover have "5000 div unat q \<le> 5000" by (rule div_le_dividend)
  moreover have "200 - 2 * unat q \<le> 5000" by (rule le_trans[OF diff_le_self]) simp
  ultimately show "unat (jpeg_scale q) \<le> 5000" by (simp add: scale_nat_def)
qed

lemma unat_quant:
  assumes "unat scale \<le> 5000"
  shows "unat (jpeg_quant scale base) = max 1 (min 255 ((unat base * unat scale + 50) div 100))"
proof -
  have b: "unat base < 256" using unat_lt2p[of base] by simp
  have le: "unat base * unat scale \<le> 255 * 5000" using b assms by (intro mult_le_mono) simp_all
  then have m: "unat (ucast base * scale :: u32) = unat base * unat scale"
    by (subst unat_mult_lem[THEN iffD1]) (simp_all add: unat_ucast_up)
  have "unat (ucast base * scale + 50 :: u32) = unat base * unat scale + 50"
    using le by (subst unat_add_lem[THEN iffD1]) (simp_all add: m)
  then have "unat (clamp ((ucast base * scale + 50) div 100) 1 (255 :: u32)) =
      max 1 (min 255 ((unat base * unat scale + 50) div 100))"
    by (subst unat_clamp) (simp_all add: unat_div)
  then show ?thesis by (simp add: jpeg_quant_def Let_def unat_ucast_mod)
qed

lemma scale_antimono: "1 \<le> q \<Longrightarrow> q \<le> r \<Longrightarrow> r \<le> 100 \<Longrightarrow> scale_nat r \<le> scale_nat q"
proof -
  assume a: "1 \<le> q" "q \<le> r" "r \<le> 100"
  have big: "102 \<le> 5000 div q" if "q < 50"
  proof -
    have "5000 div 49 \<le> 5000 div q" using that a by (intro div_le_mono2) simp_all
    then show ?thesis by simp
  qed
  show ?thesis
  proof (cases "r < 50")
    case True
    then show ?thesis using a by (simp add: scale_nat_def div_le_mono2)
  next
    case False
    then show ?thesis using a big by (auto simp: scale_nat_def)
  qed
qed

text \<open>The quality in use: a negative control value reads as a large unsigned one.\<close>

definition effective_quality :: "jpeg_context \<Rightarrow> nat" where
  "effective_quality ctx = unat (jjob_quality (jpeg_job_prepare ctx zero_jpeg_job))"

lemma effective_quality_range: "1 \<le> effective_quality ctx \<and> effective_quality ctx \<le> 100"
  by (simp add: effective_quality_def jpeg_job_prepare_def Let_def unat_clamp)

lemma effective_quality_id: "1 \<le> jctx_quality ctx \<Longrightarrow> jctx_quality ctx \<le> 100 \<Longrightarrow>
  effective_quality ctx = nat (jctx_quality ctx)"
  by (simp add: effective_quality_def jpeg_job_prepare_def Let_def unat_clamp unat_word_of_int)

lemma quant_entry:
  assumes "t < 2" "i < 64"
  shows "unat (jjob_quant (jpeg_job_prepare ctx job) ! t ! i) =
    max 1 (min 255 ((unat ([jpeg_luma_quant_base, jpeg_chroma_quant_base] ! t ! i) *
      scale_nat (effective_quality ctx) + 50) div 100))"
proof -
  have l: "length jpeg_luma_quant_base = 64" "length jpeg_chroma_quant_base = 64"
    by (simp_all add: jpeg_luma_quant_base_def jpeg_chroma_quant_base_def)
  let ?q = "clamp (word_of_int (jctx_quality ctx)) 1 (100 :: u32)"
  have q: "effective_quality ctx = unat ?q"
    by (simp add: effective_quality_def jpeg_job_prepare_def Let_def)
  have r: "1 \<le> unat ?q" "unat ?q \<le> 100" using effective_quality_range[of ctx] q by simp_all
  have "t = 0 \<or> t = 1" using assms by auto
  then show ?thesis
    using assms l unat_quant[OF unat_scale(2)[OF r]] unat_scale(1)[OF r]
    by (auto simp: jpeg_job_prepare_def Let_def q)
qed

text \<open>The quantisation tables of a job: both have 64 entries, each the base entry scaled by the
  quality of the control in percent, rounded and limited to 1..255 (so no division by a table entry
  can fail), and a higher quality never gives a coarser table.\<close>

theorem quant_tables_valid:
  assumes "t < 2" "i < 64"
  shows "length (jjob_quant (jpeg_job_prepare ctx job)) = 2 \<and>
    length (jjob_quant (jpeg_job_prepare ctx job) ! t) = 64 \<and>
    unat (jjob_quant (jpeg_job_prepare ctx job) ! t ! i) =
      max 1 (min 255 ((unat ([jpeg_luma_quant_base, jpeg_chroma_quant_base] ! t ! i) *
        scale_nat (effective_quality ctx) + 50) div 100)) \<and>
    (effective_quality ctx \<le> effective_quality ctx' \<longrightarrow>
      jjob_quant (jpeg_job_prepare ctx' job') ! t ! i \<le> jjob_quant (jpeg_job_prepare ctx job) ! t ! i)"
proof -
  have l: "length (jjob_quant (jpeg_job_prepare ctx job)) = 2"
    "length (jjob_quant (jpeg_job_prepare ctx job) ! t) = 64"
    using assms by (auto simp: jpeg_job_prepare_def Let_def jpeg_luma_quant_base_def
        jpeg_chroma_quant_base_def less_2_cases_iff)
  have "jjob_quant (jpeg_job_prepare ctx' job') ! t ! i \<le> jjob_quant (jpeg_job_prepare ctx job) ! t ! i"
    if "effective_quality ctx \<le> effective_quality ctx'"
  proof -
    have "scale_nat (effective_quality ctx') \<le> scale_nat (effective_quality ctx)"
      using effective_quality_range that by (intro scale_antimono) auto
    then have "(unat ([jpeg_luma_quant_base, jpeg_chroma_quant_base] ! t ! i) *
        scale_nat (effective_quality ctx') + 50) div 100 \<le>
      (unat ([jpeg_luma_quant_base, jpeg_chroma_quant_base] ! t ! i) *
        scale_nat (effective_quality ctx) + 50) div 100"
      by (intro div_le_mono add_le_mono mult_le_mono) simp_all
    then show ?thesis
      unfolding word_le_nat_alt quant_entry[OF assms] by (intro max.mono min.mono) simp_all
  qed
  then show ?thesis using l quant_entry[OF assms] by blast
qed

text \<open>The word a quantiser becomes in the hardware's table: its low half is a 16-bit reciprocal
  whose product with the quantiser misses 65536 by no more than the quantiser, its high half is
  half the quantiser for rounding, and the halves do not overlap.\<close>

theorem quant_word_fields:
  assumes "q \<noteq> 0"
  shows "field 31 16 (quant_word q) = int (unat q div 2) \<and>
    (let r = field 15 0 (quant_word q)
     in 0 < r \<and> \<bar>r * uint q - 65536\<bar> \<le> uint q)"
proof -
  let ?n = "unat q"
  let ?r = "if ?n = 1 then 65535 else 65536 div ?n + 1 :: nat"
  have n: "1 \<le> ?n" "?n < 256" using assms unat_lt2p[of q] by (simp_all add: unat_gt_0[symmetric] Suc_le_eq)
  have u: "unat (65536 div ucast q :: u32) = 65536 div ?n"
    by (simp add: unat_div unat_ucast_up)
  have d: "65536 div ?n \<le> 32768" if "?n \<noteq> 1"
    using div_le_mono2[of 2 ?n 65536] that n by simp
  have lt: "(65536 div ucast q :: u32) < 65535 \<longleftrightarrow> ?n \<noteq> 1"
    using d by (auto simp: word_less_nat_alt u)
  define w where "w = (if ?n = 1 then 65535 else 65536 div ucast q + 1 :: u32)"
  have ur: "unat w = ?r"
    using d u unatSuc[of "65536 div ucast q :: u32"]
    by (auto simp: w_def unat_word_ariths)
  have rb: "?r < 2 ^ 16" using d by auto
  have qw: "quant_word q = push_bit 16 (drop_bit 1 (ucast q)) OR w"
    by (simp add: quant_word_def Let_def lt w_def)
  have wb: "\<not> bit w k" if "16 \<le> k" for k
    using rb ur that bit_le_unat[of w k] power_increasing[of 16 k "2 :: nat"] by fastforce
  have uw: "uint w = int ?r" by (simp only: uint_nat ur)
  have lo: "field 15 0 (quant_word q) = int ?r"
  proof -
    have "field 15 0 (quant_word q) = take_bit 16 (uint w)"
      by (subst field_eq[where v = "uint w"])
        (simp_all add: qw bit_or_iff bit_push_bit_iff bit_uint_iff)
    also have "\<dots> = uint w" using rb unfolding uw by (intro take_bit_int_eq_self) simp_all
    finally show ?thesis unfolding uw .
  qed
  have uh: "uint (drop_bit 1 q) = int (?n div 2)"
  proof -
    have "unat (drop_bit 1 q) = ?n div 2"
      using unat_lt2p[of q]
      by (simp add: unsigned_drop_bit_eq take_bit_nat_eq_self drop_bit_eq_div[where 'a = nat])
    then show ?thesis by (simp only: uint_nat)
  qed
  have hb: "bit (drop_bit 1 (ucast q) :: u32) k = (k < 8 \<and> bit (drop_bit 1 q) k)" for k
    using bit_imp_le_length[of q "k + 1"]
    by (auto simp: bit_drop_bit_eq bit_ucast_iff add.commute)
  have hi: "field 31 16 (quant_word q) = int (?n div 2)"
  proof -
    have "field 31 16 (quant_word q) = take_bit 16 (uint (drop_bit 1 q))"
      by (subst field_eq[where v = "uint (drop_bit 1 q)"])
        (simp_all add: qw wb hb bit_or_iff bit_push_bit_iff bit_uint_iff del: One_nat_def)
    also have "\<dots> = uint (drop_bit 1 q)"
      using n unfolding uh by (intro take_bit_int_eq_self) simp_all
    finally show ?thesis unfolding uh .
  qed
  have "\<bar>int (?r * ?n) - 65536\<bar> \<le> int ?n"
  proof (cases "?n = 1")
    case False
    have m: "65536 div ?n * ?n + 65536 mod ?n = 65536" by (rule div_mult_mod_eq)
    have "65536 mod ?n < ?n" using n by simp
    then have "65536 \<le> (65536 div ?n + 1) * ?n" "(65536 div ?n + 1) * ?n \<le> 65536 + ?n"
      using m unfolding distrib_right by linarith+
    then show ?thesis using False by (simp only: if_False abs_le_iff) linarith
  qed simp
  then have "\<bar>int ?r * uint q - 65536\<bar> \<le> uint q" by (simp only: of_nat_mult uint_nat)
  moreover have "0 < int ?r" by simp
  ultimately show ?thesis using hi lo by (simp only: Let_def simp_thms)
qed

theorem quant_word_fields_witness:
  "field 31 16 (quant_word 17) = 8 \<and> field 15 0 (quant_word 17) = 3856"
proof -
  have "\<bar>field 15 0 (quant_word 17) * 17 - 65536\<bar> \<le> 17" "field 31 16 (quant_word 17) = 8"
    using quant_word_fields[of 17] by (simp_all add: Let_def)
  moreover have "field 15 0 (quant_word 17) = 3856"
    by (simp add: field_def quant_word_def Let_def)
  ultimately show ?thesis by simp
qed

section \<open>A finished file\<close>

lemma unat_room_for:
  assumes "1647 \<le> plane_size buf" "plane_size buf < 2 ^ 32"
  shows "unat (room_for buf 623) = plane_size buf - 625"
proof -
  have p: "unat (word_of_nat (plane_size buf) :: u64) = plane_size buf"
    using assms by (simp add: unat_of_nat)
  have "room_for buf 623 = word_of_nat (plane_size buf) - 625"
    by (simp add: room_for_def)
  also have "unat \<dots> = plane_size buf - 625"
    using assms p by (subst unat_sub) (simp_all add: word_le_nat_alt)
  finally show ?thesis .
qed

lemma room_for_less:
  assumes "1647 \<le> plane_size buf" "plane_size buf < 2 ^ 32"
  shows "room_for buf 623 < ucast (v :: u32) \<longleftrightarrow> plane_size buf < unat v + 625"
  using assms by (simp add: word_less_nat_alt unat_room_for unat_ucast_up) linarith

lemma and_7: "(len :: u32) AND 7 = 0 \<longleftrightarrow> unat len mod 8 = 0"
proof -
  have "len AND 7 = take_bit 3 len" by (simp add: take_bit_eq_mask mask_eq_exp_minus_1)
  moreover have "unat (take_bit 3 len) = unat len mod 8"
    by (simp add: unsigned_take_bit_eq take_bit_eq_mod[where 'a = nat])
  ultimately show ?thesis by (simp add: unat_eq_0[symmetric] del: unat_eq_0)
qed

lemma buffer_finish_file:
  assumes "1647 \<le> plane_size buf" "plane_size buf < 2 ^ 32" "length bytes = plane_size buf"
    and "FLAG_ERROR \<notin> buf_flags buf" "plane_payload buf + 625 \<le> plane_size buf"
  shows "jpeg_buffer_finish pix True (Some \<lparr>jbuf_quant = quant, jbuf_header_size = 623\<rparr>) buf (Some bytes) =
    (buf\<lparr>plane_payload := plane_payload buf + 625\<rparr>,
     Some (header_bytes pix quant @ take (plane_payload buf) bytes @ [0xff, 0xd9] @
       drop (plane_payload buf + 625) bytes))"
proof -
  let ?n = "plane_payload buf"
  have un: "unat (word_of_nat ?n :: u32) = ?n" using assms by (simp add: unat_of_nat)
  have r: "\<not> room_for buf 623 < ucast (word_of_nat ?n :: u32)"
    using room_for_less[OF assms(1,2), of "word_of_nat ?n"] un assms(5) by simp
  let ?m = "mem_move 623 0 ?n bytes"
  have lm: "length ?m = length bytes" using assms by (simp add: mem_move_def)
  have p: "put_header pix quant \<lparr>hdr_data = ?m, hdr_size = 623, hdr_position = 0\<rparr> =
    (None, \<lparr>hdr_data = header_bytes pix quant @ drop 623 ?m, hdr_size = 623, hdr_position = 623\<rparr>)"
    using put_array_ok[of "\<lparr>hdr_data = ?m, hdr_size = 623, hdr_position = 0\<rparr>" "header_bytes pix quant"]
      assms lm by (simp add: put_header_bytes hdr_wf_def length_header_bytes)
  have d: "drop 623 ?m = take ?n bytes @ drop (623 + ?n) bytes"
    using assms by (simp add: mem_move_def)
  obtain a b t where t: "drop (623 + ?n) bytes = a # b # t"
  proof -
    have "2 \<le> length (drop (623 + ?n) bytes)" using assms by simp
    then show ?thesis using that by (cases "drop (623 + ?n) bytes"; cases "tl (drop (623 + ?n) bytes)") auto
  qed
  have t2: "drop (?n + 625) bytes = t"
  proof -
    have "drop (?n + 625) bytes = drop 2 (drop (623 + ?n) bytes)" by (simp add: add.commute)
    then show ?thesis unfolding t by simp
  qed
  have ln: "length (header_bytes pix quant @ take ?n bytes) = ?n + 623"
    using assms by (simp add: length_header_bytes)
  have "(header_bytes pix quant @ take ?n bytes @ a # b # t)[?n + 623 := 0xff, ?n + 623 + 1 := 0xd9] =
    (header_bytes pix quant @ take ?n bytes) @ [0xff, 0xd9] @ t"
    using ln list_update_length[of "header_bytes pix quant @ take ?n bytes" a "b # t" "0xff"]
      list_update_length[of "header_bytes pix quant @ take ?n bytes @ [0xff]" b t "0xd9"]
    by (simp add: ln[simplified])
  then show ?thesis
    using r un assms(4) by (simp add: jpeg_buffer_finish_def JPEG_HEADER_SIZE_def Let_def p d t t2)
qed

text \<open>C6: a job the driver accepts ends in a complete JPEG file or in an error, never in between and
  never outside the buffer.  If the hardware reports whole bytes that leave room for the header and
  the end marker, the capture buffer holds the header for the tables of the job, the hardware's
  bytes moved behind it, and the end of image marker, and exactly these are published; otherwise
  nothing is published, the buffer is marked erroneous and its bytes are untouched.\<close>

theorem jpeg_file_complete:
  assumes "jpeg_job_configure dev pix (addr, sz) job log = (None, job', log')"
    and "plane_size buf = unat sz" "length bytes = unat sz" "FLAG_ERROR \<notin> buf_flags buf"
    and "jpeg_job_finish hw True job' log'' (Some jb) buf = (jb', buf')"
    and "jpeg_buffer_finish pix True jb' buf' (Some bytes) = (buf'', Some bytes')"
  shows "let len = unat (hw log'' VE_ENC_AVC_STM_BIT_LEN_REG); n = len div 8
    in length bytes' = length bytes \<and> plane_payload buf'' \<le> plane_size buf'' \<and>
      (if len mod 8 = 0 \<and> n + 625 \<le> unat sz
       then plane_payload buf'' = n + 625 \<and> FLAG_ERROR \<notin> buf_flags buf'' \<and>
         FLAG_KEYFRAME \<in> buf_flags buf'' \<and>
         take (n + 625) bytes' = header_bytes pix (jjob_quant job) @ take n bytes @ [0xff, 0xd9]
       else plane_payload buf'' = 0 \<and> FLAG_ERROR \<in> buf_flags buf'' \<and> bytes' = bytes)"
proof -
  have sz: "\<not> sz < 1647" "\<not> 0xffffffff div 8 < sz" and q: "jjob_quant job' = jjob_quant job"
    "jjob_header_size job' = 623"
    using assms(1) by (auto simp: jpeg_job_configure_def JPEG_HEADER_SIZE_def Let_def split: if_splits)
  have b: "1647 \<le> plane_size buf" "plane_size buf < 2 ^ 32"
    using sz(1) unat_lt2p[of sz] by (simp_all add: assms(2) word_less_nat_alt)
  define v where "v = hw log'' VE_ENC_AVC_STM_BIT_LEN_REG"
  let ?n = "unat v div 8"
  have dv: "unat (v div 8) = ?n" by (simp add: unat_div)
  note room = room_for_less[OF b, of "v div 8", unfolded dv]
  show ?thesis
  proof (cases "unat v mod 8 = 0 \<and> ?n + 625 \<le> unat sz")
    case True
    let ?b = "buf\<lparr>plane_payload := ?n, buf_flags := insert FLAG_KEYFRAME (buf_flags buf)\<rparr>"
    have f: "jb' = Some \<lparr>jbuf_quant = jjob_quant job, jbuf_header_size = 623\<rparr>" "buf' = ?b"
      using assms(5) True room q
      by (simp_all add: jpeg_job_finish_def Let_def cedrus_read_def v_def[symmetric] and_7 assms(2) dv)
    have g: "jpeg_buffer_finish pix True jb' buf' (Some bytes) =
      (?b\<lparr>plane_payload := ?n + 625\<rparr>, Some (header_bytes pix (jjob_quant job) @ take ?n bytes @ [0xff, 0xd9] @
        drop (?n + 625) bytes))"
      unfolding f using buffer_finish_file[of ?b bytes pix "jjob_quant job"] b True assms(2-4) by simp
    then show ?thesis
      using True assms(2,3,4,6) by (simp add: v_def[symmetric] Let_def length_header_bytes) auto
  next
    case False
    have f: "jb' = Some \<lparr>jbuf_quant = jjob_quant job, jbuf_header_size = 623\<rparr>" "buf' = jpeg_error buf"
      using assms(5) False room q
      by (auto simp: jpeg_job_finish_def Let_def cedrus_read_def v_def[symmetric] and_7 assms(2) dv)
    have "buf'' = jpeg_error buf \<and> bytes' = bytes"
      using assms(6) unfolding f by (simp add: jpeg_buffer_finish_def jpeg_error_def)
    then show ?thesis using False by (simp add: v_def[symmetric] Let_def jpeg_error_def)
  qed
qed
section \<open>Examples\<close>

lemma jpeg_buffer_finish_some:
  "\<exists>b bs. jpeg_buffer_finish pix d jb buf (Some bytes) = (b, Some bs)"
  by (auto simp: jpeg_buffer_finish_def Let_def split: option.splits prod.splits)

definition jpeg_ex_dev :: cedrus_device where
  "jpeg_ex_dev = device_of_variant cedrus_variant_sun50i_h616"

definition jpeg_ex_pix :: pix_format where
  "jpeg_ex_pix = zero_pix\<lparr>pix_width := 320, pix_height := 240, bytesperline := 320, sizeimage := 115200\<rparr>"

definition jpeg_ex_ctx :: "int \<Rightarrow> jpeg_context" where
  "jpeg_ex_ctx q = \<lparr>jctx_quality = q\<rparr>"

definition jpeg_ex_job :: jpeg_job where
  "jpeg_ex_job = jpeg_job_prepare (jpeg_ex_ctx 75) zero_jpeg_job"

definition jpeg_ex_buf :: coded_buffer where
  "jpeg_ex_buf = \<lparr>plane_size = 4096, plane_payload = 0, buf_flags = {}\<rparr>"

definition jpeg_ex_run :: "u8 list \<Rightarrow> coded_buffer \<times> u8 list option" where
  "jpeg_ex_run bytes =
    (let (ret, job, log) = jpeg_job_configure jpeg_ex_dev jpeg_ex_pix (0x1000, 4096) jpeg_ex_job [];
         (jb, buf) = jpeg_job_finish (\<lambda>log r. 24) True job log
           (Some \<lparr>jbuf_quant = [], jbuf_header_size = 0\<rparr>) jpeg_ex_buf
     in jpeg_buffer_finish jpeg_ex_pix True jb buf (Some bytes))"

theorem header_written_witness:
  "fst (put_header jpeg_ex_pix (jjob_quant jpeg_ex_job)
     \<lparr>hdr_data = replicate 700 0, hdr_size = 622, hdr_position = 0\<rparr>) = Some ENOSPC \<and>
   fst (put_header jpeg_ex_pix (jjob_quant jpeg_ex_job)
     \<lparr>hdr_data = replicate 700 0, hdr_size = 623, hdr_position = 0\<rparr>) = None"
  using header_written[of "\<lparr>hdr_data = replicate 700 0, hdr_size = 622, hdr_position = 0\<rparr>"
      jpeg_ex_pix "jjob_quant jpeg_ex_job"]
    header_written[of "\<lparr>hdr_data = replicate 700 0, hdr_size = 623, hdr_position = 0\<rparr>"
      jpeg_ex_pix "jjob_quant jpeg_ex_job"]
  by (auto split: prod.splits)

lemma jpeg_ex_quant: "length (jjob_quant jpeg_ex_job ! 0) = 64" "length (jjob_quant jpeg_ex_job ! 1) = 64"
  by (simp_all add: jpeg_ex_job_def jpeg_job_prepare_def Let_def jpeg_luma_quant_base_def
      jpeg_chroma_quant_base_def)

theorem header_decodes_witness:
  "\<exists>ss. jpeg_parse (hdr_data (snd (put_header jpeg_ex_pix (jjob_quant jpeg_ex_job)
       \<lparr>hdr_data = replicate 624 7, hdr_size = 623, hdr_position = 0\<rparr>))) = Some (ss, [7]) \<and>
    length ss = 9 \<and> dezigzag (tl (snd (ss ! 1))) = jjob_quant jpeg_ex_job ! 0 \<and>
    sof_size (snd (ss ! 3)) = (320, 240)"
proof -
  have "drop 623 (replicate 624 7) = [7 :: u8]" by (simp add: drop_replicate)
  then show ?thesis
    using header_decodes[OF jpeg_ex_quant,
        of "\<lparr>hdr_data = replicate 624 7, hdr_size = 623, hdr_position = 0\<rparr>" jpeg_ex_pix]
    by (force simp: jpeg_ex_pix_def simp del: drop_replicate)
qed

theorem quant_tables_valid_witness:
  "unat (jjob_quant (jpeg_job_prepare (jpeg_ex_ctx 75) zero_jpeg_job) ! 0 ! 0) = 8 \<and>
   jjob_quant (jpeg_job_prepare (jpeg_ex_ctx 90) zero_jpeg_job) ! 1 ! 63 \<le>
     jjob_quant (jpeg_job_prepare (jpeg_ex_ctx 75) zero_jpeg_job) ! 1 ! 63"
proof -
  have q: "effective_quality (jpeg_ex_ctx 75) = 75" "effective_quality (jpeg_ex_ctx 90) = 90"
    by (simp_all add: effective_quality_id jpeg_ex_ctx_def)
  show ?thesis
    using quant_tables_valid[of 0 0 "jpeg_ex_ctx 75" zero_jpeg_job]
      quant_tables_valid[of 1 63 "jpeg_ex_ctx 75" zero_jpeg_job "jpeg_ex_ctx 90" zero_jpeg_job]
    by (simp add: q scale_nat_def jpeg_luma_quant_base_def)
qed

theorem jpeg_file_complete_witness:
  "\<exists>b bs. jpeg_ex_run ([1, 2, 3] @ replicate 4093 0) = (b, Some bs) \<and> plane_payload b = 628 \<and>
    take 628 bs = header_bytes jpeg_ex_pix (jjob_quant jpeg_ex_job) @ [1, 2, 3, 0xff, 0xd9]"
proof -
  obtain ret job log where c:
    "jpeg_job_configure jpeg_ex_dev jpeg_ex_pix (0x1000, 4096) jpeg_ex_job [] = (ret, job, log)"
    by (metis surj_pair)
  have r: "ret = None"
    using c by (auto simp: jpeg_job_configure_def jpeg_ex_dev_def device_of_variant_def
        cedrus_variant_sun50i_h616_def JPEG_HEADER_SIZE_def Let_def)
  obtain jb buf where f: "jpeg_job_finish (\<lambda>log r. 24) True job log
      (Some \<lparr>jbuf_quant = [], jbuf_header_size = 0\<rparr>) jpeg_ex_buf = (jb, buf)"
    by (metis surj_pair)
  obtain b bs where g:
    "jpeg_buffer_finish jpeg_ex_pix True jb buf (Some ([1, 2, 3] @ replicate 4093 0)) = (b, Some bs)"
    using jpeg_buffer_finish_some by metis
  have "jpeg_ex_run ([1, 2, 3] @ replicate 4093 0) = (b, Some bs)"
    using c f g by (simp add: jpeg_ex_run_def)
  then show ?thesis
    using jpeg_file_complete[OF c[unfolded r] _ _ _ f g]
    by (simp add: jpeg_ex_buf_def Let_def)
qed

end
