(* ===== verification/Cedrus_Format.thy ===== *)
theory Cedrus_Format
  imports Cedrus_Regs
begin

text \<open>Formats (\<open>cedrus_proc.c\<close>, \<open>cedrus_enc.c\<close>, \<open>cedrus_dec.c\<close>): which engines and formats a
  processing unit offers on a device, how a format requested by user space is adjusted for the
  encoder and the decoder, and the registers the chosen formats become.

  \<open>v4l2_apply_frmsize_constraints\<close> belongs to the kernel: the definitions that call it take it as
  the parameter \<open>fit\<close>, and \<open>frmsize_contract\<close> states what its documentation promises.\<close>

section \<open>Engines and formats\<close>

datatype cedrus_role = ROLE_DECODER | ROLE_ENCODER

datatype format_type = FORMAT_TYPE_CODED | FORMAT_TYPE_PICTURE

datatype buf_type = BUF_TYPE_VIDEO_CAPTURE | BUF_TYPE_VIDEO_OUTPUT

datatype cedrus_codec = CODEC_MPEG2 | CODEC_H264 | CODEC_H265 | CODEC_VP8 | CODEC_VP9 | CODEC_JPEG

text \<open>The fourcc codes of \<open>videodev2.h\<close>.\<close>

definition V4L2_PIX_FMT_NV12 :: u32 where [hdr_simps]: "V4L2_PIX_FMT_NV12 = 0x3231564e"
definition V4L2_PIX_FMT_NV12_32L32 :: u32 where [hdr_simps]: "V4L2_PIX_FMT_NV12_32L32 = 0x32315453"
definition V4L2_PIX_FMT_MPEG2_SLICE :: u32 where [hdr_simps]: "V4L2_PIX_FMT_MPEG2_SLICE = 0x5332474d"
definition V4L2_PIX_FMT_H264_SLICE :: u32 where [hdr_simps]: "V4L2_PIX_FMT_H264_SLICE = 0x34363253"
definition V4L2_PIX_FMT_HEVC_SLICE :: u32 where [hdr_simps]: "V4L2_PIX_FMT_HEVC_SLICE = 0x35363253"
definition V4L2_PIX_FMT_VP8_FRAME :: u32 where [hdr_simps]: "V4L2_PIX_FMT_VP8_FRAME = 0x46385056"
definition V4L2_PIX_FMT_VP9_FRAME :: u32 where [hdr_simps]: "V4L2_PIX_FMT_VP9_FRAME = 0x46395056"
definition V4L2_PIX_FMT_H264 :: u32 where [hdr_simps]: "V4L2_PIX_FMT_H264 = 0x34363248"
definition V4L2_PIX_FMT_JPEG :: u32 where [hdr_simps]: "V4L2_PIX_FMT_JPEG = 0x4745504a"

definition V4L2_FIELD_NONE :: u32 where [hdr_simps]: "V4L2_FIELD_NONE = 1"

text \<open>\<open>v4l2_frmsize_stepwise\<close>.\<close>

record frmsize =
  min_width :: u32
  max_width :: u32
  step_width :: u32
  min_height :: u32
  max_height :: u32
  step_height :: u32

text \<open>An engine; of the sizes of its private structures only whether they are zero matters.  The
  callbacks of the engines have their own theories.\<close>

record cedrus_engine =
  eng_codec :: cedrus_codec
  eng_role :: cedrus_role
  eng_capabilities :: u32
  eng_pixelformat :: u32
  eng_slice_based :: bool
  eng_frmsize :: "frmsize option"
  eng_has_ctx :: bool
  eng_has_job :: bool
  eng_has_buffer :: bool
  eng_has_coded_buffer :: bool

definition frmsize_16_3840 :: frmsize where
  "frmsize_16_3840 = \<lparr>min_width = 16, max_width = 3840, step_width = 16,
     min_height = 16, max_height = 3840, step_height = 16\<rparr>"

definition cedrus_dec_vp9_frmsize :: frmsize where
  "cedrus_dec_vp9_frmsize = \<lparr>min_width = 64, max_width = 4096, step_width = 1,
     min_height = 64, max_height = 2304, step_height = 1\<rparr>"

definition cedrus_enc_h264_frmsize :: frmsize where
  "cedrus_enc_h264_frmsize = \<lparr>min_width = 16, max_width = 3840, step_width = 2,
     min_height = 16, max_height = 2160, step_height = 2\<rparr>"

definition cedrus_enc_jpeg_frmsize :: frmsize where
  "cedrus_enc_jpeg_frmsize = \<lparr>min_width = 16, max_width = 1920, step_width = 2,
     min_height = 16, max_height = 1080, step_height = 2\<rparr>"

definition cedrus_dec_mpeg2 :: cedrus_engine where
  "cedrus_dec_mpeg2 = \<lparr>eng_codec = CODEC_MPEG2, eng_role = ROLE_DECODER,
     eng_capabilities = CEDRUS_CAPABILITY_MPEG2_DEC, eng_pixelformat = V4L2_PIX_FMT_MPEG2_SLICE,
     eng_slice_based = False, eng_frmsize = Some frmsize_16_3840,
     eng_has_ctx = False, eng_has_job = True, eng_has_buffer = False, eng_has_coded_buffer = False\<rparr>"

definition cedrus_dec_h264 :: cedrus_engine where
  "cedrus_dec_h264 = \<lparr>eng_codec = CODEC_H264, eng_role = ROLE_DECODER,
     eng_capabilities = CEDRUS_CAPABILITY_H264_DEC, eng_pixelformat = V4L2_PIX_FMT_H264_SLICE,
     eng_slice_based = True, eng_frmsize = Some frmsize_16_3840,
     eng_has_ctx = True, eng_has_job = True, eng_has_buffer = True, eng_has_coded_buffer = False\<rparr>"

definition cedrus_dec_h265 :: cedrus_engine where
  "cedrus_dec_h265 = \<lparr>eng_codec = CODEC_H265, eng_role = ROLE_DECODER,
     eng_capabilities = CEDRUS_CAPABILITY_H265_DEC, eng_pixelformat = V4L2_PIX_FMT_HEVC_SLICE,
     eng_slice_based = True, eng_frmsize = Some frmsize_16_3840,
     eng_has_ctx = True, eng_has_job = True, eng_has_buffer = True, eng_has_coded_buffer = False\<rparr>"

definition cedrus_dec_vp8 :: cedrus_engine where
  "cedrus_dec_vp8 = \<lparr>eng_codec = CODEC_VP8, eng_role = ROLE_DECODER,
     eng_capabilities = CEDRUS_CAPABILITY_VP8_DEC, eng_pixelformat = V4L2_PIX_FMT_VP8_FRAME,
     eng_slice_based = False, eng_frmsize = Some frmsize_16_3840,
     eng_has_ctx = True, eng_has_job = True, eng_has_buffer = False, eng_has_coded_buffer = False\<rparr>"

definition cedrus_dec_vp9 :: cedrus_engine where
  "cedrus_dec_vp9 = \<lparr>eng_codec = CODEC_VP9, eng_role = ROLE_DECODER,
     eng_capabilities = CEDRUS_CAPABILITY_VP9_DEC, eng_pixelformat = V4L2_PIX_FMT_VP9_FRAME,
     eng_slice_based = False, eng_frmsize = Some cedrus_dec_vp9_frmsize,
     eng_has_ctx = True, eng_has_job = True, eng_has_buffer = True, eng_has_coded_buffer = False\<rparr>"

definition cedrus_enc_h264 :: cedrus_engine where
  "cedrus_enc_h264 = \<lparr>eng_codec = CODEC_H264, eng_role = ROLE_ENCODER,
     eng_capabilities = CEDRUS_CAPABILITY_H264_ENC, eng_pixelformat = V4L2_PIX_FMT_H264,
     eng_slice_based = False, eng_frmsize = Some cedrus_enc_h264_frmsize,
     eng_has_ctx = True, eng_has_job = True, eng_has_buffer = True, eng_has_coded_buffer = False\<rparr>"

definition cedrus_enc_jpeg :: cedrus_engine where
  "cedrus_enc_jpeg = \<lparr>eng_codec = CODEC_JPEG, eng_role = ROLE_ENCODER,
     eng_capabilities = CEDRUS_CAPABILITY_JPEG_ENC, eng_pixelformat = V4L2_PIX_FMT_JPEG,
     eng_slice_based = False, eng_frmsize = Some cedrus_enc_jpeg_frmsize,
     eng_has_ctx = True, eng_has_job = True, eng_has_buffer = False, eng_has_coded_buffer = True\<rparr>"

record cedrus_format =
  fmt_pixelformat :: u32
  fmt_capabilities :: u32
  fmt_type :: format_type

record cedrus_proc_config =
  cfg_role :: cedrus_role
  cfg_engines :: "cedrus_engine list"
  cfg_formats :: "cedrus_format list"

definition cedrus_dec_config :: cedrus_proc_config where
  "cedrus_dec_config = \<lparr>cfg_role = ROLE_DECODER,
     cfg_engines = [cedrus_dec_mpeg2, cedrus_dec_h264, cedrus_dec_h265, cedrus_dec_vp8, cedrus_dec_vp9],
     cfg_formats = [
       \<lparr>fmt_pixelformat = V4L2_PIX_FMT_NV12, fmt_capabilities = CEDRUS_CAPABILITY_UNTILED,
         fmt_type = FORMAT_TYPE_PICTURE\<rparr>,
       \<lparr>fmt_pixelformat = V4L2_PIX_FMT_NV12_32L32, fmt_capabilities = 0,
         fmt_type = FORMAT_TYPE_PICTURE\<rparr>]\<rparr>"

definition cedrus_enc_config :: cedrus_proc_config where
  "cedrus_enc_config = \<lparr>cfg_role = ROLE_ENCODER,
     cfg_engines = [cedrus_enc_h264, cedrus_enc_jpeg],
     cfg_formats = [
       \<lparr>fmt_pixelformat = V4L2_PIX_FMT_NV12, fmt_capabilities = 0,
         fmt_type = FORMAT_TYPE_PICTURE\<rparr>]\<rparr>"

section \<open>Processing units\<close>

record cedrus_proc =
  proc_role :: cedrus_role
  proc_engines :: "cedrus_engine list"
  proc_formats :: "cedrus_format list"

definition cedrus_proc_engines_setup :: "cedrus_device \<Rightarrow> cedrus_proc_config \<Rightarrow> cedrus_engine list" where
  "cedrus_proc_engines_setup dev config =
    filter (\<lambda>e. cedrus_capabilities_check dev (eng_capabilities e) \<and> eng_pixelformat e \<noteq> 0 \<and>
      eng_frmsize e \<noteq> None) (cfg_engines config)"

definition cedrus_proc_formats_setup ::
    "cedrus_device \<Rightarrow> cedrus_proc_config \<Rightarrow> cedrus_engine list \<Rightarrow> cedrus_format list" where
  "cedrus_proc_formats_setup dev config engines =
    map (\<lambda>e. \<lparr>fmt_pixelformat = eng_pixelformat e, fmt_capabilities = 0,
      fmt_type = FORMAT_TYPE_CODED\<rparr>) engines @
    filter (\<lambda>f. cedrus_capabilities_check dev (fmt_capabilities f) \<and> fmt_pixelformat f \<noteq> 0)
      (cfg_formats config)"

text \<open>\<open>None\<close>: the device has no engine for the role, and the video device is not registered.\<close>

definition cedrus_proc_setup :: "cedrus_device \<Rightarrow> cedrus_proc_config \<Rightarrow> cedrus_proc option" where
  "cedrus_proc_setup dev config =
    (let engines = cedrus_proc_engines_setup dev config
     in if engines = [] then None
        else Some \<lparr>proc_role = cfg_role config, proc_engines = engines,
          proc_formats = cedrus_proc_formats_setup dev config engines\<rparr>)"

definition cedrus_proc_format_type :: "cedrus_proc \<Rightarrow> buf_type \<Rightarrow> format_type" where
  "cedrus_proc_format_type proc bt = (case proc_role proc of
     ROLE_DECODER \<Rightarrow> if bt = BUF_TYPE_VIDEO_OUTPUT then FORMAT_TYPE_CODED else FORMAT_TYPE_PICTURE
   | ROLE_ENCODER \<Rightarrow> if bt = BUF_TYPE_VIDEO_OUTPUT then FORMAT_TYPE_PICTURE else FORMAT_TYPE_CODED)"

definition cedrus_proc_buffer_type :: "cedrus_proc \<Rightarrow> format_type \<Rightarrow> buf_type" where
  "cedrus_proc_buffer_type proc ft = (case proc_role proc of
     ROLE_DECODER \<Rightarrow> if ft = FORMAT_TYPE_CODED then BUF_TYPE_VIDEO_OUTPUT else BUF_TYPE_VIDEO_CAPTURE
   | ROLE_ENCODER \<Rightarrow> if ft = FORMAT_TYPE_CODED then BUF_TYPE_VIDEO_CAPTURE else BUF_TYPE_VIDEO_OUTPUT)"

primrec find_first_format :: "cedrus_format list \<Rightarrow> format_type \<Rightarrow> u32" where
  "find_first_format [] ft = 0"
| "find_first_format (f # fs) ft =
    (if fmt_type f = ft then fmt_pixelformat f else find_first_format fs ft)"

definition cedrus_proc_format_find_first :: "cedrus_proc \<Rightarrow> format_type \<Rightarrow> u32" where
  "cedrus_proc_format_find_first proc ft = find_first_format (proc_formats proc) ft"

definition cedrus_proc_format_check :: "cedrus_proc \<Rightarrow> u32 \<Rightarrow> format_type \<Rightarrow> bool" where
  "cedrus_proc_format_check proc pf ft =
    list_ex (\<lambda>f. fmt_pixelformat f = pf \<and> fmt_type f = ft) (proc_formats proc)"

definition cedrus_proc_engine_find_format :: "cedrus_proc \<Rightarrow> u32 \<Rightarrow> cedrus_engine option" where
  "cedrus_proc_engine_find_format proc pf =
    find (\<lambda>e. eng_pixelformat e = pf) (proc_engines proc)"

section \<open>Adjusting a requested format\<close>

text \<open>The kernel's \<open>ALIGN\<close> on 32-bit values; the alignment is a power of two.\<close>

definition align_u32 :: "u32 \<Rightarrow> u32 \<Rightarrow> u32" where
  "align_u32 x a = (x + (a - 1)) AND NOT (a - 1)"

type_synonym fit = "frmsize \<Rightarrow> u32 \<times> u32 \<Rightarrow> u32 \<times> u32"

definition apply_frmsize_constraints :: "fit \<Rightarrow> frmsize option \<Rightarrow> u32 \<times> u32 \<Rightarrow> u32 \<times> u32" where
  "apply_frmsize_constraints fit fs wh = (case fs of None \<Rightarrow> wh | Some fs \<Rightarrow> fit fs wh)"

text \<open>The callbacks return an error code (\<open>None\<close> for 0) and the format as they leave it.\<close>

definition cedrus_enc_format_coded_prepare ::
    "pix_format \<Rightarrow> pix_format \<Rightarrow> errno option \<times> pix_format" where
  "cedrus_enc_format_coded_prepare picture pix = (None, pix\<lparr>
     pix_width := pix_width picture, pix_height := pix_height picture,
     bytesperline := 0, sizeimage := max 1024 (sizeimage pix), pix_field := V4L2_FIELD_NONE,
     colorspace := colorspace picture, xfer_func := xfer_func picture,
     ycbcr_enc := ycbcr_enc picture, quantization := quantization picture\<rparr>)"

definition cedrus_enc_format_picture_prepare ::
    "fit \<Rightarrow> cedrus_engine \<Rightarrow> pix_format \<Rightarrow> errno option \<times> pix_format" where
  "cedrus_enc_format_picture_prepare fit engine pix =
    (let (width, height) = apply_frmsize_constraints fit (eng_frmsize engine)
           (pix_width pix, pix_height pix);
         bpl = bytesperline pix;
         bpl = (if bpl < width \<or> 32 * width < bpl then width else bpl);
         bpl = align_u32 bpl 16
     in if pixelformat pix = V4L2_PIX_FMT_NV12
        then (None, pix\<lparr>pix_width := width, pix_height := height, bytesperline := bpl,
          sizeimage := bpl * height + bpl * height div 2, pix_field := V4L2_FIELD_NONE\<rparr>)
        else (Some EINVAL, pix))"

definition cedrus_dec_format_coded_prepare ::
    "fit \<Rightarrow> cedrus_engine \<Rightarrow> pix_format \<Rightarrow> errno option \<times> pix_format" where
  "cedrus_dec_format_coded_prepare fit engine pix =
    (let (width, height) = apply_frmsize_constraints fit (eng_frmsize engine)
           (pix_width pix, pix_height pix)
     in (None, pix\<lparr>pix_width := width, pix_height := height, bytesperline := 0,
       sizeimage := max 1024 (sizeimage pix), pix_field := V4L2_FIELD_NONE\<rparr>))"

definition cedrus_dec_format_picture_prepare ::
    "pix_format \<Rightarrow> pix_format \<Rightarrow> errno option \<times> pix_format" where
  "cedrus_dec_format_picture_prepare coded pix =
    (let width = pix_width coded;
         height = pix_height coded;
         done = (\<lambda>width height bpl sz. (None, pix\<lparr>pix_width := width, pix_height := height,
           bytesperline := bpl, sizeimage := sz, pix_field := V4L2_FIELD_NONE,
           colorspace := colorspace coded, xfer_func := xfer_func coded,
           ycbcr_enc := ycbcr_enc coded, quantization := quantization coded\<rparr>))
     in if pixelformat pix = V4L2_PIX_FMT_NV12
        then (let bpl = align_u32 width 16
              in done width height bpl (bpl * height + bpl * height div 2))
        else if pixelformat pix = V4L2_PIX_FMT_NV12_32L32
        then (let width = align_u32 width 32; height = align_u32 height 32;
                  bpl = align_u32 width 32
              in done width height bpl (bpl * height + bpl * align_u32 height 64 div 2))
        else (Some EINVAL, pix))"

section \<open>The kernel's part\<close>

definition frmsize_ok :: "frmsize \<Rightarrow> bool" where
  "frmsize_ok fs = (min_width fs \<le> max_width fs \<and> min_height fs \<le> max_height fs \<and>
     0 < unat (step_width fs) \<and> 0 < unat (step_height fs) \<and>
     unat (step_width fs) dvd unat (min_width fs) \<and> unat (step_width fs) dvd unat (max_width fs) \<and>
     unat (step_height fs) dvd unat (min_height fs) \<and> unat (step_height fs) dvd unat (max_height fs))"

definition frmsize_fits :: "frmsize \<Rightarrow> u32 \<times> u32 \<Rightarrow> bool" where
  "frmsize_fits fs wh = (case wh of (w, h) \<Rightarrow>
     min_width fs \<le> w \<and> w \<le> max_width fs \<and> unat (step_width fs) dvd unat w \<and>
     min_height fs \<le> h \<and> h \<le> max_height fs \<and> unat (step_height fs) dvd unat h)"

text \<open>What \<open>v4l2_apply_frmsize_constraints\<close> promises for well-formed constraints: the size meets
  them, and a size that meets them is left alone.\<close>

definition frmsize_contract :: "fit \<Rightarrow> bool" where
  "frmsize_contract fit = (\<forall>fs wh. frmsize_ok fs \<longrightarrow> frmsize_fits fs (fit fs wh) \<and>
     (frmsize_fits fs wh \<longrightarrow> fit fs wh = wh))"

lemma align_u32_idem [simp]: "align_u32 (align_u32 x a) a = align_u32 x a"
proof -
  define m where "m = a - 1"
  define y where "y = align_u32 x a"
  have y: "y AND m = 0" unfolding y_def align_u32_def m_def by (simp add: and.assoc)
  have "y + m = y OR m" using y by (rule disjunctive_add_eq_or)
  then have "(y + m) AND NOT m = y AND NOT m" by (simp add: bit.conj_disj_distrib2)
  also have "\<dots> = y" unfolding y_def align_u32_def m_def by (simp add: and.assoc)
  finally show ?thesis unfolding y_def[symmetric] by (simp add: align_u32_def m_def)
qed

lemma unat_align_u32:
  assumes "a = 2 ^ k" "k < 32" "unat x + 2 ^ k \<le> 2 ^ 32"
  shows "unat (align_u32 x a) = ALIGN (unat x) (2 ^ k)"
proof -
  have m: "a - 1 = mask k" using assms by (simp add: mask_eq_exp_minus_1)
  have um: "unat (mask k :: u32) = 2 ^ k - 1"
  proof -
    have "(2 :: nat) ^ k < 2 ^ 32" using assms(2) by (rule power_strict_increasing) simp
    then have u: "unat (2 ^ k :: u32) = 2 ^ k"
      using unat_of_nat[of "2 ^ k", where 'a = 32] by (simp add: take_bit_nat_eq_self)
    moreover have "(1 :: u32) \<le> 2 ^ k" by (simp add: word_le_nat_alt u)
    ultimately show ?thesis by (simp add: mask_eq_exp_minus_1 unat_sub)
  qed
  have p: "unat (x + mask k) = unat x + 2 ^ k - 1"
    using assms(3) um by (subst unat_add_lem[THEN iffD1]) simp_all
  have "(x + mask k) AND NOT (mask k) = push_bit k (drop_bit k (x + mask k))"
    by (rule bit_word_eqI) (auto simp: bit_simps)
  then have "unat (align_u32 x a) = take_bit 32 (push_bit k (drop_bit k (unat (x + mask k))))"
    using unat_lt2p[of "x + mask k"]
    by (simp add: align_u32_def m unsigned_push_bit_eq unsigned_drop_bit_eq take_bit_nat_eq_self)
  also have "\<dots> = take_bit 32 ((unat x + 2 ^ k - 1) div 2 ^ k * 2 ^ k)"
    by (simp add: p push_bit_eq_mult drop_bit_eq_div[where 'a = nat])
  also have "\<dots> = (unat x + 2 ^ k - 1) div 2 ^ k * 2 ^ k"
  proof (rule take_bit_nat_eq_self)
    have "(unat x + 2 ^ k - 1) div 2 ^ k * 2 ^ k \<le> unat x + 2 ^ k - 1"
      using div_mult_mod_eq[of "unat x + 2 ^ k - 1" "2 ^ k"] by linarith
    then show "(unat x + 2 ^ k - 1) div 2 ^ k * 2 ^ k < 2 ^ 32"
      using assms(3) one_le_power[of "2 :: nat" k] by linarith
  qed
  finally show ?thesis by (simp add: ALIGN_def)
qed

section \<open>Callbacks that prepare a format\<close>

text \<open>What the processing unit relies on: a callback accepts every pixel format it knows, and
  leaves the pixel format alone.  \<open>negotiate\<close> is what the unit makes of it: a format that is not
  offered is replaced first.\<close>

locale format_ops =
  fixes supported :: "u32 \<Rightarrow> bool"
    and prepare :: "pix_format \<Rightarrow> errno option \<times> pix_format"
  assumes prepare_total: "supported (pixelformat pix) \<Longrightarrow>
    \<exists>pix'. prepare pix = (None, pix') \<and> pixelformat pix' = pixelformat pix"
begin

definition negotiate :: "(u32 \<Rightarrow> bool) \<Rightarrow> u32 \<Rightarrow> pix_format \<Rightarrow> errno option \<times> pix_format" where
  "negotiate offered dflt pix =
    prepare (if offered (pixelformat pix) then pix else pix\<lparr>pixelformat := dflt\<rparr>)"

lemma negotiate_total:
  assumes "\<And>pf. offered pf \<Longrightarrow> supported pf" "offered dflt"
  shows "\<exists>pix'. negotiate offered dflt pix = (None, pix') \<and>
    pixelformat pix' = (if offered (pixelformat pix) then pixelformat pix else dflt)"
  using prepare_total[of "if offered (pixelformat pix) then pix else pix\<lparr>pixelformat := dflt\<rparr>"]
    assms by (auto simp: negotiate_def)

lemma negotiate_stable:
  assumes "\<And>pf. offered pf \<Longrightarrow> supported pf" "offered dflt"
    and "\<And>pix pix'. prepare pix = (None, pix') \<Longrightarrow> prepare pix' = (None, pix')"
    and "negotiate offered dflt pix = (ret, pix')"
  shows "ret = None \<and> negotiate offered dflt pix' = (None, pix')"
proof -
  have r: "ret = None" "offered (pixelformat pix')"
    using negotiate_total[of offered dflt pix, OF assms(1,2)] assms(2,4) by (auto split: if_splits)
  then have "prepare pix' = (None, pix')" using assms(3,4) by (simp add: negotiate_def)
  then show ?thesis using r by (simp add: negotiate_def)
qed

end

interpretation enc_coded: format_ops "\<lambda>_. True" "cedrus_enc_format_coded_prepare picture" for picture
  by unfold_locales (simp add: cedrus_enc_format_coded_prepare_def)

interpretation enc_picture: format_ops "\<lambda>pf. pf = V4L2_PIX_FMT_NV12"
  "cedrus_enc_format_picture_prepare fit engine" for fit engine
  by unfold_locales (simp add: cedrus_enc_format_picture_prepare_def Let_def split: prod.split)

interpretation dec_coded: format_ops "\<lambda>_. True" "cedrus_dec_format_coded_prepare fit engine" for fit engine
  by unfold_locales (simp add: cedrus_dec_format_coded_prepare_def Let_def split: prod.split)

interpretation dec_picture: format_ops "\<lambda>pf. pf \<in> {V4L2_PIX_FMT_NV12, V4L2_PIX_FMT_NV12_32L32}"
  "cedrus_dec_format_picture_prepare coded" for coded
  by unfold_locales (auto simp: cedrus_dec_format_picture_prepare_def Let_def)

section \<open>Preparing twice\<close>

lemma enc_coded_stable:
  "cedrus_enc_format_coded_prepare picture pix = (None, pix') \<Longrightarrow>
   cedrus_enc_format_coded_prepare picture pix' = (None, pix')"
  by (auto simp: cedrus_enc_format_coded_prepare_def)

lemma dec_picture_stable:
  "cedrus_dec_format_picture_prepare coded pix = (None, pix') \<Longrightarrow>
   cedrus_dec_format_picture_prepare coded pix' = (None, pix')"
  by (auto simp: cedrus_dec_format_picture_prepare_def Let_def hdr_simps split: if_splits)

text \<open>An engine whose frame sizes are well formed and small enough for a stride in 32 bits.\<close>

definition engine_ok :: "cedrus_engine \<Rightarrow> bool" where
  "engine_ok e = (\<exists>fs. eng_frmsize e = Some fs \<and> frmsize_ok fs \<and>
     16 \<le> unat (min_width fs) \<and> unat (max_width fs) \<le> 4096 \<and> unat (max_height fs) \<le> 4096)"

lemma apply_frmsize_fits:
  assumes "frmsize_contract fit" "engine_ok e"
  shows "frmsize_fits (the (eng_frmsize e)) (apply_frmsize_constraints fit (eng_frmsize e) wh)"
    "apply_frmsize_constraints fit (eng_frmsize e) (apply_frmsize_constraints fit (eng_frmsize e) wh) =
     apply_frmsize_constraints fit (eng_frmsize e) wh"
proof -
  obtain fs where fs: "eng_frmsize e = Some fs" "frmsize_ok fs" using assms(2) by (auto simp: engine_ok_def)
  then have "frmsize_fits fs (fit fs wh)" "fit fs (fit fs wh) = fit fs wh"
    using assms(1) by (auto simp only: frmsize_contract_def)
  then show "frmsize_fits (the (eng_frmsize e)) (apply_frmsize_constraints fit (eng_frmsize e) wh)"
    "apply_frmsize_constraints fit (eng_frmsize e) (apply_frmsize_constraints fit (eng_frmsize e) wh) =
     apply_frmsize_constraints fit (eng_frmsize e) wh"
    using fs(1) by (simp_all add: apply_frmsize_constraints_def)
qed

lemma frmsize_fits_bounds:
  assumes "engine_ok e" "frmsize_fits (the (eng_frmsize e)) (w, h)"
  shows "16 \<le> unat w" "unat w \<le> 4096" "unat h \<le> 4096"
  using assms by (auto simp: engine_ok_def frmsize_fits_def word_le_nat_alt)

lemma dec_coded_stable:
  assumes "frmsize_contract fit" "engine_ok e"
    and "cedrus_dec_format_coded_prepare fit e pix = (None, pix')"
  shows "cedrus_dec_format_coded_prepare fit e pix' = (None, pix')"
  using assms(3) apply_frmsize_fits(2)[OF assms(1,2), of "(pix_width pix, pix_height pix)"]
  by (auto simp: cedrus_dec_format_coded_prepare_def Let_def split: prod.splits)

definition stride_of :: "u32 \<Rightarrow> u32 \<Rightarrow> u32" where
  "stride_of width bpl = align_u32 (if bpl < width \<or> 32 * width < bpl then width else bpl) 16"

lemma unat_mult_32: "unat (w :: u32) \<le> 4096 \<Longrightarrow> unat (32 * w) = 32 * unat w"
  by (subst unat_mult_lem[THEN iffD1]) simp_all

lemma unat_stride:
  assumes "unat w \<le> 4096"
  shows "unat (stride_of w b) = ALIGN (if unat b < unat w \<or> 32 * unat w < unat b then unat w else unat b) 16"
  using assms by (simp add: stride_of_def unat_align_u32[where k = 4] word_less_nat_alt unat_mult_32)

lemma ALIGN_mono_mult: "x \<le> k * a \<Longrightarrow> 0 < a \<Longrightarrow> ALIGN x a \<le> k * a"
proof -
  assume "x \<le> k * a" "0 < a"
  then have "(x + a - 1) div a \<le> (k * a + (a - 1)) div a" by (intro div_le_mono) simp
  also have "\<dots> = k" using \<open>0 < a\<close> by (intro div_nat_eqI) (simp_all add: mult.commute)
  finally show ?thesis by (simp add: ALIGN_def)
qed

lemma stride_of_bounds:
  assumes "16 \<le> unat w" "unat w \<le> 4096"
  shows "unat w \<le> unat (stride_of w b)" "unat (stride_of w b) \<le> 32 * unat w"
    "16 dvd unat (stride_of w b)" "stride_of w (stride_of w b) = stride_of w b"
proof -
  let ?v = "if unat b < unat w \<or> 32 * unat w < unat b then unat w else unat b"
  have v: "unat w \<le> ?v" "?v \<le> 32 * unat w" by auto
  show le: "unat w \<le> unat (stride_of w b)"
    using ALIGN_ge[of 16 ?v] v(1) by (simp add: unat_stride[OF assms(2)])
  show ge: "unat (stride_of w b) \<le> 32 * unat w"
    using ALIGN_mono_mult[of ?v "2 * unat w" 16] v(2) by (simp add: unat_stride[OF assms(2)])
  show "16 dvd unat (stride_of w b)" by (simp add: unat_stride[OF assms(2)] ALIGN_dvd)
  show "stride_of w (stride_of w b) = stride_of w b"
    using le ge assms(2)
    by (simp add: stride_of_def[of w "stride_of w b"] word_less_nat_alt unat_mult_32)
      (simp add: stride_of_def)
qed

lemma enc_picture_prepare_alt:
  "cedrus_enc_format_picture_prepare fit e pix =
    (case apply_frmsize_constraints fit (eng_frmsize e) (pix_width pix, pix_height pix) of
       (w, h) \<Rightarrow> let b = stride_of w (bytesperline pix)
     in if pixelformat pix = V4L2_PIX_FMT_NV12
        then (None, pix\<lparr>pix_width := w, pix_height := h, bytesperline := b,
          sizeimage := b * h + b * h div 2, pix_field := V4L2_FIELD_NONE\<rparr>)
        else (Some EINVAL, pix))"
  by (simp add: cedrus_enc_format_picture_prepare_def stride_of_def Let_def split: prod.split)

lemma enc_picture_stable:
  assumes "frmsize_contract fit" "engine_ok e"
    and "cedrus_enc_format_picture_prepare fit e pix = (None, pix')"
  shows "cedrus_enc_format_picture_prepare fit e pix' = (None, pix')"
proof -
  obtain w h where wh: "apply_frmsize_constraints fit (eng_frmsize e) (pix_width pix, pix_height pix) = (w, h)"
    by (cases "apply_frmsize_constraints fit (eng_frmsize e) (pix_width pix, pix_height pix)")
  note f = apply_frmsize_fits[OF assms(1,2), of "(pix_width pix, pix_height pix)", unfolded wh]
  note b = stride_of_bounds(4)[OF frmsize_fits_bounds(1,2)[OF assms(2) f(1)]]
  show ?thesis
    using assms(3) wh f(2) b by (auto simp: enc_picture_prepare_alt Let_def split: if_splits)
qed

section \<open>Processing units the driver can set up\<close>

definition picture_formats :: "cedrus_role \<Rightarrow> u32 set" where
  "picture_formats role = (case role of ROLE_ENCODER \<Rightarrow> {V4L2_PIX_FMT_NV12}
     | ROLE_DECODER \<Rightarrow> {V4L2_PIX_FMT_NV12, V4L2_PIX_FMT_NV12_32L32})"

definition proc_ok :: "cedrus_proc \<Rightarrow> bool" where
  "proc_ok proc = (proc_engines proc \<noteq> [] \<and> distinct (map eng_pixelformat (proc_engines proc)) \<and>
     (\<forall>e\<in>set (proc_engines proc). eng_role e = proc_role proc \<and> engine_ok e \<and> eng_pixelformat e \<noteq> 0) \<and>
     (\<forall>pf. cedrus_proc_format_check proc pf FORMAT_TYPE_CODED \<longleftrightarrow>
        pf \<in> eng_pixelformat ` set (proc_engines proc)) \<and>
     cedrus_proc_format_find_first proc FORMAT_TYPE_CODED = eng_pixelformat (hd (proc_engines proc)) \<and>
     (\<forall>pf. cedrus_proc_format_check proc pf FORMAT_TYPE_PICTURE \<longrightarrow>
        pf \<in> picture_formats (proc_role proc)) \<and>
     cedrus_proc_format_check proc (cedrus_proc_format_find_first proc FORMAT_TYPE_PICTURE)
       FORMAT_TYPE_PICTURE)"

lemma proc_okD:
  assumes "proc_ok proc"
  shows "proc_engines proc \<noteq> []" "distinct (map eng_pixelformat (proc_engines proc))"
    "e \<in> set (proc_engines proc) \<Longrightarrow> eng_role e = proc_role proc"
    "e \<in> set (proc_engines proc) \<Longrightarrow> engine_ok e"
    "e \<in> set (proc_engines proc) \<Longrightarrow> eng_pixelformat e \<noteq> 0"
    "cedrus_proc_format_check proc pf FORMAT_TYPE_CODED \<longleftrightarrow> pf \<in> eng_pixelformat ` set (proc_engines proc)"
    "cedrus_proc_format_find_first proc FORMAT_TYPE_CODED = eng_pixelformat (hd (proc_engines proc))"
    "cedrus_proc_format_check proc pf FORMAT_TYPE_PICTURE \<Longrightarrow> pf \<in> picture_formats (proc_role proc)"
    "cedrus_proc_format_check proc (cedrus_proc_format_find_first proc FORMAT_TYPE_PICTURE) FORMAT_TYPE_PICTURE"
  using assms unfolding proc_ok_def by blast+

lemma find_first_check:
  "list_ex (\<lambda>f. fmt_type f = ft) fs \<Longrightarrow>
   list_ex (\<lambda>f. fmt_pixelformat f = find_first_format fs ft \<and> fmt_type f = ft) fs"
  by (induction fs) auto


lemmas engine_defs = cedrus_dec_mpeg2_def cedrus_dec_h264_def cedrus_dec_h265_def cedrus_dec_vp8_def
  cedrus_dec_vp9_def cedrus_enc_h264_def cedrus_enc_jpeg_def

lemmas frmsize_defs = frmsize_16_3840_def cedrus_dec_vp9_frmsize_def cedrus_enc_h264_frmsize_def
  cedrus_enc_jpeg_frmsize_def

definition driver_configs :: "cedrus_proc_config list" where
  "driver_configs = [cedrus_dec_config, cedrus_enc_config]"

lemma config_facts:
  assumes "config \<in> set driver_configs"
  shows "distinct (map eng_pixelformat (cfg_engines config))"
    "\<forall>e\<in>set (cfg_engines config). eng_role e = cfg_role config \<and> engine_ok e"
    "\<forall>f\<in>set (cfg_formats config). fmt_type f = FORMAT_TYPE_PICTURE \<and>
       fmt_pixelformat f \<in> picture_formats (cfg_role config)"
    "\<exists>f\<in>set (cfg_formats config). fmt_capabilities f = 0 \<and> fmt_pixelformat f \<noteq> 0"
  using assms
  by (auto simp: driver_configs_def cedrus_dec_config_def cedrus_enc_config_def engine_defs
      frmsize_defs engine_ok_def frmsize_ok_def picture_formats_def hdr_simps)

lemma proc_setup_ok:
  assumes "cedrus_proc_setup dev config = Some proc" "config \<in> set driver_configs"
  shows "proc_ok proc"
proof -
  note c = config_facts[OF assms(2)]
  define es where "es = cedrus_proc_engines_setup dev config"
  define fs where "fs = filter (\<lambda>f. cedrus_capabilities_check dev (fmt_capabilities f) \<and>
    fmt_pixelformat f \<noteq> 0) (cfg_formats config)"
  have es: "es \<noteq> []" and p: "proc = \<lparr>proc_role = cfg_role config, proc_engines = es,
      proc_formats = map (\<lambda>e. \<lparr>fmt_pixelformat = eng_pixelformat e, fmt_capabilities = 0,
        fmt_type = FORMAT_TYPE_CODED\<rparr>) es @ fs\<rparr>"
    using assms(1)
    by (auto simp: cedrus_proc_setup_def Let_def es_def fs_def cedrus_proc_formats_setup_def split: if_splits)
  have e: "distinct (map eng_pixelformat es)" "\<forall>e\<in>set es. eng_role e = cfg_role config \<and> engine_ok e \<and> eng_pixelformat e \<noteq> 0"
    using c(1,2) by (auto simp: es_def cedrus_proc_engines_setup_def distinct_map_filter)
  have f: "\<forall>f\<in>set fs. fmt_type f = FORMAT_TYPE_PICTURE \<and>
      fmt_pixelformat f \<in> picture_formats (cfg_role config)" "list_ex (\<lambda>f. fmt_type f = FORMAT_TYPE_PICTURE) fs"
    using c(3,4) by (auto simp: fs_def list_ex_iff cedrus_capabilities_check_def)
  have pic: "find_first_format (map (\<lambda>e. \<lparr>fmt_pixelformat = eng_pixelformat e, fmt_capabilities = 0,
      fmt_type = FORMAT_TYPE_CODED\<rparr>) es @ fs) FORMAT_TYPE_PICTURE = find_first_format fs FORMAT_TYPE_PICTURE"
    for es :: "cedrus_engine list"
    by (induction es) auto
  have cod: "find_first_format (map (\<lambda>e. \<lparr>fmt_pixelformat = eng_pixelformat e, fmt_capabilities = 0,
      fmt_type = FORMAT_TYPE_CODED\<rparr>) es @ fs) FORMAT_TYPE_CODED = eng_pixelformat (hd es)"
    using es by (cases es) auto
  show ?thesis
    unfolding proc_ok_def p
    using es e f find_first_check[OF f(2)]
    by (simp add: cedrus_proc_format_check_def cedrus_proc_format_find_first_def pic cod)
      (auto simp: list_ex_iff)
qed

end
