(* ===== verification/Cedrus_Context.thy ===== *)
theory Cedrus_Context
  imports Cedrus_Format
begin

text \<open>A file handle on an encoder or decoder (\<open>cedrus_context.c\<close>, the ioctls of \<open>cedrus_proc.c\<close>,
  and the format callbacks of \<open>cedrus_enc.c\<close> and \<open>cedrus_dec.c\<close>): its formats, crop rectangle,
  frame interval, queues and streaming state.

  An operation takes the context and returns an error code (\<open>None\<close> for 0), the context, and what
  it hands back to user space.  Of a videobuf2 queue the driver looks at two facts, whether it has
  buffers (\<open>vb2_is_busy\<close>) and whether it is streaming.\<close>

section \<open>State\<close>

record v4l2_format =
  fmt_buf_type :: buf_type
  fmt_pix :: pix_format

record vb2_queue =
  q_busy :: bool
  q_streaming :: bool

record cedrus_context =
  ctx_engine :: cedrus_engine
  format_coded :: v4l2_format
  format_picture :: v4l2_format
  timeperframe_coded :: v4l2_fract
  timeperframe_picture :: v4l2_fract
  selection_picture :: v4l2_rect
  queue_output :: vb2_queue
  queue_capture :: vb2_queue
  hold_capture_buf :: bool

definition context_queue :: "cedrus_context \<Rightarrow> buf_type \<Rightarrow> vb2_queue" where
  "context_queue ctx bt = (case bt of
     BUF_TYPE_VIDEO_OUTPUT \<Rightarrow> queue_output ctx | BUF_TYPE_VIDEO_CAPTURE \<Rightarrow> queue_capture ctx)"

definition cedrus_context_queue_busy_check :: "cedrus_context \<Rightarrow> buf_type \<Rightarrow> bool" where
  "cedrus_context_queue_busy_check ctx bt = q_busy (context_queue ctx bt)"

definition cedrus_context_queue_streaming_check :: "cedrus_context \<Rightarrow> buf_type \<Rightarrow> bool" where
  "cedrus_context_queue_streaming_check ctx bt = q_streaming (context_queue ctx bt)"

section \<open>Preparing and propagating formats\<close>

definition cedrus_engine_format_prepare ::
    "fit \<Rightarrow> cedrus_context \<Rightarrow> pix_format \<Rightarrow> errno option \<times> pix_format" where
  "cedrus_engine_format_prepare fit ctx pix = (case eng_role (ctx_engine ctx) of
     ROLE_ENCODER \<Rightarrow> cedrus_enc_format_coded_prepare (fmt_pix (format_picture ctx)) pix
   | ROLE_DECODER \<Rightarrow> cedrus_dec_format_coded_prepare fit (ctx_engine ctx) pix)"

text \<open>A pixel format the unit does not have becomes the first one it has.\<close>

definition select_format :: "cedrus_proc \<Rightarrow> format_type \<Rightarrow> pix_format \<Rightarrow> pix_format" where
  "select_format proc ft pix =
    (if cedrus_proc_format_check proc (pixelformat pix) ft then pix
     else pix\<lparr>pixelformat := cedrus_proc_format_find_first proc ft\<rparr>)"

definition cedrus_proc_format_coded_prepare ::
    "fit \<Rightarrow> cedrus_proc \<Rightarrow> cedrus_context \<Rightarrow> pix_format \<Rightarrow> errno option \<times> pix_format" where
  "cedrus_proc_format_coded_prepare fit proc ctx pix =
    cedrus_engine_format_prepare fit ctx (select_format proc FORMAT_TYPE_CODED pix)"

definition cedrus_proc_format_picture_prepare ::
    "fit \<Rightarrow> cedrus_proc \<Rightarrow> cedrus_context \<Rightarrow> pix_format \<Rightarrow> errno option \<times> pix_format" where
  "cedrus_proc_format_picture_prepare fit proc ctx pix =
    (let pix = select_format proc FORMAT_TYPE_PICTURE pix
     in case proc_role proc of
       ROLE_ENCODER \<Rightarrow> cedrus_enc_format_picture_prepare fit (ctx_engine ctx) pix
     | ROLE_DECODER \<Rightarrow> cedrus_dec_format_picture_prepare (fmt_pix (format_coded ctx)) pix)"

definition cedrus_context_selection_picture_reset :: "cedrus_context \<Rightarrow> cedrus_context" where
  "cedrus_context_selection_picture_reset ctx = ctx\<lparr>selection_picture :=
    \<lparr>rect_left = 0, rect_top = 0, rect_width = pix_width (fmt_pix (format_picture ctx)),
     rect_height = pix_height (fmt_pix (format_picture ctx))\<rparr>\<rparr>"

definition cedrus_enc_format_propagate ::
    "fit \<Rightarrow> cedrus_proc \<Rightarrow> format_type \<Rightarrow> cedrus_context \<Rightarrow> errno option \<times> cedrus_context" where
  "cedrus_enc_format_propagate fit proc ft ctx =
    (if ft \<noteq> FORMAT_TYPE_PICTURE then (None, ctx)
     else (let ctx = cedrus_context_selection_picture_reset ctx;
               (ret, pix) = cedrus_proc_format_coded_prepare fit proc ctx (fmt_pix (format_coded ctx))
           in (ret, ctx\<lparr>format_coded := (format_coded ctx)\<lparr>fmt_pix := pix\<rparr>\<rparr>)))"

definition cedrus_dec_format_propagate ::
    "fit \<Rightarrow> cedrus_proc \<Rightarrow> format_type \<Rightarrow> cedrus_context \<Rightarrow> errno option \<times> cedrus_context" where
  "cedrus_dec_format_propagate fit proc ft ctx =
    (if ft \<noteq> FORMAT_TYPE_CODED then (None, ctx)
     else (let (ret, pix) = cedrus_proc_format_picture_prepare fit proc ctx (fmt_pix (format_picture ctx))
           in (ret, ctx\<lparr>format_picture := (format_picture ctx)\<lparr>fmt_pix := pix\<rparr>\<rparr>)))"

definition cedrus_proc_format_propagate ::
    "fit \<Rightarrow> cedrus_proc \<Rightarrow> format_type \<Rightarrow> cedrus_context \<Rightarrow> errno option \<times> cedrus_context" where
  "cedrus_proc_format_propagate fit proc ft ctx = (case proc_role proc of
     ROLE_ENCODER \<Rightarrow> cedrus_enc_format_propagate fit proc ft ctx
   | ROLE_DECODER \<Rightarrow> cedrus_dec_format_propagate fit proc ft ctx)"

definition cedrus_enc_format_dynamic_check ::
    "cedrus_proc \<Rightarrow> cedrus_context \<Rightarrow> v4l2_format \<Rightarrow> bool" where
  "cedrus_enc_format_dynamic_check proc ctx fmt =
    (fmt_buf_type fmt = BUF_TYPE_VIDEO_OUTPUT \<and>
     cedrus_context_queue_busy_check ctx (fmt_buf_type fmt) \<and>
     \<not> cedrus_context_queue_streaming_check ctx (fmt_buf_type fmt) \<and>
     \<not> cedrus_context_queue_busy_check ctx (cedrus_proc_buffer_type proc FORMAT_TYPE_PICTURE) \<and>
     pixelformat (fmt_pix fmt) = pixelformat (fmt_pix (format_coded ctx)))"

definition cedrus_dec_format_dynamic_check ::
    "cedrus_proc \<Rightarrow> cedrus_context \<Rightarrow> v4l2_format \<Rightarrow> bool" where
  "cedrus_dec_format_dynamic_check proc ctx fmt =
    (fmt_buf_type fmt = BUF_TYPE_VIDEO_OUTPUT \<and>
     cedrus_context_queue_busy_check ctx (fmt_buf_type fmt) \<and>
     \<not> cedrus_context_queue_streaming_check ctx (fmt_buf_type fmt) \<and>
     \<not> cedrus_context_queue_busy_check ctx (cedrus_proc_buffer_type proc FORMAT_TYPE_PICTURE) \<and>
     pixelformat (fmt_pix fmt) = pixelformat (fmt_pix (format_coded ctx)))"

definition cedrus_proc_format_dynamic_check ::
    "cedrus_proc \<Rightarrow> cedrus_context \<Rightarrow> v4l2_format \<Rightarrow> bool" where
  "cedrus_proc_format_dynamic_check proc ctx fmt = (case proc_role proc of
     ROLE_ENCODER \<Rightarrow> cedrus_enc_format_dynamic_check proc ctx fmt
   | ROLE_DECODER \<Rightarrow> cedrus_dec_format_dynamic_check proc ctx fmt)"

definition cedrus_context_engine_update ::
    "cedrus_proc \<Rightarrow> cedrus_context \<Rightarrow> errno option \<times> cedrus_context" where
  "cedrus_context_engine_update proc ctx =
    (case cedrus_proc_engine_find_format proc (pixelformat (fmt_pix (format_coded ctx))) of
       None \<Rightarrow> (Some ENODEV, ctx)
     | Some engine \<Rightarrow>
         (None, ctx\<lparr>ctx_engine := engine, hold_capture_buf := eng_slice_based engine\<rparr>))"

section \<open>Ioctls\<close>

subsection \<open>Formats\<close>

definition cedrus_proc_g_fmt :: "cedrus_proc \<Rightarrow> cedrus_context \<Rightarrow> buf_type \<Rightarrow> v4l2_format" where
  "cedrus_proc_g_fmt proc ctx bt = (case cedrus_proc_format_type proc bt of
     FORMAT_TYPE_CODED \<Rightarrow> format_coded ctx | FORMAT_TYPE_PICTURE \<Rightarrow> format_picture ctx)"

definition cedrus_proc_try_fmt ::
    "fit \<Rightarrow> cedrus_proc \<Rightarrow> cedrus_context \<Rightarrow> v4l2_format \<Rightarrow> errno option \<times> v4l2_format" where
  "cedrus_proc_try_fmt fit proc ctx fmt =
    (let (ret, pix) = (case cedrus_proc_format_type proc (fmt_buf_type fmt) of
           FORMAT_TYPE_CODED \<Rightarrow> cedrus_proc_format_coded_prepare fit proc ctx (fmt_pix fmt)
         | FORMAT_TYPE_PICTURE \<Rightarrow> cedrus_proc_format_picture_prepare fit proc ctx (fmt_pix fmt))
     in (ret, fmt\<lparr>fmt_pix := pix\<rparr>))"

definition set_format :: "format_type \<Rightarrow> v4l2_format \<Rightarrow> cedrus_context \<Rightarrow> cedrus_context" where
  "set_format ft fmt ctx = (case ft of
     FORMAT_TYPE_CODED \<Rightarrow> ctx\<lparr>format_coded := fmt\<rparr>
   | FORMAT_TYPE_PICTURE \<Rightarrow> ctx\<lparr>format_picture := fmt\<rparr>)"

definition cedrus_proc_s_fmt :: "fit \<Rightarrow> cedrus_proc \<Rightarrow> cedrus_context \<Rightarrow> v4l2_format \<Rightarrow>
    errno option \<times> cedrus_context \<times> v4l2_format" where
  "cedrus_proc_s_fmt fit proc ctx fmt =
    (let ft = cedrus_proc_format_type proc (fmt_buf_type fmt);
         dynamic = cedrus_proc_format_dynamic_check proc ctx fmt;
         busy = cedrus_context_queue_busy_check ctx (fmt_buf_type fmt)
     in if \<not> dynamic \<and> busy then (Some EINVAL, ctx, fmt)
        else case cedrus_proc_try_fmt fit proc ctx fmt of
          (Some e, fmt) \<Rightarrow> (Some e, ctx, fmt)
        | (None, fmt) \<Rightarrow>
            (case cedrus_proc_format_propagate fit proc ft (set_format ft fmt ctx) of
               (Some e, ctx) \<Rightarrow> (Some e, ctx, fmt)
             | (None, ctx) \<Rightarrow>
                 if ft = FORMAT_TYPE_CODED
                 then (case cedrus_context_engine_update proc ctx of (ret, ctx) \<Rightarrow> (ret, ctx, fmt))
                 else (None, ctx, fmt)))"

text \<open>The loop of \<open>VIDIOC_ENUM_FMT\<close>: \<open>index\<close> counts the formats of the type seen so far.  The
  result is the pixel format, and whether it is flagged as compressed and as a capture format with
  its own frame interval.\<close>

primrec enum_fmt_loop :: "format_type \<Rightarrow> nat \<Rightarrow> nat \<Rightarrow> cedrus_format list \<Rightarrow> u32 option" where
  "enum_fmt_loop ft wanted index [] = None"
| "enum_fmt_loop ft wanted index (f # fs) =
    (if fmt_type f \<noteq> ft then enum_fmt_loop ft wanted index fs
     else if wanted = index then Some (fmt_pixelformat f)
     else if wanted < index then None
     else enum_fmt_loop ft wanted (index + 1) fs)"

definition cedrus_proc_enum_fmt :: "cedrus_proc \<Rightarrow> buf_type \<Rightarrow> nat \<Rightarrow> errno + (u32 \<times> bool \<times> bool)" where
  "cedrus_proc_enum_fmt proc bt wanted =
    (let ft = cedrus_proc_format_type proc bt
     in case enum_fmt_loop ft wanted 0 (proc_formats proc) of
       None \<Rightarrow> Inl EINVAL
     | Some pf \<Rightarrow> Inr (pf, ft = FORMAT_TYPE_CODED,
         proc_role proc = ROLE_ENCODER \<and> ft = FORMAT_TYPE_CODED))"

definition cedrus_proc_size_picture_enum :: "cedrus_proc \<Rightarrow> cedrus_context \<Rightarrow> u32 \<Rightarrow> frmsize" where
  "cedrus_proc_size_picture_enum proc ctx pf =
    (let fs = the (eng_frmsize (ctx_engine ctx))
     in case proc_role proc of
       ROLE_ENCODER \<Rightarrow> fs
     | ROLE_DECODER \<Rightarrow>
         if pf = V4L2_PIX_FMT_NV12_32L32
         then fs\<lparr>min_width := 32, min_height := 32, step_width := 32, step_height := 32\<rparr>
         else fs)"

definition cedrus_proc_enum_framesizes ::
    "cedrus_proc \<Rightarrow> cedrus_context \<Rightarrow> u32 \<Rightarrow> u32 \<Rightarrow> errno + frmsize" where
  "cedrus_proc_enum_framesizes proc ctx index pf =
    (if 0 < index then Inl EINVAL
     else case cedrus_proc_engine_find_format proc pf of
       Some engine \<Rightarrow> Inr (the (eng_frmsize engine))
     | None \<Rightarrow>
         if cedrus_proc_format_check proc pf FORMAT_TYPE_PICTURE
         then Inr (cedrus_proc_size_picture_enum proc ctx pf) else Inl EINVAL)"

text \<open>The frame intervals are the same for every size the format has: from 1/65535 s to 65535 s.\<close>

definition cedrus_proc_enum_frameintervals ::
    "cedrus_proc \<Rightarrow> cedrus_context \<Rightarrow> u32 \<Rightarrow> u32 \<Rightarrow> u32 \<Rightarrow> u32 \<Rightarrow> errno + (v4l2_fract \<times> v4l2_fract)" where
  "cedrus_proc_enum_frameintervals proc ctx index pf width height =
    (if 0 < index then Inl EINVAL
     else case cedrus_proc_enum_framesizes proc ctx 0 pf of
       Inl e \<Rightarrow> Inl e
     | Inr fs \<Rightarrow>
         if width < min_width fs \<or> max_width fs < width \<or> height < min_height fs \<or> max_height fs < height
         then Inl EINVAL
         else Inr (\<lparr>numerator = 1, denominator = 65535\<rparr>, \<lparr>numerator = 65535, denominator = 1\<rparr>))"

subsection \<open>Crop rectangle and frame interval\<close>

datatype sel_target = SEL_TGT_CROP | SEL_TGT_CROP_DEFAULT | SEL_TGT_CROP_BOUNDS | SEL_TGT_OTHER

definition cedrus_proc_g_selection ::
    "cedrus_proc \<Rightarrow> cedrus_context \<Rightarrow> buf_type \<Rightarrow> sel_target \<Rightarrow> errno + v4l2_rect" where
  "cedrus_proc_g_selection proc ctx bt target =
    (if cedrus_proc_format_type proc bt \<noteq> FORMAT_TYPE_PICTURE then Inl EINVAL
     else case target of
       SEL_TGT_CROP \<Rightarrow> Inr (selection_picture ctx)
     | SEL_TGT_OTHER \<Rightarrow> Inl EINVAL
     | _ \<Rightarrow> Inr \<lparr>rect_left = 0, rect_top = 0, rect_width = pix_width (fmt_pix (format_picture ctx)),
         rect_height = pix_height (fmt_pix (format_picture ctx))\<rparr>)"

text \<open>\<open>round_up\<close> on a 32-bit signed value, and the arithmetic of the rectangle, which mixes it
  with unsigned sizes.\<close>

definition round_up_s32 :: "int \<Rightarrow> int \<Rightarrow> int" where
  "round_up_s32 x y = sint (((word_of_int x - 1) OR (word_of_int y - 1)) + 1 :: u32)"

definition cedrus_proc_s_selection :: "cedrus_proc \<Rightarrow> cedrus_context \<Rightarrow> buf_type \<Rightarrow> sel_target \<Rightarrow>
    v4l2_rect \<Rightarrow> (errno + v4l2_rect) \<times> cedrus_context" where
  "cedrus_proc_s_selection proc ctx bt target r =
    (if cedrus_proc_format_type proc bt \<noteq> FORMAT_TYPE_PICTURE \<or> target \<noteq> SEL_TGT_CROP
     then (Inl EINVAL, ctx)
     else (let left = round_up_s32 (rect_left r) 2;
               top = round_up_s32 (rect_top r) 2;
               width_max = pix_width (fmt_pix (format_picture ctx)) - word_of_int left;
               height_max = pix_height (fmt_pix (format_picture ctx)) - word_of_int top;
               r = \<lparr>rect_left = left, rect_top = top,
                 rect_width = clamp (rect_width r) 2 width_max,
                 rect_height = clamp (rect_height r) 2 height_max\<rparr>
           in (Inr r, ctx\<lparr>selection_picture := r\<rparr>)))"

definition cedrus_proc_g_parm :: "cedrus_proc \<Rightarrow> cedrus_context \<Rightarrow> buf_type \<Rightarrow> v4l2_fract" where
  "cedrus_proc_g_parm proc ctx bt = (case cedrus_proc_format_type proc bt of
     FORMAT_TYPE_CODED \<Rightarrow> timeperframe_coded ctx | FORMAT_TYPE_PICTURE \<Rightarrow> timeperframe_picture ctx)"

definition cedrus_proc_s_parm :: "cedrus_proc \<Rightarrow> cedrus_context \<Rightarrow> buf_type \<Rightarrow> v4l2_fract \<Rightarrow>
    v4l2_fract \<times> cedrus_context" where
  "cedrus_proc_s_parm proc ctx bt tpf =
    (if numerator tpf = 0 \<or> denominator tpf = 0 then (cedrus_proc_g_parm proc ctx bt, ctx)
     else (case cedrus_proc_format_type proc bt of
         FORMAT_TYPE_CODED \<Rightarrow> (tpf, ctx\<lparr>timeperframe_coded := tpf\<rparr>)
       | FORMAT_TYPE_PICTURE \<Rightarrow>
           (tpf, ctx\<lparr>timeperframe_picture := tpf, timeperframe_coded := tpf\<rparr>)))"

section \<open>Opening a context\<close>

definition cedrus_enc_format_setup ::
    "fit \<Rightarrow> cedrus_proc \<Rightarrow> cedrus_context \<Rightarrow> errno option \<times> cedrus_context" where
  "cedrus_enc_format_setup fit proc ctx =
    (let pix = (fmt_pix (format_picture ctx))\<lparr>
           pixelformat := cedrus_proc_format_find_first proc FORMAT_TYPE_PICTURE,
           pix_width := 1280, pix_height := 720\<rparr>;
         tpf = \<lparr>numerator = 1, denominator = 25\<rparr>;
         (ret, pix) = cedrus_proc_format_picture_prepare fit proc ctx pix;
         ctx = ctx\<lparr>timeperframe_picture := tpf, format_picture :=
           \<lparr>fmt_buf_type = cedrus_proc_buffer_type proc FORMAT_TYPE_PICTURE, fmt_pix = pix\<rparr>\<rparr>
     in if ret \<noteq> None then (ret, ctx)
        else (let (ret, ctx) = cedrus_proc_format_propagate fit proc FORMAT_TYPE_PICTURE
                    (ctx\<lparr>format_coded := (format_coded ctx)\<lparr>
                      fmt_buf_type := cedrus_proc_buffer_type proc FORMAT_TYPE_CODED\<rparr>\<rparr>)
              in if ret \<noteq> None then (ret, ctx) else (None, ctx\<lparr>timeperframe_coded := tpf\<rparr>)))"

definition cedrus_dec_format_setup ::
    "fit \<Rightarrow> cedrus_proc \<Rightarrow> cedrus_context \<Rightarrow> errno option \<times> cedrus_context" where
  "cedrus_dec_format_setup fit proc ctx =
    (let pix = (fmt_pix (format_coded ctx))\<lparr>
           pixelformat := eng_pixelformat (ctx_engine ctx), pix_width := 1280, pix_height := 720\<rparr>;
         (ret, pix) = cedrus_proc_format_coded_prepare fit proc ctx pix;
         ctx = ctx\<lparr>format_coded :=
           \<lparr>fmt_buf_type = cedrus_proc_buffer_type proc FORMAT_TYPE_CODED, fmt_pix = pix\<rparr>\<rparr>
     in if ret \<noteq> None then (ret, ctx)
        else cedrus_proc_format_propagate fit proc FORMAT_TYPE_CODED
          (ctx\<lparr>format_picture := (format_picture ctx)\<lparr>
            fmt_buf_type := cedrus_proc_buffer_type proc FORMAT_TYPE_PICTURE\<rparr>\<rparr>))"

definition cedrus_proc_format_setup ::
    "fit \<Rightarrow> cedrus_proc \<Rightarrow> cedrus_context \<Rightarrow> errno option \<times> cedrus_context" where
  "cedrus_proc_format_setup fit proc ctx = (case proc_role proc of
     ROLE_ENCODER \<Rightarrow> cedrus_enc_format_setup fit proc ctx
   | ROLE_DECODER \<Rightarrow> cedrus_dec_format_setup fit proc ctx)"

text \<open>The zeroed context of \<open>cedrus_proc_open\<close>, and what \<open>cedrus_context_setup\<close> makes of it.\<close>

definition zero_context :: "cedrus_engine \<Rightarrow> cedrus_context" where
  "zero_context engine = \<lparr>ctx_engine = engine,
     format_coded = \<lparr>fmt_buf_type = BUF_TYPE_VIDEO_CAPTURE, fmt_pix = zero_pix\<rparr>,
     format_picture = \<lparr>fmt_buf_type = BUF_TYPE_VIDEO_CAPTURE, fmt_pix = zero_pix\<rparr>,
     timeperframe_coded = \<lparr>numerator = 0, denominator = 0\<rparr>,
     timeperframe_picture = \<lparr>numerator = 0, denominator = 0\<rparr>,
     selection_picture = \<lparr>rect_left = 0, rect_top = 0, rect_width = 0, rect_height = 0\<rparr>,
     queue_output = \<lparr>q_busy = False, q_streaming = False\<rparr>,
     queue_capture = \<lparr>q_busy = False, q_streaming = False\<rparr>,
     hold_capture_buf = False\<rparr>"

definition cedrus_context_setup :: "fit \<Rightarrow> cedrus_proc \<Rightarrow> errno option \<times> cedrus_context" where
  "cedrus_context_setup fit proc =
    cedrus_proc_format_setup fit proc (zero_context (hd (proc_engines proc)))"

section \<open>Negotiation\<close>

lemma coded_prepare_negotiate:
  "cedrus_proc_format_coded_prepare fit proc ctx = (case eng_role (ctx_engine ctx) of
     ROLE_ENCODER \<Rightarrow> enc_coded.negotiate (fmt_pix (format_picture ctx))
   | ROLE_DECODER \<Rightarrow> dec_coded.negotiate fit (ctx_engine ctx))
     (\<lambda>pf. cedrus_proc_format_check proc pf FORMAT_TYPE_CODED)
     (cedrus_proc_format_find_first proc FORMAT_TYPE_CODED)"
  by (rule ext) (simp add: cedrus_proc_format_coded_prepare_def cedrus_engine_format_prepare_def
      select_format_def enc_coded.negotiate_def dec_coded.negotiate_def split: cedrus_role.split)

lemma picture_prepare_negotiate:
  "cedrus_proc_format_picture_prepare fit proc ctx = (case proc_role proc of
     ROLE_ENCODER \<Rightarrow> enc_picture.negotiate fit (ctx_engine ctx)
   | ROLE_DECODER \<Rightarrow> dec_picture.negotiate (fmt_pix (format_coded ctx)))
     (\<lambda>pf. cedrus_proc_format_check proc pf FORMAT_TYPE_PICTURE)
     (cedrus_proc_format_find_first proc FORMAT_TYPE_PICTURE)"
  by (rule ext) (simp add: cedrus_proc_format_picture_prepare_def Let_def
      select_format_def enc_picture.negotiate_def dec_picture.negotiate_def split: cedrus_role.split)

section \<open>The states of a context\<close>

text \<open>Any ioctl, and any change of the buffers and the streaming state of the queues that
  videobuf2 allows.\<close>

definition queue_ok :: "vb2_queue \<Rightarrow> bool" where
  "queue_ok q = (q_streaming q \<longrightarrow> q_busy q)"

inductive context_step :: "fit \<Rightarrow> cedrus_proc \<Rightarrow> cedrus_context \<Rightarrow> cedrus_context \<Rightarrow> bool"
  for fit proc where
  set_fmt: "cedrus_proc_s_fmt fit proc ctx fmt = (ret, ctx', fmt') \<Longrightarrow> context_step fit proc ctx ctx'"
| set_selection: "cedrus_proc_s_selection proc ctx bt target r = (ret, ctx') \<Longrightarrow>
    context_step fit proc ctx ctx'"
| set_parm: "cedrus_proc_s_parm proc ctx bt tpf = (tpf', ctx') \<Longrightarrow> context_step fit proc ctx ctx'"
| queues: "queue_ok q \<Longrightarrow> queue_ok q' \<Longrightarrow>
    context_step fit proc ctx (ctx\<lparr>queue_output := q, queue_capture := q'\<rparr>)"

inductive context_reach :: "fit \<Rightarrow> cedrus_proc \<Rightarrow> cedrus_context \<Rightarrow> bool" for fit proc where
  opened: "cedrus_context_setup fit proc = (None, ctx) \<Longrightarrow> context_reach fit proc ctx"
| step: "context_reach fit proc ctx \<Longrightarrow> context_step fit proc ctx ctx' \<Longrightarrow> context_reach fit proc ctx'"

inductive_cases context_stepE: "context_step fit proc ctx ctx'"

text \<open>A picture format whose stride and size are those of the plane layout, small enough for none
  of them to wrap.\<close>

definition picture_layout :: "pix_format \<Rightarrow> bool" where
  "picture_layout pix = (16 \<le> unat (pix_width pix) \<and> unat (pix_width pix) \<le> 4096 \<and>
     unat (pix_height pix) \<le> 4096 \<and>
     bytesperline pix = stride_of (pix_width pix) (bytesperline pix) \<and>
     sizeimage pix = bytesperline pix * pix_height pix + bytesperline pix * pix_height pix div 2)"

definition format_inv :: "cedrus_proc \<Rightarrow> cedrus_context \<Rightarrow> bool" where
  "format_inv proc ctx = (let coded = fmt_pix (format_coded ctx); picture = fmt_pix (format_picture ctx)
     in ctx_engine ctx \<in> set (proc_engines proc) \<and>
        eng_pixelformat (ctx_engine ctx) = pixelformat coded \<and>
        cedrus_proc_format_check proc (pixelformat picture) FORMAT_TYPE_PICTURE \<and>
        fmt_buf_type (format_coded ctx) = cedrus_proc_buffer_type proc FORMAT_TYPE_CODED \<and>
        fmt_buf_type (format_picture ctx) = cedrus_proc_buffer_type proc FORMAT_TYPE_PICTURE \<and>
        (case proc_role proc of
           ROLE_ENCODER \<Rightarrow> cedrus_enc_format_coded_prepare picture coded = (None, coded) \<and>
             picture_layout picture
         | ROLE_DECODER \<Rightarrow> cedrus_dec_format_picture_prepare coded picture = (None, picture) \<and>
             16 \<le> unat (pix_width coded) \<and> unat (pix_width coded) \<le> 4096 \<and>
             unat (pix_height coded) \<le> 4096))"

lemma format_inv_cong:
  "format_coded c = format_coded ctx \<Longrightarrow> format_picture c = format_picture ctx \<Longrightarrow>
   ctx_engine c = ctx_engine ctx \<Longrightarrow> format_inv proc c = format_inv proc ctx"
  by (simp add: format_inv_def)

lemma buffer_type_format_type [simp]:
  "cedrus_proc_buffer_type proc (cedrus_proc_format_type proc bt) = bt"
  "cedrus_proc_format_type proc (cedrus_proc_buffer_type proc ft) = ft"
  by (cases bt; cases ft; simp add: cedrus_proc_buffer_type_def cedrus_proc_format_type_def
      split: cedrus_role.split)+

lemma find_engine:
  assumes "proc_ok proc" "e \<in> set (proc_engines proc)"
  shows "cedrus_proc_engine_find_format proc (eng_pixelformat e) = Some e"
proof -
  have "find (\<lambda>x. eng_pixelformat x = eng_pixelformat e) es = Some e"
    if "distinct (map eng_pixelformat es)" "e \<in> set es" for es
    using that by (induction es) auto
  then show ?thesis
    using proc_okD(2)[OF assms(1)] assms(2) by (simp add: cedrus_proc_engine_find_format_def)
qed

lemma coded_prepare_total:
  assumes "proc_ok proc" "eng_role (ctx_engine ctx) = proc_role proc"
  shows "\<exists>pix'. cedrus_proc_format_coded_prepare fit proc ctx pix = (None, pix') \<and>
    pixelformat pix' \<in> eng_pixelformat ` set (proc_engines proc) \<and>
    (cedrus_proc_format_check proc (pixelformat pix) FORMAT_TYPE_CODED \<longrightarrow>
      pixelformat pix' = pixelformat pix)"
proof -
  have d: "cedrus_proc_format_check proc (cedrus_proc_format_find_first proc FORMAT_TYPE_CODED) FORMAT_TYPE_CODED"
    using proc_okD(1,6,7)[OF assms(1)] by simp
  show ?thesis
    using assms(2) proc_okD(6)[OF assms(1)]
      enc_coded.negotiate_total[of "\<lambda>pf. cedrus_proc_format_check proc pf FORMAT_TYPE_CODED", OF TrueI d,
        of "fmt_pix (format_picture ctx)" pix]
      dec_coded.negotiate_total[of "\<lambda>pf. cedrus_proc_format_check proc pf FORMAT_TYPE_CODED", OF TrueI d,
        of fit "ctx_engine ctx" pix] d
    by (auto simp: coded_prepare_negotiate split: cedrus_role.splits if_splits)
qed

lemma picture_prepare_total:
  assumes "proc_ok proc"
  shows "\<exists>pix'. cedrus_proc_format_picture_prepare fit proc ctx pix = (None, pix') \<and>
    cedrus_proc_format_check proc (pixelformat pix') FORMAT_TYPE_PICTURE"
proof -
  note d = proc_okD(8)[OF assms] proc_okD(9)[OF assms]
  show ?thesis
  proof (cases "proc_role proc")
    case ROLE_DECODER
    then have s: "\<And>pf. cedrus_proc_format_check proc pf FORMAT_TYPE_PICTURE \<Longrightarrow>
        pf \<in> {V4L2_PIX_FMT_NV12, V4L2_PIX_FMT_NV12_32L32}"
      using d(1) by (simp add: picture_formats_def)
    show ?thesis
      using dec_picture.negotiate_total[where offered = "\<lambda>pf. cedrus_proc_format_check proc pf FORMAT_TYPE_PICTURE", OF s d(2), of "fmt_pix (format_coded ctx)" pix] d(2) ROLE_DECODER
      by (auto simp: picture_prepare_negotiate split: if_splits)
  next
    case ROLE_ENCODER
    then have s: "\<And>pf. cedrus_proc_format_check proc pf FORMAT_TYPE_PICTURE \<Longrightarrow> pf = V4L2_PIX_FMT_NV12"
      using d(1) by (simp add: picture_formats_def)
    show ?thesis
      using enc_picture.negotiate_total[where offered = "\<lambda>pf. cedrus_proc_format_check proc pf FORMAT_TYPE_PICTURE", OF s d(2), of fit "ctx_engine ctx" pix] d(2) ROLE_ENCODER
      by (auto simp: picture_prepare_negotiate split: if_splits)
  qed
qed

lemma enc_picture_layout:
  assumes "frmsize_contract fit" "engine_ok e" "cedrus_enc_format_picture_prepare fit e pix = (None, pix')"
  shows "picture_layout pix'" "frmsize_fits (the (eng_frmsize e)) (pix_width pix', pix_height pix')"
proof -
  obtain w h where wh: "apply_frmsize_constraints fit (eng_frmsize e) (pix_width pix, pix_height pix) = (w, h)"
    by (cases "apply_frmsize_constraints fit (eng_frmsize e) (pix_width pix, pix_height pix)")
  note f = apply_frmsize_fits(1)[OF assms(1,2), of "(pix_width pix, pix_height pix)", unfolded wh]
  note b = frmsize_fits_bounds[OF assms(2) f]
  have p: "pix' = pix\<lparr>pix_width := w, pix_height := h, bytesperline := stride_of w (bytesperline pix),
      sizeimage := stride_of w (bytesperline pix) * h + stride_of w (bytesperline pix) * h div 2,
      pix_field := V4L2_FIELD_NONE\<rparr>"
    using assms(3) wh by (simp add: enc_picture_prepare_alt Let_def split: if_splits)
  show "picture_layout pix'"
    using b stride_of_bounds(4)[OF b(1,2), of "bytesperline pix"] by (simp add: picture_layout_def p)
  show "frmsize_fits (the (eng_frmsize e)) (pix_width pix', pix_height pix')" using f by (simp add: p)
qed

lemma dec_coded_size:
  assumes "frmsize_contract fit" "engine_ok e" "cedrus_dec_format_coded_prepare fit e pix = (None, pix')"
  shows "frmsize_fits (the (eng_frmsize e)) (pix_width pix', pix_height pix')"
    "16 \<le> unat (pix_width pix') \<and> unat (pix_width pix') \<le> 4096 \<and> unat (pix_height pix') \<le> 4096"
proof -
  obtain w h where wh: "apply_frmsize_constraints fit (eng_frmsize e) (pix_width pix, pix_height pix) = (w, h)"
    by (cases "apply_frmsize_constraints fit (eng_frmsize e) (pix_width pix, pix_height pix)")
  note f = apply_frmsize_fits(1)[OF assms(1,2), of "(pix_width pix, pix_height pix)", unfolded wh]
  have p: "pix_width pix' = w" "pix_height pix' = h"
    using assms(3) wh by (auto simp: cedrus_dec_format_coded_prepare_def Let_def)
  show "frmsize_fits (the (eng_frmsize e)) (pix_width pix', pix_height pix')" using f p by simp
  show "16 \<le> unat (pix_width pix') \<and> unat (pix_width pix') \<le> 4096 \<and> unat (pix_height pix') \<le> 4096"
    using frmsize_fits_bounds[OF assms(2) f] p by simp
qed

lemma format_invD:
  assumes "format_inv proc ctx" "proc_ok proc"
  shows "eng_role (ctx_engine ctx) = proc_role proc" "engine_ok (ctx_engine ctx)"
    "ctx_engine ctx \<in> set (proc_engines proc)"
    "cedrus_proc_format_check proc (pixelformat (fmt_pix (format_coded ctx))) FORMAT_TYPE_CODED"
    "cedrus_proc_format_check proc (pixelformat (fmt_pix (format_picture ctx))) FORMAT_TYPE_PICTURE"
  using assms proc_okD(3,4)[OF assms(2)] proc_okD(6)[OF assms(2), of "eng_pixelformat (ctx_engine ctx)"]
    imageI[of "ctx_engine ctx" "set (proc_engines proc)" eng_pixelformat]
  by (auto simp: format_inv_def Let_def)

text \<open>\<open>TRY_FMT\<close> adjusts every request to one it would not adjust again.\<close>

lemma try_fmt_total:
  assumes "proc_ok proc" "eng_role (ctx_engine ctx) = proc_role proc"
  shows "\<exists>pix'. cedrus_proc_try_fmt fit proc ctx fmt = (None, fmt\<lparr>fmt_pix := pix'\<rparr>)"
proof (cases "cedrus_proc_format_type proc (fmt_buf_type fmt)")
  case FORMAT_TYPE_CODED
  then show ?thesis
    using coded_prepare_total[OF assms, of fit "fmt_pix fmt"] by (auto simp: cedrus_proc_try_fmt_def)
next
  case FORMAT_TYPE_PICTURE
  then show ?thesis
    using picture_prepare_total[OF assms(1), of fit ctx "fmt_pix fmt"] by (auto simp: cedrus_proc_try_fmt_def)
qed

lemma select_format_idem:
  "cedrus_proc_format_check proc (pixelformat pix) ft \<Longrightarrow> select_format proc ft pix = pix"
  by (simp add: select_format_def)

lemma coded_prepare_stable:
  assumes "proc_ok proc" "frmsize_contract fit" "eng_role (ctx_engine ctx) = proc_role proc"
    "engine_ok (ctx_engine ctx)" "cedrus_proc_format_coded_prepare fit proc ctx pix = (None, pix')"
  shows "cedrus_proc_format_coded_prepare fit proc ctx pix' = (None, pix')"
proof -
  have c: "cedrus_proc_format_check proc (pixelformat pix') FORMAT_TYPE_CODED"
    using coded_prepare_total[OF assms(1,3), of fit pix] assms(5) proc_okD(6)[OF assms(1)] by auto
  have "cedrus_engine_format_prepare fit ctx pix' = (None, pix')"
    using assms(5) enc_coded_stable dec_coded_stable[OF assms(2,4)]
    by (auto simp: cedrus_proc_format_coded_prepare_def cedrus_engine_format_prepare_def
        split: cedrus_role.splits)
  then show ?thesis by (simp add: cedrus_proc_format_coded_prepare_def select_format_idem[OF c])
qed

lemma picture_prepare_stable:
  assumes "proc_ok proc" "frmsize_contract fit" "engine_ok (ctx_engine ctx)"
    "cedrus_proc_format_picture_prepare fit proc ctx pix = (None, pix')"
  shows "cedrus_proc_format_picture_prepare fit proc ctx pix' = (None, pix')"
proof -
  have c: "cedrus_proc_format_check proc (pixelformat pix') FORMAT_TYPE_PICTURE"
    using picture_prepare_total[OF assms(1), of fit ctx pix] assms(4) by auto
  show ?thesis
    using assms(4) dec_picture_stable enc_picture_stable[OF assms(2,3)]
    by (auto simp: cedrus_proc_format_picture_prepare_def Let_def select_format_idem[OF c]
        split: cedrus_role.splits)
qed

lemma try_fmt_stable_lemma:
  assumes "proc_ok proc" "frmsize_contract fit" "eng_role (ctx_engine ctx) = proc_role proc"
    "engine_ok (ctx_engine ctx)" "cedrus_proc_try_fmt fit proc ctx fmt = (None, fmt')"
  shows "cedrus_proc_try_fmt fit proc ctx fmt' = (None, fmt')"
  using assms(5) coded_prepare_stable[OF assms(1-4)] picture_prepare_stable[OF assms(1,2,4)]
  by (auto simp: cedrus_proc_try_fmt_def Let_def split: format_type.splits prod.splits)

lemma engine_update_found:
  assumes "proc_ok proc" "pixelformat (fmt_pix (format_coded ctx)) \<in> eng_pixelformat ` set (proc_engines proc)"
  shows "\<exists>e\<in>set (proc_engines proc). eng_pixelformat e = pixelformat (fmt_pix (format_coded ctx)) \<and>
    cedrus_context_engine_update proc ctx =
      (None, ctx\<lparr>ctx_engine := e, hold_capture_buf := eng_slice_based e\<rparr>)"
  using assms(2) find_engine[OF assms(1)] by (auto simp: cedrus_context_engine_update_def)

lemma engine_prepare_coded:
  assumes "eng_role (ctx_engine ctx) = ROLE_ENCODER"
  shows "cedrus_proc_format_coded_prepare fit proc ctx pix =
    cedrus_enc_format_coded_prepare (fmt_pix (format_picture ctx)) (select_format proc FORMAT_TYPE_CODED pix)"
  using assms by (simp add: cedrus_proc_format_coded_prepare_def cedrus_engine_format_prepare_def)

text \<open>What a successful \<open>S_FMT\<close> leaves behind, by role and kind of format.\<close>

definition s_fmt_succeeds :: "fit \<Rightarrow> cedrus_proc \<Rightarrow> cedrus_context \<Rightarrow> v4l2_format \<Rightarrow> bool" where
  "s_fmt_succeeds fit proc ctx fmt = (\<exists>ctx' fmt'.
    cedrus_proc_s_fmt fit proc ctx fmt = (None, ctx', fmt') \<and>
    cedrus_proc_try_fmt fit proc ctx fmt = (None, fmt') \<and>
    cedrus_proc_g_fmt proc ctx' (fmt_buf_type fmt) = fmt' \<and> format_inv proc ctx')"

definition s_fmt_busy :: "cedrus_proc \<Rightarrow> cedrus_context \<Rightarrow> v4l2_format \<Rightarrow> bool" where
  "s_fmt_busy proc ctx fmt = (\<not> cedrus_proc_format_dynamic_check proc ctx fmt \<and>
     cedrus_context_queue_busy_check ctx (fmt_buf_type fmt))"

lemma s_fmt_coded:
  assumes "proc_ok proc" "frmsize_contract fit" "format_inv proc ctx" "\<not> s_fmt_busy proc ctx fmt"
    and ft: "cedrus_proc_format_type proc (fmt_buf_type fmt) = FORMAT_TYPE_CODED"
  shows "s_fmt_succeeds fit proc ctx fmt"
proof -
  note r = format_invD[OF assms(3,1)]
  have bt: "fmt_buf_type fmt = cedrus_proc_buffer_type proc FORMAT_TYPE_CODED"
    using ft buffer_type_format_type(1)[of proc "fmt_buf_type fmt"] by simp
  obtain pix' where p: "cedrus_proc_format_coded_prepare fit proc ctx (fmt_pix fmt) = (None, pix')"
    and pf: "pixelformat pix' \<in> eng_pixelformat ` set (proc_engines proc)"
    using coded_prepare_total[OF assms(1) r(1), of fit "fmt_pix fmt"] by blast
  let ?c = "ctx\<lparr>format_coded := fmt\<lparr>fmt_pix := pix'\<rparr>\<rparr>"
  have t: "cedrus_proc_try_fmt fit proc ctx fmt = (None, fmt\<lparr>fmt_pix := pix'\<rparr>)"
    using p ft by (simp add: cedrus_proc_try_fmt_def)
  obtain pic where c': "cedrus_proc_format_propagate fit proc FORMAT_TYPE_CODED ?c =
      (None, ?c\<lparr>format_picture := (format_picture ctx)\<lparr>fmt_pix := pic\<rparr>\<rparr>)"
    and pic: "cedrus_proc_format_check proc (pixelformat pic) FORMAT_TYPE_PICTURE"
    and dec: "proc_role proc = ROLE_DECODER \<longrightarrow> cedrus_dec_format_picture_prepare pix' pic = (None, pic)"
    and enc: "proc_role proc = ROLE_ENCODER \<longrightarrow> pic = fmt_pix (format_picture ctx)"
  proof (cases "proc_role proc")
    case ROLE_ENCODER
    then show ?thesis
      using that[of "fmt_pix (format_picture ctx)"] r(5)
      by (simp add: cedrus_proc_format_propagate_def cedrus_enc_format_propagate_def)
  next
    case ROLE_DECODER
    obtain pic where "cedrus_proc_format_picture_prepare fit proc ?c (fmt_pix (format_picture ctx)) = (None, pic)"
      "cedrus_proc_format_check proc (pixelformat pic) FORMAT_TYPE_PICTURE"
      using picture_prepare_total[OF assms(1)] by blast
    moreover have "cedrus_dec_format_picture_prepare pix' pic = (None, pic)"
      using calculation(1) ROLE_DECODER dec_picture_stable
      by (simp add: cedrus_proc_format_picture_prepare_def Let_def)
    ultimately show ?thesis
      using that[of pic] ROLE_DECODER
      by (simp add: cedrus_proc_format_propagate_def cedrus_dec_format_propagate_def)
  qed
  let ?d = "?c\<lparr>format_picture := (format_picture ctx)\<lparr>fmt_pix := pic\<rparr>\<rparr>"
  obtain e where e: "e \<in> set (proc_engines proc)" "eng_pixelformat e = pixelformat pix'"
    "cedrus_context_engine_update proc ?d =
       (None, ?d\<lparr>ctx_engine := e, hold_capture_buf := eng_slice_based e\<rparr>)"
    using engine_update_found[OF assms(1), of ?d] pf by auto
  have s: "cedrus_proc_s_fmt fit proc ctx fmt =
      (None, ?d\<lparr>ctx_engine := e, hold_capture_buf := eng_slice_based e\<rparr>, fmt\<lparr>fmt_pix := pix'\<rparr>)"
    using assms(4) ft t c' e(3) by (simp add: cedrus_proc_s_fmt_def s_fmt_busy_def set_format_def Let_def)
  have "proc_role proc = ROLE_ENCODER \<longrightarrow>
      cedrus_enc_format_coded_prepare (fmt_pix (format_picture ctx)) pix' = (None, pix')"
    using p r(1) enc_coded_stable by (auto simp: engine_prepare_coded)
  moreover have "proc_role proc = ROLE_DECODER \<longrightarrow>
      16 \<le> unat (pix_width pix') \<and> unat (pix_width pix') \<le> 4096 \<and> unat (pix_height pix') \<le> 4096"
    using p r(1) dec_coded_size(2)[OF assms(2) r(2)]
    by (auto simp: cedrus_proc_format_coded_prepare_def cedrus_engine_format_prepare_def)
  ultimately have "format_inv proc (?d\<lparr>ctx_engine := e, hold_capture_buf := eng_slice_based e\<rparr>)"
    using assms(3) e(1,2) pic dec enc bt by (auto simp: format_inv_def Let_def split: cedrus_role.splits)
  then show ?thesis using s t ft by (auto simp: s_fmt_succeeds_def cedrus_proc_g_fmt_def)
qed

lemma s_fmt_picture:
  assumes "proc_ok proc" "frmsize_contract fit" "format_inv proc ctx" "\<not> s_fmt_busy proc ctx fmt"
    and ft: "cedrus_proc_format_type proc (fmt_buf_type fmt) = FORMAT_TYPE_PICTURE"
  shows "s_fmt_succeeds fit proc ctx fmt"
proof -
  note r = format_invD[OF assms(3,1)]
  have bt: "fmt_buf_type fmt = cedrus_proc_buffer_type proc FORMAT_TYPE_PICTURE"
    using ft buffer_type_format_type(1)[of proc "fmt_buf_type fmt"] by simp
  obtain pix' where p: "cedrus_proc_format_picture_prepare fit proc ctx (fmt_pix fmt) = (None, pix')"
    and pf: "cedrus_proc_format_check proc (pixelformat pix') FORMAT_TYPE_PICTURE"
    using picture_prepare_total[OF assms(1), of fit ctx "fmt_pix fmt"] by blast
  let ?f = "fmt\<lparr>fmt_pix := pix'\<rparr>"
  have t: "cedrus_proc_try_fmt fit proc ctx fmt = (None, ?f)"
    using p ft by (simp add: cedrus_proc_try_fmt_def)
  show ?thesis
  proof (cases "proc_role proc")
    case ROLE_DECODER
    have s: "cedrus_proc_s_fmt fit proc ctx fmt = (None, ctx\<lparr>format_picture := ?f\<rparr>, ?f)"
      using assms(4) ft t ROLE_DECODER
      by (simp add: cedrus_proc_s_fmt_def s_fmt_busy_def set_format_def Let_def
          cedrus_proc_format_propagate_def cedrus_dec_format_propagate_def)
    have "cedrus_dec_format_picture_prepare (fmt_pix (format_coded ctx)) pix' = (None, pix')"
      using p ROLE_DECODER dec_picture_stable by (simp add: cedrus_proc_format_picture_prepare_def Let_def)
    then show ?thesis
      using s t ft assms(3) pf bt ROLE_DECODER
      by (simp add: s_fmt_succeeds_def cedrus_proc_g_fmt_def format_inv_def Let_def)
  next
    case ROLE_ENCODER
    let ?c = "cedrus_context_selection_picture_reset (ctx\<lparr>format_picture := ?f\<rparr>)"
    have rc: "eng_role (ctx_engine ?c) = ROLE_ENCODER"
      using r(1) ROLE_ENCODER by (simp add: cedrus_context_selection_picture_reset_def)
    obtain cod where c: "cedrus_proc_format_coded_prepare fit proc ?c (fmt_pix (format_coded ctx)) = (None, cod)"
      and cf: "pixelformat cod = pixelformat (fmt_pix (format_coded ctx))"
      using coded_prepare_total[OF assms(1), of ?c fit "fmt_pix (format_coded ctx)"] rc ROLE_ENCODER r(4) by auto
    let ?d = "?c\<lparr>format_coded := (format_coded ctx)\<lparr>fmt_pix := cod\<rparr>\<rparr>"
    have s: "cedrus_proc_s_fmt fit proc ctx fmt = (None, ?d, ?f)"
      using assms(4) ft t ROLE_ENCODER c
      by (simp add: cedrus_proc_s_fmt_def s_fmt_busy_def set_format_def Let_def
          cedrus_proc_format_propagate_def cedrus_enc_format_propagate_def)
        (simp add: cedrus_context_selection_picture_reset_def)
    have "cedrus_enc_format_coded_prepare pix' cod = (None, cod)"
      using c rc enc_coded_stable by (simp add: engine_prepare_coded)
        (simp add: cedrus_context_selection_picture_reset_def)
    moreover have "picture_layout pix'"
      using p ROLE_ENCODER enc_picture_layout(1)[OF assms(2) r(2)]
      by (simp add: cedrus_proc_format_picture_prepare_def Let_def)
    ultimately have "format_inv proc ?d"
      using assms(3) pf bt cf ROLE_ENCODER
      by (simp add: format_inv_def Let_def cedrus_context_selection_picture_reset_def)
    then show ?thesis
      using s t ft
      by (simp add: s_fmt_succeeds_def cedrus_proc_g_fmt_def cedrus_context_selection_picture_reset_def)
  qed
qed

lemma s_fmt_cases:
  assumes "proc_ok proc" "frmsize_contract fit" "format_inv proc ctx"
  shows "(if s_fmt_busy proc ctx fmt then cedrus_proc_s_fmt fit proc ctx fmt = (Some EINVAL, ctx, fmt)
    else s_fmt_succeeds fit proc ctx fmt)"
  using s_fmt_coded[OF assms, of fmt] s_fmt_picture[OF assms, of fmt]
  by (cases "cedrus_proc_format_type proc (fmt_buf_type fmt)")
    (auto simp: s_fmt_busy_def cedrus_proc_s_fmt_def Let_def)

lemma setup_inv:
  assumes "proc_ok proc" "frmsize_contract fit"
  shows "\<exists>ctx. cedrus_context_setup fit proc = (None, ctx) \<and> format_inv proc ctx"
proof -
  let ?e = "hd (proc_engines proc)" and ?z = "zero_context (hd (proc_engines proc))"
  have e: "?e \<in> set (proc_engines proc)" using proc_okD(1)[OF assms(1)] by simp
  note r = proc_okD(3,4)[OF assms(1) e]
  show ?thesis
  proof (cases "proc_role proc")
    case ROLE_ENCODER
    let ?p = "(fmt_pix (format_picture ?z))\<lparr>
      pixelformat := cedrus_proc_format_find_first proc FORMAT_TYPE_PICTURE, pix_width := 1280, pix_height := 720\<rparr>"
    obtain pic where p: "cedrus_proc_format_picture_prepare fit proc ?z ?p = (None, pic)"
      and pf: "cedrus_proc_format_check proc (pixelformat pic) FORMAT_TYPE_PICTURE"
      using picture_prepare_total[OF assms(1)] by blast
    let ?tpf = "\<lparr>numerator = 1, denominator = 25\<rparr> :: v4l2_fract"
    let ?c = "?z\<lparr>timeperframe_picture := ?tpf, format_picture :=
       \<lparr>fmt_buf_type = cedrus_proc_buffer_type proc FORMAT_TYPE_PICTURE, fmt_pix = pic\<rparr>,
       format_coded := (format_coded ?z)\<lparr>fmt_buf_type := cedrus_proc_buffer_type proc FORMAT_TYPE_CODED\<rparr>\<rparr>"
    let ?d = "cedrus_context_selection_picture_reset ?c"
    have rd: "eng_role (ctx_engine ?d) = ROLE_ENCODER"
      using r(1) ROLE_ENCODER by (simp add: cedrus_context_selection_picture_reset_def zero_context_def)
    obtain cod where c: "cedrus_proc_format_coded_prepare fit proc ?d (fmt_pix (format_coded ?z)) = (None, cod)"
      using coded_prepare_total[OF assms(1), of ?d] rd ROLE_ENCODER by auto
    have z: "\<not> cedrus_proc_format_check proc 0 FORMAT_TYPE_CODED"
      using proc_okD(5)[OF assms(1)] proc_okD(6)[OF assms(1), of 0] by auto
    have cf: "pixelformat cod = eng_pixelformat ?e" "cedrus_enc_format_coded_prepare pic cod = (None, cod)"
      using c rd z proc_okD(7)[OF assms(1)]
      by (auto simp: engine_prepare_coded cedrus_enc_format_coded_prepare_def select_format_def
          zero_context_def zero_pix_def cedrus_context_selection_picture_reset_def)
    let ?r = "?d\<lparr>format_coded := (format_coded ?c)\<lparr>fmt_pix := cod\<rparr>, timeperframe_coded := ?tpf\<rparr>"
    have "cedrus_context_setup fit proc = (None, ?r)"
      using p c ROLE_ENCODER
      by (simp add: cedrus_context_setup_def cedrus_proc_format_setup_def cedrus_enc_format_setup_def Let_def
          cedrus_proc_format_propagate_def cedrus_enc_format_propagate_def)
        (simp add: cedrus_context_selection_picture_reset_def)
    moreover have "picture_layout pic"
      using p ROLE_ENCODER enc_picture_layout(1)[OF assms(2) r(2)]
      by (simp add: cedrus_proc_format_picture_prepare_def Let_def zero_context_def)
    then have "format_inv proc ?r"
      using cf pf e ROLE_ENCODER
      by (simp add: format_inv_def Let_def cedrus_context_selection_picture_reset_def)
        (simp add: zero_context_def)
    ultimately show ?thesis by blast
  next
    case ROLE_DECODER
    let ?p = "(fmt_pix (format_coded ?z))\<lparr>
      pixelformat := eng_pixelformat (ctx_engine ?z), pix_width := 1280, pix_height := 720\<rparr>"
    have rz: "eng_role (ctx_engine ?z) = proc_role proc" "ctx_engine ?z = ?e"
      using r(1) by (simp_all add: zero_context_def)
    have ch: "cedrus_proc_format_check proc (pixelformat ?p) FORMAT_TYPE_CODED"
      using proc_okD(6)[OF assms(1)] e rz(2) by simp
    obtain cod where c: "cedrus_proc_format_coded_prepare fit proc ?z ?p = (None, cod)"
      and cf: "pixelformat cod = eng_pixelformat ?e"
      using coded_prepare_total[OF assms(1) rz(1), of fit ?p] ch rz(2) by auto
    let ?c = "?z\<lparr>format_coded :=
       \<lparr>fmt_buf_type = cedrus_proc_buffer_type proc FORMAT_TYPE_CODED, fmt_pix = cod\<rparr>,
       format_picture := (format_picture ?z)\<lparr>fmt_buf_type := cedrus_proc_buffer_type proc FORMAT_TYPE_PICTURE\<rparr>\<rparr>"
    obtain pic where p: "cedrus_proc_format_picture_prepare fit proc ?c (fmt_pix (format_picture ?z)) = (None, pic)"
      and pf: "cedrus_proc_format_check proc (pixelformat pic) FORMAT_TYPE_PICTURE"
      using picture_prepare_total[OF assms(1)] by blast
    let ?r = "?c\<lparr>format_picture := (format_picture ?c)\<lparr>fmt_pix := pic\<rparr>\<rparr>"
    have "cedrus_context_setup fit proc = (None, ?r)"
      using p c ROLE_DECODER
      by (simp add: cedrus_context_setup_def cedrus_proc_format_setup_def cedrus_dec_format_setup_def Let_def
          cedrus_proc_format_propagate_def cedrus_dec_format_propagate_def)
    moreover have "cedrus_dec_format_picture_prepare cod pic = (None, pic)"
      using p ROLE_DECODER dec_picture_stable by (simp add: cedrus_proc_format_picture_prepare_def Let_def)
    moreover have "16 \<le> unat (pix_width cod) \<and> unat (pix_width cod) \<le> 4096 \<and> unat (pix_height cod) \<le> 4096"
      using c rz ROLE_DECODER dec_coded_size(2)[OF assms(2) r(2)]
      by (auto simp: cedrus_proc_format_coded_prepare_def cedrus_engine_format_prepare_def)
    then have "format_inv proc ?r"
      using calculation(2) cf pf e rz(2) ROLE_DECODER by (simp add: format_inv_def Let_def)
    ultimately show ?thesis by blast
  qed
qed

lemma reach_inv:
  assumes "proc_ok proc" "frmsize_contract fit" "context_reach fit proc ctx"
  shows "format_inv proc ctx"
  using assms(3)
proof induction
  case (opened ctx)
  then show ?case using setup_inv[OF assms(1,2)] by auto
next
  case (step ctx ctx')
  from step.hyps(2) show ?case
  proof (cases rule: context_step.cases)
    case (set_fmt fmt ret fmt')
    then show ?thesis
      using s_fmt_cases[OF assms(1,2) step.IH, of fmt] step.IH
      by (auto simp: s_fmt_succeeds_def split: if_splits)
  next
    case (set_selection bt target r ret)
    then have "format_coded ctx' = format_coded ctx" "format_picture ctx' = format_picture ctx"
      "ctx_engine ctx' = ctx_engine ctx"
      by (auto simp: cedrus_proc_s_selection_def Let_def split: if_splits)
    then show ?thesis using format_inv_cong step.IH by blast
  next
    case (set_parm bt tpf tpf')
    then have "format_coded ctx' = format_coded ctx" "format_picture ctx' = format_picture ctx"
      "ctx_engine ctx' = ctx_engine ctx"
      by (auto simp: cedrus_proc_s_parm_def split: if_splits format_type.splits)
    then show ?thesis using format_inv_cong step.IH by blast
  next
    case (queues q q')
    then show ?thesis using format_inv_cong[of ctx' ctx] step.IH by simp
  qed
qed

section \<open>What user space can rely on\<close>

text \<open>C5: whatever ioctls user space issues on a context of any supported device, the formats stay
  consistent: the engine is the one of the coded format, the picture format is one the unit offers,
  the coded format of an encoder follows its picture format and the picture format of a decoder its
  coded format, and stride and size of the picture are those of its planes.  \<open>S_FMT\<close> either finds
  the queue in use, reports \<open>EINVAL\<close> and changes nothing, or succeeds with the format \<open>TRY_FMT\<close>
  predicts, which \<open>G_FMT\<close> then returns; it never stops half way.\<close>

theorem format_negotiation:
  assumes "cedrus_proc_setup dev config = Some proc" "config \<in> set driver_configs"
    and "frmsize_contract fit" "context_reach fit proc ctx"
  shows "format_inv proc ctx \<and>
    (if s_fmt_busy proc ctx fmt then cedrus_proc_s_fmt fit proc ctx fmt = (Some EINVAL, ctx, fmt)
     else \<exists>ctx' fmt'. cedrus_proc_s_fmt fit proc ctx fmt = (None, ctx', fmt') \<and>
       cedrus_proc_try_fmt fit proc ctx fmt = (None, fmt') \<and>
       cedrus_proc_g_fmt proc ctx' (fmt_buf_type fmt) = fmt')"
proof -
  note p = proc_setup_ok[OF assms(1,2)]
  note i = reach_inv[OF p assms(3,4)]
  show ?thesis using i s_fmt_cases[OF p assms(3) i, of fmt] by (auto simp: s_fmt_succeeds_def)
qed

text \<open>\<open>TRY_FMT\<close> never fails and never adjusts a format twice.\<close>

theorem try_fmt_stable:
  assumes "cedrus_proc_setup dev config = Some proc" "config \<in> set driver_configs"
    and "frmsize_contract fit" "context_reach fit proc ctx"
    and "cedrus_proc_try_fmt fit proc ctx fmt = (ret, fmt')"
  shows "ret = None \<and> cedrus_proc_try_fmt fit proc ctx fmt' = (None, fmt')"
proof -
  note p = proc_setup_ok[OF assms(1,2)]
  note r = format_invD[OF reach_inv[OF p assms(3,4)] p]
  have "ret = None" using try_fmt_total[OF p r(1), of fit fmt] assms(5) by auto
  then show ?thesis using try_fmt_stable_lemma[OF p assms(3) r(1,2)] assms(5) by blast
qed

definition offered_formats :: "cedrus_proc \<Rightarrow> buf_type \<Rightarrow> u32 list" where
  "offered_formats proc bt =
    map fmt_pixelformat (filter (\<lambda>f. fmt_type f = cedrus_proc_format_type proc bt) (proc_formats proc))"

lemma enum_fmt_loop_nth:
  "enum_fmt_loop ft (k + i) k fs =
    (let l = map fmt_pixelformat (filter (\<lambda>f. fmt_type f = ft) fs)
     in if i < length l then Some (l ! i) else None)"
proof (induction fs arbitrary: k i)
  case (Cons f fs)
  show ?case
  proof (cases "fmt_type f = ft \<and> 0 < i")
    case True
    then obtain j where "i = Suc j" by (cases i) simp_all
    then show ?thesis using Cons.IH[of "Suc k" j] True by (simp add: Let_def)
  next
    case False
    then show ?thesis using Cons.IH[of k i] by (auto simp: Let_def)
  qed
qed simp

lemma offered_formats_check:
  "pf \<in> set (offered_formats proc bt) \<longleftrightarrow>
   cedrus_proc_format_check proc pf (cedrus_proc_format_type proc bt)"
  by (auto simp: offered_formats_def cedrus_proc_format_check_def list_ex_iff)

text \<open>\<open>ENUM_FMT\<close> counts through exactly the formats of the queue, once each and in order, and the
  formats it lists are exactly those \<open>TRY_FMT\<close> keeps.\<close>

theorem enum_fmt_offers:
  assumes "cedrus_proc_setup dev config = Some proc" "config \<in> set driver_configs"
    and "frmsize_contract fit" "context_reach fit proc ctx"
  shows "(case cedrus_proc_enum_fmt proc bt i of
       Inl e \<Rightarrow> e = EINVAL \<and> length (offered_formats proc bt) \<le> i
     | Inr (pf, _) \<Rightarrow> i < length (offered_formats proc bt) \<and> pf = offered_formats proc bt ! i) \<and>
    (pixelformat (fmt_pix fmt) \<in> set (offered_formats proc (fmt_buf_type fmt)) \<longleftrightarrow>
     pixelformat (fmt_pix (snd (cedrus_proc_try_fmt fit proc ctx fmt))) = pixelformat (fmt_pix fmt))"
proof
  note p = proc_setup_ok[OF assms(1,2)]
  note r = format_invD[OF reach_inv[OF p assms(3,4)] p]
  show "case cedrus_proc_enum_fmt proc bt i of
       Inl e \<Rightarrow> e = EINVAL \<and> length (offered_formats proc bt) \<le> i
     | Inr (pf, _) \<Rightarrow> i < length (offered_formats proc bt) \<and> pf = offered_formats proc bt ! i"
    using enum_fmt_loop_nth[of "cedrus_proc_format_type proc bt" 0 i "proc_formats proc"]
    by (simp add: cedrus_proc_enum_fmt_def offered_formats_def Let_def split: if_splits)
  let ?pf = "pixelformat (fmt_pix fmt)"
  show "?pf \<in> set (offered_formats proc (fmt_buf_type fmt)) \<longleftrightarrow>
     pixelformat (fmt_pix (snd (cedrus_proc_try_fmt fit proc ctx fmt))) = ?pf"
  proof (cases "cedrus_proc_format_type proc (fmt_buf_type fmt)")
    case FORMAT_TYPE_CODED
    obtain pix' where "cedrus_proc_format_coded_prepare fit proc ctx (fmt_pix fmt) = (None, pix')"
      "cedrus_proc_format_check proc (pixelformat pix') FORMAT_TYPE_CODED"
      "cedrus_proc_format_check proc ?pf FORMAT_TYPE_CODED \<longrightarrow> pixelformat pix' = ?pf"
      using coded_prepare_total[OF p r(1), of fit "fmt_pix fmt"] by (metis proc_okD(6)[OF p])
    then show ?thesis
      using FORMAT_TYPE_CODED by (auto simp: offered_formats_check cedrus_proc_try_fmt_def)
  next
    case FORMAT_TYPE_PICTURE
    have "\<exists>pix'. cedrus_proc_format_picture_prepare fit proc ctx (fmt_pix fmt) = (None, pix') \<and>
      (cedrus_proc_format_check proc ?pf FORMAT_TYPE_PICTURE \<longrightarrow> pixelformat pix' = ?pf)"
      using picture_prepare_total[OF p, of fit ctx "fmt_pix fmt"]
      by (auto simp: cedrus_proc_format_picture_prepare_def Let_def select_format_def
          enc_picture_prepare_alt cedrus_dec_format_picture_prepare_def
          split: cedrus_role.splits if_splits prod.splits)
    then show ?thesis
      using picture_prepare_total[OF p, of fit ctx "fmt_pix fmt"] FORMAT_TYPE_PICTURE
      by (auto simp: offered_formats_check cedrus_proc_try_fmt_def)
  qed
qed

text \<open>A format can change while its queue has buffers (a dynamic change) exactly on a decoder, on
  the coded queue, when that queue is stopped, the picture queue has no buffers and the pixel format
  stays.  On an encoder it never can: the check written for it tests the picture queue both for
  having and for not having buffers.\<close>

theorem dynamic_change_decoder_only:
  "cedrus_proc_format_dynamic_check proc ctx fmt \<longleftrightarrow>
    proc_role proc = ROLE_DECODER \<and> fmt_buf_type fmt = BUF_TYPE_VIDEO_OUTPUT \<and>
    q_busy (queue_output ctx) \<and> \<not> q_streaming (queue_output ctx) \<and> \<not> q_busy (queue_capture ctx) \<and>
    pixelformat (fmt_pix fmt) = pixelformat (fmt_pix (format_coded ctx))"
  by (cases "proc_role proc")
    (auto simp: cedrus_proc_format_dynamic_check_def cedrus_enc_format_dynamic_check_def
      cedrus_dec_format_dynamic_check_def cedrus_context_queue_busy_check_def
      cedrus_context_queue_streaming_check_def context_queue_def cedrus_proc_buffer_type_def)

text \<open>A size is checked against the frame sizes of the engine in use when it is set: the picture
  format of an encoder and the coded format of a decoder fit that engine after \<open>S_FMT\<close>.\<close>

theorem s_fmt_fits_engine:
  assumes "cedrus_proc_setup dev config = Some proc" "config \<in> set driver_configs"
    and "frmsize_contract fit" "context_reach fit proc ctx"
    and "cedrus_proc_s_fmt fit proc ctx fmt = (None, ctx', fmt')"
    and "fmt_buf_type fmt = BUF_TYPE_VIDEO_OUTPUT"
  shows "frmsize_fits (the (eng_frmsize (ctx_engine ctx)))
    (pix_width (fmt_pix fmt'), pix_height (fmt_pix fmt'))"
proof -
  note p = proc_setup_ok[OF assms(1,2)]
  note r = format_invD[OF reach_inv[OF p assms(3,4)] p]
  have t: "cedrus_proc_try_fmt fit proc ctx fmt = (None, fmt')"
    using s_fmt_cases[OF p assms(3) reach_inv[OF p assms(3,4)], of fmt] assms(5)
    by (auto simp: s_fmt_succeeds_def split: if_splits)
  show ?thesis
  proof (cases "proc_role proc")
    case ROLE_DECODER
    then show ?thesis
      using t assms(6) r(1) dec_coded_size(1)[OF assms(3) r(2)]
      by (auto simp: cedrus_proc_try_fmt_def cedrus_proc_format_type_def
          cedrus_proc_format_coded_prepare_def cedrus_engine_format_prepare_def split: prod.splits)
  next
    case ROLE_ENCODER
    then show ?thesis
      using t assms(6) enc_picture_layout(2)[OF assms(3) r(2)]
      by (auto simp: cedrus_proc_try_fmt_def cedrus_proc_format_type_def
          cedrus_proc_format_picture_prepare_def Let_def split: prod.splits)
  qed
qed

section \<open>The crop rectangle\<close>

definition rect_inside :: "v4l2_rect \<Rightarrow> pix_format \<Rightarrow> bool" where
  "rect_inside r pix = (0 \<le> rect_left r \<and> rect_left r + uint (rect_width r) \<le> uint (pix_width pix) \<and>
     0 \<le> rect_top r \<and> rect_top r + uint (rect_height r) \<le> uint (pix_height pix))"

lemma round_up_s32_range: "- (2 ^ 31) \<le> round_up_s32 x y" "round_up_s32 x y < 2 ^ 31"
  unfolding round_up_s32_def
  using sint_greater_eq[of "((word_of_int x - 1) OR (word_of_int y - 1)) + 1 :: u32"]
    sint_less[of "((word_of_int x - 1) OR (word_of_int y - 1)) + 1 :: u32"] by simp_all

lemma wrap_once: "- (2 ^ 32) \<le> a \<Longrightarrow> a < 0 \<Longrightarrow> a mod 2 ^ 32 = a + 2 ^ 32" for a :: int
  using mod_add_self2[of a "2 ^ 32"] mod_pos_pos_trivial[of "a + 2 ^ 32" "2 ^ 32"] by simp

text \<open>One dimension: the largest size the driver allows behind the corner.\<close>

lemma crop_dimension:
  fixes w size :: u32
  assumes "- (2 ^ 31) \<le> l" "l < 2 ^ 31" "uint w < 2 ^ 31"
  shows "0 \<le> l \<and> l + uint (clamp size 2 (w - word_of_int l)) \<le> uint w \<longleftrightarrow> 0 \<le> l \<and> l \<le> uint w"
proof (cases "0 \<le> l")
  case True
  have wl: "uint (w - word_of_int l) = (uint w - l) mod 2 ^ 32"
    by (simp add: uint_word_ariths uint_word_of_int mod_simps)
  show ?thesis
  proof (cases "l \<le> uint w")
    case True
    then have "uint (w - word_of_int l) = uint w - l" using wl \<open>0 \<le> l\<close> assms(3) by simp
    moreover have "clamp size 2 (w - word_of_int l) \<le> w - word_of_int l" by (simp add: clamp_def)
    ultimately show ?thesis using \<open>0 \<le> l\<close> True by (simp add: word_le_def)
  next
    case False
    have "- (2 ^ 32) \<le> uint w - l" "uint w - l < 0"
      using False assms(2) uint_ge_0[of w] by (simp, linarith, simp)
    then have "uint (w - word_of_int l) = uint w - l + 2 ^ 32" using wl wrap_once by simp
    then have "2 \<le> w - word_of_int l"
      using assms by (simp add: word_le_def) (use uint_ge_0[of w] in linarith)
    then have "2 \<le> clamp size 2 (w - word_of_int l)" by (simp add: clamp_def)
    then show ?thesis using False by (simp add: word_le_def)
  qed
qed simp

text \<open>C22: every crop request on a picture queue is accepted; the rectangle it sets lies inside the
  picture exactly if its corner, rounded up to even coordinates, does.  For a corner outside, the
  space behind it wraps around and the rectangle is not limited by the picture at all.\<close>

theorem selection_inside_iff:
  assumes "cedrus_proc_format_type proc bt = FORMAT_TYPE_PICTURE"
    and "uint (pix_width (fmt_pix (format_picture ctx))) < 2 ^ 31"
    and "uint (pix_height (fmt_pix (format_picture ctx))) < 2 ^ 31"
  shows "\<exists>r'. cedrus_proc_s_selection proc ctx bt SEL_TGT_CROP r =
      (Inr r', ctx\<lparr>selection_picture := r'\<rparr>) \<and>
    rect_left r' = round_up_s32 (rect_left r) 2 \<and> rect_top r' = round_up_s32 (rect_top r) 2 \<and>
    (rect_inside r' (fmt_pix (format_picture ctx)) \<longleftrightarrow>
      0 \<le> rect_left r' \<and> rect_left r' \<le> uint (pix_width (fmt_pix (format_picture ctx))) \<and>
      0 \<le> rect_top r' \<and> rect_top r' \<le> uint (pix_height (fmt_pix (format_picture ctx))))"
  using assms crop_dimension[OF round_up_s32_range assms(2)] crop_dimension[OF round_up_s32_range assms(3)]
  by (simp add: cedrus_proc_s_selection_def Let_def rect_inside_def) blast

section \<open>Examples\<close>

text \<open>A size adjustment as the kernel documents it: limit the size, then round it up to the step.\<close>

definition limit_and_round :: "u32 \<Rightarrow> u32 \<Rightarrow> u32 \<Rightarrow> u32 \<Rightarrow> u32" where
  "limit_and_round x lo hi stp = word_of_nat (ALIGN (unat (clamp x lo hi)) (unat stp))"

definition ex_fit :: fit where
  "ex_fit fs wh = (limit_and_round (fst wh) (min_width fs) (max_width fs) (step_width fs),
     limit_and_round (snd wh) (min_height fs) (max_height fs) (step_height fs))"

lemma ALIGN_id: "0 < a \<Longrightarrow> a dvd x \<Longrightarrow> ALIGN x a = x"
  using ALIGN_ge[of a x] ALIGN_mono_mult[of x "x div a" a] by simp

lemma limit_and_round:
  assumes "lo \<le> hi" "0 < unat stp" "unat stp dvd unat hi"
  shows "lo \<le> limit_and_round x lo hi stp" "limit_and_round x lo hi stp \<le> hi"
    "unat stp dvd unat (limit_and_round x lo hi stp)"
    "lo \<le> x \<Longrightarrow> x \<le> hi \<Longrightarrow> unat stp dvd unat x \<Longrightarrow> limit_and_round x lo hi stp = x"
proof -
  note c = clamp_bounds[OF assms(1), of x]
  let ?a = "ALIGN (unat (clamp x lo hi)) (unat stp)"
  have "?a \<le> unat hi div unat stp * unat stp"
    using c assms by (intro ALIGN_mono_mult) (simp_all add: word_le_nat_alt)
  then have h: "?a \<le> unat hi" using assms(3) by simp
  then have u: "unat (limit_and_round x lo hi stp) = ?a"
    using unat_lt2p[of hi] by (simp add: limit_and_round_def unat_of_nat take_bit_nat_eq_self)
  show "lo \<le> limit_and_round x lo hi stp"
    using ALIGN_ge[of "unat stp" "unat (clamp x lo hi)"] assms(2) c u by (simp add: word_le_nat_alt)
  show "limit_and_round x lo hi stp \<le> hi" using h u by (simp add: word_le_nat_alt)
  show "unat stp dvd unat (limit_and_round x lo hi stp)" by (simp add: u ALIGN_dvd)
  show "limit_and_round x lo hi stp = x" if "lo \<le> x" "x \<le> hi" "unat stp dvd unat x"
    using that assms(2) by (simp add: limit_and_round_def clamp_id ALIGN_id)
qed

lemma ex_fit_contract: "frmsize_contract ex_fit"
  by (auto simp: frmsize_contract_def frmsize_ok_def frmsize_fits_def ex_fit_def limit_and_round)

definition ex_proc :: "cedrus_proc_config \<Rightarrow> cedrus_proc" where
  "ex_proc config = the (cedrus_proc_setup (device_of_variant cedrus_variant_sun50i_h616) config)"

lemma ex_proc_setup:
  "config \<in> set driver_configs \<Longrightarrow>
   cedrus_proc_setup (device_of_variant cedrus_variant_sun50i_h616) config = Some (ex_proc config)"
  by (auto simp: driver_configs_def ex_proc_def cedrus_proc_setup_def Let_def cedrus_proc_engines_setup_def
      cedrus_enc_config_def cedrus_dec_config_def engine_defs frmsize_defs cedrus_capabilities_check_def
      device_of_variant_def cedrus_variant_sun50i_h616_def hdr_simps BIT_def)

definition ex_open :: "cedrus_proc_config \<Rightarrow> cedrus_context" where
  "ex_open config = snd (cedrus_context_setup ex_fit (ex_proc config))"

lemma ex_open_reach:
  assumes "config \<in> set driver_configs"
  shows "context_reach ex_fit (ex_proc config) (ex_open config)"
proof -
  obtain ctx where "cedrus_context_setup ex_fit (ex_proc config) = (None, ctx)"
    using setup_inv[OF proc_setup_ok[OF ex_proc_setup[OF assms] assms] ex_fit_contract] by blast
  then show ?thesis by (simp add: ex_open_def context_reach.opened)
qed

definition ex_s_fmt :: "cedrus_proc_config \<Rightarrow> buf_type \<Rightarrow> u32 \<Rightarrow> u32 \<Rightarrow> u32 \<Rightarrow> cedrus_context \<Rightarrow> cedrus_context" where
  "ex_s_fmt config bt pf w h ctx = fst (snd (cedrus_proc_s_fmt ex_fit (ex_proc config) ctx
     \<lparr>fmt_buf_type = bt, fmt_pix = zero_pix\<lparr>pixelformat := pf, pix_width := w, pix_height := h\<rparr>\<rparr>))"

lemma ex_s_fmt_reach:
  "context_reach ex_fit (ex_proc config) ctx \<Longrightarrow>
   context_reach ex_fit (ex_proc config) (ex_s_fmt config bt pf w h ctx)"
  by (rule context_reach.step, assumption, rule context_step.set_fmt)
    (simp add: ex_s_fmt_def prod_eq_iff)

definition ex_jpeg_4k :: cedrus_context where
  "ex_jpeg_4k = ex_s_fmt cedrus_enc_config BUF_TYPE_VIDEO_CAPTURE V4L2_PIX_FMT_JPEG 0 0
     (ex_s_fmt cedrus_enc_config BUF_TYPE_VIDEO_OUTPUT V4L2_PIX_FMT_NV12 3840 2160 (ex_open cedrus_enc_config))"

definition ex_vp9_small :: cedrus_context where
  "ex_vp9_small = ex_s_fmt cedrus_dec_config BUF_TYPE_VIDEO_OUTPUT V4L2_PIX_FMT_VP9_FRAME 16 16
     (ex_open cedrus_dec_config)"

lemma ex_proc_enc:
  "ex_proc cedrus_enc_config = \<lparr>proc_role = ROLE_ENCODER, proc_engines = [cedrus_enc_h264, cedrus_enc_jpeg],
     proc_formats = [
       \<lparr>fmt_pixelformat = V4L2_PIX_FMT_H264, fmt_capabilities = 0, fmt_type = FORMAT_TYPE_CODED\<rparr>,
       \<lparr>fmt_pixelformat = V4L2_PIX_FMT_JPEG, fmt_capabilities = 0, fmt_type = FORMAT_TYPE_CODED\<rparr>,
       \<lparr>fmt_pixelformat = V4L2_PIX_FMT_NV12, fmt_capabilities = 0, fmt_type = FORMAT_TYPE_PICTURE\<rparr>]\<rparr>"
  by (simp add: ex_proc_def cedrus_proc_setup_def Let_def cedrus_proc_engines_setup_def
      cedrus_proc_formats_setup_def
      cedrus_enc_config_def engine_defs frmsize_defs cedrus_capabilities_check_def
      device_of_variant_def cedrus_variant_sun50i_h616_def hdr_simps BIT_def)

lemmas ioctl_defs = cedrus_proc_s_fmt_def cedrus_proc_try_fmt_def set_format_def
  cedrus_proc_format_type_def cedrus_proc_buffer_type_def cedrus_proc_format_dynamic_check_def
  cedrus_enc_format_dynamic_check_def cedrus_dec_format_dynamic_check_def
  cedrus_context_queue_busy_check_def context_queue_def cedrus_proc_format_propagate_def
  cedrus_enc_format_propagate_def cedrus_dec_format_propagate_def cedrus_context_engine_update_def
  cedrus_proc_engine_find_format_def cedrus_proc_format_coded_prepare_def
  cedrus_proc_format_picture_prepare_def cedrus_engine_format_prepare_def select_format_def
  cedrus_proc_format_check_def cedrus_proc_format_find_first_def
  cedrus_context_selection_picture_reset_def cedrus_enc_format_coded_prepare_def
  cedrus_enc_format_picture_prepare_def cedrus_dec_format_coded_prepare_def
  cedrus_dec_format_picture_prepare_def apply_frmsize_constraints_def ex_fit_def
  limit_and_round_def ALIGN_def clamp_def min_def max_def align_u32_def

lemmas setup_defs = ex_open_def cedrus_context_setup_def cedrus_proc_format_setup_def
  cedrus_enc_format_setup_def cedrus_dec_format_setup_def zero_context_def zero_pix_def

lemma ex_open_enc:
  "ctx_engine (ex_open cedrus_enc_config) = cedrus_enc_h264"
  "q_busy (queue_output (ex_open cedrus_enc_config)) = False"
  "q_busy (queue_capture (ex_open cedrus_enc_config)) = False"
  "pixelformat (fmt_pix (format_coded (ex_open cedrus_enc_config))) = V4L2_PIX_FMT_H264"
  by (simp_all add: setup_defs ioctl_defs ex_proc_enc engine_defs frmsize_defs hdr_simps Let_def)

lemma ex_jpeg_4k:
  "eng_frmsize (ctx_engine ex_jpeg_4k) = Some cedrus_enc_jpeg_frmsize"
  "pix_width (fmt_pix (format_picture ex_jpeg_4k)) = 3840"
  by (simp_all add: ex_jpeg_4k_def ex_s_fmt_def ex_open_enc ioctl_defs ex_proc_enc engine_defs frmsize_defs
      hdr_simps zero_pix_def Let_def)
lemma ex_proc_dec:
  "ex_proc cedrus_dec_config = \<lparr>proc_role = ROLE_DECODER, proc_engines = [cedrus_dec_mpeg2,
       cedrus_dec_h264, cedrus_dec_h265, cedrus_dec_vp8, cedrus_dec_vp9],
     proc_formats = [
       \<lparr>fmt_pixelformat = V4L2_PIX_FMT_MPEG2_SLICE, fmt_capabilities = 0, fmt_type = FORMAT_TYPE_CODED\<rparr>,
       \<lparr>fmt_pixelformat = V4L2_PIX_FMT_H264_SLICE, fmt_capabilities = 0, fmt_type = FORMAT_TYPE_CODED\<rparr>,
       \<lparr>fmt_pixelformat = V4L2_PIX_FMT_HEVC_SLICE, fmt_capabilities = 0, fmt_type = FORMAT_TYPE_CODED\<rparr>,
       \<lparr>fmt_pixelformat = V4L2_PIX_FMT_VP8_FRAME, fmt_capabilities = 0, fmt_type = FORMAT_TYPE_CODED\<rparr>,
       \<lparr>fmt_pixelformat = V4L2_PIX_FMT_VP9_FRAME, fmt_capabilities = 0, fmt_type = FORMAT_TYPE_CODED\<rparr>,
       \<lparr>fmt_pixelformat = V4L2_PIX_FMT_NV12, fmt_capabilities = CEDRUS_CAPABILITY_UNTILED,
         fmt_type = FORMAT_TYPE_PICTURE\<rparr>,
       \<lparr>fmt_pixelformat = V4L2_PIX_FMT_NV12_32L32, fmt_capabilities = 0,
         fmt_type = FORMAT_TYPE_PICTURE\<rparr>]\<rparr>"
  by (simp add: ex_proc_def cedrus_proc_setup_def Let_def cedrus_proc_engines_setup_def
      cedrus_proc_formats_setup_def
      cedrus_dec_config_def engine_defs frmsize_defs cedrus_capabilities_check_def
      device_of_variant_def cedrus_variant_sun50i_h616_def hdr_simps BIT_def)

lemma ex_open_dec:
  "ctx_engine (ex_open cedrus_dec_config) = cedrus_dec_mpeg2"
  "q_busy (queue_output (ex_open cedrus_dec_config)) = False"
  by (simp_all add: setup_defs ioctl_defs ex_proc_dec engine_defs frmsize_defs hdr_simps Let_def)

lemma ex_vp9_small:
  "eng_frmsize (ctx_engine ex_vp9_small) = Some cedrus_dec_vp9_frmsize"
  "pix_width (fmt_pix (format_coded ex_vp9_small)) = 16"
  by (simp_all add: ex_vp9_small_def ex_s_fmt_def ex_open_dec ioctl_defs ex_proc_dec engine_defs
      frmsize_defs hdr_simps zero_pix_def Let_def)

lemma ex_configs: "cedrus_enc_config \<in> set driver_configs" "cedrus_dec_config \<in> set driver_configs"
  by (simp_all add: driver_configs_def)

text \<open>Changing the coded format changes the engine but checks no size against it: an encoder set up
  for a 4K H.264 picture can be switched to JPEG and keep a picture twice as wide as the JPEG engine
  takes, and a decoder switched to VP9 gets a 16 pixel wide format although VP9 needs 64.\<close>

theorem frame_size_stale:
  "(\<exists>ctx. context_reach ex_fit (ex_proc cedrus_enc_config) ctx \<and>
     eng_frmsize (ctx_engine ctx) = Some cedrus_enc_jpeg_frmsize \<and>
     max_width cedrus_enc_jpeg_frmsize < pix_width (fmt_pix (format_picture ctx))) \<and>
   (\<exists>ctx. context_reach ex_fit (ex_proc cedrus_dec_config) ctx \<and>
     eng_frmsize (ctx_engine ctx) = Some cedrus_dec_vp9_frmsize \<and>
     pix_width (fmt_pix (format_coded ctx)) < min_width cedrus_dec_vp9_frmsize)"
proof
  have "context_reach ex_fit (ex_proc cedrus_enc_config) ex_jpeg_4k"
    unfolding ex_jpeg_4k_def by (intro ex_s_fmt_reach ex_open_reach ex_configs)
  then show "\<exists>ctx. context_reach ex_fit (ex_proc cedrus_enc_config) ctx \<and>
     eng_frmsize (ctx_engine ctx) = Some cedrus_enc_jpeg_frmsize \<and>
     max_width cedrus_enc_jpeg_frmsize < pix_width (fmt_pix (format_picture ctx))"
    using ex_jpeg_4k by (auto simp: cedrus_enc_jpeg_frmsize_def)
  have "context_reach ex_fit (ex_proc cedrus_dec_config) ex_vp9_small"
    unfolding ex_vp9_small_def by (intro ex_s_fmt_reach ex_open_reach ex_configs)
  then show "\<exists>ctx. context_reach ex_fit (ex_proc cedrus_dec_config) ctx \<and>
     eng_frmsize (ctx_engine ctx) = Some cedrus_dec_vp9_frmsize \<and>
     pix_width (fmt_pix (format_coded ctx)) < min_width cedrus_dec_vp9_frmsize"
    using ex_vp9_small by (auto simp: cedrus_dec_vp9_frmsize_def)
qed

definition ex_fmt :: "buf_type \<Rightarrow> u32 \<Rightarrow> v4l2_format" where
  "ex_fmt bt pf = \<lparr>fmt_buf_type = bt,
     fmt_pix = zero_pix\<lparr>pixelformat := pf, pix_width := 640, pix_height := 480\<rparr>\<rparr>"

lemmas ex_reached = ex_proc_setup[OF ex_configs(1)] ex_configs(1) ex_fit_contract ex_open_reach[OF ex_configs(1)]

theorem format_negotiation_witness:
  "format_inv (ex_proc cedrus_enc_config) (ex_open cedrus_enc_config) \<and>
   (\<exists>ctx' fmt'. cedrus_proc_s_fmt ex_fit (ex_proc cedrus_enc_config) (ex_open cedrus_enc_config)
      (ex_fmt BUF_TYPE_VIDEO_OUTPUT V4L2_PIX_FMT_NV12) = (None, ctx', fmt') \<and>
     cedrus_proc_g_fmt (ex_proc cedrus_enc_config) ctx' BUF_TYPE_VIDEO_OUTPUT = fmt')"
  using format_negotiation[OF ex_reached, of "ex_fmt BUF_TYPE_VIDEO_OUTPUT V4L2_PIX_FMT_NV12"]
  by (auto simp: s_fmt_busy_def cedrus_context_queue_busy_check_def context_queue_def ex_open_enc ex_fmt_def)

theorem try_fmt_stable_witness:
  "cedrus_proc_try_fmt ex_fit (ex_proc cedrus_enc_config) (ex_open cedrus_enc_config)
     (snd (cedrus_proc_try_fmt ex_fit (ex_proc cedrus_enc_config) (ex_open cedrus_enc_config)
       (ex_fmt BUF_TYPE_VIDEO_OUTPUT 0))) =
   (None, snd (cedrus_proc_try_fmt ex_fit (ex_proc cedrus_enc_config) (ex_open cedrus_enc_config)
       (ex_fmt BUF_TYPE_VIDEO_OUTPUT 0)))"
  using try_fmt_stable[OF ex_reached surjective_pairing] by blast

theorem enum_fmt_offers_witness:
  "cedrus_proc_enum_fmt (ex_proc cedrus_enc_config) BUF_TYPE_VIDEO_CAPTURE 1 = Inr (V4L2_PIX_FMT_JPEG, True, True)"
  using enum_fmt_offers[OF ex_reached, of BUF_TYPE_VIDEO_CAPTURE 1]
  by (simp add: cedrus_proc_enum_fmt_def ex_proc_enc cedrus_proc_format_type_def)

theorem s_fmt_fits_engine_witness:
  "\<exists>ctx' fmt'. cedrus_proc_s_fmt ex_fit (ex_proc cedrus_enc_config) (ex_open cedrus_enc_config)
      (ex_fmt BUF_TYPE_VIDEO_OUTPUT V4L2_PIX_FMT_NV12) = (None, ctx', fmt') \<and>
    frmsize_fits cedrus_enc_h264_frmsize (pix_width (fmt_pix fmt'), pix_height (fmt_pix fmt'))"
proof -
  obtain ctx' fmt' where s: "cedrus_proc_s_fmt ex_fit (ex_proc cedrus_enc_config) (ex_open cedrus_enc_config)
      (ex_fmt BUF_TYPE_VIDEO_OUTPUT V4L2_PIX_FMT_NV12) = (None, ctx', fmt')"
    using s_fmt_cases[OF proc_setup_ok[OF ex_reached(1,2)] ex_fit_contract
        reach_inv[OF proc_setup_ok[OF ex_reached(1,2)] ex_fit_contract ex_reached(4)],
        of "ex_fmt BUF_TYPE_VIDEO_OUTPUT V4L2_PIX_FMT_NV12"]
    by (auto simp: s_fmt_succeeds_def s_fmt_busy_def cedrus_context_queue_busy_check_def context_queue_def
        ex_open_enc ex_fmt_def)
  have e: "the (eng_frmsize (ctx_engine (ex_open cedrus_enc_config))) = cedrus_enc_h264_frmsize"
    by (simp add: ex_open_enc cedrus_enc_h264_def)
  show ?thesis
    using s_fmt_fits_engine[OF ex_reached s, unfolded e] s by (simp add: ex_fmt_def)
qed

text \<open>A corner right of the picture: the rectangle is accepted and reaches far outside.\<close>

theorem selection_inside_iff_witness:
  "\<exists>r'. fst (cedrus_proc_s_selection (ex_proc cedrus_enc_config) (ex_s_fmt cedrus_enc_config
      BUF_TYPE_VIDEO_OUTPUT V4L2_PIX_FMT_NV12 640 480 (ex_open cedrus_enc_config))
      BUF_TYPE_VIDEO_OUTPUT SEL_TGT_CROP
      \<lparr>rect_left = 1000, rect_top = 0, rect_width = 640, rect_height = 480\<rparr>) = Inr r' \<and>
    \<not> rect_inside r' (zero_pix\<lparr>pix_width := 640, pix_height := 480\<rparr>)"
proof -
  let ?c = "ex_s_fmt cedrus_enc_config BUF_TYPE_VIDEO_OUTPUT V4L2_PIX_FMT_NV12 640 480 (ex_open cedrus_enc_config)"
  have s: "pix_width (fmt_pix (format_picture ?c)) = 640" "pix_height (fmt_pix (format_picture ?c)) = 480"
    by (simp_all add: ex_s_fmt_def ex_open_enc ioctl_defs ex_proc_enc engine_defs frmsize_defs
      hdr_simps zero_pix_def Let_def)
  have "round_up_s32 1000 2 = 1000" by (simp add: round_up_s32_def)
  then show ?thesis
    using selection_inside_iff[of "ex_proc cedrus_enc_config" BUF_TYPE_VIDEO_OUTPUT ?c
        "\<lparr>rect_left = 1000, rect_top = 0, rect_width = 640, rect_height = 480\<rparr>"]
    by (force simp: s ex_proc_enc cedrus_proc_format_type_def rect_inside_def)
qed

end
