(* ===== verification/Cedrus_Core.thy ===== *)
theory Cedrus_Core
  imports Cedrus_Context
begin

text \<open>Running jobs (\<open>cedrus_context.c\<close>, \<open>cedrus_engine.c\<close>, \<open>cedrus.c\<close>): starting a job, the
  interrupt handler, the watchdog, and closing a context.

  The kernel runs one job at a time: the memory-to-memory framework starts a job only when none is
  current, and \<open>v4l2_m2m_buf_done_and_job_finish\<close> ends the current one.  The watchdog is a delayed
  work: scheduled, it is pending until its timer fires or it is cancelled, and
  \<open>cancel_delayed_work\<close> says whether it was pending.  The interrupt handler and the start of a job
  are single steps; the watchdog runs in three, since interrupts can arrive while it runs.  What an
  engine's callbacks answer (errors while a job is prepared, the interrupt status) is chosen by the
  step.\<close>

section \<open>State\<close>

datatype vb2_state = BUF_STATE_DONE | BUF_STATE_ERROR

text \<open>What reaches the hardware and the framework, oldest first.\<close>

datatype core_event =
    Trigger nat
  | Irq_Disable nat
  | Irq_Clear nat
  | Reset
  | Job_Done nat vb2_state

text \<open>Where the watchdog's work function is.\<close>

datatype watchdog_pc = Watchdog_Idle | Watchdog_Entered | Watchdog_Resetting nat

text \<open>Contexts are numbers; \<open>ctx_role\<close> says which unit a context belongs to.  \<open>closing\<close> are the contexts
  whose clean-up has begun, \<open>freed\<close> those whose memory is gone; \<open>late\<close> remembers contexts that
  started a job while they were closing.\<close>

record cedrus_core =
  curr_ctx :: "nat option"
  watchdog_pending :: bool
  watchdog_pc :: watchdog_pc
  dec_ctx_active :: "nat option"
  enc_ctx_active :: "nat option"
  events :: "core_event list"
  started :: "nat list"
  closing :: "nat set"
  freed :: "nat set"
  late :: "nat set"

definition core_init :: cedrus_core where
  "core_init = \<lparr>curr_ctx = None, watchdog_pending = False, watchdog_pc = Watchdog_Idle,
     dec_ctx_active = None, enc_ctx_active = None, events = [], started = [], closing = {},
     freed = {}, late = {}\<rparr>"

definition emit :: "core_event list \<Rightarrow> cedrus_core \<Rightarrow> cedrus_core" where
  "emit es s = s\<lparr>events := events s @ es\<rparr>"

section \<open>Operations\<close>

definition cedrus_proc_context_active_update :: "cedrus_role \<Rightarrow> nat \<Rightarrow> cedrus_core \<Rightarrow> cedrus_core" where
  "cedrus_proc_context_active_update role ctx s = (case role of
     ROLE_DECODER \<Rightarrow> s\<lparr>dec_ctx_active := Some ctx\<rparr>
   | ROLE_ENCODER \<Rightarrow> s\<lparr>enc_ctx_active := Some ctx\<rparr>)"

definition cedrus_proc_context_active_clear :: "cedrus_role \<Rightarrow> nat \<Rightarrow> cedrus_core \<Rightarrow> cedrus_core" where
  "cedrus_proc_context_active_clear role ctx s = (case role of
     ROLE_DECODER \<Rightarrow> if dec_ctx_active s = Some ctx then s\<lparr>dec_ctx_active := None\<rparr> else s
   | ROLE_ENCODER \<Rightarrow> if enc_ctx_active s = Some ctx then s\<lparr>enc_ctx_active := None\<rparr> else s)"

definition cedrus_context_job_finish :: "nat \<Rightarrow> vb2_state \<Rightarrow> cedrus_core \<Rightarrow> cedrus_core" where
  "cedrus_context_job_finish ctx st s = (emit [Job_Done ctx st] s)\<lparr>curr_ctx := None\<rparr>"

text \<open>The engine's and the unit's callbacks of a job, in the order \<open>job_run\<close> calls them; each may
  fail.\<close>

record job_callbacks =
  cb_job_prepare :: "errno option"
  cb_format_configure :: "errno option"
  cb_picture_configure :: "errno option"
  cb_job_configure :: "errno option"

definition cedrus_context_job_run :: "cedrus_role \<Rightarrow> job_callbacks \<Rightarrow> nat \<Rightarrow> cedrus_core \<Rightarrow>
    errno option \<times> cedrus_core" where
  "cedrus_context_job_run role cb ctx s =
    (case find (\<lambda>r. r \<noteq> None) [cb_job_prepare cb, cb_format_configure cb,
            cb_picture_configure cb, cb_job_configure cb] of
       Some ret \<Rightarrow> (ret, cedrus_context_job_finish ctx BUF_STATE_ERROR s)
     | None \<Rightarrow>
         let s = cedrus_proc_context_active_update role ctx s;
             s = s\<lparr>watchdog_pending := True\<rparr>
         in (None, emit [Trigger ctx] s))"

definition cedrus_irq_disable_clear :: "nat \<Rightarrow> cedrus_core \<Rightarrow> cedrus_core" where
  "cedrus_irq_disable_clear ctx s = emit [Irq_Disable ctx, Irq_Clear ctx] s"

definition cedrus_irq_spurious :: "cedrus_core \<Rightarrow> cedrus_core" where
  "cedrus_irq_spurious s =
    (let s = (case dec_ctx_active s of None \<Rightarrow> s | Some ctx \<Rightarrow> cedrus_irq_disable_clear ctx s)
     in case enc_ctx_active s of None \<Rightarrow> s | Some ctx \<Rightarrow> cedrus_irq_disable_clear ctx s)"

text \<open>\<open>status\<close> is what the engine of the current context reports.\<close>

datatype irqreturn = IRQ_NONE | IRQ_HANDLED

definition cedrus_irq :: "cedrus_irq_status \<Rightarrow> cedrus_core \<Rightarrow> irqreturn \<times> cedrus_core" where
  "cedrus_irq status s =
    (let ctx = curr_ctx s; cancelled = watchdog_pending s; s = s\<lparr>watchdog_pending := False\<rparr>
     in if \<not> cancelled then (IRQ_HANDLED, cedrus_irq_spurious s)
        else case ctx of
          None \<Rightarrow> (IRQ_NONE, cedrus_irq_spurious s)
        | Some ctx \<Rightarrow>
            if status = CEDRUS_IRQ_NONE then (IRQ_NONE, s)
            else (IRQ_HANDLED, cedrus_context_job_finish ctx
              (if status = CEDRUS_IRQ_ERROR then BUF_STATE_ERROR else BUF_STATE_DONE)
              (cedrus_irq_disable_clear ctx s)))"

text \<open>The work function: read the current context, reset the hardware, finish the job.\<close>

definition watchdog_enter :: "cedrus_core \<Rightarrow> cedrus_core" where
  "watchdog_enter s = s\<lparr>watchdog_pending := False, watchdog_pc := Watchdog_Entered\<rparr>"

definition watchdog_reset :: "cedrus_core \<Rightarrow> cedrus_core" where
  "watchdog_reset s = (case curr_ctx s of
     None \<Rightarrow> s\<lparr>watchdog_pc := Watchdog_Idle\<rparr>
   | Some ctx \<Rightarrow> emit [Reset] (s\<lparr>watchdog_pc := Watchdog_Resetting ctx\<rparr>))"

definition watchdog_finish :: "nat \<Rightarrow> cedrus_core \<Rightarrow> cedrus_core" where
  "watchdog_finish ctx s =
    (cedrus_context_job_finish ctx BUF_STATE_ERROR s)\<lparr>watchdog_pc := Watchdog_Idle\<rparr>"

text \<open>\<open>cedrus_context_cleanup\<close>: the active context is cleared first; releasing the queues then waits
  for a job of the context to end, and only after that is the memory freed.\<close>

definition cleanup_begin :: "cedrus_role \<Rightarrow> nat \<Rightarrow> cedrus_core \<Rightarrow> cedrus_core" where
  "cleanup_begin role ctx s =
    (cedrus_proc_context_active_clear role ctx s)\<lparr>closing := insert ctx (closing s)\<rparr>"

definition cleanup_end :: "nat \<Rightarrow> cedrus_core \<Rightarrow> cedrus_core" where
  "cleanup_end ctx s = s\<lparr>freed := insert ctx (freed s)\<rparr>"

section \<open>Executions\<close>

text \<open>The framework starts a job of a context when none is current, as long as the context's queues
  exist.  \<open>ctx_role\<close> is the role of each context.\<close>

inductive core_step :: "(nat \<Rightarrow> cedrus_role) \<Rightarrow> cedrus_core \<Rightarrow> cedrus_core \<Rightarrow> bool"
  for ctx_role where
  job_run: "\<lbrakk>curr_ctx s = None; ctx \<notin> freed s;
     cedrus_context_job_run (ctx_role ctx) cb ctx
       (s\<lparr>curr_ctx := Some ctx, started := started s @ [ctx],
         late := (if ctx \<in> closing s then insert ctx (late s) else late s)\<rparr>) = (ret, s')\<rbrakk>
   \<Longrightarrow> core_step ctx_role s s'"
| irq: "cedrus_irq status s = (ret, s') \<Longrightarrow> core_step ctx_role s s'"
| timer: "watchdog_pending s \<Longrightarrow> watchdog_pc s = Watchdog_Idle \<Longrightarrow>
    core_step ctx_role s (watchdog_enter s)"
| reset: "watchdog_pc s = Watchdog_Entered \<Longrightarrow> core_step ctx_role s (watchdog_reset s)"
| timeout: "watchdog_pc s = Watchdog_Resetting ctx \<Longrightarrow> core_step ctx_role s (watchdog_finish ctx s)"
| close: "ctx \<notin> closing s \<Longrightarrow> core_step ctx_role s (cleanup_begin (ctx_role ctx) ctx s)"
| free: "\<lbrakk>ctx \<in> closing s; ctx \<notin> freed s; curr_ctx s \<noteq> Some ctx\<rbrakk> \<Longrightarrow>
    core_step ctx_role s (cleanup_end ctx s)"

inductive_cases core_stepE: "core_step ctx_role s s'"

abbreviation core_reach :: "(nat \<Rightarrow> cedrus_role) \<Rightarrow> cedrus_core \<Rightarrow> bool" where
  "core_reach ctx_role \<equiv> (core_step ctx_role)\<^sup>*\<^sup>* core_init"

section \<open>What always holds\<close>

definition ends :: "core_event list \<Rightarrow> (nat \<times> vb2_state) list" where
  "ends es = concat (map (\<lambda>e. case e of Job_Done c st \<Rightarrow> [(c, st)] | _ \<Rightarrow> []) es)"

definition finished :: "cedrus_core \<Rightarrow> (nat \<times> vb2_state) list" where
  "finished s = ends (events s)"

definition running :: "cedrus_core \<Rightarrow> nat list" where
  "running s = (case curr_ctx s of None \<Rightarrow> [] | Some c \<Rightarrow> [c])"

definition core_inv :: "(nat \<Rightarrow> cedrus_role) \<Rightarrow> cedrus_core \<Rightarrow> bool" where
  "core_inv ctx_role s =
    (started s = map fst (finished s) @ running s \<and>
     (watchdog_pending s \<longrightarrow> curr_ctx s \<noteq> None \<and> watchdog_pc s = Watchdog_Idle) \<and>
     (watchdog_pc s = Watchdog_Entered \<longrightarrow> curr_ctx s \<noteq> None) \<and>
     (\<forall>c. watchdog_pc s = Watchdog_Resetting c \<longrightarrow> curr_ctx s = Some c) \<and>
     freed s \<subseteq> closing s \<and> (\<forall>c. curr_ctx s = Some c \<longrightarrow> c \<notin> freed s) \<and>
     (\<forall>c. dec_ctx_active s = Some c \<longrightarrow> ctx_role c = ROLE_DECODER \<and> (c \<in> closing s \<longrightarrow> c \<in> late s)) \<and>
     (\<forall>c. enc_ctx_active s = Some c \<longrightarrow> ctx_role c = ROLE_ENCODER \<and> (c \<in> closing s \<longrightarrow> c \<in> late s)))"

lemma ends_simps [simp]:
  "ends [] = []" "ends (Job_Done c st # es) = (c, st) # ends es" "ends (es @ fs) = ends es @ ends fs"
  "ends (Trigger c # es) = ends es" "ends (Irq_Disable c # es) = ends es"
  "ends (Irq_Clear c # es) = ends es" "ends (Reset # es) = ends es"
  by (simp_all add: ends_def)

lemma emit_simps [simp]:
  "finished (emit es s) = finished s @ ends es"
  "curr_ctx (emit es s) = curr_ctx s" "watchdog_pending (emit es s) = watchdog_pending s"
  "watchdog_pc (emit es s) = watchdog_pc s" "started (emit es s) = started s"
  "dec_ctx_active (emit es s) = dec_ctx_active s" "enc_ctx_active (emit es s) = enc_ctx_active s"
  "closing (emit es s) = closing s" "freed (emit es s) = freed s" "late (emit es s) = late s"
  by (simp_all add: emit_def finished_def)

lemma finished_updates [simp]:
  "finished (s\<lparr>curr_ctx := x\<rparr>) = finished s" "finished (s\<lparr>watchdog_pending := p\<rparr>) = finished s"
  "finished (s\<lparr>watchdog_pc := pc\<rparr>) = finished s" "finished (s\<lparr>started := cs\<rparr>) = finished s"
  "finished (s\<lparr>dec_ctx_active := x\<rparr>) = finished s" "finished (s\<lparr>enc_ctx_active := x\<rparr>) = finished s"
  "finished (s\<lparr>closing := S\<rparr>) = finished s" "finished (s\<lparr>freed := S\<rparr>) = finished s"
  "finished (s\<lparr>late := S\<rparr>) = finished s"
  by (simp_all add: finished_def)

lemmas core_ops = cedrus_irq_disable_clear_def cedrus_context_job_finish_def watchdog_enter_def
  watchdog_reset_def watchdog_finish_def cleanup_begin_def cleanup_end_def
  cedrus_proc_context_active_update_def cedrus_proc_context_active_clear_def

lemma job_run_cases:
  assumes "cedrus_context_job_run role cb ctx s = (ret, s')"
  obtains (failed) "ret \<noteq> None" "s' = cedrus_context_job_finish ctx BUF_STATE_ERROR s"
  | (launched) "ret = None" "s' = emit [Trigger ctx]
      ((cedrus_proc_context_active_update role ctx s)\<lparr>watchdog_pending := True\<rparr>)"
proof (cases "find (\<lambda>r. r \<noteq> None) [cb_job_prepare cb, cb_format_configure cb,
    cb_picture_configure cb, cb_job_configure cb]")
  case None
  then show ?thesis using assms launched by (simp add: cedrus_context_job_run_def Let_def)
next
  case (Some r)
  then have "r \<noteq> None" by (auto simp: find_Some_iff simp del: find.simps)
  then show ?thesis using assms failed Some by (simp add: cedrus_context_job_run_def)
qed

lemma irq_cases:
  assumes "cedrus_irq status s = (ret, s')"
  obtains (late) "\<not> watchdog_pending s" "s' = cedrus_irq_spurious (s\<lparr>watchdog_pending := False\<rparr>)"
  | (stray) "watchdog_pending s" "curr_ctx s = None"
      "s' = cedrus_irq_spurious (s\<lparr>watchdog_pending := False\<rparr>)"
  | (unowned) c where "watchdog_pending s" "curr_ctx s = Some c" "status = CEDRUS_IRQ_NONE"
      "s' = s\<lparr>watchdog_pending := False\<rparr>"
  | (ended) c st where "watchdog_pending s" "curr_ctx s = Some c" "status \<noteq> CEDRUS_IRQ_NONE"
      "s' = cedrus_context_job_finish c st (cedrus_irq_disable_clear c (s\<lparr>watchdog_pending := False\<rparr>))"
  using assms that by (auto simp: cedrus_irq_def Let_def split: if_splits option.splits)

text \<open>A spurious interrupt changes nothing the invariant speaks of.\<close>

lemma irq_spurious_same [simp]:
  "curr_ctx (cedrus_irq_spurious s) = curr_ctx s" "watchdog_pending (cedrus_irq_spurious s) = watchdog_pending s"
  "watchdog_pc (cedrus_irq_spurious s) = watchdog_pc s" "finished (cedrus_irq_spurious s) = finished s"
  "started (cedrus_irq_spurious s) = started s" "freed (cedrus_irq_spurious s) = freed s"
  "closing (cedrus_irq_spurious s) = closing s" "late (cedrus_irq_spurious s) = late s"
  "dec_ctx_active (cedrus_irq_spurious s) = dec_ctx_active s"
  "enc_ctx_active (cedrus_irq_spurious s) = enc_ctx_active s"
  by (simp_all add: cedrus_irq_spurious_def cedrus_irq_disable_clear_def Let_def split: option.split)

lemma core_inv_step:
  assumes "core_step ctx_role s s'" "core_inv ctx_role s"
  shows "core_inv ctx_role s'"
  using assms(1)
proof cases
  case (job_run ctx cb ret)
  from job_run(3) show ?thesis
  proof (cases rule: job_run_cases)
    case failed
    then show ?thesis using assms(2) job_run(1,2)
      by (auto simp: core_inv_def core_ops running_def)
  next
    case launched
    then show ?thesis using assms(2) job_run(1,2)
      by (cases "ctx_role ctx"; cases "watchdog_pc s")
        (auto simp: core_inv_def core_ops running_def)
  qed
next
  case (irq status ret)
  from irq show ?thesis
    by (cases rule: irq_cases)
      (use assms(2) in \<open>auto simp: core_inv_def running_def core_ops\<close>)
next
  case timer
  then show ?thesis using assms(2)
    by (auto simp: core_inv_def core_ops running_def)
next
  case reset
  then show ?thesis using assms(2)
    by (auto simp: core_inv_def core_ops running_def split: option.splits)
next
  case (timeout ctx)
  then show ?thesis using assms(2)
    by (auto simp: core_inv_def core_ops running_def)
next
  case (close ctx)
  then show ?thesis using assms(2)
    by (auto simp: core_inv_def core_ops running_def split: cedrus_role.splits if_splits)
next
  case (free ctx)
  then show ?thesis using assms(2)
    by (auto simp: core_inv_def core_ops running_def)
qed

lemma core_reach_inv:
  assumes "core_reach ctx_role s"
  shows "core_inv ctx_role s"
  using assms
  by induction (simp add: core_inv_def core_init_def finished_def running_def,
      rule core_inv_step)

text \<open>C2: jobs end in the order they start, each exactly once, and only the current job is unfinished,
  whatever the interleaving of interrupts, watchdog and closing contexts.  The watchdog is pending
  or at work only for the current job.\<close>

theorem jobs_finish_once:
  assumes "core_reach ctx_role s"
  shows "started s = map fst (finished s) @ (case curr_ctx s of None \<Rightarrow> [] | Some c \<Rightarrow> [c]) \<and>
    (watchdog_pending s \<longrightarrow> curr_ctx s \<noteq> None \<and> watchdog_pc s = Watchdog_Idle) \<and>
    (\<forall>c. watchdog_pc s = Watchdog_Resetting c \<longrightarrow> curr_ctx s = Some c)"
  using core_reach_inv[OF assms] by (simp add: core_inv_def running_def)

section \<open>Progress\<close>

text \<open>Nobody is left to end the current job.\<close>

definition hung :: "cedrus_core \<Rightarrow> bool" where
  "hung s = (curr_ctx s \<noteq> None \<and> \<not> watchdog_pending s \<and> watchdog_pc s = Watchdog_Idle)"

inductive watchdog_step :: "cedrus_core \<Rightarrow> cedrus_core \<Rightarrow> bool" where
  "watchdog_pending s \<Longrightarrow> watchdog_pc s = Watchdog_Idle \<Longrightarrow> watchdog_step s (watchdog_enter s)"
| "watchdog_pc s = Watchdog_Entered \<Longrightarrow> watchdog_step s (watchdog_reset s)"
| "watchdog_pc s = Watchdog_Resetting ctx \<Longrightarrow> watchdog_step s (watchdog_finish ctx s)"

lemma watchdog_step_core: "watchdog_step s s' \<Longrightarrow> core_step ctx_role s s'"
  by (induction rule: watchdog_step.induct) (auto intro: core_step.intros)

lemma watchdog_from_resetting:
  assumes "watchdog_pc s = Watchdog_Resetting c"
  shows "\<exists>s'. watchdog_step\<^sup>*\<^sup>* s s' \<and> curr_ctx s' = None \<and>
    finished s' = finished s @ [(c, BUF_STATE_ERROR)]"
  using watchdog_step.intros(3)[OF assms]
  by (intro exI[of _ "watchdog_finish c s"])
    (auto simp: core_ops)

lemma watchdog_from_entered:
  assumes "watchdog_pc s = Watchdog_Entered" "curr_ctx s = Some c"
  shows "\<exists>s'. watchdog_step\<^sup>*\<^sup>* s s' \<and> curr_ctx s' = None \<and>
    finished s' = finished s @ [(c, BUF_STATE_ERROR)]"
proof -
  have "watchdog_pc (watchdog_reset s) = Watchdog_Resetting c" "finished (watchdog_reset s) = finished s"
    using assms(2) by (simp_all add: core_ops)
  then show ?thesis
    using watchdog_from_resetting[of "watchdog_reset s" c] watchdog_step.intros(2)[OF assms(1)]
    by (metis converse_rtranclp_into_rtranclp)
qed

text \<open>A job that does not hang is ended by the watchdog if nothing else ends it: at most three of
  the watchdog's steps, whatever the hardware does, finish the current job with an error.\<close>

theorem watchdog_progress:
  assumes "core_reach ctx_role s" "curr_ctx s = Some c" "\<not> hung s"
  shows "\<exists>s'. watchdog_step\<^sup>*\<^sup>* s s' \<and> core_reach ctx_role s' \<and> curr_ctx s' = None \<and>
    finished s' = finished s @ [(c, BUF_STATE_ERROR)]"
proof -
  note i = core_reach_inv[OF assms(1)]
  have "\<exists>s'. watchdog_step\<^sup>*\<^sup>* s s' \<and> curr_ctx s' = None \<and>
    finished s' = finished s @ [(c, BUF_STATE_ERROR)]"
  proof (cases "watchdog_pc s")
    case Watchdog_Idle
    then have p: "watchdog_pending s" using assms(2,3) by (simp add: hung_def)
    have "watchdog_pc (watchdog_enter s) = Watchdog_Entered" "curr_ctx (watchdog_enter s) = Some c"
      "finished (watchdog_enter s) = finished s"
      using assms(2) by (simp_all add: core_ops)
    then show ?thesis
      using watchdog_from_entered[of "watchdog_enter s" c] watchdog_step.intros(1)[OF p Watchdog_Idle]
      by (metis converse_rtranclp_into_rtranclp)
  next
    case Watchdog_Entered
    then show ?thesis using watchdog_from_entered assms(2) by blast
  next
    case (Watchdog_Resetting d)
    then have "d = c" using i assms(2) by (simp add: core_inv_def)
    then show ?thesis using watchdog_from_resetting Watchdog_Resetting by blast
  qed
  moreover have "core_reach ctx_role s'" if "watchdog_step\<^sup>*\<^sup>* s s'" for s'
    using mono_rtranclp[of watchdog_step "core_step ctx_role"] watchdog_step_core that assms(1)
    by (metis rtranclp_trans)
  ultimately show ?thesis by blast
qed

lemma hung_step:
  assumes "core_step ctx_role s s'" "hung s"
  shows "hung s' \<and> curr_ctx s' = curr_ctx s \<and> finished s' = finished s"
  using assms(1)
proof cases
  case (irq status ret)
  then show ?thesis
    by (cases rule: irq_cases) (use assms(2) in \<open>auto simp: hung_def\<close>)
next
  case (close ctx)
  then show ?thesis using assms(2)
    by (cases "ctx_role ctx") (auto simp: hung_def core_ops)
qed (use assms(2) in \<open>auto simp: hung_def core_ops\<close>)

lemma hung_forever:
  assumes "(core_step ctx_role)\<^sup>*\<^sup>* s s'" "hung s"
  shows "hung s' \<and> curr_ctx s' = curr_ctx s \<and> finished s' = finished s"
  using assms by induction (auto dest: hung_step)

text \<open>C23: an interrupt that reports no status of the current engine, taken while the watchdog is
  pending, hangs the job for good: the handler has cancelled the watchdog before it looks at the
  status, and from then on it takes every interrupt, the one that ends the job included, for one
  that came after the watchdog.  Of the steps modelled here it is the only one after which the
  watchdog no longer covers a running job; in particular, every job that is started is covered, so an
  interrupt that is lost hangs nothing.\<close>

theorem unowned_irq_hangs:
  assumes "core_reach ctx_role s"
  shows "(\<forall>c. curr_ctx s = Some c \<and> watchdog_pending s \<and>
      (core_step ctx_role)\<^sup>*\<^sup>* (snd (cedrus_irq CEDRUS_IRQ_NONE s)) s' \<longrightarrow>
      curr_ctx s' = Some c \<and> finished s' = finished s) \<and>
    (core_step ctx_role s s' \<and> \<not> hung s \<and> hung s' \<longrightarrow>
      watchdog_pending s \<and> s' = snd (cedrus_irq CEDRUS_IRQ_NONE s))"
proof (intro conjI allI impI; elim conjE)
  fix c assume c: "curr_ctx s = Some c"
  note i = core_reach_inv[OF assms]
  assume p: "watchdog_pending s" and st: "(core_step ctx_role)\<^sup>*\<^sup>* (snd (cedrus_irq CEDRUS_IRQ_NONE s)) s'"
  have "hung (snd (cedrus_irq CEDRUS_IRQ_NONE s))" "curr_ctx (snd (cedrus_irq CEDRUS_IRQ_NONE s)) = Some c"
    "finished (snd (cedrus_irq CEDRUS_IRQ_NONE s)) = finished s"
    using i p c by (simp_all add: core_inv_def hung_def core_ops cedrus_irq_def)
  then show "curr_ctx s' = Some c" "finished s' = finished s" using hung_forever[OF st] by simp_all
next
  note i = core_reach_inv[OF assms]
  assume st: "core_step ctx_role s s'" and h: "\<not> hung s" "hung s'"
  have "watchdog_pending s \<and> s' = snd (cedrus_irq CEDRUS_IRQ_NONE s)"
    using st
  proof cases
    case (job_run ctx cb ret)
    from job_run(3) show ?thesis
      by (cases rule: job_run_cases) (use h in \<open>auto simp: hung_def core_ops\<close>)
  next
    case (irq status ret)
    then show ?thesis
      by (cases rule: irq_cases)
        (use h i in \<open>auto simp: hung_def core_ops cedrus_irq_def core_inv_def\<close>)
  next
    case (reset)
    then show ?thesis using h by (auto simp: hung_def core_ops split: option.splits)
  next
    case (timeout ctx)
    then show ?thesis using h by (auto simp: hung_def core_ops)
  next
    case (close ctx)
    then show ?thesis using h by (cases "ctx_role ctx") (auto simp: hung_def core_ops split: if_splits)
  qed (use h in \<open>auto simp: hung_def core_ops\<close>)
  then show "watchdog_pending s" "s' = snd (cedrus_irq CEDRUS_IRQ_NONE s)" by simp_all
qed

section \<open>The active context\<close>

text \<open>C35: a unit's active context, which a spurious interrupt dereferences, can outlive its memory in
  one way only: the context starts another job after its clean-up has cleared the active context and
  before its queues are released.\<close>

theorem active_context_dangles:
  assumes "core_reach ctx_role s" "dec_ctx_active s = Some c \<or> enc_ctx_active s = Some c" "c \<in> freed s"
  shows "c \<in> late s"
  using core_reach_inv[OF assms(1)] assms(2,3) by (auto simp: core_inv_def)

section \<open>Examples\<close>

definition ex_cb :: job_callbacks where
  "ex_cb = \<lparr>cb_job_prepare = None, cb_format_configure = None, cb_picture_configure = None,
     cb_job_configure = None\<rparr>"

definition ex_run :: "nat \<Rightarrow> cedrus_core \<Rightarrow> cedrus_core" where
  "ex_run ctx s = snd (cedrus_context_job_run ROLE_DECODER ex_cb ctx
     (s\<lparr>curr_ctx := Some ctx, started := started s @ [ctx],
       late := (if ctx \<in> closing s then insert ctx (late s) else late s)\<rparr>))"

definition ex_irq :: "cedrus_irq_status \<Rightarrow> cedrus_core \<Rightarrow> cedrus_core" where
  "ex_irq status s = snd (cedrus_irq status s)"

abbreviation ex_reach :: "cedrus_core \<Rightarrow> bool" where
  "ex_reach \<equiv> core_reach (\<lambda>_. ROLE_DECODER)"

lemma ex_run_reach:
  assumes "ex_reach s" "curr_ctx s = None" "ctx \<notin> freed s"
  shows "ex_reach (ex_run ctx s)"
  using assms
  by (intro rtranclp.rtrancl_into_rtrancl[OF assms(1)]
      core_step.job_run[of s ctx "\<lambda>_. ROLE_DECODER" ex_cb None])
    (simp_all add: ex_run_def cedrus_context_job_run_def ex_cb_def Let_def)

lemma ex_irq_reach: "ex_reach s \<Longrightarrow> ex_reach (ex_irq status s)"
  unfolding ex_irq_def by (erule rtranclp.rtrancl_into_rtrancl, rule core_step.irq[OF surjective_pairing])

lemma ex_run_simps [simp]:
  "curr_ctx (ex_run c s) = Some c" "watchdog_pending (ex_run c s) = True"
  "watchdog_pc (ex_run c s) = watchdog_pc s" "finished (ex_run c s) = finished s"
  "dec_ctx_active (ex_run c s) = Some c" "closing (ex_run c s) = closing s" "freed (ex_run c s) = freed s"
  "started (ex_run c s) = started s @ [c]"
  by (simp_all add: ex_run_def cedrus_context_job_run_def ex_cb_def Let_def core_ops)

lemma ex_irq_simps [simp]:
  assumes "watchdog_pending s" "curr_ctx s = Some c"
  shows "curr_ctx (ex_irq CEDRUS_IRQ_SUCCESS s) = None" "freed (ex_irq CEDRUS_IRQ_SUCCESS s) = freed s"
    "closing (ex_irq CEDRUS_IRQ_SUCCESS s) = closing s"
    "dec_ctx_active (ex_irq CEDRUS_IRQ_SUCCESS s) = dec_ctx_active s"
    "finished (ex_irq CEDRUS_IRQ_SUCCESS s) = finished s @ [(c, BUF_STATE_DONE)]"
    "started (ex_irq CEDRUS_IRQ_SUCCESS s) = started s"
    "late (ex_irq CEDRUS_IRQ_SUCCESS s) = late s"
  using assms by (simp_all add: ex_irq_def cedrus_irq_def Let_def core_ops)

lemma core_init_simps [simp]:
  "curr_ctx core_init = None" "watchdog_pending core_init = False" "watchdog_pc core_init = Watchdog_Idle"
  "finished core_init = []" "closing core_init = {}" "freed core_init = {}" "started core_init = []"
  by (simp_all add: core_init_def finished_def)

lemma ex_started: "ex_reach (ex_run 0 core_init)"
  by (intro ex_run_reach) simp_all

theorem jobs_finish_once_witness:
  "started (ex_irq CEDRUS_IRQ_SUCCESS (ex_run 0 core_init)) = [0] \<and>
   map fst (finished (ex_irq CEDRUS_IRQ_SUCCESS (ex_run 0 core_init))) = [0]"
  using jobs_finish_once[OF ex_irq_reach[OF ex_started, of CEDRUS_IRQ_SUCCESS]] by simp

theorem watchdog_progress_witness:
  "\<exists>s'. watchdog_step\<^sup>*\<^sup>* (ex_run 0 core_init) s' \<and> finished s' = [(0, BUF_STATE_ERROR)]"
  using watchdog_progress[OF ex_started, of 0] by (auto simp: hung_def)

text \<open>A job whose interrupt comes, but after one that was not its own.\<close>

theorem unowned_irq_hangs_witness:
  "finished (ex_irq CEDRUS_IRQ_SUCCESS (ex_irq CEDRUS_IRQ_NONE (ex_run 0 core_init))) = [] \<and>
   curr_ctx (ex_irq CEDRUS_IRQ_SUCCESS (ex_irq CEDRUS_IRQ_NONE (ex_run 0 core_init))) = Some 0"
proof -
  have "(core_step (\<lambda>_. ROLE_DECODER))\<^sup>*\<^sup>* (snd (cedrus_irq CEDRUS_IRQ_NONE (ex_run 0 core_init)))
      (ex_irq CEDRUS_IRQ_SUCCESS (ex_irq CEDRUS_IRQ_NONE (ex_run 0 core_init)))"
    unfolding ex_irq_def by (rule r_into_rtranclp, rule core_step.irq[OF surjective_pairing])
  then show ?thesis using unowned_irq_hangs[OF ex_started] by simp
qed

definition ex_closed :: cedrus_core where
  "ex_closed = cleanup_end 0 (ex_irq CEDRUS_IRQ_SUCCESS (ex_run 0 (cleanup_begin ROLE_DECODER 0 core_init)))"

theorem active_context_dangles_witness:
  "ex_reach ex_closed \<and> dec_ctx_active ex_closed = Some 0 \<and> 0 \<in> freed ex_closed \<and> 0 \<in> late ex_closed \<and>
   Irq_Disable 0 \<in> set (drop (length (events ex_closed)) (events (ex_irq CEDRUS_IRQ_NONE ex_closed)))"
proof -
  let ?b = "cleanup_begin ROLE_DECODER 0 core_init"
  let ?e = "ex_irq CEDRUS_IRQ_SUCCESS (ex_run 0 ?b)"
  have b: "ex_reach ?b"
    using core_step.close[of 0 core_init "\<lambda>_. ROLE_DECODER"] by (intro r_into_rtranclp) simp
  have bs: "curr_ctx ?b = None" "freed ?b = {}" "closing ?b = {0}"
    by (simp_all add: core_ops)
  have "ex_reach ?e" by (intro ex_irq_reach ex_run_reach b) (simp_all add: bs)
  moreover have "core_step (\<lambda>_. ROLE_DECODER) ?e ex_closed"
    unfolding ex_closed_def by (rule core_step.free) (simp_all add: bs)
  ultimately have r: "ex_reach ex_closed" by (rule rtranclp.rtrancl_into_rtrancl)
  have a: "dec_ctx_active ex_closed = Some 0" "0 \<in> freed ex_closed"
    by (simp_all add: ex_closed_def cleanup_end_def)
  have p: "\<not> watchdog_pending ex_closed"
    using core_reach_inv[OF r] by (simp add: core_inv_def ex_closed_def cleanup_end_def)
  have "Irq_Disable 0 \<in> set (drop (length (events ex_closed)) (events (ex_irq CEDRUS_IRQ_NONE ex_closed)))"
    using p a(1) by (simp add: ex_irq_def cedrus_irq_def cedrus_irq_spurious_def cedrus_irq_disable_clear_def
        emit_def Let_def split: option.split)
  then show ?thesis using r a active_context_dangles[OF r, of 0] by simp
qed

end
