(* ===== verification/Cedrus_Stream.thy ===== *)
theory Cedrus_Stream
  imports Cedrus_Context
begin

text \<open>Buffers and streaming (\<open>cedrus_context.c\<close>): the private data of the buffers of a context, and
  starting and stopping its engine.  The private data of an engine is known by the engine it was
  allocated for.  Allocation, power management and the engines' setup callbacks may fail; what they
  answer is an argument of the operations.\<close>

section \<open>State\<close>

text \<open>Of each queue: the private data of its buffers, and how many buffers the driver owns, that is,
  has been given and not handed back.\<close>

record buffer_queue =
  bq_private :: "cedrus_engine option list"
  bq_owned :: nat

record stream_state =
  st_ctx :: cedrus_context
  st_engine_ctx :: "cedrus_engine option"
  st_engine_job :: "cedrus_engine option"
  st_engine_running :: "cedrus_engine option"
  st_pm_usage :: nat
  st_output :: buffer_queue
  st_capture :: buffer_queue

definition buffer_queue_of :: "buf_type \<Rightarrow> stream_state \<Rightarrow> buffer_queue" where
  "buffer_queue_of bt st = (case bt of
     BUF_TYPE_VIDEO_OUTPUT \<Rightarrow> st_output st | BUF_TYPE_VIDEO_CAPTURE \<Rightarrow> st_capture st)"

definition set_buffer_queue :: "buf_type \<Rightarrow> buffer_queue \<Rightarrow> stream_state \<Rightarrow> stream_state" where
  "set_buffer_queue bt q st = (case bt of
     BUF_TYPE_VIDEO_OUTPUT \<Rightarrow> st\<lparr>st_output := q,
       st_ctx := (st_ctx st)\<lparr>queue_output := (queue_output (st_ctx st))\<lparr>q_busy := bq_private q \<noteq> []\<rparr>\<rparr>\<rparr>
   | BUF_TYPE_VIDEO_CAPTURE \<Rightarrow> st\<lparr>st_capture := q,
       st_ctx := (st_ctx st)\<lparr>queue_capture := (queue_capture (st_ctx st))\<lparr>q_busy := bq_private q \<noteq> []\<rparr>\<rparr>\<rparr>)"

definition set_streaming :: "buf_type \<Rightarrow> bool \<Rightarrow> stream_state \<Rightarrow> stream_state" where
  "set_streaming bt b st = (case bt of
     BUF_TYPE_VIDEO_OUTPUT \<Rightarrow> st\<lparr>st_ctx := (st_ctx st)\<lparr>queue_output :=
       (queue_output (st_ctx st))\<lparr>q_streaming := b\<rparr>\<rparr>\<rparr>
   | BUF_TYPE_VIDEO_CAPTURE \<Rightarrow> st\<lparr>st_ctx := (st_ctx st)\<lparr>queue_capture :=
       (queue_capture (st_ctx st))\<lparr>q_streaming := b\<rparr>\<rparr>\<rparr>)"

definition stream_open :: "cedrus_context \<Rightarrow> stream_state" where
  "stream_open ctx = \<lparr>st_ctx = ctx, st_engine_ctx = None, st_engine_job = None,
     st_engine_running = None, st_pm_usage = 0,
     st_output = \<lparr>bq_private = [], bq_owned = 0\<rparr>, st_capture = \<lparr>bq_private = [], bq_owned = 0\<rparr>\<rparr>"

section \<open>Buffers\<close>

text \<open>The private data of a new buffer.\<close>

definition cedrus_context_buffer_init :: "cedrus_proc \<Rightarrow> bool \<Rightarrow> errno option \<Rightarrow> buf_type \<Rightarrow>
    stream_state \<Rightarrow> errno + cedrus_engine option" where
  "cedrus_context_buffer_init proc alloc_ok setup_ret bt st =
    (let engine = ctx_engine (st_ctx st); ft = cedrus_proc_format_type proc bt;
         buffer_size = (if ft = FORMAT_TYPE_PICTURE then eng_has_buffer engine
           else eng_has_coded_buffer engine)
     in if \<not> buffer_size then Inr None
        else if \<not> alloc_ok then Inl ENOMEM
        else if ft = FORMAT_TYPE_PICTURE
        then (case setup_ret of Some e \<Rightarrow> Inl e | None \<Rightarrow> Inr (Some engine))
        else Inr (Some engine))"

text \<open>Whether a buffer is large enough for the format, and the payload it gets.\<close>

definition cedrus_context_buffer_prepare :: "cedrus_proc \<Rightarrow> buf_type \<Rightarrow> stream_state \<Rightarrow>
    coded_buffer \<Rightarrow> errno option \<times> coded_buffer" where
  "cedrus_context_buffer_prepare proc bt st buf =
    (let ft = cedrus_proc_format_type proc bt;
         sz = unat (sizeimage (fmt_pix (if ft = FORMAT_TYPE_CODED then format_coded (st_ctx st)
           else format_picture (st_ctx st))))
     in if plane_size buf < sz then (Some EINVAL, buf)
        else (None, if ft = FORMAT_TYPE_PICTURE then buf\<lparr>plane_payload := sz\<rparr> else buf))"

text \<open>\<open>queue_setup\<close>: the plane size user space asked for, \<open>None\<close> to let the driver choose.\<close>

definition cedrus_context_queue_setup :: "cedrus_proc \<Rightarrow> buf_type \<Rightarrow> stream_state \<Rightarrow> u32 option \<Rightarrow>
    errno + u32" where
  "cedrus_context_queue_setup proc bt st wanted =
    (let ft = cedrus_proc_format_type proc bt;
         sz = sizeimage (fmt_pix (if ft = FORMAT_TYPE_CODED then format_coded (st_ctx st)
           else format_picture (st_ctx st)))
     in case wanted of
       Some n \<Rightarrow> if n < sz then Inl EINVAL else Inr n
     | None \<Rightarrow> Inr sz)"

definition cedrus_context_buffer_queue :: "buf_type \<Rightarrow> stream_state \<Rightarrow> stream_state" where
  "cedrus_context_buffer_queue bt st = set_buffer_queue bt
     ((buffer_queue_of bt st)\<lparr>bq_owned := bq_owned (buffer_queue_of bt st) + 1\<rparr>) st"

text \<open>All buffers the driver owns go back.\<close>

definition cedrus_context_queue_cleanup :: "buf_type \<Rightarrow> stream_state \<Rightarrow> stream_state" where
  "cedrus_context_queue_cleanup bt st =
    set_buffer_queue bt ((buffer_queue_of bt st)\<lparr>bq_owned := 0\<rparr>) st"

section \<open>Streaming\<close>

record start_results =
  sr_pm :: "errno option"
  sr_ctx_ok :: bool
  sr_job_ok :: bool
  sr_setup :: "errno option"

definition cedrus_context_start_streaming :: "cedrus_proc \<Rightarrow> start_results \<Rightarrow> buf_type \<Rightarrow>
    stream_state \<Rightarrow> errno option \<times> stream_state" where
  "cedrus_context_start_streaming proc sr bt st =
    (let engine = ctx_engine (st_ctx st)
     in if cedrus_proc_format_type proc bt \<noteq> FORMAT_TYPE_CODED then (None, st)
        else if sr_pm sr \<noteq> None then (sr_pm sr, cedrus_context_queue_cleanup bt st)
        else (let st = st\<lparr>st_pm_usage := st_pm_usage st + 1\<rparr>;
                  error_pm = (\<lambda>ret st. (ret, cedrus_context_queue_cleanup bt
                    (st\<lparr>st_pm_usage := st_pm_usage st - 1\<rparr>)));
                  error_alloc_engine = (\<lambda>ret st. error_pm ret (st\<lparr>st_engine_ctx := None\<rparr>));
                  error_alloc_job = (\<lambda>ret st. error_alloc_engine ret (st\<lparr>st_engine_job := None\<rparr>))
              in if eng_has_ctx engine \<and> \<not> sr_ctx_ok sr
                 then error_pm (Some ENOMEM) (st\<lparr>st_engine_ctx := None\<rparr>)
                 else (let st = (if eng_has_ctx engine then st\<lparr>st_engine_ctx := Some engine\<rparr> else st)
                       in if eng_has_job engine \<and> \<not> sr_job_ok sr
                          then error_alloc_engine (Some ENOMEM) (st\<lparr>st_engine_job := None\<rparr>)
                          else (let st = (if eng_has_job engine then st\<lparr>st_engine_job := Some engine\<rparr> else st)
                                in if sr_setup sr \<noteq> None then error_alloc_job (sr_setup sr) st
                                   else (None, st\<lparr>st_engine_running := Some engine\<rparr>)))))"

definition cedrus_context_stop_streaming :: "cedrus_proc \<Rightarrow> buf_type \<Rightarrow> stream_state \<Rightarrow> stream_state" where
  "cedrus_context_stop_streaming proc bt st =
    (if cedrus_proc_format_type proc bt \<noteq> FORMAT_TYPE_CODED then st
     else (let st = st\<lparr>st_engine_running := None\<rparr>;
               st = st\<lparr>st_engine_job := None\<rparr>;
               st = st\<lparr>st_engine_ctx := None\<rparr>;
               st = cedrus_context_queue_cleanup bt st
           in st\<lparr>st_pm_usage := st_pm_usage st - 1\<rparr>))"

section \<open>Executions\<close>

text \<open>What videobuf2 allows: buffers are added at any time and removed all at once from a stopped
  queue; a queue with buffers can be started once; a buffer is queued to the driver; a finished job
  hands a buffer back.\<close>

inductive stream_step :: "fit \<Rightarrow> cedrus_proc \<Rightarrow> stream_state \<Rightarrow> stream_state \<Rightarrow> bool"
  for fit proc where
  ioctl: "cedrus_proc_s_fmt fit proc (st_ctx st) fmt = (ret, ctx', fmt') \<Longrightarrow>
    stream_step fit proc st (st\<lparr>st_ctx := ctx'\<rparr>)"
| selection: "cedrus_proc_s_selection proc (st_ctx st) bt target r = (ret', ctx') \<Longrightarrow>
    stream_step fit proc st (st\<lparr>st_ctx := ctx'\<rparr>)"
| add_buffer: "cedrus_context_buffer_init proc ok setup_ret bt st = Inr priv \<Longrightarrow>
    stream_step fit proc st (set_buffer_queue bt
      ((buffer_queue_of bt st)\<lparr>bq_private := bq_private (buffer_queue_of bt st) @ [priv]\<rparr>) st)"
| free_buffers: "\<not> q_streaming (context_queue (st_ctx st) bt) \<Longrightarrow>
    stream_step fit proc st (set_buffer_queue bt \<lparr>bq_private = [], bq_owned = 0\<rparr> st)"
| queue_buffer: "bq_owned (buffer_queue_of bt st) < length (bq_private (buffer_queue_of bt st)) \<Longrightarrow>
    stream_step fit proc st (cedrus_context_buffer_queue bt st)"
| buffer_done: "bq_owned (buffer_queue_of bt st) = Suc n \<Longrightarrow>
    stream_step fit proc st (set_buffer_queue bt ((buffer_queue_of bt st)\<lparr>bq_owned := n\<rparr>) st)"
| streamon: "\<lbrakk>\<not> q_streaming (context_queue (st_ctx st) bt); q_busy (context_queue (st_ctx st) bt);
     cedrus_context_start_streaming proc sr bt st = (ret, st')\<rbrakk> \<Longrightarrow>
    stream_step fit proc st (if ret = None then set_streaming bt True st' else st')"
| streamoff: "q_streaming (context_queue (st_ctx st) bt) \<Longrightarrow>
    stream_step fit proc st (set_streaming bt False (cedrus_context_stop_streaming proc bt st))"

inductive stream_reach :: "fit \<Rightarrow> cedrus_proc \<Rightarrow> stream_state \<Rightarrow> bool" for fit proc where
  opened: "cedrus_context_setup fit proc = (None, ctx) \<Longrightarrow> stream_reach fit proc (stream_open ctx)"
| step: "stream_reach fit proc st \<Longrightarrow> stream_step fit proc st st' \<Longrightarrow> stream_reach fit proc st'"

section \<open>What always holds\<close>

lemma propagate_keeps:
  assumes "cedrus_proc_format_propagate fit proc ft ctx = (ret, ctx')"
  shows "queue_output ctx' = queue_output ctx" "queue_capture ctx' = queue_capture ctx"
    "ctx_engine ctx' = ctx_engine ctx"
  using assms
  by (auto simp: cedrus_proc_format_propagate_def cedrus_enc_format_propagate_def Let_def
      cedrus_dec_format_propagate_def cedrus_context_selection_picture_reset_def
      split: cedrus_role.splits if_splits prod.splits)

lemma set_format_keeps [simp]:
  "queue_output (set_format ft fmt ctx) = queue_output ctx"
  "queue_capture (set_format ft fmt ctx) = queue_capture ctx"
  "ctx_engine (set_format ft fmt ctx) = ctx_engine ctx"
  by (cases ft; simp add: set_format_def)+

lemma s_fmt_keeps:
  assumes "cedrus_proc_s_fmt fit proc ctx fmt = (ret, ctx', fmt')"
  shows "queue_output ctx' = queue_output ctx" "queue_capture ctx' = queue_capture ctx"
    "cedrus_proc_format_type proc (fmt_buf_type fmt) = FORMAT_TYPE_PICTURE \<Longrightarrow> ctx_engine ctx' = ctx_engine ctx"
proof -
  let ?ft = "cedrus_proc_format_type proc (fmt_buf_type fmt)"
  obtain r f where t: "cedrus_proc_try_fmt fit proc ctx fmt = (r, f)" by (metis surj_pair)
  obtain r2 c2 where p: "cedrus_proc_format_propagate fit proc ?ft (set_format ?ft f ctx) = (r2, c2)"
    by (metis surj_pair)
  note k = propagate_keeps[OF p, simplified]
  show "queue_output ctx' = queue_output ctx" "queue_capture ctx' = queue_capture ctx"
    "?ft = FORMAT_TYPE_PICTURE \<Longrightarrow> ctx_engine ctx' = ctx_engine ctx"
    using assms k p
    by (auto simp: cedrus_proc_s_fmt_def Let_def t cedrus_context_engine_update_def
        split: if_splits option.splits)
qed

text \<open>While the coded queue streams, no format ioctl changes the engine.\<close>

definition coded_queue :: "cedrus_proc \<Rightarrow> cedrus_context \<Rightarrow> vb2_queue" where
  "coded_queue proc ctx = context_queue ctx (cedrus_proc_buffer_type proc FORMAT_TYPE_CODED)"

lemma s_fmt_streaming_engine:
  assumes "cedrus_proc_s_fmt fit proc ctx fmt = (ret, ctx', fmt')"
    "q_streaming (coded_queue proc ctx)" "q_busy (coded_queue proc ctx)"
  shows "ctx_engine ctx' = ctx_engine ctx"
proof (cases "cedrus_proc_format_type proc (fmt_buf_type fmt)")
  case FORMAT_TYPE_PICTURE
  then show ?thesis using s_fmt_keeps(3)[OF assms(1)] by simp
next
  case FORMAT_TYPE_CODED
  then have "fmt_buf_type fmt = cedrus_proc_buffer_type proc FORMAT_TYPE_CODED"
    by (metis buffer_type_format_type(1))
  then have "s_fmt_busy proc ctx fmt"
    using assms(2,3)
    by (auto simp: s_fmt_busy_def coded_queue_def cedrus_context_queue_busy_check_def
        cedrus_proc_format_dynamic_check_def cedrus_enc_format_dynamic_check_def
        cedrus_dec_format_dynamic_check_def cedrus_context_queue_streaming_check_def
        split: cedrus_role.splits)
  then show ?thesis using assms(1) by (auto simp: cedrus_proc_s_fmt_def s_fmt_busy_def Let_def)
qed

lemma buffer_queue_simps [simp]:
  "buffer_queue_of bt (set_buffer_queue bt q st) = q"
  "bt \<noteq> bt' \<Longrightarrow> buffer_queue_of bt' (set_buffer_queue bt q st) = buffer_queue_of bt' st"
  "st_engine_ctx (set_buffer_queue bt q st) = st_engine_ctx st"
  "st_engine_job (set_buffer_queue bt q st) = st_engine_job st"
  "st_engine_running (set_buffer_queue bt q st) = st_engine_running st"
  "st_pm_usage (set_buffer_queue bt q st) = st_pm_usage st"
  "context_queue (st_ctx (set_buffer_queue bt q st)) bt =
     (context_queue (st_ctx st) bt)\<lparr>q_busy := bq_private q \<noteq> []\<rparr>"
  "bt \<noteq> bt' \<Longrightarrow> context_queue (st_ctx (set_buffer_queue bt q st)) bt' = context_queue (st_ctx st) bt'"
  "ctx_engine (st_ctx (set_buffer_queue bt q st)) = ctx_engine (st_ctx st)"
  by (cases bt; cases bt'; simp add: buffer_queue_of_def set_buffer_queue_def context_queue_def)+

lemma set_streaming_simps [simp]:
  "buffer_queue_of bt' (set_streaming bt b st) = buffer_queue_of bt' st"
  "st_engine_ctx (set_streaming bt b st) = st_engine_ctx st"
  "st_engine_job (set_streaming bt b st) = st_engine_job st"
  "st_engine_running (set_streaming bt b st) = st_engine_running st"
  "st_pm_usage (set_streaming bt b st) = st_pm_usage st"
  "context_queue (st_ctx (set_streaming bt b st)) bt = (context_queue (st_ctx st) bt)\<lparr>q_streaming := b\<rparr>"
  "bt \<noteq> bt' \<Longrightarrow> context_queue (st_ctx (set_streaming bt b st)) bt' = context_queue (st_ctx st) bt'"
  "ctx_engine (st_ctx (set_streaming bt b st)) = ctx_engine (st_ctx st)"
  by (cases bt; cases bt'; simp add: buffer_queue_of_def set_streaming_def context_queue_def)+

lemma buffer_queue_of_updates [simp]:
  "buffer_queue_of bt (st\<lparr>st_ctx := c\<rparr>) = buffer_queue_of bt st"
  "buffer_queue_of bt (st\<lparr>st_engine_ctx := x\<rparr>) = buffer_queue_of bt st"
  "buffer_queue_of bt (st\<lparr>st_engine_job := x\<rparr>) = buffer_queue_of bt st"
  "buffer_queue_of bt (st\<lparr>st_engine_running := x\<rparr>) = buffer_queue_of bt st"
  "buffer_queue_of bt (st\<lparr>st_pm_usage := n\<rparr>) = buffer_queue_of bt st"
  by (simp_all add: buffer_queue_of_def split: buf_type.split)

definition engine_idle :: "stream_state \<Rightarrow> bool" where
  "engine_idle st = (st_engine_ctx st = None \<and> st_engine_job st = None \<and>
     st_engine_running st = None \<and> st_pm_usage st = 0)"

definition engine_runs :: "cedrus_engine \<Rightarrow> stream_state \<Rightarrow> bool" where
  "engine_runs e st = (st_engine_running st = Some e \<and> st_pm_usage st = 1 \<and>
     st_engine_ctx st = (if eng_has_ctx e then Some e else None) \<and>
     st_engine_job st = (if eng_has_job e then Some e else None))"

definition queue_inv :: "stream_state \<Rightarrow> buf_type \<Rightarrow> bool" where
  "queue_inv st bt = (let q = context_queue (st_ctx st) bt; b = buffer_queue_of bt st
     in (q_busy q \<longleftrightarrow> bq_private b \<noteq> []) \<and> (q_streaming q \<longrightarrow> q_busy q) \<and>
        bq_owned b \<le> length (bq_private b))"

definition stream_inv :: "cedrus_proc \<Rightarrow> stream_state \<Rightarrow> bool" where
  "stream_inv proc st = ((\<forall>bt. queue_inv st bt) \<and>
     (if q_streaming (coded_queue proc (st_ctx st)) then engine_runs (ctx_engine (st_ctx st)) st
      else engine_idle st))"

lemma stream_inv_queue:
  assumes "stream_inv proc st"
    and "bq_owned q \<le> length (bq_private q)"
    and "q_streaming (context_queue (st_ctx st) bt) \<longrightarrow> bq_private q \<noteq> []"
  shows "stream_inv proc (set_buffer_queue bt q st)"
proof -
  have "queue_inv (set_buffer_queue bt q st) bt'" for bt'
    using assms by (cases "bt = bt'") (auto simp: stream_inv_def queue_inv_def Let_def)
  moreover have "q_streaming (coded_queue proc (st_ctx (set_buffer_queue bt q st))) =
      q_streaming (coded_queue proc (st_ctx st))"
    by (cases "bt = cedrus_proc_buffer_type proc FORMAT_TYPE_CODED") (simp_all add: coded_queue_def)
  ultimately show ?thesis
    using assms(1) by (auto simp: stream_inv_def engine_idle_def engine_runs_def)
qed

lemma queue_invD:
  assumes "stream_inv proc st"
  shows "bq_owned (buffer_queue_of bt st) \<le> length (bq_private (buffer_queue_of bt st))"
    "q_streaming (context_queue (st_ctx st) bt) \<Longrightarrow> bq_private (buffer_queue_of bt st) \<noteq> []"
    "q_streaming (context_queue (st_ctx st) bt) \<Longrightarrow> q_busy (context_queue (st_ctx st) bt)"
  using assms by (auto simp: stream_inv_def queue_inv_def Let_def)

lemma stream_inv_ctx:
  assumes "stream_inv proc st" "queue_output ctx' = queue_output (st_ctx st)"
    "queue_capture ctx' = queue_capture (st_ctx st)"
    "q_streaming (coded_queue proc (st_ctx st)) \<Longrightarrow> ctx_engine ctx' = ctx_engine (st_ctx st)"
  shows "stream_inv proc (st\<lparr>st_ctx := ctx'\<rparr>)"
proof -
  have "context_queue ctx' bt = context_queue (st_ctx st) bt" for bt
    using assms(2,3) by (simp add: context_queue_def split: buf_type.split)
  then show ?thesis
    using assms(1,4)
    by (auto simp: stream_inv_def queue_inv_def coded_queue_def engine_idle_def engine_runs_def Let_def)
qed

lemma start_streaming_cases:
  assumes "cedrus_context_start_streaming proc sr bt st = (ret, st')" "engine_idle st"
    and ft: "cedrus_proc_format_type proc bt = FORMAT_TYPE_CODED"
  shows "(ret = None \<longrightarrow> engine_runs (ctx_engine (st_ctx st)) st' \<and> st_ctx st' = st_ctx st \<and>
      st_output st' = st_output st \<and> st_capture st' = st_capture st) \<and>
    (ret \<noteq> None \<longrightarrow> st' = cedrus_context_queue_cleanup bt st)"
proof -
  have e: "st\<lparr>st_engine_ctx := None, st_pm_usage := 0\<rparr> = st"
    "st\<lparr>st_engine_job := None, st_engine_ctx := None, st_pm_usage := 0\<rparr> = st"
    using assms(2) by (cases st; simp add: engine_idle_def)+
  show ?thesis
    using assms ft
    by (auto simp: cedrus_context_start_streaming_def Let_def engine_idle_def engine_runs_def e split: if_splits)
qed

lemma coded_buf_type:
  "cedrus_proc_format_type proc bt = FORMAT_TYPE_CODED \<longleftrightarrow> bt = cedrus_proc_buffer_type proc FORMAT_TYPE_CODED"
  by (metis buffer_type_format_type)

lemma stream_inv_step:
  assumes "stream_step fit proc st st'" "stream_inv proc st"
  shows "stream_inv proc st'"
  using assms(1)
proof cases
  case (ioctl fmt ret ctx' fmt')
  note k = s_fmt_keeps[OF ioctl(2)]
  have "ctx_engine ctx' = ctx_engine (st_ctx st)" if "q_streaming (coded_queue proc (st_ctx st))"
    using s_fmt_streaming_engine[OF ioctl(2)] that queue_invD(3)[OF assms(2)] by (simp add: coded_queue_def)
  then show ?thesis unfolding ioctl(1) using stream_inv_ctx[OF assms(2) k(1,2)] by simp
next
  case (selection bt target r ret' ctx')
  have "queue_output ctx' = queue_output (st_ctx st)" "queue_capture ctx' = queue_capture (st_ctx st)"
    "ctx_engine ctx' = ctx_engine (st_ctx st)"
    using selection(2) by (auto simp: cedrus_proc_s_selection_def Let_def split: if_splits)
  then show ?thesis unfolding selection(1) by (rule stream_inv_ctx[OF assms(2)])
next
  case (add_buffer ok setup_ret bt priv)
  then show ?thesis
    using queue_invD(1)[OF assms(2), of bt] by (auto intro!: stream_inv_queue[OF assms(2)])
next
  case (free_buffers bt)
  then show ?thesis by (auto intro!: stream_inv_queue[OF assms(2)])
next
  case (queue_buffer bt)
  then show ?thesis
    using queue_invD(2)[OF assms(2), of bt]
    by (auto simp: cedrus_context_buffer_queue_def intro!: stream_inv_queue[OF assms(2)])
next
  case (buffer_done bt n)
  then show ?thesis
    using queue_invD(1,2)[OF assms(2), of bt] by (auto intro!: stream_inv_queue[OF assms(2)])
next
  case (streamon bt sr ret s)
  show ?thesis
  proof (cases "cedrus_proc_format_type proc bt = FORMAT_TYPE_CODED")
    case True
    then have idle: "engine_idle st"
      using streamon(2) assms(2) coded_buf_type[of proc bt] by (simp add: stream_inv_def coded_queue_def)
    note c = start_streaming_cases[OF streamon(4) idle True]
    show ?thesis
    proof (cases "ret = None")
      case False
      then show ?thesis
        unfolding streamon(1) using c queue_invD(2)[OF assms(2), of bt]
        by (auto simp: cedrus_context_queue_cleanup_def intro!: stream_inv_queue[OF assms(2)])
    next
      case None: True
      then have s: "engine_runs (ctx_engine (st_ctx st)) s" "st_ctx s = st_ctx st"
        "\<And>b. buffer_queue_of b s = buffer_queue_of b st"
        using c by (auto simp: buffer_queue_of_def split: buf_type.split)
      have "queue_inv (set_streaming bt True s) b" for b
        using assms(2) streamon(3) s(2,3)
        by (cases "b = bt") (auto simp: stream_inv_def queue_inv_def Let_def)
      moreover have "q_streaming (coded_queue proc (st_ctx (set_streaming bt True s)))"
        using True by (simp add: coded_queue_def coded_buf_type[of proc bt])
      ultimately show ?thesis
        using None s(1,2) unfolding streamon(1) by (simp add: stream_inv_def engine_runs_def)
    qed
  next
    case False
    then have s: "ret = None" "s = st"
      using streamon(4) by (simp_all add: cedrus_context_start_streaming_def)
    have "queue_inv (set_streaming bt True st) b" for b
      using assms(2) streamon(3)
      by (cases "b = bt") (auto simp: stream_inv_def queue_inv_def Let_def)
    moreover have "q_streaming (coded_queue proc (st_ctx (set_streaming bt True st))) =
        q_streaming (coded_queue proc (st_ctx st))"
      using False by (auto simp: coded_queue_def coded_buf_type[of proc bt])
    ultimately show ?thesis
      using assms(2) s unfolding streamon(1)
      by (auto simp: stream_inv_def engine_runs_def engine_idle_def)
  qed
next
  case (streamoff bt)
  show ?thesis
  proof (cases "cedrus_proc_format_type proc bt = FORMAT_TYPE_CODED")
    case True
    let ?s = "cedrus_context_stop_streaming proc bt st"
    have q: "queue_inv (set_streaming bt False ?s) b" for b
      using assms(2) True
      by (cases "b = bt") (auto simp: stream_inv_def queue_inv_def Let_def cedrus_context_stop_streaming_def
          cedrus_context_queue_cleanup_def)
    have "engine_runs (ctx_engine (st_ctx st)) st"
      using streamoff(2) True assms(2) coded_buf_type[of proc bt] by (simp add: stream_inv_def coded_queue_def)
    then have "engine_idle ?s"
      using True by (simp add: cedrus_context_stop_streaming_def engine_idle_def engine_runs_def Let_def
          cedrus_context_queue_cleanup_def)
    moreover have "\<not> q_streaming (coded_queue proc (st_ctx (set_streaming bt False ?s)))"
      using True by (simp add: coded_queue_def coded_buf_type[of proc bt])
    ultimately show ?thesis
      unfolding streamoff(1) using q by (simp add: stream_inv_def engine_idle_def)
  next
    case False
    then have s: "cedrus_context_stop_streaming proc bt st = st"
      by (simp add: cedrus_context_stop_streaming_def)
    have "queue_inv (set_streaming bt False st) b" for b
      using assms(2) by (cases "b = bt") (auto simp: stream_inv_def queue_inv_def Let_def)
    moreover have "q_streaming (coded_queue proc (st_ctx (set_streaming bt False st))) =
        q_streaming (coded_queue proc (st_ctx st))"
      using False by (auto simp: coded_queue_def coded_buf_type[of proc bt])
    ultimately show ?thesis
      using assms(2) unfolding streamoff(1) s
      by (auto simp: stream_inv_def engine_runs_def engine_idle_def)
  qed
qed

lemma stream_reach_inv: "stream_reach fit proc st \<Longrightarrow> stream_inv proc st"
proof (induction rule: stream_reach.induct)
  case (opened ctx)
  have "queue_output ctx = \<lparr>q_busy = False, q_streaming = False\<rparr> \<and>
      queue_capture ctx = \<lparr>q_busy = False, q_streaming = False\<rparr>"
    using opened
    by (auto simp: cedrus_context_setup_def cedrus_proc_format_setup_def cedrus_enc_format_setup_def
        cedrus_dec_format_setup_def Let_def zero_context_def dest: propagate_keeps
        split: cedrus_role.splits prod.splits if_splits)
  then show ?case
    by (auto simp: stream_inv_def queue_inv_def coded_queue_def context_queue_def stream_open_def
        buffer_queue_of_def engine_idle_def Let_def split: buf_type.split)
next
  case (step st st')
  then show ?case using stream_inv_step by blast
qed

text \<open>Forgetting the buffers, an execution is one of the context's.\<close>

lemma queues_change:
  assumes "stream_inv proc st" "stream_inv proc st'"
    and "st_ctx st' = (st_ctx st)\<lparr>queue_output := q, queue_capture := q'\<rparr>"
  shows "context_step fit proc (st_ctx st) (st_ctx st')"
proof -
  have "queue_ok (context_queue (st_ctx st') bt)" for bt
    using queue_invD(3)[OF assms(2), of bt] by (simp add: queue_ok_def)
  from this[of BUF_TYPE_VIDEO_OUTPUT] this[of BUF_TYPE_VIDEO_CAPTURE]
  have "queue_ok q" "queue_ok q'" unfolding assms(3) by (simp_all add: context_queue_def)
  then show ?thesis unfolding assms(3) by (rule context_step.queues)
qed

lemma ctx_set_queue:
  "\<exists>q q'. st_ctx (set_buffer_queue bt b st) = (st_ctx st)\<lparr>queue_output := q, queue_capture := q'\<rparr>"
  "\<exists>q q'. st_ctx (set_streaming bt on st) = (st_ctx st)\<lparr>queue_output := q, queue_capture := q'\<rparr>"
proof -
  have c: "c = c\<lparr>queue_output := queue_output c\<rparr>" "c = c\<lparr>queue_capture := queue_capture c\<rparr>" for c :: cedrus_context
    by (cases c; simp)+
  show "\<exists>q q'. st_ctx (set_buffer_queue bt b st) = (st_ctx st)\<lparr>queue_output := q, queue_capture := q'\<rparr>"
    by (cases bt; simp add: set_buffer_queue_def) (metis (no_types) c cedrus_context.surjective cedrus_context.update_convs)+
  show "\<exists>q q'. st_ctx (set_streaming bt on st) = (st_ctx st)\<lparr>queue_output := q, queue_capture := q'\<rparr>"
    by (cases bt; simp add: set_streaming_def) (metis (no_types) c cedrus_context.surjective cedrus_context.update_convs)+
qed

definition queues_only :: "cedrus_context \<Rightarrow> cedrus_context \<Rightarrow> bool" where
  "queues_only c c' = (\<exists>q q'. c' = c\<lparr>queue_output := q, queue_capture := q'\<rparr>)"

lemma queues_only_refl [simp]: "queues_only c c"
  unfolding queues_only_def by (cases c) (metis cedrus_context.update_convs(7,8))

lemma queues_only_trans: "queues_only a b \<Longrightarrow> queues_only b c \<Longrightarrow> queues_only a c"
  unfolding queues_only_def by (elim exE) (simp, intro exI, rule refl)

lemma queues_only_set [simp]:
  "queues_only (st_ctx st) (st_ctx (set_buffer_queue bt b st))"
  "queues_only (st_ctx st) (st_ctx (set_streaming bt on st))"
  unfolding queues_only_def by (rule ctx_set_queue)+

lemma queues_only_streaming:
  "queues_only c (st_ctx s) \<Longrightarrow> queues_only c (st_ctx (set_streaming bt on s))"
  using queues_only_trans queues_only_set(2) by blast

lemma stream_step_context:
  assumes "stream_step fit proc st st'" "stream_inv proc st"
  shows "context_step fit proc (st_ctx st) (st_ctx st')"
proof -
  have q: "context_step fit proc (st_ctx st) (st_ctx st')" if "queues_only (st_ctx st) (st_ctx st')"
    using that queues_change[OF assms(2) stream_inv_step[OF assms]] by (auto simp: queues_only_def)
  from assms(1) show ?thesis
  proof cases
    case (ioctl fmt ret ctx' fmt')
    then show ?thesis by (auto intro: context_step.set_fmt)
  next
    case (selection bt target r ret' ctx')
    then show ?thesis by (auto intro: context_step.set_selection)
  next
    case (streamon bt sr ret s)
    have "queues_only (st_ctx st) (st_ctx s)"
    proof (cases "cedrus_proc_format_type proc bt = FORMAT_TYPE_CODED")
      case True
      then have "engine_idle st"
        using streamon(2) assms(2) coded_buf_type[of proc bt] by (simp add: stream_inv_def coded_queue_def)
      then show ?thesis
        using start_streaming_cases[OF streamon(4) _ True]
        by (cases "ret = None") (simp_all add: cedrus_context_queue_cleanup_def)
    next
      case False
      then show ?thesis using streamon(4) by (simp add: cedrus_context_start_streaming_def)
    qed
    then show ?thesis using q streamon(1) queues_only_streaming by (simp split: if_splits)
  next
    case (streamoff bt)
    have "queues_only (st_ctx st) (st_ctx (cedrus_context_stop_streaming proc bt st))"
      using queues_only_set(1)[of "st\<lparr>st_engine_running := None, st_engine_job := None, st_engine_ctx := None\<rparr>"]
      by (simp add: cedrus_context_stop_streaming_def Let_def cedrus_context_queue_cleanup_def)
    then show ?thesis using q streamoff(1) queues_only_streaming by simp
  qed (use q in \<open>simp_all add: cedrus_context_buffer_queue_def\<close>)
qed

lemma stream_reach_context: "stream_reach fit proc st \<Longrightarrow> context_reach fit proc (st_ctx st)"
proof (induction rule: stream_reach.induct)
  case (opened ctx)
  then show ?case by (simp add: stream_open_def context_reach.opened)
next
  case (step st st')
  then show ?case using stream_step_context stream_reach_inv context_reach.step by blast
qed

text \<open>C9: whatever the order of ioctls, buffers and streaming, memory and power of an engine balance:
  while the coded queue streams, exactly one power reference is held and the private context and job
  are those of the engine of the coded format, which no ioctl can change meanwhile; in every other
  state, after each way starting can fail included, nothing is held.  The driver never owns more
  buffers than the queue has, and forgetting the buffers the execution is one of the context's, so
  its formats stay consistent.\<close>

theorem streaming_balanced:
  assumes "stream_reach fit proc st"
  shows "(if q_streaming (coded_queue proc (st_ctx st)) then engine_runs (ctx_engine (st_ctx st)) st
     else engine_idle st) \<and>
    bq_owned (buffer_queue_of bt st) \<le> length (bq_private (buffer_queue_of bt st)) \<and>
    context_reach fit proc (st_ctx st)"
  using stream_reach_inv[OF assms] stream_reach_context[OF assms] queue_invD(1)[of proc st bt]
  by (simp add: stream_inv_def)

text \<open>Stopping a queue hands its buffers back only if it is the coded queue; the picture queue keeps
  every buffer the driver owns, although videobuf2 requires them back.\<close>

theorem stop_hands_back_coded_only:
  "bq_owned (buffer_queue_of bt (cedrus_context_stop_streaming proc bt st)) =
    (if cedrus_proc_format_type proc bt = FORMAT_TYPE_CODED then 0 else bq_owned (buffer_queue_of bt st))"
  by (simp add: cedrus_context_stop_streaming_def Let_def cedrus_context_queue_cleanup_def)

section \<open>The private data of picture buffers\<close>

lemma s_fmt_selects_engine:
  assumes "proc_ok proc" "frmsize_contract fit" "format_inv proc ctx"
    and "fmt_buf_type fmt = cedrus_proc_buffer_type proc FORMAT_TYPE_CODED"
    and "\<not> q_busy (coded_queue proc ctx)"
    and "e \<in> set (proc_engines proc)" "pixelformat (fmt_pix fmt) = eng_pixelformat e"
  shows "\<exists>ctx' fmt'. cedrus_proc_s_fmt fit proc ctx fmt = (None, ctx', fmt') \<and> ctx_engine ctx' = e"
proof -
  have ft: "cedrus_proc_format_type proc (fmt_buf_type fmt) = FORMAT_TYPE_CODED" by (simp add: assms(4))
  have "\<not> s_fmt_busy proc ctx fmt"
    using assms(4,5) by (simp add: s_fmt_busy_def cedrus_context_queue_busy_check_def coded_queue_def)
  then obtain ctx' fmt' where s: "cedrus_proc_s_fmt fit proc ctx fmt = (None, ctx', fmt')"
    "cedrus_proc_try_fmt fit proc ctx fmt = (None, fmt')"
    "cedrus_proc_g_fmt proc ctx' (fmt_buf_type fmt) = fmt'" "format_inv proc ctx'"
    using s_fmt_cases[OF assms(1-3), of fmt] by (auto simp: s_fmt_succeeds_def)
  obtain pix' where p: "cedrus_proc_format_coded_prepare fit proc ctx (fmt_pix fmt) = (None, pix')"
    "pixelformat pix' = pixelformat (fmt_pix fmt)"
    using coded_prepare_total[OF assms(1) format_invD(1)[OF assms(3,1)], of fit "fmt_pix fmt"]
      assms(6,7) proc_okD(6)[OF assms(1)] by auto
  have "fmt_pix fmt' = pix'" using s(2) p(1) ft by (auto simp: cedrus_proc_try_fmt_def)
  then have "pixelformat (fmt_pix (format_coded ctx')) = eng_pixelformat e"
    using s(3) ft p(2) assms(7) by (simp add: cedrus_proc_g_fmt_def)
  then have "eng_pixelformat (ctx_engine ctx') = eng_pixelformat e"
    using s(4) by (simp add: format_inv_def Let_def)
  moreover have "ctx_engine ctx' \<in> set (proc_engines proc)" using format_invD(3)[OF s(4) assms(1)] .
  ultimately have "ctx_engine ctx' = e"
    using find_engine[OF assms(1)] assms(6) by (metis option.inject)
  then show ?thesis using s(1) by blast
qed

abbreviation enc_proc :: cedrus_proc where
  "enc_proc \<equiv> ex_proc cedrus_enc_config"

lemma enc_proc_ok: "proc_ok enc_proc"
  by (rule proc_setup_ok[OF ex_reached(1,2)])

lemma enc_types [simp]:
  "cedrus_proc_format_type enc_proc BUF_TYPE_VIDEO_OUTPUT = FORMAT_TYPE_PICTURE"
  "cedrus_proc_format_type enc_proc BUF_TYPE_VIDEO_CAPTURE = FORMAT_TYPE_CODED"
  "coded_queue enc_proc ctx = queue_capture ctx"
  "proc_engines enc_proc = [cedrus_enc_h264, cedrus_enc_jpeg]"
  by (simp_all add: ex_proc_enc cedrus_proc_format_type_def coded_queue_def cedrus_proc_buffer_type_def
      context_queue_def)

definition ex_stream :: stream_state where
  "ex_stream = stream_open (ex_open cedrus_enc_config)"

lemma ex_stream_reach: "stream_reach ex_fit enc_proc ex_stream"
proof -
  obtain ctx where "cedrus_context_setup ex_fit enc_proc = (None, ctx)"
    using setup_inv[OF enc_proc_ok ex_fit_contract] by blast
  then show ?thesis by (simp add: ex_stream_def ex_open_def stream_reach.opened)
qed

lemma ex_stream_simps [simp]:
  "ctx_engine (st_ctx ex_stream) = cedrus_enc_h264" "st_output ex_stream = \<lparr>bq_private = [], bq_owned = 0\<rparr>"
  "st_capture ex_stream = \<lparr>bq_private = [], bq_owned = 0\<rparr>"
  by (simp_all add: ex_stream_def stream_open_def ex_open_enc)

lemma select_engine:
  assumes "stream_reach ex_fit enc_proc st" "bq_private (st_capture st) = []"
    "e \<in> {cedrus_enc_h264, cedrus_enc_jpeg}"
  shows "\<exists>st'. stream_reach ex_fit enc_proc st' \<and> ctx_engine (st_ctx st') = e \<and>
    st_output st' = st_output st \<and> st_capture st' = st_capture st \<and>
    queue_output (st_ctx st') = queue_output (st_ctx st) \<and> queue_capture (st_ctx st') = queue_capture (st_ctx st)"
proof -
  let ?fmt = "\<lparr>fmt_buf_type = cedrus_proc_buffer_type enc_proc FORMAT_TYPE_CODED,
    fmt_pix = zero_pix\<lparr>pixelformat := eng_pixelformat e\<rparr>\<rparr>"
  have nb: "\<not> q_busy (coded_queue enc_proc (st_ctx st))"
    using stream_reach_inv[OF assms(1)] assms(2)
    by (auto simp: stream_inv_def queue_inv_def Let_def context_queue_def buffer_queue_of_def
        dest!: spec[of _ BUF_TYPE_VIDEO_CAPTURE])
  obtain ctx' fmt' where s: "cedrus_proc_s_fmt ex_fit enc_proc (st_ctx st) ?fmt = (None, ctx', fmt')"
    "ctx_engine ctx' = e"
    using s_fmt_selects_engine[OF enc_proc_ok ex_fit_contract
        reach_inv[OF enc_proc_ok ex_fit_contract stream_reach_context[OF assms(1)]], of ?fmt e] nb assms(3)
    by auto
  show ?thesis
    using stream_reach.step[OF assms(1) stream_step.ioctl[OF s(1)]] s(2) s_fmt_keeps(1,2)[OF s(1)]
    by (intro exI[of _ "st\<lparr>st_ctx := ctx'\<rparr>"]) simp
qed

lemma add_buffer:
  assumes "stream_reach ex_fit enc_proc st"
    "cedrus_context_buffer_init enc_proc True None bt st = Inr priv"
  shows "stream_reach ex_fit enc_proc (set_buffer_queue bt
    ((buffer_queue_of bt st)\<lparr>bq_private := bq_private (buffer_queue_of bt st) @ [priv]\<rparr>) st)"
  using assms stream_reach.step stream_step.add_buffer by metis

definition ex_ok :: start_results where
  "ex_ok = \<lparr>sr_pm = None, sr_ctx_ok = True, sr_job_ok = True, sr_setup = None\<rparr>"

lemma start_ok: "fst (cedrus_context_start_streaming proc ex_ok bt st) = None"
  by (simp add: cedrus_context_start_streaming_def ex_ok_def Let_def)

lemma stream_on:
  assumes "stream_reach ex_fit enc_proc st" "\<not> q_streaming (context_queue (st_ctx st) bt)"
    "q_busy (context_queue (st_ctx st) bt)"
  shows "\<exists>st'. stream_reach ex_fit enc_proc st' \<and> q_streaming (context_queue (st_ctx st') bt) \<and>
    (\<forall>b. b \<noteq> bt \<longrightarrow> context_queue (st_ctx st') b = context_queue (st_ctx st) b) \<and>
    ctx_engine (st_ctx st') = ctx_engine (st_ctx st) \<and> buffer_queue_of BUF_TYPE_VIDEO_OUTPUT st' =
      buffer_queue_of BUF_TYPE_VIDEO_OUTPUT st"
proof -
  obtain s where s: "cedrus_context_start_streaming enc_proc ex_ok bt st = (None, s)"
    using start_ok by (metis prod.collapse)
  have "st_ctx s = st_ctx st" "buffer_queue_of BUF_TYPE_VIDEO_OUTPUT s = buffer_queue_of BUF_TYPE_VIDEO_OUTPUT st"
    using s by (auto simp: cedrus_context_start_streaming_def ex_ok_def Let_def buffer_queue_of_def split: if_splits)
  then show ?thesis
    using stream_reach.step[OF assms(1) stream_step.streamon[OF assms(2,3) s]]
    by (intro exI[of _ "set_streaming bt True s"]) simp
qed

text \<open>The engine can change while picture buffers exist, because only the queue of the format that
  is set is looked at.  An encoder can end up with the JPEG engine, which has no cleanup for them,
  and buffers that hold the reconstruction memory of the H.264 engine; and it can stream H.264 on
  both queues from a picture buffer that has no private data at all.\<close>

theorem picture_private_stale:
  "(\<exists>st. stream_reach ex_fit (ex_proc cedrus_enc_config) st \<and> ctx_engine (st_ctx st) = cedrus_enc_jpeg \<and>
     bq_private (st_output st) = [Some cedrus_enc_h264]) \<and>
   (\<exists>st. stream_reach ex_fit (ex_proc cedrus_enc_config) st \<and> ctx_engine (st_ctx st) = cedrus_enc_h264 \<and>
     eng_has_buffer cedrus_enc_h264 \<and> bq_private (st_output st) = [None] \<and>
     q_streaming (queue_output (st_ctx st)) \<and> q_streaming (queue_capture (st_ctx st)))"
proof
  let ?O = BUF_TYPE_VIDEO_OUTPUT and ?C = BUF_TYPE_VIDEO_CAPTURE
  have "cedrus_context_buffer_init enc_proc True None ?O ex_stream = Inr (Some cedrus_enc_h264)"
    by (simp add: cedrus_context_buffer_init_def Let_def) (simp add: cedrus_enc_h264_def)
  from select_engine[OF add_buffer[OF ex_stream_reach this], of cedrus_enc_jpeg]
  show "\<exists>st. stream_reach ex_fit enc_proc st \<and> ctx_engine (st_ctx st) = cedrus_enc_jpeg \<and>
     bq_private (st_output st) = [Some cedrus_enc_h264]"
    by (auto simp: set_buffer_queue_def buffer_queue_of_def)
  obtain s where s: "stream_reach ex_fit enc_proc s" "ctx_engine (st_ctx s) = cedrus_enc_jpeg"
    "st_output s = \<lparr>bq_private = [], bq_owned = 0\<rparr>" "st_capture s = \<lparr>bq_private = [], bq_owned = 0\<rparr>"
    "queue_output (st_ctx s) = queue_output (st_ctx ex_stream)"
    "queue_capture (st_ctx s) = queue_capture (st_ctx ex_stream)"
    using select_engine[OF ex_stream_reach, of cedrus_enc_jpeg] by auto
  have q0: "q_streaming (queue_output (st_ctx ex_stream)) = False" "q_streaming (queue_capture (st_ctx ex_stream)) = False"
    using queue_invD(2)[OF stream_reach_inv[OF ex_stream_reach], of ?O]
      queue_invD(2)[OF stream_reach_inv[OF ex_stream_reach], of ?C]
    by (auto simp: context_queue_def buffer_queue_of_def)
  have "cedrus_context_buffer_init enc_proc True None ?O s = Inr None"
    by (simp add: cedrus_context_buffer_init_def Let_def s(2)) (simp add: cedrus_enc_jpeg_def)
  from select_engine[OF add_buffer[OF s(1) this], of cedrus_enc_h264]
  obtain t where t: "stream_reach ex_fit enc_proc t" "ctx_engine (st_ctx t) = cedrus_enc_h264"
    "bq_private (st_output t) = [None]" "bq_private (st_capture t) = []"
    "q_streaming (queue_output (st_ctx t)) = False" "q_streaming (queue_capture (st_ctx t)) = False"
    using s q0 by (auto simp: set_buffer_queue_def buffer_queue_of_def)
  have "cedrus_context_buffer_init enc_proc True None ?C t = Inr None"
    by (simp add: cedrus_context_buffer_init_def Let_def t(2)) (simp add: cedrus_enc_h264_def)
  note u = add_buffer[OF t(1) this]
  let ?u = "set_buffer_queue ?C ((buffer_queue_of ?C t)\<lparr>bq_private := bq_private (buffer_queue_of ?C t) @ [None]\<rparr>) t"
  have bo: "q_busy (context_queue (st_ctx t) ?O)"
    using stream_reach_inv[OF t(1)] t(3)
    by (auto simp: stream_inv_def queue_inv_def Let_def buffer_queue_of_def dest!: spec[of _ ?O])
  have uq: "q_busy (context_queue (st_ctx ?u) ?O)" "\<not> q_streaming (context_queue (st_ctx ?u) ?O)"
    "q_busy (context_queue (st_ctx ?u) ?C)" "\<not> q_streaming (context_queue (st_ctx ?u) ?C)"
    using bo t(5,6) by (simp_all add: context_queue_def set_buffer_queue_def)
  obtain v where v: "stream_reach ex_fit enc_proc v" "q_streaming (context_queue (st_ctx v) ?O)"
    "context_queue (st_ctx v) ?C = context_queue (st_ctx ?u) ?C"
    "ctx_engine (st_ctx v) = cedrus_enc_h264" "bq_private (buffer_queue_of ?O v) = [None]"
    using stream_on[OF u uq(2,1)] t(2,3) by (auto simp: buffer_queue_of_def set_buffer_queue_def)
  obtain w where "stream_reach ex_fit enc_proc w" "q_streaming (context_queue (st_ctx w) ?C)"
    "context_queue (st_ctx w) ?O = context_queue (st_ctx v) ?O"
    "ctx_engine (st_ctx w) = cedrus_enc_h264" "bq_private (buffer_queue_of ?O w) = [None]"
    using stream_on[OF v(1), of ?C] uq(3,4) v(3,4,5) by auto
  then show "\<exists>st. stream_reach ex_fit enc_proc st \<and> ctx_engine (st_ctx st) = cedrus_enc_h264 \<and>
     eng_has_buffer cedrus_enc_h264 \<and> bq_private (st_output st) = [None] \<and>
     q_streaming (queue_output (st_ctx st)) \<and> q_streaming (queue_capture (st_ctx st))"
    using v(2) by (intro exI[of _ w]) (simp add: context_queue_def buffer_queue_of_def cedrus_enc_h264_def)
qed

theorem streaming_balanced_witness:
  "engine_idle ex_stream \<and> context_reach ex_fit (ex_proc cedrus_enc_config) (st_ctx ex_stream)"
proof -
  have "\<not> q_streaming (queue_capture (st_ctx ex_stream))"
    using queue_invD(2)[OF stream_reach_inv[OF ex_stream_reach], of BUF_TYPE_VIDEO_CAPTURE]
    by (auto simp: context_queue_def buffer_queue_of_def)
  then show ?thesis using streaming_balanced[OF ex_stream_reach, of BUF_TYPE_VIDEO_OUTPUT] by simp
qed

end
