(* ===== verification/Cedrus_Buffers.thy ===== *)
theory Cedrus_Buffers
  imports Cedrus_Context "HOL-Library.Multiset"
begin

text \<open>What every engine does with the buffers of a job: the planes of a picture and the bytes of a
  coded buffer, the registers of the picture format, waits on the hardware that may not end, and the
  tables that are written through a port of the hardware with an address and a data register.\<close>

section \<open>Buffers\<close>

text \<open>A picture buffer of a queue: the bus address of its plane, its timestamp and the private data
  the engine attached.\<close>

record 'e picture =
  pic_addr :: u64
  pic_timestamp :: u64
  pic_engine :: 'e

definition cedrus_buffer_picture_dma :: "pix_format \<Rightarrow> u64 \<Rightarrow> u64 \<times> u64" where
  "cedrus_buffer_picture_dma pix addr = (addr, addr + ucast (bytesperline pix * pix_height pix))"

definition cedrus_buffer_coded_dma :: "cedrus_role \<Rightarrow> u64 \<Rightarrow> coded_buffer \<Rightarrow> u64 \<times> u32" where
  "cedrus_buffer_coded_dma role addr buf = (addr, word_of_nat (case role of
     ROLE_DECODER \<Rightarrow> plane_payload buf | ROLE_ENCODER \<Rightarrow> plane_size buf))"

text \<open>\<open>vb2_find_buffer\<close> of videobuf2 gives the index of a buffer of the queue with a timestamp.\<close>

type_synonym 'e picture_find = "'e picture list \<Rightarrow> u64 \<Rightarrow> nat option"

definition find_contract :: "'e picture_find \<Rightarrow> bool" where
  "find_contract lookup = ((\<forall>ps ts. case lookup ps ts of
     None \<Rightarrow> \<forall>p\<in>set ps. pic_timestamp p \<noteq> ts
   | Some i \<Rightarrow> i < length ps \<and> pic_timestamp (ps ! i) = ts) \<and>
   (\<forall>ps ps' ts. map pic_timestamp ps = map pic_timestamp ps' \<longrightarrow> lookup ps ts = lookup ps' ts))"

definition first_with_timestamp :: "'e picture_find" where
  "first_with_timestamp ps ts = List.find (\<lambda>i. pic_timestamp (ps ! i) = ts) [0..<length ps]"

lemma first_with_timestamp_contract: "find_contract first_with_timestamp"
proof -
  have "first_with_timestamp ps ts = List.find (\<lambda>i. map pic_timestamp ps ! i = ts) [0..<length (map pic_timestamp ps)]"
    for ps :: "'e picture list" and ts
    unfolding first_with_timestamp_def by (rule find_cong) simp_all
  then have "first_with_timestamp ps ts = first_with_timestamp ps' ts"
    if "map pic_timestamp ps = map pic_timestamp ps'" for ps ps' :: "'e picture list" and ts
    using that by metis
  moreover have "case first_with_timestamp ps ts of None \<Rightarrow> \<forall>p\<in>set ps. pic_timestamp p \<noteq> ts
      | Some i \<Rightarrow> i < length ps \<and> pic_timestamp (ps ! i) = ts" for ps :: "'e picture list" and ts
    unfolding first_with_timestamp_def
    by (auto simp: find_None_iff find_Some_iff in_set_conv_nth split: option.split)
  ultimately show ?thesis unfolding find_contract_def by blast
qed

lemma find_contractD:
  assumes "find_contract lookup"
  shows "lookup ps ts = Some i \<Longrightarrow> i < length ps \<and> pic_timestamp (ps ! i) = ts"
    "lookup ps ts = None \<Longrightarrow> p \<in> set ps \<Longrightarrow> pic_timestamp p \<noteq> ts"
    "map pic_timestamp ps = map pic_timestamp ps' \<Longrightarrow> lookup ps ts = lookup ps' ts"
proof -
  have "case lookup ps ts of None \<Rightarrow> \<forall>p\<in>set ps. pic_timestamp p \<noteq> ts
      | Some i \<Rightarrow> i < length ps \<and> pic_timestamp (ps ! i) = ts"
    using assms unfolding find_contract_def by blast
  then show "lookup ps ts = Some i \<Longrightarrow> i < length ps \<and> pic_timestamp (ps ! i) = ts"
    "lookup ps ts = None \<Longrightarrow> p \<in> set ps \<Longrightarrow> pic_timestamp p \<noteq> ts" by simp_all
  show "map pic_timestamp ps = map pic_timestamp ps' \<Longrightarrow> lookup ps ts = lookup ps' ts"
    using assms unfolding find_contract_def by blast
qed

definition cedrus_job_buffer_picture_ref_dma ::
    "'e picture_find \<Rightarrow> pix_format \<Rightarrow> 'e picture list \<Rightarrow> u64 \<Rightarrow> u64 \<times> u64" where
  "cedrus_job_buffer_picture_ref_dma lookup pix ps ts = (case lookup ps ts of
     None \<Rightarrow> (0, 0) | Some i \<Rightarrow> cedrus_buffer_picture_dma pix (pic_addr (ps ! i)))"

section \<open>Memory an engine attaches to the buffers\<close>

text \<open>When the buffers of a queue are released, the framework calls the engine for each of them.\<close>

definition release_all :: "('e \<Rightarrow> dma_heap \<Rightarrow> 'e \<times> dma_heap) \<Rightarrow> 'e picture list \<Rightarrow> dma_heap \<Rightarrow> dma_heap" where
  "release_all cleanup pics heap = fold (\<lambda>p heap. snd (cleanup (pic_engine p) heap)) pics heap"

definition held_memory :: "('e \<Rightarrow> (u64 \<times> nat) multiset) \<Rightarrow> 'e picture list \<Rightarrow> (u64 \<times> nat) multiset" where
  "held_memory mem pics = sum_list (map (\<lambda>p. mem (pic_engine p)) pics)"

text \<open>The contract of an engine: \<open>mem\<close> is what the private data of one buffer holds, and the cleanup of
  a buffer frees exactly that.\<close>

locale buffer_memory =
  fixes mem :: "'e \<Rightarrow> (u64 \<times> nat) multiset" and cleanup :: "'e \<Rightarrow> dma_heap \<Rightarrow> 'e \<times> dma_heap"
  assumes cleanup_frees: "mset (snd (cleanup b heap)) = mset heap - mem b"
begin

lemma mset_release: "mset (release_all cleanup pics heap) = mset heap - held_memory mem pics"
  by (induction pics arbitrary: heap)
    (simp_all add: release_all_def held_memory_def cleanup_frees diff_diff_eq)

lemma held_engines: "map pic_engine pics' = map pic_engine pics \<Longrightarrow> held_memory mem pics' = held_memory mem pics"
proof -
  have h: "held_memory mem ps = sum_list (map mem (map pic_engine ps))" for ps :: "'e picture list"
    by (simp add: held_memory_def comp_def)
  show "map pic_engine pics' = map pic_engine pics \<Longrightarrow> held_memory mem pics' = held_memory mem pics"
    by (simp only: h)
qed

lemma held_none: "\<forall>p\<in>set pics. mem (pic_engine p) = {#} \<Longrightarrow> held_memory mem pics = {#}"
  unfolding held_memory_def by (induction pics) simp_all

lemma held_member: "cur < length pics \<Longrightarrow> mem (pic_engine (pics ! cur)) \<subseteq># held_memory mem pics"
  unfolding held_memory_def by (metis (no_types, lifting) sum_list_map_remove1 nth_mem mset_subset_eq_add_left)

lemma held_update:
  "cur < length pics \<Longrightarrow>
    held_memory mem (pics[cur := (pics ! cur)\<lparr>pic_engine := b\<rparr>]) =
    held_memory mem pics - mem (pic_engine (pics ! cur)) + mem b"
proof -
  assume "cur < length pics"
  then have "pics = take cur pics @ (pics ! cur) # drop (Suc cur) pics" by (rule id_take_nth_drop)
  then obtain as bs where ps: "pics = as @ (pics ! cur) # bs" "length as = cur"
    using \<open>cur < length pics\<close> by (metis length_take min.absorb4)
  have "pics[cur := (pics ! cur)\<lparr>pic_engine := b\<rparr>] = as @ (pics ! cur)\<lparr>pic_engine := b\<rparr> # bs"
    using ps(2) by (subst ps(1)) (simp add: list_update_append)
  moreover have "held_memory mem pics = held_memory mem as + mem (pic_engine (pics ! cur)) + held_memory mem bs"
    by (subst ps(1)) (simp add: held_memory_def)
  ultimately show ?thesis by (simp add: held_memory_def)
qed

end

section \<open>Registers of the formats\<close>

definition cedrus_enc_format_coded_configure :: "hw_read \<Rightarrow> cedrus_device \<Rightarrow> io_log \<Rightarrow> errno option \<times> io_log" where
  "cedrus_enc_format_coded_configure hw dev log =
    (let value = cedrus_read hw VE_MODE_REG log;
         value = value AND NOT (VE_MODE_ENC_ENABLE OR VE_MODE_ENC_ISP_ENABLE);
         value = value OR VE_MODE_DEC_DISABLED;
         log = cedrus_write VE_MODE_REG value log;
         value = cedrus_read hw VE_RESET_REG log OR VE_RESET_ENCODER_RESET;
         log = cedrus_write VE_RESET_REG value log;
         value = cedrus_read hw VE_RESET_REG log AND NOT VE_RESET_ENCODER_RESET;
         log = cedrus_write VE_RESET_REG value log;
         value = (if dev_enc_addr_shift dev \<noteq> 0
           then VE_MODE_RAMPD OR BIT 30 OR VE_MODE_DDR_MODE_BW_256 OR VE_MODE_ENC_ENABLE OR
             VE_MODE_ENC_ISP_ENABLE OR VE_MODE_DEC_DISABLED
           else cedrus_read hw VE_MODE_REG log OR VE_MODE_ENC_ENABLE OR VE_MODE_ENC_ISP_ENABLE OR
             VE_MODE_DEC_DISABLED)
     in (None, cedrus_write VE_MODE_REG value log))"

definition div_round_up :: "u32 \<Rightarrow> u32 \<Rightarrow> u32" where
  "div_round_up n d = (n + d - 1) div d"

definition cedrus_enc_format_picture_configure :: "cedrus_device \<Rightarrow> pix_format \<Rightarrow> u64 \<Rightarrow> io_log \<Rightarrow>
    errno option \<times> io_log" where
  "cedrus_enc_format_picture_configure dev pix addr log =
    (let log = (if dev_enc_addr_shift dev \<noteq> 0
           then (let width_mbs = div_round_up (pix_width pix) 8;
                     height_mbs = div_round_up (pix_height pix) 8
                 in writes [(VE_ISP_PIC_INFO_REG, push_bit 16 width_mbs OR height_mbs),
                   (VE_ISP_SCALER_SIZE_REG, push_bit 16 height_mbs OR width_mbs)] log)
           else (let width_mbs = div_round_up (pix_width pix) 16;
                     height_mbs = div_round_up (pix_height pix) 16
                 in writes [(VE_ISP_PIC_INFO_REG, VE_ISP_PIC_INFO_WIDTH_MBS (uint width_mbs) OR
                     VE_ISP_PIC_INFO_HEIGHT_MBS (uint height_mbs)),
                   (VE_ISP_SCALER_SIZE_REG, VE_ISP_SCALER_SIZE_HEIGHT_MBS (uint height_mbs) OR
                     VE_ISP_SCALER_SIZE_WIDTH_MBS (uint width_mbs))] log))
     in if bytesperline pix mod 16 \<noteq> 0 then (Some EINVAL, log)
        else (let stride_mbs = bytesperline pix div 16;
                  log = writes [(VE_ISP_PIC_STRIDE0_REG, VE_ISP_PIC_STRIDE0_INPUT_STRIDE_MBS (uint stride_mbs)),
                    (VE_ISP_CTRL_REG, VE_ISP_CTRL_FORMAT_YUV420SP OR VE_ISP_CTRL_ROTATION_0 OR
                      VE_ISP_CTRL_COLORSPACE_BT601)] log;
                  log = (if dev_enc_addr_shift dev \<noteq> 0 then cedrus_write VE_ISP_H618_CTRL_REG 0x42 log
                    else log);
                  (luma_addr, chroma_addr) = cedrus_buffer_picture_dma pix addr
              in (None, writes [(VE_ISP_INPUT_LUMA_ADDR_REG, cedrus_dma_addr dev luma_addr),
                   (VE_ISP_INPUT_CHROMA0_ADDR_REG, cedrus_dma_addr dev chroma_addr)] log)))"

definition cedrus_dec_format_coded_configure :: "pix_format \<Rightarrow> pix_format \<Rightarrow> io_log \<Rightarrow>
    errno option \<times> io_log" where
  "cedrus_dec_format_coded_configure coded picture log =
    (let width_picture = pix_width picture;
         value = VE_MODE_REC_WR_MODE_2MB OR VE_MODE_DDR_MODE_BW_128;
         pf = pixelformat coded;
         mode = (if pf = V4L2_PIX_FMT_MPEG2_SLICE then Some VE_MODE_DEC_MPEG
           else if pf = V4L2_PIX_FMT_H264_SLICE \<or> pf = V4L2_PIX_FMT_VP8_FRAME then Some VE_MODE_DEC_H264
           else if pf = V4L2_PIX_FMT_HEVC_SLICE then Some VE_MODE_DEC_H265
           else if pf = V4L2_PIX_FMT_VP9_FRAME then Some VE_MODE_DEC_VP9
           else None)
     in case mode of
       None \<Rightarrow> (Some EINVAL, log)
     | Some mode \<Rightarrow>
         let value = value OR mode;
             value = (if width_picture = 4096 then value OR VE_MODE_PIC_WIDTH_IS_4096 else value);
             value = (if 2048 < width_picture then value OR VE_MODE_PIC_WIDTH_MORE_2048 else value)
         in (None, cedrus_write VE_MODE_REG value log))"

definition cedrus_dec_format_picture_configure :: "pix_format \<Rightarrow> io_log \<Rightarrow> errno option \<times> io_log" where
  "cedrus_dec_format_picture_configure pix log =
    (if pixelformat pix = V4L2_PIX_FMT_NV12
     then (let log = cedrus_write VE_PRIMARY_OUT_FMT VE_PRIMARY_OUT_FMT_NV12 log;
               chroma_size = align_u32 (pix_width pix) 16 * align_u32 (pix_height pix) 16 div 2;
               log = cedrus_write VE_PRIMARY_CHROMA_BUF_LEN (chroma_size div 2) log;
               luma_stride = align_u32 (pix_width pix) 16;
               chroma_stride = luma_stride div 2;
               value = VE_PRIMARY_FB_LINE_STRIDE_LUMA (uint luma_stride) OR
                 VE_PRIMARY_FB_LINE_STRIDE_CHROMA (uint chroma_stride)
           in (None, cedrus_write VE_PRIMARY_FB_LINE_STRIDE value log))
     else if pixelformat pix = V4L2_PIX_FMT_NV12_32L32
     then (None, writes [(VE_PRIMARY_OUT_FMT, VE_PRIMARY_OUT_FMT_TILED_32_NV12),
       (VE_CHROMA_BUF_LEN, VE_SECONDARY_OUT_FMT_TILED_32_NV12)] log)
     else (Some EINVAL, log))"

section \<open>Waiting for the hardware\<close>

text \<open>\<open>while (cedrus_read(reg) & bits) udelay(1);\<close>\<close>

partial_function (option) wait_cleared :: "hw_read \<Rightarrow> u32 \<Rightarrow> u32 \<Rightarrow> io_log \<Rightarrow> io_log option" where
  "wait_cleared hw reg bits log =
    (if cedrus_read hw reg log AND bits = 0 then Some log
     else wait_cleared hw reg bits (log @ [Delay 1]))"

lemma wait_cleared_Some:
  assumes "wait_cleared hw reg bits log = Some log'"
  shows "\<exists>n. log' = log @ replicate n (Delay 1) \<and> hw log' reg AND bits = 0"
  using assms
proof (rule wait_cleared.raw_induct[rotated])
  fix wait hw reg bits log log'
  assume IH: "\<And>hw reg bits log log'. wait hw reg bits log = Some log' \<Longrightarrow>
      \<exists>n. log' = log @ replicate n (Delay 1) \<and> hw log' reg AND bits = 0"
    and w: "(if cedrus_read hw reg log AND bits = 0 then Some log
      else wait hw reg bits (log @ [Delay 1])) = Some (log' :: io_log)"
  show "\<exists>n. log' = log @ replicate n (Delay 1) \<and> hw log' reg AND bits = 0"
  proof (cases "hw log reg AND bits = 0")
    case True
    then show ?thesis using w by (intro exI[of _ 0]) (simp add: cedrus_read_def)
  next
    case False
    then obtain n where "log' = (log @ [Delay 1]) @ replicate n (Delay 1)" "hw log' reg AND bits = 0"
      using IH[of hw reg bits "log @ [Delay 1]" log'] w by (auto simp: cedrus_read_def)
    then show ?thesis by (intro exI[of _ "Suc n"]) simp
  qed
qed

lemma wait_cleared_returns:
  "(\<exists>log'. wait_cleared hw reg bits log = Some log') \<longleftrightarrow>
   (\<exists>n. hw (log @ replicate n (Delay 1)) reg AND bits = 0)"
proof
  assume "\<exists>n. hw (log @ replicate n (Delay 1)) reg AND bits = 0"
  then obtain n where "hw (log @ replicate n (Delay 1)) reg AND bits = 0" by blast
  then show "\<exists>log'. wait_cleared hw reg bits log = Some log'"
  proof (induction n arbitrary: log)
    case 0
    then show ?case by (subst wait_cleared.simps) (simp add: cedrus_read_def)
  next
    case (Suc n)
    then have "\<exists>log'. wait_cleared hw reg bits (log @ [Delay 1]) = Some log'" by simp
    then show ?case by (subst wait_cleared.simps) simp
  qed
next
  assume "\<exists>log'. wait_cleared hw reg bits log = Some log'"
  then show "\<exists>n. hw (log @ replicate n (Delay 1)) reg AND bits = 0" using wait_cleared_Some by blast
qed

text \<open>Hardware that always clears the bits after some time.\<close>

definition eventually_clear :: "hw_read \<Rightarrow> u32 \<Rightarrow> u32 \<Rightarrow> bool" where
  "eventually_clear hw reg bits \<longleftrightarrow> (\<forall>log. \<exists>k. hw (log @ replicate k (Delay 1)) reg AND bits = 0)"

lemma wait_cleared_eventually:
  assumes "eventually_clear hw reg bits"
  shows "\<exists>k. wait_cleared hw reg bits log = Some (log @ replicate k (Delay 1))"
proof -
  obtain log' where w: "wait_cleared hw reg bits log = Some log'"
    using assms wait_cleared_returns unfolding eventually_clear_def by blast
  then show ?thesis using wait_cleared_Some[OF w] by auto
qed

section \<open>Tables behind a port\<close>

text \<open>The address register takes a byte address; each write of the data register stores a word and
  moves on to the next.  \<open>sram off dat log\<close> is where the port points after \<open>log\<close>, in words, and the
  contents of the memory.\<close>

definition sram_step :: "u32 \<Rightarrow> u32 \<Rightarrow> io \<Rightarrow> nat \<times> (nat \<Rightarrow> u32) \<Rightarrow> nat \<times> (nat \<Rightarrow> u32)" where
  "sram_step off dat e = (\<lambda>(ptr, mem). case e of
     Write r v \<Rightarrow> if r = off then (unat v div 4, mem)
       else if r = dat then (ptr + 1, mem(ptr := v)) else (ptr, mem)
   | _ \<Rightarrow> (ptr, mem))"

definition sram :: "u32 \<Rightarrow> u32 \<Rightarrow> io_log \<Rightarrow> nat \<times> (nat \<Rightarrow> u32)" where
  "sram off dat log = fold (sram_step off dat) log (0, \<lambda>_. 0)"

definition put_block :: "nat \<Rightarrow> 'a list \<Rightarrow> (nat \<Rightarrow> 'a) \<Rightarrow> nat \<Rightarrow> 'a" where
  "put_block at ws mem i = (if at \<le> i \<and> i < at + length ws then ws ! (i - at) else mem i)"

lemma put_block_in: "i < length ws \<Longrightarrow> put_block at ws mem (at + i) = ws ! i"
  by (simp add: put_block_def)

lemma put_block_out: "i < at \<or> at + length ws \<le> i \<Longrightarrow> put_block at ws mem i = mem i"
  by (auto simp: put_block_def)

text \<open>Several blocks, the last of which covers what the others hold where they meet; and a loop that puts
  blocks of \<open>n\<close> elements side by side.\<close>

lemma put_blocks_at:
  assumes "(at, bs) \<in> set blocks" "k < length bs"
    and "\<And>p b. (p, b) \<in> set blocks \<Longrightarrow> (p, b) = (at, bs) \<or> at + k < p \<or> p + length b \<le> at + k"
  shows "fold (\<lambda>(p, b). put_block p b) blocks mem (at + k) = bs ! k"
  using assms
proof (induction blocks arbitrary: mem rule: rev_induct)
  case (snoc x l)
  obtain p b where x: "x = (p, b)" by fastforce
  show ?case
  proof (cases "x = (at, bs)")
    case True
    then show ?thesis using snoc.prems by (simp add: put_block_in)
  next
    case False
    then have "at + k < p \<or> p + length b \<le> at + k" using snoc.prems(3)[of p b] x by auto
    moreover have "(at, bs) \<in> set l" using snoc.prems(1) False by auto
    then have "fold (\<lambda>(p, b). put_block p b) l mem (at + k) = bs ! k"
      by (rule snoc.IH) (use snoc.prems in auto)
    ultimately show ?thesis using x by (simp add: put_block_out)
  qed
qed simp

lemma put_blocks_out:
  assumes "\<And>p b. (p, b) \<in> set blocks \<Longrightarrow> a < p \<or> p + length b \<le> a"
  shows "fold (\<lambda>(p, b). put_block p b) blocks mem a = mem a"
  using assms by (induction blocks arbitrary: mem) (auto simp: put_block_out)

lemma fold_put_block:
  assumes "\<And>i. i \<in> set is \<Longrightarrow> length (b i) = n" "j \<in> set is" "k < n"
    and "\<And>i. i \<in> set is \<Longrightarrow> p i = p j \<Longrightarrow> i = j"
  shows "fold (\<lambda>i. put_block (p i * n) (b i)) is mem (p j * n + k) = b j ! k"
proof -
  have "fold (\<lambda>(p, b). put_block p b) (map (\<lambda>i. (p i * n, b i)) is) mem (p j * n + k) = b j ! k"
  proof (rule put_blocks_at)
    fix q c assume "(q, c) \<in> set (map (\<lambda>i. (p i * n, b i)) is)"
    then obtain i where i: "i \<in> set is" "q = p i * n" "c = b i" by auto
    consider "p i < p j" | "p i = p j" | "p j < p i" by linarith
    then show "(q, c) = (p j * n, b j) \<or> p j * n + k < q \<or> q + length c \<le> p j * n + k"
    proof cases
      case 1
      then have "Suc (p i) * n \<le> p j * n" by (intro mult_le_mono1) simp
      then show ?thesis using i assms(1)[OF i(1)] by simp
    next
      case 2
      then show ?thesis using i assms(4)[OF i(1)] by simp
    next
      case 3
      then have "Suc (p j) * n \<le> p i * n" by (intro mult_le_mono1) simp
      then show ?thesis using i assms(3) by simp
    qed
  qed (use assms in auto)
  then show ?thesis by (simp add: fold_map comp_def)
qed

lemma fold_put_block_out:
  assumes "\<And>i. i \<in> set is \<Longrightarrow> a < p i \<or> p i + length (b i) \<le> a"
  shows "fold (\<lambda>i. put_block (p i) (b i)) is mem a = mem a"
  using assms by (induction "is" arbitrary: mem) (simp_all add: put_block_out)

text \<open>The bytes of an array as the words a little-endian CPU reads from it.\<close>

fun le32_words :: "u8 list \<Rightarrow> u32 list" where
  "le32_words (a # b # c # d # r) =
    (ucast a OR push_bit 8 (ucast b) OR push_bit 16 (ucast c) OR push_bit 24 (ucast d)) # le32_words r"
| "le32_words _ = []"

definition byte_of :: "u32 \<Rightarrow> nat \<Rightarrow> u8" where
  "byte_of w i = ucast (drop_bit (8 * i) w)"

lemma length_le32_words [simp]: "length (le32_words bs) = length bs div 4"
  by (induction bs rule: le32_words.induct) simp_all

lemma byte_of_word:
  "byte_of (ucast a OR push_bit 8 (ucast b) OR push_bit 16 (ucast c) OR push_bit 24 (ucast d)) i =
    (if i = 0 then a else if i = 1 then b else if i = 2 then c else if i = 3 then d else 0)"
  by (rule bit_word_eqI) (auto simp: byte_of_def bit_simps dest: bit_imp_le_length)

lemma le32_words_byte:
  "4 dvd length bs \<Longrightarrow> i < length bs \<Longrightarrow> byte_of (le32_words bs ! (i div 4)) (i mod 4) = bs ! i"
proof (induction bs arbitrary: i rule: le32_words.induct)
  case (1 a b c d r)
  show ?case
  proof (cases "i < 4")
    case True
    then have "i = 0 \<or> i = 1 \<or> i = 2 \<or> i = 3" by auto
    then show ?thesis by (auto simp: byte_of_word)
  next
    case False
    then obtain j where j: "i = j + 4" using le_Suc_ex[of 4 i] by (auto simp: add.commute)
    then have "4 dvd length r" "j < length r" using 1(2,3) by (simp_all add: j) presburger
    then have "byte_of (le32_words r ! (j div 4)) (j mod 4) = r ! j" by (rule 1(1))
    moreover have "i div 4 = Suc (j div 4)" "i mod 4 = j mod 4" by (simp_all add: j)
    ultimately show ?thesis using j by simp
  qed
qed (simp_all, presburger+)

locale sram_port =
  fixes off dat :: u32
  assumes distinct_regs: "off \<noteq> dat"
begin

lemma sram_snoc: "sram off dat (log @ [e]) = sram_step off dat e (sram off dat log)"
  by (simp add: sram_def)

lemma sram_other [simp]:
  "r \<noteq> off \<Longrightarrow> r \<noteq> dat \<Longrightarrow> sram off dat (cedrus_write r v log) = sram off dat log"
  by (simp add: cedrus_write_def sram_snoc sram_step_def split: prod.split)

lemma sram_delays [simp]: "sram off dat (log @ replicate n (Delay k)) = sram off dat log"
proof (induction n)
  case (Suc n)
  have "log @ replicate (Suc n) (Delay k) = (log @ replicate n (Delay k)) @ [Delay k]"
    by (simp add: replicate_append_same)
  then show ?case using Suc by (simp only: sram_snoc) (simp add: sram_step_def split: prod.split)
qed simp

lemma sram_seek:
  "sram off dat (cedrus_write off v log) = (unat v div 4, snd (sram off dat log))"
  by (simp add: cedrus_write_def sram_snoc sram_step_def split: prod.split)

lemma sram_data:
  "sram off dat (cedrus_write dat v log) =
    (fst (sram off dat log) + 1, (snd (sram off dat log))(fst (sram off dat log) := v))"
  using distinct_regs by (simp add: cedrus_write_def sram_snoc sram_step_def split: prod.split)

lemma sram_block:
  "sram off dat (writes (map (Pair dat) ws) log) =
    (fst (sram off dat log) + length ws, put_block (fst (sram off dat log)) ws (snd (sram off dat log)))"
proof (induction ws arbitrary: log)
  case Nil
  then show ?case by (auto simp: put_block_def prod_eq_iff fun_eq_iff)
next
  case (Cons w ws)
  show ?case
    by (auto simp: writes_Cons Cons sram_data put_block_def nth_Cons' fun_eq_iff)
qed

lemma sram_writes_other:
  "(\<forall>(r, v)\<in>set ws. r \<noteq> off \<and> r \<noteq> dat) \<Longrightarrow> sram off dat (writes ws log) = sram off dat log"
  by (induction ws arbitrary: log) (auto simp: writes_Cons)

lemma sram_put:
  assumes "unat v = 4 * at"
  shows "sram off dat (writes ((off, v) # map (Pair dat) ws) log) =
    (at + length ws, put_block at ws (snd (sram off dat log)))"
  using assms by (simp add: writes_Cons sram_block sram_seek)

end

section \<open>The registers of an encoder's picture\<close>

lemma field_SHIFT_AND_MASK_BITS:
  "l \<le> h \<Longrightarrow> h < 32 \<Longrightarrow> field h l (SHIFT_AND_MASK_BITS v h l) = take_bit (h + 1 - l) v"
  by (rule field_eq) (simp_all add: bit_SHIFT_AND_MASK_BITS)

lemma picture_layout_bounds:
  assumes "picture_layout pix"
  shows "unat (bytesperline pix) * unat (pix_height pix) \<le> 2 ^ 29"
    "bytesperline pix mod 16 = 0"
    "unat (bytesperline pix * pix_height pix) = unat (bytesperline pix) * unat (pix_height pix)"
    "unat (sizeimage pix) = unat (bytesperline pix) * unat (pix_height pix) +
       unat (bytesperline pix) * unat (pix_height pix) div 2"
proof -
  let ?b = "bytesperline pix" and ?h = "pix_height pix"
  have a: "16 \<le> unat (pix_width pix)" "unat (pix_width pix) \<le> 4096" "unat ?h \<le> 4096"
    "?b = stride_of (pix_width pix) ?b" "sizeimage pix = ?b * ?h + ?b * ?h div 2"
    using assms by (simp_all add: picture_layout_def)
  have "unat ?b \<le> 2 ^ 17" "16 dvd unat ?b"
    using stride_of_bounds(2,3)[OF a(1,2), of ?b] a(2,4) by simp_all
  then show m: "unat ?b * unat ?h \<le> 2 ^ 29" "?b mod 16 = 0"
    using mult_le_mono[of "unat ?b" "2 ^ 17" "unat ?h" "2 ^ 12"] a(3)
    by (simp_all add: word_unat_eq_iff unat_mod)
  show p: "unat (?b * ?h) = unat ?b * unat ?h"
    using m(1) by (subst unat_mult_lem[THEN iffD1]) simp_all
  show "unat (sizeimage pix) = unat ?b * unat ?h + unat ?b * unat ?h div 2"
    using m(1) unfolding a(5) by (subst unat_add_lem[THEN iffD1]) (simp_all add: unat_div p)
qed

text \<open>C36: for every picture format an encoder can negotiate, the picture registers of a job give the
  hardware the luma plane at the start of the buffer and the chroma plane right behind it, inside
  the size the format asks for; the stride register holds the stride in macroblocks modulo 2048, so
  a stride of 32768 bytes or more, which negotiation accepts, reaches the hardware truncated.\<close>

theorem enc_picture_registers:
  assumes "proc_ok proc" "proc_role proc = ROLE_ENCODER" "frmsize_contract fit" "context_reach fit proc ctx"
    and "pix = fmt_pix (format_picture ctx)"
    and "dev_dma_offset dev = 0" "0 < unat addr" "unat addr + unat (sizeimage pix) < 2 ^ 32"
  shows "\<exists>log' luma chroma stride. cedrus_enc_format_picture_configure dev pix addr log = (None, log') \<and>
    last_write VE_ISP_INPUT_LUMA_ADDR_REG log' = Some luma \<and> unat luma = unat addr \<and>
    last_write VE_ISP_INPUT_CHROMA0_ADDR_REG log' = Some chroma \<and>
    unat chroma = unat addr + unat (bytesperline pix) * unat (pix_height pix) \<and>
    unat chroma + unat (bytesperline pix) * unat (pix_height pix) div 2 = unat addr + unat (sizeimage pix) \<and>
    last_write VE_ISP_PIC_STRIDE0_REG log' = Some stride \<and>
    field 26 16 stride = uint (bytesperline pix) div 16 mod 2048"
proof -
  have "picture_layout pix"
    using reach_inv[OF assms(1,3,4)] assms(2,5) by (simp add: format_inv_def Let_def)
  note l = picture_layout_bounds[OF this] and s = picture_layout_bounds(4)[OF this]
  have c: "unat (addr + ucast (bytesperline pix * pix_height pix)) =
      unat addr + unat (bytesperline pix) * unat (pix_height pix)"
    using assms(8) l s by (subst unat_add_lem[THEN iffD1]) (simp_all add: unat_ucast_up)
  have d: "unat (cedrus_dma_addr dev a) = unat a" if "unat a < 2 ^ 32" for a
    using that assms(6) not_less_ffff[of a] by (simp add: cedrus_dma_addr_def unat_ucast_mod)
  have t: "take_bit 11 (uint (bytesperline pix div 16)) = uint (bytesperline pix) div 16 mod 2048"
    by (simp add: take_bit_eq_mod uint_div)
  show ?thesis
    using assms(8) c s l(2)
    by (simp add: cedrus_enc_format_picture_configure_def cedrus_buffer_picture_dma_def
        last_write_writes hdr_simps d field_SHIFT_AND_MASK_BITS t)
qed

definition ex_wide_stride :: cedrus_context where
  "ex_wide_stride = fst (snd (cedrus_proc_s_fmt ex_fit (ex_proc cedrus_enc_config) (ex_open cedrus_enc_config)
     \<lparr>fmt_buf_type = BUF_TYPE_VIDEO_OUTPUT, fmt_pix = zero_pix\<lparr>pixelformat := V4L2_PIX_FMT_NV12,
       pix_width := 1280, pix_height := 720, bytesperline := 32768\<rparr>\<rparr>))"

lemma ex_wide_stride_reach: "context_reach ex_fit (ex_proc cedrus_enc_config) ex_wide_stride"
  by (rule context_reach.step[OF ex_reached(4)], rule context_step.set_fmt)
    (simp add: ex_wide_stride_def prod_eq_iff)

lemma ex_wide_stride_pix:
  "bytesperline (fmt_pix (format_picture ex_wide_stride)) = 32768"
  "sizeimage (fmt_pix (format_picture ex_wide_stride)) = 35389440"
  by (simp_all add: ex_wide_stride_def ex_open_enc ioctl_defs ex_proc_enc engine_defs frmsize_defs
      hdr_simps zero_pix_def Let_def)

theorem enc_picture_registers_witness:
  "\<exists>log' stride. cedrus_enc_format_picture_configure (device_of_variant cedrus_variant_sun50i_h616)
     (fmt_pix (format_picture ex_wide_stride)) 0x1000 [] = (None, log') \<and>
   last_write VE_ISP_PIC_STRIDE0_REG log' = Some stride \<and> field 26 16 stride = 0"
proof -
  have "proc_role (ex_proc cedrus_enc_config) = ROLE_ENCODER" by (simp add: ex_proc_enc)
  from enc_picture_registers[OF proc_setup_ok[OF ex_reached(1,2)] this ex_fit_contract ex_wide_stride_reach
      refl, of "device_of_variant cedrus_variant_sun50i_h616" "0x1000" "[]"]
  show ?thesis
    by (auto simp: ex_wide_stride_pix device_of_variant_def cedrus_variant_sun50i_h616_def)
qed

end
