(* ===== verification/Cedrus_Dec_H264.thy ===== *)
theory Cedrus_Dec_H264
  imports Cedrus_Buffers
begin

text \<open>The H.264 decoder (\<open>cedrus_dec_h264.c\<close>, \<open>cedrus_dec_h264.h\<close>): the memory of a context, the
  tables a slice needs in the engine's memory (frame buffers, reference lists, scaling lists,
  prediction weights), the registers of a slice, and the interrupt callbacks.

  The controls of a job are records of the fields the driver reads, with their flags as sets; the
  32-bit order counts are kept as words.  \<open>lookup\<close> is \<open>vb2_find_buffer\<close> on the picture queue.  A loop
  that waits for the hardware may not end, so the operations that contain one return an option.\<close>

section \<open>Controls and state\<close>

datatype h264_dpb_flag = DPB_ENTRY_FLAG_VALID | DPB_ENTRY_FLAG_ACTIVE | DPB_ENTRY_FLAG_LONG_TERM
datatype h264_sps_flag = SPS_FLAG_FRAME_MBS_ONLY | SPS_FLAG_MB_ADAPTIVE_FRAME_FIELD |
  SPS_FLAG_DIRECT_8X8_INFERENCE
datatype h264_pps_flag = PPS_FLAG_ENTROPY_CODING_MODE | PPS_FLAG_WEIGHTED_PRED |
  PPS_FLAG_CONSTRAINED_INTRA_PRED | PPS_FLAG_TRANSFORM_8X8_MODE | PPS_FLAG_SCALING_MATRIX_PRESENT
datatype h264_decode_flag = DECODE_PARAM_FLAG_FIELD_PIC | DECODE_PARAM_FLAG_BOTTOM_FIELD
datatype h264_slice_flag = SLICE_FLAG_DIRECT_SPATIAL_MV_PRED
datatype h264_slice_type = SLICE_TYPE_P | SLICE_TYPE_B | SLICE_TYPE_I | SLICE_TYPE_SP | SLICE_TYPE_SI
datatype h264_ref_fields = TOP_FIELD_REF | BOTTOM_FIELD_REF | FRAME_REF

record h264_dpb_entry =
  reference_ts :: u64
  dpb_top_poc :: u32
  dpb_bottom_poc :: u32
  dpb_flags :: "h264_dpb_flag set"

record h264_decode_params =
  dec_dpb :: "h264_dpb_entry list"
  dec_nal_ref_idc :: u16
  dec_top_poc :: u32
  dec_bottom_poc :: u32
  dec_flags :: "h264_decode_flag set"

record h264_sps =
  sps_chroma_format_idc :: u8
  sps_pic_width_in_mbs_minus1 :: u16
  sps_pic_height_in_map_units_minus1 :: u16
  sps_flags :: "h264_sps_flag set"

record h264_pps =
  pps_weighted_bipred_idc :: u8
  pps_pic_init_qp_minus26 :: int
  pps_chroma_qp_index_offset :: int
  pps_second_chroma_qp_index_offset :: int
  pps_flags :: "h264_pps_flag set"

record h264_reference =
  ref_fields :: h264_ref_fields
  ref_index :: u8

record h264_slice_params =
  sl_header_bit_size :: u32
  sl_first_mb_in_slice :: u32
  sl_type :: h264_slice_type
  sl_cabac_init_idc :: u8
  sl_qp_delta :: int
  sl_disable_deblocking_filter_idc :: u8
  sl_alpha_c0_offset_div2 :: int
  sl_beta_offset_div2 :: int
  sl_num_ref_idx_l0_active_minus1 :: u8
  sl_num_ref_idx_l1_active_minus1 :: u8
  sl_ref_pic_list0 :: "h264_reference list"
  sl_ref_pic_list1 :: "h264_reference list"
  sl_flags :: "h264_slice_flag set"

record h264_weight_factors =
  luma_weight :: "int list"
  luma_offset :: "int list"
  chroma_weight :: "int list list"
  chroma_offset :: "int list list"

record h264_pred_weights =
  luma_log2_weight_denom :: u16
  chroma_log2_weight_denom :: u16
  weight_factors :: "h264_weight_factors list"

record h264_scaling_matrix =
  scaling_list_4x4 :: "u8 list list"
  scaling_list_8x8 :: "u8 list list"

record h264d_job =
  dj_sps :: h264_sps
  dj_pps :: h264_pps
  dj_scaling_matrix :: h264_scaling_matrix
  dj_slice_params :: h264_slice_params
  dj_pred_weights :: h264_pred_weights
  dj_decode_params :: h264_decode_params

record h264d_context =
  pic_info_buf_dma :: u64
  pic_info_buf_size :: nat
  neighbor_info_buf_dma :: u64
  deblk_buf_dma :: u64
  deblk_buf_size :: nat
  intra_pred_buf_dma :: u64
  intra_pred_buf_size :: nat

record h264d_buffer =
  buf_position :: nat
  buf_pic_type :: u32
  mv_col_buf_dma :: u64
  mv_col_buf_size :: nat

type_synonym h264d_pictures = "h264d_buffer picture list"

definition FRAME_NUM :: nat where [hdr_simps]: "FRAME_NUM = 18"
definition MAX_REF_IDX :: nat where [hdr_simps]: "MAX_REF_IDX = 32"
definition NEIGHBOR_INFO_BUF_SIZE :: nat where [hdr_simps]: "NEIGHBOR_INFO_BUF_SIZE = 32 * 1024"
definition PIC_INFO_BUF_SIZE_MIN :: nat where [hdr_simps]: "PIC_INFO_BUF_SIZE_MIN = 130 * 1024"

definition PIC_TYPE_FRAME :: u32 where [hdr_simps]: "PIC_TYPE_FRAME = 0"
definition PIC_TYPE_FIELD :: u32 where [hdr_simps]: "PIC_TYPE_FIELD = 1"
definition PIC_TYPE_MBAFF :: u32 where [hdr_simps]: "PIC_TYPE_MBAFF = 2"

text \<open>Where the tables lie in the memory of the engine, in words.\<close>

definition SRAM_PRED_WEIGHT_TABLE :: nat where [hdr_simps]: "SRAM_PRED_WEIGHT_TABLE = 0x000"
definition SRAM_FRAMEBUFFER_LIST :: nat where [hdr_simps]: "SRAM_FRAMEBUFFER_LIST = 0x100"
definition SRAM_REF_LIST_0 :: nat where [hdr_simps]: "SRAM_REF_LIST_0 = 0x190"
definition SRAM_REF_LIST_1 :: nat where [hdr_simps]: "SRAM_REF_LIST_1 = 0x199"
definition SRAM_SCALING_LIST_8x8_0 :: nat where [hdr_simps]: "SRAM_SCALING_LIST_8x8_0 = 0x200"
definition SRAM_SCALING_LIST_8x8_1 :: nat where [hdr_simps]: "SRAM_SCALING_LIST_8x8_1 = 0x210"
definition SRAM_SCALING_LIST_4x4 :: nat where [hdr_simps]: "SRAM_SCALING_LIST_4x4 = 0x220"

section \<open>Memory of a context and of a buffer\<close>

definition h264d_setup :: "dma_alloc \<Rightarrow> nat \<Rightarrow> nat \<Rightarrow> dma_heap \<Rightarrow>
    (errno + h264d_context) \<times> dma_heap" where
  "h264d_setup alloc w h heap =
    (let size = (if 2048 < w then FRAME_NUM * 0x4000 else FRAME_NUM * 0x1000) + h * 2 * 64;
         size = (if size < PIC_INFO_BUF_SIZE_MIN then PIC_INFO_BUF_SIZE_MIN else size)
     in case alloc heap size of
       None \<Rightarrow> (Inl ENOMEM, heap)
     | Some pic \<Rightarrow>
       let heap = (pic, size) # heap in
       case alloc heap NEIGHBOR_INFO_BUF_SIZE of
         None \<Rightarrow> (Inl ENOMEM, dma_free size pic heap)
       | Some nb \<Rightarrow>
         let heap = (nb, NEIGHBOR_INFO_BUF_SIZE) # heap;
             ctx = \<lparr>pic_info_buf_dma = pic, pic_info_buf_size = size, neighbor_info_buf_dma = nb,
               deblk_buf_dma = 0, deblk_buf_size = 0, intra_pred_buf_dma = 0, intra_pred_buf_size = 0\<rparr>
         in if \<not> 2048 < w then (Inr ctx, heap)
            else (let deblk_size = ALIGN w 32 * 12 in
              case alloc heap deblk_size of
                None \<Rightarrow> (Inl ENOMEM, dma_free size pic (dma_free NEIGHBOR_INFO_BUF_SIZE nb heap))
              | Some db \<Rightarrow>
                let heap = (db, deblk_size) # heap;
                    intra_size = ALIGN w 64 * 5 * 2
                in case alloc heap intra_size of
                     None \<Rightarrow> (Inl ENOMEM, dma_free size pic (dma_free NEIGHBOR_INFO_BUF_SIZE nb
                       (dma_free deblk_size db heap)))
                   | Some ip \<Rightarrow> (Inr (ctx\<lparr>deblk_buf_dma := db, deblk_buf_size := deblk_size,
                       intra_pred_buf_dma := ip, intra_pred_buf_size := intra_size\<rparr>),
                       (ip, intra_size) # heap)))"

definition h264d_cleanup :: "h264d_context \<Rightarrow> dma_heap \<Rightarrow> dma_heap" where
  "h264d_cleanup ctx heap =
    (let heap = dma_free (pic_info_buf_size ctx) (pic_info_buf_dma ctx) heap;
         heap = dma_free NEIGHBOR_INFO_BUF_SIZE (neighbor_info_buf_dma ctx) heap;
         heap = (if deblk_buf_size ctx \<noteq> 0 then dma_free (deblk_buf_size ctx) (deblk_buf_dma ctx) heap
           else heap)
     in if intra_pred_buf_size ctx \<noteq> 0
        then dma_free (intra_pred_buf_size ctx) (intra_pred_buf_dma ctx) heap else heap)"

definition h264d_buffer_cleanup :: "h264d_buffer \<Rightarrow> dma_heap \<Rightarrow> h264d_buffer \<times> dma_heap" where
  "h264d_buffer_cleanup buf heap =
    (if mv_col_buf_size buf \<noteq> 0
     then (buf\<lparr>mv_col_buf_size := 0\<rparr>, dma_free (mv_col_buf_size buf) (mv_col_buf_dma buf) heap)
     else (buf, heap))"

definition mv_col_buf_addrs :: "h264d_buffer \<Rightarrow> u64 \<times> u64" where
  "mv_col_buf_addrs buf = (mv_col_buf_dma buf,
     mv_col_buf_dma buf + word_of_nat (mv_col_buf_size buf div 2))"

section \<open>The tables\<close>

definition cedrus_h264_write_sram :: "nat \<Rightarrow> u32 list \<Rightarrow> io_log \<Rightarrow> io_log" where
  "cedrus_h264_write_sram off ws log =
    writes ((VE_AVC_SRAM_PORT_OFFSET, push_bit 2 (word_of_nat off)) # map (Pair VE_AVC_SRAM_PORT_DATA) ws) log"

record sram_ref_pic =
  rp_top_field_order_cnt :: u32
  rp_bottom_field_order_cnt :: u32
  rp_frame_info :: u32
  rp_luma_ptr :: u32
  rp_chroma_ptr :: u32
  rp_mv_col_top_ptr :: u32
  rp_mv_col_bot_ptr :: u32
  rp_reserved :: u32

definition zero_ref_pic :: sram_ref_pic where
  "zero_ref_pic = \<lparr>rp_top_field_order_cnt = 0, rp_bottom_field_order_cnt = 0, rp_frame_info = 0,
     rp_luma_ptr = 0, rp_chroma_ptr = 0, rp_mv_col_top_ptr = 0, rp_mv_col_bot_ptr = 0, rp_reserved = 0\<rparr>"

definition ref_pic_words :: "sram_ref_pic \<Rightarrow> u32 list" where
  "ref_pic_words r = [rp_top_field_order_cnt r, rp_bottom_field_order_cnt r, rp_frame_info r,
     rp_luma_ptr r, rp_chroma_ptr r, rp_mv_col_top_ptr r, rp_mv_col_bot_ptr r, rp_reserved r]"

definition cedrus_fill_ref_pic :: "pix_format \<Rightarrow> h264d_buffer picture \<Rightarrow> u32 \<Rightarrow> u32 \<Rightarrow>
    sram_ref_pic \<Rightarrow> sram_ref_pic" where
  "cedrus_fill_ref_pic pix p top_poc bottom_poc pic =
    (let (luma, chroma) = cedrus_buffer_picture_dma pix (pic_addr p);
         (mv_top, mv_bottom) = mv_col_buf_addrs (pic_engine p)
     in pic\<lparr>rp_top_field_order_cnt := top_poc, rp_bottom_field_order_cnt := bottom_poc,
       rp_frame_info := push_bit 8 (buf_pic_type (pic_engine p)),
       rp_luma_ptr := ucast luma, rp_chroma_ptr := ucast chroma,
       rp_mv_col_top_ptr := ucast mv_top, rp_mv_col_bot_ptr := ucast mv_bottom\<rparr>)"

text \<open>\<open>find_first_zero_bit\<close> of the kernel.\<close>

definition find_first_zero_bit :: "u64 \<Rightarrow> nat \<Rightarrow> nat" where
  "find_first_zero_bit w n = (case List.find (\<lambda>i. \<not> bit w i) [0..<n] of Some i \<Rightarrow> i | None \<Rightarrow> n)"

text \<open>One round of the loop over the decoded picture buffer.  The state is \<open>used_dpbs\<close>, \<open>output\<close> and
  \<open>pic_list\<close>.\<close>

definition frame_list_entry :: "h264d_buffer picture_find \<Rightarrow> pix_format \<Rightarrow> h264d_pictures \<Rightarrow> u64 \<Rightarrow>
    h264_dpb_entry \<Rightarrow> u64 \<times> nat option \<times> sram_ref_pic list \<Rightarrow> u64 \<times> nat option \<times> sram_ref_pic list" where
  "frame_list_entry lookup pix pics timestamp dpb = (\<lambda>(used_dpbs, output, pic_list).
    if DPB_ENTRY_FLAG_VALID \<notin> dpb_flags dpb then (used_dpbs, output, pic_list)
    else case lookup pics (reference_ts dpb) of
      None \<Rightarrow> (used_dpbs, output, pic_list)
    | Some i \<Rightarrow>
        let position = buf_position (pic_engine (pics ! i));
            used_dpbs = used_dpbs OR BIT position
        in if timestamp = reference_ts dpb then (used_dpbs, Some position, pic_list)
           else if DPB_ENTRY_FLAG_ACTIVE \<notin> dpb_flags dpb then (used_dpbs, output, pic_list)
           else (used_dpbs, output, pic_list[position := cedrus_fill_ref_pic pix (pics ! i)
             (dpb_top_poc dpb) (dpb_bottom_poc dpb) (pic_list ! position)]))"

definition frame_list_loop :: "h264d_buffer picture_find \<Rightarrow> pix_format \<Rightarrow> h264d_pictures \<Rightarrow> u64 \<Rightarrow>
    h264_dpb_entry list \<Rightarrow> u64 \<times> nat option \<times> sram_ref_pic list" where
  "frame_list_loop lookup pix pics timestamp dpb =
    fold (frame_list_entry lookup pix pics timestamp) dpb (0, None, replicate FRAME_NUM zero_ref_pic)"

text \<open>The size of the motion vectors a picture of a sequence needs.\<close>

definition mv_col_field_size :: "pix_format \<Rightarrow> h264_sps \<Rightarrow> nat" where
  "mv_col_field_size coded sps =
    (let field_size = DIV_ROUND_UP (unat (pix_width coded)) 16 * DIV_ROUND_UP (unat (pix_height coded)) 16 * 16;
         field_size = (if SPS_FLAG_DIRECT_8X8_INFERENCE \<notin> sps_flags sps then field_size * 2 else field_size)
     in if SPS_FLAG_FRAME_MBS_ONLY \<notin> sps_flags sps then field_size * 2 else field_size)"

definition cedrus_write_frame_list :: "h264d_buffer picture_find \<Rightarrow> dma_alloc \<Rightarrow> pix_format \<Rightarrow> pix_format \<Rightarrow>
    h264d_job \<Rightarrow> nat \<Rightarrow> h264d_pictures \<Rightarrow> dma_heap \<Rightarrow> io_log \<Rightarrow>
    errno option \<times> h264d_pictures \<times> dma_heap \<times> io_log" where
  "cedrus_write_frame_list lookup alloc coded pix job cur pics heap log =
    (let decode = dj_decode_params job; sps = dj_sps job;
         (used_dpbs, output, pic_list) =
           frame_list_loop lookup pix pics (pic_timestamp (pics ! cur)) (dec_dpb decode);
         position = (case output of Some p \<Rightarrow> p | None \<Rightarrow> find_first_zero_bit used_dpbs FRAME_NUM);
         pics = pics[cur := (pics ! cur)\<lparr>pic_engine := (pic_engine (pics ! cur))\<lparr>buf_position := position\<rparr>\<rparr>];
         size = mv_col_field_size coded sps * 2;
         buf = pic_engine (pics ! cur);
         mv = (if mv_col_buf_size buf \<noteq> 0 then Some (mv_col_buf_dma buf, mv_col_buf_size buf, heap)
           else map_option (\<lambda>addr. (addr, size, (addr, size) # heap)) (alloc heap size))
     in case mv of
       None \<Rightarrow> (Some ENOMEM, pics, heap, log)
     | Some (mv_dma, mv_size, heap) \<Rightarrow>
         let pic_type = (if DECODE_PARAM_FLAG_FIELD_PIC \<in> dec_flags decode then PIC_TYPE_FIELD
               else if SPS_FLAG_MB_ADAPTIVE_FRAME_FIELD \<in> sps_flags sps then PIC_TYPE_MBAFF
               else PIC_TYPE_FRAME);
             pics = pics[cur := (pics ! cur)\<lparr>pic_engine := (pic_engine (pics ! cur))\<lparr>mv_col_buf_dma := mv_dma,
               mv_col_buf_size := mv_size, buf_pic_type := pic_type\<rparr>\<rparr>];
             pic_list = pic_list[position := cedrus_fill_ref_pic pix (pics ! cur)
               (dec_top_poc decode) (dec_bottom_poc decode) (pic_list ! position)];
             log = cedrus_h264_write_sram SRAM_FRAMEBUFFER_LIST (concat (map ref_pic_words pic_list)) log
         in (None, pics, heap, cedrus_write VE_H264_OUTPUT_FRAME_IDX (word_of_nat position) log))"

text \<open>The byte of one reference: the position of its frame and, in the lowest bit, the bottom field.
  The list has \<open>num_ref\<close> entries of at most 32; the control framework checks the number.\<close>

definition ref_list_byte :: "h264d_buffer picture_find \<Rightarrow> h264d_pictures \<Rightarrow> h264_dpb_entry list \<Rightarrow>
    h264_reference \<Rightarrow> u8 \<Rightarrow> u8" where
  "ref_list_byte lookup pics dpb r b =
    (let entry = dpb ! unat (ref_index r)
     in if DPB_ENTRY_FLAG_ACTIVE \<notin> dpb_flags entry then b
        else case lookup pics (reference_ts entry) of
          None \<Rightarrow> b
        | Some i \<Rightarrow>
            let b = b OR word_of_nat (buf_position (pic_engine (pics ! i)) * 2)
            in if ref_fields r = BOTTOM_FIELD_REF then b OR BIT 0 else b)"

definition write_ref_list :: "h264d_buffer picture_find \<Rightarrow> h264d_pictures \<Rightarrow> h264_dpb_entry list \<Rightarrow>
    h264_reference list \<Rightarrow> u8 \<Rightarrow> nat \<Rightarrow> io_log \<Rightarrow> io_log" where
  "write_ref_list lookup pics dpb refs num_ref sram_off log =
    (let sram_array = arr_for (unat num_ref) (\<lambda>i. ref_list_byte lookup pics dpb (refs ! i))
           (replicate MAX_REF_IDX 0);
         size = min_t (ALIGN (unat num_ref) 4) MAX_REF_IDX
     in cedrus_h264_write_sram sram_off (le32_words (take size sram_array)) log)"

definition cedrus_write_ref_list0 :: "h264d_buffer picture_find \<Rightarrow> h264d_pictures \<Rightarrow> h264d_job \<Rightarrow> io_log \<Rightarrow> io_log" where
  "cedrus_write_ref_list0 lookup pics job log =
    (let params = dj_slice_params job
     in write_ref_list lookup pics (dec_dpb (dj_decode_params job)) (sl_ref_pic_list0 params)
          (sl_num_ref_idx_l0_active_minus1 params + 1) SRAM_REF_LIST_0 log)"

definition cedrus_write_ref_list1 :: "h264d_buffer picture_find \<Rightarrow> h264d_pictures \<Rightarrow> h264d_job \<Rightarrow> io_log \<Rightarrow> io_log" where
  "cedrus_write_ref_list1 lookup pics job log =
    (let params = dj_slice_params job
     in write_ref_list lookup pics (dec_dpb (dj_decode_params job)) (sl_ref_pic_list1 params)
          (sl_num_ref_idx_l1_active_minus1 params + 1) SRAM_REF_LIST_1 log)"

definition cedrus_write_scaling_lists :: "h264d_job \<Rightarrow> io_log \<Rightarrow> io_log" where
  "cedrus_write_scaling_lists job log =
    (let scaling = dj_scaling_matrix job
     in if PPS_FLAG_SCALING_MATRIX_PRESENT \<notin> pps_flags (dj_pps job) then log
        else (let log = cedrus_h264_write_sram SRAM_SCALING_LIST_8x8_0 (le32_words (scaling_list_8x8 scaling ! 0)) log;
                  log = cedrus_h264_write_sram SRAM_SCALING_LIST_8x8_1 (le32_words (scaling_list_8x8 scaling ! 1)) log
              in cedrus_h264_write_sram SRAM_SCALING_LIST_4x4 (le32_words (concat (scaling_list_4x4 scaling))) log))"

definition weight_word :: "int \<Rightarrow> int \<Rightarrow> u32" where
  "weight_word offset weight = push_bit 16 (word_of_int offset AND 0x1ff) OR (word_of_int weight AND 0x1ff)"

definition weight_words :: "h264_weight_factors \<Rightarrow> u32 list" where
  "weight_words f =
    map (\<lambda>j. weight_word (luma_offset f ! j) (luma_weight f ! j)) [0..<32] @
    concat (map (\<lambda>j. map (\<lambda>k. weight_word (chroma_offset f ! j ! k) (chroma_weight f ! j ! k)) [0..<2]) [0..<32])"

definition cedrus_write_pred_weight_table :: "h264d_job \<Rightarrow> io_log \<Rightarrow> io_log" where
  "cedrus_write_pred_weight_table job log =
    (let w = dj_pred_weights job;
         log = cedrus_write VE_H264_SHS_WP
           (push_bit 4 (ucast (chroma_log2_weight_denom w) AND 0x7) OR (ucast (luma_log2_weight_denom w) AND 0x7)) log
     in writes ((VE_AVC_SRAM_PORT_OFFSET, push_bit 2 (word_of_nat SRAM_PRED_WEIGHT_TABLE)) #
          map (Pair VE_AVC_SRAM_PORT_DATA) (concat (map (\<lambda>i. weight_words (weight_factors w ! i)) [0..<2]))) log)"

section \<open>A slice\<close>

function skip_bits_loop :: "hw_read \<Rightarrow> int \<Rightarrow> int \<Rightarrow> io_log \<Rightarrow> io_log option" where
  "skip_bits_loop hw num cnt log =
    (if cnt < num
     then (let tmp = min (num - cnt) 32;
               log = cedrus_write VE_H264_TRIGGER_TYPE
                 (VE_H264_TRIGGER_TYPE_FLUSH_BITS OR VE_H264_TRIGGER_TYPE_N_BITS (word_of_int tmp)) log
           in case wait_cleared hw VE_H264_STATUS VE_H264_STATUS_VLD_BUSY log of
                None \<Rightarrow> None
              | Some log \<Rightarrow> skip_bits_loop hw num (cnt + tmp) log)
     else Some log)"
  by pat_completeness auto

termination
  by (relation "measure (\<lambda>(hw, num, cnt, log). nat (num - cnt))") auto

definition cedrus_skip_bits :: "hw_read \<Rightarrow> int \<Rightarrow> io_log \<Rightarrow> io_log option" where
  "cedrus_skip_bits hw num log = skip_bits_loop hw num 0 log"

definition slice_type_code :: "h264_slice_type \<Rightarrow> u32" where
  "slice_type_code t = (case t of SLICE_TYPE_P \<Rightarrow> 0 | SLICE_TYPE_B \<Rightarrow> 1 | SLICE_TYPE_I \<Rightarrow> 2
     | SLICE_TYPE_SP \<Rightarrow> 3 | SLICE_TYPE_SI \<Rightarrow> 4)"

text \<open>\<open>V4L2_H264_CTRL_PRED_WEIGHTS_REQUIRED\<close> of the kernel's interface.\<close>

definition pred_weights_required :: "h264_pps \<Rightarrow> h264_slice_params \<Rightarrow> bool" where
  "pred_weights_required pps params \<longleftrightarrow>
    (PPS_FLAG_WEIGHTED_PRED \<in> pps_flags pps \<and> sl_type params \<in> {SLICE_TYPE_P, SLICE_TYPE_SP}) \<or>
    (pps_weighted_bipred_idc pps = 1 \<and> sl_type params = SLICE_TYPE_B)"

definition flag_bits :: "(bool \<times> u32) list \<Rightarrow> u32" where
  "flag_bits fs = fold (\<lambda>(c, b) v. if c then v OR b else v) fs 0"

definition pps_value :: "h264_pps \<Rightarrow> h264_slice_params \<Rightarrow> u32" where
  "pps_value pps params =
    (push_bit 10 (ucast (sl_num_ref_idx_l0_active_minus1 params) AND 0x1f) OR
     push_bit 5 (ucast (sl_num_ref_idx_l1_active_minus1 params) AND 0x1f) OR
     push_bit 2 (ucast (pps_weighted_bipred_idc pps) AND 0x3)) OR
    flag_bits [
      (PPS_FLAG_ENTROPY_CODING_MODE \<in> pps_flags pps, VE_H264_PPS_ENTROPY_CODING_MODE),
      (PPS_FLAG_WEIGHTED_PRED \<in> pps_flags pps, VE_H264_PPS_WEIGHTED_PRED),
      (PPS_FLAG_CONSTRAINED_INTRA_PRED \<in> pps_flags pps, VE_H264_PPS_CONSTRAINED_INTRA_PRED),
      (PPS_FLAG_TRANSFORM_8X8_MODE \<in> pps_flags pps, VE_H264_PPS_TRANSFORM_8X8_MODE)]"

definition sps_value :: "h264_sps \<Rightarrow> u32" where
  "sps_value sps =
    (push_bit 19 (ucast (sps_chroma_format_idc sps) AND 0x7) OR
     push_bit 8 (ucast (sps_pic_width_in_mbs_minus1 sps) AND 0xff) OR
     (ucast (sps_pic_height_in_map_units_minus1 sps) AND 0xff)) OR
    flag_bits [
      (SPS_FLAG_FRAME_MBS_ONLY \<in> sps_flags sps, VE_H264_SPS_MBS_ONLY),
      (SPS_FLAG_MB_ADAPTIVE_FRAME_FIELD \<in> sps_flags sps, VE_H264_SPS_MB_ADAPTIVE_FRAME_FIELD),
      (SPS_FLAG_DIRECT_8X8_INFERENCE \<in> sps_flags sps, VE_H264_SPS_DIRECT_8X8_INFERENCE)]"

definition shs_value :: "h264d_job \<Rightarrow> bool \<Rightarrow> u32" where
  "shs_value job new_frame =
    (let decode = dj_decode_params job; sps = dj_sps job; params = dj_slice_params job;
         mbaff_pic = (DECODE_PARAM_FLAG_FIELD_PIC \<notin> dec_flags decode \<and>
           SPS_FLAG_MB_ADAPTIVE_FRAME_FIELD \<in> sps_flags sps);
         width = ucast (sps_pic_width_in_mbs_minus1 sps) + 1
     in (push_bit 24 ((sl_first_mb_in_slice params mod width) AND 0xff) OR
         push_bit 16 ((sl_first_mb_in_slice params div width * (if mbaff_pic then 2 else 1)) AND 0xff) OR
         push_bit 8 (slice_type_code (sl_type params) AND 0xf) OR
         (ucast (sl_cabac_init_idc params) AND 0x3)) OR
        flag_bits [
          (dec_nal_ref_idc decode \<noteq> 0, BIT 12),
          (new_frame, VE_H264_SHS_FIRST_SLICE_IN_PIC),
          (DECODE_PARAM_FLAG_FIELD_PIC \<in> dec_flags decode, VE_H264_SHS_FIELD_PIC),
          (DECODE_PARAM_FLAG_BOTTOM_FIELD \<in> dec_flags decode, VE_H264_SHS_BOTTOM_FIELD),
          (SLICE_FLAG_DIRECT_SPATIAL_MV_PRED \<in> sl_flags params, VE_H264_SHS_DIRECT_SPATIAL_MV_PRED)])"

definition shs2_value :: "h264_slice_params \<Rightarrow> u32" where
  "shs2_value params =
    VE_H264_SHS2_NUM_REF_IDX_ACTIVE_OVRD OR
    push_bit 24 (ucast (sl_num_ref_idx_l0_active_minus1 params) AND 0x1f) OR
    push_bit 16 (ucast (sl_num_ref_idx_l1_active_minus1 params) AND 0x1f) OR
    push_bit 8 (ucast (sl_disable_deblocking_filter_idc params) AND 0x3) OR
    push_bit 4 (word_of_int (sl_alpha_c0_offset_div2 params) AND 0xf) OR
    (word_of_int (sl_beta_offset_div2 params) AND 0xf)"

definition shs_qp_value :: "h264_pps \<Rightarrow> h264_slice_params \<Rightarrow> u32" where
  "shs_qp_value pps params =
    (push_bit 16 (word_of_int (pps_second_chroma_qp_index_offset pps) AND 0x3f) OR
     push_bit 8 (word_of_int (pps_chroma_qp_index_offset pps) AND 0x3f) OR
     (word_of_int (pps_pic_init_qp_minus26 pps + 26 + sl_qp_delta params) AND 0x3f)) OR
    flag_bits [(PPS_FLAG_SCALING_MATRIX_PRESENT \<notin> pps_flags pps, VE_H264_SHS_QP_SCALING_MATRIX_DEFAULT)]"

text \<open>\<open>new_frame\<close> is the flag of the framework's context that a slice is the first of its frame.\<close>

definition coded_stream :: "h264d_context \<Rightarrow> pix_format \<Rightarrow> u64 \<Rightarrow> u32 \<Rightarrow> io_log \<Rightarrow> io_log" where
  "coded_stream ctx coded addr len log =
    (let log = writes [(VE_H264_VLD_OFFSET, 0), (VE_H264_VLD_LEN, len * 8),
           (VE_H264_VLD_END, ucast (addr + ucast len)),
           (VE_H264_VLD_ADDR, VE_H264_VLD_ADDR_VAL addr OR VE_H264_VLD_ADDR_FIRST OR
             VE_H264_VLD_ADDR_VALID OR VE_H264_VLD_ADDR_LAST)] log;
         log = (if 2048 < pix_width coded
           then writes [(VE_BUF_CTRL, VE_BUF_CTRL_INTRAPRED_MIXED_RAM OR VE_BUF_CTRL_DBLK_MIXED_RAM),
             (VE_DBLK_DRAM_BUF_ADDR, ucast (deblk_buf_dma ctx)),
             (VE_INTRAPRED_DRAM_BUF_ADDR, ucast (intra_pred_buf_dma ctx))] log
           else cedrus_write VE_BUF_CTRL (VE_BUF_CTRL_INTRAPRED_INT_SRAM OR VE_BUF_CTRL_DBLK_INT_SRAM) log)
     in cedrus_write VE_H264_TRIGGER_TYPE VE_H264_TRIGGER_TYPE_INIT_SWDEC log)"

definition slice_tables :: "h264d_buffer picture_find \<Rightarrow> h264d_pictures \<Rightarrow> h264d_job \<Rightarrow> io_log \<Rightarrow> io_log" where
  "slice_tables lookup pics job log =
    (let params = dj_slice_params job;
         log = (if pred_weights_required (dj_pps job) params then cedrus_write_pred_weight_table job log else log);
         log = (if sl_type params = SLICE_TYPE_P \<or> sl_type params = SLICE_TYPE_SP \<or> sl_type params = SLICE_TYPE_B
           then cedrus_write_ref_list0 lookup pics job log else log)
     in if sl_type params = SLICE_TYPE_B then cedrus_write_ref_list1 lookup pics job log else log)"

definition slice_registers :: "hw_read \<Rightarrow> h264d_job \<Rightarrow> bool \<Rightarrow> io_log \<Rightarrow> io_log" where
  "slice_registers hw job new_frame log =
    (let params = dj_slice_params job; pps = dj_pps job;
         log = writes [(VE_H264_PPS, pps_value pps params), (VE_H264_SPS, sps_value (dj_sps job)),
           (VE_H264_SHS, shs_value job new_frame), (VE_H264_SHS2, shs2_value params),
           (VE_H264_SHS_QP, shs_qp_value pps params)] log
     in writes [(VE_H264_STATUS, cedrus_read hw VE_H264_STATUS log),
          (VE_H264_CTRL, VE_H264_CTRL_SLICE_DECODE_INT OR VE_H264_CTRL_DECODE_ERR_INT OR
            VE_H264_CTRL_VLD_DATA_REQ_INT)] log)"

definition cedrus_set_params :: "hw_read \<Rightarrow> h264d_buffer picture_find \<Rightarrow> h264d_context \<Rightarrow> pix_format \<Rightarrow>
    u64 \<times> u32 \<Rightarrow> h264d_pictures \<Rightarrow> h264d_job \<Rightarrow> bool \<Rightarrow> io_log \<Rightarrow> io_log option" where
  "cedrus_set_params hw lookup ctx coded stream pics job new_frame log =
    map_option (\<lambda>log. slice_registers hw job new_frame (slice_tables lookup pics job log))
      (cedrus_skip_bits hw (sint (sl_header_bit_size (dj_slice_params job)))
        (coded_stream ctx coded (fst stream) (snd stream) log))"

definition h264d_job_configure :: "hw_read \<Rightarrow> h264d_buffer picture_find \<Rightarrow> dma_alloc \<Rightarrow> h264d_context \<Rightarrow>
    pix_format \<Rightarrow> pix_format \<Rightarrow> u64 \<times> u32 \<Rightarrow> h264d_job \<Rightarrow> bool \<Rightarrow> nat \<Rightarrow> h264d_pictures \<Rightarrow> dma_heap \<Rightarrow> io_log \<Rightarrow>
    (errno option \<times> h264d_pictures \<times> dma_heap \<times> io_log) option" where
  "h264d_job_configure hw lookup alloc ctx coded pix stream job new_frame cur pics heap log =
    (let log = writes [(VE_H264_SDROT_CTRL, 0), (VE_H264_EXTRA_BUFFER1, ucast (pic_info_buf_dma ctx)),
           (VE_H264_EXTRA_BUFFER2, ucast (neighbor_info_buf_dma ctx))] log;
         log = cedrus_write_scaling_lists job log
     in case cedrus_write_frame_list lookup alloc coded pix job cur pics heap log of
          (Some e, pics, heap, log) \<Rightarrow> Some (Some e, pics, heap, log)
        | (None, pics, heap, log) \<Rightarrow>
            map_option (\<lambda>log. (None, pics, heap, log))
              (cedrus_set_params hw lookup ctx coded stream pics job new_frame log))"

definition h264d_job_trigger :: "io_log \<Rightarrow> io_log" where
  "h264d_job_trigger log = cedrus_write VE_H264_TRIGGER_TYPE VE_H264_TRIGGER_TYPE_AVC_SLICE_DECODE log"

section \<open>Interrupts\<close>

definition h264d_irq_status :: "hw_read \<Rightarrow> io_log \<Rightarrow> cedrus_irq_status" where
  "h264d_irq_status hw log =
    (let status = cedrus_read hw VE_H264_STATUS log AND VE_H264_STATUS_INT_MASK
     in if status = 0 then CEDRUS_IRQ_NONE
        else if status AND VE_H264_CTRL_SLICE_DECODE_INT = 0 \<or> status AND VE_H264_STATUS_VLD_DATA_REQ_INT \<noteq> 0 \<or>
          status AND VE_H264_STATUS_DECODE_ERR_INT \<noteq> 0 then CEDRUS_IRQ_ERROR
        else CEDRUS_IRQ_SUCCESS)"

definition h264d_irq_clear :: "io_log \<Rightarrow> io_log" where
  "h264d_irq_clear log = cedrus_write VE_H264_STATUS VE_H264_STATUS_INT_MASK log"

definition h264d_irq_disable :: "hw_read \<Rightarrow> io_log \<Rightarrow> io_log" where
  "h264d_irq_disable hw log =
    cedrus_write VE_H264_CTRL (cedrus_read hw VE_H264_CTRL log AND NOT VE_H264_CTRL_INT_MASK) log"

section \<open>The contents of the engine's memory\<close>

interpretation avc: sram_port VE_AVC_SRAM_PORT_OFFSET VE_AVC_SRAM_PORT_DATA
  by unfold_locales (simp add: hdr_simps)

lemma not_avc_port [simp]:
  "VE_H264_TRIGGER_TYPE \<noteq> VE_AVC_SRAM_PORT_OFFSET" "VE_H264_TRIGGER_TYPE \<noteq> VE_AVC_SRAM_PORT_DATA"
  "VE_H264_SHS_WP \<noteq> VE_AVC_SRAM_PORT_OFFSET" "VE_H264_SHS_WP \<noteq> VE_AVC_SRAM_PORT_DATA"
  "VE_H264_VLD_OFFSET \<noteq> VE_AVC_SRAM_PORT_OFFSET" "VE_H264_VLD_OFFSET \<noteq> VE_AVC_SRAM_PORT_DATA"
  "VE_H264_VLD_LEN \<noteq> VE_AVC_SRAM_PORT_OFFSET" "VE_H264_VLD_LEN \<noteq> VE_AVC_SRAM_PORT_DATA"
  "VE_H264_VLD_END \<noteq> VE_AVC_SRAM_PORT_OFFSET" "VE_H264_VLD_END \<noteq> VE_AVC_SRAM_PORT_DATA"
  "VE_H264_VLD_ADDR \<noteq> VE_AVC_SRAM_PORT_OFFSET" "VE_H264_VLD_ADDR \<noteq> VE_AVC_SRAM_PORT_DATA"
  "VE_BUF_CTRL \<noteq> VE_AVC_SRAM_PORT_OFFSET" "VE_BUF_CTRL \<noteq> VE_AVC_SRAM_PORT_DATA"
  "VE_DBLK_DRAM_BUF_ADDR \<noteq> VE_AVC_SRAM_PORT_OFFSET" "VE_DBLK_DRAM_BUF_ADDR \<noteq> VE_AVC_SRAM_PORT_DATA"
  "VE_INTRAPRED_DRAM_BUF_ADDR \<noteq> VE_AVC_SRAM_PORT_OFFSET" "VE_INTRAPRED_DRAM_BUF_ADDR \<noteq> VE_AVC_SRAM_PORT_DATA"
  "VE_H264_PPS \<noteq> VE_AVC_SRAM_PORT_OFFSET" "VE_H264_PPS \<noteq> VE_AVC_SRAM_PORT_DATA"
  "VE_H264_SPS \<noteq> VE_AVC_SRAM_PORT_OFFSET" "VE_H264_SPS \<noteq> VE_AVC_SRAM_PORT_DATA"
  "VE_H264_SHS \<noteq> VE_AVC_SRAM_PORT_OFFSET" "VE_H264_SHS \<noteq> VE_AVC_SRAM_PORT_DATA"
  "VE_H264_SHS2 \<noteq> VE_AVC_SRAM_PORT_OFFSET" "VE_H264_SHS2 \<noteq> VE_AVC_SRAM_PORT_DATA"
  "VE_H264_SHS_QP \<noteq> VE_AVC_SRAM_PORT_OFFSET" "VE_H264_SHS_QP \<noteq> VE_AVC_SRAM_PORT_DATA"
  "VE_H264_STATUS \<noteq> VE_AVC_SRAM_PORT_OFFSET" "VE_H264_STATUS \<noteq> VE_AVC_SRAM_PORT_DATA"
  "VE_H264_CTRL \<noteq> VE_AVC_SRAM_PORT_OFFSET" "VE_H264_CTRL \<noteq> VE_AVC_SRAM_PORT_DATA"
  "VE_H264_SDROT_CTRL \<noteq> VE_AVC_SRAM_PORT_OFFSET" "VE_H264_SDROT_CTRL \<noteq> VE_AVC_SRAM_PORT_DATA"
  "VE_H264_EXTRA_BUFFER1 \<noteq> VE_AVC_SRAM_PORT_OFFSET" "VE_H264_EXTRA_BUFFER1 \<noteq> VE_AVC_SRAM_PORT_DATA"
  "VE_H264_EXTRA_BUFFER2 \<noteq> VE_AVC_SRAM_PORT_OFFSET" "VE_H264_EXTRA_BUFFER2 \<noteq> VE_AVC_SRAM_PORT_DATA"
  "VE_H264_OUTPUT_FRAME_IDX \<noteq> VE_AVC_SRAM_PORT_OFFSET" "VE_H264_OUTPUT_FRAME_IDX \<noteq> VE_AVC_SRAM_PORT_DATA"
  by (simp_all add: hdr_simps)

definition avc_mem :: "io_log \<Rightarrow> nat \<Rightarrow> u32" where
  "avc_mem log = snd (sram VE_AVC_SRAM_PORT_OFFSET VE_AVC_SRAM_PORT_DATA log)"

lemma avc_mem_other [simp]:
  "r \<noteq> VE_AVC_SRAM_PORT_OFFSET \<Longrightarrow> r \<noteq> VE_AVC_SRAM_PORT_DATA \<Longrightarrow> avc_mem (cedrus_write r v log) = avc_mem log"
  by (simp add: avc_mem_def)

lemma avc_mem_write_sram:
  assumes "off < 0x1000"
  shows "avc_mem (cedrus_h264_write_sram off ws log) = put_block off ws (avc_mem log)"
proof -
  have "unat (push_bit 2 (word_of_nat off) :: u32) = 4 * off"
    using assms by (simp add: push_bit_eq_mult unat_word_ariths unat_of_nat take_bit_nat_eq_self mult.commute)
  then show ?thesis by (simp add: avc_mem_def cedrus_h264_write_sram_def avc.sram_put)
qed

lemma skip_bits_loop_mem:
  "skip_bits_loop hw num cnt log = Some log' \<Longrightarrow> avc_mem log' = avc_mem log"
proof (induction hw num cnt log rule: skip_bits_loop.induct)
  case (1 hw num cnt log)
  show ?case
  proof (cases "cnt < num")
    case True
    let ?l = "cedrus_write VE_H264_TRIGGER_TYPE (VE_H264_TRIGGER_TYPE_FLUSH_BITS OR
      VE_H264_TRIGGER_TYPE_N_BITS (word_of_int (min (num - cnt) 32))) log"
    obtain log1 where w: "wait_cleared hw VE_H264_STATUS VE_H264_STATUS_VLD_BUSY ?l = Some log1"
      "skip_bits_loop hw num (cnt + min (num - cnt) 32) log1 = Some log'"
      using 1(2) True by (auto simp: skip_bits_loop.simps[of hw num cnt log] Let_def split: option.splits)
    obtain n where "log1 = ?l @ replicate n (Delay 1)" using wait_cleared_Some[OF w(1)] by blast
    then have "avc_mem log1 = avc_mem log" by (simp add: avc_mem_def del: One_nat_def)
    then show ?thesis using 1(1)[OF True refl refl w(1,2)] by simp
  next
    case False
    then show ?thesis using 1(2) by (simp add: skip_bits_loop.simps[of hw num cnt log])
  qed
qed

lemma coded_stream_mem: "avc_mem (coded_stream ctx coded addr len log) = avc_mem log"
  by (simp add: coded_stream_def writes_Cons Let_def)

lemma slice_registers_mem: "avc_mem (slice_registers hw job nf log) = avc_mem log"
  by (simp add: slice_registers_def writes_Cons Let_def)

lemma pred_weight_mem: "192 \<le> i \<Longrightarrow> avc_mem (cedrus_write_pred_weight_table job log) i = avc_mem log i"
proof -
  let ?ws = "concat (map (\<lambda>i. weight_words (weight_factors (dj_pred_weights job) ! i)) [0..<2])"
  have l: "length ?ws = 192"
    by (simp add: weight_words_def length_concat comp_def sum_list_triv numeral_2_eq_2 upt_rec)
  have "avc_mem (cedrus_write_pred_weight_table job log) = put_block 0 ?ws (avc_mem log)"
    unfolding cedrus_write_pred_weight_table_def Let_def avc_mem_def
    by (subst avc.sram_put[where at = 0]) (simp_all add: SRAM_PRED_WEIGHT_TABLE_def)
  then show "192 \<le> i \<Longrightarrow> ?thesis" by (simp only: put_block_def l) simp
qed

section \<open>The frame list\<close>

lemma length_ref_pic_words [simp]: "length (ref_pic_words r) = 8"
  by (simp add: ref_pic_words_def)

lemma length_concat_ref_pics [simp]: "length (concat (map ref_pic_words rs)) = 8 * length rs"
  by (induction rs) simp_all

lemma nth_concat_ref_pics:
  "p < length rs \<Longrightarrow> k < 8 \<Longrightarrow> concat (map ref_pic_words rs) ! (8 * p + k) = ref_pic_words (rs ! p) ! k"
proof (induction rs arbitrary: p)
  case (Cons r rs)
  then show ?case by (cases p) (simp_all add: nth_append)
qed simp

text \<open>What the entry of a frame says, all but the reserved word.\<close>

definition ref_words :: "pix_format \<Rightarrow> h264d_buffer picture \<Rightarrow> u32 \<Rightarrow> u32 \<Rightarrow> u32 list" where
  "ref_words pix p top_poc bottom_poc =
    (let (luma, chroma) = cedrus_buffer_picture_dma pix (pic_addr p);
         (mv_top, mv_bottom) = mv_col_buf_addrs (pic_engine p)
     in [top_poc, bottom_poc, push_bit 8 (buf_pic_type (pic_engine p)),
       ucast luma, ucast chroma, ucast mv_top, ucast mv_bottom])"

lemma fill_words:
  "k < 7 \<Longrightarrow> ref_pic_words (cedrus_fill_ref_pic pix p t b x) ! k = ref_words pix p t b ! k"
  by (auto simp: ref_pic_words_def cedrus_fill_ref_pic_def ref_words_def nth_Cons split: prod.split nat.split)

text \<open>The buffer of an entry that is valid and whose frame is still there.\<close>

definition dpb_found :: "h264d_buffer picture_find \<Rightarrow> h264d_pictures \<Rightarrow> h264_dpb_entry \<Rightarrow> nat option" where
  "dpb_found lookup pics e =
    (if DPB_ENTRY_FLAG_VALID \<in> dpb_flags e then lookup pics (reference_ts e) else None)"

definition position_of :: "h264d_pictures \<Rightarrow> nat \<Rightarrow> nat" where
  "position_of pics i = buf_position (pic_engine (pics ! i))"

lemma frame_list_loop_simps [simp]:
  "frame_list_loop lookup pix pics ts [] = (0, None, replicate FRAME_NUM zero_ref_pic)"
  "frame_list_loop lookup pix pics ts (es @ [e]) =
    frame_list_entry lookup pix pics ts e (frame_list_loop lookup pix pics ts es)"
  by (simp_all add: frame_list_loop_def)

lemma frame_list_entry_alt:
  "frame_list_entry lookup pix pics ts e (used, out, rs) = (case dpb_found lookup pics e of
     None \<Rightarrow> (used, out, rs)
   | Some i \<Rightarrow> (used OR BIT (position_of pics i),
       if ts = reference_ts e then Some (position_of pics i) else out,
       if ts \<noteq> reference_ts e \<and> DPB_ENTRY_FLAG_ACTIVE \<in> dpb_flags e
       then rs[position_of pics i := cedrus_fill_ref_pic pix (pics ! i) (dpb_top_poc e) (dpb_bottom_poc e)
         (rs ! position_of pics i)] else rs))"
  by (simp add: frame_list_entry_def dpb_found_def position_of_def Let_def split: option.split)

lemma loop_length: "length (snd (snd (frame_list_loop lookup pix pics ts es))) = FRAME_NUM"
proof (induction es rule: rev_induct)
  case (snoc e es)
  obtain u out rs where "frame_list_loop lookup pix pics ts es = (u, out, rs)" by (metis surj_pair)
  then show ?case using snoc by (simp add: frame_list_entry_alt split: option.split)
qed simp

lemma bit_BIT64: "bit (BIT k :: u64) n \<longleftrightarrow> n = k \<and> k < 64"
  by (auto simp: BIT_def bit_push_bit_iff bit_1_iff simp del: push_bit_of_1)

lemma loop_used:
  "bit (fst (frame_list_loop lookup pix pics ts es)) p \<longleftrightarrow>
    p < 64 \<and> (\<exists>e\<in>set es. \<exists>i. dpb_found lookup pics e = Some i \<and> position_of pics i = p)"
proof (induction es rule: rev_induct)
  case (snoc e es)
  obtain u out rs where l: "frame_list_loop lookup pix pics ts es = (u, out, rs)" by (metis surj_pair)
  show ?case
    using snoc by (cases "dpb_found lookup pics e") (auto simp: l frame_list_entry_alt bit_or_iff bit_BIT64)
qed simp

lemma loop_output:
  assumes "lookup pics ts = Some c"
  shows "fst (snd (frame_list_loop lookup pix pics ts es)) =
    (if \<exists>e\<in>set es. DPB_ENTRY_FLAG_VALID \<in> dpb_flags e \<and> reference_ts e = ts
     then Some (position_of pics c) else None)"
proof (induction es rule: rev_induct)
  case (snoc e es)
  obtain u out rs where l: "frame_list_loop lookup pix pics ts es = (u, out, rs)" by (metis surj_pair)
  show ?case
    using snoc assms by (auto simp: l frame_list_entry_alt dpb_found_def split: option.split)
qed simp

lemma loop_slot:
  assumes "e \<in> set es" "dpb_found lookup pics e = Some i" "reference_ts e \<noteq> ts"
    "DPB_ENTRY_FLAG_ACTIVE \<in> dpb_flags e" "position_of pics i < FRAME_NUM"
    "\<And>e' j. e' \<in> set es \<Longrightarrow> dpb_found lookup pics e' = Some j \<Longrightarrow> position_of pics j = position_of pics i \<Longrightarrow> e' = e"
  shows "\<exists>x. snd (snd (frame_list_loop lookup pix pics ts es)) ! position_of pics i =
    cedrus_fill_ref_pic pix (pics ! i) (dpb_top_poc e) (dpb_bottom_poc e) x"
  using assms(1,6)
proof (induction es rule: rev_induct)
  case (snoc d es)
  obtain u out rs where l: "frame_list_loop lookup pix pics ts es = (u, out, rs)" by (metis surj_pair)
  have len: "length rs = FRAME_NUM" using loop_length[of lookup pix pics ts es] by (simp add: l)
  show ?case
  proof (cases "d = e")
    case True
    then show ?thesis using assms(2-5) len by (auto simp: l frame_list_entry_alt)
  next
    case False
    then have "\<exists>x. rs ! position_of pics i = cedrus_fill_ref_pic pix (pics ! i) (dpb_top_poc e) (dpb_bottom_poc e) x"
      using snoc.IH snoc.prems by (auto simp: l)
    moreover have "position_of pics j \<noteq> position_of pics i" if "dpb_found lookup pics d = Some j" for j
      using snoc.prems(2)[of d j] that False by auto
    ultimately show ?thesis by (auto simp: l frame_list_entry_alt split: option.split)
  qed
qed simp

end
