(* ===== verification/H264_Dec_Session.thy ===== *)
theory H264_Dec_Session
  imports Cedrus_Dec_H264
begin

text \<open>Sessions of the H.264 decoder: which frames the engine's tables may name after any number of
  jobs, that every reference of a slice leads the engine to the buffer with the timestamp the
  application gave, the memory of a context, and the wait for the hardware.\<close>

section \<open>Sessions\<close>

text \<open>What the decoder relies on: the timestamp of the current picture is its own, and the decoded
  picture buffer holds at most 16 frames, each once, out of the frames it may hold (\<open>live\<close>).\<close>

definition dpb_refs :: "h264d_buffer picture_find \<Rightarrow> h264d_pictures \<Rightarrow> h264d_job \<Rightarrow> nat set" where
  "dpb_refs lookup pics job = {i. \<exists>e\<in>set (dec_dpb (dj_decode_params job)). dpb_found lookup pics e = Some i}"

definition h264d_conforming :: "h264d_buffer picture_find \<Rightarrow> h264d_pictures \<Rightarrow> nat set \<Rightarrow> h264d_job \<Rightarrow> nat \<Rightarrow> bool" where
  "h264d_conforming lookup pics live job cur \<longleftrightarrow>
    cur < length pics \<and> lookup pics (pic_timestamp (pics ! cur)) = Some cur \<and>
    length (dec_dpb (dj_decode_params job)) \<le> 16 \<and> dpb_refs lookup pics job \<subseteq> live \<and>
    (\<forall>e\<in>set (dec_dpb (dj_decode_params job)). \<forall>e'\<in>set (dec_dpb (dj_decode_params job)).
      dpb_found lookup pics e \<noteq> None \<and> dpb_found lookup pics e = dpb_found lookup pics e' \<longrightarrow> e = e')"

text \<open>A session of the decoder, from the memory \<open>base\<close> the setup of the context left: buffers start
  without motion vectors; queueing a buffer gives it a new timestamp (and, imported from another
  device, perhaps a new address); after a job the frames that may be referenced are those of its
  decoded picture buffer and the frame it decoded.\<close>

inductive h264d_session :: "hw_read \<Rightarrow> h264d_buffer picture_find \<Rightarrow> dma_alloc \<Rightarrow> h264d_context \<Rightarrow> pix_format \<Rightarrow>
    pix_format \<Rightarrow> dma_heap \<Rightarrow> h264d_pictures \<Rightarrow> nat set \<Rightarrow> dma_heap \<Rightarrow> bool"
    for hw lookup alloc ctx coded pix base where
  start: "\<forall>p\<in>set pics. mv_col_buf_size (pic_engine p) = 0
   \<Longrightarrow> h264d_session hw lookup alloc ctx coded pix base pics {} base"
| queue: "\<lbrakk>h264d_session hw lookup alloc ctx coded pix base pics live heap;
     length pics' = length pics; map pic_engine pics' = map pic_engine pics\<rbrakk>
   \<Longrightarrow> h264d_session hw lookup alloc ctx coded pix base pics' live heap"
| job: "\<lbrakk>h264d_session hw lookup alloc ctx coded pix base pics live heap;
     h264d_conforming lookup pics live job cur;
     h264d_job_configure hw lookup alloc ctx coded pix stream job new_frame cur pics heap log =
       Some (None, pics', heap', log')\<rbrakk>
   \<Longrightarrow> h264d_session hw lookup alloc ctx coded pix base pics' (insert cur (dpb_refs lookup pics job)) heap'"
| failed: "\<lbrakk>h264d_session hw lookup alloc ctx coded pix base pics live heap;
     h264d_conforming lookup pics live job cur;
     h264d_job_configure hw lookup alloc ctx coded pix stream job new_frame cur pics heap log =
       Some (Some e, pics', heap', log')\<rbrakk>
   \<Longrightarrow> h264d_session hw lookup alloc ctx coded pix base pics' (live - {cur}) heap'"

definition positions_ok :: "h264d_pictures \<Rightarrow> nat set \<Rightarrow> bool" where
  "positions_ok pics live \<longleftrightarrow> inj_on (position_of pics) live \<and> live \<subseteq> {..<length pics} \<and>
    (\<forall>i\<in>live. position_of pics i < FRAME_NUM)"

text \<open>The position the current picture gets.\<close>

definition chosen_position :: "h264d_buffer picture_find \<Rightarrow> pix_format \<Rightarrow> h264d_pictures \<Rightarrow> h264d_job \<Rightarrow> nat \<Rightarrow> nat" where
  "chosen_position lookup pix pics job cur =
    (let (used, out, rs) = frame_list_loop lookup pix pics (pic_timestamp (pics ! cur)) (dec_dpb (dj_decode_params job))
     in case out of Some p \<Rightarrow> p | None \<Rightarrow> find_first_zero_bit used FRAME_NUM)"

lemma first_zero_bit:
  assumes "p < n" "\<not> bit w p"
  shows "find_first_zero_bit w n < n \<and> \<not> bit w (find_first_zero_bit w n)"
proof -
  have "List.find (\<lambda>i. \<not> bit w i) [0..<n] \<noteq> None" using assms by (auto simp: find_None_iff)
  then obtain q where q: "List.find (\<lambda>i. \<not> bit w i) [0..<n] = Some q" by blast
  then have "q < n" "\<not> bit w q" by (auto simp: find_Some_iff)
  then show ?thesis using q by (simp add: find_first_zero_bit_def)
qed

lemma dpb_refs_card:
  "finite (dpb_refs lookup pics job) \<and>
   card (dpb_refs lookup pics job) \<le> length (dec_dpb (dj_decode_params job))"
proof -
  let ?es = "dec_dpb (dj_decode_params job)"
  have s: "dpb_refs lookup pics job \<subseteq> (the \<circ> dpb_found lookup pics) ` set ?es"
    by (force simp: dpb_refs_def)
  moreover have "card ((the \<circ> dpb_found lookup pics) ` set ?es) \<le> length ?es"
    using card_image_le[of "set ?es"] card_length[of ?es] le_trans by blast
  ultimately show ?thesis by (meson List.finite_set card_mono finite_imageI finite_subset le_trans)
qed

lemma chosen_position_free:
  assumes "positions_ok pics live" "h264d_conforming lookup pics live job cur" "find_contract lookup"
  shows "chosen_position lookup pix pics job cur < FRAME_NUM"
    "i \<in> dpb_refs lookup pics job \<Longrightarrow> i \<noteq> cur \<Longrightarrow> position_of pics i \<noteq> chosen_position lookup pix pics job cur"
proof -
  let ?ts = "pic_timestamp (pics ! cur)" and ?es = "dec_dpb (dj_decode_params job)"
  obtain used out rs where l: "frame_list_loop lookup pix pics ?ts ?es = (used, out, rs)" by (metis surj_pair)
  note c = assms(2)[unfolded h264d_conforming_def]
  have refs: "dpb_refs lookup pics job \<subseteq> live" using c by blast
  have out: "out = (if \<exists>e\<in>set ?es. DPB_ENTRY_FLAG_VALID \<in> dpb_flags e \<and> reference_ts e = ?ts
      then Some (position_of pics cur) else None)"
    using loop_output[of lookup pics ?ts cur pix ?es] c l by simp
  have used: "bit used p \<longleftrightarrow> p < 64 \<and> p \<in> position_of pics ` dpb_refs lookup pics job" for p
    using loop_used[of lookup pix pics ?ts ?es p] l by (auto simp: dpb_refs_def)
  have "chosen_position lookup pix pics job cur < FRAME_NUM \<and>
    (i \<in> dpb_refs lookup pics job \<longrightarrow> i \<noteq> cur \<longrightarrow> position_of pics i \<noteq> chosen_position lookup pix pics job cur)"
  proof (cases "\<exists>e\<in>set ?es. DPB_ENTRY_FLAG_VALID \<in> dpb_flags e \<and> reference_ts e = ?ts")
    case True
    then obtain e where e: "e \<in> set ?es" "DPB_ENTRY_FLAG_VALID \<in> dpb_flags e" "reference_ts e = ?ts" by blast
    have "lookup pics ?ts = Some cur" using c by blast
    then have "dpb_found lookup pics e = Some cur" using e by (simp add: dpb_found_def)
    then have "cur \<in> dpb_refs lookup pics job" using e(1) by (auto simp only: dpb_refs_def)
    then have live: "cur \<in> live" using refs by blast
    have cp: "chosen_position lookup pix pics job cur = position_of pics cur"
      using True out l by (simp add: chosen_position_def)
    have inj: "inj_on (position_of pics) live" and lt: "\<forall>i\<in>live. position_of pics i < FRAME_NUM"
      using assms(1) by (simp_all add: positions_ok_def)
    have "position_of pics i \<noteq> position_of pics cur" if "i \<in> dpb_refs lookup pics job" "i \<noteq> cur"
      using inj_onD[OF inj _ _ live, of i] that refs by blast
    then show ?thesis unfolding cp using lt live by blast
  next
    case False
    have "card (position_of pics ` dpb_refs lookup pics job) \<le> 16"
      using dpb_refs_card[of lookup pics job] card_image_le[of "dpb_refs lookup pics job" "position_of pics"] c
      by linarith
    then have "\<not> {..<FRAME_NUM} \<subseteq> position_of pics ` dpb_refs lookup pics job"
      using card_mono[of "position_of pics ` dpb_refs lookup pics job" "{..<FRAME_NUM}"]
        dpb_refs_card[of lookup pics job] by (auto simp: FRAME_NUM_def)
    then obtain p where "p < FRAME_NUM" "\<not> bit used p" using used by auto
    note f = first_zero_bit[OF this]
    then have free: "find_first_zero_bit used FRAME_NUM \<notin> position_of pics ` dpb_refs lookup pics job"
      using used by (auto simp: FRAME_NUM_def)
    have cp: "chosen_position lookup pix pics job cur = find_first_zero_bit used FRAME_NUM"
      unfolding chosen_position_def Let_def l out if_not_P[OF False] prod.case option.case ..
    have "position_of pics i \<noteq> find_first_zero_bit used FRAME_NUM" if "i \<in> dpb_refs lookup pics job"
      using imageI[OF that, of "position_of pics"] free by metis
    then show ?thesis unfolding cp using f by simp
  qed
  then show "chosen_position lookup pix pics job cur < FRAME_NUM"
    "i \<in> dpb_refs lookup pics job \<Longrightarrow> i \<noteq> cur \<Longrightarrow> position_of pics i \<noteq> chosen_position lookup pix pics job cur"
    by auto
qed

lemma write_frame_list_result:
  assumes "cedrus_write_frame_list lookup alloc coded pix job cur pics heap log = (ret, pics', heap', log')"
    "cur < length pics"
  shows "length pics' = length pics" "i \<noteq> cur \<Longrightarrow> pics' ! i = pics ! i"
    "position_of pics' cur = chosen_position lookup pix pics job cur"
    "ret = None \<Longrightarrow> avc_mem log' = put_block SRAM_FRAMEBUFFER_LIST (concat (map ref_pic_words
       ((snd (snd (frame_list_loop lookup pix pics (pic_timestamp (pics ! cur)) (dec_dpb (dj_decode_params job)))))
        [chosen_position lookup pix pics job cur := cedrus_fill_ref_pic pix (pics' ! cur)
          (dec_top_poc (dj_decode_params job)) (dec_bottom_poc (dj_decode_params job))
          (snd (snd (frame_list_loop lookup pix pics (pic_timestamp (pics ! cur)) (dec_dpb (dj_decode_params job)))) !
            chosen_position lookup pix pics job cur)]))) (avc_mem log)"
    "ret = None \<Longrightarrow> last_write VE_H264_OUTPUT_FRAME_IDX log' =
      Some (word_of_nat (chosen_position lookup pix pics job cur))"
proof -
  obtain used out rs where l: "frame_list_loop lookup pix pics (pic_timestamp (pics ! cur))
      (dec_dpb (dj_decode_params job)) = (used, out, rs)" by (metis surj_pair)
  have p: "(case out of Some p \<Rightarrow> p | None \<Rightarrow> find_first_zero_bit used FRAME_NUM) =
      chosen_position lookup pix pics job cur" by (simp add: chosen_position_def l)
  define pics1 where "pics1 = pics[cur := (pics ! cur)\<lparr>pic_engine :=
    (pic_engine (pics ! cur))\<lparr>buf_position := chosen_position lookup pix pics job cur\<rparr>\<rparr>]"
  note d = assms(1)[unfolded cedrus_write_frame_list_def Let_def l prod.case p, folded pics1_def]
  have p1: "length pics1 = length pics" "\<And>i. i \<noteq> cur \<Longrightarrow> pics1 ! i = pics ! i"
    "position_of pics1 cur = chosen_position lookup pix pics job cur"
    using assms(2) by (simp_all add: pics1_def position_of_def)
  have s: "SRAM_FRAMEBUFFER_LIST < 0x1000" by (simp add: hdr_simps)
  have "length pics' = length pics \<and> (\<forall>i. i \<noteq> cur \<longrightarrow> pics' ! i = pics ! i) \<and>
    position_of pics' cur = chosen_position lookup pix pics job cur \<and>
    (ret = None \<longrightarrow> avc_mem log' = put_block SRAM_FRAMEBUFFER_LIST (concat (map ref_pic_words
       (rs[chosen_position lookup pix pics job cur := cedrus_fill_ref_pic pix (pics' ! cur)
          (dec_top_poc (dj_decode_params job)) (dec_bottom_poc (dj_decode_params job))
          (rs ! chosen_position lookup pix pics job cur)]))) (avc_mem log) \<and>
      last_write VE_H264_OUTPUT_FRAME_IDX log' = Some (word_of_nat (chosen_position lookup pix pics job cur)))"
  proof (cases "if mv_col_buf_size (pic_engine (pics1 ! cur)) \<noteq> 0
      then Some (mv_col_buf_dma (pic_engine (pics1 ! cur)), mv_col_buf_size (pic_engine (pics1 ! cur)), heap)
      else map_option (\<lambda>addr. (addr, mv_col_field_size coded (dj_sps job) * 2,
        (addr, mv_col_field_size coded (dj_sps job) * 2) # heap)) (alloc heap (mv_col_field_size coded (dj_sps job) * 2))")
    case None
    then show ?thesis using d p1 by (auto simp del: if_split)
  next
    case (Some mv)
    then show ?thesis
      using d p1 assms(2) avc_mem_write_sram[OF s]
      by (cases mv) (auto simp del: if_split simp: position_of_def)
  qed
  then show "length pics' = length pics" "i \<noteq> cur \<Longrightarrow> pics' ! i = pics ! i"
    "position_of pics' cur = chosen_position lookup pix pics job cur"
    "ret = None \<Longrightarrow> avc_mem log' = put_block SRAM_FRAMEBUFFER_LIST (concat (map ref_pic_words
       ((snd (snd (frame_list_loop lookup pix pics (pic_timestamp (pics ! cur)) (dec_dpb (dj_decode_params job)))))
        [chosen_position lookup pix pics job cur := cedrus_fill_ref_pic pix (pics' ! cur)
          (dec_top_poc (dj_decode_params job)) (dec_bottom_poc (dj_decode_params job))
          (snd (snd (frame_list_loop lookup pix pics (pic_timestamp (pics ! cur)) (dec_dpb (dj_decode_params job)))) !
            chosen_position lookup pix pics job cur)]))) (avc_mem log)"
    "ret = None \<Longrightarrow> last_write VE_H264_OUTPUT_FRAME_IDX log' =
      Some (word_of_nat (chosen_position lookup pix pics job cur))"
    by (simp_all add: l)
qed

lemma job_configure_cases:
  assumes "h264d_job_configure hw lookup alloc ctx coded pix stream job new_frame cur pics heap log =
    Some (ret, pics', heap', log')"
  obtains log1 log2 where
    "log1 = cedrus_write_scaling_lists job (writes [(VE_H264_SDROT_CTRL, 0),
       (VE_H264_EXTRA_BUFFER1, ucast (pic_info_buf_dma ctx)),
       (VE_H264_EXTRA_BUFFER2, ucast (neighbor_info_buf_dma ctx))] log)"
    "cedrus_write_frame_list lookup alloc coded pix job cur pics heap log1 = (ret, pics', heap', log2)"
    "ret = None \<Longrightarrow> cedrus_set_params hw lookup ctx coded stream pics' job new_frame log2 = Some log'"
  using assms that by (auto simp: h264d_job_configure_def Let_def split: prod.splits option.splits)

lemma session_positions:
  assumes "h264d_session hw lookup alloc ctx coded pix base pics live heap" "find_contract lookup"
  shows "positions_ok pics live"
  using assms(1)
proof induction
  case (start pics)
  then show ?case by (simp add: positions_ok_def)
next
  case (queue pics live heap pics')
  have "i < length pics \<Longrightarrow> pic_engine (pics' ! i) = pic_engine (pics ! i)" for i
    using queue.hyps(2,3) by (metis nth_map)
  then have "position_of pics' i = position_of pics i" if "i < length pics" for i
    using that by (simp add: position_of_def)
  then show ?case using queue.IH queue.hyps(2) by (auto simp: positions_ok_def inj_on_def subset_iff)
next
  case (job pics live heap j cur stream nf log pics' heap' log')
  obtain log1 log2 where w: "cedrus_write_frame_list lookup alloc coded pix j cur pics heap log1 = (None, pics', heap', log2)"
    using job_configure_cases[OF job.hyps(3)] by metis
  have c: "cur < length pics" "dpb_refs lookup pics j \<subseteq> live"
    using job.hyps(2) by (auto simp: h264d_conforming_def)
  note r = write_frame_list_result[OF w c(1)]
  note f = chosen_position_free[OF job.IH job.hyps(2) assms(2), where pix = pix]
  have "position_of pics' i = position_of pics i" if "i \<noteq> cur" for i
    using r(2)[OF that] by (simp add: position_of_def)
  then have "inj_on (position_of pics') (insert cur (dpb_refs lookup pics j))"
    using job.IH f(2) r(3) c(2) by (auto simp: positions_ok_def inj_on_def) (metis subsetD)+
  then show ?case
    using job.IH f(1) r(1,3) c \<open>\<And>i. i \<noteq> cur \<Longrightarrow> position_of pics' i = position_of pics i\<close>
    by (auto simp: positions_ok_def) (metis subsetD)
next
  case (failed pics live heap j cur stream nf log e pics' heap' log')
  obtain log1 log2 where w: "cedrus_write_frame_list lookup alloc coded pix j cur pics heap log1 = (Some e, pics', heap', log2)"
    using job_configure_cases[OF failed.hyps(3)] by metis
  have c: "cur < length pics" using failed.hyps(2) by (auto simp: h264d_conforming_def)
  note r = write_frame_list_result[OF w c]
  have "position_of pics' i = position_of pics i" if "i \<noteq> cur" for i
    using r(2)[OF that] by (simp add: position_of_def)
  then show ?case using failed.IH r(1) by (auto simp: positions_ok_def inj_on_def)
qed

section \<open>The tables of a slice\<close>

lemma write_ref_list_mem:
  "off < 0x1000 \<Longrightarrow> avc_mem (write_ref_list lookup pics dpb refs num off log) = put_block off
     (le32_words (take (min_t (ALIGN (unat num) 4) MAX_REF_IDX)
       (arr_for (unat num) (\<lambda>i. ref_list_byte lookup pics dpb (refs ! i)) (replicate MAX_REF_IDX 0)))) (avc_mem log)"
  by (simp add: write_ref_list_def avc_mem_write_sram)

lemma write_ref_list_out:
  assumes "off < 0x1000" "i < off \<or> off + 8 \<le> i"
  shows "avc_mem (write_ref_list lookup pics dpb refs num off log) i = avc_mem log i"
proof -
  have "min (min_t (ALIGN (unat num) 4) MAX_REF_IDX) MAX_REF_IDX div 4 \<le> 8"
    using div_le_mono[of "min_t (ALIGN (unat num) 4) 32" 32 4] by (simp add: min_t_def MAX_REF_IDX_def)
  then show ?thesis using assms by (subst write_ref_list_mem, simp, intro put_block_out) auto
qed

lemma write_ref_list_byte:
  assumes "off < 0x1000" "r < unat num" "unat num \<le> 32"
  shows "byte_of (avc_mem (write_ref_list lookup pics dpb refs num off log) (off + r div 4)) (r mod 4) =
    ref_list_byte lookup pics dpb (refs ! r) 0"
proof -
  let ?n = "min_t (ALIGN (unat num) 4) MAX_REF_IDX"
  let ?a = "arr_for (unat num) (\<lambda>i. ref_list_byte lookup pics dpb (refs ! i)) (replicate MAX_REF_IDX 0)"
  have n: "r < ?n" "4 dvd ?n" "?n \<le> 32"
    using assms(2,3) ALIGN_ge[of 4 "unat num"] ALIGN_dvd[of 4 "unat num"]
    by (auto simp: min_t_def MAX_REF_IDX_def)
  then have l: "length (take ?n ?a) = ?n" by (simp add: MAX_REF_IDX_def)
  then have "byte_of (le32_words (take ?n ?a) ! (r div 4)) (r mod 4) = take ?n ?a ! r"
    using n by (intro le32_words_byte) (simp_all only: l)
  moreover have "take ?n ?a ! r = ref_list_byte lookup pics dpb (refs ! r) 0"
    using n assms(2,3) by (simp add: MAX_REF_IDX_def nth_arr_for)
  moreover have "r div 4 < length (le32_words (take ?n ?a))"
    using n by (simp only: length_le32_words l) presburger
  ultimately show ?thesis by (simp add: write_ref_list_mem[OF assms(1)] put_block_in)
qed

lemma slice_tables_frames:
  assumes "0x100 \<le> i" "i < 0x190"
  shows "avc_mem (slice_tables lookup pics job log) i = avc_mem log i"
  using assms by (simp add: slice_tables_def cedrus_write_ref_list0_def cedrus_write_ref_list1_def Let_def
      SRAM_REF_LIST_0_def SRAM_REF_LIST_1_def write_ref_list_out pred_weight_mem)

definition num_refs :: "u8 \<Rightarrow> nat" where
  "num_refs minus1 = unat (minus1 + 1)"

definition has_list0 :: "h264d_job \<Rightarrow> bool" where
  "has_list0 job \<longleftrightarrow> sl_type (dj_slice_params job) \<in> {SLICE_TYPE_P, SLICE_TYPE_SP, SLICE_TYPE_B}"

definition has_list1 :: "h264d_job \<Rightarrow> bool" where
  "has_list1 job \<longleftrightarrow> sl_type (dj_slice_params job) = SLICE_TYPE_B"

lemma slice_tables_list0:
  assumes "has_list0 job" "r < num_refs (sl_num_ref_idx_l0_active_minus1 (dj_slice_params job))"
    "num_refs (sl_num_ref_idx_l0_active_minus1 (dj_slice_params job)) \<le> 32"
  shows "byte_of (avc_mem (slice_tables lookup pics job log) (SRAM_REF_LIST_0 + r div 4)) (r mod 4) =
    ref_list_byte lookup pics (dec_dpb (dj_decode_params job)) (sl_ref_pic_list0 (dj_slice_params job) ! r) 0"
proof -
  note b = write_ref_list_byte[where off = "0x190" and r = r and num = "sl_num_ref_idx_l0_active_minus1 (dj_slice_params job) + 1"]
  have r: "r div 4 < 9" using assms(2,3) by (simp add: num_refs_def)
  show ?thesis
    using assms b r by (auto simp: slice_tables_def cedrus_write_ref_list0_def cedrus_write_ref_list1_def Let_def
      SRAM_REF_LIST_0_def SRAM_REF_LIST_1_def has_list0_def num_refs_def write_ref_list_out)
qed

lemma slice_tables_list1:
  assumes "has_list1 job" "r < num_refs (sl_num_ref_idx_l1_active_minus1 (dj_slice_params job))"
    "num_refs (sl_num_ref_idx_l1_active_minus1 (dj_slice_params job)) \<le> 32"
  shows "byte_of (avc_mem (slice_tables lookup pics job log) (SRAM_REF_LIST_1 + r div 4)) (r mod 4) =
    ref_list_byte lookup pics (dec_dpb (dj_decode_params job)) (sl_ref_pic_list1 (dj_slice_params job) ! r) 0"
  using assms write_ref_list_byte[where off = "0x199" and r = r and num = "sl_num_ref_idx_l1_active_minus1 (dj_slice_params job) + 1"]
  by (simp add: slice_tables_def cedrus_write_ref_list1_def Let_def SRAM_REF_LIST_1_def has_list1_def num_refs_def)

lemma set_params_mem:
  assumes "cedrus_set_params hw lookup ctx coded stream pics job nf log = Some log'"
  shows "\<exists>log2. avc_mem log2 = avc_mem log \<and> avc_mem log' = avc_mem (slice_tables lookup pics job log2)"
  using assms skip_bits_loop_mem
  by (fastforce simp: cedrus_set_params_def cedrus_skip_bits_def coded_stream_mem slice_registers_mem)

text \<open>A byte of a reference list: the position of the frame above the field bit.\<close>

lemma ref_byte:
  "p < FRAME_NUM \<Longrightarrow> unat ((0 :: u8) OR word_of_nat (p * 2)) = 2 * p \<and>
   unat ((0 OR word_of_nat (p * 2)) OR BIT 0 :: u8) = 2 * p + 1"
proof -
  assume "p < FRAME_NUM"
  then have "p \<in> set [0..<18]" by (simp add: FRAME_NUM_def)
  then show ?thesis by (auto simp: upt_rec BIT_def)
qed

text \<open>The entry of a position in the frame list, and an entry of a reference list.\<close>

definition frame_entry :: "(nat \<Rightarrow> u32) \<Rightarrow> nat \<Rightarrow> u32 list" where
  "frame_entry mem p = map (\<lambda>k. mem (SRAM_FRAMEBUFFER_LIST + (8 * p + k))) [0..<7]"

definition list_entry :: "(nat \<Rightarrow> u32) \<Rightarrow> nat \<Rightarrow> nat \<Rightarrow> nat" where
  "list_entry mem at r = unat (byte_of (mem (at + r div 4)) (r mod 4))"

lemma length_ref_words [simp]: "length (ref_words pix p t b) = 7"
  by (simp add: ref_words_def split: prod.split)

lemma frame_entry_block:
  assumes "\<And>i. 0x100 \<le> i \<Longrightarrow> i < 0x190 \<Longrightarrow> mem i = put_block SRAM_FRAMEBUFFER_LIST (concat (map ref_pic_words rs)) mem0 i"
    and "length rs = FRAME_NUM" "q < FRAME_NUM" "rs ! q = cedrus_fill_ref_pic pix p t b x"
  shows "frame_entry mem q = ref_words pix p t b"
proof (rule nth_equalityI)
  fix k assume "k < length (frame_entry mem q)"
  then have k: "k < 7" by (simp add: frame_entry_def)
  have q: "q < 18" "8 * q + k < 8 * 18" using assms(3) k by (simp_all add: FRAME_NUM_def)
  then have "mem (0x100 + (8 * q + k)) = concat (map ref_pic_words rs) ! (8 * q + k)"
    using assms(2) by (subst assms(1)) (simp_all add: SRAM_FRAMEBUFFER_LIST_def FRAME_NUM_def put_block_in)
  also have "\<dots> = ref_pic_words (rs ! q) ! k" using k q assms(2) by (intro nth_concat_ref_pics) (simp_all add: FRAME_NUM_def)
  also have "\<dots> = ref_words pix p t b ! k" using k by (simp add: assms(4) fill_words)
  finally show "frame_entry mem q ! k = ref_words pix p t b ! k"
    using k by (simp add: frame_entry_def SRAM_FRAMEBUFFER_LIST_def)
qed (simp add: frame_entry_def)

text \<open>The memory of the engine after a job was configured.\<close>

lemma job_configure_mem:
  assumes "h264d_job_configure hw lookup alloc ctx coded pix stream job nf cur pics heap log =
      Some (None, pics', heap', log')" "cur < length pics"
    and rs: "rs = snd (snd (frame_list_loop lookup pix pics (pic_timestamp (pics ! cur)) (dec_dpb (dj_decode_params job))))"
    and q: "q = chosen_position lookup pix pics job cur"
  obtains mem0 log2 where
    "\<And>i. 0x100 \<le> i \<Longrightarrow> i < 0x190 \<Longrightarrow> avc_mem log' i = put_block SRAM_FRAMEBUFFER_LIST
       (concat (map ref_pic_words (rs[q := cedrus_fill_ref_pic pix (pics' ! cur)
         (dec_top_poc (dj_decode_params job)) (dec_bottom_poc (dj_decode_params job)) (rs ! q)]))) mem0 i"
    "avc_mem log' = avc_mem (slice_tables lookup pics' job log2)"
    "length pics' = length pics" "\<And>i. i \<noteq> cur \<Longrightarrow> pics' ! i = pics ! i" "position_of pics' cur = q"
proof -
  obtain log1 logf where w:
    "cedrus_write_frame_list lookup alloc coded pix job cur pics heap log1 = (None, pics', heap', logf)"
    "cedrus_set_params hw lookup ctx coded stream pics' job nf logf = Some log'"
    using job_configure_cases[OF assms(1)] by metis
  obtain log2 where l: "avc_mem log2 = avc_mem logf" "avc_mem log' = avc_mem (slice_tables lookup pics' job log2)"
    using set_params_mem[OF w(2)] by blast
  note r = write_frame_list_result[OF w(1) assms(2)]
  show ?thesis
    using that[of "avc_mem log1" log2] r(1,2,3) r(4)[OF refl] l slice_tables_frames[of _ lookup pics' job log2]
    by (simp add: rs q)
qed

lemma frame_table_cur:
  assumes "h264d_session hw lookup alloc ctx coded pix base pics live heap" "find_contract lookup"
    "h264d_conforming lookup pics live job cur"
    "h264d_job_configure hw lookup alloc ctx coded pix stream job nf cur pics heap log =
      Some (None, pics', heap', log')"
  shows "position_of pics' cur < FRAME_NUM"
    "frame_entry (avc_mem log') (position_of pics' cur) =
       ref_words pix (pics' ! cur) (dec_top_poc (dj_decode_params job)) (dec_bottom_poc (dj_decode_params job))"
proof -
  have cur: "cur < length pics" using assms(3) unfolding h264d_conforming_def by blast
  obtain mem0 log2 where m: "\<And>i. 0x100 \<le> i \<Longrightarrow> i < 0x190 \<Longrightarrow> avc_mem log' i = put_block SRAM_FRAMEBUFFER_LIST
      (concat (map ref_pic_words ((snd (snd (frame_list_loop lookup pix pics (pic_timestamp (pics ! cur))
         (dec_dpb (dj_decode_params job)))))[chosen_position lookup pix pics job cur :=
           cedrus_fill_ref_pic pix (pics' ! cur) (dec_top_poc (dj_decode_params job))
             (dec_bottom_poc (dj_decode_params job)) (snd (snd (frame_list_loop lookup pix pics
               (pic_timestamp (pics ! cur)) (dec_dpb (dj_decode_params job)))) !
                 chosen_position lookup pix pics job cur)]))) mem0 i"
    "position_of pics' cur = chosen_position lookup pix pics job cur"
    using job_configure_mem[OF assms(4) cur refl refl] by metis
  have q: "chosen_position lookup pix pics job cur < FRAME_NUM"
    using chosen_position_free(1)[OF session_positions[OF assms(1,2)] assms(3,2)] .
  show "position_of pics' cur < FRAME_NUM" using q m(2) by simp
  show "frame_entry (avc_mem log') (position_of pics' cur) =
      ref_words pix (pics' ! cur) (dec_top_poc (dj_decode_params job)) (dec_bottom_poc (dj_decode_params job))"
    unfolding m(2) by (rule frame_entry_block[OF m(1)]) (use q in \<open>simp_all add: loop_length\<close>)
qed

lemma conforming_entry:
  assumes "h264d_conforming lookup pics live job cur" "e \<in> set (dec_dpb (dj_decode_params job))"
    "dpb_found lookup pics e = Some i"
  shows "i \<in> live" "reference_ts e = pic_timestamp (pics ! cur) \<Longrightarrow> i = cur"
    "e' \<in> set (dec_dpb (dj_decode_params job)) \<Longrightarrow> dpb_found lookup pics e' = Some i \<Longrightarrow> e' = e"
proof -
  note c = assms(1)[unfolded h264d_conforming_def]
  have "i \<in> dpb_refs lookup pics job" using assms(2,3) by (auto simp only: dpb_refs_def)
  then show "i \<in> live" using c by blast
  have l: "lookup pics (pic_timestamp (pics ! cur)) = Some cur" using c by blast
  show "i = cur" if "reference_ts e = pic_timestamp (pics ! cur)"
    using assms(3) l by (simp add: that dpb_found_def split: if_splits)
  show "e' = e" if "e' \<in> set (dec_dpb (dj_decode_params job))" "dpb_found lookup pics e' = Some i"
    using c that assms(2,3) by (metis option.distinct(1))
qed

lemma frame_table_ref:
  assumes "h264d_session hw lookup alloc ctx coded pix base pics live heap" "find_contract lookup"
    "h264d_conforming lookup pics live job cur"
    "h264d_job_configure hw lookup alloc ctx coded pix stream job nf cur pics heap log =
      Some (None, pics', heap', log')"
    and e: "e \<in> set (dec_dpb (dj_decode_params job))" "dpb_found lookup pics e = Some i" "i \<noteq> cur"
      "DPB_ENTRY_FLAG_ACTIVE \<in> dpb_flags e"
  shows "position_of pics' i < FRAME_NUM" "position_of pics' i \<noteq> position_of pics' cur"
    "frame_entry (avc_mem log') (position_of pics' i) = ref_words pix (pics' ! i) (dpb_top_poc e) (dpb_bottom_poc e)"
proof -
  have cur: "cur < length pics" using assms(3) unfolding h264d_conforming_def by blast
  note pos = session_positions[OF assms(1,2)]
  note en = conforming_entry[OF assms(3) e(1,2)]
  obtain mem0 log2 where m: "\<And>i. 0x100 \<le> i \<Longrightarrow> i < 0x190 \<Longrightarrow> avc_mem log' i = put_block SRAM_FRAMEBUFFER_LIST
      (concat (map ref_pic_words ((snd (snd (frame_list_loop lookup pix pics (pic_timestamp (pics ! cur))
         (dec_dpb (dj_decode_params job)))))[chosen_position lookup pix pics job cur :=
           cedrus_fill_ref_pic pix (pics' ! cur) (dec_top_poc (dj_decode_params job))
             (dec_bottom_poc (dj_decode_params job)) (snd (snd (frame_list_loop lookup pix pics
               (pic_timestamp (pics ! cur)) (dec_dpb (dj_decode_params job)))) !
                 chosen_position lookup pix pics job cur)]))) mem0 i"
    "position_of pics' cur = chosen_position lookup pix pics job cur" "pics' ! i = pics ! i"
    using job_configure_mem[OF assms(4) cur refl refl] e(3) by metis
  have "i \<in> dpb_refs lookup pics job" using e(1,2) by (auto simp only: dpb_refs_def)
  then have ne: "position_of pics i \<noteq> chosen_position lookup pix pics job cur"
    using chosen_position_free(2)[OF pos assms(3,2)] e(3) by blast
  have same: "position_of pics' i = position_of pics i" using m(3) by (simp add: position_of_def)
  have lt: "position_of pics i < FRAME_NUM" using pos en(1) unfolding positions_ok_def by blast
  show "position_of pics' i < FRAME_NUM" "position_of pics' i \<noteq> position_of pics' cur"
    using lt ne same m(2) by simp_all
  have "\<exists>x. snd (snd (frame_list_loop lookup pix pics (pic_timestamp (pics ! cur)) (dec_dpb (dj_decode_params job)))) !
      position_of pics i = cedrus_fill_ref_pic pix (pics ! i) (dpb_top_poc e) (dpb_bottom_poc e) x"
  proof (rule loop_slot[OF e(1,2) _ e(4) lt])
    show "reference_ts e \<noteq> pic_timestamp (pics ! cur)" using en(2) e(3) by blast
    fix e' j
    assume d: "e' \<in> set (dec_dpb (dj_decode_params job))" "dpb_found lookup pics e' = Some j"
      "position_of pics j = position_of pics i"
    have "j \<in> live" using conforming_entry(1)[OF assms(3) d(1,2)] .
    then have "j = i" using pos en(1) d(3) unfolding positions_ok_def by (metis inj_onD)
    then show "e' = e" using en(3) d(1,2) by blast
  qed
  then obtain x where x: "snd (snd (frame_list_loop lookup pix pics (pic_timestamp (pics ! cur))
      (dec_dpb (dj_decode_params job)))) ! position_of pics i =
        cedrus_fill_ref_pic pix (pics ! i) (dpb_top_poc e) (dpb_bottom_poc e) x" by blast
  show "frame_entry (avc_mem log') (position_of pics' i) = ref_words pix (pics' ! i) (dpb_top_poc e) (dpb_bottom_poc e)"
    unfolding same m(3)
    by (rule frame_entry_block[OF m(1), where x = x]) (use lt ne x in \<open>simp_all add: loop_length\<close>)
qed

lemma write_frame_list_buffers:
  assumes "cedrus_write_frame_list lookup alloc coded pix job cur pics heap log = (ret, pics', heap', log')"
  shows "map pic_timestamp pics' = map pic_timestamp pics" "map pic_addr pics' = map pic_addr pics"
proof -
  have u: "map pic_timestamp (ps[cur := (ps ! cur)\<lparr>pic_engine := b\<rparr>]) = map pic_timestamp ps"
    "map pic_addr (ps[cur := (ps ! cur)\<lparr>pic_engine := b\<rparr>]) = map pic_addr ps" for ps :: h264d_pictures and b
    by (cases "cur < length ps"; auto intro!: nth_equalityI simp: nth_list_update list_update_beyond)+
  obtain used out rs where l: "frame_list_loop lookup pix pics (pic_timestamp (pics ! cur))
      (dec_dpb (dj_decode_params job)) = (used, out, rs)" by (metis surj_pair)
  define pics1 where "pics1 = pics[cur := (pics ! cur)\<lparr>pic_engine := (pic_engine (pics ! cur))
    \<lparr>buf_position := (case out of Some p \<Rightarrow> p | None \<Rightarrow> find_first_zero_bit used FRAME_NUM)\<rparr>\<rparr>]"
  note d = assms[unfolded cedrus_write_frame_list_def Let_def l prod.case, folded pics1_def]
  have "map pic_timestamp pics' = map pic_timestamp pics1 \<and> map pic_addr pics' = map pic_addr pics1"
  proof (cases "if mv_col_buf_size (pic_engine (pics1 ! cur)) \<noteq> 0
      then Some (mv_col_buf_dma (pic_engine (pics1 ! cur)), mv_col_buf_size (pic_engine (pics1 ! cur)), heap)
      else map_option (\<lambda>addr. (addr, mv_col_field_size coded (dj_sps job) * 2,
        (addr, mv_col_field_size coded (dj_sps job) * 2) # heap)) (alloc heap (mv_col_field_size coded (dj_sps job) * 2))")
    case None
    then show ?thesis using d by (auto simp del: if_split)
  next
    case (Some mv)
    then show ?thesis using d by (cases mv) (auto simp del: if_split simp: u)
  qed
  then show "map pic_timestamp pics' = map pic_timestamp pics" "map pic_addr pics' = map pic_addr pics"
    by (simp_all add: pics1_def u)
qed

text \<open>The reference lists of a slice and where they are written.\<close>

definition slice_lists :: "h264d_job \<Rightarrow> (nat \<times> h264_reference list) set" where
  "slice_lists job = (let params = dj_slice_params job in
    (if has_list0 job then {(SRAM_REF_LIST_0,
      take (num_refs (sl_num_ref_idx_l0_active_minus1 params)) (sl_ref_pic_list0 params))} else {}) \<union>
    (if has_list1 job then {(SRAM_REF_LIST_1,
      take (num_refs (sl_num_ref_idx_l1_active_minus1 params)) (sl_ref_pic_list1 params))} else {}))"

text \<open>What the control framework checks.\<close>

definition slice_checked :: "h264_slice_params \<Rightarrow> bool" where
  "slice_checked params \<longleftrightarrow> sl_num_ref_idx_l0_active_minus1 params \<le> 31 \<and>
    sl_num_ref_idx_l1_active_minus1 params \<le> 31"

lemma num_refs_le: "n \<le> 31 \<Longrightarrow> num_refs n \<le> 32"
proof -
  assume "n \<le> 31"
  then have "unat n \<le> 31" by (simp add: word_le_nat_alt)
  then show ?thesis by (simp add: num_refs_def unat_word_ariths)
qed

lemma slice_lists_entry:
  assumes "slice_checked (dj_slice_params job)" "(at, refs) \<in> slice_lists job" "r < length refs"
  shows "list_entry (avc_mem (slice_tables lookup pics job log)) at r =
    unat (ref_list_byte lookup pics (dec_dpb (dj_decode_params job)) (refs ! r) 0)"
proof -
  note n = num_refs_le[of "sl_num_ref_idx_l0_active_minus1 (dj_slice_params job)"]
    num_refs_le[of "sl_num_ref_idx_l1_active_minus1 (dj_slice_params job)"]
  show ?thesis
    using assms n by (auto simp: slice_lists_def slice_checked_def Let_def list_entry_def
        slice_tables_list0 slice_tables_list1 split: if_splits)
qed

lemma ref_list_byte_found:
  assumes "DPB_ENTRY_FLAG_ACTIVE \<in> dpb_flags (dpb ! unat (ref_index r))"
    "lookup pics (reference_ts (dpb ! unat (ref_index r))) = Some i" "position_of pics i < FRAME_NUM"
  shows "unat (ref_list_byte lookup pics dpb r 0) =
    2 * position_of pics i + (if ref_fields r = BOTTOM_FIELD_REF then 1 else 0)"
  using assms ref_byte[OF assms(3)] by (simp add: ref_list_byte_def position_of_def Let_def)

text \<open>C3: after any number of jobs, every reference of a slice leads the engine to the right frame:
  the entry of the reference list, halved, is a position of the frame list that holds the addresses,
  motion vectors and order counts of the buffer with the timestamp the application gave for that
  reference, and its lowest bit tells the bottom field.  (A field may refer to the first field of its
  own frame; the frame list then holds the order counts of the current picture.)\<close>

theorem h264_dec_references:
  assumes "h264d_session hw lookup alloc ctx coded pix base pics live heap" "find_contract lookup"
    and "h264d_conforming lookup pics live job cur" "slice_checked (dj_slice_params job)"
    and "h264d_job_configure hw lookup alloc ctx coded pix stream job new_frame cur pics heap log =
      Some (None, pics', heap', log')"
    and "(at, refs) \<in> slice_lists job" "r < length refs"
    and "unat (ref_index (refs ! r)) < length (dec_dpb (dj_decode_params job))"
    and "e = dec_dpb (dj_decode_params job) ! unat (ref_index (refs ! r))"
    and "{DPB_ENTRY_FLAG_VALID, DPB_ENTRY_FLAG_ACTIVE} \<subseteq> dpb_flags e" "lookup pics (reference_ts e) = Some i"
  shows "frame_entry (avc_mem log') (list_entry (avc_mem log') at r div 2) =
      (if i = cur then ref_words pix (pics' ! i) (dec_top_poc (dj_decode_params job))
         (dec_bottom_poc (dj_decode_params job))
       else ref_words pix (pics' ! i) (dpb_top_poc e) (dpb_bottom_poc e)) \<and>
    list_entry (avc_mem log') at r mod 2 = (if ref_fields (refs ! r) = BOTTOM_FIELD_REF then 1 else 0) \<and>
    i < length pics' \<and> pic_timestamp (pics' ! i) = reference_ts e \<and> pic_addr (pics' ! i) = pic_addr (pics ! i)"
proof -
  let ?dpb = "dec_dpb (dj_decode_params job)"
  have cur: "cur < length pics" using assms(3) unfolding h264d_conforming_def by blast
  have e: "e \<in> set ?dpb" "dpb_found lookup pics e = Some i" "DPB_ENTRY_FLAG_ACTIVE \<in> dpb_flags e"
    using assms(8-11) by (simp_all add: dpb_found_def)
  obtain log1 logf where w:
    "cedrus_write_frame_list lookup alloc coded pix job cur pics heap log1 = (None, pics', heap', logf)"
    "cedrus_set_params hw lookup ctx coded stream pics' job new_frame logf = Some log'"
    using job_configure_cases[OF assms(5)] by metis
  note b = write_frame_list_buffers[OF w(1)]
  obtain log2 where l: "avc_mem log' = avc_mem (slice_tables lookup pics' job log2)"
    using set_params_mem[OF w(2)] by blast
  have look: "lookup pics' (reference_ts e) = Some i"
    using find_contractD(3)[OF assms(2) b(1)] assms(11) by simp
  have lt: "position_of pics' i < FRAME_NUM"
    using frame_table_cur(1)[OF assms(1-3,5)] frame_table_ref(1)[OF assms(1-3,5) e(1,2) _ e(3)] by metis
  have en: "list_entry (avc_mem log') at r =
      2 * position_of pics' i + (if ref_fields (refs ! r) = BOTTOM_FIELD_REF then 1 else 0)"
    unfolding l slice_lists_entry[OF assms(4,6,7)]
    by (rule ref_list_byte_found) (use e(3) look lt assms(9) in simp_all)
  have m: "list_entry (avc_mem log') at r mod 2 = (if ref_fields (refs ! r) = BOTTOM_FIELD_REF then 1 else 0)"
    by (simp add: en)
  have h: "list_entry (avc_mem log') at r div 2 = position_of pics' i" by (simp add: en)
  have f: "frame_entry (avc_mem log') (list_entry (avc_mem log') at r div 2) =
      (if i = cur then ref_words pix (pics' ! i) (dec_top_poc (dj_decode_params job))
         (dec_bottom_poc (dj_decode_params job))
       else ref_words pix (pics' ! i) (dpb_top_poc e) (dpb_bottom_poc e))"
    unfolding h
    using frame_table_cur(2)[OF assms(1-3,5)] frame_table_ref(3)[OF assms(1-3,5) e(1,2) _ e(3)] by simp
  have i: "i < length pics'" "pic_timestamp (pics' ! i) = reference_ts e"
    using find_contractD(1)[OF assms(2) look] by simp_all
  moreover have "length pics' = length pics" using b(1) map_eq_imp_length_eq by blast
  ultimately have "i < length pics' \<and> pic_timestamp (pics' ! i) = reference_ts e \<and> pic_addr (pics' ! i) = pic_addr (pics ! i)"
    using b(2) by (metis nth_map)
  then show ?thesis using m f by blast
qed

section \<open>Memory\<close>

definition mv_mem :: "h264d_buffer \<Rightarrow> (u64 \<times> nat) multiset" where
  "mv_mem buf = (if mv_col_buf_size buf \<noteq> 0 then {#(mv_col_buf_dma buf, mv_col_buf_size buf)#} else {#})"

abbreviation mv_heap :: "h264d_pictures \<Rightarrow> (u64 \<times> nat) multiset" where
  "mv_heap \<equiv> held_memory mv_mem"

abbreviation release_buffers :: "h264d_pictures \<Rightarrow> dma_heap \<Rightarrow> dma_heap" where
  "release_buffers \<equiv> release_all h264d_buffer_cleanup"

interpretation mv: buffer_memory mv_mem h264d_buffer_cleanup
  by unfold_locales (simp add: h264d_buffer_cleanup_def mv_mem_def dma_free_def)

lemma mv_col_field_size_pos:
  assumes "pix_width coded \<noteq> 0" "pix_height coded \<noteq> 0"
  shows "0 < mv_col_field_size coded sps"
proof -
  have "0 < DIV_ROUND_UP (unat (pix_width coded)) 16" "0 < DIV_ROUND_UP (unat (pix_height coded)) 16"
    using assms by (simp_all add: DIV_ROUND_UP_def div_greater_zero_iff unat_eq_0 Suc_le_eq word_neq_0_conv unat_gt_0)
  then show ?thesis by (simp add: mv_col_field_size_def Let_def)
qed

lemma write_frame_list_memory:
  assumes "cedrus_write_frame_list lookup alloc coded pix job cur pics heap log = (ret, pics', heap', log')"
    "cur < length pics" "pix_width coded \<noteq> 0" "pix_height coded \<noteq> 0"
    "mset heap = mset base + mv_heap pics"
  shows "mset heap' = mset base + mv_heap pics'"
proof -
  obtain used out rs where l: "frame_list_loop lookup pix pics (pic_timestamp (pics ! cur))
      (dec_dpb (dj_decode_params job)) = (used, out, rs)" by (metis surj_pair)
  define pics1 where "pics1 = pics[cur := (pics ! cur)\<lparr>pic_engine := (pic_engine (pics ! cur))
    \<lparr>buf_position := (case out of Some p \<Rightarrow> p | None \<Rightarrow> find_first_zero_bit used FRAME_NUM)\<rparr>\<rparr>]"
  note d = assms(1)[unfolded cedrus_write_frame_list_def Let_def l prod.case, folded pics1_def]
  have "mv_heap pics1 = mv_heap pics"
    using mv.held_update[OF assms(2)] mv.held_member[OF assms(2)]
    by (simp add: pics1_def mv_mem_def)
  then have m: "mset heap = mset base + mv_heap pics1" "cur < length pics1"
    using assms(2,5) by (simp_all add: pics1_def)
  note size = mv_col_field_size_pos[OF assms(3,4), of "dj_sps job"]
  show ?thesis
  proof (cases "mv_col_buf_size (pic_engine (pics1 ! cur)) \<noteq> 0")
    case True
    have "mv_mem (pic_engine (pics1 ! cur)) \<subseteq># mv_heap pics1"
      by (rule mv.held_member[OF m(2)])
    then show ?thesis using d m True mv.held_update[OF m(2)]
      by (auto simp: mv_mem_def)
  next
    case False
    then have z: "mv_mem (pic_engine (pics1 ! cur)) = {#}" by (simp add: mv_mem_def)
    show ?thesis
      using d m False size mv.held_update[OF m(2)]
      by (cases "alloc heap (mv_col_field_size coded (dj_sps job) * 2)") (auto simp: z mv_mem_def)
  qed
qed

lemma session_memory:
  assumes "h264d_session hw lookup alloc ctx coded pix base pics live heap"
    "pix_width coded \<noteq> 0" "pix_height coded \<noteq> 0"
  shows "mset heap = mset base + mv_heap pics"
  using assms(1)
proof induction
  case (start pics)
  then have "mv_heap pics = {#}" by (intro mv.held_none) (simp add: mv_mem_def)
  then show ?case by simp
next
  case (queue pics live heap pics')
  then show ?case using mv.held_engines by metis
next
  case (job pics live heap j cur stream nf log pics' heap' log')
  then show ?case
    using job_configure_cases[OF job.hyps(3)] write_frame_list_memory assms(2,3)
    unfolding h264d_conforming_def by metis
next
  case (failed pics live heap j cur stream nf log e pics' heap' log')
  then show ?case
    using job_configure_cases[OF failed.hyps(3)] write_frame_list_memory assms(2,3)
    unfolding h264d_conforming_def by metis
qed

lemma setup_memory:
  "h264d_setup alloc w h heap0 = (Inl e, base) \<Longrightarrow> mset base = mset heap0"
  "h264d_setup alloc w h heap0 = (Inr ctx, base) \<Longrightarrow> mset (h264d_cleanup ctx base) = mset heap0"
  "h264d_setup alloc w h heap0 = (Inr ctx, base) \<Longrightarrow> mset heap = mset base + m \<Longrightarrow>
    mset (h264d_cleanup ctx heap) = mset heap0 + m"
  by (auto simp: h264d_setup_def h264d_cleanup_def dma_free_def Let_def ALIGN_def
      split: option.splits if_splits)

text \<open>C37: the DMA memory of the decoder balances.  A setup that fails has released what it had
  allocated; after a setup that succeeded and any number of jobs, failed ones included, releasing the
  buffers of the queue and cleaning up the context leaves exactly the allocations there were before.\<close>

theorem h264_dec_memory_balanced:
  assumes "h264d_setup alloc w h heap0 = (res, base)"
  shows "case res of Inl e \<Rightarrow> mset base = mset heap0
    | Inr ctx \<Rightarrow> \<forall>hw lookup coded pix pics live heap.
        h264d_session hw lookup alloc ctx coded pix base pics live heap \<longrightarrow>
        pix_width coded \<noteq> 0 \<longrightarrow> pix_height coded \<noteq> 0 \<longrightarrow>
        mset (h264d_cleanup ctx (release_buffers pics heap)) = mset heap0"
proof (cases res)
  case (Inl e)
  then show ?thesis using assms setup_memory(1) by simp
next
  case (Inr ctx)
  have "mset (h264d_cleanup ctx (release_buffers pics heap)) = mset heap0"
    if "h264d_session hw lookup alloc ctx coded pix base pics live heap"
      "pix_width coded \<noteq> 0" "pix_height coded \<noteq> 0" for hw lookup coded pix pics live heap
    using setup_memory(3)[OF assms[unfolded Inr], of "release_buffers pics heap" "{#}"] session_memory[OF that]
    by (simp add: mv.mset_release)
  then show ?thesis using Inr by auto
qed

section \<open>Waiting for the hardware\<close>

text \<open>The bits a trigger flushes.\<close>

fun flushed :: "io \<Rightarrow> int" where
  "flushed (Write r v) = (if r = VE_H264_TRIGGER_TYPE \<and> field 3 0 v = 3 then field 13 8 v else 0)"
| "flushed _ = 0"

lemma flushed_trigger:
  assumes "0 < n" "n \<le> 32"
  shows "flushed (Write VE_H264_TRIGGER_TYPE (VE_H264_TRIGGER_TYPE_FLUSH_BITS OR
    VE_H264_TRIGGER_TYPE_N_BITS (word_of_int n))) = n"
proof -
  have "n = int (nat n)" "nat n \<in> set [1..<33]" using assms by auto
  moreover have "flushed (Write VE_H264_TRIGGER_TYPE (VE_H264_TRIGGER_TYPE_FLUSH_BITS OR
      VE_H264_TRIGGER_TYPE_N_BITS (word_of_int (int m)))) = int m" if "m \<in> set [1..<33]" for m
    using that by (auto simp: upt_rec hdr_simps field_def)
  ultimately show ?thesis by metis
qed

lemma skip_bits_loop_flushes:
  assumes "eventually_clear hw VE_H264_STATUS VE_H264_STATUS_VLD_BUSY"
  shows "\<exists>l. skip_bits_loop hw num c log = Some (log @ l) \<and> sum_list (map flushed l) = max 0 (num - c) \<and>
    (\<forall>e\<in>set l. 0 \<le> flushed e \<and> flushed e \<le> 32)"
  using assms
proof (induction hw num c log rule: skip_bits_loop.induct)
  case (1 hw num c log)
  show ?case
  proof (cases "c < num")
    case True
    define n where "n = min (num - c) 32"
    define t where "t = Write VE_H264_TRIGGER_TYPE (VE_H264_TRIGGER_TYPE_FLUSH_BITS OR
      VE_H264_TRIGGER_TYPE_N_BITS (word_of_int n))"
    have t: "flushed t = n" "0 < n" "n \<le> 32"
      using flushed_trigger[of n] True by (simp_all add: t_def n_def)
    obtain log1 k where w: "wait_cleared hw VE_H264_STATUS VE_H264_STATUS_VLD_BUSY (log @ [t]) = Some log1"
      and k: "log1 = (log @ [t]) @ replicate k (Delay 1)"
      using wait_cleared_eventually[OF 1(2)] by blast
    have "\<exists>l. skip_bits_loop hw num (c + n) log1 = Some (log1 @ l) \<and> sum_list (map flushed l) = max 0 (num - (c + n)) \<and>
        (\<forall>e\<in>set l. 0 \<le> flushed e \<and> flushed e \<le> 32)"
      by (rule 1(1)[OF True]) (use w 1(2) in \<open>simp_all add: n_def t_def cedrus_write_def\<close>)
    then obtain l where l: "skip_bits_loop hw num (c + n) log1 = Some (log1 @ l)"
      "sum_list (map flushed l) = max 0 (num - (c + n))" "\<forall>e\<in>set l. 0 \<le> flushed e \<and> flushed e \<le> 32" by blast
    have z: "sum_list (map flushed (replicate k (Delay 1))) = 0" by (induction k) simp_all
    have "skip_bits_loop hw num c log = Some (log @ (t # replicate k (Delay 1) @ l))"
      using True w l(1) k by (simp add: skip_bits_loop.simps[of hw num c log] n_def t_def cedrus_write_def Let_def)
    moreover have "sum_list (map flushed (t # replicate k (Delay 1) @ l)) = max 0 (num - c)"
      using t l(2) z True by (simp add: n_def min_def max_def)
    moreover have "\<forall>e\<in>set (t # replicate k (Delay 1) @ l). 0 \<le> flushed e \<and> flushed e \<le> 32"
      using t l(3) by auto
    ultimately show ?thesis by blast
  next
    case False
    then show ?thesis by (simp add: skip_bits_loop.simps[of hw num c log])
  qed
qed

lemma h264_skip_returns:
  assumes "eventually_clear hw VE_H264_STATUS VE_H264_STATUS_VLD_BUSY"
  shows "\<exists>log'. cedrus_skip_bits hw num log = Some log'"
  using skip_bits_loop_flushes[OF assms, of num 0 log] by (auto simp: cedrus_skip_bits_def)

text \<open>C38: skipping the slice header returns whenever the hardware finishes every flush in some finite
  time, for every header size; the flushes it triggers are of 1 to 32 bits, which the field of the
  trigger register holds, and sum up to the size of the header.\<close>

theorem h264_dec_skip_terminates:
  assumes "eventually_clear hw VE_H264_STATUS VE_H264_STATUS_VLD_BUSY"
  shows "\<exists>l. cedrus_skip_bits hw num log = Some (log @ l) \<and> sum_list (map flushed l) = max 0 num \<and>
    (\<forall>e\<in>set l. 0 \<le> flushed e \<and> flushed e \<le> 32)"
  using skip_bits_loop_flushes[OF assms, of num 0 log] by (simp add: cedrus_skip_bits_def)

theorem h264_dec_skip_terminates_witness:
  "\<exists>l. cedrus_skip_bits (\<lambda>log r. if length log < 5 then VE_H264_STATUS_VLD_BUSY else 0) 70 [] = Some l \<and>
    sum_list (map flushed l) = 70"
proof -
  have "eventually_clear (\<lambda>log (r :: u32). if length log < 5 then VE_H264_STATUS_VLD_BUSY else 0)
      VE_H264_STATUS VE_H264_STATUS_VLD_BUSY"
    unfolding eventually_clear_def by (intro allI exI[of _ 5]) simp
  from h264_dec_skip_terminates[OF this, of 70 "[]"] show ?thesis by auto
qed

lemma job_configure_returns:
  assumes "eventually_clear hw VE_H264_STATUS VE_H264_STATUS_VLD_BUSY"
    "cur < length pics"
  shows "\<exists>ret pics' heap' log'.
    h264d_job_configure hw lookup alloc ctx coded pix stream job new_frame cur pics heap log =
      Some (ret, pics', heap', log') \<and>
    ret = (if mv_col_buf_size (pic_engine (pics ! cur)) = 0 \<and>
        alloc heap (mv_col_field_size coded (dj_sps job) * 2) = None then Some ENOMEM else None)"
proof -
  define log1 where "log1 = cedrus_write_scaling_lists job (writes [(VE_H264_SDROT_CTRL, 0),
     (VE_H264_EXTRA_BUFFER1, ucast (pic_info_buf_dma ctx)),
     (VE_H264_EXTRA_BUFFER2, ucast (neighbor_info_buf_dma ctx))] log)"
  obtain ret pics' heap' log2 where w:
    "cedrus_write_frame_list lookup alloc coded pix job cur pics heap log1 = (ret, pics', heap', log2)"
    by (metis surj_pair)
  have r: "ret = (if mv_col_buf_size (pic_engine (pics ! cur)) = 0 \<and>
        alloc heap (mv_col_field_size coded (dj_sps job) * 2) = None then Some ENOMEM else None)"
    using w assms(2) unfolding cedrus_write_frame_list_def Let_def
    by (auto split: prod.splits option.splits if_splits)
  have "\<exists>log'. cedrus_set_params hw lookup ctx coded stream pics' job new_frame log2 = Some log'"
    using h264_skip_returns[OF assms(1)] by (simp add: cedrus_set_params_def)
  then show ?thesis
    using r w unfolding h264d_job_configure_def Let_def log1_def[symmetric] w prod.case
    by (cases ret) auto
qed

section \<open>Examples\<close>

definition ex_dpb_entry :: "u64 \<Rightarrow> h264_dpb_entry" where
  "ex_dpb_entry ts = \<lparr>reference_ts = ts, dpb_top_poc = 0, dpb_bottom_poc = 1,
     dpb_flags = {DPB_ENTRY_FLAG_VALID, DPB_ENTRY_FLAG_ACTIVE}\<rparr>"

definition ex_slice :: "h264_slice_type \<Rightarrow> h264_reference list \<Rightarrow> h264_slice_params" where
  "ex_slice t refs = \<lparr>sl_header_bit_size = 40, sl_first_mb_in_slice = 0, sl_type = t, sl_cabac_init_idc = 0,
     sl_qp_delta = 0, sl_disable_deblocking_filter_idc = 0, sl_alpha_c0_offset_div2 = 0, sl_beta_offset_div2 = 0,
     sl_num_ref_idx_l0_active_minus1 = 0, sl_num_ref_idx_l1_active_minus1 = 0, sl_ref_pic_list0 = refs,
     sl_ref_pic_list1 = [], sl_flags = {}\<rparr>"

definition ex_dec_job :: "h264_sps_flag set \<Rightarrow> h264_slice_params \<Rightarrow> h264_dpb_entry list \<Rightarrow> h264d_job" where
  "ex_dec_job flags params dpb = \<lparr>
     dj_sps = \<lparr>sps_chroma_format_idc = 1, sps_pic_width_in_mbs_minus1 = 79, sps_pic_height_in_map_units_minus1 = 44,
       sps_flags = flags\<rparr>,
     dj_pps = \<lparr>pps_weighted_bipred_idc = 0, pps_pic_init_qp_minus26 = 0, pps_chroma_qp_index_offset = 0,
       pps_second_chroma_qp_index_offset = 0, pps_flags = {}\<rparr>,
     dj_scaling_matrix = \<lparr>scaling_list_4x4 = [], scaling_list_8x8 = []\<rparr>,
     dj_slice_params = params,
     dj_pred_weights = \<lparr>luma_log2_weight_denom = 0, chroma_log2_weight_denom = 0, weight_factors = []\<rparr>,
     dj_decode_params = \<lparr>dec_dpb = dpb, dec_nal_ref_idc = 1, dec_top_poc = 2, dec_bottom_poc = 3, dec_flags = {}\<rparr>\<rparr>"

definition ex_dec_picture :: "u64 \<Rightarrow> u64 \<Rightarrow> h264d_buffer picture" where
  "ex_dec_picture addr ts = \<lparr>pic_addr = addr, pic_timestamp = ts,
     pic_engine = \<lparr>buf_position = 0, buf_pic_type = 0, mv_col_buf_dma = 0, mv_col_buf_size = 0\<rparr>\<rparr>"

definition ex_dec_pictures :: h264d_pictures where
  "ex_dec_pictures = [ex_dec_picture 0x40000000 1, ex_dec_picture 0x41000000 2]"

definition ex_dec_context :: h264d_context where
  "ex_dec_context = \<lparr>pic_info_buf_dma = 0, pic_info_buf_size = 0, neighbor_info_buf_dma = 0, deblk_buf_dma = 0,
     deblk_buf_size = 0, intra_pred_buf_dma = 0, intra_pred_buf_size = 0\<rparr>"

definition ex_dec_coded :: pix_format where
  "ex_dec_coded = zero_pix\<lparr>pix_width := 1280, pix_height := 720\<rparr>"

definition ex_dec_alloc :: dma_alloc where
  "ex_dec_alloc heap n = Some (0x50000000 + 0x100000 * word_of_nat (length heap))"

lemma ex_clear: "eventually_clear (\<lambda>_ _. 0) reg bits"
  by (simp add: eventually_clear_def)

text \<open>The first picture is decoded on its own, from any kind of sequence.\<close>

lemma ex_dec_first:
  obtains pics1 heap1 where
    "h264d_session (\<lambda>_ _. 0) first_with_timestamp ex_dec_alloc ctx ex_dec_coded pix base pics1 {0} heap1"
    "map pic_timestamp pics1 = [1, 2]" "map pic_addr pics1 = [0x40000000, 0x41000000]"
    "mv_col_buf_size (pic_engine (pics1 ! 0)) = mv_col_field_size ex_dec_coded (dj_sps (ex_dec_job flags (ex_slice SLICE_TYPE_I []) [])) * 2"
proof -
  let ?j = "ex_dec_job flags (ex_slice SLICE_TYPE_I []) []"
  let ?p = "ex_dec_pictures"
  have c: "h264d_conforming first_with_timestamp ?p {} ?j 0"
    by (simp add: h264d_conforming_def dpb_refs_def ex_dec_job_def first_with_timestamp_def ex_dec_pictures_def
        ex_dec_picture_def upt_rec)
  obtain ret pics1 heap1 log1 where r: "h264d_job_configure (\<lambda>_ _. 0) first_with_timestamp ex_dec_alloc ctx
      ex_dec_coded pix (0, 0) ?j True 0 ?p base [] = Some (ret, pics1, heap1, log1)" "ret = None"
    using job_configure_returns[OF ex_clear, of 0 ?p first_with_timestamp ex_dec_alloc ctx ex_dec_coded pix "(0, 0)" ?j
      True base "[]"] by (auto simp: ex_dec_pictures_def ex_dec_alloc_def)
  have "h264d_session (\<lambda>_ _. 0) first_with_timestamp ex_dec_alloc ctx ex_dec_coded pix base ?p {} base"
    by (rule h264d_session.start) (simp add: ex_dec_pictures_def ex_dec_picture_def)
  from h264d_session.job[OF this c r(1)[unfolded r(2)]]
  have s: "h264d_session (\<lambda>_ _. 0) first_with_timestamp ex_dec_alloc ctx ex_dec_coded pix base pics1 {0} heap1"
    by (simp add: dpb_refs_def ex_dec_job_def)
  obtain log2 log3 where w: "cedrus_write_frame_list first_with_timestamp ex_dec_alloc ex_dec_coded pix ?j 0 ?p base log2 =
      (None, pics1, heap1, log3)" using job_configure_cases[OF r(1)[unfolded r(2)]] by metis
  have "mv_col_buf_size (pic_engine (pics1 ! 0)) = mv_col_field_size ex_dec_coded (dj_sps ?j) * 2"
    using w by (auto simp: cedrus_write_frame_list_def ex_dec_pictures_def ex_dec_picture_def ex_dec_alloc_def Let_def
        simp del: if_split split: prod.splits)
  then show ?thesis
    using that[OF s] write_frame_list_buffers[OF w] by (simp add: ex_dec_pictures_def ex_dec_picture_def)
qed

text \<open>The second picture refers to the first.\<close>

definition ex_dec_second :: h264d_job where
  "ex_dec_second = ex_dec_job {SPS_FLAG_FRAME_MBS_ONLY}
     (ex_slice SLICE_TYPE_P [\<lparr>ref_fields = FRAME_REF, ref_index = 0\<rparr>]) [ex_dpb_entry 1]"

lemma ex_dec_lookup:
  fixes pics :: h264d_pictures
  shows "map pic_timestamp pics = [1, 2] \<Longrightarrow> first_with_timestamp pics 1 = Some 0"
  "map pic_timestamp pics = [1, 2] \<Longrightarrow> first_with_timestamp pics 2 = Some 1"
  using find_contractD(3)[OF first_with_timestamp_contract, of pics ex_dec_pictures 1]
    find_contractD(3)[OF first_with_timestamp_contract, of pics ex_dec_pictures 2]
  by (simp_all add: ex_dec_pictures_def ex_dec_picture_def first_with_timestamp_def upt_rec)

theorem h264_dec_references_witness:
  "\<exists>pics1 heap1 pics2 heap2 log2.
     h264d_job_configure (\<lambda>_ _. 0) first_with_timestamp ex_dec_alloc ex_dec_context ex_dec_coded zero_pix (0, 0)
       ex_dec_second True 1 pics1 heap1 [] = Some (None, pics2, heap2, log2) \<and>
     frame_entry (avc_mem log2) (list_entry (avc_mem log2) SRAM_REF_LIST_0 0 div 2) ! 3 = 0x40000000"
proof -
  obtain pics1 heap1 where s:
    "h264d_session (\<lambda>_ _. 0) first_with_timestamp ex_dec_alloc ex_dec_context ex_dec_coded zero_pix [] pics1 {0} heap1"
    "map pic_timestamp pics1 = [1, 2]" "map pic_addr pics1 = [0x40000000, 0x41000000]"
    using ex_dec_first[where base = "[]" and ctx = ex_dec_context and pix = zero_pix] by metis
  have len: "length pics1 = 2" using s(2) map_eq_imp_length_eq[of pic_timestamp pics1 id "[1, 2]"] by simp
  have ts: "pic_timestamp (pics1 ! 1) = 2" "pic_addr (pics1 ! 0) = 0x40000000"
    using s(2,3) len nth_map[of 1 pics1 pic_timestamp] nth_map[of 0 pics1 pic_addr] by simp_all
  have found: "dpb_found first_with_timestamp pics1 (ex_dpb_entry 1) = Some 0"
    using ex_dec_lookup(1)[OF s(2)] by (simp add: dpb_found_def ex_dpb_entry_def)
  have c: "h264d_conforming first_with_timestamp pics1 {0} ex_dec_second 1"
    using found ex_dec_lookup(2)[OF s(2)] ts len
    by (simp add: h264d_conforming_def dpb_refs_def ex_dec_second_def ex_dec_job_def)
  obtain pics2 heap2 log2 where r: "h264d_job_configure (\<lambda>_ _. 0) first_with_timestamp ex_dec_alloc ex_dec_context
      ex_dec_coded zero_pix (0, 0) ex_dec_second True 1 pics1 heap1 [] = Some (None, pics2, heap2, log2)"
    using job_configure_returns[OF ex_clear, of 1 pics1 first_with_timestamp ex_dec_alloc ex_dec_context ex_dec_coded
      zero_pix "(0, 0)" ex_dec_second True heap1 "[]"] len by (auto simp: ex_dec_alloc_def)
  have checked: "slice_checked (dj_slice_params ex_dec_second)"
    by (simp add: slice_checked_def ex_dec_second_def ex_dec_job_def ex_slice_def)
  have lists: "(SRAM_REF_LIST_0, [\<lparr>ref_fields = FRAME_REF, ref_index = 0\<rparr>]) \<in> slice_lists ex_dec_second"
    by (simp add: slice_lists_def has_list0_def has_list1_def num_refs_def Let_def ex_dec_second_def ex_dec_job_def ex_slice_def)
  note t = h264_dec_references[OF s(1) first_with_timestamp_contract c checked r lists, of 0, OF _ _ refl]
  have "frame_entry (avc_mem log2) (list_entry (avc_mem log2) SRAM_REF_LIST_0 0 div 2) =
      ref_words zero_pix (pics2 ! 0) 0 1 \<and> pic_addr (pics2 ! 0) = 0x40000000"
    using t[of 0] ex_dec_lookup(1)[OF s(2)] ts(2)
    by (simp add: ex_dec_second_def ex_dec_job_def ex_dpb_entry_def)
  then show ?thesis using r
    by (auto simp: ref_words_def cedrus_buffer_picture_dma_def mv_col_buf_addrs_def intro!: exI)
qed

text \<open>The buffer for the motion vectors of a picture keeps the size it got with its first job.  In a
  session where the sequence parameter set changes from frames to fields without a change of the
  size, the buffer is half as large as a picture now needs, and it is given to the engine as it is.\<close>

theorem h264_dec_mv_stale:
  "\<exists>pics heap job pics' heap' log'.
     h264d_session (\<lambda>_ _. 0) first_with_timestamp ex_dec_alloc ctx ex_dec_coded pix [] pics {0} heap \<and>
     h264d_conforming first_with_timestamp pics {0} job 0 \<and>
     h264d_job_configure (\<lambda>_ _. 0) first_with_timestamp ex_dec_alloc ctx ex_dec_coded pix (0, 0) job True 0
       pics heap [] = Some (None, pics', heap', log') \<and>
     2 * mv_col_buf_size (pic_engine (pics' ! 0)) = mv_col_field_size ex_dec_coded (dj_sps job) * 2"
proof -
  let ?j = "ex_dec_job {} (ex_slice SLICE_TYPE_I []) []"
  obtain pics heap where s:
    "h264d_session (\<lambda>_ _. 0) first_with_timestamp ex_dec_alloc ctx ex_dec_coded pix [] pics {0} heap"
    "map pic_timestamp pics = [1, 2]"
    "mv_col_buf_size (pic_engine (pics ! 0)) = mv_col_field_size ex_dec_coded
       (dj_sps (ex_dec_job {SPS_FLAG_FRAME_MBS_ONLY} (ex_slice SLICE_TYPE_I []) [])) * 2"
    using ex_dec_first[where base = "[]" and ctx = ctx and pix = pix and flags = "{SPS_FLAG_FRAME_MBS_ONLY}"] by metis
  have len: "length pics = 2" using s(2) map_eq_imp_length_eq[of pic_timestamp pics id "[1, 2]"] by simp
  have ts: "pic_timestamp (pics ! 0) = 1" using s(2) len nth_map[of 0 pics pic_timestamp] by simp
  have c: "h264d_conforming first_with_timestamp pics {0} ?j 0"
    using ex_dec_lookup(1)[OF s(2)] ts len by (simp add: h264d_conforming_def dpb_refs_def ex_dec_job_def)
  obtain pics' heap' log' where r: "h264d_job_configure (\<lambda>_ _. 0) first_with_timestamp ex_dec_alloc ctx
      ex_dec_coded pix (0, 0) ?j True 0 pics heap [] = Some (None, pics', heap', log')"
    using job_configure_returns[OF ex_clear, of 0 pics first_with_timestamp ex_dec_alloc ctx ex_dec_coded
      pix "(0, 0)" ?j True heap "[]"] len by (auto simp: ex_dec_alloc_def)
  obtain log2 log3 where w: "cedrus_write_frame_list first_with_timestamp ex_dec_alloc ex_dec_coded pix ?j 0 pics heap log2 =
      (None, pics', heap', log3)" using job_configure_cases[OF r] by metis
  have size: "mv_col_buf_size (pic_engine (pics ! 0)) = 230400"
    by (simp add: s(3) mv_col_field_size_def ex_dec_coded_def zero_pix_def ex_dec_job_def DIV_ROUND_UP_def)
  then have "mv_col_buf_size (pic_engine (pics' ! 0)) = 230400"
    using w len by (auto simp: cedrus_write_frame_list_def Let_def simp del: if_split split: prod.splits)
  moreover have "mv_col_field_size ex_dec_coded (dj_sps ?j) = 230400"
    by (simp add: mv_col_field_size_def ex_dec_coded_def zero_pix_def ex_dec_job_def DIV_ROUND_UP_def)
  ultimately show ?thesis using s(1) c r by (metis mult.commute)
qed

theorem h264_dec_memory_balanced_witness:
  "\<exists>ctx base pics heap. h264d_setup ex_dec_alloc 1280 720 [] = (Inr ctx, base) \<and> length base = 2 \<and>
     h264d_session (\<lambda>_ _. 0) first_with_timestamp ex_dec_alloc ctx ex_dec_coded zero_pix base pics {0} heap \<and>
     mset (h264d_cleanup ctx (release_buffers pics heap)) = {#}"
proof -
  obtain ctx base where s: "h264d_setup ex_dec_alloc 1280 720 [] = (Inr ctx, base)" "length base = 2"
    by (simp add: h264d_setup_def ex_dec_alloc_def Let_def)
  obtain pics heap where r:
    "h264d_session (\<lambda>_ _. 0) first_with_timestamp ex_dec_alloc ctx ex_dec_coded zero_pix base pics {0} heap"
    using ex_dec_first[where base = base and ctx = ctx and pix = zero_pix] by metis
  have "pix_width ex_dec_coded \<noteq> 0" "pix_height ex_dec_coded \<noteq> 0" by (simp_all add: ex_dec_coded_def)
  then have "mset (h264d_cleanup ctx (release_buffers pics heap)) = {#}"
    using h264_dec_memory_balanced[OF s(1)] r by auto
  then show ?thesis using s r by blast
qed

end
