(* ===== verification/Cedrus_Dec_Regs.thy ===== *)
theory Cedrus_Dec_Regs
  imports Cedrus_Regs
begin

text \<open>The registers and register fields of \<open>cedrus_regs.h\<close> that the MPEG-2, H.265, VP8 and VP9 decoders
  use, under the names of the header.\<close>

definition VE_ENGINE_DEC_MPEG :: u32 where
  [hdr_simps]: "VE_ENGINE_DEC_MPEG = 0x100"

definition VE_ENGINE_DEC_H265 :: u32 where
  [hdr_simps]: "VE_ENGINE_DEC_H265 = 0x500"

definition VE_ENGINE_DEC_VP9 :: u32 where
  [hdr_simps]: "VE_ENGINE_DEC_VP9 = VE_ENGINE_DEC_H265"

definition VE_DEC_VP9_HDR_SYNC :: u32 where
  [hdr_simps]: "VE_DEC_VP9_HDR_SYNC = (VE_ENGINE_DEC_VP9 + 0x04)"

definition VE_DEC_VP9_PIC_SIZE :: u32 where
  [hdr_simps]: "VE_DEC_VP9_PIC_SIZE = (VE_ENGINE_DEC_VP9 + 0x08)"

definition VE_DEC_VP9_LAST_PIC_SIZE :: u32 where
  [hdr_simps]: "VE_DEC_VP9_LAST_PIC_SIZE = (VE_ENGINE_DEC_VP9 + 0x0c)"

definition VE_DEC_VP9_GOLDEN_PIC_SIZE :: u32 where
  [hdr_simps]: "VE_DEC_VP9_GOLDEN_PIC_SIZE = (VE_ENGINE_DEC_VP9 + 0x10)"

definition VE_DEC_VP9_ALTREF_PIC_SIZE :: u32 where
  [hdr_simps]: "VE_DEC_VP9_ALTREF_PIC_SIZE = (VE_ENGINE_DEC_VP9 + 0x14)"

definition VE_DEC_VP9_LAST_SCALE0 :: u32 where
  [hdr_simps]: "VE_DEC_VP9_LAST_SCALE0 = (VE_ENGINE_DEC_VP9 + 0x18)"

definition VE_DEC_VP9_LAST_SCALE1 :: u32 where
  [hdr_simps]: "VE_DEC_VP9_LAST_SCALE1 = (VE_ENGINE_DEC_VP9 + 0x1c)"

definition VE_DEC_VP9_GOLDEN_SCALE0 :: u32 where
  [hdr_simps]: "VE_DEC_VP9_GOLDEN_SCALE0 = (VE_ENGINE_DEC_VP9 + 0x20)"

definition VE_DEC_VP9_GOLDEN_SCALE1 :: u32 where
  [hdr_simps]: "VE_DEC_VP9_GOLDEN_SCALE1 = (VE_ENGINE_DEC_VP9 + 0x24)"

definition VE_DEC_VP9_ALTREF_SCALE0 :: u32 where
  [hdr_simps]: "VE_DEC_VP9_ALTREF_SCALE0 = (VE_ENGINE_DEC_VP9 + 0x28)"

definition VE_DEC_VP9_ALTREF_SCALE1 :: u32 where
  [hdr_simps]: "VE_DEC_VP9_ALTREF_SCALE1 = (VE_ENGINE_DEC_VP9 + 0x2c)"

definition VE_DEC_VP9_FUNC_CTRL :: u32 where
  [hdr_simps]: "VE_DEC_VP9_FUNC_CTRL = (VE_ENGINE_DEC_VP9 + 0x30)"

definition VE_DEC_VP9_TRIGGER :: u32 where
  [hdr_simps]: "VE_DEC_VP9_TRIGGER = (VE_ENGINE_DEC_VP9 + 0x34)"

definition VE_DEC_VP9_STATUS :: u32 where
  [hdr_simps]: "VE_DEC_VP9_STATUS = (VE_ENGINE_DEC_VP9 + 0x38)"

definition VE_DEC_VP9_STATUS_MASK :: u32 where
  [hdr_simps]: "VE_DEC_VP9_STATUS_MASK = GENMASK 2 0"

definition VE_DEC_VP9_BITS_ADDR :: u32 where
  [hdr_simps]: "VE_DEC_VP9_BITS_ADDR = (VE_ENGINE_DEC_VP9 + 0x40)"

definition VE_DEC_VP9_BITS_OFFSET :: u32 where
  [hdr_simps]: "VE_DEC_VP9_BITS_OFFSET = (VE_ENGINE_DEC_VP9 + 0x44)"

definition VE_DEC_VP9_BITS_LEN :: u32 where
  [hdr_simps]: "VE_DEC_VP9_BITS_LEN = (VE_ENGINE_DEC_VP9 + 0x48)"

definition VE_DEC_VP9_BITS_END_ADDR :: u32 where
  [hdr_simps]: "VE_DEC_VP9_BITS_END_ADDR = (VE_ENGINE_DEC_VP9 + 0x4c)"

definition VE_DEC_VP9_SDRT_LUMA_ADDR :: u32 where
  [hdr_simps]: "VE_DEC_VP9_SDRT_LUMA_ADDR = (VE_ENGINE_DEC_VP9 + 0x54)"

definition VE_DEC_VP9_SDRT_CHROMA_ADDR :: u32 where
  [hdr_simps]: "VE_DEC_VP9_SDRT_CHROMA_ADDR = (VE_ENGINE_DEC_VP9 + 0x58)"

definition VE_DEC_VP9_SEGMENT_FEATURE :: u32 where
  [hdr_simps]: "VE_DEC_VP9_SEGMENT_FEATURE = (VE_ENGINE_DEC_VP9 + 0x5c)"

definition VE_DEC_VP9_NEIGHBOR_ADDR :: u32 where
  [hdr_simps]: "VE_DEC_VP9_NEIGHBOR_ADDR = (VE_ENGINE_DEC_VP9 + 0x60)"

definition VE_DEC_VP9_ENTRY_POINT_OFFSET_ADDR :: u32 where
  [hdr_simps]: "VE_DEC_VP9_ENTRY_POINT_OFFSET_ADDR = (VE_ENGINE_DEC_VP9 + 0x64)"

definition VE_DEC_VP9_TILE_START :: u32 where
  [hdr_simps]: "VE_DEC_VP9_TILE_START = (VE_ENGINE_DEC_VP9 + 0x68)"

definition VE_DEC_VP9_TILE_END :: u32 where
  [hdr_simps]: "VE_DEC_VP9_TILE_END = (VE_ENGINE_DEC_VP9 + 0x6c)"

definition VE_DEC_VP9_TQ_BYPASS_ADDR :: u32 where
  [hdr_simps]: "VE_DEC_VP9_TQ_BYPASS_ADDR = (VE_ENGINE_DEC_VP9 + 0x70)"

definition VE_DEC_VP9_VLD_BYPASS_ADDR :: u32 where
  [hdr_simps]: "VE_DEC_VP9_VLD_BYPASS_ADDR = (VE_ENGINE_DEC_VP9 + 0x74)"

definition VE_DEC_VP9_COL_MV_ADDR :: u32 where
  [hdr_simps]: "VE_DEC_VP9_COL_MV_ADDR = (VE_ENGINE_DEC_VP9 + 0x78)"

definition VE_DEC_VP9_ALTREF_CHROMA_ADDR :: u32 where
  [hdr_simps]: "VE_DEC_VP9_ALTREF_CHROMA_ADDR = (VE_ENGINE_DEC_VP9 + 0x7c)"

definition VE_DEC_VP9_ENTROPY_LOWER8 :: u32 where
  [hdr_simps]: "VE_DEC_VP9_ENTROPY_LOWER8 = (VE_ENGINE_DEC_VP9 + 0x80)"

definition VE_DEC_VP9_FIRST_OUTPUT_OFFSET_ADDR :: u32 where
  [hdr_simps]: "VE_DEC_VP9_FIRST_OUTPUT_OFFSET_ADDR = (VE_ENGINE_DEC_VP9 + 0x84)"

definition VE_DEC_VP9_10BIT_CONFIGURE :: u32 where
  [hdr_simps]: "VE_DEC_VP9_10BIT_CONFIGURE = (VE_ENGINE_DEC_VP9 + 0x8c)"

definition VE_DEC_VP9_CURRENT_LUMA_ADDR :: u32 where
  [hdr_simps]: "VE_DEC_VP9_CURRENT_LUMA_ADDR = (VE_ENGINE_DEC_VP9 + 0x90)"

definition VE_DEC_VP9_CURRENT_CHROMA_ADDR :: u32 where
  [hdr_simps]: "VE_DEC_VP9_CURRENT_CHROMA_ADDR = (VE_ENGINE_DEC_VP9 + 0x94)"

definition VE_DEC_VP9_LAST_LUMA_ADDR :: u32 where
  [hdr_simps]: "VE_DEC_VP9_LAST_LUMA_ADDR = (VE_ENGINE_DEC_VP9 + 0x98)"

definition VE_DEC_VP9_LAST_CHROMA_ADDR :: u32 where
  [hdr_simps]: "VE_DEC_VP9_LAST_CHROMA_ADDR = (VE_ENGINE_DEC_VP9 + 0x9c)"

definition VE_DEC_VP9_GOLDEN_LUMA_ADDR :: u32 where
  [hdr_simps]: "VE_DEC_VP9_GOLDEN_LUMA_ADDR = (VE_ENGINE_DEC_VP9 + 0xa0)"

definition VE_DEC_VP9_GOLDEN_CHROMA_ADDR :: u32 where
  [hdr_simps]: "VE_DEC_VP9_GOLDEN_CHROMA_ADDR = (VE_ENGINE_DEC_VP9 + 0xa4)"

definition VE_DEC_VP9_ALTREF_LUMA_ADDR :: u32 where
  [hdr_simps]: "VE_DEC_VP9_ALTREF_LUMA_ADDR = (VE_ENGINE_DEC_VP9 + 0xa8)"

definition VE_DEC_VP9_SEGMENT_ID_ADDR :: u32 where
  [hdr_simps]: "VE_DEC_VP9_SEGMENT_ID_ADDR = (VE_ENGINE_DEC_VP9 + 0xb0)"

definition VE_DEC_VP9_SRAM_OFFSET :: u32 where
  [hdr_simps]: "VE_DEC_VP9_SRAM_OFFSET = (VE_ENGINE_DEC_VP9 + 0xe0)"

definition VE_DEC_VP9_SRAM_DATA :: u32 where
  [hdr_simps]: "VE_DEC_VP9_SRAM_DATA = (VE_ENGINE_DEC_VP9 + 0xe4)"

definition VE_DEC_VP9_STD_BIT_OFFSET :: u32 where
  [hdr_simps]: "VE_DEC_VP9_STD_BIT_OFFSET = (VE_ENGINE_DEC_VP9 + 0xf0)"

definition VE_DEC_VP9_BITS_ADDR_FIRST_FRAME :: u32 where
  [hdr_simps]: "VE_DEC_VP9_BITS_ADDR_FIRST_FRAME = BIT 30"

definition VE_DEC_VP9_BITS_ADDR_LAST_FRAME :: u32 where
  [hdr_simps]: "VE_DEC_VP9_BITS_ADDR_LAST_FRAME = BIT 29"

definition VE_DEC_VP9_BITS_ADDR_VALID_DATA :: u32 where
  [hdr_simps]: "VE_DEC_VP9_BITS_ADDR_VALID_DATA = BIT 28"

definition VE_DEC_VP9_BITS_ADDR_BASE :: "u64 \<Rightarrow> u32" where
  [hdr_simps]: "VE_DEC_VP9_BITS_ADDR_BASE a = ucast (drop_bit 8 a AND GENMASK 27 0)"

definition VE_DEC_VP9_BITS_END_ADDR_BASE :: "u64 \<Rightarrow> u32" where
  [hdr_simps]: "VE_DEC_VP9_BITS_END_ADDR_BASE a = ucast (drop_bit 8 a AND GENMASK 29 2)"

definition VE_DEC_VP9_DMA_ADDR_BASE :: "u64 \<Rightarrow> u32" where
  [hdr_simps]: "VE_DEC_VP9_DMA_ADDR_BASE a = ucast (drop_bit 8 a)"

definition VE_DEC_VP9_10BIT_CONFIGURE_FIRST_2BIT_STRIDE :: "int \<Rightarrow> u32" where
  [hdr_simps]: "VE_DEC_VP9_10BIT_CONFIGURE_FIRST_2BIT_STRIDE v = SHIFT_AND_MASK_BITS v 11 0"

definition VE_DEC_VP9_FUNC_CTRL_ROTATE_SCALE_OUT_EN :: u32 where
  [hdr_simps]: "VE_DEC_VP9_FUNC_CTRL_ROTATE_SCALE_OUT_EN = BIT 9"

definition VE_DEC_VP9_FUNC_CTRL_IRQ_MASK :: u32 where
  [hdr_simps]: "VE_DEC_VP9_FUNC_CTRL_IRQ_MASK = GENMASK 2 0"

definition VE_DEC_VP9_TRIGGER_PROBS :: u32 where
  [hdr_simps]: "VE_DEC_VP9_TRIGGER_PROBS = 7"

definition VE_DEC_VP9_TRIGGER_FRAME :: u32 where
  [hdr_simps]: "VE_DEC_VP9_TRIGGER_FRAME = 8"

definition VE_DEC_VP9_STATUS_SUCCESS :: u32 where
  [hdr_simps]: "VE_DEC_VP9_STATUS_SUCCESS = BIT 0"

definition VE_DEC_VP9_STATUS_ERROR_MASK :: u32 where
  [hdr_simps]: "VE_DEC_VP9_STATUS_ERROR_MASK = GENMASK 2 1"

definition VE_RESET_DECODER_RESET :: u32 where
  [hdr_simps]: "VE_RESET_DECODER_RESET = BIT 16"

definition VE_SECONDARY_FB_LINE_STRIDE :: u32 where
  [hdr_simps]: "VE_SECONDARY_FB_LINE_STRIDE = 0xcc"

definition VE_SECONDARY_OUT_FMT_EXT :: u32 where
  [hdr_simps]: "VE_SECONDARY_OUT_FMT_EXT = push_bit 30 1"

definition VE_CHROMA_BUF_LEN_SDRT :: "int \<Rightarrow> u32" where
  [hdr_simps]: "VE_CHROMA_BUF_LEN_SDRT l = SHIFT_AND_MASK_BITS l 27 0"

definition VE_PRIMARY_OUT_FMT_NV21 :: u32 where
  [hdr_simps]: "VE_PRIMARY_OUT_FMT_NV21 = push_bit 4 5"

definition VE_SECONDARY_OUT_FMT_EXT_NV12 :: u32 where
  [hdr_simps]: "VE_SECONDARY_OUT_FMT_EXT_NV12 = push_bit 0 4"

definition VE_DEC_MPEG_MP12HDR :: u32 where
  [hdr_simps]: "VE_DEC_MPEG_MP12HDR = (VE_ENGINE_DEC_MPEG + 0x00)"

definition VE_DEC_MPEG_MP12HDR_SLICE_TYPE :: "int \<Rightarrow> u32" where
  [hdr_simps]: "VE_DEC_MPEG_MP12HDR_SLICE_TYPE t = SHIFT_AND_MASK_BITS t 30 28"

definition VE_DEC_MPEG_MP12HDR_F_CODE_SHIFT :: "nat \<Rightarrow> nat \<Rightarrow> nat" where
  [hdr_simps]: "VE_DEC_MPEG_MP12HDR_F_CODE_SHIFT x y = 24 - 4 * y - 8 * x"

definition VE_DEC_MPEG_MP12HDR_F_CODE :: "nat \<Rightarrow> nat \<Rightarrow> u32 \<Rightarrow> u32" where
  [hdr_simps]: "VE_DEC_MPEG_MP12HDR_F_CODE x y v = push_bit (VE_DEC_MPEG_MP12HDR_F_CODE_SHIFT x y) (v AND GENMASK 3 0)"

definition VE_DEC_MPEG_MP12HDR_INTRA_DC_PRECISION :: "int \<Rightarrow> u32" where
  [hdr_simps]: "VE_DEC_MPEG_MP12HDR_INTRA_DC_PRECISION p = SHIFT_AND_MASK_BITS p 11 10"

definition VE_DEC_MPEG_MP12HDR_INTRA_PICTURE_STRUCTURE :: "int \<Rightarrow> u32" where
  [hdr_simps]: "VE_DEC_MPEG_MP12HDR_INTRA_PICTURE_STRUCTURE s = SHIFT_AND_MASK_BITS s 9 8"

definition VE_DEC_MPEG_MP12HDR_TOP_FIELD_FIRST :: "bool \<Rightarrow> u32" where
  [hdr_simps]: "VE_DEC_MPEG_MP12HDR_TOP_FIELD_FIRST v = (if v then BIT 7 else 0)"

definition VE_DEC_MPEG_MP12HDR_FRAME_PRED_FRAME_DCT :: "bool \<Rightarrow> u32" where
  [hdr_simps]: "VE_DEC_MPEG_MP12HDR_FRAME_PRED_FRAME_DCT v = (if v then BIT 6 else 0)"

definition VE_DEC_MPEG_MP12HDR_CONCEALMENT_MOTION_VECTORS :: "bool \<Rightarrow> u32" where
  [hdr_simps]: "VE_DEC_MPEG_MP12HDR_CONCEALMENT_MOTION_VECTORS v = (if v then BIT 5 else 0)"

definition VE_DEC_MPEG_MP12HDR_Q_SCALE_TYPE :: "bool \<Rightarrow> u32" where
  [hdr_simps]: "VE_DEC_MPEG_MP12HDR_Q_SCALE_TYPE v = (if v then BIT 4 else 0)"

definition VE_DEC_MPEG_MP12HDR_INTRA_VLC_FORMAT :: "bool \<Rightarrow> u32" where
  [hdr_simps]: "VE_DEC_MPEG_MP12HDR_INTRA_VLC_FORMAT v = (if v then BIT 3 else 0)"

definition VE_DEC_MPEG_MP12HDR_ALTERNATE_SCAN :: "bool \<Rightarrow> u32" where
  [hdr_simps]: "VE_DEC_MPEG_MP12HDR_ALTERNATE_SCAN v = (if v then BIT 2 else 0)"

definition VE_DEC_MPEG_MP12HDR_FULL_PEL_FORWARD_VECTOR :: "bool \<Rightarrow> u32" where
  [hdr_simps]: "VE_DEC_MPEG_MP12HDR_FULL_PEL_FORWARD_VECTOR v = (if v then BIT 1 else 0)"

definition VE_DEC_MPEG_MP12HDR_FULL_PEL_BACKWARD_VECTOR :: "bool \<Rightarrow> u32" where
  [hdr_simps]: "VE_DEC_MPEG_MP12HDR_FULL_PEL_BACKWARD_VECTOR v = (if v then BIT 0 else 0)"

definition VE_DEC_MPEG_PICCODEDSIZE :: u32 where
  [hdr_simps]: "VE_DEC_MPEG_PICCODEDSIZE = (VE_ENGINE_DEC_MPEG + 0x08)"

definition VE_DEC_MPEG_PICCODEDSIZE_WIDTH :: "nat \<Rightarrow> u32" where
  [hdr_simps]: "VE_DEC_MPEG_PICCODEDSIZE_WIDTH w = SHIFT_AND_MASK_BITS (int (DIV_ROUND_UP w 16)) 15 8"

definition VE_DEC_MPEG_PICCODEDSIZE_HEIGHT :: "nat \<Rightarrow> u32" where
  [hdr_simps]: "VE_DEC_MPEG_PICCODEDSIZE_HEIGHT h = SHIFT_AND_MASK_BITS (int (DIV_ROUND_UP h 16)) 7 0"

definition VE_DEC_MPEG_PICBOUNDSIZE :: u32 where
  [hdr_simps]: "VE_DEC_MPEG_PICBOUNDSIZE = (VE_ENGINE_DEC_MPEG + 0x0c)"

definition VE_DEC_MPEG_PICBOUNDSIZE_WIDTH :: "int \<Rightarrow> u32" where
  [hdr_simps]: "VE_DEC_MPEG_PICBOUNDSIZE_WIDTH w = SHIFT_AND_MASK_BITS w 27 16"

definition VE_DEC_MPEG_PICBOUNDSIZE_HEIGHT :: "int \<Rightarrow> u32" where
  [hdr_simps]: "VE_DEC_MPEG_PICBOUNDSIZE_HEIGHT h = SHIFT_AND_MASK_BITS h 11 0"

definition VE_DEC_MPEG_MBADDR :: u32 where
  [hdr_simps]: "VE_DEC_MPEG_MBADDR = (VE_ENGINE_DEC_MPEG + 0x10)"

definition VE_DEC_MPEG_MBADDR_X :: "int \<Rightarrow> u32" where
  [hdr_simps]: "VE_DEC_MPEG_MBADDR_X w = SHIFT_AND_MASK_BITS w 15 8"

definition VE_DEC_MPEG_MBADDR_Y :: "int \<Rightarrow> u32" where
  [hdr_simps]: "VE_DEC_MPEG_MBADDR_Y h = SHIFT_AND_MASK_BITS h 7 0"

definition VE_DEC_MPEG_CTRL :: u32 where
  [hdr_simps]: "VE_DEC_MPEG_CTRL = (VE_ENGINE_DEC_MPEG + 0x14)"

definition VE_DEC_MPEG_CTRL_MC_CACHE_EN :: u32 where
  [hdr_simps]: "VE_DEC_MPEG_CTRL_MC_CACHE_EN = BIT 31"

definition VE_DEC_MPEG_CTRL_MC_NO_WRITEBACK :: u32 where
  [hdr_simps]: "VE_DEC_MPEG_CTRL_MC_NO_WRITEBACK = BIT 7"

definition VE_DEC_MPEG_CTRL_VLD_DATA_REQ_IRQ_EN :: u32 where
  [hdr_simps]: "VE_DEC_MPEG_CTRL_VLD_DATA_REQ_IRQ_EN = BIT 5"

definition VE_DEC_MPEG_CTRL_ERROR_IRQ_EN :: u32 where
  [hdr_simps]: "VE_DEC_MPEG_CTRL_ERROR_IRQ_EN = BIT 4"

definition VE_DEC_MPEG_CTRL_FINISH_IRQ_EN :: u32 where
  [hdr_simps]: "VE_DEC_MPEG_CTRL_FINISH_IRQ_EN = BIT 3"

definition VE_DEC_MPEG_CTRL_IRQ_MASK :: u32 where
  [hdr_simps]: "VE_DEC_MPEG_CTRL_IRQ_MASK = (VE_DEC_MPEG_CTRL_FINISH_IRQ_EN OR VE_DEC_MPEG_CTRL_ERROR_IRQ_EN OR VE_DEC_MPEG_CTRL_VLD_DATA_REQ_IRQ_EN)"

definition VE_DEC_MPEG_TRIGGER :: u32 where
  [hdr_simps]: "VE_DEC_MPEG_TRIGGER = (VE_ENGINE_DEC_MPEG + 0x18)"

definition VE_DEC_MPEG_TRIGGER_MB_BOUNDARY :: u32 where
  [hdr_simps]: "VE_DEC_MPEG_TRIGGER_MB_BOUNDARY = BIT 31"

definition VE_DEC_MPEG_TRIGGER_MPEG2 :: u32 where
  [hdr_simps]: "VE_DEC_MPEG_TRIGGER_MPEG2 = push_bit 24 2"

definition VE_DEC_MPEG_TRIGGER_HW_MPEG_VLD :: u32 where
  [hdr_simps]: "VE_DEC_MPEG_TRIGGER_HW_MPEG_VLD = push_bit 0 15"

definition VE_DEC_MPEG_STATUS :: u32 where
  [hdr_simps]: "VE_DEC_MPEG_STATUS = (VE_ENGINE_DEC_MPEG + 0x1c)"

definition VE_DEC_MPEG_STATUS_VLD_DATA_REQ :: u32 where
  [hdr_simps]: "VE_DEC_MPEG_STATUS_VLD_DATA_REQ = BIT 2"

definition VE_DEC_MPEG_STATUS_ERROR :: u32 where
  [hdr_simps]: "VE_DEC_MPEG_STATUS_ERROR = BIT 1"

definition VE_DEC_MPEG_STATUS_SUCCESS :: u32 where
  [hdr_simps]: "VE_DEC_MPEG_STATUS_SUCCESS = BIT 0"

definition VE_DEC_MPEG_STATUS_CHECK_MASK :: u32 where
  [hdr_simps]: "VE_DEC_MPEG_STATUS_CHECK_MASK = (VE_DEC_MPEG_STATUS_SUCCESS OR VE_DEC_MPEG_STATUS_ERROR OR VE_DEC_MPEG_STATUS_VLD_DATA_REQ)"

definition VE_DEC_MPEG_STATUS_CHECK_ERROR :: u32 where
  [hdr_simps]: "VE_DEC_MPEG_STATUS_CHECK_ERROR = (VE_DEC_MPEG_STATUS_ERROR OR VE_DEC_MPEG_STATUS_VLD_DATA_REQ)"

definition VE_DEC_MPEG_VLD_ADDR :: u32 where
  [hdr_simps]: "VE_DEC_MPEG_VLD_ADDR = (VE_ENGINE_DEC_MPEG + 0x28)"

definition VE_DEC_MPEG_VLD_ADDR_FIRST_PIC_DATA :: u32 where
  [hdr_simps]: "VE_DEC_MPEG_VLD_ADDR_FIRST_PIC_DATA = BIT 30"

definition VE_DEC_MPEG_VLD_ADDR_LAST_PIC_DATA :: u32 where
  [hdr_simps]: "VE_DEC_MPEG_VLD_ADDR_LAST_PIC_DATA = BIT 29"

definition VE_DEC_MPEG_VLD_ADDR_VALID_PIC_DATA :: u32 where
  [hdr_simps]: "VE_DEC_MPEG_VLD_ADDR_VALID_PIC_DATA = BIT 28"

definition VE_DEC_MPEG_VLD_ADDR_BASE :: "u64 \<Rightarrow> u32" where
  [hdr_simps]: "VE_DEC_MPEG_VLD_ADDR_BASE a = (let tmp = ucast a :: u32 in (tmp AND GENMASK 27 4) OR (drop_bit 28 tmp AND GENMASK 3 0))"

definition VE_DEC_MPEG_VLD_OFFSET :: u32 where
  [hdr_simps]: "VE_DEC_MPEG_VLD_OFFSET = (VE_ENGINE_DEC_MPEG + 0x2c)"

definition VE_DEC_MPEG_VLD_LEN :: u32 where
  [hdr_simps]: "VE_DEC_MPEG_VLD_LEN = (VE_ENGINE_DEC_MPEG + 0x30)"

definition VE_DEC_MPEG_VLD_END_ADDR :: u32 where
  [hdr_simps]: "VE_DEC_MPEG_VLD_END_ADDR = (VE_ENGINE_DEC_MPEG + 0x34)"

definition VE_DEC_MPEG_REC_LUMA :: u32 where
  [hdr_simps]: "VE_DEC_MPEG_REC_LUMA = (VE_ENGINE_DEC_MPEG + 0x48)"

definition VE_DEC_MPEG_REC_CHROMA :: u32 where
  [hdr_simps]: "VE_DEC_MPEG_REC_CHROMA = (VE_ENGINE_DEC_MPEG + 0x4c)"

definition VE_DEC_MPEG_FWD_REF_LUMA_ADDR :: u32 where
  [hdr_simps]: "VE_DEC_MPEG_FWD_REF_LUMA_ADDR = (VE_ENGINE_DEC_MPEG + 0x50)"

definition VE_DEC_MPEG_FWD_REF_CHROMA_ADDR :: u32 where
  [hdr_simps]: "VE_DEC_MPEG_FWD_REF_CHROMA_ADDR = (VE_ENGINE_DEC_MPEG + 0x54)"

definition VE_DEC_MPEG_BWD_REF_LUMA_ADDR :: u32 where
  [hdr_simps]: "VE_DEC_MPEG_BWD_REF_LUMA_ADDR = (VE_ENGINE_DEC_MPEG + 0x58)"

definition VE_DEC_MPEG_BWD_REF_CHROMA_ADDR :: u32 where
  [hdr_simps]: "VE_DEC_MPEG_BWD_REF_CHROMA_ADDR = (VE_ENGINE_DEC_MPEG + 0x5c)"

definition VE_DEC_MPEG_IQMINPUT :: u32 where
  [hdr_simps]: "VE_DEC_MPEG_IQMINPUT = (VE_ENGINE_DEC_MPEG + 0x80)"

definition VE_DEC_MPEG_IQMINPUT_FLAG_INTRA :: u32 where
  [hdr_simps]: "VE_DEC_MPEG_IQMINPUT_FLAG_INTRA = push_bit 14 1"

definition VE_DEC_MPEG_IQMINPUT_FLAG_NON_INTRA :: u32 where
  [hdr_simps]: "VE_DEC_MPEG_IQMINPUT_FLAG_NON_INTRA = push_bit 14 0"

definition VE_DEC_MPEG_IQMINPUT_WEIGHT :: "int \<Rightarrow> int \<Rightarrow> u32" where
  [hdr_simps]: "VE_DEC_MPEG_IQMINPUT_WEIGHT i v = SHIFT_AND_MASK_BITS i 13 8 OR SHIFT_AND_MASK_BITS v 7 0"

definition VE_DEC_MPEG_ERROR :: u32 where
  [hdr_simps]: "VE_DEC_MPEG_ERROR = (VE_ENGINE_DEC_MPEG + 0xc4)"

definition VE_DEC_MPEG_CRTMBADDR :: u32 where
  [hdr_simps]: "VE_DEC_MPEG_CRTMBADDR = (VE_ENGINE_DEC_MPEG + 0xc8)"

definition VE_DEC_H265_DEC_NAL_HDR :: u32 where
  [hdr_simps]: "VE_DEC_H265_DEC_NAL_HDR = (VE_ENGINE_DEC_H265 + 0x00)"

definition VE_DEC_H265_DEC_NAL_HDR_NUH_TEMPORAL_ID_PLUS1 :: "int \<Rightarrow> u32" where
  [hdr_simps]: "VE_DEC_H265_DEC_NAL_HDR_NUH_TEMPORAL_ID_PLUS1 v = SHIFT_AND_MASK_BITS v 8 6"

definition VE_DEC_H265_DEC_NAL_HDR_NAL_UNIT_TYPE :: "int \<Rightarrow> u32" where
  [hdr_simps]: "VE_DEC_H265_DEC_NAL_HDR_NAL_UNIT_TYPE v = SHIFT_AND_MASK_BITS v 5 0"

definition VE_DEC_H265_FLAG :: "u32 \<Rightarrow> 'f \<Rightarrow> 'f set \<Rightarrow> u32" where
  [hdr_simps]: "VE_DEC_H265_FLAG reg_flag ctrl_flag flags = (if ctrl_flag \<in> flags then reg_flag else 0)"

definition VE_DEC_H265_DEC_SPS_HDR :: u32 where
  [hdr_simps]: "VE_DEC_H265_DEC_SPS_HDR = (VE_ENGINE_DEC_H265 + 0x04)"

definition VE_DEC_H265_DEC_SPS_HDR_FLAG_STRONG_INTRA_SMOOTHING_ENABLE :: u32 where
  [hdr_simps]: "VE_DEC_H265_DEC_SPS_HDR_FLAG_STRONG_INTRA_SMOOTHING_ENABLE = BIT 26"

definition VE_DEC_H265_DEC_SPS_HDR_FLAG_SPS_TEMPORAL_MVP_ENABLED :: u32 where
  [hdr_simps]: "VE_DEC_H265_DEC_SPS_HDR_FLAG_SPS_TEMPORAL_MVP_ENABLED = BIT 25"

definition VE_DEC_H265_DEC_SPS_HDR_FLAG_SAMPLE_ADAPTIVE_OFFSET_ENABLED :: u32 where
  [hdr_simps]: "VE_DEC_H265_DEC_SPS_HDR_FLAG_SAMPLE_ADAPTIVE_OFFSET_ENABLED = BIT 24"

definition VE_DEC_H265_DEC_SPS_HDR_FLAG_AMP_ENABLED :: u32 where
  [hdr_simps]: "VE_DEC_H265_DEC_SPS_HDR_FLAG_AMP_ENABLED = BIT 23"

definition VE_DEC_H265_DEC_SPS_HDR_FLAG_SEPARATE_COLOUR_PLANE :: u32 where
  [hdr_simps]: "VE_DEC_H265_DEC_SPS_HDR_FLAG_SEPARATE_COLOUR_PLANE = BIT 2"

definition VE_DEC_H265_DEC_SPS_HDR_MAX_TRANSFORM_HIERARCHY_DEPTH_INTRA :: "int \<Rightarrow> u32" where
  [hdr_simps]: "VE_DEC_H265_DEC_SPS_HDR_MAX_TRANSFORM_HIERARCHY_DEPTH_INTRA v = SHIFT_AND_MASK_BITS v 22 20"

definition VE_DEC_H265_DEC_SPS_HDR_MAX_TRANSFORM_HIERARCHY_DEPTH_INTER :: "int \<Rightarrow> u32" where
  [hdr_simps]: "VE_DEC_H265_DEC_SPS_HDR_MAX_TRANSFORM_HIERARCHY_DEPTH_INTER v = SHIFT_AND_MASK_BITS v 19 17"

definition VE_DEC_H265_DEC_SPS_HDR_LOG2_DIFF_MAX_MIN_TRANSFORM_BLOCK_SIZE :: "int \<Rightarrow> u32" where
  [hdr_simps]: "VE_DEC_H265_DEC_SPS_HDR_LOG2_DIFF_MAX_MIN_TRANSFORM_BLOCK_SIZE v = SHIFT_AND_MASK_BITS v 16 15"

definition VE_DEC_H265_DEC_SPS_HDR_LOG2_MIN_TRANSFORM_BLOCK_SIZE_MINUS2 :: "int \<Rightarrow> u32" where
  [hdr_simps]: "VE_DEC_H265_DEC_SPS_HDR_LOG2_MIN_TRANSFORM_BLOCK_SIZE_MINUS2 v = SHIFT_AND_MASK_BITS v 14 13"

definition VE_DEC_H265_DEC_SPS_HDR_LOG2_DIFF_MAX_MIN_LUMA_CODING_BLOCK_SIZE :: "int \<Rightarrow> u32" where
  [hdr_simps]: "VE_DEC_H265_DEC_SPS_HDR_LOG2_DIFF_MAX_MIN_LUMA_CODING_BLOCK_SIZE v = SHIFT_AND_MASK_BITS v 12 11"

definition VE_DEC_H265_DEC_SPS_HDR_LOG2_MIN_LUMA_CODING_BLOCK_SIZE_MINUS3 :: "int \<Rightarrow> u32" where
  [hdr_simps]: "VE_DEC_H265_DEC_SPS_HDR_LOG2_MIN_LUMA_CODING_BLOCK_SIZE_MINUS3 v = SHIFT_AND_MASK_BITS v 10 9"

definition VE_DEC_H265_DEC_SPS_HDR_BIT_DEPTH_CHROMA_MINUS8 :: "int \<Rightarrow> u32" where
  [hdr_simps]: "VE_DEC_H265_DEC_SPS_HDR_BIT_DEPTH_CHROMA_MINUS8 v = SHIFT_AND_MASK_BITS v 8 6"

definition VE_DEC_H265_DEC_SPS_HDR_BIT_DEPTH_LUMA_MINUS8 :: "int \<Rightarrow> u32" where
  [hdr_simps]: "VE_DEC_H265_DEC_SPS_HDR_BIT_DEPTH_LUMA_MINUS8 v = SHIFT_AND_MASK_BITS v 5 3"

definition VE_DEC_H265_DEC_SPS_HDR_CHROMA_FORMAT_IDC :: "int \<Rightarrow> u32" where
  [hdr_simps]: "VE_DEC_H265_DEC_SPS_HDR_CHROMA_FORMAT_IDC v = SHIFT_AND_MASK_BITS v 1 0"

definition VE_DEC_H265_DEC_PIC_SIZE :: u32 where
  [hdr_simps]: "VE_DEC_H265_DEC_PIC_SIZE = (VE_ENGINE_DEC_H265 + 0x08)"

definition VE_DEC_H265_DEC_PIC_SIZE_WIDTH :: "u32 \<Rightarrow> u32" where
  [hdr_simps]: "VE_DEC_H265_DEC_PIC_SIZE_WIDTH w = w AND GENMASK 13 0"

definition VE_DEC_H265_DEC_PIC_SIZE_HEIGHT :: "u32 \<Rightarrow> u32" where
  [hdr_simps]: "VE_DEC_H265_DEC_PIC_SIZE_HEIGHT h = push_bit 16 h AND GENMASK 29 16"

definition VE_DEC_H265_DEC_PCM_CTRL :: u32 where
  [hdr_simps]: "VE_DEC_H265_DEC_PCM_CTRL = (VE_ENGINE_DEC_H265 + 0x0c)"

definition VE_DEC_H265_DEC_PCM_CTRL_FLAG_PCM_ENABLED :: u32 where
  [hdr_simps]: "VE_DEC_H265_DEC_PCM_CTRL_FLAG_PCM_ENABLED = BIT 15"

definition VE_DEC_H265_DEC_PCM_CTRL_FLAG_PCM_LOOP_FILTER_DISABLED :: u32 where
  [hdr_simps]: "VE_DEC_H265_DEC_PCM_CTRL_FLAG_PCM_LOOP_FILTER_DISABLED = BIT 14"

definition VE_DEC_H265_DEC_PCM_CTRL_LOG2_DIFF_MAX_MIN_PCM_LUMA_CODING_BLOCK_SIZE :: "int \<Rightarrow> u32" where
  [hdr_simps]: "VE_DEC_H265_DEC_PCM_CTRL_LOG2_DIFF_MAX_MIN_PCM_LUMA_CODING_BLOCK_SIZE v = SHIFT_AND_MASK_BITS v 11 10"

definition VE_DEC_H265_DEC_PCM_CTRL_LOG2_MIN_PCM_LUMA_CODING_BLOCK_SIZE_MINUS3 :: "int \<Rightarrow> u32" where
  [hdr_simps]: "VE_DEC_H265_DEC_PCM_CTRL_LOG2_MIN_PCM_LUMA_CODING_BLOCK_SIZE_MINUS3 v = SHIFT_AND_MASK_BITS v 9 8"

definition VE_DEC_H265_DEC_PCM_CTRL_PCM_SAMPLE_BIT_DEPTH_CHROMA_MINUS1 :: "int \<Rightarrow> u32" where
  [hdr_simps]: "VE_DEC_H265_DEC_PCM_CTRL_PCM_SAMPLE_BIT_DEPTH_CHROMA_MINUS1 v = SHIFT_AND_MASK_BITS v 7 4"

definition VE_DEC_H265_DEC_PCM_CTRL_PCM_SAMPLE_BIT_DEPTH_LUMA_MINUS1 :: "int \<Rightarrow> u32" where
  [hdr_simps]: "VE_DEC_H265_DEC_PCM_CTRL_PCM_SAMPLE_BIT_DEPTH_LUMA_MINUS1 v = SHIFT_AND_MASK_BITS v 3 0"

definition VE_DEC_H265_DEC_PPS_CTRL0 :: u32 where
  [hdr_simps]: "VE_DEC_H265_DEC_PPS_CTRL0 = (VE_ENGINE_DEC_H265 + 0x10)"

definition VE_DEC_H265_DEC_PPS_CTRL0_FLAG_CU_QP_DELTA_ENABLED :: u32 where
  [hdr_simps]: "VE_DEC_H265_DEC_PPS_CTRL0_FLAG_CU_QP_DELTA_ENABLED = BIT 3"

definition VE_DEC_H265_DEC_PPS_CTRL0_FLAG_TRANSFORM_SKIP_ENABLED :: u32 where
  [hdr_simps]: "VE_DEC_H265_DEC_PPS_CTRL0_FLAG_TRANSFORM_SKIP_ENABLED = BIT 2"

definition VE_DEC_H265_DEC_PPS_CTRL0_FLAG_CONSTRAINED_INTRA_PRED :: u32 where
  [hdr_simps]: "VE_DEC_H265_DEC_PPS_CTRL0_FLAG_CONSTRAINED_INTRA_PRED = BIT 1"

definition VE_DEC_H265_DEC_PPS_CTRL0_FLAG_SIGN_DATA_HIDING_ENABLED :: u32 where
  [hdr_simps]: "VE_DEC_H265_DEC_PPS_CTRL0_FLAG_SIGN_DATA_HIDING_ENABLED = BIT 0"

definition VE_DEC_H265_DEC_PPS_CTRL0_PPS_CR_QP_OFFSET :: "int \<Rightarrow> u32" where
  [hdr_simps]: "VE_DEC_H265_DEC_PPS_CTRL0_PPS_CR_QP_OFFSET v = SHIFT_AND_MASK_BITS v 29 24"

definition VE_DEC_H265_DEC_PPS_CTRL0_PPS_CB_QP_OFFSET :: "int \<Rightarrow> u32" where
  [hdr_simps]: "VE_DEC_H265_DEC_PPS_CTRL0_PPS_CB_QP_OFFSET v = SHIFT_AND_MASK_BITS v 21 16"

definition VE_DEC_H265_DEC_PPS_CTRL0_INIT_QP_MINUS26 :: "int \<Rightarrow> u32" where
  [hdr_simps]: "VE_DEC_H265_DEC_PPS_CTRL0_INIT_QP_MINUS26 v = SHIFT_AND_MASK_BITS v 14 8"

definition VE_DEC_H265_DEC_PPS_CTRL0_DIFF_CU_QP_DELTA_DEPTH :: "int \<Rightarrow> u32" where
  [hdr_simps]: "VE_DEC_H265_DEC_PPS_CTRL0_DIFF_CU_QP_DELTA_DEPTH v = SHIFT_AND_MASK_BITS v 5 4"

definition VE_DEC_H265_DEC_PPS_CTRL1 :: u32 where
  [hdr_simps]: "VE_DEC_H265_DEC_PPS_CTRL1 = (VE_ENGINE_DEC_H265 + 0x14)"

definition VE_DEC_H265_DEC_PPS_CTRL1_FLAG_PPS_LOOP_FILTER_ACROSS_SLICES_ENABLED :: u32 where
  [hdr_simps]: "VE_DEC_H265_DEC_PPS_CTRL1_FLAG_PPS_LOOP_FILTER_ACROSS_SLICES_ENABLED = BIT 6"

definition VE_DEC_H265_DEC_PPS_CTRL1_FLAG_LOOP_FILTER_ACROSS_TILES_ENABLED :: u32 where
  [hdr_simps]: "VE_DEC_H265_DEC_PPS_CTRL1_FLAG_LOOP_FILTER_ACROSS_TILES_ENABLED = BIT 5"

definition VE_DEC_H265_DEC_PPS_CTRL1_FLAG_ENTROPY_CODING_SYNC_ENABLED :: u32 where
  [hdr_simps]: "VE_DEC_H265_DEC_PPS_CTRL1_FLAG_ENTROPY_CODING_SYNC_ENABLED = BIT 4"

definition VE_DEC_H265_DEC_PPS_CTRL1_FLAG_TILES_ENABLED :: u32 where
  [hdr_simps]: "VE_DEC_H265_DEC_PPS_CTRL1_FLAG_TILES_ENABLED = BIT 3"

definition VE_DEC_H265_DEC_PPS_CTRL1_FLAG_TRANSQUANT_BYPASS_ENABLED :: u32 where
  [hdr_simps]: "VE_DEC_H265_DEC_PPS_CTRL1_FLAG_TRANSQUANT_BYPASS_ENABLED = BIT 2"

definition VE_DEC_H265_DEC_PPS_CTRL1_FLAG_WEIGHTED_BIPRED :: u32 where
  [hdr_simps]: "VE_DEC_H265_DEC_PPS_CTRL1_FLAG_WEIGHTED_BIPRED = BIT 1"

definition VE_DEC_H265_DEC_PPS_CTRL1_FLAG_WEIGHTED_PRED :: u32 where
  [hdr_simps]: "VE_DEC_H265_DEC_PPS_CTRL1_FLAG_WEIGHTED_PRED = BIT 0"

definition VE_DEC_H265_DEC_PPS_CTRL1_LOG2_PARALLEL_MERGE_LEVEL_MINUS2 :: "int \<Rightarrow> u32" where
  [hdr_simps]: "VE_DEC_H265_DEC_PPS_CTRL1_LOG2_PARALLEL_MERGE_LEVEL_MINUS2 v = SHIFT_AND_MASK_BITS v 10 8"

definition VE_DEC_H265_SCALING_LIST_CTRL0 :: u32 where
  [hdr_simps]: "VE_DEC_H265_SCALING_LIST_CTRL0 = (VE_ENGINE_DEC_H265 + 0x18)"

definition VE_DEC_H265_SCALING_LIST_CTRL0_FLAG_ENABLED :: u32 where
  [hdr_simps]: "VE_DEC_H265_SCALING_LIST_CTRL0_FLAG_ENABLED = BIT 31"

definition VE_DEC_H265_SCALING_LIST_CTRL0_DEFAULT :: u32 where
  [hdr_simps]: "VE_DEC_H265_SCALING_LIST_CTRL0_DEFAULT = push_bit 30 1"

definition VE_DEC_H265_DEC_SLICE_HDR_INFO0 :: u32 where
  [hdr_simps]: "VE_DEC_H265_DEC_SLICE_HDR_INFO0 = (VE_ENGINE_DEC_H265 + 0x20)"

definition VE_DEC_H265_DEC_SLICE_HDR_INFO0_FLAG_COLLOCATED_FROM_L0 :: u32 where
  [hdr_simps]: "VE_DEC_H265_DEC_SLICE_HDR_INFO0_FLAG_COLLOCATED_FROM_L0 = BIT 11"

definition VE_DEC_H265_DEC_SLICE_HDR_INFO0_FLAG_CABAC_INIT :: u32 where
  [hdr_simps]: "VE_DEC_H265_DEC_SLICE_HDR_INFO0_FLAG_CABAC_INIT = BIT 10"

definition VE_DEC_H265_DEC_SLICE_HDR_INFO0_FLAG_MVD_L1_ZERO :: u32 where
  [hdr_simps]: "VE_DEC_H265_DEC_SLICE_HDR_INFO0_FLAG_MVD_L1_ZERO = BIT 9"

definition VE_DEC_H265_DEC_SLICE_HDR_INFO0_FLAG_SLICE_SAO_CHROMA :: u32 where
  [hdr_simps]: "VE_DEC_H265_DEC_SLICE_HDR_INFO0_FLAG_SLICE_SAO_CHROMA = BIT 8"

definition VE_DEC_H265_DEC_SLICE_HDR_INFO0_FLAG_SLICE_SAO_LUMA :: u32 where
  [hdr_simps]: "VE_DEC_H265_DEC_SLICE_HDR_INFO0_FLAG_SLICE_SAO_LUMA = BIT 7"

definition VE_DEC_H265_DEC_SLICE_HDR_INFO0_FLAG_SLICE_TEMPORAL_MVP_ENABLE :: u32 where
  [hdr_simps]: "VE_DEC_H265_DEC_SLICE_HDR_INFO0_FLAG_SLICE_TEMPORAL_MVP_ENABLE = BIT 6"

definition VE_DEC_H265_DEC_SLICE_HDR_INFO0_FLAG_DEPENDENT_SLICE_SEGMENT :: u32 where
  [hdr_simps]: "VE_DEC_H265_DEC_SLICE_HDR_INFO0_FLAG_DEPENDENT_SLICE_SEGMENT = BIT 1"

definition VE_DEC_H265_DEC_SLICE_HDR_INFO0_FLAG_FIRST_SLICE_SEGMENT_IN_PIC :: u32 where
  [hdr_simps]: "VE_DEC_H265_DEC_SLICE_HDR_INFO0_FLAG_FIRST_SLICE_SEGMENT_IN_PIC = BIT 0"

definition VE_DEC_H265_DEC_SLICE_HDR_INFO0_PICTURE_TYPE :: "int \<Rightarrow> u32" where
  [hdr_simps]: "VE_DEC_H265_DEC_SLICE_HDR_INFO0_PICTURE_TYPE v = SHIFT_AND_MASK_BITS v 29 28"

definition VE_DEC_H265_DEC_SLICE_HDR_INFO0_FIVE_MINUS_MAX_NUM_MERGE_CAND :: "int \<Rightarrow> u32" where
  [hdr_simps]: "VE_DEC_H265_DEC_SLICE_HDR_INFO0_FIVE_MINUS_MAX_NUM_MERGE_CAND v = SHIFT_AND_MASK_BITS v 26 24"

definition VE_DEC_H265_DEC_SLICE_HDR_INFO0_NUM_REF_IDX_L1_ACTIVE_MINUS1 :: "int \<Rightarrow> u32" where
  [hdr_simps]: "VE_DEC_H265_DEC_SLICE_HDR_INFO0_NUM_REF_IDX_L1_ACTIVE_MINUS1 v = SHIFT_AND_MASK_BITS v 23 20"

definition VE_DEC_H265_DEC_SLICE_HDR_INFO0_NUM_REF_IDX_L0_ACTIVE_MINUS1 :: "int \<Rightarrow> u32" where
  [hdr_simps]: "VE_DEC_H265_DEC_SLICE_HDR_INFO0_NUM_REF_IDX_L0_ACTIVE_MINUS1 v = SHIFT_AND_MASK_BITS v 19 16"

definition VE_DEC_H265_DEC_SLICE_HDR_INFO0_COLLOCATED_REF_IDX :: "int \<Rightarrow> u32" where
  [hdr_simps]: "VE_DEC_H265_DEC_SLICE_HDR_INFO0_COLLOCATED_REF_IDX v = SHIFT_AND_MASK_BITS v 15 12"

definition VE_DEC_H265_DEC_SLICE_HDR_INFO0_COLOUR_PLANE_ID :: "int \<Rightarrow> u32" where
  [hdr_simps]: "VE_DEC_H265_DEC_SLICE_HDR_INFO0_COLOUR_PLANE_ID v = SHIFT_AND_MASK_BITS v 5 4"

definition VE_DEC_H265_DEC_SLICE_HDR_INFO0_SLICE_TYPE :: "int \<Rightarrow> u32" where
  [hdr_simps]: "VE_DEC_H265_DEC_SLICE_HDR_INFO0_SLICE_TYPE v = SHIFT_AND_MASK_BITS v 3 2"

definition VE_DEC_H265_DEC_SLICE_HDR_INFO1 :: u32 where
  [hdr_simps]: "VE_DEC_H265_DEC_SLICE_HDR_INFO1 = (VE_ENGINE_DEC_H265 + 0x24)"

definition VE_DEC_H265_DEC_SLICE_HDR_INFO1_FLAG_SLICE_DEBLOCKING_FILTER_DISABLED :: u32 where
  [hdr_simps]: "VE_DEC_H265_DEC_SLICE_HDR_INFO1_FLAG_SLICE_DEBLOCKING_FILTER_DISABLED = BIT 23"

definition VE_DEC_H265_DEC_SLICE_HDR_INFO1_FLAG_SLICE_LOOP_FILTER_ACROSS_SLICES_ENABLED :: u32 where
  [hdr_simps]: "VE_DEC_H265_DEC_SLICE_HDR_INFO1_FLAG_SLICE_LOOP_FILTER_ACROSS_SLICES_ENABLED = BIT 22"

definition VE_DEC_H265_DEC_SLICE_HDR_INFO1_FLAG_SLICE_NOT_LOW_DELAY :: u32 where
  [hdr_simps]: "VE_DEC_H265_DEC_SLICE_HDR_INFO1_FLAG_SLICE_NOT_LOW_DELAY = BIT 21"

definition VE_DEC_H265_DEC_SLICE_HDR_INFO1_SLICE_TC_OFFSET_DIV2 :: "int \<Rightarrow> u32" where
  [hdr_simps]: "VE_DEC_H265_DEC_SLICE_HDR_INFO1_SLICE_TC_OFFSET_DIV2 v = SHIFT_AND_MASK_BITS v 31 28"

definition VE_DEC_H265_DEC_SLICE_HDR_INFO1_SLICE_BETA_OFFSET_DIV2 :: "int \<Rightarrow> u32" where
  [hdr_simps]: "VE_DEC_H265_DEC_SLICE_HDR_INFO1_SLICE_BETA_OFFSET_DIV2 v = SHIFT_AND_MASK_BITS v 27 24"

definition VE_DEC_H265_DEC_SLICE_HDR_INFO1_SLICE_CR_QP_OFFSET :: "int \<Rightarrow> u32" where
  [hdr_simps]: "VE_DEC_H265_DEC_SLICE_HDR_INFO1_SLICE_CR_QP_OFFSET v = SHIFT_AND_MASK_BITS v 20 16"

definition VE_DEC_H265_DEC_SLICE_HDR_INFO1_SLICE_CB_QP_OFFSET :: "int \<Rightarrow> u32" where
  [hdr_simps]: "VE_DEC_H265_DEC_SLICE_HDR_INFO1_SLICE_CB_QP_OFFSET v = SHIFT_AND_MASK_BITS v 12 8"

definition VE_DEC_H265_DEC_SLICE_HDR_INFO1_SLICE_QP_DELTA :: "int \<Rightarrow> u32" where
  [hdr_simps]: "VE_DEC_H265_DEC_SLICE_HDR_INFO1_SLICE_QP_DELTA v = SHIFT_AND_MASK_BITS v 6 0"

definition VE_DEC_H265_DEC_SLICE_HDR_INFO2 :: u32 where
  [hdr_simps]: "VE_DEC_H265_DEC_SLICE_HDR_INFO2 = (VE_ENGINE_DEC_H265 + 0x28)"

definition VE_DEC_H265_DEC_SLICE_HDR_INFO2_NUM_ENTRY_POINT_OFFSETS :: "int \<Rightarrow> u32" where
  [hdr_simps]: "VE_DEC_H265_DEC_SLICE_HDR_INFO2_NUM_ENTRY_POINT_OFFSETS v = SHIFT_AND_MASK_BITS v 21 8"

definition VE_DEC_H265_DEC_SLICE_HDR_INFO2_CHROMA_LOG2_WEIGHT_DENOM :: "int \<Rightarrow> u32" where
  [hdr_simps]: "VE_DEC_H265_DEC_SLICE_HDR_INFO2_CHROMA_LOG2_WEIGHT_DENOM v = SHIFT_AND_MASK_BITS v 6 4"

definition VE_DEC_H265_DEC_SLICE_HDR_INFO2_LUMA_LOG2_WEIGHT_DENOM :: "int \<Rightarrow> u32" where
  [hdr_simps]: "VE_DEC_H265_DEC_SLICE_HDR_INFO2_LUMA_LOG2_WEIGHT_DENOM v = SHIFT_AND_MASK_BITS v 2 0"

definition VE_DEC_H265_DEC_CTB_ADDR :: u32 where
  [hdr_simps]: "VE_DEC_H265_DEC_CTB_ADDR = (VE_ENGINE_DEC_H265 + 0x2c)"

definition VE_DEC_H265_DEC_CTB_ADDR_Y :: "int \<Rightarrow> u32" where
  [hdr_simps]: "VE_DEC_H265_DEC_CTB_ADDR_Y y = SHIFT_AND_MASK_BITS y 25 16"

definition VE_DEC_H265_DEC_CTB_ADDR_X :: "int \<Rightarrow> u32" where
  [hdr_simps]: "VE_DEC_H265_DEC_CTB_ADDR_X x = SHIFT_AND_MASK_BITS x 9 0"

definition VE_DEC_H265_CTRL :: u32 where
  [hdr_simps]: "VE_DEC_H265_CTRL = (VE_ENGINE_DEC_H265 + 0x30)"

definition VE_DEC_H265_CTRL_VLD_DATA_REQ_IRQ_EN :: u32 where
  [hdr_simps]: "VE_DEC_H265_CTRL_VLD_DATA_REQ_IRQ_EN = BIT 2"

definition VE_DEC_H265_CTRL_ERROR_IRQ_EN :: u32 where
  [hdr_simps]: "VE_DEC_H265_CTRL_ERROR_IRQ_EN = BIT 1"

definition VE_DEC_H265_CTRL_FINISH_IRQ_EN :: u32 where
  [hdr_simps]: "VE_DEC_H265_CTRL_FINISH_IRQ_EN = BIT 0"

definition VE_DEC_H265_CTRL_IRQ_MASK :: u32 where
  [hdr_simps]: "VE_DEC_H265_CTRL_IRQ_MASK = (VE_DEC_H265_CTRL_FINISH_IRQ_EN OR VE_DEC_H265_CTRL_ERROR_IRQ_EN OR VE_DEC_H265_CTRL_VLD_DATA_REQ_IRQ_EN)"

definition VE_DEC_H265_TRIGGER :: u32 where
  [hdr_simps]: "VE_DEC_H265_TRIGGER = (VE_ENGINE_DEC_H265 + 0x34)"

definition VE_DEC_H265_TRIGGER_TYPE_N_BITS :: "u32 \<Rightarrow> u32" where
  [hdr_simps]: "VE_DEC_H265_TRIGGER_TYPE_N_BITS x = push_bit 8 (x AND 0x3f)"

definition VE_DEC_H265_TRIGGER_DEC_SLICE :: u32 where
  [hdr_simps]: "VE_DEC_H265_TRIGGER_DEC_SLICE = push_bit 0 8"

definition VE_DEC_H265_TRIGGER_INIT_SWDEC :: u32 where
  [hdr_simps]: "VE_DEC_H265_TRIGGER_INIT_SWDEC = push_bit 0 7"

definition VE_DEC_H265_TRIGGER_FLUSH_BITS :: u32 where
  [hdr_simps]: "VE_DEC_H265_TRIGGER_FLUSH_BITS = push_bit 0 3"

definition VE_DEC_H265_TRIGGER_SHOW_BITS :: u32 where
  [hdr_simps]: "VE_DEC_H265_TRIGGER_SHOW_BITS = push_bit 0 1"

definition VE_DEC_H265_STATUS :: u32 where
  [hdr_simps]: "VE_DEC_H265_STATUS = (VE_ENGINE_DEC_H265 + 0x38)"

definition VE_DEC_H265_STATUS_VLD_BUSY :: u32 where
  [hdr_simps]: "VE_DEC_H265_STATUS_VLD_BUSY = BIT 8"

definition VE_DEC_H265_STATUS_VLD_DATA_REQ :: u32 where
  [hdr_simps]: "VE_DEC_H265_STATUS_VLD_DATA_REQ = BIT 2"

definition VE_DEC_H265_STATUS_ERROR :: u32 where
  [hdr_simps]: "VE_DEC_H265_STATUS_ERROR = BIT 1"

definition VE_DEC_H265_STATUS_SUCCESS :: u32 where
  [hdr_simps]: "VE_DEC_H265_STATUS_SUCCESS = BIT 0"

definition VE_DEC_H265_STATUS_CHECK_MASK :: u32 where
  [hdr_simps]: "VE_DEC_H265_STATUS_CHECK_MASK = (VE_DEC_H265_STATUS_SUCCESS OR VE_DEC_H265_STATUS_ERROR OR VE_DEC_H265_STATUS_VLD_DATA_REQ)"

definition VE_DEC_H265_STATUS_CHECK_ERROR :: u32 where
  [hdr_simps]: "VE_DEC_H265_STATUS_CHECK_ERROR = (VE_DEC_H265_STATUS_ERROR OR VE_DEC_H265_STATUS_VLD_DATA_REQ)"

definition VE_DEC_H265_DEC_CTB_NUM :: u32 where
  [hdr_simps]: "VE_DEC_H265_DEC_CTB_NUM = (VE_ENGINE_DEC_H265 + 0x3c)"

definition VE_DEC_H265_BITS_ADDR :: u32 where
  [hdr_simps]: "VE_DEC_H265_BITS_ADDR = (VE_ENGINE_DEC_H265 + 0x40)"

definition VE_DEC_H265_BITS_ADDR_FIRST_SLICE_DATA :: u32 where
  [hdr_simps]: "VE_DEC_H265_BITS_ADDR_FIRST_SLICE_DATA = BIT 30"

definition VE_DEC_H265_BITS_ADDR_LAST_SLICE_DATA :: u32 where
  [hdr_simps]: "VE_DEC_H265_BITS_ADDR_LAST_SLICE_DATA = BIT 29"

definition VE_DEC_H265_BITS_ADDR_VALID_SLICE_DATA :: u32 where
  [hdr_simps]: "VE_DEC_H265_BITS_ADDR_VALID_SLICE_DATA = BIT 28"

definition VE_DEC_H265_BITS_ADDR_BASE :: "u64 \<Rightarrow> u32" where
  [hdr_simps]: "VE_DEC_H265_BITS_ADDR_BASE a = ucast (drop_bit 8 a AND GENMASK 27 0)"

definition VE_DEC_H265_BITS_OFFSET :: u32 where
  [hdr_simps]: "VE_DEC_H265_BITS_OFFSET = (VE_ENGINE_DEC_H265 + 0x44)"

definition VE_DEC_H265_BITS_LEN :: u32 where
  [hdr_simps]: "VE_DEC_H265_BITS_LEN = (VE_ENGINE_DEC_H265 + 0x48)"

definition VE_DEC_H265_BITS_END_ADDR :: u32 where
  [hdr_simps]: "VE_DEC_H265_BITS_END_ADDR = (VE_ENGINE_DEC_H265 + 0x4c)"

definition VE_DEC_H265_BITS_END_ADDR_BASE :: "u64 \<Rightarrow> u32" where
  [hdr_simps]: "VE_DEC_H265_BITS_END_ADDR_BASE a = ucast (drop_bit 8 a)"

definition VE_DEC_H265_OUTPUT_FRAME_IDX :: u32 where
  [hdr_simps]: "VE_DEC_H265_OUTPUT_FRAME_IDX = (VE_ENGINE_DEC_H265 + 0x5c)"

definition VE_DEC_H265_NEIGHBOR_INFO_ADDR :: u32 where
  [hdr_simps]: "VE_DEC_H265_NEIGHBOR_INFO_ADDR = (VE_ENGINE_DEC_H265 + 0x60)"

definition VE_DEC_H265_NEIGHBOR_INFO_ADDR_BASE :: "u64 \<Rightarrow> u32" where
  [hdr_simps]: "VE_DEC_H265_NEIGHBOR_INFO_ADDR_BASE a = ucast (drop_bit 8 a)"

definition VE_DEC_H265_ENTRY_POINT_OFFSET_ADDR :: u32 where
  [hdr_simps]: "VE_DEC_H265_ENTRY_POINT_OFFSET_ADDR = (VE_ENGINE_DEC_H265 + 0x64)"

definition VE_DEC_H265_ENTRY_POINT_OFFSET_ADDR_BASE :: "u64 \<Rightarrow> u32" where
  [hdr_simps]: "VE_DEC_H265_ENTRY_POINT_OFFSET_ADDR_BASE a = ucast (drop_bit 8 a)"

definition VE_DEC_H265_TILE_START_CTB :: u32 where
  [hdr_simps]: "VE_DEC_H265_TILE_START_CTB = (VE_ENGINE_DEC_H265 + 0x68)"

definition VE_DEC_H265_TILE_END_CTB :: u32 where
  [hdr_simps]: "VE_DEC_H265_TILE_END_CTB = (VE_ENGINE_DEC_H265 + 0x6c)"

definition VE_DEC_H265_SCALING_LIST_DC_COEF0 :: u32 where
  [hdr_simps]: "VE_DEC_H265_SCALING_LIST_DC_COEF0 = (VE_ENGINE_DEC_H265 + 0x78)"

definition VE_DEC_H265_SCALING_LIST_DC_COEF1 :: u32 where
  [hdr_simps]: "VE_DEC_H265_SCALING_LIST_DC_COEF1 = (VE_ENGINE_DEC_H265 + 0x7c)"

definition VE_DEC_H265_BITS_READ :: u32 where
  [hdr_simps]: "VE_DEC_H265_BITS_READ = (VE_ENGINE_DEC_H265 + 0xdc)"

definition VE_DEC_H265_SRAM_OFFSET :: u32 where
  [hdr_simps]: "VE_DEC_H265_SRAM_OFFSET = (VE_ENGINE_DEC_H265 + 0xe0)"

definition VE_DEC_H265_SRAM_OFFSET_PRED_WEIGHT_LUMA_L0 :: u32 where
  [hdr_simps]: "VE_DEC_H265_SRAM_OFFSET_PRED_WEIGHT_LUMA_L0 = 0x00"

definition VE_DEC_H265_SRAM_OFFSET_PRED_WEIGHT_CHROMA_L0 :: u32 where
  [hdr_simps]: "VE_DEC_H265_SRAM_OFFSET_PRED_WEIGHT_CHROMA_L0 = 0x20"

definition VE_DEC_H265_SRAM_OFFSET_PRED_WEIGHT_LUMA_L1 :: u32 where
  [hdr_simps]: "VE_DEC_H265_SRAM_OFFSET_PRED_WEIGHT_LUMA_L1 = 0x60"

definition VE_DEC_H265_SRAM_OFFSET_PRED_WEIGHT_CHROMA_L1 :: u32 where
  [hdr_simps]: "VE_DEC_H265_SRAM_OFFSET_PRED_WEIGHT_CHROMA_L1 = 0x80"

definition VE_DEC_H265_SRAM_OFFSET_FRAME_INFO :: u32 where
  [hdr_simps]: "VE_DEC_H265_SRAM_OFFSET_FRAME_INFO = 0x400"

definition VE_DEC_H265_SRAM_OFFSET_FRAME_INFO_UNIT :: u32 where
  [hdr_simps]: "VE_DEC_H265_SRAM_OFFSET_FRAME_INFO_UNIT = 0x20"

definition VE_DEC_H265_SRAM_OFFSET_SCALING_LISTS :: u32 where
  [hdr_simps]: "VE_DEC_H265_SRAM_OFFSET_SCALING_LISTS = 0x800"

definition VE_DEC_H265_SRAM_OFFSET_REF_PIC_LIST0 :: u32 where
  [hdr_simps]: "VE_DEC_H265_SRAM_OFFSET_REF_PIC_LIST0 = 0xc00"

definition VE_DEC_H265_SRAM_OFFSET_REF_PIC_LIST1 :: u32 where
  [hdr_simps]: "VE_DEC_H265_SRAM_OFFSET_REF_PIC_LIST1 = 0xc10"

definition VE_DEC_H265_SRAM_DATA :: u32 where
  [hdr_simps]: "VE_DEC_H265_SRAM_DATA = (VE_ENGINE_DEC_H265 + 0xe4)"

definition VE_DEC_H265_SRAM_DATA_ADDR_BASE :: "u64 \<Rightarrow> u32" where
  [hdr_simps]: "VE_DEC_H265_SRAM_DATA_ADDR_BASE a = ucast (drop_bit 8 a)"

definition VE_DEC_H265_SRAM_REF_PIC_LIST_LT_REF :: u32 where
  [hdr_simps]: "VE_DEC_H265_SRAM_REF_PIC_LIST_LT_REF = BIT 7"

definition VE_H264_CTRL_VP8 :: u32 where
  [hdr_simps]: "VE_H264_CTRL_VP8 = BIT 29"

definition VE_H264_TRIGGER_TYPE_PROBABILITY :: "int \<Rightarrow> u32" where
  [hdr_simps]: "VE_H264_TRIGGER_TYPE_PROBABILITY x = SHIFT_AND_MASK_BITS x 31 24"

definition VE_H264_TRIGGER_TYPE_BIN_LENS :: "int \<Rightarrow> u32" where
  [hdr_simps]: "VE_H264_TRIGGER_TYPE_BIN_LENS x = SHIFT_AND_MASK_BITS (x - 1) 18 16"

definition VE_H264_TRIGGER_TYPE_VP8_GET_BITS :: u32 where
  [hdr_simps]: "VE_H264_TRIGGER_TYPE_VP8_GET_BITS = push_bit 0 15"

definition VE_H264_TRIGGER_TYPE_VP8_UPDATE_COEF :: u32 where
  [hdr_simps]: "VE_H264_TRIGGER_TYPE_VP8_UPDATE_COEF = push_bit 0 14"

definition VE_H264_TRIGGER_TYPE_VP8_SLICE_DECODE :: u32 where
  [hdr_simps]: "VE_H264_TRIGGER_TYPE_VP8_SLICE_DECODE = push_bit 0 10"

definition VE_H264_STATUS_VP8_UPPROB_BUSY :: u32 where
  [hdr_simps]: "VE_H264_STATUS_VP8_UPPROB_BUSY = BIT 17"

definition VE_H264_CUR_MB_NUM :: u32 where
  [hdr_simps]: "VE_H264_CUR_MB_NUM = 0x22c"

definition VE_H264_MB_ADDR :: u32 where
  [hdr_simps]: "VE_H264_MB_ADDR = 0x260"

definition VE_H264_ERROR_CASE :: u32 where
  [hdr_simps]: "VE_H264_ERROR_CASE = 0x2b8"

definition VE_H264_BASIC_BITS :: u32 where
  [hdr_simps]: "VE_H264_BASIC_BITS = 0x2dc"

definition VE_VP8_PPS :: u32 where
  [hdr_simps]: "VE_VP8_PPS = 0x214"

definition VE_VP8_PPS_PIC_TYPE_P_FRAME :: u32 where
  [hdr_simps]: "VE_VP8_PPS_PIC_TYPE_P_FRAME = BIT 31"

definition VE_VP8_PPS_LAST_SHARPNESS_LEVEL :: "int \<Rightarrow> u32" where
  [hdr_simps]: "VE_VP8_PPS_LAST_SHARPNESS_LEVEL v = SHIFT_AND_MASK_BITS v 30 28"

definition VE_VP8_PPS_LAST_PIC_TYPE_P_FRAME :: u32 where
  [hdr_simps]: "VE_VP8_PPS_LAST_PIC_TYPE_P_FRAME = BIT 27"

definition VE_VP8_PPS_ALTREF_SIGN_BIAS :: u32 where
  [hdr_simps]: "VE_VP8_PPS_ALTREF_SIGN_BIAS = BIT 26"

definition VE_VP8_PPS_GOLDEN_SIGN_BIAS :: u32 where
  [hdr_simps]: "VE_VP8_PPS_GOLDEN_SIGN_BIAS = BIT 25"

definition VE_VP8_PPS_RELOAD_ENTROPY_PROBS :: u32 where
  [hdr_simps]: "VE_VP8_PPS_RELOAD_ENTROPY_PROBS = BIT 24"

definition VE_VP8_PPS_MB_NO_COEFF_SKIP :: u32 where
  [hdr_simps]: "VE_VP8_PPS_MB_NO_COEFF_SKIP = BIT 22"

definition VE_VP8_PPS_TOKEN_PARTITION :: "int \<Rightarrow> u32" where
  [hdr_simps]: "VE_VP8_PPS_TOKEN_PARTITION v = SHIFT_AND_MASK_BITS v 21 20"

definition VE_VP8_PPS_MODE_REF_LF_DELTA_UPDATE :: u32 where
  [hdr_simps]: "VE_VP8_PPS_MODE_REF_LF_DELTA_UPDATE = BIT 19"

definition VE_VP8_PPS_MODE_REF_LF_DELTA_ENABLE :: u32 where
  [hdr_simps]: "VE_VP8_PPS_MODE_REF_LF_DELTA_ENABLE = BIT 18"

definition VE_VP8_PPS_LOOP_FILTER_LEVEL :: "int \<Rightarrow> u32" where
  [hdr_simps]: "VE_VP8_PPS_LOOP_FILTER_LEVEL v = SHIFT_AND_MASK_BITS v 17 12"

definition VE_VP8_PPS_LOOP_FILTER_SIMPLE :: u32 where
  [hdr_simps]: "VE_VP8_PPS_LOOP_FILTER_SIMPLE = BIT 11"

definition VE_VP8_PPS_SHARPNESS_LEVEL :: "int \<Rightarrow> u32" where
  [hdr_simps]: "VE_VP8_PPS_SHARPNESS_LEVEL v = SHIFT_AND_MASK_BITS v 10 8"

definition VE_VP8_PPS_LAST_LOOP_FILTER_SIMPLE :: u32 where
  [hdr_simps]: "VE_VP8_PPS_LAST_LOOP_FILTER_SIMPLE = BIT 7"

definition VE_VP8_PPS_SEGMENTATION_ENABLE :: u32 where
  [hdr_simps]: "VE_VP8_PPS_SEGMENTATION_ENABLE = BIT 6"

definition VE_VP8_PPS_MB_SEGMENT_ABS_DELTA :: u32 where
  [hdr_simps]: "VE_VP8_PPS_MB_SEGMENT_ABS_DELTA = BIT 5"

definition VE_VP8_PPS_UPDATE_MB_SEGMENTATION_MAP :: u32 where
  [hdr_simps]: "VE_VP8_PPS_UPDATE_MB_SEGMENTATION_MAP = BIT 4"

definition VE_VP8_PPS_FULL_PIXEL :: u32 where
  [hdr_simps]: "VE_VP8_PPS_FULL_PIXEL = BIT 3"

definition VE_VP8_PPS_BILINEAR_MC_FILTER :: u32 where
  [hdr_simps]: "VE_VP8_PPS_BILINEAR_MC_FILTER = BIT 2"

definition VE_VP8_PPS_FILTER_TYPE_SIMPLE :: u32 where
  [hdr_simps]: "VE_VP8_PPS_FILTER_TYPE_SIMPLE = BIT 1"

definition VE_VP8_PPS_LPF_DISABLE :: u32 where
  [hdr_simps]: "VE_VP8_PPS_LPF_DISABLE = BIT 0"

definition VE_VP8_QP_INDEX_DELTA :: u32 where
  [hdr_simps]: "VE_VP8_QP_INDEX_DELTA = 0x218"

definition VE_VP8_QP_INDEX_DELTA_UVAC :: "int \<Rightarrow> u32" where
  [hdr_simps]: "VE_VP8_QP_INDEX_DELTA_UVAC v = SHIFT_AND_MASK_BITS v 31 27"

definition VE_VP8_QP_INDEX_DELTA_UVDC :: "int \<Rightarrow> u32" where
  [hdr_simps]: "VE_VP8_QP_INDEX_DELTA_UVDC v = SHIFT_AND_MASK_BITS v 26 22"

definition VE_VP8_QP_INDEX_DELTA_Y2AC :: "int \<Rightarrow> u32" where
  [hdr_simps]: "VE_VP8_QP_INDEX_DELTA_Y2AC v = SHIFT_AND_MASK_BITS v 21 17"

definition VE_VP8_QP_INDEX_DELTA_Y2DC :: "int \<Rightarrow> u32" where
  [hdr_simps]: "VE_VP8_QP_INDEX_DELTA_Y2DC v = SHIFT_AND_MASK_BITS v 16 12"

definition VE_VP8_QP_INDEX_DELTA_Y1DC :: "int \<Rightarrow> u32" where
  [hdr_simps]: "VE_VP8_QP_INDEX_DELTA_Y1DC v = SHIFT_AND_MASK_BITS v 11 7"

definition VE_VP8_QP_INDEX_DELTA_BASE_QINDEX :: "int \<Rightarrow> u32" where
  [hdr_simps]: "VE_VP8_QP_INDEX_DELTA_BASE_QINDEX v = SHIFT_AND_MASK_BITS v 6 0"

definition VE_VP8_PART_SIZE_OFFSET :: u32 where
  [hdr_simps]: "VE_VP8_PART_SIZE_OFFSET = 0x21c"

definition VE_VP8_ENTROPY_PROBS_ADDR :: u32 where
  [hdr_simps]: "VE_VP8_ENTROPY_PROBS_ADDR = 0x250"

definition VE_VP8_FIRST_DATA_PART_LEN :: u32 where
  [hdr_simps]: "VE_VP8_FIRST_DATA_PART_LEN = 0x254"

definition VE_VP8_FSIZE :: u32 where
  [hdr_simps]: "VE_VP8_FSIZE = 0x258"

definition VE_VP8_FSIZE_WIDTH :: "nat \<Rightarrow> u32" where
  [hdr_simps]: "VE_VP8_FSIZE_WIDTH w = SHIFT_AND_MASK_BITS (int (DIV_ROUND_UP w 16)) 15 8"

definition VE_VP8_FSIZE_HEIGHT :: "nat \<Rightarrow> u32" where
  [hdr_simps]: "VE_VP8_FSIZE_HEIGHT h = SHIFT_AND_MASK_BITS (int (DIV_ROUND_UP h 16)) 7 0"

definition VE_VP8_PICSIZE :: u32 where
  [hdr_simps]: "VE_VP8_PICSIZE = 0x25c"

definition VE_VP8_PICSIZE_WIDTH :: "int \<Rightarrow> u32" where
  [hdr_simps]: "VE_VP8_PICSIZE_WIDTH w = SHIFT_AND_MASK_BITS w 27 16"

definition VE_VP8_PICSIZE_HEIGHT :: "int \<Rightarrow> u32" where
  [hdr_simps]: "VE_VP8_PICSIZE_HEIGHT h = SHIFT_AND_MASK_BITS h 11 0"

definition VE_VP8_REC_LUMA :: u32 where
  [hdr_simps]: "VE_VP8_REC_LUMA = 0x2ac"

definition VE_VP8_FWD_LUMA :: u32 where
  [hdr_simps]: "VE_VP8_FWD_LUMA = 0x2b0"

definition VE_VP8_BWD_LUMA :: u32 where
  [hdr_simps]: "VE_VP8_BWD_LUMA = 0x2b4"

definition VE_VP8_REC_CHROMA :: u32 where
  [hdr_simps]: "VE_VP8_REC_CHROMA = 0x2d0"

definition VE_VP8_FWD_CHROMA :: u32 where
  [hdr_simps]: "VE_VP8_FWD_CHROMA = 0x2d4"

definition VE_VP8_BWD_CHROMA :: u32 where
  [hdr_simps]: "VE_VP8_BWD_CHROMA = 0x2d8"

definition VE_VP8_ALT_LUMA :: u32 where
  [hdr_simps]: "VE_VP8_ALT_LUMA = 0x2e8"

definition VE_VP8_ALT_CHROMA :: u32 where
  [hdr_simps]: "VE_VP8_ALT_CHROMA = 0x2ec"

definition VE_VP8_SEGMENT_FEAT_MB_LV0 :: u32 where
  [hdr_simps]: "VE_VP8_SEGMENT_FEAT_MB_LV0 = 0x2f0"

definition VE_VP8_SEGMENT_FEAT_MB_LV1 :: u32 where
  [hdr_simps]: "VE_VP8_SEGMENT_FEAT_MB_LV1 = 0x2f4"

definition VE_VP8_SEGMENT3 :: "int \<Rightarrow> u32" where
  [hdr_simps]: "VE_VP8_SEGMENT3 v = SHIFT_AND_MASK_BITS v 31 24"

definition VE_VP8_SEGMENT2 :: "int \<Rightarrow> u32" where
  [hdr_simps]: "VE_VP8_SEGMENT2 v = SHIFT_AND_MASK_BITS v 23 16"

definition VE_VP8_SEGMENT1 :: "int \<Rightarrow> u32" where
  [hdr_simps]: "VE_VP8_SEGMENT1 v = SHIFT_AND_MASK_BITS v 15 8"

definition VE_VP8_SEGMENT0 :: "int \<Rightarrow> u32" where
  [hdr_simps]: "VE_VP8_SEGMENT0 v = SHIFT_AND_MASK_BITS v 7 0"

definition VE_VP8_REF_LF_DELTA :: u32 where
  [hdr_simps]: "VE_VP8_REF_LF_DELTA = 0x2f8"

definition VE_VP8_MODE_LF_DELTA :: u32 where
  [hdr_simps]: "VE_VP8_MODE_LF_DELTA = 0x2fc"

definition VE_VP8_LF_DELTA3 :: "int \<Rightarrow> u32" where
  [hdr_simps]: "VE_VP8_LF_DELTA3 v = SHIFT_AND_MASK_BITS v 30 24"

definition VE_VP8_LF_DELTA2 :: "int \<Rightarrow> u32" where
  [hdr_simps]: "VE_VP8_LF_DELTA2 v = SHIFT_AND_MASK_BITS v 22 16"

definition VE_VP8_LF_DELTA1 :: "int \<Rightarrow> u32" where
  [hdr_simps]: "VE_VP8_LF_DELTA1 v = SHIFT_AND_MASK_BITS v 14 8"

definition VE_VP8_LF_DELTA0 :: "int \<Rightarrow> u32" where
  [hdr_simps]: "VE_VP8_LF_DELTA0 v = SHIFT_AND_MASK_BITS v 6 0"

end
