(* ===== verification/Cedrus_Dec_MPEG2.thy ===== *)
theory Cedrus_Dec_MPEG2
  imports Cedrus_Buffers Cedrus_Dec_Regs
begin

text \<open>The MPEG-2 decoder (\<open>cedrus_dec_mpeg2.c\<close>): the registers of a job and the interrupt callbacks.
  The specification reads the registers back: the picture header, the two quantisation matrices the
  engine keeps behind its input register, the addresses.\<close>

section \<open>Controls\<close>

datatype mpeg2_pic_flag = PIC_FLAG_TOP_FIELD_FIRST | PIC_FLAG_FRAME_PRED_DCT | PIC_FLAG_CONCEALMENT_MV |
  PIC_FLAG_Q_SCALE_TYPE | PIC_FLAG_INTRA_VLC | PIC_FLAG_ALT_SCAN | PIC_FLAG_REPEAT_FIRST | PIC_FLAG_PROGRESSIVE

record mpeg2_sequence =
  horizontal_size :: u16
  vertical_size :: u16

record mpeg2_picture =
  backward_ref_ts :: u64
  forward_ref_ts :: u64
  mp_flags :: "mpeg2_pic_flag set"
  f_code :: "u8 list list"
  picture_coding_type :: u8
  picture_structure :: u8
  intra_dc_precision :: u8

record mpeg2_quantisation =
  intra_quantiser_matrix :: "u8 list"
  non_intra_quantiser_matrix :: "u8 list"

record mpeg2_job =
  mj_sequence :: mpeg2_sequence
  mj_picture :: mpeg2_picture
  mj_quantisation :: mpeg2_quantisation

section \<open>A job\<close>

definition mpeg2_matrix :: "u32 \<Rightarrow> u8 list \<Rightarrow> io_log \<Rightarrow> io_log" where
  "mpeg2_matrix flag matrix log = writes (map (\<lambda>i. (VE_DEC_MPEG_IQMINPUT,
     VE_DEC_MPEG_IQMINPUT_WEIGHT (int i) (uint (matrix ! i)) OR flag)) [0..<64]) log"

definition mp12hdr_value :: "mpeg2_picture \<Rightarrow> u32" where
  "mp12hdr_value pic =
    (let value = VE_DEC_MPEG_MP12HDR_SLICE_TYPE (uint (picture_coding_type pic)) OR
           VE_DEC_MPEG_MP12HDR_F_CODE 0 0 (ucast (f_code pic ! 0 ! 0)) OR
           VE_DEC_MPEG_MP12HDR_F_CODE 0 1 (ucast (f_code pic ! 0 ! 1)) OR
           VE_DEC_MPEG_MP12HDR_F_CODE 1 0 (ucast (f_code pic ! 1 ! 0)) OR
           VE_DEC_MPEG_MP12HDR_F_CODE 1 1 (ucast (f_code pic ! 1 ! 1)) OR
           VE_DEC_MPEG_MP12HDR_INTRA_DC_PRECISION (uint (intra_dc_precision pic)) OR
           VE_DEC_MPEG_MP12HDR_INTRA_PICTURE_STRUCTURE (uint (picture_structure pic));
         value = value OR VE_DEC_MPEG_MP12HDR_TOP_FIELD_FIRST (PIC_FLAG_TOP_FIELD_FIRST \<in> mp_flags pic);
         value = value OR VE_DEC_MPEG_MP12HDR_FRAME_PRED_FRAME_DCT (PIC_FLAG_FRAME_PRED_DCT \<in> mp_flags pic);
         value = value OR VE_DEC_MPEG_MP12HDR_CONCEALMENT_MOTION_VECTORS (PIC_FLAG_CONCEALMENT_MV \<in> mp_flags pic);
         value = value OR VE_DEC_MPEG_MP12HDR_Q_SCALE_TYPE (PIC_FLAG_Q_SCALE_TYPE \<in> mp_flags pic);
         value = value OR VE_DEC_MPEG_MP12HDR_INTRA_VLC_FORMAT (PIC_FLAG_INTRA_VLC \<in> mp_flags pic);
         value = value OR VE_DEC_MPEG_MP12HDR_ALTERNATE_SCAN (PIC_FLAG_ALT_SCAN \<in> mp_flags pic);
         value = value OR VE_DEC_MPEG_MP12HDR_FULL_PEL_FORWARD_VECTOR False
     in value OR VE_DEC_MPEG_MP12HDR_FULL_PEL_BACKWARD_VECTOR False)"

definition mpeg2_job_configure :: "'e picture_find \<Rightarrow> pix_format \<Rightarrow> pix_format \<Rightarrow> u64 \<times> u32 \<Rightarrow> mpeg2_job \<Rightarrow>
    nat \<Rightarrow> 'e picture list \<Rightarrow> io_log \<Rightarrow> errno option \<times> io_log" where
  "mpeg2_job_configure lookup coded pix stream job cur pics log =
    (let sq = mj_sequence job; pic = mj_picture job; quant = mj_quantisation job;
         log = mpeg2_matrix VE_DEC_MPEG_IQMINPUT_FLAG_INTRA (intra_quantiser_matrix quant) log;
         log = mpeg2_matrix VE_DEC_MPEG_IQMINPUT_FLAG_NON_INTRA (non_intra_quantiser_matrix quant) log;
         (fwd_luma, fwd_chroma) = cedrus_job_buffer_picture_ref_dma lookup pix pics (forward_ref_ts pic);
         (bwd_luma, bwd_chroma) = cedrus_job_buffer_picture_ref_dma lookup pix pics (backward_ref_ts pic);
         (luma, chroma) = cedrus_buffer_picture_dma pix (pic_addr (pics ! cur));
         (coded_addr, coded_size) = stream
     in (None, writes [
       (VE_DEC_MPEG_MP12HDR, mp12hdr_value pic),
       (VE_DEC_MPEG_PICCODEDSIZE, VE_DEC_MPEG_PICCODEDSIZE_WIDTH (unat (horizontal_size sq)) OR
         VE_DEC_MPEG_PICCODEDSIZE_HEIGHT (unat (vertical_size sq))),
       (VE_DEC_MPEG_PICBOUNDSIZE, VE_DEC_MPEG_PICBOUNDSIZE_WIDTH (uint (pix_width coded)) OR
         VE_DEC_MPEG_PICBOUNDSIZE_HEIGHT (uint (pix_height coded))),
       (VE_DEC_MPEG_FWD_REF_LUMA_ADDR, ucast fwd_luma), (VE_DEC_MPEG_FWD_REF_CHROMA_ADDR, ucast fwd_chroma),
       (VE_DEC_MPEG_BWD_REF_LUMA_ADDR, ucast bwd_luma), (VE_DEC_MPEG_BWD_REF_CHROMA_ADDR, ucast bwd_chroma),
       (VE_DEC_MPEG_REC_LUMA, ucast luma), (VE_DEC_MPEG_REC_CHROMA, ucast chroma),
       (VE_DEC_MPEG_VLD_LEN, coded_size * 8), (VE_DEC_MPEG_VLD_OFFSET, 0),
       (VE_DEC_MPEG_VLD_ADDR, VE_DEC_MPEG_VLD_ADDR_BASE coded_addr OR VE_DEC_MPEG_VLD_ADDR_VALID_PIC_DATA OR
         VE_DEC_MPEG_VLD_ADDR_LAST_PIC_DATA OR VE_DEC_MPEG_VLD_ADDR_FIRST_PIC_DATA),
       (VE_DEC_MPEG_VLD_END_ADDR, ucast (coded_addr + ucast coded_size)),
       (VE_DEC_MPEG_MBADDR, VE_DEC_MPEG_MBADDR_Y 0 OR VE_DEC_MPEG_MBADDR_X 0),
       (VE_DEC_MPEG_ERROR, 0), (VE_DEC_MPEG_CRTMBADDR, 0),
       (VE_DEC_MPEG_CTRL, VE_DEC_MPEG_CTRL_IRQ_MASK OR VE_DEC_MPEG_CTRL_MC_NO_WRITEBACK OR
         VE_DEC_MPEG_CTRL_MC_CACHE_EN)] log))"

definition mpeg2_job_trigger :: "io_log \<Rightarrow> io_log" where
  "mpeg2_job_trigger log = cedrus_write VE_DEC_MPEG_TRIGGER
     (VE_DEC_MPEG_TRIGGER_HW_MPEG_VLD OR VE_DEC_MPEG_TRIGGER_MPEG2 OR VE_DEC_MPEG_TRIGGER_MB_BOUNDARY) log"

section \<open>Interrupts\<close>

definition mpeg2_irq_status :: "hw_read \<Rightarrow> io_log \<Rightarrow> cedrus_irq_status" where
  "mpeg2_irq_status hw log =
    (let status = cedrus_read hw VE_DEC_MPEG_STATUS log AND VE_DEC_MPEG_STATUS_CHECK_MASK
     in if status = 0 then CEDRUS_IRQ_NONE
        else if status AND VE_DEC_MPEG_STATUS_SUCCESS = 0 \<or> status AND VE_DEC_MPEG_STATUS_CHECK_ERROR \<noteq> 0
        then CEDRUS_IRQ_ERROR else CEDRUS_IRQ_SUCCESS)"

definition mpeg2_irq_clear :: "io_log \<Rightarrow> io_log" where
  "mpeg2_irq_clear log = cedrus_write VE_DEC_MPEG_STATUS VE_DEC_MPEG_STATUS_CHECK_MASK log"

definition mpeg2_irq_disable :: "hw_read \<Rightarrow> io_log \<Rightarrow> io_log" where
  "mpeg2_irq_disable hw log =
    cedrus_write VE_DEC_MPEG_CTRL (cedrus_read hw VE_DEC_MPEG_CTRL log AND NOT VE_DEC_MPEG_CTRL_IRQ_MASK) log"

section \<open>Reading the registers back\<close>

text \<open>What a write to the input register does to the matrices: bit 14 tells which, bits 13 to 8 the
  entry, bits 7 to 0 the weight.\<close>

fun matrix_step :: "io \<Rightarrow> (bool \<times> int \<Rightarrow> int) \<Rightarrow> bool \<times> int \<Rightarrow> int" where
  "matrix_step (Write r v) mem =
    (if r = VE_DEC_MPEG_IQMINPUT then mem((bit v 14, field 13 8 v) := field 7 0 v) else mem)"
| "matrix_step _ mem = mem"

definition matrices :: "io_log \<Rightarrow> bool \<times> int \<Rightarrow> int" where
  "matrices log = fold matrix_step log (\<lambda>_. 0)"

lemma matrices_write:
  "matrices (cedrus_write r v log) =
    (if r = VE_DEC_MPEG_IQMINPUT then (matrices log)((bit v 14, field 13 8 v) := field 7 0 v) else matrices log)"
  by (simp add: matrices_def cedrus_write_def)

lemma matrices_other:
  "\<forall>(r, v)\<in>set ws. r \<noteq> VE_DEC_MPEG_IQMINPUT \<Longrightarrow> matrices (writes ws log) = matrices log"
  by (induction ws arbitrary: log) (auto simp: writes_Cons matrices_write)

lemma weight_fields:
  assumes "i < 64" "flag = push_bit 14 (of_bool b)"
  shows "bit (VE_DEC_MPEG_IQMINPUT_WEIGHT (int i) (uint (w :: u8)) OR flag) 14 = b"
    "field 13 8 (VE_DEC_MPEG_IQMINPUT_WEIGHT (int i) (uint w) OR flag) = int i"
    "field 7 0 (VE_DEC_MPEG_IQMINPUT_WEIGHT (int i) (uint w) OR flag) = uint w"
proof -
  let ?v = "VE_DEC_MPEG_IQMINPUT_WEIGHT (int i) (uint w) OR flag"
  show "bit ?v 14 = b"
    by (cases b) (simp_all add: assms(2) VE_DEC_MPEG_IQMINPUT_WEIGHT_def bit_or_iff bit_SHIFT_AND_MASK_BITS bit_push_bit_iff)
  have "field 13 8 ?v = take_bit (13 + 1 - 8) (int i)"
    by (rule field_eq) (auto simp: assms(2) VE_DEC_MPEG_IQMINPUT_WEIGHT_def bit_or_iff bit_SHIFT_AND_MASK_BITS bit_push_bit_iff)
  then show "field 13 8 ?v = int i" using assms(1) by (simp add: take_bit_int_eq_self)
  have "field 7 0 ?v = take_bit (7 + 1 - 0) (uint w)"
    by (rule field_eq) (auto simp: assms(2) VE_DEC_MPEG_IQMINPUT_WEIGHT_def bit_or_iff bit_SHIFT_AND_MASK_BITS bit_push_bit_iff)
  also have "\<dots> = uint w" using uint_lt2p[of w] by (intro take_bit_int_eq_self) simp_all
  finally show "field 7 0 ?v = uint w" .
qed

lemma matrices_loop:
  assumes "flag = push_bit 14 (of_bool b)" "n \<le> 64"
  shows "matrices (writes (map (\<lambda>i. (VE_DEC_MPEG_IQMINPUT,
      VE_DEC_MPEG_IQMINPUT_WEIGHT (int i) (uint (matrix ! i)) OR flag)) [0..<n]) log) =
    (\<lambda>(c, k). if c = b \<and> 0 \<le> k \<and> k < int n then uint (matrix ! nat k :: u8) else matrices log (c, k))"
  using assms(2)
proof (induction n)
  case (Suc n)
  show ?case
    using Suc weight_fields[of n flag b "matrix ! n", OF _ assms(1)]
    by (auto simp: writes_append writes_Cons matrices_write fun_eq_iff)
qed (simp add: writes_def fun_eq_iff)

text \<open>The picture header as the engine reads it.\<close>

definition header_view :: "u32 \<Rightarrow> int \<times> int list list \<times> int \<times> int \<times> mpeg2_pic_flag set" where
  "header_view v = (field 30 28 v, [[field 27 24 v, field 23 20 v], [field 19 16 v, field 15 12 v]],
     field 11 10 v, field 9 8 v,
     {f. (f, True) \<in> {(PIC_FLAG_TOP_FIELD_FIRST, bit v 7), (PIC_FLAG_FRAME_PRED_DCT, bit v 6),
       (PIC_FLAG_CONCEALMENT_MV, bit v 5), (PIC_FLAG_Q_SCALE_TYPE, bit v 4), (PIC_FLAG_INTRA_VLC, bit v 3),
       (PIC_FLAG_ALT_SCAN, bit v 2)}})"

definition header_checked :: "mpeg2_picture \<Rightarrow> bool" where
  "header_checked pic \<longleftrightarrow>
    uint (picture_coding_type pic) < 8 \<and> uint (intra_dc_precision pic) < 4 \<and> uint (picture_structure pic) < 4 \<and>
    (\<exists>a b c d. f_code pic = [[a, b], [c, d]] \<and> uint a < 16 \<and> uint b < 16 \<and> uint c < 16 \<and> uint d < 16)"

lemma mp12hdr_bits:
  assumes "f_code pic = [[a, b], [c, d]]"
  shows "bit (mp12hdr_value pic) n \<longleftrightarrow>
    (28 \<le> n \<and> n \<le> 30 \<and> bit (uint (picture_coding_type pic)) (n - 28)) \<or>
    (24 \<le> n \<and> n \<le> 27 \<and> bit a (n - 24)) \<or> (20 \<le> n \<and> n \<le> 23 \<and> bit b (n - 20)) \<or>
    (16 \<le> n \<and> n \<le> 19 \<and> bit c (n - 16)) \<or> (12 \<le> n \<and> n \<le> 15 \<and> bit d (n - 12)) \<or>
    (10 \<le> n \<and> n \<le> 11 \<and> bit (uint (intra_dc_precision pic)) (n - 10)) \<or>
    (8 \<le> n \<and> n \<le> 9 \<and> bit (uint (picture_structure pic)) (n - 8)) \<or>
    (n = 7 \<and> PIC_FLAG_TOP_FIELD_FIRST \<in> mp_flags pic) \<or> (n = 6 \<and> PIC_FLAG_FRAME_PRED_DCT \<in> mp_flags pic) \<or>
    (n = 5 \<and> PIC_FLAG_CONCEALMENT_MV \<in> mp_flags pic) \<or> (n = 4 \<and> PIC_FLAG_Q_SCALE_TYPE \<in> mp_flags pic) \<or>
    (n = 3 \<and> PIC_FLAG_INTRA_VLC \<in> mp_flags pic) \<or> (n = 2 \<and> PIC_FLAG_ALT_SCAN \<in> mp_flags pic)"
proof -
  have F: "bit (VE_DEC_MPEG_MP12HDR_F_CODE 0 0 (ucast (v :: u8))) n \<longleftrightarrow> 24 \<le> n \<and> n \<le> 27 \<and> bit v (n - 24)"
    "bit (VE_DEC_MPEG_MP12HDR_F_CODE 0 1 (ucast (v :: u8))) n \<longleftrightarrow> 20 \<le> n \<and> n \<le> 23 \<and> bit v (n - 20)"
    "bit (VE_DEC_MPEG_MP12HDR_F_CODE 1 0 (ucast (v :: u8))) n \<longleftrightarrow> 16 \<le> n \<and> n \<le> 19 \<and> bit v (n - 16)"
    "bit (VE_DEC_MPEG_MP12HDR_F_CODE 1 1 (ucast (v :: u8))) n \<longleftrightarrow> 12 \<le> n \<and> n \<le> 15 \<and> bit v (n - 12)" for v
    by (auto simp: VE_DEC_MPEG_MP12HDR_F_CODE_def VE_DEC_MPEG_MP12HDR_F_CODE_SHIFT_def GENMASK_def bit_simps)
  have B: "bit (if c then BIT k else 0 :: u32) n \<longleftrightarrow> n = k \<and> c" if "k < 32" for c k
    using that by (auto simp: bit_BIT)
  have f: "f_code pic ! 0 ! 0 = a" "f_code pic ! 0 ! 1 = b" "f_code pic ! 1 ! 0 = c" "f_code pic ! 1 ! 1 = d"
    by (simp_all add: assms)
  show ?thesis
    unfolding mp12hdr_value_def Let_def f bit_or_iff F
      VE_DEC_MPEG_MP12HDR_SLICE_TYPE_def VE_DEC_MPEG_MP12HDR_INTRA_DC_PRECISION_def
      VE_DEC_MPEG_MP12HDR_INTRA_PICTURE_STRUCTURE_def VE_DEC_MPEG_MP12HDR_TOP_FIELD_FIRST_def
      VE_DEC_MPEG_MP12HDR_FRAME_PRED_FRAME_DCT_def VE_DEC_MPEG_MP12HDR_CONCEALMENT_MOTION_VECTORS_def
      VE_DEC_MPEG_MP12HDR_Q_SCALE_TYPE_def VE_DEC_MPEG_MP12HDR_INTRA_VLC_FORMAT_def
      VE_DEC_MPEG_MP12HDR_ALTERNATE_SCAN_def VE_DEC_MPEG_MP12HDR_FULL_PEL_FORWARD_VECTOR_def
      VE_DEC_MPEG_MP12HDR_FULL_PEL_BACKWARD_VECTOR_def
    by (simp add: B bit_SHIFT_AND_MASK_BITS)
qed

lemma header_round_trip:
  assumes "header_checked pic"
  shows "header_view (mp12hdr_value pic) = (uint (picture_coding_type pic), map (map uint) (f_code pic),
    uint (intra_dc_precision pic), uint (picture_structure pic),
    mp_flags pic - {PIC_FLAG_REPEAT_FIRST, PIC_FLAG_PROGRESSIVE})"
proof -
  obtain a b c d where f: "f_code pic = [[a, b], [c, d]]" "uint a < 16" "uint b < 16" "uint c < 16" "uint d < 16"
    and r: "uint (picture_coding_type pic) < 8" "uint (intra_dc_precision pic) < 4" "uint (picture_structure pic) < 4"
    using assms unfolding header_checked_def by blast
  note h = mp12hdr_bits[OF f(1)]
  let ?v = "mp12hdr_value pic"
  have "field 30 28 ?v = take_bit (30 + 1 - 28) (uint (picture_coding_type pic))"
    "field 27 24 ?v = take_bit (27 + 1 - 24) (uint a)" "field 23 20 ?v = take_bit (23 + 1 - 20) (uint b)"
    "field 19 16 ?v = take_bit (19 + 1 - 16) (uint c)" "field 15 12 ?v = take_bit (15 + 1 - 12) (uint d)"
    "field 11 10 ?v = take_bit (11 + 1 - 10) (uint (intra_dc_precision pic))"
    "field 9 8 ?v = take_bit (9 + 1 - 8) (uint (picture_structure pic))"
    by (rule field_eq; simp add: h bit_uint_iff)+
  moreover have "{f. (f, True) \<in> {(PIC_FLAG_TOP_FIELD_FIRST, bit ?v 7), (PIC_FLAG_FRAME_PRED_DCT, bit ?v 6),
       (PIC_FLAG_CONCEALMENT_MV, bit ?v 5), (PIC_FLAG_Q_SCALE_TYPE, bit ?v 4), (PIC_FLAG_INTRA_VLC, bit ?v 3),
       (PIC_FLAG_ALT_SCAN, bit ?v 2)}} = mp_flags pic - {PIC_FLAG_REPEAT_FIRST, PIC_FLAG_PROGRESSIVE}"
    (is "?l = ?r")
  proof (rule set_eqI)
    show "x \<in> ?l \<longleftrightarrow> x \<in> ?r" for x by (cases x) (simp_all add: h)
  qed
  ultimately show ?thesis
    using f r by (simp add: header_view_def take_bit_int_eq_self)
qed

text \<open>The address of the coded data: bits 27 to 4 in place, bits 31 to 28 in the lowest bits.\<close>

definition vld_base :: "u32 \<Rightarrow> u32" where
  "vld_base v = (v AND push_bit 4 (mask 24)) OR push_bit 28 (v AND mask 4)"

lemma bit_vld_base: "bit (vld_base v) n \<longleftrightarrow> (4 \<le> n \<and> n \<le> 27 \<and> bit v n) \<or> (28 \<le> n \<and> n < 32 \<and> bit v (n - 28))"
  by (auto simp: vld_base_def bit_or_iff bit_and_iff bit_push_bit_iff bit_mask_iff)

lemma bit_vld_addr:
  "bit (VE_DEC_MPEG_VLD_ADDR_BASE addr) n \<longleftrightarrow> (4 \<le> n \<and> n \<le> 27 \<and> bit addr n) \<or> (n < 4 \<and> bit addr (28 + n))"
  by (auto simp: VE_DEC_MPEG_VLD_ADDR_BASE_def Let_def GENMASK_def bit_or_iff bit_and_iff bit_push_bit_iff
      bit_drop_bit_eq bit_mask_iff bit_unsigned_iff)

lemma vld_base_value:
  assumes "16 dvd unat addr" "unat addr < 2 ^ 32"
  shows "vld_base (VE_DEC_MPEG_VLD_ADDR_BASE addr OR VE_DEC_MPEG_VLD_ADDR_VALID_PIC_DATA OR
      VE_DEC_MPEG_VLD_ADDR_LAST_PIC_DATA OR VE_DEC_MPEG_VLD_ADDR_FIRST_PIC_DATA) = ucast addr"
proof (rule bit_word_eqI)
  fix n assume n: "n < LENGTH(32)"
  let ?v = "VE_DEC_MPEG_VLD_ADDR_BASE addr OR VE_DEC_MPEG_VLD_ADDR_VALID_PIC_DATA OR
      VE_DEC_MPEG_VLD_ADDR_LAST_PIC_DATA OR VE_DEC_MPEG_VLD_ADDR_FIRST_PIC_DATA"
  have v: "bit ?v k \<longleftrightarrow> bit (VE_DEC_MPEG_VLD_ADDR_BASE addr) k" if "k < 28" for k
    using that by (simp add: VE_DEC_MPEG_VLD_ADDR_VALID_PIC_DATA_def VE_DEC_MPEG_VLD_ADDR_LAST_PIC_DATA_def
        VE_DEC_MPEG_VLD_ADDR_FIRST_PIC_DATA_def bit_or_iff bit_BIT)
  have low: "\<not> bit addr n" if "n < 4"
  proof -
    have "take_bit 4 (unat addr) = 0" using assms(1) by (simp add: take_bit_eq_mod)
    then have "\<not> bit (take_bit 4 (unat addr)) n" by simp
    then show ?thesis using that by (simp add: bit_take_bit_iff bit_unsigned_iff)
  qed
  have u: "bit (ucast addr :: u32) n \<longleftrightarrow> bit addr n" using n by (simp add: bit_unsigned_iff)
  consider "n < 4" | "4 \<le> n" "n \<le> 27" | "28 \<le> n" by linarith
  then show "bit (vld_base ?v) n = bit (ucast addr :: u32) n"
  proof cases
    case 3
    then have "n - 28 < 4" "n - 28 < 28" "\<not> 4 \<le> n - 28" "28 + (n - 28) = n" using n by auto
    then show ?thesis using 3 n v[of "n - 28"] by (simp add: bit_vld_base bit_vld_addr u)
  qed (use low n v[of n] in \<open>simp_all add: bit_vld_base bit_vld_addr u\<close>)
qed

section \<open>What the engine is told\<close>

lemmas mpeg_regs = VE_ENGINE_DEC_MPEG_def VE_DEC_MPEG_MP12HDR_def VE_DEC_MPEG_PICCODEDSIZE_def
  VE_DEC_MPEG_PICBOUNDSIZE_def VE_DEC_MPEG_FWD_REF_LUMA_ADDR_def VE_DEC_MPEG_FWD_REF_CHROMA_ADDR_def
  VE_DEC_MPEG_BWD_REF_LUMA_ADDR_def VE_DEC_MPEG_BWD_REF_CHROMA_ADDR_def VE_DEC_MPEG_REC_LUMA_def
  VE_DEC_MPEG_REC_CHROMA_def VE_DEC_MPEG_VLD_LEN_def VE_DEC_MPEG_VLD_OFFSET_def VE_DEC_MPEG_VLD_ADDR_def
  VE_DEC_MPEG_VLD_END_ADDR_def VE_DEC_MPEG_MBADDR_def VE_DEC_MPEG_ERROR_def VE_DEC_MPEG_CRTMBADDR_def
  VE_DEC_MPEG_CTRL_def VE_DEC_MPEG_IQMINPUT_def

lemma last_write_matrix:
  "r \<noteq> VE_DEC_MPEG_IQMINPUT \<Longrightarrow> last_write r (mpeg2_matrix flag matrix log) = last_write r log"
proof -
  assume r: "r \<noteq> VE_DEC_MPEG_IQMINPUT"
  have "last_write r (writes ws log) = last_write r log" if "\<forall>w\<in>set ws. fst w = VE_DEC_MPEG_IQMINPUT" for ws
    using that r by (induction ws arbitrary: log) (auto simp: writes_Cons)
  then show ?thesis by (simp add: mpeg2_matrix_def)
qed

lemma mpeg2_matrices:
  assumes "i < 64"
  shows "matrices (snd (mpeg2_job_configure lookup coded pix stream job cur pics log)) (True, int i) =
      uint (intra_quantiser_matrix (mj_quantisation job) ! i)"
    "matrices (snd (mpeg2_job_configure lookup coded pix stream job cur pics log)) (False, int i) =
      uint (non_intra_quantiser_matrix (mj_quantisation job) ! i)"
proof -
  let ?q = "mj_quantisation job"
  let ?l = "mpeg2_matrix VE_DEC_MPEG_IQMINPUT_FLAG_NON_INTRA (non_intra_quantiser_matrix ?q)
    (mpeg2_matrix VE_DEC_MPEG_IQMINPUT_FLAG_INTRA (intra_quantiser_matrix ?q) log)"
  have "matrices (snd (mpeg2_job_configure lookup coded pix stream job cur pics log)) = matrices ?l"
    unfolding mpeg2_job_configure_def Let_def case_prod_beta snd_conv
    by (rule matrices_other) (simp add: hdr_simps)
  moreover have "VE_DEC_MPEG_IQMINPUT_FLAG_INTRA = push_bit 14 (of_bool True)"
    "VE_DEC_MPEG_IQMINPUT_FLAG_NON_INTRA = push_bit 14 (of_bool False)"
    by (simp_all add: hdr_simps)
  note m = matrices_loop[OF this(1) order_refl] matrices_loop[OF this(2) order_refl]
  moreover have "matrices ?l (True, int i) = uint (intra_quantiser_matrix ?q ! i)"
    "matrices ?l (False, int i) = uint (non_intra_quantiser_matrix ?q ! i)"
    using assms by (simp_all add: mpeg2_matrix_def m)
  ultimately show "matrices (snd (mpeg2_job_configure lookup coded pix stream job cur pics log)) (True, int i) =
      uint (intra_quantiser_matrix ?q ! i)"
    "matrices (snd (mpeg2_job_configure lookup coded pix stream job cur pics log)) (False, int i) =
      uint (non_intra_quantiser_matrix ?q ! i)" by simp_all
qed

text \<open>C39: the registers of an MPEG-2 job say what the controls say: the engine's two quantisation
  matrices, the picture header (types, f codes, precision, structure and flags), the size of the
  picture, the address of the coded data, and for each reference the buffer with the timestamp the
  application gave, or address 0 when there is none.\<close>

theorem mpeg2_job_registers:
  assumes "find_contract lookup" "header_checked (mj_picture job)"
    and "16 dvd unat addr" "unat addr < 2 ^ 32" "uint (pix_width coded) < 4096" "uint (pix_height coded) < 4096"
    and "log' = snd (mpeg2_job_configure lookup coded pix (addr, len) job cur pics log)"
  shows "(\<forall>i<64. matrices log' (True, int i) = uint (intra_quantiser_matrix (mj_quantisation job) ! i) \<and>
      matrices log' (False, int i) = uint (non_intra_quantiser_matrix (mj_quantisation job) ! i)) \<and>
    (\<exists>hdr. last_write VE_DEC_MPEG_MP12HDR log' = Some hdr \<and> header_view hdr =
      (uint (picture_coding_type (mj_picture job)), map (map uint) (f_code (mj_picture job)),
       uint (intra_dc_precision (mj_picture job)), uint (picture_structure (mj_picture job)),
       mp_flags (mj_picture job) - {PIC_FLAG_REPEAT_FIRST, PIC_FLAG_PROGRESSIVE})) \<and>
    (\<exists>size. last_write VE_DEC_MPEG_PICBOUNDSIZE log' = Some size \<and>
      field 27 16 size = uint (pix_width coded) \<and> field 11 0 size = uint (pix_height coded)) \<and>
    (\<exists>a. last_write VE_DEC_MPEG_VLD_ADDR log' = Some a \<and> unat (vld_base a) = unat addr) \<and>
    (\<forall>ts r. (ts, r) \<in> {(forward_ref_ts (mj_picture job), VE_DEC_MPEG_FWD_REF_LUMA_ADDR),
        (backward_ref_ts (mj_picture job), VE_DEC_MPEG_BWD_REF_LUMA_ADDR)} \<longrightarrow>
      (\<exists>i<length pics. pic_timestamp (pics ! i) = ts \<and> last_write r log' = Some (ucast (pic_addr (pics ! i)))) \<or>
      (\<forall>p\<in>set pics. pic_timestamp p \<noteq> ts) \<and> last_write r log' = Some 0)"
proof -
  note d = assms(7)[unfolded mpeg2_job_configure_def Let_def case_prod_beta snd_conv fst_conv]
  have size: "field 27 16 (VE_DEC_MPEG_PICBOUNDSIZE_WIDTH (uint (pix_width coded)) OR
        VE_DEC_MPEG_PICBOUNDSIZE_HEIGHT (uint (pix_height coded))) = uint (pix_width coded)"
      "field 11 0 (VE_DEC_MPEG_PICBOUNDSIZE_WIDTH (uint (pix_width coded)) OR
        VE_DEC_MPEG_PICBOUNDSIZE_HEIGHT (uint (pix_height coded))) = uint (pix_height coded)"
  proof -
    let ?v = "VE_DEC_MPEG_PICBOUNDSIZE_WIDTH (uint (pix_width coded)) OR
        VE_DEC_MPEG_PICBOUNDSIZE_HEIGHT (uint (pix_height coded))"
    have "field 27 16 ?v = take_bit (27 + 1 - 16) (uint (pix_width coded))"
      "field 11 0 ?v = take_bit (11 + 1 - 0) (uint (pix_height coded))"
      by (rule field_eq; simp add: VE_DEC_MPEG_PICBOUNDSIZE_WIDTH_def VE_DEC_MPEG_PICBOUNDSIZE_HEIGHT_def
          bit_or_iff bit_SHIFT_AND_MASK_BITS)+
    then show "field 27 16 ?v = uint (pix_width coded)" "field 11 0 ?v = uint (pix_height coded)"
      using assms(5,6) by (simp_all add: take_bit_int_eq_self)
  qed
  have vld: "unat (ucast addr :: u32) = unat addr"
    using assms(4) by (simp add: unat_ucast_mod)
  have ref: "(\<exists>i<length pics. pic_timestamp (pics ! i) = ts \<and>
        fst (cedrus_job_buffer_picture_ref_dma lookup pix pics ts) = pic_addr (pics ! i)) \<or>
      (\<forall>p\<in>set pics. pic_timestamp p \<noteq> ts) \<and> fst (cedrus_job_buffer_picture_ref_dma lookup pix pics ts) = 0" for ts
  proof (cases "lookup pics ts")
    case None
    then show ?thesis using find_contractD(2)[OF assms(1) None]
      by (simp add: cedrus_job_buffer_picture_ref_dma_def)
  next
    case (Some i)
    then show ?thesis using find_contractD(1)[OF assms(1) Some]
      by (auto simp: cedrus_job_buffer_picture_ref_dma_def cedrus_buffer_picture_dma_def)
  qed
  have regs: "last_write VE_DEC_MPEG_MP12HDR log' = Some (mp12hdr_value (mj_picture job))"
    "last_write VE_DEC_MPEG_PICBOUNDSIZE log' = Some (VE_DEC_MPEG_PICBOUNDSIZE_WIDTH (uint (pix_width coded)) OR
        VE_DEC_MPEG_PICBOUNDSIZE_HEIGHT (uint (pix_height coded)))"
    "last_write VE_DEC_MPEG_VLD_ADDR log' = Some (VE_DEC_MPEG_VLD_ADDR_BASE addr OR VE_DEC_MPEG_VLD_ADDR_VALID_PIC_DATA OR
        VE_DEC_MPEG_VLD_ADDR_LAST_PIC_DATA OR VE_DEC_MPEG_VLD_ADDR_FIRST_PIC_DATA)"
    "last_write VE_DEC_MPEG_FWD_REF_LUMA_ADDR log' =
      Some (ucast (fst (cedrus_job_buffer_picture_ref_dma lookup pix pics (forward_ref_ts (mj_picture job)))))"
    "last_write VE_DEC_MPEG_BWD_REF_LUMA_ADDR log' =
      Some (ucast (fst (cedrus_job_buffer_picture_ref_dma lookup pix pics (backward_ref_ts (mj_picture job)))))"
    unfolding d by (simp_all add: last_write_writes mpeg_regs)
  show ?thesis
    unfolding regs option.inject
    using mpeg2_matrices[of _ lookup coded pix "(addr, len)" job cur pics log, folded assms(7)]
      header_round_trip[OF assms(2)] size vld_base_value[OF assms(3,4)] vld ref
    by (auto simp: regs) (metis ucast_0)+
qed

definition ex_mpeg2_job :: mpeg2_job where
  "ex_mpeg2_job = \<lparr>mj_sequence = \<lparr>horizontal_size = 720, vertical_size = 576\<rparr>,
     mj_picture = \<lparr>backward_ref_ts = 9, forward_ref_ts = 7, mp_flags = {PIC_FLAG_FRAME_PRED_DCT, PIC_FLAG_PROGRESSIVE},
       f_code = [[1, 2], [3, 4]], picture_coding_type = 2, picture_structure = 3, intra_dc_precision = 1\<rparr>,
     mj_quantisation = \<lparr>intra_quantiser_matrix = map word_of_nat [1..<65],
       non_intra_quantiser_matrix = replicate 64 16\<rparr>\<rparr>"

definition ex_mpeg2_pics :: "unit picture list" where
  "ex_mpeg2_pics = [\<lparr>pic_addr = 0x40000000, pic_timestamp = 7, pic_engine = ()\<rparr>,
     \<lparr>pic_addr = 0x41000000, pic_timestamp = 8, pic_engine = ()\<rparr>]"

theorem mpeg2_job_registers_witness:
  "\<exists>log' hdr. log' = snd (mpeg2_job_configure first_with_timestamp
       (zero_pix\<lparr>pix_width := 720, pix_height := 576\<rparr>) zero_pix (0x50000000, 1000) ex_mpeg2_job 1 ex_mpeg2_pics []) \<and>
     last_write VE_DEC_MPEG_MP12HDR log' = Some hdr \<and>
     header_view hdr = (2, [[1, 2], [3, 4]], 1, 3, {PIC_FLAG_FRAME_PRED_DCT}) \<and>
     last_write VE_DEC_MPEG_FWD_REF_LUMA_ADDR log' = Some 0x40000000 \<and>
     last_write VE_DEC_MPEG_BWD_REF_LUMA_ADDR log' = Some 0"
proof -
  have c: "header_checked (mj_picture ex_mpeg2_job)" by (simp add: header_checked_def ex_mpeg2_job_def)
  have a: "16 dvd unat (0x50000000 :: u64)" "unat (0x50000000 :: u64) < 2 ^ 32" by simp_all
  have s: "uint (pix_width (zero_pix\<lparr>pix_width := 720, pix_height := 576\<rparr>)) < 4096"
    "uint (pix_height (zero_pix\<lparr>pix_width := 720, pix_height := 576\<rparr>)) < 4096" by simp_all
  define l where "l = snd (mpeg2_job_configure first_with_timestamp (zero_pix\<lparr>pix_width := 720, pix_height := 576\<rparr>)
    zero_pix (0x50000000, 1000) ex_mpeg2_job 1 ex_mpeg2_pics [])"
  note t = mpeg2_job_registers[OF first_with_timestamp_contract c a s l_def]
  have f: "{PIC_FLAG_FRAME_PRED_DCT, PIC_FLAG_PROGRESSIVE} - {PIC_FLAG_PROGRESSIVE} = {PIC_FLAG_FRAME_PRED_DCT}"
    by auto
  obtain hdr where h: "last_write VE_DEC_MPEG_MP12HDR l = Some hdr"
    "header_view hdr = (2, [[1, 2], [3, 4]], 1, 3, {PIC_FLAG_FRAME_PRED_DCT})"
    using conjunct1[OF conjunct2[OF t]] by (auto simp: ex_mpeg2_job_def f)
  have n: "length ex_mpeg2_pics = 2" by (simp add: ex_mpeg2_pics_def)
  have r: "forward_ref_ts (mj_picture ex_mpeg2_job) = 7" "backward_ref_ts (mj_picture ex_mpeg2_job) = 9"
    by (simp_all add: ex_mpeg2_job_def)
  note refs = conjunct2[OF conjunct2[OF conjunct2[OF conjunct2[OF t]]], unfolded r n, rule_format]
  have "last_write VE_DEC_MPEG_FWD_REF_LUMA_ADDR l = Some 0x40000000"
    using refs[of 7 VE_DEC_MPEG_FWD_REF_LUMA_ADDR] by (auto simp: ex_mpeg2_pics_def less_2_cases_iff)
  moreover have "last_write VE_DEC_MPEG_BWD_REF_LUMA_ADDR l = Some 0"
    using refs[of 9 VE_DEC_MPEG_BWD_REF_LUMA_ADDR] by (auto simp: ex_mpeg2_pics_def less_2_cases_iff)
  ultimately show ?thesis using h l_def by blast
qed

end
