(* ===== verification/Cedrus_Dec_VP9.thy ===== *)
theory Cedrus_Dec_VP9
  imports Cedrus_Buffers Cedrus_Dec_Regs Vp9_Adapt Vp9_Quant
begin

text \<open>The VP9 decoder (\<open>cedrus_dec_vp9.c\<close>, \<open>.h\<close>): the probability image, segmentation, scaling, the tables
  in the memory of the engine, the memory of a context and of a 10-bit picture, the registers of a
  job, and what a finished job leaves for the next one.

  DMA memory the driver reads or writes is a function from byte offsets; what the hardware wrote is a
  parameter of the operations that read it.  \<open>module_param\<close> debugging is off, its default.\<close>

section \<open>Controls\<close>

definition V4L2_VP9_FRAME_FLAG_SHOW_FRAME :: u32 where
  [hdr_simps]: "V4L2_VP9_FRAME_FLAG_SHOW_FRAME = 0x2"
definition V4L2_VP9_FRAME_FLAG_REFRESH_FRAME_CTX :: u32 where
  [hdr_simps]: "V4L2_VP9_FRAME_FLAG_REFRESH_FRAME_CTX = 0x20"
definition V4L2_VP9_FRAME_FLAG_PARALLEL_DEC_MODE :: u32 where
  [hdr_simps]: "V4L2_VP9_FRAME_FLAG_PARALLEL_DEC_MODE = 0x40"

datatype vp9_seg_flag = SEGMENTATION_FLAG_ENABLED | SEGMENTATION_FLAG_UPDATE_MAP |
  SEGMENTATION_FLAG_TEMPORAL_UPDATE | SEGMENTATION_FLAG_UPDATE_DATA | SEGMENTATION_FLAG_ABS_OR_DELTA_UPDATE
datatype vp9_lf_flag = LOOP_FILTER_FLAG_DELTA_ENABLED | LOOP_FILTER_FLAG_DELTA_UPDATE

definition V4L2_VP9_SEG_LVL_ALT_Q :: nat where [hdr_simps]: "V4L2_VP9_SEG_LVL_ALT_Q = 0"
definition V4L2_VP9_SEG_LVL_ALT_L :: nat where [hdr_simps]: "V4L2_VP9_SEG_LVL_ALT_L = 1"
definition V4L2_VP9_SEG_LVL_REF_FRAME :: nat where [hdr_simps]: "V4L2_VP9_SEG_LVL_REF_FRAME = 2"
definition V4L2_VP9_SEG_LVL_SKIP :: nat where [hdr_simps]: "V4L2_VP9_SEG_LVL_SKIP = 3"

record vp9_segmentation =
  feature_data :: "int list list"
  feature_enabled :: "u8 list"
  tree_probs :: "u8 list"
  pred_probs :: "u8 list"
  seg_flags :: "vp9_seg_flag set"

record vp9_loop_filter =
  ref_deltas :: "int list"
  mode_deltas :: "int list"
  lf_level :: u8
  lf_flags :: "vp9_lf_flag set"

record vp9_quantization =
  base_q_idx :: u8
  delta_q_y_dc :: int
  delta_q_uv_dc :: int
  delta_q_uv_ac :: int

record vp9_dec_frame = vp9_frame +
  vf_lf :: vp9_loop_filter
  vf_quant :: vp9_quantization
  vf_seg :: vp9_segmentation
  compressed_header_size :: u16
  uncompressed_header_size :: u16
  frame_width_minus_1 :: u16
  frame_height_minus_1 :: u16
  last_frame_ts :: u64
  golden_frame_ts :: u64
  alt_frame_ts :: u64
  vf_profile :: u8
  vf_bit_depth :: u8
  tile_cols_log2 :: u8
  tile_rows_log2 :: u8

record vp9_job =
  vj_frame :: vp9_dec_frame
  vj_compressed_hdr :: vp9_compressed_hdr

abbreviation vp9_flag :: "vp9_dec_frame \<Rightarrow> u32 \<Rightarrow> bool" where
  "vp9_flag frame bits \<equiv> flag_set (vf_flags frame) bits"

definition vp9_intra_only :: "vp9_dec_frame \<Rightarrow> bool" where
  "vp9_intra_only frame \<longleftrightarrow> vp9_flag frame (V4L2_VP9_FRAME_FLAG_KEY_FRAME OR V4L2_VP9_FRAME_FLAG_INTRA_ONLY)"

definition vp9_width :: "vp9_dec_frame \<Rightarrow> nat" where
  "vp9_width frame = unat (frame_width_minus_1 frame) + 1"

definition vp9_height :: "vp9_dec_frame \<Rightarrow> nat" where
  "vp9_height frame = unat (frame_height_minus_1 frame) + 1"

section \<open>The probability image\<close>

definition PROB_COUNT_SIZE :: nat where [hdr_simps]: "PROB_COUNT_SIZE = 0x88000"
definition ENTRY_INFO_SIZE :: nat where [hdr_simps]: "ENTRY_INFO_SIZE = 0x1f4000"
definition PROBS_OFFSET :: nat where [hdr_simps]: "PROBS_OFFSET = 0x4000"
definition PROBS_SIZE :: nat where [hdr_simps]: "PROBS_SIZE = 0xafc"
definition COUNTS_OFFSET :: nat where [hdr_simps]: "COUNTS_OFFSET = 0x4b00"
definition SEGMENT_MAP_OFFSET :: nat where [hdr_simps]: "SEGMENT_MAP_OFFSET = 0x8000"

text \<open>The state of the packer is \<open>dst\<close>, as an offset from \<open>base\<close>, and the image.\<close>

type_synonym vp9_packer = "nat \<times> (nat \<Rightarrow> u8)"

definition put_and_skip :: "nat \<Rightarrow> u8 list \<Rightarrow> vp9_packer \<Rightarrow> vp9_packer" where
  "put_and_skip n bs = (\<lambda>(dst, mem). (dst + n, put_block dst bs mem))"

definition cedrus_vp9_pack_word :: "u8 list \<Rightarrow> nat \<Rightarrow> vp9_packer \<Rightarrow> vp9_packer" where
  "cedrus_vp9_pack_word bs n = put_and_skip 4 (take n bs)"

definition pack_coef :: "vp9_frame_context \<Rightarrow> vp9_packer \<Rightarrow> vp9_packer" where
  "pack_coef p = fold (\<lambda>i. fold (\<lambda>j. fold (\<lambda>k. fold (\<lambda>l. fold (\<lambda>m.
     cedrus_vp9_pack_word (coef p ! i ! j ! k ! l ! m) 3) [0..<6]) [0..<6]) [0..<2]) [0..<2]) [0..<4]"

definition pack_mv :: "vp9_frame_context \<Rightarrow> nat \<Rightarrow> (nat \<Rightarrow> u8) \<Rightarrow> nat \<Rightarrow> u8" where
  "pack_mv p i mem =
    (let mv = 0xa94 + (1 - i) * 0x30;
         mem = put_block mv [mv_sign p ! i, mv_class0_bit p ! i, mv_class0_hp p ! i, mv_hp p ! i] mem;
         mem = put_block (mv + 0x04) (take 3 (mv_class0_fr p ! i ! 0)) mem;
         mem = put_block (mv + 0x08) (take 3 (mv_class0_fr p ! i ! 1)) mem;
         mem = put_block (mv + 0x0c) (take 10 (mv_classes p ! i)) mem;
         mem = put_block (mv + 0x1c) (take 10 (mv_bits p ! i)) mem
     in put_block (mv + 0x28) (take 3 (mv_fr p ! i)) mem)"

definition pack_modes :: "vp9_frame_context \<Rightarrow> vp9_packer \<Rightarrow> vp9_packer" where
  "pack_modes p st =
    (let st = put_and_skip 4 [tx8 p ! 0 ! 0, tx8 p ! 1 ! 0] st;
         st = cedrus_vp9_pack_word (tx16 p ! 0) 2 st;
         st = cedrus_vp9_pack_word (tx16 p ! 1) 2 st;
         st = cedrus_vp9_pack_word (tx32 p ! 0) 3 st;
         st = cedrus_vp9_pack_word (tx32 p ! 1) 3 st;
         st = pack_coef p st;
         st = cedrus_vp9_pack_word (skip p) 3 st;
         st = fold (\<lambda>i. cedrus_vp9_pack_word (inter_mode p ! i) 3) [0..<7] st;
         st = fold (\<lambda>i. cedrus_vp9_pack_word (interp_filter p ! i) 2) [0..<4] st;
         st = cedrus_vp9_pack_word (is_inter p) 4 st;
         st = put_and_skip 8 (take 5 (comp_mode p)) st;
         st = put_and_skip 8 (take 5 (comp_ref p)) st;
         st = fold (\<lambda>i. cedrus_vp9_pack_word (single_ref p ! i) 2) [0..<5] st;
         st = put_and_skip 4 [] st;
         st = fold (\<lambda>i. put_and_skip 16 (take 9 (y_mode p ! i))) [0..<4] st;
         st = fold (\<lambda>i. put_and_skip 16 (take 9 (uv_mode p ! i))) [0..<10] st;
         st = fold (\<lambda>i. cedrus_vp9_pack_word (partition_probs p ! i) 3) [0..<16] st
     in cedrus_vp9_pack_word (mv_joint p) 3 st)"

definition cedrus_vp9_pack_probs :: "vp9_frame_context \<Rightarrow> vp9_segmentation \<Rightarrow> vp9_packer" where
  "cedrus_vp9_pack_probs p seg =
    (let (dst, mem) = pack_modes p (0, \<lambda>_. 0);
         mem = fold (pack_mv p) [0..<2] mem;
         mem = (if SEGMENTATION_FLAG_ENABLED \<in> seg_flags seg
           then put_block 0xaf8 (take 3 (pred_probs seg)) (put_block 0xaf0 (take 7 (tree_probs seg)) mem)
           else mem)
     in (dst, mem))"

section \<open>Segments and scaling\<close>

definition cedrus_vp9_clamp_q :: "int \<Rightarrow> int" where
  "cedrus_vp9_clamp_q q = clamp q 0 255"

definition cedrus_vp9_segment_value :: "vp9_segmentation \<Rightarrow> nat \<Rightarrow> nat \<Rightarrow> int \<Rightarrow> int" where
  "cedrus_vp9_segment_value seg segment feature bs =
    (if SEGMENTATION_FLAG_ENABLED \<notin> seg_flags seg \<or>
        feature_enabled seg ! segment AND V4L2_VP9_SEGMENT_FEATURE_ENABLED feature = 0
     then bs
     else let value = feature_data seg ! segment ! feature
          in if SEGMENTATION_FLAG_ABS_OR_DELTA_UPDATE \<notin> seg_flags seg then value + bs else value)"

definition cedrus_vp9_segment_features :: "vp9_segmentation \<Rightarrow> u32" where
  "cedrus_vp9_segment_features seg =
    (if SEGMENTATION_FLAG_ENABLED \<notin> seg_flags seg then 0
     else fold (\<lambda>segment value.
       let value = (if feature_enabled seg ! segment AND V4L2_VP9_SEGMENT_FEATURE_ENABLED V4L2_VP9_SEG_LVL_REF_FRAME \<noteq> 0
             then (value OR BIT segment) OR
               push_bit (16 + 2 * segment) (word_of_int (feature_data seg ! segment ! V4L2_VP9_SEG_LVL_REF_FRAME) AND 3)
             else value)
       in if feature_enabled seg ! segment AND V4L2_VP9_SEGMENT_FEATURE_ENABLED V4L2_VP9_SEG_LVL_SKIP \<noteq> 0
          then value OR BIT (8 + segment) else value) [0..<8] 0)"

definition cedrus_vp9_valid_reference_size :: "nat \<Rightarrow> nat \<Rightarrow> nat \<Rightarrow> nat \<Rightarrow> bool" where
  "cedrus_vp9_valid_reference_size ref_width ref_height width height \<longleftrightarrow>
    ref_width \<le> 2 * width \<and> ref_height \<le> 2 * height \<and> width \<le> 16 * ref_width \<and> height \<le> 16 * ref_height"

definition cedrus_vp9_scale :: "u32 \<Rightarrow> u32 \<Rightarrow> u32 \<Rightarrow> u32" where
  "cedrus_vp9_scale reference current_size reference_id =
    (let scale = push_bit 14 reference div current_size;
         step = drop_bit 10 scale
     in push_bit 28 reference_id OR push_bit 5 scale OR ((step - 1) AND 0x1f))"

definition cedrus_vp9_golden_scale1 :: "u32 \<Rightarrow> u32 \<Rightarrow> u32" where
  "cedrus_vp9_golden_scale1 reference current_size =
    (let scale = push_bit 14 reference div current_size;
         step = drop_bit 10 scale
     in push_bit 16 scale OR ((step - 1) AND 0x1f))"

section \<open>The tables of the engine\<close>

definition VP9_SRAM_DEQUANT :: u32 where [hdr_simps]: "VP9_SRAM_DEQUANT = 0"
definition VP9_SRAM_LOOP_FILTER :: u32 where [hdr_simps]: "VP9_SRAM_LOOP_FILTER = 0x100"

definition cedrus_vp9_sram_write :: "u32 \<Rightarrow> u32 list \<Rightarrow> io_log \<Rightarrow> io_log" where
  "cedrus_vp9_sram_write offset values log =
    writes ((VE_DEC_VP9_SRAM_OFFSET, offset) # map (Pair VE_DEC_VP9_SRAM_DATA) values) log"

definition dequant_words :: "vp9_dec_frame \<Rightarrow> nat \<Rightarrow> u32 \<times> u32" where
  "dequant_words frame segment =
    (let quant = vf_quant frame;
         dc = (if vf_bit_depth frame = 10 then dc_qlookup_10 else dc_qlookup);
         ac = (if vf_bit_depth frame = 10 then ac_qlookup_10 else ac_qlookup);
         q = cedrus_vp9_segment_value (vf_seg frame) segment V4L2_VP9_SEG_LVL_ALT_Q (uint (base_q_idx quant));
         y_dc_q = cedrus_vp9_clamp_q (q + delta_q_y_dc quant);
         uv_dc_q = cedrus_vp9_clamp_q (q + delta_q_uv_dc quant);
         uv_ac_q = cedrus_vp9_clamp_q (q + delta_q_uv_ac quant);
         q = cedrus_vp9_clamp_q q
     in (ucast (dc ! nat y_dc_q) OR push_bit 16 (ucast (ac ! nat q)),
         ucast (dc ! nat uv_dc_q) OR push_bit 16 (ucast (ac ! nat uv_ac_q))))"

definition cedrus_vp9_dequant_write :: "vp9_dec_frame \<Rightarrow> io_log \<Rightarrow> io_log" where
  "cedrus_vp9_dequant_write frame log =
    (let n = (if SEGMENTATION_FLAG_ENABLED \<in> seg_flags (vf_seg frame) then 8 else 1);
         y = arr_for n (\<lambda>segment _. fst (dequant_words frame segment)) (replicate 8 0);
         uv = arr_for n (\<lambda>segment _. snd (dequant_words frame segment)) (replicate 8 0);
         log = cedrus_vp9_sram_write VP9_SRAM_DEQUANT y log
     in cedrus_vp9_sram_write (VP9_SRAM_DEQUANT + 32) uv log)"

definition cedrus_vp9_filter_level :: "int \<Rightarrow> int" where
  "cedrus_vp9_filter_level level = clamp level 0 63"

text \<open>The levels of a segment: intra, then two modes for each of the three references.\<close>

definition segment_levels :: "vp9_dec_frame \<Rightarrow> nat \<Rightarrow> int list" where
  "segment_levels frame segment =
    (let lf = vf_lf frame;
         level = cedrus_vp9_filter_level
           (cedrus_vp9_segment_value (vf_seg frame) segment V4L2_VP9_SEG_LVL_ALT_L (uint (lf_level lf)))
     in if LOOP_FILTER_FLAG_DELTA_ENABLED \<in> lf_flags lf
        then (let scale = 2 ^ nat (drop_bit 5 level) in
          [cedrus_vp9_filter_level (level + ref_deltas lf ! 0 * scale),
           cedrus_vp9_filter_level (level + ref_deltas lf ! 1 * scale + mode_deltas lf ! 0 * scale),
           cedrus_vp9_filter_level (level + ref_deltas lf ! 1 * scale + mode_deltas lf ! 1 * scale),
           cedrus_vp9_filter_level (level + ref_deltas lf ! 2 * scale + mode_deltas lf ! 0 * scale),
           cedrus_vp9_filter_level (level + ref_deltas lf ! 2 * scale + mode_deltas lf ! 1 * scale),
           cedrus_vp9_filter_level (level + ref_deltas lf ! 3 * scale + mode_deltas lf ! 0 * scale),
           cedrus_vp9_filter_level (level + ref_deltas lf ! 3 * scale + mode_deltas lf ! 1 * scale)])
        else replicate 7 level)"

definition filter_words :: "vp9_dec_frame \<Rightarrow> nat \<Rightarrow> u32 list" where
  "filter_words frame segment =
    (let v = (\<lambda>i. word_of_int (segment_levels frame segment ! i) :: u32)
     in [v 0 OR push_bit 16 (v 1) OR push_bit 24 (v 2),
         v 3 OR push_bit 8 (v 4) OR push_bit 16 (v 5) OR push_bit 24 (v 6)])"

definition cedrus_vp9_loop_filter_write :: "vp9_dec_frame \<Rightarrow> io_log \<Rightarrow> io_log" where
  "cedrus_vp9_loop_filter_write frame log =
    cedrus_vp9_sram_write VP9_SRAM_LOOP_FILTER (concat (map (filter_words frame) [0..<8])) log"

section \<open>Memory of a context\<close>

definition cedrus_dec_vp9_mv_col_size :: "nat \<Rightarrow> nat \<Rightarrow> errno + nat" where
  "cedrus_dec_vp9_mv_col_size width height =
    (let rows = (15 + DIV_ROUND_UP height 8) div 8;
         cols = (15 + DIV_ROUND_UP width 8) div 8;
         blocks = rows * cols;
         bytes = blocks * (5 * 128)
     in if 2 ^ 64 \<le> blocks \<or> 2 ^ 64 \<le> bytes \<or> 2 ^ 64 \<le> bytes + 0x4000 then Inl EOVERFLOW
        else Inr (ALIGN (bytes + 0x4000) 4096))"

text \<open>The pointers of a context are addresses or, when NULL, None.\<close>

record vp9_context =
  vc_prob_count :: "u64 option"
  vc_prob_image :: "nat \<Rightarrow> u8"
  vc_entry_info :: "u64 option"
  vc_segment_map :: "u64 option list"
  vc_segment_image :: "(nat \<Rightarrow> u8) list"
  vc_segment_map_size :: nat
  vc_active_segment_map :: nat
  vc_mv_col :: "u64 option"
  vc_mv_col_size :: nat
  vc_probability_tables :: vp9_frame_context
  vc_frame_context :: "vp9_frame_context list"
  vc_frame_context_idx :: u8
  vc_previous_width :: nat
  vc_previous_height :: nat
  vc_previous_valid :: bool
  vc_previous_show_frame :: bool
  vc_previous_intra_only :: bool
  vc_previous_key_frame :: bool

definition free_opt :: "nat \<Rightarrow> u64 option \<Rightarrow> dma_heap \<Rightarrow> dma_heap" where
  "free_opt n p heap = (case p of None \<Rightarrow> heap | Some addr \<Rightarrow> dma_free n addr heap)"

definition cedrus_dec_vp9_cleanup :: "vp9_context \<Rightarrow> dma_heap \<Rightarrow> vp9_context \<times> dma_heap" where
  "cedrus_dec_vp9_cleanup ctx heap =
    (let heap = fold (free_opt (vc_segment_map_size ctx)) (vc_segment_map ctx) heap;
         heap = free_opt ENTRY_INFO_SIZE (vc_entry_info ctx) heap;
         heap = free_opt PROB_COUNT_SIZE (vc_prob_count ctx) heap;
         heap = free_opt (vc_mv_col_size ctx) (vc_mv_col ctx) heap
     in (ctx\<lparr>vc_segment_map := [None, None], vc_entry_info := None, vc_prob_count := None, vc_mv_col := None,
           vc_segment_map_size := 0, vc_mv_col_size := 0\<rparr>, heap))"

text \<open>Setup keeps the last value of \<open>ret\<close> when it jumps to \<open>error\<close>.\<close>

definition vp9_setup_error :: "errno option \<Rightarrow> vp9_context \<Rightarrow> dma_heap \<Rightarrow> errno option \<times> vp9_context \<times> dma_heap" where
  "vp9_setup_error ret ctx heap = (let (ctx, heap) = cedrus_dec_vp9_cleanup ctx heap in (ret, ctx, heap))"

definition vp9_setup_maps :: "dma_alloc \<Rightarrow> vp9_context \<Rightarrow> dma_heap \<Rightarrow> errno option \<times> vp9_context \<times> dma_heap" where
  "vp9_setup_maps alloc ctx heap =
    (let n = vc_segment_map_size ctx; ret = None
     in case alloc heap n of
       None \<Rightarrow> vp9_setup_error ret (ctx\<lparr>vc_segment_map := (vc_segment_map ctx)[0 := None]\<rparr>) heap
     | Some m0 \<Rightarrow>
       let ctx = ctx\<lparr>vc_segment_map := (vc_segment_map ctx)[0 := Some m0]\<rparr>; heap = (m0, n) # heap
       in case alloc heap n of
         None \<Rightarrow> vp9_setup_error ret (ctx\<lparr>vc_segment_map := (vc_segment_map ctx)[1 := None]\<rparr>) heap
       | Some m1 \<Rightarrow> (None, ctx\<lparr>vc_segment_map := (vc_segment_map ctx)[1 := Some m1],
             vc_prob_image := (\<lambda>_. 0), vc_segment_image := replicate 2 (\<lambda>_. 0), vc_active_segment_map := 0,
             vc_frame_context := replicate 4 default_probs\<rparr>, (m1, n) # heap))"

definition cedrus_dec_vp9_setup :: "dma_alloc \<Rightarrow> nat \<Rightarrow> nat \<Rightarrow> vp9_context \<Rightarrow> dma_heap \<Rightarrow>
    errno option \<times> vp9_context \<times> dma_heap" where
  "cedrus_dec_vp9_setup alloc width height ctx heap =
    (case cedrus_dec_vp9_mv_col_size width height of
       Inl e \<Rightarrow> (Some e, ctx, heap)
     | Inr n \<Rightarrow>
       let ret = None; ctx = ctx\<lparr>vc_mv_col_size := n\<rparr>
       in case alloc heap n of
         None \<Rightarrow> (Some ENOMEM, ctx\<lparr>vc_mv_col := None\<rparr>, heap)
       | Some mv \<Rightarrow>
         let ctx = ctx\<lparr>vc_mv_col := Some mv\<rparr>; heap = (mv, n) # heap
         in case alloc heap PROB_COUNT_SIZE of
           None \<Rightarrow> vp9_setup_error ret (ctx\<lparr>vc_prob_count := None\<rparr>) heap
         | Some pc \<Rightarrow>
           let ctx = ctx\<lparr>vc_prob_count := Some pc\<rparr>; heap = (pc, PROB_COUNT_SIZE) # heap
           in case alloc heap ENTRY_INFO_SIZE of
             None \<Rightarrow> vp9_setup_error ret (ctx\<lparr>vc_entry_info := None\<rparr>) heap
           | Some ei \<Rightarrow>
             let ctx = ctx\<lparr>vc_entry_info := Some ei\<rparr>; heap = (ei, ENTRY_INFO_SIZE) # heap;
                 superblocks = DIV_ROUND_UP width 64 * DIV_ROUND_UP height 64;
                 map_size = superblocks * 32
             in if 2 ^ 64 \<le> superblocks \<or> 2 ^ 64 \<le> map_size then vp9_setup_error (Some EOVERFLOW) ctx heap
                else vp9_setup_maps alloc (ctx\<lparr>vc_segment_map_size := map_size\<rparr>) heap)"

section \<open>The 10-bit reconstruction\<close>

record vp9_buffer =
  vb_width :: nat
  vb_height :: nat
  vb_bit_depth :: u8
  vb_valid :: bool
  vb_recon :: "u64 option"
  vb_recon_size :: nat
  vb_recon_chroma_offset :: nat

type_synonym vp9_pictures = "vp9_buffer picture list"

text \<open>The size, the offset of the chroma, and the offset and stride of the two low bits.\<close>

definition cedrus_vp9_10bit_recon_size :: "nat \<Rightarrow> nat \<Rightarrow> nat \<times> nat \<times> nat \<times> nat" where
  "cedrus_vp9_10bit_recon_size width height =
    (let stride = ALIGN width 16;
         aligned_height = ALIGN height 16;
         luma_size = stride * aligned_height;
         high_size = luma_size + luma_size div 2;
         ext_stride = ALIGN (ALIGN width 4 div 4) 32;
         ext_size = ext_stride * aligned_height * 3 div 2
     in (ALIGN (high_size + ext_size) 4096, luma_size, high_size, ext_stride))"

definition cedrus_vp9_ensure_10bit_recon :: "dma_alloc \<Rightarrow> nat \<Rightarrow> nat \<Rightarrow> vp9_buffer \<Rightarrow> dma_heap \<Rightarrow>
    errno option \<times> nat \<times> nat \<times> vp9_buffer \<times> dma_heap" where
  "cedrus_vp9_ensure_10bit_recon alloc width height buffer heap =
    (let (n, chroma_offset, low2_offset, low2_stride) = cedrus_vp9_10bit_recon_size width height
     in if vb_recon buffer \<noteq> None \<and> n \<le> vb_recon_size buffer
        then (None, low2_offset, low2_stride, buffer\<lparr>vb_recon_chroma_offset := chroma_offset\<rparr>, heap)
        else (let heap = free_opt (vb_recon_size buffer) (vb_recon buffer) heap in
          case alloc heap n of
            None \<Rightarrow> (Some ENOMEM, low2_offset, low2_stride,
              buffer\<lparr>vb_recon := None, vb_recon_size := 0, vb_recon_chroma_offset := 0\<rparr>, heap)
          | Some recon \<Rightarrow> (None, low2_offset, low2_stride,
              buffer\<lparr>vb_recon := Some recon, vb_recon_size := n, vb_recon_chroma_offset := chroma_offset\<rparr>,
              (recon, n) # heap)))"

definition cedrus_dec_vp9_buffer_cleanup :: "vp9_buffer \<Rightarrow> dma_heap \<Rightarrow> vp9_buffer \<times> dma_heap" where
  "cedrus_dec_vp9_buffer_cleanup buffer heap =
    (if vb_recon buffer = None then (buffer, heap)
     else (buffer\<lparr>vb_recon := None, vb_recon_size := 0, vb_recon_chroma_offset := 0\<rparr>,
       free_opt (vb_recon_size buffer) (vb_recon buffer) heap))"

section \<open>References\<close>

record vp9_reference =
  rf_private :: vp9_buffer
  rf_luma :: u64
  rf_chroma :: u64

definition zero_reference :: vp9_reference where
  "zero_reference = \<lparr>rf_private = \<lparr>vb_width = 0, vb_height = 0, vb_bit_depth = 0, vb_valid = False,
     vb_recon = None, vb_recon_size = 0, vb_recon_chroma_offset = 0\<rparr>, rf_luma = 0, rf_chroma = 0\<rparr>"

definition cedrus_dec_vp9_reference :: "vp9_buffer picture_find \<Rightarrow> pix_format \<Rightarrow> vp9_pictures \<Rightarrow> u64 \<Rightarrow>
    errno + vp9_reference" where
  "cedrus_dec_vp9_reference lookup pix pics timestamp =
    (case lookup pics timestamp of
       None \<Rightarrow> Inl EINVAL
     | Some i \<Rightarrow>
       let priv = pic_engine (pics ! i)
       in if \<not> vb_valid priv then Inl EINVAL
          else if vb_bit_depth priv = 10
          then (case vb_recon priv of None \<Rightarrow> Inl EINVAL
            | Some r \<Rightarrow> Inr \<lparr>rf_private = priv, rf_luma = r, rf_chroma = r + word_of_nat (vb_recon_chroma_offset priv)\<rparr>)
          else (let (luma, chroma) = cedrus_buffer_picture_dma pix (pic_addr (pics ! i))
            in Inr \<lparr>rf_private = priv, rf_luma = luma, rf_chroma = chroma\<rparr>))"

text \<open>Last, golden and alternate reference of a frame; a key frame has none.\<close>

definition vp9_references :: "vp9_buffer picture_find \<Rightarrow> pix_format \<Rightarrow> vp9_pictures \<Rightarrow> vp9_dec_frame \<Rightarrow>
    errno + vp9_reference \<times> vp9_reference \<times> vp9_reference" where
  "vp9_references lookup pix pics frame =
    (if vp9_flag frame V4L2_VP9_FRAME_FLAG_KEY_FRAME then Inr (zero_reference, zero_reference, zero_reference)
     else case cedrus_dec_vp9_reference lookup pix pics (last_frame_ts frame) of Inl e \<Rightarrow> Inl e
     | Inr lst \<Rightarrow> case cedrus_dec_vp9_reference lookup pix pics (golden_frame_ts frame) of Inl e \<Rightarrow> Inl e
     | Inr golden \<Rightarrow> case cedrus_dec_vp9_reference lookup pix pics (alt_frame_ts frame) of Inl e \<Rightarrow> Inl e
     | Inr alt \<Rightarrow>
       if \<forall>r\<in>set [lst, golden, alt].
           cedrus_vp9_valid_reference_size (vb_width (rf_private r)) (vb_height (rf_private r))
             (vp9_width frame) (vp9_height frame) \<and> vb_bit_depth (rf_private r) = vf_bit_depth frame
       then Inr (lst, golden, alt) else Inl EOPNOTSUPP)"

section \<open>A job\<close>

text \<open>The controls of the request, None where the application set none.\<close>

definition cedrus_dec_vp9_job_prepare :: "vp9_dec_frame option \<Rightarrow> vp9_compressed_hdr option \<Rightarrow> errno + vp9_job" where
  "cedrus_dec_vp9_job_prepare frame compressed_hdr = (case (frame, compressed_hdr) of
     (Some f, Some h) \<Rightarrow> Inr \<lparr>vj_frame = f, vj_compressed_hdr = h\<rparr> | _ \<Rightarrow> Inl EINVAL)"

text \<open>\<open>reset_control_reset\<close> of the kernel may fail; its result is a parameter.\<close>

definition cedrus_dec_vp9_format_configure :: "hw_read \<Rightarrow> errno option \<Rightarrow> io_log \<Rightarrow> errno option \<times> io_log" where
  "cedrus_dec_vp9_format_configure hw reset log = (case reset of
     Some e \<Rightarrow> (Some e, log)
   | None \<Rightarrow>
       let value = cedrus_read hw VE_RESET_REG log;
           log = cedrus_write VE_RESET_REG (value OR VE_RESET_DECODER_RESET) log;
           value = cedrus_read hw VE_RESET_REG log;
           log = cedrus_write VE_RESET_REG (value AND NOT VE_RESET_DECODER_RESET) log
       in (None, cedrus_write VE_MODE_REG 0xc0020004 log))"

definition vp9_supported :: "pix_format \<Rightarrow> pix_format \<Rightarrow> vp9_job \<Rightarrow> bool" where
  "vp9_supported coded picture job =
    (let frame = vj_frame job
     in \<not> (\<not> ((vf_profile frame = 0 \<and> vf_bit_depth frame = 8) \<or> (vf_profile frame = 2 \<and> vf_bit_depth frame = 10)) \<or>
          6 < tile_cols_log2 frame \<or> 2 < tile_rows_log2 frame \<or> pixelformat picture \<noteq> V4L2_PIX_FMT_NV12 \<or>
          unat (pix_width coded) < vp9_width frame \<or> unat (pix_height coded) < vp9_height frame \<or>
          V4L2_VP9_TX_MODE_SELECT < tx_mode (vj_compressed_hdr job)))"

definition vp9_high_bit_depth :: "vp9_dec_frame \<Rightarrow> bool" where
  "vp9_high_bit_depth frame \<longleftrightarrow> vf_profile frame = 2 \<and> vf_bit_depth frame = 10"

definition vp9_header_size :: "vp9_dec_frame \<Rightarrow> nat" where
  "vp9_header_size frame = unat (uncompressed_header_size frame) + unat (compressed_header_size frame)"

definition vp9_use_previous_mvs :: "vp9_context \<Rightarrow> vp9_dec_frame \<Rightarrow> bool" where
  "vp9_use_previous_mvs ctx frame \<longleftrightarrow>
    \<not> vp9_intra_only frame \<and> vc_previous_valid ctx \<and>
    \<not> vp9_flag frame V4L2_VP9_FRAME_FLAG_ERROR_RESILIENT \<and>
    vc_previous_show_frame ctx \<and> \<not> vc_previous_intra_only ctx \<and>
    vc_previous_width ctx = vp9_width frame \<and> vc_previous_height ctx = vp9_height frame"

text \<open>The geometry of a tile, for the four words of its record; \<open>unsigned int\<close> arithmetic.\<close>

definition vp9_sb :: "nat \<Rightarrow> u32" where
  "vp9_sb n = word_of_nat (DIV_ROUND_UP n 64)"

definition tile_entry :: "vp9_dec_frame \<Rightarrow> nat \<Rightarrow> u32 list" where
  "tile_entry frame tile =
    (let cols_log2 = unat (tile_cols_log2 frame); rows_log2 = unat (tile_rows_log2 frame);
         sb_cols = vp9_sb (vp9_width frame); sb_rows = vp9_sb (vp9_height frame);
         row = word_of_nat (tile div 2 ^ cols_log2); col = word_of_nat (tile mod 2 ^ cols_log2);
         start_x = drop_bit cols_log2 (col * sb_cols);
         end_x = drop_bit cols_log2 ((col + 1) * sb_cols) - 1;
         start_y = drop_bit rows_log2 (row * sb_rows);
         end_y = drop_bit rows_log2 ((row + 1) * sb_rows) - 1
     in [0, 0, push_bit 16 start_y OR start_x, push_bit 16 end_y OR end_x])"

definition word_bytes :: "u32 \<Rightarrow> u8 list" where
  "word_bytes w = map (byte_of w) [0..<4]"

definition put_tiles :: "vp9_dec_frame \<Rightarrow> (nat \<Rightarrow> u8) \<Rightarrow> nat \<Rightarrow> u8" where
  "put_tiles frame mem =
    fold (\<lambda>tile. put_block ((tile - 1) * 16) (concat (map word_bytes (tile_entry frame tile))))
      [1..<2 ^ unat (tile_cols_log2 frame) * 2 ^ unat (tile_rows_log2 frame)] mem"

definition copy_window :: "nat \<Rightarrow> nat \<Rightarrow> (nat \<Rightarrow> u8) \<Rightarrow> (nat \<Rightarrow> u8) \<Rightarrow> nat \<Rightarrow> u8" where
  "copy_window at n from mem a = (if at \<le> a \<and> a < at + n then from (a - at) else mem a)"

text \<open>The images of a frame: the probability contexts, the shared allocation and the segment maps.\<close>

definition vp9_prepare_images :: "vp9_job \<Rightarrow> vp9_context \<Rightarrow> vp9_context" where
  "vp9_prepare_images job ctx =
    (let frame = vj_frame job; seg = vf_seg frame; intra_only = vp9_intra_only frame;
         image = (\<lambda>_. 0);
         image = (if SEGMENTATION_FLAG_ENABLED \<in> seg_flags seg \<and> \<not> intra_only
           then copy_window SEGMENT_MAP_OFFSET (vc_segment_map_size ctx)
             (vc_segment_image ctx ! vc_active_segment_map ctx) image
           else image);
         (idx, saved) = reset_frame_ctx frame (vc_frame_context ctx);
         tables = fw_update_probs frame (vj_compressed_hdr job) (saved ! unat idx);
         image = copy_window PROBS_OFFSET PROBS_SIZE (snd (cedrus_vp9_pack_probs tables seg)) image;
         image = put_tiles frame image;
         ctx = ctx\<lparr>vc_frame_context := saved, vc_frame_context_idx := idx, vc_probability_tables := tables,
           vc_prob_image := image\<rparr>
     in if intra_only \<or> vp9_flag frame V4L2_VP9_FRAME_FLAG_ERROR_RESILIENT
        then ctx\<lparr>vc_segment_image := replicate 2 (\<lambda>_. 0), vc_active_segment_map := 0\<rparr>
        else ctx)"

definition hdr_sync_value :: "vp9_job \<Rightarrow> bool \<Rightarrow> u32" where
  "hdr_sync_value job use_previous_mvs =
    (let frame = vj_frame job; flags = seg_flags (vf_seg frame)
     in (if vp9_flag frame V4L2_VP9_FRAME_FLAG_KEY_FRAME then 0x84001000
         else 0x84001002 OR
           (if vp9_flag frame V4L2_VP9_FRAME_FLAG_ALLOW_HIGH_PREC_MV then BIT 8 else 0) OR
           push_bit 9 (ucast (vf_interpolation_filter frame)) OR
           (if use_previous_mvs then BIT 25 else 0)) OR
        push_bit 2 (ucast (vf_bit_depth frame) AND 7) OR
        (if \<not> vp9_flag frame V4L2_VP9_FRAME_FLAG_PARALLEL_DEC_MODE then BIT 27 else 0) OR
        (if SEGMENTATION_FLAG_ENABLED \<in> flags then BIT 17 else 0) OR
        (if SEGMENTATION_FLAG_UPDATE_MAP \<in> flags then BIT 18 else 0) OR
        (if SEGMENTATION_FLAG_TEMPORAL_UPDATE \<in> flags then BIT 19 else 0) OR
        (if 1 < 2 ^ unat (tile_cols_log2 frame) * (2 :: nat) ^ unat (tile_rows_log2 frame) then BIT 0 else 0) OR
        push_bit 20 (ucast (tx_mode (vj_compressed_hdr job))))"

definition reference_size :: "bool \<Rightarrow> vp9_reference \<Rightarrow> u32" where
  "reference_size high_bit_depth r =
    push_bit 16 (word_of_nat (if high_bit_depth then ALIGN (vb_height (rf_private r)) 16
      else vb_height (rf_private r))) OR word_of_nat (vb_width (rf_private r))"

definition size_registers :: "vp9_dec_frame \<Rightarrow> vp9_reference \<times> vp9_reference \<times> vp9_reference \<Rightarrow> (u32 \<times> u32) list" where
  "size_registers frame = (\<lambda>(lst, golden, alt).
    let width = word_of_nat (vp9_width frame); height = word_of_nat (vp9_height frame);
        high = vp9_high_bit_depth frame;
        w = (\<lambda>r. word_of_nat (vb_width (rf_private r)) :: u32); h = (\<lambda>r. word_of_nat (vb_height (rf_private r)) :: u32)
    in (VE_DEC_VP9_PIC_SIZE, push_bit 16 height OR width) #
      (if vp9_flag frame V4L2_VP9_FRAME_FLAG_KEY_FRAME
       then [(VE_DEC_VP9_LAST_PIC_SIZE, 0), (VE_DEC_VP9_GOLDEN_PIC_SIZE, 0), (VE_DEC_VP9_ALTREF_PIC_SIZE, 0),
         (VE_DEC_VP9_LAST_SCALE0, 0), (VE_DEC_VP9_LAST_SCALE1, 0x10000000), (VE_DEC_VP9_GOLDEN_SCALE0, 0),
         (VE_DEC_VP9_GOLDEN_SCALE1, 0), (VE_DEC_VP9_ALTREF_SCALE0, 0), (VE_DEC_VP9_ALTREF_SCALE1, 0)]
       else [(VE_DEC_VP9_LAST_PIC_SIZE, reference_size high lst),
         (VE_DEC_VP9_GOLDEN_PIC_SIZE, reference_size high golden),
         (VE_DEC_VP9_ALTREF_PIC_SIZE, reference_size high alt),
         (VE_DEC_VP9_LAST_SCALE0, cedrus_vp9_scale (w lst) width 0),
         (VE_DEC_VP9_LAST_SCALE1, cedrus_vp9_scale (h lst) height 1),
         (VE_DEC_VP9_GOLDEN_SCALE0, cedrus_vp9_scale (w golden) width 0),
         (VE_DEC_VP9_GOLDEN_SCALE1, cedrus_vp9_golden_scale1 (h golden) height),
         (VE_DEC_VP9_ALTREF_SCALE0, cedrus_vp9_scale (w alt) width 0),
         (VE_DEC_VP9_ALTREF_SCALE1, cedrus_vp9_scale (h alt) height 0)]))"

abbreviation dma_base :: "u32 \<Rightarrow> u32" where
  "dma_base a \<equiv> VE_DEC_VP9_DMA_ADDR_BASE (ucast a)"

definition work_registers :: "cedrus_device \<Rightarrow> vp9_context \<Rightarrow> vp9_dec_frame \<Rightarrow> (u32 \<times> u32) list" where
  "work_registers dev ctx frame =
    [(VE_DEC_VP9_SEGMENT_FEATURE, cedrus_vp9_segment_features (vf_seg frame)),
     (VE_DEC_VP9_NEIGHBOR_ADDR, dma_base (cedrus_dma_addr dev (the (vc_entry_info ctx)))),
     (VE_DEC_VP9_ENTRY_POINT_OFFSET_ADDR, dma_base (cedrus_dma_addr dev (the (vc_prob_count ctx)))),
     (VE_DEC_VP9_TILE_START, 0),
     (VE_DEC_VP9_TILE_END,
       push_bit 16 (drop_bit (unat (tile_rows_log2 frame)) (vp9_sb (vp9_height frame)) - 1) OR
       (drop_bit (unat (tile_cols_log2 frame)) (vp9_sb (vp9_width frame)) - 1)),
     (VE_DEC_VP9_TQ_BYPASS_ADDR, 0), (VE_DEC_VP9_VLD_BYPASS_ADDR, 0),
     (VE_DEC_VP9_COL_MV_ADDR, dma_base (cedrus_dma_addr dev (the (vc_mv_col ctx)))),
     (VE_DEC_VP9_ENTROPY_LOWER8, 0)]"

definition output_registers :: "vp9_dec_frame \<Rightarrow> nat \<Rightarrow> nat \<Rightarrow> u32 \<Rightarrow> u32 \<Rightarrow> (u32 \<times> u32) list" where
  "output_registers frame low2_offset low2_stride display_luma display_chroma =
    (if vp9_high_bit_depth frame
     then [(VE_DEC_VP9_FIRST_OUTPUT_OFFSET_ADDR, word_of_nat low2_offset),
       (VE_DEC_VP9_10BIT_CONFIGURE, VE_DEC_VP9_10BIT_CONFIGURE_FIRST_2BIT_STRIDE (int low2_stride)),
       (VE_DEC_VP9_SDRT_LUMA_ADDR, dma_base display_luma), (VE_DEC_VP9_SDRT_CHROMA_ADDR, dma_base display_chroma)]
     else [(VE_DEC_VP9_FIRST_OUTPUT_OFFSET_ADDR, 0), (VE_DEC_VP9_10BIT_CONFIGURE, 0),
       (VE_DEC_VP9_SDRT_LUMA_ADDR, 0), (VE_DEC_VP9_SDRT_CHROMA_ADDR, 0)])"

definition plane_registers :: "cedrus_device \<Rightarrow> u32 \<Rightarrow> u32 \<Rightarrow> vp9_reference \<times> vp9_reference \<times> vp9_reference \<Rightarrow>
    (u32 \<times> u32) list" where
  "plane_registers dev luma chroma = (\<lambda>(lst, golden, alt).
    [(VE_DEC_VP9_CURRENT_LUMA_ADDR, dma_base luma), (VE_DEC_VP9_CURRENT_CHROMA_ADDR, dma_base chroma),
     (VE_DEC_VP9_LAST_LUMA_ADDR, dma_base (cedrus_dma_addr dev (rf_luma lst))),
     (VE_DEC_VP9_LAST_CHROMA_ADDR, dma_base (cedrus_dma_addr dev (rf_chroma lst))),
     (VE_DEC_VP9_GOLDEN_LUMA_ADDR, dma_base (cedrus_dma_addr dev (rf_luma golden))),
     (VE_DEC_VP9_GOLDEN_CHROMA_ADDR, dma_base (cedrus_dma_addr dev (rf_chroma golden))),
     (VE_DEC_VP9_ALTREF_LUMA_ADDR, dma_base (cedrus_dma_addr dev (rf_luma alt))),
     (VE_DEC_VP9_ALTREF_CHROMA_ADDR, dma_base (cedrus_dma_addr dev (rf_chroma alt))),
     (VE_DEC_VP9_STD_BIT_OFFSET, 0)])"

definition top_registers :: "vp9_dec_frame \<Rightarrow> (u32 \<times> u32) list" where
  "top_registers frame =
    (let w = ALIGN (vp9_width frame) 16; h = ALIGN (vp9_height frame) 16;
         stride = VE_PRIMARY_FB_LINE_STRIDE_LUMA (int w) OR VE_PRIMARY_FB_LINE_STRIDE_CHROMA (int (w div 2))
     in [(VE_PRIMARY_CHROMA_BUF_LEN, word_of_nat (w * h div 4)), (VE_PRIMARY_FB_LINE_STRIDE, stride)] @
       (if vp9_high_bit_depth frame
        then [(VE_SECONDARY_FB_LINE_STRIDE, stride),
          (VE_CHROMA_BUF_LEN, VE_SECONDARY_OUT_FMT_EXT OR VE_CHROMA_BUF_LEN_SDRT (int (w * h div 4))),
          (VE_PRIMARY_OUT_FMT, VE_PRIMARY_OUT_FMT_NV21 OR VE_SECONDARY_OUT_FMT_EXT_NV12)]
        else [(VE_SECONDARY_FB_LINE_STRIDE, 0), (VE_CHROMA_BUF_LEN, 0), (VE_PRIMARY_OUT_FMT, VE_PRIMARY_OUT_FMT_NV12)]))"

definition stream_registers :: "vp9_dec_frame \<Rightarrow> u32 \<Rightarrow> u32 \<Rightarrow> u32 \<Rightarrow> (u32 \<times> u32) list" where
  "stream_registers frame coded_addr coded_size coded_buffer_size =
    (let header_size = word_of_nat (vp9_header_size frame)
     in [(VE_DEC_VP9_BITS_OFFSET, header_size * 8),
       (VE_DEC_VP9_BITS_END_ADDR, VE_DEC_VP9_BITS_END_ADDR_BASE (ucast (coded_addr + coded_buffer_size - 1))),
       (VE_DEC_VP9_BITS_LEN, (coded_size - header_size) * 8),
       (VE_DEC_VP9_BITS_ADDR, VE_DEC_VP9_BITS_ADDR_BASE (ucast coded_addr) OR VE_DEC_VP9_BITS_ADDR_FIRST_FRAME OR
         VE_DEC_VP9_BITS_ADDR_LAST_FRAME OR VE_DEC_VP9_BITS_ADDR_VALID_DATA),
       (VE_DEC_VP9_SEGMENT_ID_ADDR, 0),
       (VE_DEC_VP9_FUNC_CTRL, if vp9_high_bit_depth frame
         then VE_DEC_VP9_FUNC_CTRL_IRQ_MASK OR VE_DEC_VP9_FUNC_CTRL_ROTATE_SCALE_OUT_EN
         else VE_DEC_VP9_FUNC_CTRL_IRQ_MASK)])"

text \<open>The registers and tables of a job, in the order they are written; \<open>addrs\<close> are the coded data, the
  planes the engine decodes into and the planes on display.\<close>

definition vp9_write_job :: "cedrus_device \<Rightarrow> vp9_job \<Rightarrow> bool \<Rightarrow> vp9_reference \<times> vp9_reference \<times> vp9_reference \<Rightarrow>
    nat \<times> nat \<Rightarrow> u32 list \<Rightarrow> u32 \<times> u32 \<Rightarrow> vp9_context \<Rightarrow> io_log \<Rightarrow> io_log" where
  "vp9_write_job dev job use_previous_mvs refs low2 addrs coded ctx log =
    (let frame = vj_frame job;
         log = writes ((VE_DEC_VP9_STATUS, VE_DEC_VP9_STATUS_MASK) #
           (VE_DEC_VP9_HDR_SYNC, hdr_sync_value job use_previous_mvs) #
           size_registers frame refs @ work_registers dev ctx frame @
           output_registers frame (fst low2) (snd low2) (addrs ! 3) (addrs ! 4) @
           plane_registers dev (addrs ! 1) (addrs ! 2) refs @ top_registers frame) log;
         log = cedrus_vp9_dequant_write frame log;
         log = cedrus_vp9_loop_filter_write frame log
     in writes (stream_registers frame (addrs ! 0) (fst coded) (snd coded)) log)"

text \<open>Where the engine decodes to: the picture itself, or with 10 bits the reconstruction of its buffer.\<close>

definition vp9_target :: "dma_alloc \<Rightarrow> vp9_dec_frame \<Rightarrow> vp9_buffer \<Rightarrow> dma_heap \<Rightarrow>
    errno option \<times> nat \<times> nat \<times> vp9_buffer \<times> dma_heap" where
  "vp9_target alloc frame buffer heap =
    (if vp9_high_bit_depth frame
     then cedrus_vp9_ensure_10bit_recon alloc (vp9_width frame) (vp9_height frame) buffer heap
     else (None, 0, 0, buffer, heap))"

definition vp9_addresses :: "cedrus_device \<Rightarrow> pix_format \<Rightarrow> vp9_dec_frame \<Rightarrow> u64 \<Rightarrow> vp9_buffer picture \<Rightarrow> u32 list" where
  "vp9_addresses dev picture frame coded_dma pic =
    (let (display_luma, display_chroma) = cedrus_buffer_picture_dma picture (pic_addr pic);
         recon = the (vb_recon (pic_engine pic));
         (luma, chroma) = (if vp9_high_bit_depth frame
           then (recon, recon + word_of_nat (vb_recon_chroma_offset (pic_engine pic)))
           else (display_luma, display_chroma))
     in map (cedrus_dma_addr dev) [coded_dma, luma, chroma, display_luma, display_chroma])"

definition vp9_ranges :: "vp9_dec_frame \<Rightarrow> u32 \<times> u32 \<Rightarrow> u32 list \<Rightarrow> bool" where
  "vp9_ranges frame coded addrs =
    (let (coded_size, coded_buffer_size) = coded
     in \<not> (unat coded_size \<le> vp9_header_size frame \<or> 0xffffffff div 8 < coded_size \<or> coded_buffer_size < coded_size) \<and>
        \<not> ((\<exists>a\<in>set addrs. a = 0) \<or> fold (OR) addrs 0 AND 0xff \<noteq> 0))"

text \<open>A job of the coded buffer \<open>stream\<close> (address, bytes used, size) into the picture \<open>cur\<close>.  The result
  None stands for the access through a NULL pointer when the context has no probability image.\<close>

definition cedrus_dec_vp9_job_configure :: "cedrus_device \<Rightarrow> vp9_buffer picture_find \<Rightarrow> dma_alloc \<Rightarrow> pix_format \<Rightarrow>
    pix_format \<Rightarrow> u64 \<times> u32 \<times> u32 \<Rightarrow> vp9_job \<Rightarrow> nat \<Rightarrow> vp9_context \<Rightarrow> vp9_pictures \<Rightarrow> dma_heap \<Rightarrow> io_log \<Rightarrow>
    (errno option \<times> vp9_context \<times> vp9_pictures \<times> dma_heap \<times> io_log) option" where
  "cedrus_dec_vp9_job_configure dev lookup alloc coded picture stream job cur ctx pics heap log =
    (let frame = vj_frame job
     in if \<not> vp9_supported coded picture job then Some (Some EOPNOTSUPP, ctx, pics, heap, log)
        else (case vp9_target alloc frame (pic_engine (pics ! cur)) heap of
          (ret, low2_offset, low2_stride, buffer, heap) \<Rightarrow>
            let pics = pics[cur := (pics ! cur)\<lparr>pic_engine := buffer\<rparr>];
                addrs = vp9_addresses dev picture frame (fst stream) (pics ! cur)
            in if ret \<noteq> None then Some (ret, ctx, pics, heap, log)
               else if \<not> vp9_ranges frame (snd stream) addrs then Some (Some ERANGE, ctx, pics, heap, log)
               else (case vp9_references lookup picture pics frame of
                 Inl e \<Rightarrow> Some (Some e, ctx, pics, heap, log)
               | Inr refs \<Rightarrow>
                   if vc_prob_count ctx = None then None
                   else (let use_previous_mvs = vp9_use_previous_mvs ctx frame;
                             ctx = vp9_prepare_images job ctx
                         in Some (None, ctx, pics, heap, vp9_write_job dev job use_previous_mvs refs
                              (low2_offset, low2_stride) addrs (snd stream) ctx log)))))"

definition cedrus_dec_vp9_job_trigger :: "io_log \<Rightarrow> io_log" where
  "cedrus_dec_vp9_job_trigger log =
    writes [(VE_DEC_VP9_TRIGGER, VE_DEC_VP9_TRIGGER_PROBS), (VE_DEC_VP9_TRIGGER, VE_DEC_VP9_TRIGGER_FRAME)] log"

section \<open>The end of a job\<close>

text \<open>The counts the hardware leaves in the shared allocation.\<close>

record vp9_frame_counts =
  hw_tx8p :: "u32 list list"
  hw_tx16p :: "u32 list list"
  hw_tx32p :: "u32 list list"
  hw_eob_branch :: "u32 list list list list list"
  hw_coeff :: "u32 list list list list list list"
  hw_skip :: "u32 list list"
  hw_inter_mode :: "u32 list list"
  hw_switchable_interp :: "u32 list list"
  hw_intra_inter :: "u32 list list"
  hw_comp_inter :: "u32 list list"
  hw_comp_ref :: "u32 list list"
  hw_single_ref :: "u32 list list list"
  hw_y_mode :: "u32 list list"
  hw_uv_mode :: "u32 list list"
  hw_partition :: "u32 list list"
  hw_mv_joint :: "u32 list"
  hw_mv_sign_1 :: "u32 list"
  hw_mv_class0_1 :: "u32 list"
  hw_mv_class0_hp_1 :: "u32 list"
  hw_mv_hp_1 :: "u32 list"
  hw_mv_classes_1 :: "u32 list"
  hw_mv_bits_1 :: "u32 list list"
  hw_mv_class0_fp_1 :: "u32 list list"
  hw_mv_fp_1 :: "u32 list"
  hw_mv_sign_0 :: "u32 list"
  hw_mv_class0_0 :: "u32 list"
  hw_mv_class0_hp_0 :: "u32 list"
  hw_mv_hp_0 :: "u32 list"
  hw_mv_classes_0 :: "u32 list"
  hw_mv_bits_0 :: "u32 list list"
  hw_mv_class0_fp_0 :: "u32 list list"
  hw_mv_fp_0 :: "u32 list"

text \<open>The counts the adaptation sees, through the pointers \<open>cedrus_dec_vp9_init_counts\<close> set up and the
  copies the end of a job makes of the transform sizes and the motion vectors.\<close>

definition cedrus_dec_vp9_init_counts :: "vp9_frame_counts \<Rightarrow> vp9_symbol_counts" where
  "cedrus_dec_vp9_init_counts hw = \<lparr>
     ct_partition = hw_partition hw, ct_skip = hw_skip hw, ct_intra_inter = hw_intra_inter hw,
     ct_tx32p = hw_tx32p hw, ct_tx16p = map (\<lambda>r. r @ [0]) (hw_tx16p hw), ct_tx8p = hw_tx8p hw,
     ct_y_mode = hw_y_mode hw, ct_uv_mode = hw_uv_mode hw, ct_comp = hw_comp_inter hw,
     ct_comp_ref = hw_comp_ref hw, ct_single_ref = hw_single_ref hw, ct_mv_mode = hw_inter_mode hw,
     ct_filter = hw_switchable_interp hw, ct_mv_joint = hw_mv_joint hw,
     ct_sign = [hw_mv_sign_0 hw, hw_mv_sign_1 hw],
     ct_classes = [hw_mv_classes_0 hw, hw_mv_classes_1 hw],
     ct_class0 = [hw_mv_class0_0 hw, hw_mv_class0_1 hw],
     ct_bits = [hw_mv_bits_0 hw, hw_mv_bits_1 hw],
     ct_class0_fp = [hw_mv_class0_fp_0 hw, hw_mv_class0_fp_1 hw],
     ct_fp = [hw_mv_fp_0 hw, hw_mv_fp_1 hw],
     ct_class0_hp = [hw_mv_class0_hp_0 hw, hw_mv_class0_hp_1 hw],
     ct_hp = [hw_mv_hp_0 hw, hw_mv_hp_1 hw],
     ct_coeff = map (map (map (map (map (take 3))))) (hw_coeff hw),
     ct_eob = map (\<lambda>i. map (\<lambda>j. map (\<lambda>k. map (\<lambda>l. map (\<lambda>m.
       [hw_eob_branch hw ! i ! j ! k ! l ! m, hw_coeff hw ! i ! j ! k ! l ! m ! 3])
       [0..<6]) [0..<6]) [0..<2]) [0..<2]) [0..<4]\<rparr>"

text \<open>The segment map: the window behind the counts becomes the other map.\<close>

definition vp9_finish_segments :: "vp9_dec_frame \<Rightarrow> (nat \<Rightarrow> u8) \<Rightarrow> vp9_context \<Rightarrow> vp9_context" where
  "vp9_finish_segments frame shared ctx =
    (let flags = seg_flags (vf_seg frame)
     in if SEGMENTATION_FLAG_ENABLED \<in> flags \<and> SEGMENTATION_FLAG_UPDATE_MAP \<in> flags
        then (let nxt = 1 - vc_active_segment_map ctx in
          ctx\<lparr>vc_segment_image := (vc_segment_image ctx)[nxt :=
             copy_window 0 (vc_segment_map_size ctx) (\<lambda>a. shared (SEGMENT_MAP_OFFSET + a)) (vc_segment_image ctx ! nxt)],
             vc_active_segment_map := nxt\<rparr>)
        else ctx)"

text \<open>The saved context of the frame.\<close>

definition vp9_finish_probs :: "vp9_job \<Rightarrow> vp9_frame_counts \<Rightarrow> vp9_context \<Rightarrow> vp9_context" where
  "vp9_finish_probs job hw ctx =
    (let frame = vj_frame job; intra = vp9_intra_only frame;
         use_128 = (\<not> vc_previous_valid ctx \<or> vc_previous_key_frame ctx);
         idx = unat (vc_frame_context_idx ctx); tables = vc_probability_tables ctx
     in if \<not> vp9_flag frame V4L2_VP9_FRAME_FLAG_REFRESH_FRAME_CTX then ctx
        else if vp9_flag frame V4L2_VP9_FRAME_FLAG_PARALLEL_DEC_MODE
        then ctx\<lparr>vc_frame_context := (vc_frame_context ctx)[idx := tables]\<rparr>
        else (let counts = cedrus_dec_vp9_init_counts hw;
              probs = vc_frame_context ctx ! idx;
              probs = (if intra then probs\<lparr>tx8 := tx8 tables, tx16 := tx16 tables, tx32 := tx32 tables,
                skip := skip tables\<rparr> else probs);
              probs = adapt_coef_probs counts use_128 intra probs;
              probs = (if \<not> intra then adapt_noncoef_probs counts (vf_reference_mode frame)
                (vf_interpolation_filter frame) (tx_mode (vj_compressed_hdr job)) (vf_flags frame) probs else probs)
            in ctx\<lparr>vc_probability_tables := probs, vc_frame_context := (vc_frame_context ctx)[idx := probs]\<rparr>))"

definition copy_row :: "nat \<Rightarrow> nat \<Rightarrow> nat \<Rightarrow> (nat \<Rightarrow> u8) \<Rightarrow> nat \<Rightarrow> u8" where
  "copy_row dst src n mem = copy_window dst n (\<lambda>a. mem (src + a)) mem"

text \<open>The low bits of the chroma move to where the reference reader expects them, and the last visible
  rows are repeated below.\<close>

definition vp9_finish_recon :: "vp9_dec_frame \<Rightarrow> nat \<Rightarrow> (nat \<Rightarrow> u8) \<Rightarrow> nat \<Rightarrow> u8" where
  "vp9_finish_recon frame recon_size mem =
    (let width = vp9_width frame; height = vp9_height frame;
         aligned_height = ALIGN height 16;
         ext_stride = ALIGN (ALIGN width 4 div 4) 32;
         high_size = ALIGN width 16 * aligned_height * 3 div 2;
         src = high_size + ext_stride * ALIGN height 8;
         dst = high_size + ext_stride * aligned_height;
         len = ext_stride * DIV_ROUND_UP height 2
     in if src \<noteq> dst \<and> dst + len \<le> recon_size
        then (let stride = ALIGN width 16;
              chroma_height = DIV_ROUND_UP height 2;
              aligned_chroma_height = aligned_height div 2;
              high_chroma = stride * aligned_height;
              low_luma = high_size;
              low_chroma = low_luma + ext_stride * aligned_height;
              mem = copy_row dst src len mem;
              mem = fold (\<lambda>row mem. copy_row (low_luma + row * ext_stride) (low_luma + (height - 1) * ext_stride) ext_stride
                (copy_row (row * stride) ((height - 1) * stride) stride mem)) [height..<aligned_height] mem
            in fold (\<lambda>row mem. copy_row (low_chroma + row * ext_stride) (low_chroma + (chroma_height - 1) * ext_stride)
                ext_stride (copy_row (high_chroma + row * stride) (high_chroma + (chroma_height - 1) * stride) stride mem))
              [chroma_height..<aligned_chroma_height] mem)
        else mem)"

text \<open>\<open>is_done\<close> tells whether the job ended in the state DONE; \<open>hw\<close>, \<open>shared\<close> and \<open>recon\<close> are what the
  hardware left in the counts, in the shared allocation and in the reconstruction of the picture.\<close>

definition cedrus_dec_vp9_job_finish :: "bool \<Rightarrow> vp9_job \<Rightarrow> vp9_frame_counts \<Rightarrow> (nat \<Rightarrow> u8) \<Rightarrow> (nat \<Rightarrow> u8) \<Rightarrow>
    nat \<Rightarrow> vp9_context \<Rightarrow> vp9_pictures \<Rightarrow> vp9_context \<times> vp9_pictures \<times> (nat \<Rightarrow> u8)" where
  "cedrus_dec_vp9_job_finish is_done job hw shared recon cur ctx pics =
    (if \<not> is_done then (ctx, pics, recon)
     else (let frame = vj_frame job; buffer = pic_engine (pics ! cur);
           ctx = vp9_finish_segments frame shared ctx;
           ctx = vp9_finish_probs job hw ctx;
           recon = (if vf_bit_depth frame = 10 \<and> vb_recon buffer \<noteq> None
             then vp9_finish_recon frame (vb_recon_size buffer) recon else recon);
           buffer = buffer\<lparr>vb_width := vp9_width frame, vb_height := vp9_height frame,
             vb_bit_depth := vf_bit_depth frame, vb_valid := True\<rparr>
         in (ctx\<lparr>vc_previous_width := vb_width buffer, vc_previous_height := vb_height buffer,
               vc_previous_valid := True,
               vc_previous_show_frame := vp9_flag frame V4L2_VP9_FRAME_FLAG_SHOW_FRAME,
               vc_previous_intra_only := vp9_flag frame
                 (V4L2_VP9_FRAME_FLAG_KEY_FRAME OR V4L2_VP9_FRAME_FLAG_INTRA_ONLY),
               vc_previous_key_frame := vp9_flag frame V4L2_VP9_FRAME_FLAG_KEY_FRAME\<rparr>,
             pics[cur := (pics ! cur)\<lparr>pic_engine := buffer\<rparr>], recon)))"

section \<open>Interrupts\<close>

definition cedrus_dec_vp9_irq_status :: "hw_read \<Rightarrow> io_log \<Rightarrow> cedrus_irq_status" where
  "cedrus_dec_vp9_irq_status hw log =
    (let status = cedrus_read hw VE_DEC_VP9_STATUS log AND VE_DEC_VP9_STATUS_MASK
     in if status = 0 then CEDRUS_IRQ_NONE
        else if status AND VE_DEC_VP9_STATUS_SUCCESS = 0 \<or> status AND VE_DEC_VP9_STATUS_ERROR_MASK \<noteq> 0
        then CEDRUS_IRQ_ERROR else CEDRUS_IRQ_SUCCESS)"

definition cedrus_dec_vp9_irq_clear :: "io_log \<Rightarrow> io_log" where
  "cedrus_dec_vp9_irq_clear log = cedrus_write VE_DEC_VP9_STATUS VE_DEC_VP9_STATUS_MASK log"

definition cedrus_dec_vp9_irq_disable :: "hw_read \<Rightarrow> io_log \<Rightarrow> io_log" where
  "cedrus_dec_vp9_irq_disable hw log =
    cedrus_write VE_DEC_VP9_FUNC_CTRL (cedrus_read hw VE_DEC_VP9_FUNC_CTRL log AND NOT VE_DEC_VP9_FUNC_CTRL_IRQ_MASK) log"

end
