(* ===== verification/Vp9_Dec_Tables.thy ===== *)
theory Vp9_Dec_Tables
  imports Cedrus_Dec_VP9
begin

text \<open>What a VP9 job tells the hardware, read back and compared with the VP9 specification: the quantisers
  and loop filter levels of every segment (8.6.1, 8.8.1), the scale factors of the references, and the
  tiles.\<close>

section \<open>The memory of the engine\<close>

interpretation vp9: sram_port VE_DEC_VP9_SRAM_OFFSET VE_DEC_VP9_SRAM_DATA
  by unfold_locales (simp add: hdr_simps)

definition vp9_mem :: "io_log \<Rightarrow> nat \<Rightarrow> u32" where
  "vp9_mem log = snd (sram VE_DEC_VP9_SRAM_OFFSET VE_DEC_VP9_SRAM_DATA log)"

lemma vp9_mem_write:
  "unat off = 4 * at \<Longrightarrow> vp9_mem (cedrus_vp9_sram_write off ws log) = put_block at ws (vp9_mem log)"
  by (simp add: vp9_mem_def cedrus_vp9_sram_write_def vp9.sram_put)

lemma vp9_mem_other:
  "\<forall>(r, v)\<in>set ws. r \<noteq> VE_DEC_VP9_SRAM_OFFSET \<and> r \<noteq> VE_DEC_VP9_SRAM_DATA \<Longrightarrow>
    vp9_mem (writes ws log) = vp9_mem log"
  by (simp add: vp9_mem_def vp9.sram_writes_other)

definition dequant_y :: "vp9_dec_frame \<Rightarrow> u32 list" where
  "dequant_y frame = arr_for (if SEGMENTATION_FLAG_ENABLED \<in> seg_flags (vf_seg frame) then 8 else 1)
     (\<lambda>segment _. fst (dequant_words frame segment)) (replicate 8 0)"

definition dequant_uv :: "vp9_dec_frame \<Rightarrow> u32 list" where
  "dequant_uv frame = arr_for (if SEGMENTATION_FLAG_ENABLED \<in> seg_flags (vf_seg frame) then 8 else 1)
     (\<lambda>segment _. snd (dequant_words frame segment)) (replicate 8 0)"

lemma vp9_dequant_mem:
  "vp9_mem (cedrus_vp9_dequant_write frame log) = put_block 8 (dequant_uv frame) (put_block 0 (dequant_y frame) (vp9_mem log))"
  by (simp add: cedrus_vp9_dequant_write_def Let_def vp9_mem_write[where at = 8] vp9_mem_write[where at = 0]
      VP9_SRAM_DEQUANT_def dequant_y_def dequant_uv_def)

lemma vp9_filter_mem:
  "vp9_mem (cedrus_vp9_loop_filter_write frame log) =
    put_block 64 (concat (map (filter_words frame) [0..<8])) (vp9_mem log)"
  by (simp add: cedrus_vp9_loop_filter_write_def vp9_mem_write[where at = 64] VP9_SRAM_LOOP_FILTER_def)

lemma stream_registers_ports:
  "\<forall>(r, v)\<in>set (stream_registers frame a n m). r \<noteq> VE_DEC_VP9_SRAM_OFFSET \<and> r \<noteq> VE_DEC_VP9_SRAM_DATA"
  by (simp add: stream_registers_def Let_def hdr_simps)

text \<open>What a job that was configured went through.\<close>

lemma vp9_configure_cases:
  assumes "cedrus_dec_vp9_job_configure dev lookup alloc coded picture stream job cur ctx pics heap log =
    Some (None, ctx', pics', heap', log')"
  obtains refs o2 s2 buffer where
    "vp9_supported coded picture job"
    "vp9_target alloc (vj_frame job) (pic_engine (pics ! cur)) heap = (None, o2, s2, buffer, heap')"
    "pics' = pics[cur := (pics ! cur)\<lparr>pic_engine := buffer\<rparr>]"
    "vp9_ranges (vj_frame job) (snd stream) (vp9_addresses dev picture (vj_frame job) (fst stream) (pics' ! cur))"
    "vp9_references lookup picture pics' (vj_frame job) = Inr refs"
    "vc_prob_count ctx \<noteq> None" "ctx' = vp9_prepare_images job ctx"
    "log' = vp9_write_job dev job (vp9_use_previous_mvs ctx (vj_frame job)) refs (o2, s2)
      (vp9_addresses dev picture (vj_frame job) (fst stream) (pics' ! cur)) (snd stream) ctx' log"
proof -
  obtain ret o2 s2 buffer heap2 where t:
    "vp9_target alloc (vj_frame job) (pic_engine (pics ! cur)) heap = (ret, o2, s2, buffer, heap2)"
    by (cases "vp9_target alloc (vj_frame job) (pic_engine (pics ! cur)) heap")
  note d = assms[unfolded cedrus_dec_vp9_job_configure_def Let_def t prod.case]
  have "ret = None"
    using d by (auto split: if_splits)
  note d = d[unfolded this]
  let ?pics = "pics[cur := (pics ! cur)\<lparr>pic_engine := buffer\<rparr>]"
  obtain refs where r: "vp9_references lookup picture ?pics (vj_frame job) = Inr refs"
    using d by (auto split: if_splits sum.splits)
  have "vp9_supported coded picture job" "vc_prob_count ctx \<noteq> None"
    "vp9_ranges (vj_frame job) (snd stream) (vp9_addresses dev picture (vj_frame job) (fst stream) (?pics ! cur))"
    using d r by (auto split: if_splits)
  note c = this
  have e: "ctx' = vp9_prepare_images job ctx" "pics' = ?pics" "heap' = heap2"
    "log' = vp9_write_job dev job (vp9_use_previous_mvs ctx (vj_frame job)) refs (o2, s2)
      (vp9_addresses dev picture (vj_frame job) (fst stream) (?pics ! cur)) (snd stream) (vp9_prepare_images job ctx) log"
    using d c r by auto
  have "vp9_target alloc (vj_frame job) (pic_engine (pics ! cur)) heap = (None, o2, s2, buffer, heap')"
    using t \<open>ret = None\<close> e(3) by simp
  then show thesis
    by (rule that[OF c(1) _ e(2) c(3)[folded e(2)] r[folded e(2)] c(2) e(1) e(4)[folded e(1,2)]])
qed

lemma vp9_job_mem:
  "\<exists>mem. vp9_mem (vp9_write_job dev job use_mvs refs low2 addrs coded ctx log) =
    put_block 64 (concat (map (filter_words (vj_frame job)) [0..<8]))
      (put_block 8 (dequant_uv (vj_frame job)) (put_block 0 (dequant_y (vj_frame job)) mem))"
  by (simp add: vp9_write_job_def Let_def vp9_mem_other[OF stream_registers_ports] vp9_filter_mem vp9_dequant_mem) blast

section \<open>Quantisers and loop filter levels\<close>

text \<open>The specification: the feature of a segment (6.4.9), \<open>get_qindex\<close> and the quantisers of the block
  (8.6.1), the filter level of a segment, a reference and a mode (8.8.1).\<close>

definition seg_feature_active :: "vp9_segmentation \<Rightarrow> nat \<Rightarrow> nat \<Rightarrow> bool" where
  "seg_feature_active seg segment feature \<longleftrightarrow>
    SEGMENTATION_FLAG_ENABLED \<in> seg_flags seg \<and> bit (feature_enabled seg ! segment) feature"

definition spec_qindex :: "vp9_dec_frame \<Rightarrow> nat \<Rightarrow> int" where
  "spec_qindex frame segment =
    (let seg = vf_seg frame; base_q = uint (base_q_idx (vf_quant frame)); data = feature_data seg ! segment ! 0
     in if seg_feature_active seg segment 0
        then clamp (if SEGMENTATION_FLAG_ABS_OR_DELTA_UPDATE \<in> seg_flags seg then data else base_q + data) 0 255
        else base_q)"

definition spec_quantisers :: "vp9_dec_frame \<Rightarrow> nat \<Rightarrow> int list" where
  "spec_quantisers frame segment =
    (let quant = vf_quant frame; qindex = spec_qindex frame segment;
         dc_q = (\<lambda>b. uint ((if vf_bit_depth frame = 10 then dc_qlookup_10 else dc_qlookup) ! nat (clamp b 0 255)));
         ac_q = (\<lambda>b. uint ((if vf_bit_depth frame = 10 then ac_qlookup_10 else ac_qlookup) ! nat (clamp b 0 255)))
     in [dc_q (qindex + delta_q_y_dc quant), ac_q qindex,
         dc_q (qindex + delta_q_uv_dc quant), ac_q (qindex + delta_q_uv_ac quant)])"

definition spec_level :: "vp9_dec_frame \<Rightarrow> nat \<Rightarrow> nat \<Rightarrow> nat \<Rightarrow> int" where
  "spec_level frame segment ref mode =
    (let seg = vf_seg frame; lf = vf_lf frame; data = feature_data seg ! segment ! 1;
         level = clamp (if seg_feature_active seg segment 1
           then (if SEGMENTATION_FLAG_ABS_OR_DELTA_UPDATE \<in> seg_flags seg then data else uint (lf_level lf) + data)
           else uint (lf_level lf)) 0 63;
         shift = nat (level div 32)
     in if LOOP_FILTER_FLAG_DELTA_ENABLED \<notin> lf_flags lf then level
        else if ref = 0 then clamp (level + ref_deltas lf ! 0 * 2 ^ shift) 0 63
        else clamp (level + ref_deltas lf ! ref * 2 ^ shift + mode_deltas lf ! mode * 2 ^ shift) 0 63)"

text \<open>What the engine reads from its memory.\<close>

definition quantisers_of :: "(nat \<Rightarrow> u32) \<Rightarrow> nat \<Rightarrow> int list" where
  "quantisers_of mem segment =
    [field 15 0 (mem segment), field 31 16 (mem segment), field 15 0 (mem (8 + segment)), field 31 16 (mem (8 + segment))]"

definition level_of :: "(nat \<Rightarrow> u32) \<Rightarrow> nat \<Rightarrow> nat \<Rightarrow> nat \<Rightarrow> int" where
  "level_of mem segment ref mode =
    uint (byte_of (mem (64 + 2 * segment + (if ref < 2 then 0 else 1)))
      (if ref = 0 then 0 else if ref = 2 then mode else 2 + mode))"

lemma flag_enabled_bit:
  "feature < 4 \<Longrightarrow> (x AND V4L2_VP9_SEGMENT_FEATURE_ENABLED feature = 0) = (\<not> bit (x :: u8) feature)"
  unfolding V4L2_VP9_SEGMENT_FEATURE_ENABLED_def by (simp add: push_bit_eq_mult and_exp_eq_0_iff_not_bit)

lemma segment_value_spec:
  assumes "feature < 4"
  shows "cedrus_vp9_segment_value seg segment feature v =
    (if seg_feature_active seg segment feature
     then (if SEGMENTATION_FLAG_ABS_OR_DELTA_UPDATE \<in> seg_flags seg then feature_data seg ! segment ! feature
       else v + feature_data seg ! segment ! feature) else v)"
  by (auto simp: cedrus_vp9_segment_value_def seg_feature_active_def flag_enabled_bit[OF assms] Let_def)

lemma field_halves:
  "field 15 0 (ucast (a :: u16) OR push_bit 16 (ucast (b :: u16)) :: u32) = uint a"
  "field 31 16 (ucast (a :: u16) OR push_bit 16 (ucast (b :: u16)) :: u32) = uint b"
proof -
  let ?w = "ucast a OR push_bit 16 (ucast b) :: u32"
  have "field 15 0 ?w = take_bit (15 + 1 - 0) (uint a)" "field 31 16 ?w = take_bit (31 + 1 - 16) (uint b)"
    by (rule field_eq; auto simp: bit_simps dest: bit_imp_le_length)+
  then show "field 15 0 ?w = uint a" "field 31 16 ?w = uint b"
    using uint_lt2p[of a] uint_lt2p[of b] by (simp_all add: take_bit_int_eq_self)
qed

lemma dequant_words_spec:
  assumes "cedrus_vp9_segment_value (vf_seg frame) segment 0 (uint (base_q_idx (vf_quant frame))) \<in> {0..255} \<or>
    delta_q_y_dc (vf_quant frame) = 0 \<and> delta_q_uv_dc (vf_quant frame) = 0 \<and> delta_q_uv_ac (vf_quant frame) = 0"
  shows "(case dequant_words frame segment of (y, uv) \<Rightarrow> [field 15 0 y, field 31 16 y, field 15 0 uv, field 31 16 uv]) =
    spec_quantisers frame segment"
proof -
  let ?raw = "cedrus_vp9_segment_value (vf_seg frame) segment 0 (uint (base_q_idx (vf_quant frame)))"
  have q: "spec_qindex frame segment = clamp ?raw 0 255"
    using uint_lt2p[of "base_q_idx (vf_quant frame)"]
    by (auto simp: spec_qindex_def segment_value_spec Let_def clamp_id)
  have d: "clamp (clamp ?raw 0 255 + d) 0 255 = clamp (?raw + d) 0 255"
    if "d \<in> {delta_q_y_dc (vf_quant frame), delta_q_uv_dc (vf_quant frame), delta_q_uv_ac (vf_quant frame)}" for d
    using assms that by (auto simp: clamp_def)
  show ?thesis
    by (simp add: dequant_words_def spec_quantisers_def Let_def field_halves cedrus_vp9_clamp_q_def q d
        V4L2_VP9_SEG_LVL_ALT_Q_def)
       (auto simp: clamp_def)
qed

lemma level_word:
  assumes "0 \<le> x" "x \<le> 63"
  shows "(word_of_int x :: u32) = ucast (word_of_int x :: u8)" "uint (word_of_int x :: u8) = x"
proof -
  show "uint (word_of_int x :: u8) = x" using assms by (simp add: uint_word_of_int)
  moreover have "uint (word_of_int x :: u32) = x" using assms by (simp add: uint_word_of_int)
  ultimately show "(word_of_int x :: u32) = ucast (word_of_int x :: u8)"
    using assms by (simp add: word_uint_eq_iff unsigned_ucast_eq take_bit_int_eq_self)
qed

lemma segment_levels_range: "i < 7 \<Longrightarrow> 0 \<le> segment_levels frame segment ! i \<and> segment_levels frame segment ! i \<le> 63"
proof -
  assume i: "i < 7"
  have "x \<in> set (segment_levels frame segment) \<Longrightarrow> 0 \<le> x \<and> x \<le> 63" for x
    using clamp_bounds[of 0 "63 :: int"]
    by (auto simp: segment_levels_def cedrus_vp9_filter_level_def Let_def split: if_splits)
  moreover have "length (segment_levels frame segment) = 7" by (simp add: segment_levels_def Let_def)
  ultimately show ?thesis using i by simp
qed

lemma segment_levels_spec:
  assumes "ref < 4" "mode < 2"
  shows "segment_levels frame segment ! (if ref = 0 then 0 else 2 * ref - 1 + mode) = spec_level frame segment ref mode"
proof -
  have "(ref = 0 \<or> ref = 1 \<or> ref = 2 \<or> ref = 3) \<and> (mode = 0 \<or> mode = 1)" using assms by auto
  moreover have d: "drop_bit 5 (x :: int) = x div 32" for x by (simp add: drop_bit_eq_div)
  ultimately show ?thesis
    by (elim conjE disjE; simp add: segment_levels_def spec_level_def Let_def segment_value_spec d
        cedrus_vp9_filter_level_def V4L2_VP9_SEG_LVL_ALT_L_def numeral_eq_Suc; simp add: add.commute)
qed

lemma filter_words_spec:
  assumes "ref < 4" "mode < 2"
  shows "uint (byte_of (filter_words frame segment ! (if ref < 2 then 0 else 1))
      (if ref = 0 then 0 else if ref = 2 then mode else 2 + mode)) = spec_level frame segment ref mode"
proof -
  define v where "v i = (word_of_int (segment_levels frame segment ! i) :: u8)" for i
  define word where "word a b c d = (ucast a OR push_bit 8 (ucast b) OR push_bit 16 (ucast c) OR push_bit 24 (ucast d) :: u32)"
    for a b c d :: u8
  have w: "filter_words frame segment = [word (v 0) 0 (v 1) (v 2), word (v 3) (v 4) (v 5) (v 6)]"
    using segment_levels_range[of _ frame segment]
    by (simp add: filter_words_def word_def v_def level_word(1)[symmetric] Let_def)
  have b: "byte_of (word a b c d) i = (if i = 0 then a else if i = 1 then b else if i = 2 then c else if i = 3 then d else 0)"
    for a b c d i by (simp add: word_def byte_of_word)
  have "(ref = 0 \<or> ref = 1 \<or> ref = 2 \<or> ref = 3) \<and> (mode = 0 \<or> mode = 1)" using assms by auto
  then have "byte_of (filter_words frame segment ! (if ref < 2 then 0 else 1))
      (if ref = 0 then 0 else if ref = 2 then mode else 2 + mode) = v (if ref = 0 then 0 else 2 * ref - 1 + mode)"
    unfolding w by (elim conjE disjE; simp add: b; simp add: numeral_2_eq_2)
  then have "uint (byte_of (filter_words frame segment ! (if ref < 2 then 0 else 1))
      (if ref = 0 then 0 else if ref = 2 then mode else 2 + mode)) = uint (v (if ref = 0 then 0 else 2 * ref - 1 + mode))"
    by simp
  also have "\<dots> = segment_levels frame segment ! (if ref = 0 then 0 else 2 * ref - 1 + mode)"
    using assms segment_levels_range[of "if ref = 0 then 0 else 2 * ref - 1 + mode" frame segment]
    unfolding v_def by (intro level_word(2)) (auto split: if_splits)
  finally show ?thesis using segment_levels_spec[OF assms] by simp
qed

lemma concat_pairs:
  assumes "s < n"
  shows "concat (map (\<lambda>i. [g i, h i]) [0..<n]) ! (2 * s) = g s" "concat (map (\<lambda>i. [g i, h i]) [0..<n]) ! (2 * s + 1) = h s"
    "length (concat (map (\<lambda>i. [g i, h i]) [0..<n])) = 2 * n"
proof -
  let ?l = "\<lambda>n. concat (map (\<lambda>i. [g i, h i]) [0..<n])"
  have len: "length (?l n) = 2 * n" for n by (induction n) simp_all
  have "?l n ! (2 * s) = g s \<and> ?l n ! (2 * s + 1) = h s" if "s < n" for n
    using that
  proof (induction n)
    case (Suc n)
    show ?case
    proof (cases "s = n")
      case True
      then show ?thesis using len[of n] by (simp add: nth_append)
    next
      case False
      then have "s < n" using Suc.prems by simp
      then show ?thesis using Suc.IH len[of n] by (simp add: nth_append)
    qed
  qed simp
  then show "?l n ! (2 * s) = g s" "?l n ! (2 * s + 1) = h s" using assms by simp_all
  show "length (?l n) = 2 * n" by (rule len)
qed

text \<open>The tables after a job.\<close>

lemma length_dequant [simp]: "length (dequant_y frame) = 8" "length (dequant_uv frame) = 8"
  by (simp_all add: dequant_y_def dequant_uv_def)

lemma vp9_job_tables:
  assumes "vp9_mem log = put_block 64 (concat (map (filter_words frame) [0..<8]))
      (put_block 8 (dequant_uv frame) (put_block 0 (dequant_y frame) mem))"
    and "segment < 8"
  shows "vp9_mem log segment = dequant_y frame ! segment" "vp9_mem log (8 + segment) = dequant_uv frame ! segment"
    "vp9_mem log (64 + 2 * segment) = filter_words frame segment ! 0"
    "vp9_mem log (64 + 2 * segment + 1) = filter_words frame segment ! 1"
proof -
  define g where "g s = filter_words frame s ! 0" for s
  define h where "h s = filter_words frame s ! 1" for s
  have f: "filter_words frame = (\<lambda>s. [g s, h s])"
    by (simp add: g_def h_def filter_words_def Let_def fun_eq_iff)
  note c = concat_pairs[OF assms(2), of g h]
  show "vp9_mem log segment = dequant_y frame ! segment"
    using assms(2) put_block_in[of segment "dequant_y frame" 0 mem] by (simp add: assms(1) put_block_out)
  show "vp9_mem log (8 + segment) = dequant_uv frame ! segment"
    using assms(2) put_block_in[of segment "dequant_uv frame" 8] by (simp add: assms(1) put_block_out)
  have "vp9_mem log (64 + k) = concat (map (filter_words frame) [0..<8]) ! k" if "k < 16" for k
    proof -
    have "k < length (concat (map (filter_words frame) [0..<8]))" using that c(3) by (simp only: f)
    then show ?thesis unfolding assms(1) by (rule put_block_in)
  qed
  from this[of "2 * segment"] this[of "2 * segment + 1"]
  show "vp9_mem log (64 + 2 * segment) = filter_words frame segment ! 0"
    "vp9_mem log (64 + 2 * segment + 1) = filter_words frame segment ! 1"
    using assms(2) c(1,2) by (simp_all add: f add.assoc)
qed

text \<open>The quantiser index of a segment before it is clamped, as the driver computes it.\<close>

definition raw_qindex :: "vp9_dec_frame \<Rightarrow> nat \<Rightarrow> int" where
  "raw_qindex frame segment =
    cedrus_vp9_segment_value (vf_seg frame) segment 0 (uint (base_q_idx (vf_quant frame)))"

text \<open>C8: after a job is accepted, the memory of the engine holds, for every segment, reference and mode,
  the loop filter level of the VP9 specification, and, for every segment in use, its four quantisers,
  as long as the index of the segment stays within 0 and 255 or the frame has no deltas.\<close>

theorem vp9_tables:
  assumes "cedrus_dec_vp9_job_configure dev lookup alloc coded picture stream job cur ctx pics heap log =
      Some (None, ctx', pics', heap', log')"
    and "frame = vj_frame job" "segment < 8"
  shows "(\<forall>ref<4. \<forall>mode<2. level_of (vp9_mem log') segment ref mode = spec_level frame segment ref mode) \<and>
    ((segment = 0 \<or> SEGMENTATION_FLAG_ENABLED \<in> seg_flags (vf_seg frame)) \<longrightarrow>
     raw_qindex frame segment \<in> {0..255} \<or> delta_q_y_dc (vf_quant frame) = 0 \<and> delta_q_uv_dc (vf_quant frame) = 0 \<and>
       delta_q_uv_ac (vf_quant frame) = 0 \<longrightarrow>
     quantisers_of (vp9_mem log') segment = spec_quantisers frame segment)"
proof -
  obtain refs low2 addrs c2 where "log' = vp9_write_job dev job (vp9_use_previous_mvs ctx frame) refs low2 addrs c2 ctx' log"
    using vp9_configure_cases[OF assms(1), folded assms(2)] by metis
  then obtain mem where "vp9_mem log' = put_block 64 (concat (map (filter_words frame) [0..<8]))
      (put_block 8 (dequant_uv frame) (put_block 0 (dequant_y frame) mem))"
    using vp9_job_mem assms(2) by metis
  note t = vp9_job_tables[OF this assms(3)]
  have "level_of (vp9_mem log') segment ref mode = spec_level frame segment ref mode" if "ref < 4" "mode < 2" for ref mode
    using filter_words_spec[OF that, of frame segment] t(3,4) by (auto simp: level_of_def split: if_splits)
  moreover have "quantisers_of (vp9_mem log') segment = spec_quantisers frame segment"
    if s: "segment = 0 \<or> SEGMENTATION_FLAG_ENABLED \<in> seg_flags (vf_seg frame)"
      and q: "raw_qindex frame segment \<in> {0..255} \<or> delta_q_y_dc (vf_quant frame) = 0 \<and>
        delta_q_uv_dc (vf_quant frame) = 0 \<and> delta_q_uv_ac (vf_quant frame) = 0"
  proof -
    have "dequant_y frame ! segment = fst (dequant_words frame segment)"
      "dequant_uv frame ! segment = snd (dequant_words frame segment)"
      using s assms(3) by (auto simp: dequant_y_def dequant_uv_def nth_arr_for)
    then show ?thesis
      using dequant_words_spec[OF q[unfolded raw_qindex_def]] t(1,2)
      by (simp add: quantisers_of_def case_prod_beta)
  qed
  ultimately show ?thesis by blast
qed

text \<open>An example: a key frame of 64 by 64 whose second segment changes the quantiser and the level.\<close>

definition ex_vp9_seg :: "int \<Rightarrow> vp9_segmentation" where
  "ex_vp9_seg d = \<lparr>feature_data = replicate 8 [d, -3, 0, 0], feature_enabled = 0 # 3 # replicate 6 0,
     tree_probs = replicate 7 255, pred_probs = replicate 3 255,
     seg_flags = {SEGMENTATION_FLAG_ENABLED, SEGMENTATION_FLAG_UPDATE_MAP}\<rparr>"

definition ex_vp9_frame :: "u8 \<Rightarrow> int \<Rightarrow> int \<Rightarrow> vp9_dec_frame" where
  "ex_vp9_frame q d dc = \<lparr>vf_flags = V4L2_VP9_FRAME_FLAG_KEY_FRAME, vf_reset_frame_context = 0,
     vf_frame_context_idx = 0, vf_interpolation_filter = 0, vf_reference_mode = 0,
     vf_lf = \<lparr>ref_deltas = [1, 0, -1, -1], mode_deltas = [0, 0], lf_level = 40,
       lf_flags = {LOOP_FILTER_FLAG_DELTA_ENABLED}\<rparr>,
     vf_quant = \<lparr>base_q_idx = q, delta_q_y_dc = dc, delta_q_uv_dc = 0, delta_q_uv_ac = 0\<rparr>,
     vf_seg = ex_vp9_seg d, compressed_header_size = 40, uncompressed_header_size = 20,
     frame_width_minus_1 = 63, frame_height_minus_1 = 63, last_frame_ts = 0, golden_frame_ts = 0,
     alt_frame_ts = 0, vf_profile = 0, vf_bit_depth = 8, tile_cols_log2 = 0, tile_rows_log2 = 0\<rparr>"

definition ex_vp9_hdr :: vp9_compressed_hdr where
  "ex_vp9_hdr = zero_hdr 0"

definition ex_vp9_pix :: pix_format where
  "ex_vp9_pix = zero_pix\<lparr>pix_width := 512, pix_height := 512, bytesperline := 512, pixelformat := V4L2_PIX_FMT_NV12\<rparr>"

definition ex_vp9_ctx :: vp9_context where
  "ex_vp9_ctx = \<lparr>vc_prob_count = Some 0x60000000, vc_prob_image = (\<lambda>_. 0), vc_entry_info = Some 0x61000000,
     vc_segment_map = [Some 0x62000000, Some 0x63000000], vc_segment_image = replicate 2 (\<lambda>_. 0),
     vc_segment_map_size = 32, vc_active_segment_map = 0, vc_mv_col = Some 0x64000000, vc_mv_col_size = 0x5000,
     vc_probability_tables = default_probs, vc_frame_context = replicate 4 default_probs,
     vc_frame_context_idx = 0, vc_previous_width = 0, vc_previous_height = 0, vc_previous_valid = False,
     vc_previous_show_frame = False, vc_previous_intra_only = False, vc_previous_key_frame = False\<rparr>"

definition ex_vp9_buffer :: vp9_buffer where
  "ex_vp9_buffer = \<lparr>vb_width = 0, vb_height = 0, vb_bit_depth = 0, vb_valid = False, vb_recon = None,
     vb_recon_size = 0, vb_recon_chroma_offset = 0\<rparr>"

definition ex_vp9_pics :: vp9_pictures where
  "ex_vp9_pics = [\<lparr>pic_addr = 0x50000000, pic_timestamp = 1, pic_engine = ex_vp9_buffer\<rparr>]"

definition ex_vp9_dev :: cedrus_device where
  "ex_vp9_dev = \<lparr>dev_capabilities = 0, dev_dma_offset = 0, dev_enc_addr_shift = 0\<rparr>"

abbreviation ex_vp9_configure where
  "ex_vp9_configure frame \<equiv> cedrus_dec_vp9_job_configure ex_vp9_dev first_with_timestamp (\<lambda>_ _. None) ex_vp9_pix
     ex_vp9_pix (0x40000000, 1000, 4096) \<lparr>vj_frame = frame, vj_compressed_hdr = ex_vp9_hdr\<rparr> 0"

lemma ex_vp9_accepts:
  assumes "vf_flags frame = V4L2_VP9_FRAME_FLAG_KEY_FRAME" "vf_profile frame = 0" "vf_bit_depth frame = 8"
    and "tile_cols_log2 frame \<le> 6" "tile_rows_log2 frame \<le> 2" "vp9_width frame \<le> 512" "vp9_height frame \<le> 512"
    and "vp9_header_size frame < 1000"
    and "vc_prob_count ctx \<noteq> None"
  shows "\<exists>ctx' log'. cedrus_dec_vp9_job_configure ex_vp9_dev first_with_timestamp alloc ex_vp9_pix
     ex_vp9_pix (0x40000000, 1000, 4096) \<lparr>vj_frame = frame, vj_compressed_hdr = ex_vp9_hdr\<rparr> 0 ctx ex_vp9_pics heap [] =
     Some (None, ctx', ex_vp9_pics, heap, log')"
proof -
  let ?j = "\<lparr>vj_frame = frame, vj_compressed_hdr = ex_vp9_hdr\<rparr>"
  have high: "\<not> vp9_high_bit_depth frame" using assms(2) by (simp add: vp9_high_bit_depth_def)
  have sup: "vp9_supported ex_vp9_pix ex_vp9_pix ?j"
    using assms by (simp add: vp9_supported_def ex_vp9_pix_def ex_vp9_hdr_def zero_hdr_def
        hdr_simps zero_pix_def not_less)
  have target: "vp9_target alloc frame ex_vp9_buffer heap = (None, 0, 0, ex_vp9_buffer, heap)"
    by (simp add: vp9_target_def high)
  have refs: "vp9_references first_with_timestamp ex_vp9_pix ex_vp9_pics frame =
      Inr (zero_reference, zero_reference, zero_reference)"
    by (simp add: vp9_references_def assms(1) flag_set_def hdr_simps)
  have addr: "vp9_addresses ex_vp9_dev ex_vp9_pix frame 0x40000000 (ex_vp9_pics ! 0) =
      [0x40000000, 0x50000000, 0x50040000, 0x50000000, 0x50040000]"
    by (simp add: vp9_addresses_def high Let_def cedrus_buffer_picture_dma_def ex_vp9_pics_def ex_vp9_pix_def
        ex_vp9_dev_def cedrus_dma_addr_def zero_pix_def)
  have rng: "vp9_ranges frame (1000, 4096) (vp9_addresses ex_vp9_dev ex_vp9_pix frame 0x40000000 (ex_vp9_pics ! 0))"
    unfolding addr using assms(8) by (simp add: vp9_ranges_def)
  have pics: "ex_vp9_pics[0 := (ex_vp9_pics ! 0)\<lparr>pic_engine := ex_vp9_buffer\<rparr>] = ex_vp9_pics"
    "pic_engine (ex_vp9_pics ! 0) = ex_vp9_buffer"
    by (simp_all add: ex_vp9_pics_def)
  show ?thesis
    using assms(9) by (simp add: cedrus_dec_vp9_job_configure_def Let_def sup target pics refs rng)
qed

lemma ex_vp9_accepted:
  "\<exists>ctx' log'. ex_vp9_configure (ex_vp9_frame q d dc) ex_vp9_ctx ex_vp9_pics [] [] =
    Some (None, ctx', ex_vp9_pics, [], log')"
  by (rule ex_vp9_accepts) (simp_all add: ex_vp9_frame_def vp9_width_def vp9_height_def vp9_header_size_def ex_vp9_ctx_def)

lemma ex_vp9_raw [simp]: "raw_qindex (ex_vp9_frame q d dc) (Suc 0) = uint q + d"
  by (simp add: raw_qindex_def segment_value_spec seg_feature_active_def ex_vp9_frame_def ex_vp9_seg_def bit_simps)

lemma ex_vp9_quantisers:
  "spec_quantisers (ex_vp9_frame q d dc) (Suc 0) = map uint
     [dc_qlookup ! nat (clamp (clamp (uint q + d) 0 255 + dc) 0 255), ac_qlookup ! nat (clamp (uint q + d) 0 255),
      dc_qlookup ! nat (clamp (uint q + d) 0 255), ac_qlookup ! nat (clamp (uint q + d) 0 255)]"
  by (simp add: spec_quantisers_def Let_def spec_qindex_def seg_feature_active_def ex_vp9_frame_def ex_vp9_seg_def
      clamp_id clamp_bounds bit_simps)

lemma ex_vp9_level:
  "spec_level (ex_vp9_frame q d dc) (Suc 0) ref mode =
    (if ref = 0 then clamp (37 + 2) 0 63 else clamp (37 + [1, 0, -1, -1] ! ref * 2 + [0, 0] ! mode * 2) 0 63)"
proof -
  have a: "seg_feature_active (ex_vp9_seg d) (Suc 0) (Suc 0)"
    by (simp add: seg_feature_active_def ex_vp9_seg_def bit_simps)
  show ?thesis
    by (simp add: spec_level_def Let_def a[unfolded ex_vp9_seg_def] ex_vp9_frame_def ex_vp9_seg_def)
      (simp add: clamp_def)
qed

lemma quant_reads: "dc_qlookup ! 84 = 77" "dc_qlookup ! 80 = 74" "ac_qlookup ! 80 = 87"
  "dc_qlookup ! 245 = 925" "dc_qlookup ! 255 = 1336" "ac_qlookup ! 255 = 1828"
  by code_simp+

theorem vp9_tables_witness:
  "\<exists>ctx' log'. ex_vp9_configure (ex_vp9_frame 100 (-20) 4) ex_vp9_ctx ex_vp9_pics [] [] =
      Some (None, ctx', ex_vp9_pics, [], log') \<and>
    quantisers_of (vp9_mem log') 1 = [77, 87, 74, 87] \<and> level_of (vp9_mem log') 1 0 0 = 39 \<and>
    level_of (vp9_mem log') 1 3 1 = 35"
proof -
  obtain ctx' log' where c: "ex_vp9_configure (ex_vp9_frame 100 (-20) 4) ex_vp9_ctx ex_vp9_pics [] [] =
      Some (None, ctx', ex_vp9_pics, [], log')"
    using ex_vp9_accepted by blast
  have e: "SEGMENTATION_FLAG_ENABLED \<in> seg_flags (vf_seg (ex_vp9_frame 100 (-20) 4))"
    by (simp add: ex_vp9_frame_def ex_vp9_seg_def)
  note t = vp9_tables[OF c, of "ex_vp9_frame 100 (-20) 4" 1]
  have r: "raw_qindex (ex_vp9_frame 100 (-20) 4) 1 \<in> {0..255}" by simp
  have q: "quantisers_of (vp9_mem log') 1 = spec_quantisers (ex_vp9_frame 100 (-20) 4) 1"
    using t e r by simp
  have l: "level_of (vp9_mem log') 1 0 0 = spec_level (ex_vp9_frame 100 (-20) 4) 1 0 0"
    "level_of (vp9_mem log') 1 3 1 = spec_level (ex_vp9_frame 100 (-20) 4) 1 3 1"
    using conjunct1[OF t] by simp_all
  have "spec_quantisers (ex_vp9_frame 100 (-20) 4) 1 = [77, 87, 74, 87]"
    by (simp add: ex_vp9_quantisers clamp_def quant_reads)
  moreover have "spec_level (ex_vp9_frame 100 (-20) 4) 1 0 0 = 39" "spec_level (ex_vp9_frame 100 (-20) 4) 1 3 1 = 35"
    by (simp_all add: ex_vp9_level clamp_def)
  ultimately show ?thesis using c q l by auto
qed

text \<open>C40: where the index of a segment leaves 0 to 255 the driver adds the delta of the frame before it clamps,
  while the specification clamps the index first: with an index of 250 + 20 and a delta of -10 the
  engine uses the quantiser of 255 for the luma DC coefficient, the specification that of 245.\<close>

theorem vp9_dequant_clamps_late:
  "\<exists>ctx' log'. ex_vp9_configure (ex_vp9_frame 250 20 (-10)) ex_vp9_ctx ex_vp9_pics [] [] =
      Some (None, ctx', ex_vp9_pics, [], log') \<and>
    quantisers_of (vp9_mem log') 1 ! 0 = 1336 \<and> spec_quantisers (ex_vp9_frame 250 20 (-10)) 1 ! 0 = 925"
proof -
  let ?f = "ex_vp9_frame 250 20 (-10)"
  obtain ctx' log' where c: "ex_vp9_configure ?f ex_vp9_ctx ex_vp9_pics [] [] =
      Some (None, ctx', ex_vp9_pics, [], log')"
    using ex_vp9_accepted by blast
  obtain refs low2 addrs c2 where "log' = vp9_write_job ex_vp9_dev \<lparr>vj_frame = ?f, vj_compressed_hdr = ex_vp9_hdr\<rparr>
      (vp9_use_previous_mvs ex_vp9_ctx ?f) refs low2 addrs c2 ctx' []"
    using vp9_configure_cases[OF c] by (metis vp9_job.select_convs(1))
  then obtain mem where "vp9_mem log' = put_block 64 (concat (map (filter_words ?f) [0..<8]))
      (put_block 8 (dequant_uv ?f) (put_block 0 (dequant_y ?f) mem))"
    using vp9_job_mem by (metis vp9_job.select_convs(1))
  note t = vp9_job_tables(1)[OF this, of 1]
  have "dequant_y ?f ! 1 = fst (dequant_words ?f 1)"
    by (simp add: dequant_y_def nth_arr_for ex_vp9_frame_def ex_vp9_seg_def)
  also have "\<dots> = ucast (dc_qlookup ! 255) OR push_bit 16 (ucast (ac_qlookup ! 255))"
    using ex_vp9_raw[of 250 20 "-10"]
    by (simp add: dequant_words_def Let_def V4L2_VP9_SEG_LVL_ALT_Q_def raw_qindex_def cedrus_vp9_clamp_q_def clamp_def
        ex_vp9_frame_def)
  finally have "field 15 0 (vp9_mem log' 1) = uint (dc_qlookup ! 255)" using t field_halves(1) by simp
  then have "quantisers_of (vp9_mem log') 1 ! 0 = 1336" by (simp add: quantisers_of_def quant_reads)
  moreover have "spec_quantisers ?f 1 ! 0 = 925"
    by (simp add: ex_vp9_quantisers clamp_def quant_reads)
  ultimately show ?thesis using c by blast
qed

end
