(* ===== verification/Vp9_Dec_Tiles.thy ===== *)
theory Vp9_Dec_Tiles
  imports Vp9_Dec_Tables
begin

text \<open>The tiles of a VP9 job: the first is in two registers, the others in records at the start of the
  image the hardware reads; together they partition the superblocks of the frame.\<close>

section \<open>Words in an image\<close>

text \<open>A word of the image, as a little-endian processor reads it.\<close>

definition image_word :: "(nat \<Rightarrow> u8) \<Rightarrow> nat \<Rightarrow> u32" where
  "image_word mem a = le32_words [mem a, mem (a + 1), mem (a + 2), mem (a + 3)] ! 0"

lemma le32_word_bytes: "le32_words (word_bytes w) = [w]"
proof -
  let ?v = "ucast (byte_of w 0) OR push_bit 8 (ucast (byte_of w 1)) OR push_bit 16 (ucast (byte_of w 2)) OR
      push_bit 24 (ucast (byte_of w 3)) :: u32"
  have "?v = w"
  proof (rule bit_word_eqI)
    fix n assume n: "n < LENGTH(32)"
    have "n < 8 \<or> 8 \<le> n \<and> n < 16 \<or> 16 \<le> n \<and> n < 24 \<or> 24 \<le> n" by linarith
    then show "bit ?v n = bit w n"
      using n by (elim disjE conjE) (auto simp: byte_of_def bit_simps)
  qed
  moreover have "[0..<4] = [0, 1, 2, 3 :: nat]" by (simp add: upt_rec)
  ultimately show ?thesis by (simp add: word_bytes_def)
qed

section \<open>Splitting a row of superblocks\<close>

definition tile_offset :: "nat \<Rightarrow> nat \<Rightarrow> nat \<Rightarrow> nat" where
  "tile_offset sbs log2 n = n * sbs div 2 ^ log2"

lemma tile_offset_ends: "tile_offset sbs log2 0 = 0" "tile_offset sbs log2 (2 ^ log2) = sbs"
  by (simp_all add: tile_offset_def)

lemma tile_offset_mono: "m \<le> n \<Longrightarrow> tile_offset sbs log2 m \<le> tile_offset sbs log2 n"
  by (simp add: tile_offset_def div_le_mono)

lemma tile_offset_less: "2 ^ log2 \<le> sbs \<Longrightarrow> tile_offset sbs log2 n < tile_offset sbs log2 (Suc n)"
proof -
  assume "2 ^ log2 \<le> sbs"
  then have "(n * sbs + 2 ^ log2) div 2 ^ log2 \<le> Suc n * sbs div 2 ^ log2" by (intro div_le_mono) simp
  then show ?thesis by (simp only: tile_offset_def) (simp add: div_add_self2)
qed

lemma interval_of:
  fixes f :: "nat \<Rightarrow> nat"
  assumes "\<And>m n. m \<le> n \<Longrightarrow> f m \<le> f n" "f 0 = 0" "x < f n"
  shows "\<exists>!c. c < n \<and> f c \<le> x \<and> x < f (Suc c)"
proof -
  have "\<exists>c<n. f c \<le> x \<and> x < f (Suc c)"
    using assms(3)
  proof (induction n)
    case (Suc n)
    show ?case
    proof (cases "x < f n")
      case True
      then show ?thesis using Suc.IH less_Suc_eq by blast
    next
      case False
      then show ?thesis using Suc.prems by auto
    qed
  qed (simp add: assms(2))
  moreover have "c = d" if "f c \<le> x" "x < f (Suc c)" "f d \<le> x" "x < f (Suc d)" for c d
  proof (rule ccontr)
    assume "c \<noteq> d"
    then have "Suc c \<le> d \<or> Suc d \<le> c" by auto
    then show False using that assms(1)[of "Suc c" d] assms(1)[of "Suc d" c] by auto
  qed
  ultimately show ?thesis by blast
qed

lemma tile_of_superblock:
  assumes "x < sb_cols" "y < sb_rows"
  shows "\<exists>!tile. tile < 2 ^ cl * 2 ^ rl \<and>
    tile_offset sb_cols cl (tile mod 2 ^ cl) \<le> x \<and> x < tile_offset sb_cols cl (Suc (tile mod 2 ^ cl)) \<and>
    tile_offset sb_rows rl (tile div 2 ^ cl) \<le> y \<and> y < tile_offset sb_rows rl (Suc (tile div 2 ^ cl))"
proof -
  have "\<exists>!c. c < 2 ^ cl \<and> tile_offset sb_cols cl c \<le> x \<and> x < tile_offset sb_cols cl (Suc c)"
    "\<exists>!r. r < 2 ^ rl \<and> tile_offset sb_rows rl r \<le> y \<and> y < tile_offset sb_rows rl (Suc r)"
    by (rule interval_of; simp add: tile_offset_mono tile_offset_ends assms)+
  then obtain c r where c: "c < 2 ^ cl" "tile_offset sb_cols cl c \<le> x" "x < tile_offset sb_cols cl (Suc c)"
      and cu: "\<And>c'. c' < 2 ^ cl \<Longrightarrow> tile_offset sb_cols cl c' \<le> x \<Longrightarrow> x < tile_offset sb_cols cl (Suc c') \<Longrightarrow> c' = c"
    and r: "r < 2 ^ rl" "tile_offset sb_rows rl r \<le> y" "y < tile_offset sb_rows rl (Suc r)"
      and ru: "\<And>r'. r' < 2 ^ rl \<Longrightarrow> tile_offset sb_rows rl r' \<le> y \<Longrightarrow> y < tile_offset sb_rows rl (Suc r') \<Longrightarrow> r' = r"
    by metis
  have "Suc r * 2 ^ cl \<le> 2 ^ rl * 2 ^ cl" using r(1) by (intro mult_le_mono1) simp
  then have n: "r * 2 ^ cl + c < 2 ^ cl * 2 ^ rl" using c(1) by (simp add: mult.commute)
  have d: "(r * 2 ^ cl + c) mod 2 ^ cl = c" "(r * 2 ^ cl + c) div 2 ^ cl = r" using c(1) by simp_all
  show ?thesis
  proof (rule ex1I[of _ "r * 2 ^ cl + c"], unfold d)
    show "r * 2 ^ cl + c < 2 ^ cl * 2 ^ rl \<and> tile_offset sb_cols cl c \<le> x \<and> x < tile_offset sb_cols cl (Suc c) \<and>
      tile_offset sb_rows rl r \<le> y \<and> y < tile_offset sb_rows rl (Suc r)" using n c r by blast
  next
    fix tile
    assume t: "tile < 2 ^ cl * 2 ^ rl \<and>
      tile_offset sb_cols cl (tile mod 2 ^ cl) \<le> x \<and> x < tile_offset sb_cols cl (Suc (tile mod 2 ^ cl)) \<and>
      tile_offset sb_rows rl (tile div 2 ^ cl) \<le> y \<and> y < tile_offset sb_rows rl (Suc (tile div 2 ^ cl))"
    then have "tile div 2 ^ cl < 2 ^ rl" by (simp add: less_mult_imp_div_less mult.commute)
    then have "tile mod 2 ^ cl = c" "tile div 2 ^ cl = r" using t cu ru by simp_all
    then show "tile = r * 2 ^ cl + c" by (metis div_mult_mod_eq)
  qed
qed

section \<open>The records of a job\<close>

lemma unat_tile_coord:
  assumes "c \<le> 64" "s \<le> 1024"
  shows "unat (drop_bit l (word_of_nat c * word_of_nat s :: u32)) = tile_offset s l c"
proof -
  have "c * s \<le> 64 * 1024" using assms by (rule mult_le_mono)
  then have n: "c * s < 2 ^ 32" by simp
  then have "unat (word_of_nat (c * s) :: u32) = c * s" by (simp add: unat_of_nat take_bit_nat_eq_self del: of_nat_mult)
  then have "unat (drop_bit l (word_of_nat c * word_of_nat s :: u32)) = drop_bit l (take_bit 32 (c * s))"
    by (simp add: unsigned_drop_bit_eq)
  then show ?thesis using n by (simp only: take_bit_nat_eq_self tile_offset_def drop_bit_eq_div)
qed

lemma field_pair:
  assumes "unat (x :: u32) < 2 ^ 16" "unat y < 2 ^ 16"
  shows "field 15 0 (push_bit 16 y OR x) = int (unat x)" "field 31 16 (push_bit 16 y OR x) = int (unat y)"
proof -
  have n: "unat (ucast a :: u16) = unat a" if "unat a < 2 ^ 16" for a :: u32
    using that by (simp add: unat_ucast_mod)
  have "ucast (ucast a :: u16) = a" if "unat a < 2 ^ 16" for a :: u32
    using n[OF that] by (simp add: word_unat_eq_iff unat_ucast_up)
  then have "push_bit 16 y OR x = ucast (ucast x :: u16) OR push_bit 16 (ucast (ucast y :: u16))"
    using assms by (simp add: or.commute)
  moreover have "uint (ucast a :: u16) = int (unat a)" if "unat a < 2 ^ 16" for a :: u32
    using n[OF that] by (metis uint_nat)
  ultimately show "field 15 0 (push_bit 16 y OR x) = int (unat x)" "field 31 16 (push_bit 16 y OR x) = int (unat y)"
    using assms by (simp_all only: field_halves)
qed

text \<open>The two words that describe a tile: registers for the first, a record of the image for the others.\<close>

definition tile_words :: "(nat \<Rightarrow> u8) \<Rightarrow> io_log \<Rightarrow> nat \<Rightarrow> u32 \<times> u32" where
  "tile_words mem log tile =
    (if tile = 0 then (the (last_write VE_DEC_VP9_TILE_START log), the (last_write VE_DEC_VP9_TILE_END log))
     else (image_word mem ((tile - 1) * 16 + 8), image_word mem ((tile - 1) * 16 + 12)))"

definition in_tile :: "u32 \<times> u32 \<Rightarrow> nat \<Rightarrow> nat \<Rightarrow> bool" where
  "in_tile w x y \<longleftrightarrow> field 15 0 (fst w) \<le> int x \<and> int x \<le> field 15 0 (snd w) \<and>
    field 31 16 (fst w) \<le> int y \<and> int y \<le> field 31 16 (snd w)"

lemma length_word_bytes [simp]: "length (word_bytes w) = 4"
  by (simp add: word_bytes_def)

lemma put_tiles_record:
  assumes "0 < tile" "tile < 2 ^ unat (tile_cols_log2 frame) * 2 ^ unat (tile_rows_log2 frame)"
  shows "image_word (put_tiles frame mem) ((tile - 1) * 16 + 8) = tile_entry frame tile ! 2"
    "image_word (put_tiles frame mem) ((tile - 1) * 16 + 12) = tile_entry frame tile ! 3"
proof -
  let ?b = "\<lambda>tile. concat (map word_bytes (tile_entry frame tile))"
  have l: "length (?b i) = 16" for i by (simp add: tile_entry_def Let_def)
  have r: "put_tiles frame mem ((tile - 1) * 16 + k) = ?b tile ! k" if "k < 16" for k
    unfolding put_tiles_def
    by (rule fold_put_block) (use assms that l in auto)
  obtain w0 w1 w2 w3 where e: "tile_entry frame tile = [w0, w1, w2, w3]"
    by (simp add: tile_entry_def Let_def)
  have "image_word (put_tiles frame mem) ((tile - 1) * 16 + 4 * j) = tile_entry frame tile ! j" if "j < 4" for j
  proof -
    have "[put_tiles frame mem ((tile - 1) * 16 + 4 * j), put_tiles frame mem ((tile - 1) * 16 + 4 * j + 1),
        put_tiles frame mem ((tile - 1) * 16 + 4 * j + 2), put_tiles frame mem ((tile - 1) * 16 + 4 * j + 3)] =
        [?b tile ! (4 * j), ?b tile ! (4 * j + 1), ?b tile ! (4 * j + 2), ?b tile ! (4 * j + 3)]"
      using that r[of "4 * j"] r[of "4 * j + 1"] r[of "4 * j + 2"] r[of "4 * j + 3"] by (simp add: add.assoc)
    also have "\<dots> = word_bytes (tile_entry frame tile ! j)"
    proof -
      have "j = 0 \<or> j = 1 \<or> j = 2 \<or> j = 3" using that by auto
      then show ?thesis by (elim disjE; simp add: e word_bytes_def upt_rec)
    qed
    finally show ?thesis by (simp add: image_word_def le32_word_bytes)
  qed
  from this[of 2] this[of 3]
  show "image_word (put_tiles frame mem) ((tile - 1) * 16 + 8) = tile_entry frame tile ! 2"
    "image_word (put_tiles frame mem) ((tile - 1) * 16 + 12) = tile_entry frame tile ! 3" by simp_all
qed

lemma prepared_tiles:
  "\<exists>mem. vc_prob_image (vp9_prepare_images job ctx) = put_tiles (vj_frame job) mem"
  by (auto simp: vp9_prepare_images_def Let_def split: prod.split)

lemma last_write_other: "r \<notin> fst ` set ws \<Longrightarrow> last_write r (writes ws log) = last_write r log"
  by (induction ws arbitrary: log) (auto simp: writes_Cons)

lemma last_write_tables:
  assumes "r \<noteq> VE_DEC_VP9_SRAM_OFFSET" "r \<noteq> VE_DEC_VP9_SRAM_DATA"
  shows "last_write r (cedrus_vp9_loop_filter_write frame log) = last_write r log"
    "last_write r (cedrus_vp9_dequant_write frame log) = last_write r log"
proof -
  have "last_write r (cedrus_vp9_sram_write off ws log) = last_write r log" for off ws log
    unfolding cedrus_vp9_sram_write_def using assms by (intro last_write_other) auto
  then show "last_write r (cedrus_vp9_loop_filter_write frame log) = last_write r log"
    "last_write r (cedrus_vp9_dequant_write frame log) = last_write r log"
    by (simp_all add: cedrus_vp9_loop_filter_write_def cedrus_vp9_dequant_write_def Let_def)
qed

lemmas vp9_register_lists = size_registers_def work_registers_def output_registers_def plane_registers_def top_registers_def
  stream_registers_def

lemma tile_registers_once:
  assumes "r \<in> {VE_DEC_VP9_TILE_START, VE_DEC_VP9_TILE_END}"
  shows "r \<notin> fst ` set (stream_registers frame a n m)" "r \<notin> fst ` set (top_registers frame)"
    "r \<notin> fst ` set (plane_registers dev l c refs)" "r \<notin> fst ` set (output_registers frame o2 s2 dl dc)"
    "r \<noteq> VE_DEC_VP9_SRAM_OFFSET" "r \<noteq> VE_DEC_VP9_SRAM_DATA"
  using assms by (auto simp: vp9_register_lists Let_def hdr_simps split: prod.splits if_splits)

lemma tile_registers:
  "last_write VE_DEC_VP9_TILE_START (vp9_write_job dev job use_mvs refs low2 addrs coded ctx log) = Some 0"
  "last_write VE_DEC_VP9_TILE_END (vp9_write_job dev job use_mvs refs low2 addrs coded ctx log) = Some (
       push_bit 16 (drop_bit (unat (tile_rows_log2 (vj_frame job))) (vp9_sb (vp9_height (vj_frame job))) - 1) OR
       (drop_bit (unat (tile_cols_log2 (vj_frame job))) (vp9_sb (vp9_width (vj_frame job))) - 1))"
proof -
  have w: "last_write VE_DEC_VP9_TILE_START (writes (work_registers dev ctx frame) log) = Some 0"
    "last_write VE_DEC_VP9_TILE_END (writes (work_registers dev ctx frame) log) = Some (
       push_bit 16 (drop_bit (unat (tile_rows_log2 frame)) (vp9_sb (vp9_height frame)) - 1) OR
       (drop_bit (unat (tile_cols_log2 frame)) (vp9_sb (vp9_width frame)) - 1))" for frame log
    by (simp_all add: work_registers_def last_write_writes VE_DEC_VP9_TILE_START_def VE_DEC_VP9_TILE_END_def
        VE_DEC_VP9_TQ_BYPASS_ADDR_def VE_DEC_VP9_VLD_BYPASS_ADDR_def VE_DEC_VP9_COL_MV_ADDR_def
        VE_DEC_VP9_ENTROPY_LOWER8_def)
  have "last_write r (vp9_write_job dev job use_mvs refs low2 addrs coded ctx log) =
      last_write r (writes (work_registers dev ctx (vj_frame job)) (writes (size_registers (vj_frame job) refs)
        (writes [(VE_DEC_VP9_STATUS, VE_DEC_VP9_STATUS_MASK), (VE_DEC_VP9_HDR_SYNC, hdr_sync_value job use_mvs)] log)))"
    if "r \<in> {VE_DEC_VP9_TILE_START, VE_DEC_VP9_TILE_END}" for r
    unfolding vp9_write_job_def Let_def
    by (simp add: last_write_other tile_registers_once[OF that] last_write_tables writes_Cons)
  then show "last_write VE_DEC_VP9_TILE_START (vp9_write_job dev job use_mvs refs low2 addrs coded ctx log) = Some 0"
    "last_write VE_DEC_VP9_TILE_END (vp9_write_job dev job use_mvs refs low2 addrs coded ctx log) = Some (
       push_bit 16 (drop_bit (unat (tile_rows_log2 (vj_frame job))) (vp9_sb (vp9_height (vj_frame job))) - 1) OR
       (drop_bit (unat (tile_cols_log2 (vj_frame job))) (vp9_sb (vp9_width (vj_frame job))) - 1))"
    by (simp_all add: w)
qed

text \<open>The words of every tile, the first included, come from the same formula.\<close>

lemma vp9_tile_words:
  assumes "vc_prob_image ctx' = put_tiles frame mem" "frame = vj_frame job"
    and "tile < 2 ^ unat (tile_cols_log2 frame) * 2 ^ unat (tile_rows_log2 frame)"
  shows "tile_words (vc_prob_image ctx') (vp9_write_job dev job use_mvs refs low2 addrs coded ctx' log) tile =
    (tile_entry frame tile ! 2, tile_entry frame tile ! 3)"
proof (cases "tile = 0")
  case True
  then show ?thesis
    by (simp add: tile_words_def tile_registers tile_entry_def Let_def assms(2))
next
  case False
  then show ?thesis
    using assms(3) put_tiles_record[of tile frame mem] by (simp add: tile_words_def assms(1))
qed

lemma in_tile_iff:
  assumes "unat (tile_cols_log2 frame) \<le> 6" "unat (tile_rows_log2 frame) \<le> 2"
    and "tile < 2 ^ unat (tile_cols_log2 frame) * 2 ^ unat (tile_rows_log2 frame)"
    and "2 ^ unat (tile_cols_log2 frame) \<le> sb_cols" "2 ^ unat (tile_rows_log2 frame) \<le> sb_rows"
    and "sb_cols = DIV_ROUND_UP (vp9_width frame) 64" "sb_rows = DIV_ROUND_UP (vp9_height frame) 64"
  shows "in_tile (tile_entry frame tile ! 2, tile_entry frame tile ! 3) x y \<longleftrightarrow>
    (let cl = unat (tile_cols_log2 frame); rl = unat (tile_rows_log2 frame) in
     tile_offset sb_cols cl (tile mod 2 ^ cl) \<le> x \<and> x < tile_offset sb_cols cl (Suc (tile mod 2 ^ cl)) \<and>
     tile_offset sb_rows rl (tile div 2 ^ cl) \<le> y \<and> y < tile_offset sb_rows rl (Suc (tile div 2 ^ cl)))"
proof -
  define cl rl where l: "cl = unat (tile_cols_log2 frame)" "rl = unat (tile_rows_log2 frame)"
  define c r where cr: "c = tile mod 2 ^ cl" "r = tile div 2 ^ cl"
  have "vp9_width frame \<le> 65536" "vp9_height frame \<le> 65536"
    using unat_lt2p[of "frame_width_minus_1 frame"] unat_lt2p[of "frame_height_minus_1 frame"]
    by (simp_all add: vp9_width_def vp9_height_def)
  then have s: "sb_cols \<le> 1024" "sb_rows \<le> 1024" by (simp_all add: assms(6,7) DIV_ROUND_UP_def)
  have p: "(2 :: nat) ^ cl \<le> 2 ^ 6" "(2 :: nat) ^ rl \<le> 2 ^ 2" 
    unfolding l by (rule power_increasing; use assms(1,2) in simp)+
  have "c < 2 ^ cl" by (simp add: cr)
  moreover have "r < 2 ^ rl" using assms(3) by (simp add: cr l less_mult_imp_div_less mult.commute)
  ultimately have k: "Suc c \<le> 2 ^ cl" "Suc r \<le> 2 ^ rl" by simp_all
  have sb: "vp9_sb (vp9_width frame) = word_of_nat sb_cols" "vp9_sb (vp9_height frame) = word_of_nat sb_rows"
    by (simp_all add: vp9_sb_def assms(6,7))
  have e: "tile_entry frame tile ! 2 = push_bit 16 (drop_bit rl (word_of_nat r * word_of_nat sb_rows)) OR
      drop_bit cl (word_of_nat c * word_of_nat sb_cols)"
    "tile_entry frame tile ! 3 = push_bit 16 (drop_bit rl (word_of_nat (Suc r) * word_of_nat sb_rows) - 1) OR
      (drop_bit cl (word_of_nat (Suc c) * word_of_nat sb_cols) - 1)"
    by (simp_all add: tile_entry_def Let_def sb l cr add.commute)
  have off: "unat (drop_bit cl (word_of_nat c * word_of_nat sb_cols :: u32)) = tile_offset sb_cols cl c"
    "unat (drop_bit cl (word_of_nat (Suc c) * word_of_nat sb_cols :: u32)) = tile_offset sb_cols cl (Suc c)"
    "unat (drop_bit rl (word_of_nat r * word_of_nat sb_rows :: u32)) = tile_offset sb_rows rl r"
    "unat (drop_bit rl (word_of_nat (Suc r) * word_of_nat sb_rows :: u32)) = tile_offset sb_rows rl (Suc r)"
    by (rule unat_tile_coord; use k p[simplified] s in linarith)+
  have pos: "0 < tile_offset sb_cols cl (Suc c)" "0 < tile_offset sb_rows rl (Suc r)"
    using tile_offset_less[of cl sb_cols c] tile_offset_less[of rl sb_rows r] assms(4,5) by (simp_all add: l)
  have le: "tile_offset sb_cols cl (Suc c) \<le> 1024" "tile_offset sb_rows rl (Suc r) \<le> 1024"
    "tile_offset sb_cols cl c \<le> 1024" "tile_offset sb_rows rl r \<le> 1024"
    using tile_offset_mono[of "Suc c" "2 ^ cl" sb_cols cl] tile_offset_mono[of "Suc r" "2 ^ rl" sb_rows rl]
      tile_offset_mono[of c "2 ^ cl" sb_cols cl] tile_offset_mono[of r "2 ^ rl" sb_rows rl] k s tile_offset_ends(2)
    by simp_all
  have minus: "unat (w - 1 :: u32) = unat w - 1" if "0 < unat w" for w
    using that by (metis Suc_pred' unat_minus_one unat_gt_0 diff_Suc_1 less_not_refl2)
  have fields: "field 15 0 (tile_entry frame tile ! 2) = int (tile_offset sb_cols cl c)"
    "field 31 16 (tile_entry frame tile ! 2) = int (tile_offset sb_rows rl r)"
    "field 15 0 (tile_entry frame tile ! 3) = int (tile_offset sb_cols cl (Suc c) - 1)"
    "field 31 16 (tile_entry frame tile ! 3) = int (tile_offset sb_rows rl (Suc r) - 1)"
    unfolding e using le pos by (simp_all add: field_pair minus off del: of_nat_Suc)
  show ?thesis
    unfolding in_tile_def fst_conv snd_conv fields Let_def l[symmetric] cr[symmetric]
    using pos by linarith
qed

text \<open>C12: the tiles an accepted VP9 job describes, the first by registers and the others by records in the
  image, partition the superblocks of the frame, provided the frame has at least as many superblock
  columns and rows as tile columns and rows.\<close>

theorem vp9_tiles_partition:
  assumes "cedrus_dec_vp9_job_configure dev lookup alloc coded picture stream job cur ctx pics heap log =
      Some (None, ctx', pics', heap', log')"
    and "frame = vj_frame job" "tiles = 2 ^ unat (tile_cols_log2 frame) * 2 ^ unat (tile_rows_log2 frame)"
    and "sb_cols = DIV_ROUND_UP (vp9_width frame) 64" "sb_rows = DIV_ROUND_UP (vp9_height frame) 64"
    and "2 ^ unat (tile_cols_log2 frame) \<le> sb_cols" "2 ^ unat (tile_rows_log2 frame) \<le> sb_rows"
    and "x < sb_cols" "y < sb_rows"
  shows "\<exists>!tile. tile < tiles \<and> in_tile (tile_words (vc_prob_image ctx') log' tile) x y"
proof -
  obtain refs low2 addrs c2 where c: "vp9_supported coded picture job" "ctx' = vp9_prepare_images job ctx"
      "log' = vp9_write_job dev job (vp9_use_previous_mvs ctx frame) refs low2 addrs c2 ctx' log"
    using vp9_configure_cases[OF assms(1), folded assms(2)] by metis
  obtain mem where m: "vc_prob_image ctx' = put_tiles frame mem"
    using prepared_tiles[of job ctx] assms(2) c(2) by blast
  have l: "unat (tile_cols_log2 frame) \<le> 6" "unat (tile_rows_log2 frame) \<le> 2"
    using c(1) assms(2) by (auto simp: vp9_supported_def Let_def word_less_nat_alt)
  have "in_tile (tile_words (vc_prob_image ctx') log' tile) x y \<longleftrightarrow>
      (let cl = unat (tile_cols_log2 frame); rl = unat (tile_rows_log2 frame) in
       tile_offset sb_cols cl (tile mod 2 ^ cl) \<le> x \<and> x < tile_offset sb_cols cl (Suc (tile mod 2 ^ cl)) \<and>
       tile_offset sb_rows rl (tile div 2 ^ cl) \<le> y \<and> y < tile_offset sb_rows rl (Suc (tile div 2 ^ cl)))"
    if "tile < tiles" for tile
    unfolding c(3) vp9_tile_words[OF m assms(2) that[unfolded assms(3)]]
    by (rule in_tile_iff[OF l that[unfolded assms(3)] assms(6,7,4,5)])
  then show ?thesis
    using tile_of_superblock[OF assms(8,9)] unfolding assms(3) Let_def by (metis (no_types, lifting))
qed

definition ex_tiles_frame :: "u16 \<Rightarrow> u8 \<Rightarrow> u8 \<Rightarrow> vp9_dec_frame" where
  "ex_tiles_frame h cl rl = (ex_vp9_frame 100 0 0)\<lparr>frame_width_minus_1 := 511, frame_height_minus_1 := h,
     tile_cols_log2 := cl, tile_rows_log2 := rl\<rparr>"

lemma ex_tiles_accepted:
  assumes "h \<le> 511" "cl \<le> 6" "rl \<le> 2"
  shows "\<exists>ctx' log'. ex_vp9_configure (ex_tiles_frame h cl rl) ex_vp9_ctx ex_vp9_pics [] [] =
    Some (None, ctx', ex_vp9_pics, [], log')"
  using assms by (intro ex_vp9_accepts)
    (simp_all add: ex_tiles_frame_def ex_vp9_frame_def vp9_width_def vp9_height_def vp9_header_size_def word_le_nat_alt ex_vp9_ctx_def)

theorem vp9_tiles_partition_witness:
  "\<exists>ctx' log'. ex_vp9_configure (ex_tiles_frame 255 1 1) ex_vp9_ctx ex_vp9_pics [] [] =
      Some (None, ctx', ex_vp9_pics, [], log') \<and>
    (\<exists>!tile. tile < 4 \<and> in_tile (tile_words (vc_prob_image ctx') log' tile) 7 3)"
proof -
  obtain ctx' log' where c: "ex_vp9_configure (ex_tiles_frame 255 1 1) ex_vp9_ctx ex_vp9_pics [] [] =
      Some (None, ctx', ex_vp9_pics, [], log')"
    using ex_tiles_accepted[of 255 1 1] by auto
  have "\<exists>!tile. tile < 4 \<and> in_tile (tile_words (vc_prob_image ctx') log' tile) 7 3"
    by (rule vp9_tiles_partition[OF c, where sb_cols = 8 and sb_rows = 4 and frame = "ex_tiles_frame 255 1 1"])
      (simp_all add: ex_tiles_frame_def ex_vp9_frame_def vp9_width_def vp9_height_def DIV_ROUND_UP_def)
  then show ?thesis using c by blast
qed

text \<open>The number of tile rows is not compared with the height: in a frame of one superblock row and four
  tile rows, which the VP9 syntax allows, the first three tiles are empty in the specification, but
  the end of the first one wraps to row 65535, so that it and the last tile both claim a superblock.\<close>

theorem vp9_empty_tiles_wrap:
  "\<exists>ctx' log'. ex_vp9_configure (ex_tiles_frame 63 0 2) ex_vp9_ctx ex_vp9_pics [] [] =
      Some (None, ctx', ex_vp9_pics, [], log') \<and>
    snd (tile_words (vc_prob_image ctx') log' 0) = 0xffff0007 \<and>
    in_tile (tile_words (vc_prob_image ctx') log' 0) 0 0 \<and> in_tile (tile_words (vc_prob_image ctx') log' 3) 0 0"
proof -
  let ?f = "ex_tiles_frame 63 0 2" let ?j = "\<lparr>vj_frame = ?f, vj_compressed_hdr = ex_vp9_hdr\<rparr>"
  obtain ctx' log' where c: "ex_vp9_configure ?f ex_vp9_ctx ex_vp9_pics [] [] =
      Some (None, ctx', ex_vp9_pics, [], log')"
    using ex_tiles_accepted[of 63 0 2] by auto
  obtain refs low2 addrs c2 where d: "ctx' = vp9_prepare_images ?j ex_vp9_ctx"
      "log' = vp9_write_job ex_vp9_dev ?j (vp9_use_previous_mvs ex_vp9_ctx ?f) refs low2 addrs c2 ctx' []"
    using vp9_configure_cases[OF c] by (metis vp9_job.select_convs(1))
  obtain mem where m: "vc_prob_image ctx' = put_tiles ?f mem"
    using prepared_tiles[of ?j ex_vp9_ctx] d(1) by auto
  have "tile_words (vc_prob_image ctx') log' tile = (tile_entry ?f tile ! 2, tile_entry ?f tile ! 3)" if "tile < 4" for tile
    unfolding d(2) by (rule vp9_tile_words[OF m]) (use that in \<open>simp_all add: ex_tiles_frame_def\<close>)
  note words = this[of 0] this[of 3]
  have top: "NOT (mask 16) OR 7 = (0xffff0007 :: u32)" by (simp add: mask_eq_exp_minus_1)
  have w: "tile_words (vc_prob_image ctx') log' 0 = (0, 0xffff0007)" "tile_words (vc_prob_image ctx') log' 3 = (0, 7)"
    using words by (simp_all add: tile_entry_def ex_tiles_frame_def vp9_sb_def vp9_width_def vp9_height_def DIV_ROUND_UP_def
        ex_vp9_frame_def top)
  then show ?thesis using c by (simp add: in_tile_def field_def)
qed

end
