(* ===== verification/Vp9_Dec_Session.thy ===== *)
theory Vp9_Dec_Session
  imports Vp9_Dec_Tiles
begin

text \<open>Sessions of the VP9 decoder: the probabilities it saves stay usable, its memory balances, and what
  happens when setting up a context fails.\<close>

section \<open>Sessions\<close>

text \<open>What the Linux controls guarantee of a frame (the index of the context is one of four), and what a
  conforming stream guarantees of the compressed header (no delta is 255).\<close>

definition vp9_checked :: "vp9_job \<Rightarrow> bool" where
  "vp9_checked job \<longleftrightarrow> unat (vf_frame_context_idx (vj_frame job)) < 4 \<and> valid_deltas (vj_compressed_hdr job)"

text \<open>A session, from the context and the memory the setup left: buffers start without a
  reconstruction; queueing gives a buffer a new timestamp and perhaps address; a job is configured and,
  when it was accepted, finished in some state, with any counts, segment map and reconstruction from
  the hardware.\<close>

inductive vp9_session :: "cedrus_device \<Rightarrow> vp9_buffer picture_find \<Rightarrow> dma_alloc \<Rightarrow> pix_format \<Rightarrow> pix_format \<Rightarrow>
    vp9_context \<Rightarrow> dma_heap \<Rightarrow> vp9_context \<Rightarrow> vp9_pictures \<Rightarrow> dma_heap \<Rightarrow> bool"
    for dev lookup alloc coded picture ctx0 base where
  start: "\<forall>p\<in>set pics. vb_recon (pic_engine p) = None
   \<Longrightarrow> vp9_session dev lookup alloc coded picture ctx0 base ctx0 pics base"
| queue: "\<lbrakk>vp9_session dev lookup alloc coded picture ctx0 base ctx pics heap;
     length pics' = length pics; map pic_engine pics' = map pic_engine pics\<rbrakk>
   \<Longrightarrow> vp9_session dev lookup alloc coded picture ctx0 base ctx pics' heap"
| job: "\<lbrakk>vp9_session dev lookup alloc coded picture ctx0 base ctx pics heap;
     vp9_checked job; cur < length pics;
     cedrus_dec_vp9_job_configure dev lookup alloc coded picture stream job cur ctx pics heap log =
       Some (None, ctx1, pics1, heap', log');
     cedrus_dec_vp9_job_finish is_done job hw shared recon cur ctx1 pics1 = (ctx', pics', recon')\<rbrakk>
   \<Longrightarrow> vp9_session dev lookup alloc coded picture ctx0 base ctx' pics' heap'"
| failed: "\<lbrakk>vp9_session dev lookup alloc coded picture ctx0 base ctx pics heap; cur < length pics;
     cedrus_dec_vp9_job_configure dev lookup alloc coded picture stream job cur ctx pics heap log =
       Some (Some e, ctx', pics', heap', log')\<rbrakk>
   \<Longrightarrow> vp9_session dev lookup alloc coded picture ctx0 base ctx' pics' heap'"

text \<open>A job that is rejected changes at most the reconstruction of the picture.\<close>

lemma vp9_configure_failed:
  assumes "cedrus_dec_vp9_job_configure dev lookup alloc coded picture stream job cur ctx pics heap log =
    Some (Some e, ctx', pics', heap', log')"
  shows "ctx' = ctx \<and> log' = log \<and> (pics' = pics \<and> heap' = heap \<or>
    (\<exists>ret o2 s2 buffer. vp9_target alloc (vj_frame job) (pic_engine (pics ! cur)) heap = (ret, o2, s2, buffer, heap') \<and>
      pics' = pics[cur := (pics ! cur)\<lparr>pic_engine := buffer\<rparr>]))"
proof -
  obtain ret o2 s2 buffer heap2 where t:
    "vp9_target alloc (vj_frame job) (pic_engine (pics ! cur)) heap = (ret, o2, s2, buffer, heap2)"
    by (cases "vp9_target alloc (vj_frame job) (pic_engine (pics ! cur)) heap")
  note d = assms[unfolded cedrus_dec_vp9_job_configure_def Let_def t prod.case]
  show ?thesis
    using d by (auto simp: t split: if_splits sum.splits)
qed

section \<open>The saved contexts\<close>

definition contexts_ok :: "vp9_context \<Rightarrow> bool" where
  "contexts_ok ctx \<longleftrightarrow> length (vc_frame_context ctx) = 4 \<and> (\<forall>c\<in>set (vc_frame_context ctx). valid_probs c)"

lemma reset_ok:
  assumes "length ctxs = 4" "\<forall>c\<in>set ctxs. valid_probs c" "unat (vf_frame_context_idx f) < 4"
  shows "length (snd (reset_frame_ctx f ctxs)) = 4" "\<forall>c\<in>set (snd (reset_frame_ctx f ctxs)). valid_probs c"
    "unat (fst (reset_frame_ctx f ctxs)) < 4"
proof -
  have "arr 4 (\<lambda>_. valid_probs) (arr_for 4 (\<lambda>i _. default_probs) ctxs)"
    using assms(1) default_probs_valid by (simp add: arr_iff nth_arr_for)
  then have d: "\<forall>c\<in>set (arr_for 4 (\<lambda>i _. default_probs) ctxs). valid_probs c"
    by (auto simp: arr_iff in_set_conv_nth)
  show "length (snd (reset_frame_ctx f ctxs)) = 4" "unat (fst (reset_frame_ctx f ctxs)) < 4"
    using assms(1,3) by (simp_all add: reset_frame_ctx_def Let_def)
  show "\<forall>c\<in>set (snd (reset_frame_ctx f ctxs)). valid_probs c"
    using assms(2) d default_probs_valid set_update_subset_insert[of ctxs]
    by (auto simp: reset_frame_ctx_def Let_def dest!: set_update_subset_insert[THEN subsetD])
qed

lemma prepare_ok:
  assumes "contexts_ok ctx" "vp9_checked job"
  shows "contexts_ok (vp9_prepare_images job ctx)" "valid_probs (vc_probability_tables (vp9_prepare_images job ctx))"
    "unat (vc_frame_context_idx (vp9_prepare_images job ctx)) < 4"
proof -
  note r = reset_ok[of "vc_frame_context ctx" "vj_frame job"]
  have c: "length (vc_frame_context ctx) = 4" "\<forall>c\<in>set (vc_frame_context ctx). valid_probs c"
    "unat (vf_frame_context_idx (vj_frame job)) < 4" "valid_deltas (vj_compressed_hdr job)"
    using assms by (simp_all add: contexts_ok_def vp9_checked_def)
  note r = r[OF c(1-3)]
  have "valid_probs (snd (reset_frame_ctx (vj_frame job) (vc_frame_context ctx)) !
      unat (fst (reset_frame_ctx (vj_frame job) (vc_frame_context ctx))))"
    using r by simp
  note t = fw_update_probs_all[OF this c(4), of "vj_frame job"]
  show "contexts_ok (vp9_prepare_images job ctx)" "valid_probs (vc_probability_tables (vp9_prepare_images job ctx))"
    "unat (vc_frame_context_idx (vp9_prepare_images job ctx)) < 4"
    using r t by (simp_all add: contexts_ok_def vp9_prepare_images_def Let_def case_prod_beta)
qed

lemma if_cases: "(b \<Longrightarrow> contexts_ok c) \<Longrightarrow> (\<not> b \<Longrightarrow> contexts_ok d) \<Longrightarrow> contexts_ok (if b then c else d)"
  by simp

lemma finish_probs_ok:
  assumes "contexts_ok ctx" "valid_probs (vc_probability_tables ctx)" "unat (vc_frame_context_idx ctx) < 4"
  shows "contexts_ok (vp9_finish_probs job hw ctx)"
proof -
  let ?t = "vc_probability_tables ctx" and ?idx = "unat (vc_frame_context_idx ctx)"
  have p: "valid_probs (vc_frame_context ctx ! ?idx)"
    using assms(1,3) by (simp add: contexts_ok_def)
  have intra: "valid_probs (p\<lparr>tx8 := tx8 ?t, tx16 := tx16 ?t, tx32 := tx32 ?t, skip := skip ?t\<rparr>)"
    if "valid_probs p" for p :: vp9_frame_context
    by (intro valid_tx_updates valid_field_updates valid_tx_fields valid_fields that assms(2))
  have up: "contexts_ok (ctx\<lparr>vc_frame_context := (vc_frame_context ctx)[?idx := q]\<rparr>)" if "valid_probs q" for q
    using assms(1) that by (auto simp: contexts_ok_def dest!: set_update_subset_insert[THEN subsetD])
  then have up2: "contexts_ok (ctx\<lparr>vc_probability_tables := q, vc_frame_context := (vc_frame_context ctx)[?idx := q]\<rparr>)"
    if "valid_probs q" for q
    using that by (simp add: contexts_ok_def)
  have adapted: "valid_probs (if b then c else adapt_coef_probs counts u i q)"
    if "valid_probs q" "b \<Longrightarrow> valid_probs c" for b c counts u i q
    using that adapt_coef_probs_all by simp
  show ?thesis
    unfolding vp9_finish_probs_def Let_def
    by (intro valid_if up2 up adapted adapt_noncoef_probs_all adapt_coef_probs_all intra p assms if_cases)
qed

lemma finish_contexts:
  assumes "contexts_ok ctx" "valid_probs (vc_probability_tables ctx)" "unat (vc_frame_context_idx ctx) < 4"
  shows "contexts_ok (fst (cedrus_dec_vp9_job_finish is_done job hw shared recon cur ctx pics))"
proof -
  have "vc_frame_context (vp9_finish_segments f s c) = vc_frame_context c"
    "vc_probability_tables (vp9_finish_segments f s c) = vc_probability_tables c"
    "vc_frame_context_idx (vp9_finish_segments f s c) = vc_frame_context_idx c" for f s c
    by (simp_all add: vp9_finish_segments_def Let_def)
  then have "contexts_ok (vp9_finish_probs job hw (vp9_finish_segments (vj_frame job) shared ctx))"
    using assms by (intro finish_probs_ok) (simp_all add: contexts_ok_def)
  then show ?thesis
    using assms(1) by (simp add: cedrus_dec_vp9_job_finish_def Let_def contexts_ok_def)
qed

lemma session_contexts:
  assumes "vp9_session dev lookup alloc coded picture ctx0 base ctx pics heap" "contexts_ok ctx0"
  shows "contexts_ok ctx"
  using assms
proof induction
  case (job ctx pics heap j cur stream log ctx1 pics1 heap' log' is_done hw shared recon ctx' pics' recon')
  have "ctx1 = vp9_prepare_images j ctx" using vp9_configure_cases[OF job.hyps(4)] by metis
  then show ?case
    using finish_contexts[of ctx1 is_done j hw shared recon cur pics1] prepare_ok[OF job.IH[OF job.prems] job.hyps(2)]
      job.hyps(5) by simp
next
  case (failed ctx pics heap cur stream j log e ctx' pics' heap' log')
  then show ?case using vp9_configure_failed[OF failed.hyps(3)] by simp
qed

section \<open>Setting up a context\<close>

definition vp9_fresh :: "vp9_context \<Rightarrow> bool" where
  "vp9_fresh ctx \<longleftrightarrow> vc_prob_count ctx = None \<and> vc_entry_info ctx = None \<and> vc_segment_map ctx = [None, None] \<and>
    vc_mv_col ctx = None \<and> vc_segment_map_size ctx = 0"

lemma setup_contexts:
  assumes "cedrus_dec_vp9_setup alloc w h ctx heap0 = (None, ctx0, base)" "vc_prob_count ctx0 \<noteq> None" "vp9_fresh ctx"
  shows "contexts_ok ctx0"
  using assms default_probs_valid
  by (auto simp: cedrus_dec_vp9_setup_def vp9_setup_maps_def vp9_setup_error_def cedrus_dec_vp9_cleanup_def
      contexts_ok_def vp9_fresh_def Let_def split: sum.splits option.splits if_splits)

definition ptr_mem :: "nat \<Rightarrow> u64 option \<Rightarrow> (u64 \<times> nat) multiset" where
  "ptr_mem n p = (case p of None \<Rightarrow> {#} | Some addr \<Rightarrow> {#(addr, n)#})"

lemma ptr_mem_simps [simp]: "ptr_mem n None = {#}" "ptr_mem n (Some a) = {#(a, n)#}"
  by (simp_all add: ptr_mem_def)

lemma mset_free_opt [simp]: "mset (free_opt n p heap) = mset heap - ptr_mem n p"
  by (simp add: free_opt_def dma_free_def split: option.split)

definition context_mem :: "vp9_context \<Rightarrow> (u64 \<times> nat) multiset" where
  "context_mem ctx = sum_list (map (ptr_mem (vc_segment_map_size ctx)) (vc_segment_map ctx)) +
    ptr_mem ENTRY_INFO_SIZE (vc_entry_info ctx) + ptr_mem PROB_COUNT_SIZE (vc_prob_count ctx) +
    ptr_mem (vc_mv_col_size ctx) (vc_mv_col ctx)"

lemma mset_cleanup: "mset (snd (cedrus_dec_vp9_cleanup ctx heap)) = mset heap - context_mem ctx"
proof -
  have "mset (fold (free_opt n) ps heap) = mset heap - sum_list (map (ptr_mem n) ps)" for n ps heap
    by (induction ps arbitrary: heap) (simp_all add: diff_diff_eq)
  then show ?thesis by (simp add: cedrus_dec_vp9_cleanup_def Let_def context_mem_def diff_diff_eq)
qed

lemma context_mem_cleanup: "context_mem (fst (cedrus_dec_vp9_cleanup ctx heap)) = {#}"
  by (simp add: cedrus_dec_vp9_cleanup_def context_mem_def Let_def)

lemma setup_error_memory:
  assumes "vp9_setup_error ret ctx heap = (ret', ctx', heap')" "mset heap = m + context_mem ctx"
  shows "mset heap' = m + context_mem ctx'" "ret' = ret" "mset heap' = m"
  using assms mset_cleanup[of ctx heap] context_mem_cleanup[of ctx heap]
  by (auto simp: vp9_setup_error_def case_prod_beta)

lemma setup_memory_vp9:
  assumes "cedrus_dec_vp9_setup alloc w h ctx heap0 = (ret, ctx0, base)" "vp9_fresh ctx"
  shows "mset base = mset heap0 + context_mem ctx0 \<and> (ret \<noteq> None \<longrightarrow> mset base = mset heap0)"
proof -
  define G where "G x = (case x of (ret, ctx0, base) \<Rightarrow> mset base = mset heap0 + context_mem ctx0 \<and>
    (ret \<noteq> (None :: errno option) \<longrightarrow> mset base = mset heap0))" for x
  have e: "G (vp9_setup_error r c hp)" if "mset hp = mset heap0 + context_mem c" for r c hp
    using setup_error_memory[OF _ that] by (cases "vp9_setup_error r c hp") (auto simp: G_def)
  have r: "G (None, c, hp) \<longleftrightarrow> mset hp = mset heap0 + context_mem c"
    "G (Some x, c, heap0) \<longleftrightarrow> context_mem c = {#}" for c hp x
    by (simp_all add: G_def)
  have "G (cedrus_dec_vp9_setup alloc w h ctx heap0)"
    using assms(2)[unfolded vp9_fresh_def]
    by (simp add: cedrus_dec_vp9_setup_def vp9_setup_maps_def e r context_mem_def Let_def
      split: sum.split option.split)
  then show ?thesis unfolding assms(1) G_def prod.case .
qed

section \<open>Memory\<close>

definition recon_mem :: "vp9_buffer \<Rightarrow> (u64 \<times> nat) multiset" where
  "recon_mem b = ptr_mem (vb_recon_size b) (vb_recon b)"

interpretation recon: buffer_memory recon_mem cedrus_dec_vp9_buffer_cleanup
  by unfold_locales (simp add: cedrus_dec_vp9_buffer_cleanup_def recon_mem_def)

lemma target_memory:
  assumes "vp9_target alloc frame b heap = (ret, o2, s2, b', heap')" "recon_mem b \<subseteq># mset heap"
  shows "mset heap' = mset heap - recon_mem b + recon_mem b'"
proof -
  obtain r where r: "mset heap = recon_mem b + r"
    using assms(2) by (metis subset_mset.add_diff_inverse)
  have "mset (free_opt (vb_recon_size b) (vb_recon b) heap) = r" using r by (simp add: recon_mem_def)
  moreover have "recon_mem (b\<lparr>vb_recon_chroma_offset := n\<rparr>) = recon_mem b" for n by (simp add: recon_mem_def)
  moreover have "recon_mem (b\<lparr>vb_recon := x, vb_recon_size := s, vb_recon_chroma_offset := n\<rparr>) = ptr_mem s x" for x s n
    by (simp add: recon_mem_def)
  ultimately show ?thesis
    using assms(1) r
    by (auto simp: vp9_target_def cedrus_vp9_ensure_10bit_recon_def Let_def
      split: if_splits option.splits prod.splits)
qed

lemma finish_keeps:
  assumes "cedrus_dec_vp9_job_finish is_done job hw shared recon cur ctx pics = (ctx', pics', recon')" "cur < length pics"
  shows "context_mem ctx' = context_mem ctx" "held_memory recon_mem pics' = held_memory recon_mem pics"
    "length pics' = length pics"
proof -
  have "context_mem (vp9_finish_probs job hw (vp9_finish_segments (vj_frame job) shared ctx)) = context_mem ctx"
    by (simp add: vp9_finish_probs_def vp9_finish_segments_def Let_def context_mem_def)
  then show "context_mem ctx' = context_mem ctx"
    using assms(1) by (auto simp: cedrus_dec_vp9_job_finish_def Let_def context_mem_def split: if_splits)
  show "length pics' = length pics"
    using assms(1) by (auto simp: cedrus_dec_vp9_job_finish_def Let_def split: if_splits)
  have "recon_mem (b\<lparr>vb_width := x, vb_height := y, vb_bit_depth := z, vb_valid := True\<rparr>) = recon_mem b" for b x y z
    by (simp add: recon_mem_def)
  then show "held_memory recon_mem pics' = held_memory recon_mem pics"
    using assms recon.held_update[OF assms(2)] recon.held_member[OF assms(2)]
    by (auto simp: cedrus_dec_vp9_job_finish_def Let_def split: if_splits)
qed

lemma target_session:
  assumes "vp9_target alloc frame (pic_engine (pics ! cur)) heap = (ret, o2, s2, b, heap')" "cur < length pics"
    "mset heap = m + held_memory recon_mem pics"
  shows "mset heap' = m + held_memory recon_mem (pics[cur := (pics ! cur)\<lparr>pic_engine := b\<rparr>])"
proof -
  have s: "recon_mem (pic_engine (pics ! cur)) \<subseteq># held_memory recon_mem pics" by (rule recon.held_member[OF assms(2)])
  then have "recon_mem (pic_engine (pics ! cur)) \<subseteq># mset heap"
    using assms(3) by (metis mset_subset_eq_add_right subset_mset.order_trans)
  note t = target_memory[OF assms(1) this]
  obtain r where "held_memory recon_mem pics = recon_mem (pic_engine (pics ! cur)) + r"
    using s by (metis subset_mset.add_diff_inverse)
  then show ?thesis
    using t by (simp add: recon.held_update[OF assms(2)] assms(3))
qed

lemma session_memory_vp9:
  assumes "vp9_session dev lookup alloc coded picture ctx0 base ctx pics heap"
  shows "mset heap = mset base + held_memory recon_mem pics \<and> context_mem ctx = context_mem ctx0"
  using assms
proof induction
  case (start pics)
  then have "\<forall>p\<in>set pics. recon_mem (pic_engine p) = {#}" by (simp add: recon_mem_def)
  then show ?case using recon.held_none by simp
next
  case (queue ctx pics heap pics')
  then show ?case using recon.held_engines by metis
next
  case (job ctx pics heap j cur stream log ctx1 pics1 heap' log' is_done hw shared recon ctx' pics' recon')
  obtain o2 s2 b where c: "vp9_target alloc (vj_frame j) (pic_engine (pics ! cur)) heap = (None, o2, s2, b, heap')"
    "pics1 = pics[cur := (pics ! cur)\<lparr>pic_engine := b\<rparr>]" "ctx1 = vp9_prepare_images j ctx"
    using vp9_configure_cases[OF job.hyps(4)] by metis
  have "context_mem ctx1 = context_mem ctx"
    by (simp add: c(3) vp9_prepare_images_def Let_def context_mem_def case_prod_beta)
  moreover have "cur < length pics1" using job.hyps(3) by (simp add: c(2))
  ultimately show ?case
    using finish_keeps[OF job.hyps(5)] target_session[OF c(1) job.hyps(3)] job.IH by (simp add: c(2))
next
  case (failed ctx pics heap cur stream j log e ctx' pics' heap' log')
  then show ?case
    using vp9_configure_failed[OF failed.hyps(3)] target_session[OF _ failed.hyps(2)] by blast
qed

section \<open>Properties\<close>

text \<open>C7: after any number of jobs, whatever the hardware counted, the four contexts the decoder saves have
  all their dimensions and no probability the hardware reads is zero, and the same holds of the table
  every further accepted job hands to the hardware, whose context index stays inside the array.\<close>

theorem vp9_contexts_valid:
  assumes "cedrus_dec_vp9_setup alloc w h fresh heap0 = (None, ctx0, base)" "vp9_fresh fresh" "vc_prob_count ctx0 \<noteq> None"
    and "vp9_session dev lookup alloc coded picture ctx0 base ctx pics heap" "vp9_checked job"
    and "cedrus_dec_vp9_job_configure dev lookup alloc coded picture stream job cur ctx pics heap log =
      Some (None, ctx', pics', heap', log')"
  shows "length (vc_frame_context ctx') = 4 \<and> (\<forall>c\<in>set (vc_frame_context ctx'). valid_probs c) \<and>
    valid_probs (vc_probability_tables ctx') \<and> unat (vc_frame_context_idx ctx') < length (vc_frame_context ctx')"
proof -
  have ok: "contexts_ok ctx" by (rule session_contexts[OF assms(4) setup_contexts[OF assms(1,3,2)]])
  have "ctx' = vp9_prepare_images job ctx" using vp9_configure_cases[OF assms(6)] by metis
  then show ?thesis using prepare_ok[OF ok assms(5)] by (simp add: contexts_ok_def)
qed

text \<open>C15: the DMA memory of the decoder balances: a setup that returns an error has released everything,
  and after one that returns success, even with an allocation that failed, and any number of jobs,
  releasing the buffers and cleaning up leaves exactly the allocations there were before.\<close>

theorem vp9_memory_balanced:
  assumes "cedrus_dec_vp9_setup alloc w h fresh heap0 = (ret, ctx0, base)" "vp9_fresh fresh"
  shows "(ret \<noteq> None \<longrightarrow> mset base = mset heap0) \<and>
    (\<forall>dev lookup coded picture ctx pics heap.
      vp9_session dev lookup alloc coded picture ctx0 base ctx pics heap \<longrightarrow>
      mset (snd (cedrus_dec_vp9_cleanup ctx (release_all cedrus_dec_vp9_buffer_cleanup pics heap))) = mset heap0)"
  using setup_memory_vp9[OF assms] session_memory_vp9[of _ _ alloc _ _ ctx0 base]
  by (auto simp: mset_cleanup recon.mset_release)

text \<open>C14: setting up a context keeps the 0 of the size computation in \<open>ret\<close>: when the allocation for
  the probabilities fails, setup reports success with all pointers NULL, and any job that a working
  context would accept then goes through the NULL pointer.\<close>

theorem vp9_setup_hides_failure:
  assumes "cedrus_dec_vp9_mv_col_size w h = Inr n" "alloc heap0 n = Some mv" "alloc ((mv, n) # heap0) PROB_COUNT_SIZE = None"
    and "cedrus_dec_vp9_setup alloc w h fresh heap0 = (ret, ctx0, base)" "vp9_fresh fresh"
    and "cedrus_dec_vp9_job_configure dev lookup alloc' coded picture stream job cur working pics heap log =
      Some (None, working', pics', heap', log')"
  shows "ret = None \<and> vc_prob_count ctx0 = None \<and> vc_mv_col ctx0 = None \<and>
    cedrus_dec_vp9_job_configure dev lookup alloc' coded picture stream job cur ctx0 pics heap log = None"
proof -
  have s: "ret = None" "vc_prob_count ctx0 = None" "vc_mv_col ctx0 = None"
    using assms(4) by (auto simp: cedrus_dec_vp9_setup_def Let_def assms(1-3) vp9_setup_error_def cedrus_dec_vp9_cleanup_def)
  obtain refs o2 s2 buffer where c:
    "vp9_supported coded picture job"
    "vp9_target alloc' (vj_frame job) (pic_engine (pics ! cur)) heap = (None, o2, s2, buffer, heap')"
    "pics' = pics[cur := (pics ! cur)\<lparr>pic_engine := buffer\<rparr>]"
    "vp9_ranges (vj_frame job) (snd stream) (vp9_addresses dev picture (vj_frame job) (fst stream) (pics' ! cur))"
    "vp9_references lookup picture pics' (vj_frame job) = Inr refs"
    using vp9_configure_cases[OF assms(6)] by metis
  show ?thesis
    unfolding cedrus_dec_vp9_job_configure_def Let_def c(2) prod.case c(3)[symmetric]
    using s c by simp
qed

text \<open>The segment map of the specification: cleared by every frame that does not depend on the past, and
  by every frame of another size than the one before it.\<close>

definition spec_segment_map :: "nat \<times> nat \<Rightarrow> vp9_dec_frame \<Rightarrow> (nat \<Rightarrow> u8) \<Rightarrow> nat \<Rightarrow> u8" where
  "spec_segment_map previous frame ids =
    (if vp9_intra_only frame \<or> vp9_flag frame V4L2_VP9_FRAME_FLAG_ERROR_RESILIENT \<or>
        previous \<noteq> (vp9_width frame, vp9_height frame)
     then (\<lambda>_. 0) else ids)"

text \<open>The size of the frame before, as the driver remembers it.\<close>

definition previous_size :: "vp9_context \<Rightarrow> nat \<times> nat" where
  "previous_size ctx = (vc_previous_width ctx, vc_previous_height ctx)"

lemma put_tiles_high:
  assumes "unat (tile_cols_log2 frame) \<le> 6" "unat (tile_rows_log2 frame) \<le> 2" "0x1000 \<le> a"
  shows "put_tiles frame mem a = mem a"
proof -
  have "(2 :: nat) ^ unat (tile_cols_log2 frame) \<le> 2 ^ 6" "(2 :: nat) ^ unat (tile_rows_log2 frame) \<le> 2 ^ 2"
    by (rule power_increasing; use assms in simp)+
  then have n: "2 ^ unat (tile_cols_log2 frame) * 2 ^ unat (tile_rows_log2 frame) \<le> (256 :: nat)"
    using mult_le_mono[of "2 ^ unat (tile_cols_log2 frame)" "2 ^ 6" "2 ^ unat (tile_rows_log2 frame)" "2 ^ 2"] by simp
  have "length (concat (map word_bytes (tile_entry frame tile))) = 16" for tile
    by (simp add: tile_entry_def Let_def)
  then show ?thesis
    unfolding put_tiles_def using n assms(3) by (intro fold_put_block_out) auto
qed

text \<open>C27: an accepted job gives the hardware the segment map of the specification where segmentation is
  enabled, and keeps it as the map of the next frame, with two exceptions.  An error-resilient inter
  frame still reads the map of the frame before, which the driver clears only after it has copied it;
  and an inter frame of another size reads that map and keeps it, since nothing clears it.\<close>

theorem vp9_segment_window:
  assumes "cedrus_dec_vp9_job_configure dev lookup alloc coded picture stream job cur ctx pics heap log =
      Some (None, ctx', pics', heap', log')"
    and "frame = vj_frame job" "a < vc_segment_map_size ctx"
    and "ids = vc_segment_image ctx ! vc_active_segment_map ctx"
  shows "(let spec = spec_segment_map (previous_size ctx) frame ids;
      inter = (\<not> vp9_intra_only frame); resilient = vp9_flag frame V4L2_VP9_FRAME_FLAG_ERROR_RESILIENT;
      resized = (previous_size ctx \<noteq> (vp9_width frame, vp9_height frame))
    in (vc_segment_image ctx' ! vc_active_segment_map ctx') a =
        (if inter \<and> \<not> resilient \<and> resized then ids a else spec a) \<and>
      vc_prob_image ctx' (SEGMENT_MAP_OFFSET + a) =
        (if SEGMENTATION_FLAG_ENABLED \<notin> seg_flags (vf_seg frame) then 0
         else if inter \<and> (resilient \<or> resized) then ids a else spec a))"
proof -
  have c: "vp9_supported coded picture job" "ctx' = vp9_prepare_images job ctx"
    using vp9_configure_cases[OF assms(1)] by metis+
  have "unat (tile_cols_log2 frame) \<le> 6" "unat (tile_rows_log2 frame) \<le> 2"
    using c(1) assms(2) by (auto simp: vp9_supported_def Let_def word_less_nat_alt)
  note t = put_tiles_high[OF this, of "SEGMENT_MAP_OFFSET + a"]
  have w: "copy_window PROBS_OFFSET PROBS_SIZE src mem (SEGMENT_MAP_OFFSET + a) = mem (SEGMENT_MAP_OFFSET + a)" for src mem
    by (simp add: copy_window_def hdr_simps)
  have m: "copy_window SEGMENT_MAP_OFFSET (vc_segment_map_size ctx) src mem (SEGMENT_MAP_OFFSET + a) = src a" for src mem
    using assms(3) by (simp add: copy_window_def)
  have "0x1000 \<le> SEGMENT_MAP_OFFSET + a" by (simp add: SEGMENT_MAP_OFFSET_def)
  note t = t[OF this]
  show ?thesis
    by (auto simp: c(2) vp9_prepare_images_def Let_def case_prod_beta assms(2,4) spec_segment_map_def
        t[unfolded assms(2)] w m)
qed

section \<open>Examples\<close>

definition ex_vp9_fresh :: vp9_context where
  "ex_vp9_fresh = ex_vp9_ctx\<lparr>vc_prob_count := None, vc_entry_info := None, vc_segment_map := [None, None],
     vc_segment_map_size := 0, vc_mv_col := None, vc_mv_col_size := 0\<rparr>"

definition ex_vp9_alloc :: dma_alloc where
  "ex_vp9_alloc heap n = (if n = PROB_COUNT_SIZE \<and> length heap = 8 then None else Some 0x60000000)"

lemma ex_vp9_is_fresh: "vp9_fresh ex_vp9_fresh"
  by (simp add: vp9_fresh_def ex_vp9_fresh_def)

lemma ex_vp9_setup:
  "\<exists>ctx0 base. cedrus_dec_vp9_setup ex_vp9_alloc 64 64 ex_vp9_fresh [] = (None, ctx0, base) \<and>
    vc_prob_count ctx0 = Some 0x60000000 \<and> length base = 5"
  by (simp add: cedrus_dec_vp9_setup_def cedrus_dec_vp9_mv_col_size_def vp9_setup_maps_def ex_vp9_alloc_def Let_def
      DIV_ROUND_UP_def hdr_simps ex_vp9_fresh_def)

lemma ex_vp9_working: "vc_prob_count ex_vp9_ctx \<noteq> None"
  by (simp add: ex_vp9_ctx_def)

abbreviation ex_vp9_job :: vp9_job where
  "ex_vp9_job \<equiv> \<lparr>vj_frame = ex_vp9_frame 100 0 0, vj_compressed_hdr = ex_vp9_hdr\<rparr>"

lemma ex_vp9_first:
  assumes "vc_prob_count ctx \<noteq> None"
  shows "\<exists>ctx' log'. cedrus_dec_vp9_job_configure ex_vp9_dev first_with_timestamp alloc ex_vp9_pix
     ex_vp9_pix (0x40000000, 1000, 4096) ex_vp9_job 0 ctx ex_vp9_pics heap [] = Some (None, ctx', ex_vp9_pics, heap, log')"
  by (rule ex_vp9_accepts)
    (simp_all add: assms ex_vp9_frame_def vp9_width_def vp9_height_def vp9_header_size_def)

theorem vp9_contexts_valid_witness:
  "\<exists>ctx' log' heap. cedrus_dec_vp9_job_configure ex_vp9_dev first_with_timestamp ex_vp9_alloc ex_vp9_pix ex_vp9_pix
      (0x40000000, 1000, 4096) ex_vp9_job 0 (fst (snd (cedrus_dec_vp9_setup ex_vp9_alloc 64 64 ex_vp9_fresh [])))
      ex_vp9_pics heap [] = Some (None, ctx', ex_vp9_pics, heap, log') \<and>
    length (vc_frame_context ctx') = 4 \<and> valid_probs (vc_probability_tables ctx')"
proof -
  obtain ctx0 base where s: "cedrus_dec_vp9_setup ex_vp9_alloc 64 64 ex_vp9_fresh [] = (None, ctx0, base)"
    "vc_prob_count ctx0 \<noteq> None" using ex_vp9_setup by auto
  obtain ctx' log' where c: "cedrus_dec_vp9_job_configure ex_vp9_dev first_with_timestamp ex_vp9_alloc ex_vp9_pix
      ex_vp9_pix (0x40000000, 1000, 4096) ex_vp9_job 0 ctx0 ex_vp9_pics base [] =
      Some (None, ctx', ex_vp9_pics, base, log')"
    using ex_vp9_first[OF s(2)] by blast
  have sess: "vp9_session ex_vp9_dev first_with_timestamp ex_vp9_alloc ex_vp9_pix ex_vp9_pix ctx0 base ctx0 ex_vp9_pics base"
    by (rule vp9_session.start) (simp add: ex_vp9_pics_def ex_vp9_buffer_def)
  have ch: "vp9_checked ex_vp9_job"
    using zero_hdr_valid[of 0] by (simp add: vp9_checked_def ex_vp9_hdr_def ex_vp9_frame_def)
  show ?thesis
    using vp9_contexts_valid[OF s(1) ex_vp9_is_fresh s(2) sess ch c] c s(1) by auto
qed

theorem vp9_memory_balanced_witness:
  "\<exists>ctx0 base. cedrus_dec_vp9_setup ex_vp9_alloc 64 64 ex_vp9_fresh [] = (None, ctx0, base) \<and> length base = 5 \<and>
    mset (snd (cedrus_dec_vp9_cleanup ctx0 (release_all cedrus_dec_vp9_buffer_cleanup ex_vp9_pics base))) = {#}"
proof -
  obtain ctx0 base where s: "cedrus_dec_vp9_setup ex_vp9_alloc 64 64 ex_vp9_fresh [] = (None, ctx0, base)"
    "length base = 5" using ex_vp9_setup by auto
  have "vp9_session ex_vp9_dev first_with_timestamp ex_vp9_alloc ex_vp9_pix ex_vp9_pix ctx0 base ctx0 ex_vp9_pics base"
    by (rule vp9_session.start) (simp add: ex_vp9_pics_def ex_vp9_buffer_def)
  then have "mset (snd (cedrus_dec_vp9_cleanup ctx0 (release_all cedrus_dec_vp9_buffer_cleanup ex_vp9_pics base))) = mset []"
    using vp9_memory_balanced[OF s(1) ex_vp9_is_fresh] by blast
  then show ?thesis using s by simp
qed

theorem vp9_setup_hides_failure_witness:
  "\<exists>ctx0 base. cedrus_dec_vp9_setup (\<lambda>heap _. if heap = [] then Some 0x60000000 else None) 64 64 ex_vp9_fresh [] =
      (None, ctx0, base) \<and>
    cedrus_dec_vp9_job_configure ex_vp9_dev first_with_timestamp ex_vp9_alloc ex_vp9_pix ex_vp9_pix
      (0x40000000, 1000, 4096) ex_vp9_job 0 ctx0 ex_vp9_pics [] [] = None"
proof -
  let ?alloc = "\<lambda>heap _. if heap = [] then Some 0x60000000 else None" 
  obtain ret ctx0 base where s: "cedrus_dec_vp9_setup ?alloc 64 64 ex_vp9_fresh [] = (ret, ctx0, base)"
    by (metis surj_pair)
  obtain ctx' log' where c: "cedrus_dec_vp9_job_configure ex_vp9_dev first_with_timestamp ex_vp9_alloc ex_vp9_pix
      ex_vp9_pix (0x40000000, 1000, 4096) ex_vp9_job 0 ex_vp9_ctx ex_vp9_pics [] [] =
      Some (None, ctx', ex_vp9_pics, [], log')"
    using ex_vp9_first[OF ex_vp9_working] by blast
  have m: "cedrus_dec_vp9_mv_col_size 64 64 = Inr 20480"
    by (simp add: cedrus_dec_vp9_mv_col_size_def DIV_ROUND_UP_def Let_def ALIGN_def)
  show ?thesis
    using vp9_setup_hides_failure[OF m _ _ s ex_vp9_is_fresh c] s by auto
qed

text \<open>An inter frame of 64 by 64 after one of 128 by 128, which is all its references.\<close>

definition ex_vp9_inter :: vp9_dec_frame where
  "ex_vp9_inter = (ex_vp9_frame 100 0 0)\<lparr>vf_flags := 0, last_frame_ts := 7, golden_frame_ts := 7, alt_frame_ts := 7\<rparr>"

definition ex_vp9_large :: vp9_pictures where
  "ex_vp9_large = ex_vp9_pics @ [\<lparr>pic_addr = 0x58000000, pic_timestamp = 7,
     pic_engine = ex_vp9_buffer\<lparr>vb_width := 128, vb_height := 128, vb_bit_depth := 8, vb_valid := True\<rparr>\<rparr>]"

definition ex_vp9_later :: vp9_context where
  "ex_vp9_later = ex_vp9_ctx\<lparr>vc_segment_image := replicate 2 (\<lambda>_. 7), vc_previous_width := 128,
     vc_previous_height := 128, vc_previous_valid := True\<rparr>"

lemma ex_vp9_inter_accepted:
  "\<exists>ctx' pics' heap' log'. ex_vp9_configure ex_vp9_inter ex_vp9_later ex_vp9_large [] [] =
    Some (None, ctx', pics', heap', log')"
proof -
  let ?j = "\<lparr>vj_frame = ex_vp9_inter, vj_compressed_hdr = ex_vp9_hdr\<rparr>"
  have high: "\<not> vp9_high_bit_depth ex_vp9_inter" by (simp add: vp9_high_bit_depth_def ex_vp9_inter_def ex_vp9_frame_def)
  have sup: "vp9_supported ex_vp9_pix ex_vp9_pix ?j"
    by (simp add: vp9_supported_def ex_vp9_inter_def ex_vp9_frame_def ex_vp9_pix_def ex_vp9_hdr_def zero_hdr_def
        hdr_simps zero_pix_def vp9_width_def vp9_height_def)
  have pics: "ex_vp9_large[0 := (ex_vp9_large ! 0)\<lparr>pic_engine := ex_vp9_buffer\<rparr>] = ex_vp9_large"
    "pic_engine (ex_vp9_large ! 0) = ex_vp9_buffer"
    by (simp_all add: ex_vp9_large_def ex_vp9_pics_def)
  have target: "vp9_target alloc ex_vp9_inter ex_vp9_buffer heap = (None, 0, 0, ex_vp9_buffer, heap)" for alloc heap
    by (simp add: vp9_target_def high)
  have found: "first_with_timestamp ex_vp9_large 7 = Some 1"
    by (simp add: first_with_timestamp_def ex_vp9_large_def ex_vp9_pics_def)
  obtain r where one: "cedrus_dec_vp9_reference first_with_timestamp ex_vp9_pix ex_vp9_large 7 = Inr r"
    "vb_width (rf_private r) = 128" "vb_height (rf_private r) = 128" "vb_bit_depth (rf_private r) = 8"
    by (simp add: cedrus_dec_vp9_reference_def found) (simp add: ex_vp9_large_def ex_vp9_pics_def Let_def cedrus_buffer_picture_dma_def)
  have frame: "last_frame_ts ex_vp9_inter = 7" "golden_frame_ts ex_vp9_inter = 7" "alt_frame_ts ex_vp9_inter = 7"
    "\<not> vp9_flag ex_vp9_inter V4L2_VP9_FRAME_FLAG_KEY_FRAME" "vf_bit_depth ex_vp9_inter = 8"
    "vp9_width ex_vp9_inter = 64" "vp9_height ex_vp9_inter = 64"
    by (simp_all add: ex_vp9_inter_def ex_vp9_frame_def flag_set_def vp9_width_def vp9_height_def)
  have "\<exists>r. vp9_references first_with_timestamp ex_vp9_pix ex_vp9_large ex_vp9_inter = Inr r"
    by (simp add: vp9_references_def frame one cedrus_vp9_valid_reference_size_def)
  then obtain r where refs: "vp9_references first_with_timestamp ex_vp9_pix ex_vp9_large ex_vp9_inter = Inr r" ..
  have addr: "vp9_addresses ex_vp9_dev ex_vp9_pix ex_vp9_inter 0x40000000 (ex_vp9_large ! 0) =
      [0x40000000, 0x50000000, 0x50040000, 0x50000000, 0x50040000]"
    by (simp add: vp9_addresses_def high Let_def cedrus_buffer_picture_dma_def ex_vp9_large_def ex_vp9_pics_def ex_vp9_pix_def
        ex_vp9_dev_def cedrus_dma_addr_def zero_pix_def)
  have rng: "vp9_ranges ex_vp9_inter (1000, 4096) (vp9_addresses ex_vp9_dev ex_vp9_pix ex_vp9_inter 0x40000000 (ex_vp9_large ! 0))"
    unfolding addr by (simp add: vp9_ranges_def vp9_header_size_def ex_vp9_inter_def ex_vp9_frame_def)
  have "vc_prob_count ex_vp9_later \<noteq> None" by (simp add: ex_vp9_later_def ex_vp9_ctx_def)
  then show ?thesis
    by (simp add: cedrus_dec_vp9_job_configure_def Let_def sup target pics refs rng)
qed

theorem vp9_segment_window_witness:
  "\<exists>ctx' pics' heap' log'. ex_vp9_configure ex_vp9_inter ex_vp9_later ex_vp9_large [] [] =
      Some (None, ctx', pics', heap', log') \<and>
    vc_prob_image ctx' (SEGMENT_MAP_OFFSET + 5) = 7 \<and> spec_segment_map (previous_size ex_vp9_later) ex_vp9_inter (\<lambda>_. 7) 5 = 0"
proof -
  obtain ctx' pics' heap' log' where c: "ex_vp9_configure ex_vp9_inter ex_vp9_later ex_vp9_large [] [] =
      Some (None, ctx', pics', heap', log')"
    using ex_vp9_inter_accepted by blast
  have s: "5 < vc_segment_map_size ex_vp9_later"
    "vc_segment_image ex_vp9_later ! vc_active_segment_map ex_vp9_later = (\<lambda>_. 7)"
    "previous_size ex_vp9_later \<noteq> (vp9_width ex_vp9_inter, vp9_height ex_vp9_inter)"
    "SEGMENTATION_FLAG_ENABLED \<in> seg_flags (vf_seg ex_vp9_inter)" "\<not> vp9_intra_only ex_vp9_inter"
    by (simp_all add: ex_vp9_later_def ex_vp9_ctx_def previous_size_def vp9_width_def ex_vp9_inter_def ex_vp9_frame_def
        ex_vp9_seg_def vp9_intra_only_def flag_set_def)
  have "vc_prob_image ctx' (SEGMENT_MAP_OFFSET + 5) = 7"
    using vp9_segment_window[OF c _ s(1) refl, of ex_vp9_inter] s by (simp add: Let_def)
  then show ?thesis using c s(3) by (auto simp: spec_segment_map_def)
qed

end
