(* ===== verification/Vp8_Tables.thy ===== *)
theory Vp8_Tables
  imports Cedrus_Prelude
begin

text \<open>The tables of the VP8 decoder (\<open>cedrus_dec_vp8.c\<close>): the image of constants the hardware reads behind
  the entropy probabilities, and the probabilities of the motion vector updates.\<close>

definition vp8_update_block_0 :: "u8 list" where
  "vp8_update_block_0 = [
     255, 255, 255, 255, 255, 255, 255, 255, 255, 255, 255, 0, 0, 0, 0, 0,
     255, 255, 255, 255, 255, 255, 255, 255, 255, 255, 255, 0, 0, 0, 0, 0,
     255, 255, 255, 255, 255, 255, 255, 255, 255, 255, 255, 0, 0, 0, 0, 0,
     0, 0, 0, 0, 0, 0, 0, 0, 0, 0, 0, 0, 0, 0, 0, 0,
     176, 246, 255, 255, 255, 255, 255, 255, 255, 255, 255, 0, 0, 0, 0, 0,
     223, 241, 252, 255, 255, 255, 255, 255, 255, 255, 255, 0, 0, 0, 0, 0,
     249, 253, 253, 255, 255, 255, 255, 255, 255, 255, 255, 0, 0, 0, 0, 0,
     0, 0, 0, 0, 0, 0, 0, 0, 0, 0, 0, 0, 0, 0, 0, 0,
     255, 244, 252, 255, 255, 255, 255, 255, 255, 255, 255, 0, 0, 0, 0, 0,
     234, 254, 254, 255, 255, 255, 255, 255, 255, 255, 255, 0, 0, 0, 0, 0,
     253, 255, 255, 255, 255, 255, 255, 255, 255, 255, 255, 0, 0, 0, 0, 0,
     0, 0, 0, 0, 0, 0, 0, 0, 0, 0, 0, 0, 0, 0, 0, 0,
     255, 246, 254, 255, 255, 255, 255, 255, 255, 255, 255, 0, 0, 0, 0, 0,
     239, 253, 254, 255, 255, 255, 255, 255, 255, 255, 255, 0, 0, 0, 0, 0,
     254, 255, 254, 255, 255, 255, 255, 255, 255, 255, 255, 0, 0, 0, 0, 0,
     0, 0, 0, 0, 0, 0, 0, 0, 0, 0, 0, 0, 0, 0, 0, 0,
     255, 248, 254, 255, 255, 255, 255, 255, 255, 255, 255, 0, 0, 0, 0, 0,
     251, 255, 254, 255, 255, 255, 255, 255, 255, 255, 255, 0, 0, 0, 0, 0,
     255, 255, 255, 255, 255, 255, 255, 255, 255, 255, 255, 0, 0, 0, 0, 0,
     0, 0, 0, 0, 0, 0, 0, 0, 0, 0, 0, 0, 0, 0, 0, 0,
     255, 253, 254, 255, 255, 255, 255, 255, 255, 255, 255, 0, 0, 0, 0, 0,
     251, 254, 254, 255, 255, 255, 255, 255, 255, 255, 255, 0, 0, 0, 0, 0,
     254, 255, 254, 255, 255, 255, 255, 255, 255, 255, 255, 0, 0, 0, 0, 0,
     0, 0, 0, 0, 0, 0, 0, 0, 0, 0, 0, 0, 0, 0, 0, 0,
     255, 254, 253, 255, 254, 255, 255, 255, 255, 255, 255, 0, 0, 0, 0, 0,
     250, 255, 254, 255, 254, 255, 255, 255, 255, 255, 255, 0, 0, 0, 0, 0,
     254, 255, 255, 255, 255, 255, 255, 255, 255, 255, 255, 0, 0, 0, 0, 0,
     0, 0, 0, 0, 0, 0, 0, 0, 0, 0, 0, 0, 0, 0, 0, 0,
     255, 255, 255, 255, 255, 255, 255, 255, 255, 255, 255, 0, 0, 0, 0, 0,
     255, 255, 255, 255, 255, 255, 255, 255, 255, 255, 255, 0, 0, 0, 0, 0,
     255, 255, 255, 255, 255, 255, 255, 255, 255, 255, 255, 0, 0, 0, 0, 0,
     0, 0, 0, 0, 0, 0, 0, 0, 0, 0, 0, 0, 0, 0, 0, 0]"

definition vp8_update_block_1 :: "u8 list" where
  "vp8_update_block_1 = [
     217, 255, 255, 255, 255, 255, 255, 255, 255, 255, 255, 0, 0, 0, 0, 0,
     225, 252, 241, 253, 255, 255, 254, 255, 255, 255, 255, 0, 0, 0, 0, 0,
     234, 250, 241, 250, 253, 255, 253, 254, 255, 255, 255, 0, 0, 0, 0, 0,
     0, 0, 0, 0, 0, 0, 0, 0, 0, 0, 0, 0, 0, 0, 0, 0,
     255, 254, 255, 255, 255, 255, 255, 255, 255, 255, 255, 0, 0, 0, 0, 0,
     223, 254, 254, 255, 255, 255, 255, 255, 255, 255, 255, 0, 0, 0, 0, 0,
     238, 253, 254, 254, 255, 255, 255, 255, 255, 255, 255, 0, 0, 0, 0, 0,
     0, 0, 0, 0, 0, 0, 0, 0, 0, 0, 0, 0, 0, 0, 0, 0,
     255, 248, 254, 255, 255, 255, 255, 255, 255, 255, 255, 0, 0, 0, 0, 0,
     249, 254, 255, 255, 255, 255, 255, 255, 255, 255, 255, 0, 0, 0, 0, 0,
     255, 255, 255, 255, 255, 255, 255, 255, 255, 255, 255, 0, 0, 0, 0, 0,
     0, 0, 0, 0, 0, 0, 0, 0, 0, 0, 0, 0, 0, 0, 0, 0,
     255, 253, 255, 255, 255, 255, 255, 255, 255, 255, 255, 0, 0, 0, 0, 0,
     247, 254, 255, 255, 255, 255, 255, 255, 255, 255, 255, 0, 0, 0, 0, 0,
     255, 255, 255, 255, 255, 255, 255, 255, 255, 255, 255, 0, 0, 0, 0, 0,
     0, 0, 0, 0, 0, 0, 0, 0, 0, 0, 0, 0, 0, 0, 0, 0,
     255, 253, 254, 255, 255, 255, 255, 255, 255, 255, 255, 0, 0, 0, 0, 0,
     252, 255, 255, 255, 255, 255, 255, 255, 255, 255, 255, 0, 0, 0, 0, 0,
     255, 255, 255, 255, 255, 255, 255, 255, 255, 255, 255, 0, 0, 0, 0, 0,
     0, 0, 0, 0, 0, 0, 0, 0, 0, 0, 0, 0, 0, 0, 0, 0,
     255, 254, 254, 255, 255, 255, 255, 255, 255, 255, 255, 0, 0, 0, 0, 0,
     253, 255, 255, 255, 255, 255, 255, 255, 255, 255, 255, 0, 0, 0, 0, 0,
     255, 255, 255, 255, 255, 255, 255, 255, 255, 255, 255, 0, 0, 0, 0, 0,
     0, 0, 0, 0, 0, 0, 0, 0, 0, 0, 0, 0, 0, 0, 0, 0,
     255, 254, 253, 255, 255, 255, 255, 255, 255, 255, 255, 0, 0, 0, 0, 0,
     250, 255, 255, 255, 255, 255, 255, 255, 255, 255, 255, 0, 0, 0, 0, 0,
     254, 255, 255, 255, 255, 255, 255, 255, 255, 255, 255, 0, 0, 0, 0, 0,
     0, 0, 0, 0, 0, 0, 0, 0, 0, 0, 0, 0, 0, 0, 0, 0,
     255, 255, 255, 255, 255, 255, 255, 255, 255, 255, 255, 0, 0, 0, 0, 0,
     255, 255, 255, 255, 255, 255, 255, 255, 255, 255, 255, 0, 0, 0, 0, 0,
     255, 255, 255, 255, 255, 255, 255, 255, 255, 255, 255, 0, 0, 0, 0, 0,
     0, 0, 0, 0, 0, 0, 0, 0, 0, 0, 0, 0, 0, 0, 0, 0]"

definition vp8_update_block_2 :: "u8 list" where
  "vp8_update_block_2 = [
     186, 251, 250, 255, 255, 255, 255, 255, 255, 255, 255, 0, 0, 0, 0, 0,
     234, 251, 244, 254, 255, 255, 255, 255, 255, 255, 255, 0, 0, 0, 0, 0,
     251, 251, 243, 253, 254, 255, 254, 255, 255, 255, 255, 0, 0, 0, 0, 0,
     0, 0, 0, 0, 0, 0, 0, 0, 0, 0, 0, 0, 0, 0, 0, 0,
     255, 253, 254, 255, 255, 255, 255, 255, 255, 255, 255, 0, 0, 0, 0, 0,
     236, 253, 254, 255, 255, 255, 255, 255, 255, 255, 255, 0, 0, 0, 0, 0,
     251, 253, 253, 254, 254, 255, 255, 255, 255, 255, 255, 0, 0, 0, 0, 0,
     0, 0, 0, 0, 0, 0, 0, 0, 0, 0, 0, 0, 0, 0, 0, 0,
     255, 254, 254, 255, 255, 255, 255, 255, 255, 255, 255, 0, 0, 0, 0, 0,
     254, 254, 254, 255, 255, 255, 255, 255, 255, 255, 255, 0, 0, 0, 0, 0,
     255, 255, 255, 255, 255, 255, 255, 255, 255, 255, 255, 0, 0, 0, 0, 0,
     0, 0, 0, 0, 0, 0, 0, 0, 0, 0, 0, 0, 0, 0, 0, 0,
     255, 254, 255, 255, 255, 255, 255, 255, 255, 255, 255, 0, 0, 0, 0, 0,
     254, 254, 255, 255, 255, 255, 255, 255, 255, 255, 255, 0, 0, 0, 0, 0,
     254, 255, 255, 255, 255, 255, 255, 255, 255, 255, 255, 0, 0, 0, 0, 0,
     0, 0, 0, 0, 0, 0, 0, 0, 0, 0, 0, 0, 0, 0, 0, 0,
     255, 255, 255, 255, 255, 255, 255, 255, 255, 255, 255, 0, 0, 0, 0, 0,
     254, 255, 255, 255, 255, 255, 255, 255, 255, 255, 255, 0, 0, 0, 0, 0,
     255, 255, 255, 255, 255, 255, 255, 255, 255, 255, 255, 0, 0, 0, 0, 0,
     0, 0, 0, 0, 0, 0, 0, 0, 0, 0, 0, 0, 0, 0, 0, 0,
     255, 255, 255, 255, 255, 255, 255, 255, 255, 255, 255, 0, 0, 0, 0, 0,
     255, 255, 255, 255, 255, 255, 255, 255, 255, 255, 255, 0, 0, 0, 0, 0,
     255, 255, 255, 255, 255, 255, 255, 255, 255, 255, 255, 0, 0, 0, 0, 0,
     0, 0, 0, 0, 0, 0, 0, 0, 0, 0, 0, 0, 0, 0, 0, 0,
     255, 255, 255, 255, 255, 255, 255, 255, 255, 255, 255, 0, 0, 0, 0, 0,
     255, 255, 255, 255, 255, 255, 255, 255, 255, 255, 255, 0, 0, 0, 0, 0,
     255, 255, 255, 255, 255, 255, 255, 255, 255, 255, 255, 0, 0, 0, 0, 0,
     0, 0, 0, 0, 0, 0, 0, 0, 0, 0, 0, 0, 0, 0, 0, 0,
     255, 255, 255, 255, 255, 255, 255, 255, 255, 255, 255, 0, 0, 0, 0, 0,
     255, 255, 255, 255, 255, 255, 255, 255, 255, 255, 255, 0, 0, 0, 0, 0,
     255, 255, 255, 255, 255, 255, 255, 255, 255, 255, 255, 0, 0, 0, 0, 0,
     0, 0, 0, 0, 0, 0, 0, 0, 0, 0, 0, 0, 0, 0, 0, 0]"

definition vp8_update_block_3 :: "u8 list" where
  "vp8_update_block_3 = [
     248, 255, 255, 255, 255, 255, 255, 255, 255, 255, 255, 0, 0, 0, 0, 0,
     250, 254, 252, 254, 255, 255, 255, 255, 255, 255, 255, 0, 0, 0, 0, 0,
     248, 254, 249, 253, 255, 255, 255, 255, 255, 255, 255, 0, 0, 0, 0, 0,
     0, 0, 0, 0, 0, 0, 0, 0, 0, 0, 0, 0, 0, 0, 0, 0,
     255, 253, 253, 255, 255, 255, 255, 255, 255, 255, 255, 0, 0, 0, 0, 0,
     246, 253, 253, 255, 255, 255, 255, 255, 255, 255, 255, 0, 0, 0, 0, 0,
     252, 254, 251, 254, 254, 255, 255, 255, 255, 255, 255, 0, 0, 0, 0, 0,
     0, 0, 0, 0, 0, 0, 0, 0, 0, 0, 0, 0, 0, 0, 0, 0,
     255, 254, 252, 255, 255, 255, 255, 255, 255, 255, 255, 0, 0, 0, 0, 0,
     248, 254, 253, 255, 255, 255, 255, 255, 255, 255, 255, 0, 0, 0, 0, 0,
     253, 255, 254, 254, 255, 255, 255, 255, 255, 255, 255, 0, 0, 0, 0, 0,
     0, 0, 0, 0, 0, 0, 0, 0, 0, 0, 0, 0, 0, 0, 0, 0,
     255, 251, 254, 255, 255, 255, 255, 255, 255, 255, 255, 0, 0, 0, 0, 0,
     245, 251, 254, 255, 255, 255, 255, 255, 255, 255, 255, 0, 0, 0, 0, 0,
     253, 253, 254, 255, 255, 255, 255, 255, 255, 255, 255, 0, 0, 0, 0, 0,
     0, 0, 0, 0, 0, 0, 0, 0, 0, 0, 0, 0, 0, 0, 0, 0,
     255, 251, 253, 255, 255, 255, 255, 255, 255, 255, 255, 0, 0, 0, 0, 0,
     252, 253, 254, 255, 255, 255, 255, 255, 255, 255, 255, 0, 0, 0, 0, 0,
     255, 254, 255, 255, 255, 255, 255, 255, 255, 255, 255, 0, 0, 0, 0, 0,
     0, 0, 0, 0, 0, 0, 0, 0, 0, 0, 0, 0, 0, 0, 0, 0,
     255, 252, 255, 255, 255, 255, 255, 255, 255, 255, 255, 0, 0, 0, 0, 0,
     249, 255, 254, 255, 255, 255, 255, 255, 255, 255, 255, 0, 0, 0, 0, 0,
     255, 255, 254, 255, 255, 255, 255, 255, 255, 255, 255, 0, 0, 0, 0, 0,
     0, 0, 0, 0, 0, 0, 0, 0, 0, 0, 0, 0, 0, 0, 0, 0,
     255, 255, 253, 255, 255, 255, 255, 255, 255, 255, 255, 0, 0, 0, 0, 0,
     250, 255, 255, 255, 255, 255, 255, 255, 255, 255, 255, 0, 0, 0, 0, 0,
     255, 255, 255, 255, 255, 255, 255, 255, 255, 255, 255, 0, 0, 0, 0, 0,
     0, 0, 0, 0, 0, 0, 0, 0, 0, 0, 0, 0, 0, 0, 0, 0,
     255, 255, 255, 255, 255, 255, 255, 255, 255, 255, 255, 0, 0, 0, 0, 0,
     254, 255, 255, 255, 255, 255, 255, 255, 255, 255, 255, 0, 0, 0, 0, 0,
     255, 255, 255, 255, 255, 255, 255, 255, 255, 255, 255, 0, 0, 0, 0, 0,
     0, 0, 0, 0, 0, 0, 0, 0, 0, 0, 0, 0, 0, 0, 0, 0]"

definition vp8_mode_probs :: "u8 list" where
  "vp8_mode_probs = [
     145, 156, 163, 128, 0, 0, 0, 0, 0, 0, 0, 0, 0, 0, 0, 0,
     0, 0, 0, 0, 0, 0, 0, 0, 0, 0, 0, 0, 0, 0, 0, 0,
     0, 0, 0, 0, 0, 0, 0, 0, 0, 0, 0, 0, 0, 0, 0, 0,
     0, 0, 0, 0, 0, 0, 0, 0, 0, 0, 0, 0, 0, 0, 0, 0,
     0, 0, 0, 0, 0, 0, 0, 0, 0, 0, 0, 0, 0, 0, 0, 0,
     0, 0, 0, 0, 0, 0, 0, 0, 0, 0, 0, 0, 0, 0, 0, 0,
     110, 111, 150, 0, 0, 0, 0, 0, 120, 90, 79, 133, 87, 85, 80, 111,
     151, 0, 0, 0, 0, 0, 0, 0, 0, 0, 0, 0, 0, 0, 0, 0,
     0, 0, 0, 0, 0, 0, 0, 0, 147, 136, 18, 0, 106, 145, 1, 0,
     179, 121, 1, 0, 223, 1, 34, 0, 208, 1, 1, 0, 0, 0, 0, 0,
     0, 0, 0, 0, 0, 0, 0, 0, 7, 1, 1, 143, 14, 18, 14, 107,
     135, 64, 57, 68, 60, 56, 128, 65, 159, 134, 128, 34, 234, 188, 128, 28,
     0, 0, 0, 0, 0, 0, 0, 0, 0, 0, 0, 0, 0, 0, 0, 0,
     0, 0, 0, 0, 0, 0, 0, 0, 0, 0, 0, 0, 0, 0, 0, 0,
     0, 0, 0, 0, 0, 0, 0, 0, 0, 0, 0, 0, 0, 0, 0, 0,
     0, 0, 0, 0, 0, 0, 0, 0, 0, 0, 0, 0, 0, 0, 0, 0]"

definition vp8_mode_trees :: "u8 list" where
  "vp8_mode_trees = [
     132, 2, 4, 6, 128, 129, 130, 131, 128, 2, 4, 6, 129, 130, 131, 132,
     128, 2, 129, 4, 130, 131, 0, 0, 0, 0, 0, 0, 0, 0, 0, 0,
     0, 0, 2, 8, 4, 6, 128, 129, 130, 131, 10, 12, 132, 133, 134, 135,
     0, 0, 0, 0, 0, 0, 0, 0, 0, 0, 0, 0, 0, 0, 0, 0,
     0, 0, 2, 8, 4, 6, 128, 129, 130, 131, 10, 12, 132, 133, 134, 135,
     0, 0, 0, 0, 0, 0, 0, 0, 0, 0, 0, 0, 0, 0, 0, 0,
     131, 2, 130, 4, 128, 129, 0, 0, 128, 2, 129, 4, 130, 6, 8, 12,
     131, 10, 133, 134, 132, 14, 135, 16, 136, 137, 0, 0, 0, 0, 0, 0,
     0, 0, 0, 0, 0, 0, 0, 0, 138, 2, 139, 4, 140, 141, 0, 0,
     0, 0, 0, 0, 0, 0, 0, 0, 0, 0, 0, 0, 0, 0, 0, 0,
     0, 0, 0, 0, 0, 0, 0, 0, 135, 2, 133, 4, 134, 6, 136, 137]"

definition prob_table_init :: "u8 list" where
  "prob_table_init = vp8_update_block_0 @ vp8_update_block_1 @ vp8_update_block_2 @
     vp8_update_block_3 @ vp8_mode_probs @ vp8_mode_trees"

definition k_mv_entropy_update_probs :: "nat list list" where
  "k_mv_entropy_update_probs = [
     [237, 246, 253, 253, 254, 254, 254, 254, 254, 254, 254, 254, 254, 254, 250, 250, 252, 254, 254],
     [231, 243, 245, 253, 254, 254, 254, 254, 254, 254, 254, 254, 254, 254, 251, 251, 254, 254, 254]]"

lemma length_prob_table_init: "length prob_table_init = 2480"
  by (simp add: prob_table_init_def vp8_update_block_0_def vp8_update_block_1_def vp8_update_block_2_def vp8_update_block_3_def vp8_mode_probs_def vp8_mode_trees_def)

end
