(* ===== verification/Cedrus_Dec_VP8.thy ===== *)
theory Cedrus_Dec_VP8
  imports Cedrus_Buffers Cedrus_Dec_Regs Vp8_Tables
begin

text \<open>The VP8 decoder (\<open>cedrus_dec_vp8.c\<close>, \<open>.h\<close>): the entropy probabilities in memory, the frame header the
  driver has the hardware parse bit by bit, the registers of a job and what a context keeps from one
  frame to the next.

  The value of \<open>BASIC_BITS\<close> after a request is what the hardware answers, the parameter \<open>hw\<close>.\<close>

section \<open>Controls\<close>

datatype vp8_seg_flag = VP8_SEGMENT_FLAG_ENABLED | VP8_SEGMENT_FLAG_UPDATE_MAP |
  VP8_SEGMENT_FLAG_UPDATE_FEATURE_DATA | VP8_SEGMENT_FLAG_DELTA_VALUE_MODE
datatype vp8_lf_flag = VP8_LF_ADJ_ENABLE | VP8_LF_DELTA_UPDATE | VP8_LF_FILTER_TYPE_SIMPLE
datatype vp8_flag = VP8_FRAME_FLAG_KEY_FRAME | VP8_FRAME_FLAG_EXPERIMENTAL | VP8_FRAME_FLAG_SHOW_FRAME |
  VP8_FRAME_FLAG_MB_NO_SKIP_COEFF | VP8_FRAME_FLAG_SIGN_BIAS_GOLDEN | VP8_FRAME_FLAG_SIGN_BIAS_ALT

record vp8_segment =
  quant_update :: "int list"
  lf_update :: "int list"
  segment_probs :: "u8 list"
  vs_flags :: "vp8_seg_flag set"

record vp8_lf =
  ref_frm_delta :: "int list"
  mb_mode_delta :: "int list"
  sharpness_level :: u8
  vl_level :: u8
  vl_flags :: "vp8_lf_flag set"

record vp8_quant =
  y_ac_qi :: u8
  y_dc_delta :: int
  y2_dc_delta :: int
  y2_ac_delta :: int
  uv_dc_delta :: int
  uv_ac_delta :: int

record vp8_entropy =
  coeff_probs :: "u8 list list list list"
  y_mode_probs :: "u8 list"
  uv_mode_probs :: "u8 list"
  mv_probs :: "u8 list list"

record vp8_frame =
  v8_segment :: vp8_segment
  v8_lf :: vp8_lf
  v8_quant :: vp8_quant
  v8_entropy :: vp8_entropy
  v8_width :: u16
  v8_height :: u16
  v8_version :: u8
  prob_skip_false :: u8
  prob_intra :: u8
  prob_last :: u8
  prob_gf :: u8
  num_dct_parts :: u8
  first_part_size :: u32
  v8_last_frame_ts :: u64
  v8_golden_frame_ts :: u64
  v8_alt_frame_ts :: u64
  v8_flags :: "vp8_flag set"

definition vp8_is_key_frame :: "vp8_frame \<Rightarrow> bool" where
  "vp8_is_key_frame frame \<longleftrightarrow> VP8_FRAME_FLAG_KEY_FRAME \<in> v8_flags frame"

section \<open>A context\<close>

record vp8_context =
  last_frame_p_type :: bool
  last_filter_type :: bool
  last_sharpness_level :: u8
  entropy_probs_buf :: "nat \<Rightarrow> u8"
  entropy_probs_buf_dma :: "u64 option"

definition CEDRUS_DEC_VP8_ENTROPY_PROBS_SIZE :: nat where
  "CEDRUS_DEC_VP8_ENTROPY_PROBS_SIZE = 0x2400"

text \<open>The memory of the engine starts zeroed, and so does coherent DMA memory.\<close>

definition vp8_context_init :: vp8_context where
  "vp8_context_init = \<lparr>last_frame_p_type = False, last_filter_type = False, last_sharpness_level = 0,
     entropy_probs_buf = (\<lambda>_. 0), entropy_probs_buf_dma = None\<rparr>"

definition cedrus_dec_vp8_setup :: "dma_alloc \<Rightarrow> vp8_context \<Rightarrow> dma_heap \<Rightarrow> errno option \<times> vp8_context \<times> dma_heap" where
  "cedrus_dec_vp8_setup alloc ctx heap =
    (case alloc heap CEDRUS_DEC_VP8_ENTROPY_PROBS_SIZE of
       None \<Rightarrow> (Some ENOMEM, ctx\<lparr>entropy_probs_buf_dma := None\<rparr>, heap)
     | Some addr \<Rightarrow> (None,
         ctx\<lparr>entropy_probs_buf := put_block 2048 prob_table_init (\<lambda>_. 0), entropy_probs_buf_dma := Some addr\<rparr>,
         (addr, CEDRUS_DEC_VP8_ENTROPY_PROBS_SIZE) # heap))"

definition cedrus_dec_vp8_cleanup :: "vp8_context \<Rightarrow> dma_heap \<Rightarrow> dma_heap" where
  "cedrus_dec_vp8_cleanup ctx heap = (case entropy_probs_buf_dma ctx of
     None \<Rightarrow> heap | Some addr \<Rightarrow> dma_free CEDRUS_DEC_VP8_ENTROPY_PROBS_SIZE addr heap)"

section \<open>The frame header\<close>

definition VP8_PROB_HALF :: nat where "VP8_PROB_HALF = 128"
definition QUANT_DELTA_COUNT :: nat where "QUANT_DELTA_COUNT = 5"

definition read_bits :: "hw_read \<Rightarrow> nat \<Rightarrow> nat \<Rightarrow> io_log \<Rightarrow> u8 \<times> io_log" where
  "read_bits hw bits_count probability log =
    (let log = cedrus_write VE_H264_TRIGGER_TYPE (VE_H264_TRIGGER_TYPE_VP8_GET_BITS OR
           VE_H264_TRIGGER_TYPE_BIN_LENS (int bits_count) OR
           VE_H264_TRIGGER_TYPE_PROBABILITY (int probability)) log;
         log = cedrus_poll VE_H264_STATUS VE_H264_STATUS_VLD_BUSY log
     in (ucast (cedrus_read hw VE_H264_BASIC_BITS log), log))"

text \<open>Most values are read and dropped, and most follow a flag.\<close>

abbreviation drop_bits :: "hw_read \<Rightarrow> nat \<Rightarrow> io_log \<Rightarrow> io_log" where
  "drop_bits hw n log \<equiv> snd (read_bits hw n VP8_PROB_HALF log)"

definition if_flag :: "hw_read \<Rightarrow> nat \<Rightarrow> (io_log \<Rightarrow> io_log) \<Rightarrow> io_log \<Rightarrow> io_log" where
  "if_flag hw probability body log =
    (case read_bits hw 1 probability log of (flag, log) \<Rightarrow> if flag \<noteq> 0 then body log else log)"

definition repeat :: "nat \<Rightarrow> (io_log \<Rightarrow> io_log) \<Rightarrow> io_log \<Rightarrow> io_log" where
  "repeat n body log = (body ^^ n) log"

definition get_delta_q :: "hw_read \<Rightarrow> io_log \<Rightarrow> io_log" where
  "get_delta_q hw = if_flag hw VP8_PROB_HALF (\<lambda>log.
     let log = drop_bits hw 4 log in drop_bits hw 1 log)"

definition process_segmentation_info :: "hw_read \<Rightarrow> io_log \<Rightarrow> io_log" where
  "process_segmentation_info hw log =
    (let (update, log) = read_bits hw 1 VP8_PROB_HALF log;
         log = if_flag hw VP8_PROB_HALF (\<lambda>log.
           let log = drop_bits hw 1 log;
               log = repeat 4 (if_flag hw VP8_PROB_HALF (\<lambda>log.
                 let log = drop_bits hw 7 log in drop_bits hw 1 log)) log
           in repeat 4 (if_flag hw VP8_PROB_HALF (\<lambda>log.
                 let log = drop_bits hw 6 log in drop_bits hw 1 log)) log) log
     in if update \<noteq> 0 then repeat 3 (if_flag hw VP8_PROB_HALF (drop_bits hw 8)) log else log)"

definition process_ref_lf_delta_info :: "hw_read \<Rightarrow> io_log \<Rightarrow> io_log" where
  "process_ref_lf_delta_info hw = if_flag hw VP8_PROB_HALF (\<lambda>log.
     let log = repeat 4 (if_flag hw VP8_PROB_HALF (\<lambda>log.
           let log = drop_bits hw 6 log in drop_bits hw 1 log)) log
     in repeat 4 (if_flag hw VP8_PROB_HALF (\<lambda>log.
           let log = drop_bits hw 6 log in drop_bits hw 1 log)) log)"

definition process_ref_frame_info :: "hw_read \<Rightarrow> io_log \<Rightarrow> io_log" where
  "process_ref_frame_info hw log =
    (let (refresh_golden_frame, log) = read_bits hw 1 VP8_PROB_HALF log;
         (refresh_alt_ref_frame, log) = read_bits hw 1 VP8_PROB_HALF log;
         log = (if refresh_golden_frame = 0 then drop_bits hw 2 log else log);
         log = (if refresh_alt_ref_frame = 0 then drop_bits hw 2 log else log);
         log = drop_bits hw 1 log
     in drop_bits hw 1 log)"

text \<open>The header before and after the update of the coefficient probabilities, which the hardware does on
  its own.\<close>

definition read_header_start :: "hw_read \<Rightarrow> bool \<Rightarrow> io_log \<Rightarrow> io_log" where
  "read_header_start hw key log =
    (let log = (if key then (let log = drop_bits hw 1 log in drop_bits hw 1 log) else log);
         log = if_flag hw VP8_PROB_HALF (process_segmentation_info hw) log;
         log = drop_bits hw 1 log;
         log = drop_bits hw 6 log;
         log = drop_bits hw 3 log;
         log = if_flag hw VP8_PROB_HALF (process_ref_lf_delta_info hw) log;
         log = drop_bits hw 2 log;
         log = drop_bits hw 7 log;
         log = repeat QUANT_DELTA_COUNT (get_delta_q hw) log;
         log = (if \<not> key then process_ref_frame_info hw log else log);
         log = drop_bits hw 1 log
     in if \<not> key then drop_bits hw 1 log else log)"

definition read_header_update_coef :: "io_log \<Rightarrow> io_log" where
  "read_header_update_coef log =
    (let log = cedrus_write VE_H264_TRIGGER_TYPE VE_H264_TRIGGER_TYPE_VP8_UPDATE_COEF log;
         log = cedrus_poll VE_H264_STATUS VE_H264_STATUS_VP8_UPPROB_BUSY log
     in cedrus_write VE_H264_STATUS VE_H264_STATUS_INT_MASK log)"

definition read_mv_probs :: "hw_read \<Rightarrow> io_log \<Rightarrow> io_log" where
  "read_mv_probs hw log =
    fold (\<lambda>i. fold (\<lambda>j. if_flag hw (k_mv_entropy_update_probs ! i ! j) (drop_bits hw 7)) [0..<19]) [0..<2] log"

definition read_header_end :: "hw_read \<Rightarrow> bool \<Rightarrow> io_log \<Rightarrow> io_log" where
  "read_header_end hw key log =
    (let log = if_flag hw VP8_PROB_HALF (drop_bits hw 8) log
     in if \<not> key
        then (let log = drop_bits hw 8 log;
                  log = drop_bits hw 8 log;
                  log = drop_bits hw 8 log;
                  log = if_flag hw VP8_PROB_HALF (repeat 4 (drop_bits hw 8)) log;
                  log = if_flag hw VP8_PROB_HALF (repeat 3 (drop_bits hw 8)) log
              in read_mv_probs hw log)
        else log)"

definition cedrus_read_header :: "hw_read \<Rightarrow> vp8_frame \<Rightarrow> io_log \<Rightarrow> io_log" where
  "cedrus_read_header hw frame log =
    (let log = read_header_start hw (vp8_is_key_frame frame) log;
         log = read_header_update_coef log
     in read_header_end hw (vp8_is_key_frame frame) log)"

section \<open>Probabilities\<close>

text \<open>The blocks the probabilities of a frame are copied to, in the order of the copies.\<close>

definition vp8_prob_blocks :: "vp8_frame \<Rightarrow> (nat \<times> u8 list) list" where
  "vp8_prob_blocks frame =
    (let e = v8_entropy frame
     in [(0x1008, y_mode_probs e), (0x1010, uv_mode_probs e), (0x1018, segment_probs (v8_segment frame)),
         (0x101c, [prob_skip_false frame]), (0x101d, [prob_intra frame]), (0x101e, [prob_last frame]),
         (0x101f, [prob_gf frame]), (0x1020, mv_probs e ! 0), (0x1040, mv_probs e ! 1)] @
        [(i * 512 + j * 64 + k * 16, coeff_probs e ! i ! j ! k). i \<leftarrow> [0..<4], j \<leftarrow> [0..<8], k \<leftarrow> [0..<3]])"

definition cedrus_vp8_update_probs :: "vp8_frame \<Rightarrow> (nat \<Rightarrow> u8) \<Rightarrow> nat \<Rightarrow> u8" where
  "cedrus_vp8_update_probs frame prob_table =
    fold (\<lambda>(at, bytes). put_block at bytes) (vp8_prob_blocks frame) prob_table"

section \<open>A job\<close>

definition cedrus_dec_vp8_job_prepare :: "vp8_frame option \<Rightarrow> errno option \<times> vp8_frame option" where
  "cedrus_dec_vp8_job_prepare frame = (None, frame)"

text \<open>\<open>ilog2\<close> of the kernel is the position of the last set bit, counted from 1, less one.\<close>

fun kernel_fls :: "nat \<Rightarrow> nat" where
  "kernel_fls n = (if n = 0 then 0 else Suc (kernel_fls (n div 2)))"

declare kernel_fls.simps [simp del]

definition kernel_ilog2 :: "nat \<Rightarrow> int" where
  "kernel_ilog2 n = int (kernel_fls n) - 1"

abbreviation flag_value :: "bool \<Rightarrow> u32 \<Rightarrow> u32" where
  "flag_value b v \<equiv> (if b then v else 0)"

definition vp8_version_value :: "u8 \<Rightarrow> u32" where
  "vp8_version_value version =
    (if version = 1 then VE_VP8_PPS_FILTER_TYPE_SIMPLE OR VE_VP8_PPS_BILINEAR_MC_FILTER
     else if version = 2 then VE_VP8_PPS_LPF_DISABLE OR VE_VP8_PPS_BILINEAR_MC_FILTER
     else if version = 3 then VE_VP8_PPS_LPF_DISABLE OR VE_VP8_PPS_FULL_PIXEL else 0)"

definition vp8_pps_value :: "vp8_context \<Rightarrow> vp8_frame \<Rightarrow> u32" where
  "vp8_pps_value ctx frame =
    (let seg = v8_segment frame; lf = v8_lf frame;
         value = vp8_version_value (v8_version frame);
         value = value OR flag_value (VP8_SEGMENT_FLAG_UPDATE_MAP \<in> vs_flags seg) VE_VP8_PPS_UPDATE_MB_SEGMENTATION_MAP;
         value = value OR flag_value (VP8_SEGMENT_FLAG_DELTA_VALUE_MODE \<notin> vs_flags seg) VE_VP8_PPS_MB_SEGMENT_ABS_DELTA;
         value = value OR flag_value (VP8_SEGMENT_FLAG_ENABLED \<in> vs_flags seg) VE_VP8_PPS_SEGMENTATION_ENABLE;
         value = value OR flag_value (last_filter_type ctx) VE_VP8_PPS_LAST_LOOP_FILTER_SIMPLE;
         value = value OR VE_VP8_PPS_SHARPNESS_LEVEL (uint (sharpness_level lf));
         value = value OR flag_value (VP8_LF_FILTER_TYPE_SIMPLE \<in> vl_flags lf) VE_VP8_PPS_LOOP_FILTER_SIMPLE;
         value = value OR VE_VP8_PPS_LOOP_FILTER_LEVEL (uint (vl_level lf));
         value = value OR flag_value (VP8_LF_ADJ_ENABLE \<in> vl_flags lf) VE_VP8_PPS_MODE_REF_LF_DELTA_ENABLE;
         value = value OR flag_value (VP8_LF_DELTA_UPDATE \<in> vl_flags lf) VE_VP8_PPS_MODE_REF_LF_DELTA_UPDATE;
         value = value OR VE_VP8_PPS_TOKEN_PARTITION (kernel_ilog2 (unat (num_dct_parts frame)));
         value = value OR flag_value (VP8_FRAME_FLAG_MB_NO_SKIP_COEFF \<in> v8_flags frame) VE_VP8_PPS_MB_NO_COEFF_SKIP;
         value = value OR VE_VP8_PPS_RELOAD_ENTROPY_PROBS;
         value = value OR flag_value (VP8_FRAME_FLAG_SIGN_BIAS_GOLDEN \<in> v8_flags frame) VE_VP8_PPS_GOLDEN_SIGN_BIAS;
         value = value OR flag_value (VP8_FRAME_FLAG_SIGN_BIAS_ALT \<in> v8_flags frame) VE_VP8_PPS_ALTREF_SIGN_BIAS;
         value = value OR flag_value (last_frame_p_type ctx) VE_VP8_PPS_LAST_PIC_TYPE_P_FRAME;
         value = value OR VE_VP8_PPS_LAST_SHARPNESS_LEVEL (uint (last_sharpness_level ctx))
     in value OR flag_value (VP8_FRAME_FLAG_KEY_FRAME \<notin> v8_flags frame) VE_VP8_PPS_PIC_TYPE_P_FRAME)"

definition vp8_header_size :: "vp8_frame \<Rightarrow> u32" where
  "vp8_header_size frame = (if vp8_is_key_frame frame then 10 else 3)"

definition vp8_stream_registers :: "vp8_frame \<Rightarrow> u64 \<times> u32 \<Rightarrow> u64 \<Rightarrow> (u32 \<times> u32) list" where
  "vp8_stream_registers frame = (\<lambda>(coded_addr, coded_size) probs_dma.
    [(VE_VP8_FIRST_DATA_PART_LEN, first_part_size frame * 8),
     (VE_VP8_PART_SIZE_OFFSET, first_part_size frame + vp8_header_size frame),
     (VE_H264_VLD_LEN, coded_size * 8),
     (VE_H264_VLD_OFFSET, vp8_header_size frame * 8),
     (VE_H264_VLD_END, ucast (coded_addr + ucast coded_size)),
     (VE_H264_VLD_ADDR, VE_H264_VLD_ADDR_VAL coded_addr OR VE_H264_VLD_ADDR_FIRST OR VE_H264_VLD_ADDR_VALID OR
       VE_H264_VLD_ADDR_LAST),
     (VE_H264_TRIGGER_TYPE, VE_H264_TRIGGER_TYPE_INIT_SWDEC),
     (VE_VP8_ENTROPY_PROBS_ADDR, ucast probs_dma)])"

definition vp8_picture_registers :: "vp8_frame \<Rightarrow> (u32 \<times> u32) list" where
  "vp8_picture_registers frame =
    (let q = v8_quant frame; seg = v8_segment frame; lf = v8_lf frame
     in [(VE_H264_CUR_MB_NUM, 0), (VE_H264_MB_ADDR, 0), (VE_H264_ERROR_CASE, 0),
      (VE_VP8_QP_INDEX_DELTA,
        VE_VP8_QP_INDEX_DELTA_UVAC (uv_ac_delta q) OR VE_VP8_QP_INDEX_DELTA_UVDC (uv_dc_delta q) OR
        VE_VP8_QP_INDEX_DELTA_Y2AC (y2_ac_delta q) OR VE_VP8_QP_INDEX_DELTA_Y2DC (y2_dc_delta q) OR
        VE_VP8_QP_INDEX_DELTA_Y1DC (y_dc_delta q) OR VE_VP8_QP_INDEX_DELTA_BASE_QINDEX (uint (y_ac_qi q))),
      (VE_VP8_FSIZE, VE_VP8_FSIZE_WIDTH (unat (v8_width frame)) OR VE_VP8_FSIZE_HEIGHT (unat (v8_height frame))),
      (VE_VP8_PICSIZE, VE_VP8_PICSIZE_WIDTH (uint (v8_width frame)) OR VE_VP8_PICSIZE_HEIGHT (uint (v8_height frame))),
      (VE_VP8_SEGMENT_FEAT_MB_LV0,
        VE_VP8_SEGMENT3 (quant_update seg ! 3) OR VE_VP8_SEGMENT2 (quant_update seg ! 2) OR
        VE_VP8_SEGMENT1 (quant_update seg ! 1) OR VE_VP8_SEGMENT0 (quant_update seg ! 0)),
      (VE_VP8_SEGMENT_FEAT_MB_LV1,
        VE_VP8_SEGMENT3 (lf_update seg ! 3) OR VE_VP8_SEGMENT2 (lf_update seg ! 2) OR
        VE_VP8_SEGMENT1 (lf_update seg ! 1) OR VE_VP8_SEGMENT0 (lf_update seg ! 0)),
      (VE_VP8_REF_LF_DELTA,
        VE_VP8_LF_DELTA3 (ref_frm_delta lf ! 3) OR VE_VP8_LF_DELTA2 (ref_frm_delta lf ! 2) OR
        VE_VP8_LF_DELTA1 (ref_frm_delta lf ! 1) OR VE_VP8_LF_DELTA0 (ref_frm_delta lf ! 0)),
      (VE_VP8_MODE_LF_DELTA,
        VE_VP8_LF_DELTA3 (mb_mode_delta lf ! 3) OR VE_VP8_LF_DELTA2 (mb_mode_delta lf ! 2) OR
        VE_VP8_LF_DELTA1 (mb_mode_delta lf ! 1) OR VE_VP8_LF_DELTA0 (mb_mode_delta lf ! 0))])"

definition vp8_plane_registers :: "'e picture_find \<Rightarrow> pix_format \<Rightarrow> vp8_frame \<Rightarrow> nat \<Rightarrow> 'e picture list \<Rightarrow>
    (u32 \<times> u32) list" where
  "vp8_plane_registers lookup pix frame cur pics =
    (let (luma, chroma) = cedrus_buffer_picture_dma pix (pic_addr (pics ! cur));
         (fwd_luma, fwd_chroma) = cedrus_job_buffer_picture_ref_dma lookup pix pics (v8_last_frame_ts frame);
         (bwd_luma, bwd_chroma) = cedrus_job_buffer_picture_ref_dma lookup pix pics (v8_golden_frame_ts frame);
         (alt_luma, alt_chroma) = cedrus_job_buffer_picture_ref_dma lookup pix pics (v8_alt_frame_ts frame)
     in [(VE_VP8_REC_LUMA, ucast luma), (VE_VP8_REC_CHROMA, ucast chroma),
         (VE_VP8_FWD_LUMA, ucast fwd_luma), (VE_VP8_FWD_CHROMA, ucast fwd_chroma),
         (VE_VP8_BWD_LUMA, ucast bwd_luma), (VE_VP8_BWD_CHROMA, ucast bwd_chroma),
         (VE_VP8_ALT_LUMA, ucast alt_luma), (VE_VP8_ALT_CHROMA, ucast alt_chroma),
         (VE_H264_CTRL, VE_H264_CTRL_VP8 OR VE_H264_CTRL_DECODE_ERR_INT OR VE_H264_CTRL_SLICE_DECODE_INT)])"

definition vp8_remember :: "vp8_frame \<Rightarrow> vp8_context \<Rightarrow> vp8_context" where
  "vp8_remember frame ctx =
    (if vl_level (v8_lf frame) \<noteq> 0
     then ctx\<lparr>last_filter_type := VP8_LF_FILTER_TYPE_SIMPLE \<in> vl_flags (v8_lf frame),
       last_frame_p_type := \<not> vp8_is_key_frame frame, last_sharpness_level := sharpness_level (v8_lf frame)\<rparr>
     else ctx)"

definition cedrus_dec_vp8_job_configure :: "hw_read \<Rightarrow> 'e picture_find \<Rightarrow> pix_format \<Rightarrow> u64 \<times> u32 \<Rightarrow> vp8_frame \<Rightarrow>
    nat \<Rightarrow> 'e picture list \<Rightarrow> vp8_context \<Rightarrow> io_log \<Rightarrow> errno option \<times> vp8_context \<times> io_log" where
  "cedrus_dec_vp8_job_configure hw lookup pix stream frame cur pics ctx log =
    (let log = cedrus_write VE_H264_CTRL VE_H264_CTRL_VP8 log;
         ctx = ctx\<lparr>entropy_probs_buf := cedrus_vp8_update_probs frame (entropy_probs_buf ctx)\<rparr>;
         log = writes (vp8_stream_registers frame stream (the (entropy_probs_buf_dma ctx)) @
           [(VE_VP8_PPS, vp8_pps_value ctx frame)]) log;
         log = cedrus_read_header hw frame log;
         log = writes (vp8_picture_registers frame @ vp8_plane_registers lookup pix frame cur pics) log
     in (None, vp8_remember frame ctx, log))"

definition cedrus_dec_vp8_job_trigger :: "io_log \<Rightarrow> io_log" where
  "cedrus_dec_vp8_job_trigger log = cedrus_write VE_H264_TRIGGER_TYPE VE_H264_TRIGGER_TYPE_VP8_SLICE_DECODE log"

section \<open>Interrupts\<close>

definition cedrus_dec_vp8_irq_status :: "hw_read \<Rightarrow> io_log \<Rightarrow> cedrus_irq_status" where
  "cedrus_dec_vp8_irq_status hw log =
    (let status = cedrus_read hw VE_H264_STATUS log AND VE_H264_STATUS_INT_MASK
     in if status = 0 then CEDRUS_IRQ_NONE
        else if status AND VE_H264_CTRL_SLICE_DECODE_INT = 0 \<or> status AND VE_H264_STATUS_VLD_DATA_REQ_INT \<noteq> 0 \<or>
          status AND VE_H264_STATUS_DECODE_ERR_INT \<noteq> 0 then CEDRUS_IRQ_ERROR
        else CEDRUS_IRQ_SUCCESS)"

definition cedrus_dec_vp8_irq_clear :: "io_log \<Rightarrow> io_log" where
  "cedrus_dec_vp8_irq_clear log = cedrus_write VE_H264_STATUS VE_H264_STATUS_INT_MASK log"

definition cedrus_dec_vp8_irq_disable :: "hw_read \<Rightarrow> io_log \<Rightarrow> io_log" where
  "cedrus_dec_vp8_irq_disable hw log =
    cedrus_write VE_H264_CTRL (cedrus_read hw VE_H264_CTRL log AND NOT VE_H264_CTRL_INT_MASK) log"

end
