(* ===== verification/Vp8_Dec_Header.thy ===== *)
theory Vp8_Dec_Header
  imports Cedrus_Dec_VP8
begin

text \<open>The frame header of VP8: the syntax of RFC 6386 (sections 9.2 to 9.11 and 19.2) as the list of symbols
  of a header, and the proof that the driver asks the hardware for exactly these symbols.\<close>

section \<open>Requests\<close>

text \<open>A request to the bit reader is a write of the trigger register: the width and the probability are in
  its fields.\<close>

datatype vp8_request = Get_Bits int int | Update_Coef

fun request :: "io \<Rightarrow> vp8_request list" where
  "request (Write r v) = (if r \<noteq> VE_H264_TRIGGER_TYPE then []
     else if field 3 0 v = 15 then [Get_Bits (field 18 16 v + 1) (field 31 24 v)]
     else if field 3 0 v = 14 then [Update_Coef] else [])"
| "request _ = []"

definition requests :: "io_log \<Rightarrow> vp8_request list" where
  "requests log = concat (map request log)"

text \<open>A symbol of a header: a value of some bits, each read with the same probability, or the update of
  the coefficient probabilities, which has no value.\<close>

datatype vp8_symbol = Bits nat nat u8 | Coefs

fun shape :: "vp8_symbol \<Rightarrow> vp8_request" where
  "shape (Bits n p v) = Get_Bits (int n) (int p)"
| "shape Coefs = Update_Coef"

fun answer :: "vp8_symbol \<Rightarrow> u8" where
  "answer (Bits n p v) = v"
| "answer Coefs = 0"

text \<open>Hardware that answers the requests after \<open>log\<close> with the values of \<open>syms\<close>, in order.\<close>

definition answers :: "hw_read \<Rightarrow> vp8_symbol list \<Rightarrow> io_log \<Rightarrow> bool" where
  "answers hw syms log \<longleftrightarrow> (\<forall>log' i. length (requests log') = length (requests log) + i + 1 \<longrightarrow> i < length syms \<longrightarrow>
     ucast (hw log' VE_H264_BASIC_BITS) = answer (syms ! i))"

section \<open>The syntax of a header\<close>

text \<open>Values that are only present after a flag.\<close>

definition optional :: "nat \<Rightarrow> nat list \<Rightarrow> u8 list option \<Rightarrow> vp8_symbol list" where
  "optional p ns x = (case x of
     None \<Rightarrow> [Bits 1 p 0]
   | Some vs \<Rightarrow> Bits 1 p 1 # map2 (\<lambda>n v. Bits n VP8_PROB_HALF v) ns vs)"

record vp8_segmentation_header =
  sh_quantizer :: "(u8 list option list \<times> u8 list option list \<times> u8) option"
  sh_map :: "u8 list option list option"

record vp8_header =
  hd_color_space :: u8
  hd_clamping_type :: u8
  hd_segmentation :: "vp8_segmentation_header option"
  hd_filter_type :: u8
  hd_level :: u8
  hd_sharpness :: u8
  hd_deltas :: "(u8 list option list \<times> u8 list option list) option option"
  hd_partitions :: u8
  hd_y_ac_qi :: u8
  hd_quant_deltas :: "u8 list option list"
  hd_golden :: "u8 option"
  hd_alt :: "u8 option"
  hd_sign_biases :: "u8 \<times> u8"
  hd_refresh_entropy :: u8
  hd_refresh_last :: u8
  hd_prob_skip :: "u8 list option"
  hd_prob_intra :: u8
  hd_prob_last :: u8
  hd_prob_gf :: u8
  hd_y_modes :: "u8 list option"
  hd_uv_modes :: "u8 list option"
  hd_mv_probs :: "u8 list option list list"

abbreviation lit :: "nat \<Rightarrow> u8 \<Rightarrow> vp8_symbol" where
  "lit n v \<equiv> Bits n VP8_PROB_HALF v"
abbreviation options :: "nat list \<Rightarrow> u8 list option list \<Rightarrow> vp8_symbol list" where
  "options ns xs \<equiv> concat (map (optional VP8_PROB_HALF ns) xs)"
abbreviation flag_bit :: "bool \<Rightarrow> u8" where
  "flag_bit b \<equiv> (if b then 1 else 0)"

text \<open>\<open>update_segmentation\<close>, \<open>mb_lf_adjustments\<close> and the reference part of the header.\<close>

definition segmentation_symbols :: "vp8_segmentation_header \<Rightarrow> vp8_symbol list" where
  "segmentation_symbols s =
    lit 1 (flag_bit (sh_map s \<noteq> None)) #
    (case sh_quantizer s of
       None \<Rightarrow> [lit 1 0]
     | Some (quant, lf, mode) \<Rightarrow> [lit 1 1, lit 1 mode] @ options [7, 1] quant @ options [6, 1] lf) @
    (case sh_map s of None \<Rightarrow> [] | Some probs \<Rightarrow> options [8] probs)"

definition delta_symbols :: "(u8 list option list \<times> u8 list option list) option \<Rightarrow> vp8_symbol list" where
  "delta_symbols d = (case d of
     None \<Rightarrow> [lit 1 0]
   | Some (refs, modes) \<Rightarrow> lit 1 1 # options [6, 1] refs @ options [6, 1] modes)"

definition reference_symbols :: "vp8_header \<Rightarrow> vp8_symbol list" where
  "reference_symbols h =
    [lit 1 (flag_bit (hd_golden h = None)), lit 1 (flag_bit (hd_alt h = None))] @
    (case hd_golden h of None \<Rightarrow> [] | Some copy \<Rightarrow> [lit 2 copy]) @
    (case hd_alt h of None \<Rightarrow> [] | Some copy \<Rightarrow> [lit 2 copy]) @
    [lit 1 (fst (hd_sign_biases h)), lit 1 (snd (hd_sign_biases h))]"

definition mv_symbols :: "u8 list option list list \<Rightarrow> vp8_symbol list" where
  "mv_symbols xss = concat (map (\<lambda>i. concat (map (\<lambda>j.
     optional (k_mv_entropy_update_probs ! i ! j) [7] (xss ! i ! j)) [0..<19])) [0..<2])"

definition start_symbols :: "bool \<Rightarrow> vp8_header \<Rightarrow> vp8_symbol list" where
  "start_symbols key h =
    (if key then [lit 1 (hd_color_space h), lit 1 (hd_clamping_type h)] else []) @
    (case hd_segmentation h of None \<Rightarrow> [lit 1 0] | Some s \<Rightarrow> lit 1 1 # segmentation_symbols s) @
    [lit 1 (hd_filter_type h), lit 6 (hd_level h), lit 3 (hd_sharpness h)] @
    (case hd_deltas h of None \<Rightarrow> [lit 1 0] | Some d \<Rightarrow> lit 1 1 # delta_symbols d) @
    [lit 2 (hd_partitions h), lit 7 (hd_y_ac_qi h)] @ options [4, 1] (hd_quant_deltas h) @
    (if \<not> key then reference_symbols h else []) @ [lit 1 (hd_refresh_entropy h)] @
    (if \<not> key then [lit 1 (hd_refresh_last h)] else [])"

definition end_symbols :: "bool \<Rightarrow> vp8_header \<Rightarrow> vp8_symbol list" where
  "end_symbols key h =
    optional VP8_PROB_HALF [8] (hd_prob_skip h) @
    (if \<not> key then [lit 8 (hd_prob_intra h), lit 8 (hd_prob_last h), lit 8 (hd_prob_gf h)] @
       optional VP8_PROB_HALF [8, 8, 8, 8] (hd_y_modes h) @ optional VP8_PROB_HALF [8, 8, 8] (hd_uv_modes h) @
       mv_symbols (hd_mv_probs h) else [])"

definition header_symbols :: "bool \<Rightarrow> vp8_header \<Rightarrow> vp8_symbol list" where
  "header_symbols key h = start_symbols key h @ [Coefs] @ end_symbols key h"

text \<open>The numbers of values the syntax fixes.\<close>

definition all_length :: "nat \<Rightarrow> u8 list option list \<Rightarrow> bool" where
  "all_length n xs \<longleftrightarrow> list_all (\<lambda>x. case x of None \<Rightarrow> True | Some vs \<Rightarrow> length vs = n) xs"

definition header_ok :: "vp8_header \<Rightarrow> bool" where
  "header_ok h \<longleftrightarrow>
    (case hd_segmentation h of None \<Rightarrow> True | Some s \<Rightarrow>
       (case sh_quantizer s of None \<Rightarrow> True | Some (quant, lf, mode) \<Rightarrow>
          length quant = 4 \<and> length lf = 4 \<and> all_length 2 quant \<and> all_length 2 lf) \<and>
       (case sh_map s of None \<Rightarrow> True | Some probs \<Rightarrow> length probs = 3 \<and> all_length 1 probs)) \<and>
    (case hd_deltas h of Some (Some (refs, modes)) \<Rightarrow>
       length refs = 4 \<and> length modes = 4 \<and> all_length 2 refs \<and> all_length 2 modes | _ \<Rightarrow> True) \<and>
    length (hd_quant_deltas h) = 5 \<and> all_length 2 (hd_quant_deltas h) \<and>
    all_length 1 [hd_prob_skip h] \<and> all_length 4 [hd_y_modes h] \<and> all_length 3 [hd_uv_modes h] \<and>
    length (hd_mv_probs h) = 2 \<and> list_all (\<lambda>xs. length xs = 19 \<and> all_length 1 xs) (hd_mv_probs h)"

section \<open>Code that consumes symbols\<close>

definition consumes :: "hw_read \<Rightarrow> vp8_symbol list \<Rightarrow> (io_log \<Rightarrow> io_log) \<Rightarrow> bool" where
  "consumes hw syms f \<longleftrightarrow>
    (\<forall>log rest. answers hw (syms @ rest) log \<longrightarrow> requests (f log) = requests log @ map shape syms)"

lemma requests_append [simp]: "requests (log @ es) = requests log @ concat (map request es)"
  by (simp add: requests_def)

lemma answers_rest:
  assumes "answers hw (syms @ rest) log" "requests log' = requests log @ map shape syms"
  shows "answers hw rest log'"
proof -
  have "ucast (hw l VE_H264_BASIC_BITS) = answer (rest ! i)"
    if l: "length (requests l) = length (requests log') + i + 1" "i < length rest" for l i
  proof -
    have "length (requests l) = length (requests log) + (length syms + i) + 1" using l(1) assms(2) by simp
    then have "ucast (hw l VE_H264_BASIC_BITS) = answer ((syms @ rest) ! (length syms + i))"
      using assms(1) l(2) unfolding answers_def by (metis add_less_cancel_left length_append)
    then show ?thesis by (simp add: nth_append)
  qed
  then show ?thesis unfolding answers_def by blast
qed

lemma consumes_seq:
  assumes "consumes hw s f" "consumes hw t g"
  shows "consumes hw (s @ t) (\<lambda>log. g (f log))"
  unfolding consumes_def
proof (intro allI impI)
  fix log rest assume a: "answers hw ((s @ t) @ rest) log"
  then have f: "requests (f log) = requests log @ map shape s"
    using assms(1) unfolding consumes_def by (metis append_assoc)
  moreover have "answers hw (t @ rest) (f log)" by (rule answers_rest[OF _ f]) (use a in simp)
  ultimately show "requests (g (f log)) = requests log @ map shape (s @ t)"
    using assms(2)[unfolded consumes_def, rule_format, of rest "f log"] by simp
qed

lemma consumes_id [simp]: "consumes hw [] (\<lambda>log. log)"
  by (simp add: consumes_def)

definition fits :: "nat \<Rightarrow> nat \<Rightarrow> bool" where
  "fits n p \<longleftrightarrow> 1 \<le> n \<and> n \<le> 8 \<and> p < 256"

lemma trigger_fields:
  assumes "fits n p"
  defines "v \<equiv> VE_H264_TRIGGER_TYPE_VP8_GET_BITS OR VE_H264_TRIGGER_TYPE_BIN_LENS (int n) OR
    VE_H264_TRIGGER_TYPE_PROBABILITY (int p)"
  shows "field 3 0 v = 15" "field 18 16 v = int n - 1" "field 31 24 v = int p"
proof -
  have n: "0 \<le> int n - 1" "int n - 1 < 2 ^ 3" and p: "int p < 2 ^ 8"
    using assms(1) by (simp_all add: fits_def)
  have fifteen: "bit (15 :: int) k \<longleftrightarrow> k < 4" for k
    using bit_mask_iff[of 4 k, where ?'a = int] by (simp add: mask_eq_exp_minus_1 numeral_eq_Suc)
  have "field 3 0 v = take_bit 4 15"
    using field_eq[of 0 3 v 15] by (simp add: v_def VE_H264_TRIGGER_TYPE_VP8_GET_BITS_def
      VE_H264_TRIGGER_TYPE_BIN_LENS_def VE_H264_TRIGGER_TYPE_PROBABILITY_def bit_or_iff bit_SHIFT_AND_MASK_BITS
      fifteen)
  then show "field 3 0 v = 15" by (simp add: take_bit_eq_mod)
  have "field 18 16 v = take_bit (18 + 1 - 16) (int n - 1)"
    by (rule field_eq) (auto simp: v_def VE_H264_TRIGGER_TYPE_VP8_GET_BITS_def VE_H264_TRIGGER_TYPE_BIN_LENS_def
      VE_H264_TRIGGER_TYPE_PROBABILITY_def bit_or_iff bit_SHIFT_AND_MASK_BITS fifteen)
  then show "field 18 16 v = int n - 1" using n by (simp add: take_bit_int_eq_self)
  have "field 31 24 v = take_bit (31 + 1 - 24) (int p)"
    by (rule field_eq) (auto simp: v_def VE_H264_TRIGGER_TYPE_VP8_GET_BITS_def VE_H264_TRIGGER_TYPE_BIN_LENS_def
      VE_H264_TRIGGER_TYPE_PROBABILITY_def bit_or_iff bit_SHIFT_AND_MASK_BITS fifteen)
  then show "field 31 24 v = int p" using p by (simp add: take_bit_int_eq_self)
qed

lemma read_bits_answer:
  assumes "answers hw (Bits n p v # rest) log" "fits n p"
  shows "\<exists>log'. read_bits hw n p log = (v, log') \<and> requests log' = requests log @ [Get_Bits (int n) (int p)]"
proof -
  let ?log = "log @ [Write VE_H264_TRIGGER_TYPE (VE_H264_TRIGGER_TYPE_VP8_GET_BITS OR
    VE_H264_TRIGGER_TYPE_BIN_LENS (int n) OR VE_H264_TRIGGER_TYPE_PROBABILITY (int p))] @
    [Poll VE_H264_STATUS VE_H264_STATUS_VLD_BUSY]"
  have r: "requests ?log = requests log @ [Get_Bits (int n) (int p)]"
    by (simp add: trigger_fields[OF assms(2)])
  then have "ucast (hw ?log VE_H264_BASIC_BITS) = answer ((Bits n p v # rest) ! 0)"
    using assms(1) unfolding answers_def by (metis (no_types, lifting) add.right_neutral length_append length_Cons
      length_greater_0_conv list.discI list.size(3) One_nat_def)
  then show ?thesis using r by (simp add: read_bits_def cedrus_write_def cedrus_poll_def cedrus_read_def)
qed

lemma consumes_bind:
  assumes "fits n p" "consumes hw s (f v)"
  shows "consumes hw (Bits n p v # s) (\<lambda>log. case read_bits hw n p log of (x, log) \<Rightarrow> f x log)"
  unfolding consumes_def
proof (intro allI impI)
  fix log rest assume a: "answers hw ((Bits n p v # s) @ rest) log"
  obtain log' where l: "read_bits hw n p log = (v, log')"
      "requests log' = requests log @ [Get_Bits (int n) (int p)]"
    using read_bits_answer[of hw n p v "s @ rest" log] a assms(1) by auto
  have "answers hw (s @ rest) log'"
    by (rule answers_rest[of hw "[Bits n p v]" _ log]) (use a l in simp_all)
  then show "requests (case read_bits hw n p log of (x, log) \<Rightarrow> f x log) =
      requests log @ map shape (Bits n p v # s)"
    using assms(2)[unfolded consumes_def, rule_format, of rest log'] l by simp
qed

lemma fits_half: "1 \<le> n \<Longrightarrow> n \<le> 8 \<Longrightarrow> fits n VP8_PROB_HALF"
  by (simp add: fits_def VP8_PROB_HALF_def)

lemma fits_flag: "fits 1 VP8_PROB_HALF"
  by (simp add: fits_half)

lemma consumes_drop: "1 \<le> n \<Longrightarrow> n \<le> 8 \<Longrightarrow> consumes hw [lit n v] (drop_bits hw n)"
  using consumes_bind[OF fits_half consumes_id, of n hw v] by (simp add: snd_def)

lemma consumes_if_flag:
  assumes "p < 256"
  shows "consumes hw [Bits 1 p 0] (if_flag hw p body)"
    and "consumes hw s body \<Longrightarrow> consumes hw (Bits 1 p 1 # s) (if_flag hw p body)"
proof -
  have f: "fits 1 p" using assms by (simp add: fits_def)
  show "consumes hw [Bits 1 p 0] (if_flag hw p body)"
    using consumes_bind[OF f, of hw "[]" "\<lambda>x log. if x \<noteq> 0 then body log else log" 0]
    by (simp add: if_flag_def[abs_def])
  show "consumes hw s body \<Longrightarrow> consumes hw (Bits 1 p 1 # s) (if_flag hw p body)"
    using consumes_bind[OF f, of hw s "\<lambda>x log. if x \<noteq> 0 then body log else log" 1]
    by (simp add: if_flag_def[abs_def])
qed

lemma consumes_fold:
  "(\<And>i. i \<in> set is \<Longrightarrow> consumes hw (s i) (f i)) \<Longrightarrow> consumes hw (concat (map s is)) (fold f is)"
proof (induction "is")
  case (Cons i l)
  then show ?case using consumes_seq[of hw "s i" "f i" "concat (map s l)" "fold f l"] by (simp add: comp_def)
qed (simp add: id_def)

lemma consumes_repeat:
  assumes "length xs = n" "\<And>x. x \<in> set xs \<Longrightarrow> consumes hw (s x) f"
  shows "consumes hw (concat (map s xs)) (repeat n f)"
proof -
  have "fold (\<lambda>_. f) xs = f ^^ length xs" by (induction xs) (simp_all add: funpow_swap1 fun_eq_iff)
  then show ?thesis using consumes_fold[of xs hw s "\<lambda>_. f"] assms by (simp add: repeat_def[abs_def])
qed

section \<open>The parts of the header\<close>

lemma half_prob: "VP8_PROB_HALF < 256"
  by (simp add: VP8_PROB_HALF_def)

lemma consumes_two:
  assumes "1 \<le> a" "a \<le> 8" "1 \<le> b" "b \<le> 8"
  shows "consumes hw [lit a v, lit b w] (\<lambda>log. drop_bits hw b (drop_bits hw a log))"
  using consumes_seq[OF consumes_drop[OF assms(1,2), of hw v] consumes_drop[OF assms(3,4), of hw w]] by simp

lemma all_length_mem: "all_length n xs \<Longrightarrow> x \<in> set xs \<Longrightarrow> x = Some vs \<Longrightarrow> length vs = n"
  by (auto simp: all_length_def list_all_iff split: option.splits)

lemma consumes_optional1:
  assumes "all_length 1 xs" "x \<in> set xs" "p < 256" "1 \<le> a" "a \<le> 8"
  shows "consumes hw (optional p [a] x) (if_flag hw p (drop_bits hw a))"
proof (cases x)
  case None
  then show ?thesis using consumes_if_flag(1)[OF assms(3)] by (simp add: optional_def)
next
  case (Some vs)
  then obtain v where "vs = [v]" using all_length_mem[OF assms(1,2)] by (auto simp: length_Suc_conv)
  then show ?thesis using consumes_if_flag(2)[OF assms(3) consumes_drop[OF assms(4,5)]] Some
    by (simp add: optional_def)
qed

lemma consumes_optional2:
  assumes "all_length 2 xs" "x \<in> set xs" "1 \<le> a" "a \<le> 8" "1 \<le> b" "b \<le> 8"
  shows "consumes hw (optional VP8_PROB_HALF [a, b] x)
    (if_flag hw VP8_PROB_HALF (\<lambda>log. drop_bits hw b (drop_bits hw a log)))"
proof (cases x)
  case None
  then show ?thesis using consumes_if_flag(1)[OF half_prob] by (simp add: optional_def)
next
  case (Some vs)
  then obtain v w where "vs = [v, w]"
    using all_length_mem[OF assms(1,2)] by (auto simp: length_Suc_conv numeral_2_eq_2)
  then show ?thesis using consumes_if_flag(2)[OF half_prob consumes_two[OF assms(3-6)]] Some
    by (simp add: optional_def)
qed

lemma consumes_optional_bytes:
  assumes "all_length n [x]"
  shows "consumes hw (optional VP8_PROB_HALF (replicate n 8) x) (if_flag hw VP8_PROB_HALF (repeat n (drop_bits hw 8)))"
proof (cases x)
  case None
  then show ?thesis using consumes_if_flag(1)[OF half_prob] by (simp add: optional_def)
next
  case (Some vs)
  then have l: "length vs = n" using all_length_mem[OF assms] by simp
  then have m: "map2 (\<lambda>n v. lit n v) (replicate n 8) vs = concat (map (\<lambda>v. [lit 8 v]) vs)"
    by (induction vs arbitrary: n) auto
  have "consumes hw (concat (map (\<lambda>v. [lit 8 v]) vs)) (repeat n (drop_bits hw 8))"
    by (rule consumes_repeat[OF l]) (simp add: consumes_drop)
  then show ?thesis using consumes_if_flag(2)[OF half_prob] Some m by (simp add: optional_def)
qed

lemma consumes_options:
  assumes "length xs = n" "all_length 2 xs" "1 \<le> a" "a \<le> 8"
  shows "consumes hw (options [a, 1] xs)
    (repeat n (if_flag hw VP8_PROB_HALF (\<lambda>log. drop_bits hw 1 (drop_bits hw a log))))"
  by (rule consumes_repeat[OF assms(1)]) (rule consumes_optional2[OF assms(2)], use assms in simp_all)

lemmas consumes_simps = Let_def case_prod_beta append_assoc append_Cons append_Nil

lemma consumes_deltas:
  assumes "case d of None \<Rightarrow> True | Some (refs, modes) \<Rightarrow>
    length refs = 4 \<and> length modes = 4 \<and> all_length 2 refs \<and> all_length 2 modes"
  shows "consumes hw (delta_symbols d) (process_ref_lf_delta_info hw)"
proof (cases d)
  case None
  then show ?thesis using consumes_if_flag(1)[OF half_prob]
    by (simp add: delta_symbols_def process_ref_lf_delta_info_def)
next
  case (Some rm)
  obtain refs modes where rm: "rm = (refs, modes)" by fastforce
  have "consumes hw (options [6, 1] refs @ options [6, 1] modes)
    (\<lambda>log. repeat 4 (if_flag hw VP8_PROB_HALF (\<lambda>log. drop_bits hw 1 (drop_bits hw 6 log)))
      (repeat 4 (if_flag hw VP8_PROB_HALF (\<lambda>log. drop_bits hw 1 (drop_bits hw 6 log))) log))"
    by (rule consumes_seq; rule consumes_options) (use assms Some rm in auto)
  then show ?thesis using consumes_if_flag(2)[OF half_prob] Some rm
    by (simp add: delta_symbols_def process_ref_lf_delta_info_def Let_def)
qed

lemma consumes_map:
  assumes "length probs = 3" "all_length 1 probs"
  shows "consumes hw (options [8] probs) (repeat 3 (if_flag hw VP8_PROB_HALF (drop_bits hw 8)))"
  by (rule consumes_repeat[OF assms(1)]) (rule consumes_optional1[OF assms(2)], simp_all add: half_prob)

lemma consumes_segmentation:
  assumes "case sh_quantizer s of None \<Rightarrow> True | Some (quant, lf, mode) \<Rightarrow>
      length quant = 4 \<and> length lf = 4 \<and> all_length 2 quant \<and> all_length 2 lf"
    and "case sh_map s of None \<Rightarrow> True | Some probs \<Rightarrow> length probs = 3 \<and> all_length 1 probs"
  shows "consumes hw (segmentation_symbols s) (process_segmentation_info hw)"
proof -
  let ?opt = "\<lambda>a. if_flag hw VP8_PROB_HALF (\<lambda>log. drop_bits hw 1 (drop_bits hw a log))"
  let ?data = "if_flag hw VP8_PROB_HALF (\<lambda>log. repeat 4 (?opt 6) (repeat 4 (?opt 7) (drop_bits hw 1 log)))"
  let ?qs = "case sh_quantizer s of None \<Rightarrow> [lit 1 0]
     | Some (quant, lf, mode) \<Rightarrow> [lit 1 1, lit 1 mode] @ options [7, 1] quant @ options [6, 1] lf"
  let ?ms = "case sh_map s of None \<Rightarrow> [] | Some probs \<Rightarrow> options [8] probs"
  let ?map = "\<lambda>x log. if x \<noteq> 0 then repeat 3 (if_flag hw VP8_PROB_HALF (drop_bits hw 8)) log else log"
  have q: "consumes hw ?qs ?data"
  proof (cases "sh_quantizer s")
    case None
    then show ?thesis using consumes_if_flag(1)[OF half_prob] by simp
  next
    case (Some x)
    obtain quant lf mode where x: "x = (quant, lf, mode)" by (cases x) auto
    have "consumes hw ([lit 1 mode] @ options [7, 1] quant @ options [6, 1] lf)
        (\<lambda>log. repeat 4 (?opt 6) (repeat 4 (?opt 7) (drop_bits hw 1 log)))"
      by (rule consumes_seq[OF consumes_drop consumes_seq]; (rule consumes_options)?) (use assms Some x in auto)
    then show ?thesis using consumes_if_flag(2)[OF half_prob] Some x by simp
  qed
  have m: "consumes hw ?ms (?map (flag_bit (sh_map s \<noteq> None)))"
    using consumes_map assms(2) by (cases "sh_map s") auto
  have "consumes hw (?qs @ ?ms) (\<lambda>log. ?map (flag_bit (sh_map s \<noteq> None)) (?data log))"
    by (rule consumes_seq[OF q m])
  from consumes_bind[where f = "\<lambda>x log. ?map x (?data log)", OF fits_flag this] show ?thesis
    by (simp add: segmentation_symbols_def process_segmentation_info_def[abs_def] Let_def case_prod_beta del: One_nat_def)
qed

lemma consumes_references:
  "consumes hw (reference_symbols h) (process_ref_frame_info hw)"
proof -
  let ?bit = "\<lambda>x. flag_bit (x = None)"
  let ?copy = "\<lambda>x log. if x = 0 then drop_bits hw 2 log else log"
  let ?cs = "\<lambda>x. case x of None \<Rightarrow> [] | Some copy \<Rightarrow> [lit 2 copy]"
  have c: "consumes hw (?cs x) (?copy (?bit x))" for x
    using consumes_drop[of 2] by (cases x) simp_all
  have "consumes hw (?cs (hd_golden h) @ ?cs (hd_alt h) @
      [lit 1 (fst (hd_sign_biases h)), lit 1 (snd (hd_sign_biases h))])
    (\<lambda>log. drop_bits hw 1 (drop_bits hw 1 (?copy (?bit (hd_alt h)) (?copy (?bit (hd_golden h)) log))))"
    by (rule consumes_seq[OF c consumes_seq[OF c consumes_two]]) simp_all
  then have "consumes hw (lit 1 (?bit (hd_alt h)) # ?cs (hd_golden h) @ ?cs (hd_alt h) @
      [lit 1 (fst (hd_sign_biases h)), lit 1 (snd (hd_sign_biases h))])
    (\<lambda>log. case read_bits hw 1 VP8_PROB_HALF log of (y, log) \<Rightarrow>
      drop_bits hw 1 (drop_bits hw 1 (?copy y (?copy (?bit (hd_golden h)) log))))"
    by (rule consumes_bind[where f = "\<lambda>y log. drop_bits hw 1 (drop_bits hw 1 (?copy y (?copy _ log)))", OF fits_flag, rotated 1])
  from consumes_bind[where f = "\<lambda>x log. case read_bits hw 1 VP8_PROB_HALF log of (y, log) \<Rightarrow>
      drop_bits hw 1 (drop_bits hw 1 (?copy y (?copy x log)))", OF fits_flag this]
  show ?thesis
    by (simp add: reference_symbols_def process_ref_frame_info_def[abs_def] Let_def case_prod_beta del: One_nat_def)
qed

lemma mv_prob_bound:
  assumes "i < 2" "j < 19"
  shows "k_mv_entropy_update_probs ! i ! j < 256"
proof -
  have "list_all (list_all (\<lambda>p. p < 256)) k_mv_entropy_update_probs" "length k_mv_entropy_update_probs = 2"
      "list_all (\<lambda>r. length r = 19) k_mv_entropy_update_probs" by code_simp+
  then show ?thesis using assms by (simp add: list_all_length)
qed

lemma consumes_mv:
  assumes "length xss = 2" "list_all (\<lambda>xs. length xs = 19 \<and> all_length 1 xs) xss"
  shows "consumes hw (mv_symbols xss) (read_mv_probs hw)"
proof -
  have row: "length (xss ! i) = 19" "all_length 1 (xss ! i)" if "i < 2" for i
    using that assms by (simp_all add: list_all_length)
  have mem: "xss ! i ! j \<in> set (xss ! i)" if "i < 2" "j < 19" for i j
    using that row[OF that(1)] by (intro nth_mem) simp
  have "consumes hw (mv_symbols xss)
      (fold (\<lambda>i. fold (\<lambda>j. if_flag hw (k_mv_entropy_update_probs ! i ! j) (drop_bits hw 7)) [0..<19]) [0..<2])"
    unfolding mv_symbols_def
    by (intro consumes_fold; rule consumes_optional1[OF row(2)]; (rule mem)?) (simp_all add: mv_prob_bound)
  then show ?thesis by (simp add: read_mv_probs_def[abs_def])
qed

section \<open>The whole header\<close>

lemma consumes_if:
  "(b \<Longrightarrow> consumes hw s f) \<Longrightarrow> consumes hw (if b then s else []) (\<lambda>log. if b then f log else log)"
  by (cases b) simp_all

lemma consumes_optional_part:
  assumes "\<And>y. x = Some y \<Longrightarrow> consumes hw (s y) f"
  shows "consumes hw (case x of None \<Rightarrow> [lit 1 0] | Some y \<Rightarrow> lit 1 1 # s y) (if_flag hw VP8_PROB_HALF f)"
  using consumes_if_flag[OF half_prob] assms by (cases x) simp_all

lemma consumes_three:
  assumes "1 \<le> a" "a \<le> 8" "1 \<le> b" "b \<le> 8" "1 \<le> c" "c \<le> 8"
  shows "consumes hw [lit a u, lit b v, lit c w] (\<lambda>log. drop_bits hw c (drop_bits hw b (drop_bits hw a log)))"
  using consumes_seq[OF consumes_two[OF assms(1-4), of hw u v] consumes_drop[OF assms(5,6), of hw w]] by simp

lemma consumes_start:
  assumes "header_ok h"
  shows "consumes hw (start_symbols key h) (read_header_start hw key)"
proof -
  have d1: "consumes hw [lit 1 v] (drop_bits hw 1)" for v by (rule consumes_drop) simp_all
  have two: "consumes hw [lit 1 v, lit 1 w] (\<lambda>log. drop_bits hw 1 (drop_bits hw 1 log))" for v w
    by (rule consumes_two) simp_all
  have qi: "consumes hw [lit 2 v, lit 7 w] (\<lambda>log. drop_bits hw 7 (drop_bits hw 2 log))" for v w
    by (rule consumes_two) simp_all
  have lf: "consumes hw [lit 1 u, lit 6 v, lit 3 w]
      (\<lambda>log. drop_bits hw 3 (drop_bits hw 6 (drop_bits hw 1 log)))" for u v w
    by (rule consumes_three) simp_all
  have seg: "consumes hw (case hd_segmentation h of None \<Rightarrow> [lit 1 0] | Some s \<Rightarrow> lit 1 1 # segmentation_symbols s)
      (if_flag hw VP8_PROB_HALF (process_segmentation_info hw))"
    by (rule consumes_optional_part, rule consumes_segmentation) (use assms in \<open>simp_all add: header_ok_def\<close>)
  have del: "consumes hw (case hd_deltas h of None \<Rightarrow> [lit 1 0] | Some d \<Rightarrow> lit 1 1 # delta_symbols d)
      (if_flag hw VP8_PROB_HALF (process_ref_lf_delta_info hw))"
    by (rule consumes_optional_part, rule consumes_deltas)
      (use assms in \<open>auto simp: header_ok_def split: option.splits\<close>)
  have q: "consumes hw (options [4, 1] (hd_quant_deltas h)) (repeat QUANT_DELTA_COUNT (get_delta_q hw))"
    unfolding get_delta_q_def Let_def
    by (rule consumes_options) (use assms in \<open>simp_all add: header_ok_def QUANT_DELTA_COUNT_def\<close>)
  note chain = consumes_seq[OF consumes_if consumes_seq[OF seg consumes_seq[OF lf consumes_seq[OF del
    consumes_seq[OF qi consumes_seq[OF q consumes_seq[OF consumes_if consumes_seq[OF d1 consumes_if]]]]]]]]
  show ?thesis
    unfolding start_symbols_def read_header_start_def[abs_def] Let_def
    by (rule chain) (simp_all only: two d1 consumes_references)
qed

lemma consumes_end:
  assumes "header_ok h"
  shows "consumes hw (end_symbols key h) (read_header_end hw key)"
proof -
  have skip: "consumes hw (optional VP8_PROB_HALF [8] (hd_prob_skip h)) (if_flag hw VP8_PROB_HALF (drop_bits hw 8))"
    by (rule consumes_optional1[where xs = "[hd_prob_skip h]"])
      (use assms in \<open>simp_all add: header_ok_def half_prob\<close>)
  have probs: "consumes hw [lit 8 u, lit 8 v, lit 8 w]
      (\<lambda>log. drop_bits hw 8 (drop_bits hw 8 (drop_bits hw 8 log)))" for u v w
    by (rule consumes_three) simp_all
  have y: "consumes hw (optional VP8_PROB_HALF [8, 8, 8, 8] (hd_y_modes h))
      (if_flag hw VP8_PROB_HALF (repeat 4 (drop_bits hw 8)))"
    using consumes_optional_bytes[of 4 "hd_y_modes h"] assms by (simp add: header_ok_def numeral_eq_Suc)
  have uv: "consumes hw (optional VP8_PROB_HALF [8, 8, 8] (hd_uv_modes h))
      (if_flag hw VP8_PROB_HALF (repeat 3 (drop_bits hw 8)))"
    using consumes_optional_bytes[of 3 "hd_uv_modes h"] assms by (simp add: header_ok_def numeral_eq_Suc)
  have mv: "consumes hw (mv_symbols (hd_mv_probs h)) (read_mv_probs hw)"
    by (rule consumes_mv) (use assms in \<open>simp_all add: header_ok_def\<close>)
  show ?thesis
    unfolding end_symbols_def read_header_end_def[abs_def] Let_def
    by (rule consumes_seq[OF skip consumes_if]) (rule consumes_seq[OF probs consumes_seq[OF y consumes_seq[OF uv mv]]])
qed

lemma consumes_coefs: "consumes hw [Coefs] read_header_update_coef"
proof -
  have "field 3 0 VE_H264_TRIGGER_TYPE_VP8_UPDATE_COEF = 14" by code_simp
  moreover have "VE_H264_STATUS \<noteq> VE_H264_TRIGGER_TYPE" by code_simp
  ultimately show ?thesis
    by (simp add: consumes_def read_header_update_coef_def cedrus_write_def cedrus_poll_def)
qed

text \<open>C10: With hardware that answers the symbols of a header of RFC 6386 in their order, parsing the header
  asks for exactly these symbols: every field of the syntax with its width and its probability, the
  optional ones when their flag is set, and the update of the coefficient probabilities at its place.\<close>

theorem vp8_header_syntax:
  assumes "header_ok h" "answers hw (header_symbols (vp8_is_key_frame frame) h) log"
  shows "requests (cedrus_read_header hw frame log) =
    requests log @ map shape (header_symbols (vp8_is_key_frame frame) h)"
proof -
  have "consumes hw (header_symbols (vp8_is_key_frame frame) h) (cedrus_read_header hw frame)"
    unfolding header_symbols_def cedrus_read_header_def[abs_def] Let_def
    by (intro consumes_seq consumes_start consumes_end consumes_coefs assms(1))
  then show ?thesis using assms(2) unfolding consumes_def by (metis append_Nil2)
qed

section \<open>A header of an inter frame\<close>

text \<open>Hardware that reads the symbols from a list.\<close>

definition scripted :: "vp8_symbol list \<Rightarrow> io_log \<Rightarrow> hw_read" where
  "scripted syms log log' reg = (if reg = VE_H264_BASIC_BITS
     then ucast (answer (syms ! (length (requests log') - length (requests log) - 1))) else 0)"

lemma scripted_answers: "answers (scripted syms log) syms log"
proof -
  have "ucast (ucast v :: u32) = v" for v :: u8
    by (rule bit_word_eqI) (simp add: bit_simps)
  then show ?thesis by (simp add: answers_def scripted_def)
qed

definition ex_vp8_header :: vp8_header where
  "ex_vp8_header = \<lparr>hd_color_space = 0, hd_clamping_type = 0,
     hd_segmentation = Some \<lparr>
       sh_quantizer = Some ([Some [12, 0], None, Some [3, 1], None], [None, None, None, Some [5, 0]], 1),
       sh_map = Some [Some [200], None, Some [17]]\<rparr>,
     hd_filter_type = 1, hd_level = 33, hd_sharpness = 5,
     hd_deltas = Some (Some ([Some [2, 0], None, None, Some [2, 1]], [None, Some [4, 1], None, None])),
     hd_partitions = 2, hd_y_ac_qi = 77, hd_quant_deltas = [None, Some [3, 1], None, None, Some [1, 0]],
     hd_golden = Some 1, hd_alt = None, hd_sign_biases = (1, 0), hd_refresh_entropy = 1, hd_refresh_last = 1,
     hd_prob_skip = Some [240], hd_prob_intra = 63, hd_prob_last = 255, hd_prob_gf = 128,
     hd_y_modes = Some [112, 86, 140, 37], hd_uv_modes = None,
     hd_mv_probs = [Some [81] # replicate 18 None, replicate 17 None @ [Some [3], Some [127]]]\<rparr>"

definition ex_vp8_frame :: vp8_frame where
  "ex_vp8_frame = \<lparr>
     v8_segment = \<lparr>quant_update = [12, 0, -3, 0], lf_update = [0, 0, 0, 5], segment_probs = [200, 255, 17],
       vs_flags = {VP8_SEGMENT_FLAG_ENABLED, VP8_SEGMENT_FLAG_UPDATE_MAP}\<rparr>,
     v8_lf = \<lparr>ref_frm_delta = [2, 0, 0, -2], mb_mode_delta = [0, -4, 0, 0], sharpness_level = 5, vl_level = 33,
       vl_flags = {VP8_LF_ADJ_ENABLE, VP8_LF_FILTER_TYPE_SIMPLE}\<rparr>,
     v8_quant = \<lparr>y_ac_qi = 77, y_dc_delta = 0, y2_dc_delta = -3, y2_ac_delta = 0, uv_dc_delta = 0, uv_ac_delta = 1\<rparr>,
     v8_entropy = \<lparr>coeff_probs = replicate 4 (replicate 8 (replicate 3 (replicate 11 128))),
       y_mode_probs = [112, 86, 140, 37], uv_mode_probs = [162, 101, 204],
       mv_probs = [replicate 19 162, replicate 19 164]\<rparr>,
     v8_width = 176, v8_height = 144, v8_version = 0, prob_skip_false = 240, prob_intra = 63, prob_last = 255,
     prob_gf = 128, num_dct_parts = 4, first_part_size = 1200, v8_last_frame_ts = 1000, v8_golden_frame_ts = 0,
     v8_alt_frame_ts = 0, v8_flags = {VP8_FRAME_FLAG_SHOW_FRAME, VP8_FRAME_FLAG_MB_NO_SKIP_COEFF}\<rparr>"

lemma ex_vp8_header_ok: "header_ok ex_vp8_header" "\<not> vp8_is_key_frame ex_vp8_frame"
  by code_simp+

theorem vp8_header_syntax_witness:
  "let syms = header_symbols False ex_vp8_header
   in requests (cedrus_read_header (scripted syms []) ex_vp8_frame []) = map shape syms"
  using vp8_header_syntax[OF ex_vp8_header_ok(1), of "scripted (header_symbols False ex_vp8_header) []" ex_vp8_frame "[]"]
    scripted_answers ex_vp8_header_ok(2)
  by (simp add: Let_def requests_def)

end
