(* ===== verification/Vp8_Dec_Session.thy ===== *)
theory Vp8_Dec_Session
  imports Vp8_Dec_Header
begin

text \<open>Contexts of the VP8 decoder over their life: the memory with the probabilities and the constants of
  the hardware, and what the picture parameters say of the frame before.\<close>

text \<open>The dimensions the types of the control fix.\<close>

definition vp8_frame_ok :: "vp8_frame \<Rightarrow> bool" where
  "vp8_frame_ok frame \<longleftrightarrow>
    length (y_mode_probs (v8_entropy frame)) = 4 \<and> length (uv_mode_probs (v8_entropy frame)) = 3 \<and>
    length (segment_probs (v8_segment frame)) = 3 \<and>
    arr 2 (\<lambda>_. arr 19 (\<lambda>_ _. True)) (mv_probs (v8_entropy frame)) \<and>
    arr 4 (\<lambda>_. arr 8 (\<lambda>_. arr 3 (\<lambda>_. arr 11 (\<lambda>_ _. True)))) (coeff_probs (v8_entropy frame))"

text \<open>The probabilities, where the hardware looks for them.\<close>

definition holds_probs :: "vp8_frame \<Rightarrow> (nat \<Rightarrow> u8) \<Rightarrow> bool" where
  "holds_probs frame mem \<longleftrightarrow>
    (\<forall>i<4. mem (0x1008 + i) = y_mode_probs (v8_entropy frame) ! i) \<and>
    (\<forall>i<3. mem (0x1010 + i) = uv_mode_probs (v8_entropy frame) ! i) \<and>
    (\<forall>i<3. mem (0x1018 + i) = segment_probs (v8_segment frame) ! i) \<and>
    map mem [0x101c..<0x1020] = [prob_skip_false frame, prob_intra frame, prob_last frame, prob_gf frame] \<and>
    (\<forall>c<2. \<forall>i<19. mem (0x1020 + 32 * c + i) = mv_probs (v8_entropy frame) ! c ! i) \<and>
    (\<forall>i<4. \<forall>j<8. \<forall>k<3. \<forall>l<11. mem (512 * i + 64 * j + 16 * k + l) = coeff_probs (v8_entropy frame) ! i ! j ! k ! l)"

text \<open>The constants: the defaults of the coefficients' updates, and the trees and tables behind the modes.\<close>

definition holds_constants :: "(nat \<Rightarrow> u8) \<Rightarrow> bool" where
  "holds_constants mem \<longleftrightarrow>
    (\<forall>k<2056. mem (2048 + k) = prob_table_init ! k) \<and>
    (\<forall>k. 2144 \<le> k \<longrightarrow> k < 2480 \<longrightarrow> mem (2048 + k) = prob_table_init ! k) \<and>
    (\<forall>a\<ge>4528. mem a = 0)"

lemma coef_position:
  assumes "j < 8" "k < 3" "l < 11" "j' < 8" "k' < 3" "n \<le> 11"
    and "\<not> (i * 512 + j * 64 + k * 16 + l < i' * 512 + j' * 64 + k' * 16 \<or>
      i' * 512 + j' * 64 + k' * 16 + n \<le> i * 512 + j * 64 + k * 16 + (l :: nat))"
  shows "i = i' \<and> j = j' \<and> k = k'"
proof -
  have "i * 32 + j * 4 + k = i' * 32 + j' * 4 + k'" using assms by linarith
  moreover from this have "k = k'" using assms(2,5) by presburger
  ultimately have "i * 8 + j = i' * 8 + j'" by linarith
  then have "j = j'" using assms(1,4) by presburger
  then show ?thesis using \<open>i * 8 + j = i' * 8 + j'\<close> \<open>k = k'\<close> by simp
qed

definition mode_blocks :: "vp8_frame \<Rightarrow> (nat \<times> u8 list) list" where
  "mode_blocks frame = take 9 (vp8_prob_blocks frame)"

lemma blocks_cases:
  "set (vp8_prob_blocks frame) = set (mode_blocks frame) \<union>
    {(i * 512 + j * 64 + k * 16, coeff_probs (v8_entropy frame) ! i ! j ! k) |i j k. i < 4 \<and> j < 8 \<and> k < 3}"
proof -
  let ?b = "\<lambda>i j k. (i * 512 + j * 64 + k * 16, coeff_probs (v8_entropy frame) ! i ! j ! k)"
  have "vp8_prob_blocks frame = mode_blocks frame @ [?b i j k. i \<leftarrow> [0..<4], j \<leftarrow> [0..<8], k \<leftarrow> [0..<3]]"
    by (simp add: vp8_prob_blocks_def mode_blocks_def Let_def)
  moreover have "x \<in> set [?b i j k. i \<leftarrow> [0..<4], j \<leftarrow> [0..<8], k \<leftarrow> [0..<3]] \<longleftrightarrow>
      (\<exists>i j k. x = ?b i j k \<and> i < 4 \<and> j < 8 \<and> k < 3)" for x
    by (simp, simp only: image_iff Bex_def atLeastLessThan_iff) auto
  ultimately show ?thesis by (simp add: set_eq_iff)
qed

lemma frame_lengths:
  assumes "vp8_frame_ok frame"
  shows "length (y_mode_probs (v8_entropy frame)) = 4" "length (uv_mode_probs (v8_entropy frame)) = 3"
    "length (segment_probs (v8_segment frame)) = 3"
    "c < 2 \<Longrightarrow> length (mv_probs (v8_entropy frame) ! c) = 19"
    "i < 4 \<Longrightarrow> j < 8 \<Longrightarrow> k < 3 \<Longrightarrow> length (coeff_probs (v8_entropy frame) ! i ! j ! k) = 11"
  using assms unfolding vp8_frame_ok_def by (auto simp: arr_iff)

lemma mode_blocks_fit:
  assumes "vp8_frame_ok frame" "(p, b) \<in> set (mode_blocks frame)"
  shows "0x1008 \<le> p \<and> p + length b \<le> 0x1053"
  using assms(2) frame_lengths[OF assms(1)] by (auto simp: mode_blocks_def vp8_prob_blocks_def Let_def)

lemma mode_blocks_apart:
  assumes "vp8_frame_ok frame" "(p, b) \<in> set (mode_blocks frame)" "(q, c) \<in> set (mode_blocks frame)" "k < length c"
  shows "(p, b) = (q, c) \<or> q + k < p \<or> p + length b \<le> q + k"
  using assms(2-4) frame_lengths[OF assms(1)] by (auto simp: mode_blocks_def vp8_prob_blocks_def Let_def)

lemma blocks_apart:
  assumes "vp8_frame_ok frame" "(p, b) \<in> set (vp8_prob_blocks frame)" "(q, c) \<in> set (vp8_prob_blocks frame)"
    "k < length c"
  shows "(p, b) = (q, c) \<or> q + k < p \<or> p + length b \<le> q + k"
proof -
  note len = frame_lengths(5)[OF assms(1)]
  consider (mm) "(p, b) \<in> set (mode_blocks frame)" "(q, c) \<in> set (mode_blocks frame)"
    | (mc) i j k' where "(p, b) \<in> set (mode_blocks frame)" "i < 4" "j < 8" "k' < 3"
        "q = i * 512 + j * 64 + k' * 16" "length c = 11"
    | (cm) i j k' where "(q, c) \<in> set (mode_blocks frame)" "i < 4" "j < 8" "k' < 3"
        "p = i * 512 + j * 64 + k' * 16" "length b = 11"
    | (cc) i j k' i' j' k'' where "i < 4" "j < 8" "k' < 3" "i' < 4" "j' < 8" "k'' < 3"
        "p = i' * 512 + j' * 64 + k'' * 16" "b = coeff_probs (v8_entropy frame) ! i' ! j' ! k''"
        "q = i * 512 + j * 64 + k' * 16" "c = coeff_probs (v8_entropy frame) ! i ! j ! k'"
    using assms(2,3) len unfolding blocks_cases by blast
  then show ?thesis
  proof cases
    case mm
    then show ?thesis by (rule mode_blocks_apart[OF assms(1) _ _ assms(4)])
  next
    case mc
    then show ?thesis using mode_blocks_fit[OF assms(1), of p b] assms(4) by linarith
  next
    case cm
    then show ?thesis using mode_blocks_fit[OF assms(1), of q c] by linarith
  next
    case cc
    show ?thesis
    proof (cases "q + k < p \<or> p + length b \<le> q + k")
      case False
      have "i = i' \<and> j = j' \<and> k' = k''"
        by (rule coef_position[of j k' k j' k'' "length b" i i']) (use cc assms(4) len False in simp_all)
      then show ?thesis using cc by simp
    qed blast
  qed
qed

lemma update_probs_at:
  assumes "vp8_frame_ok frame" "(at, bs) \<in> set (vp8_prob_blocks frame)" "k < length bs"
  shows "cedrus_vp8_update_probs frame mem (at + k) = bs ! k"
  unfolding cedrus_vp8_update_probs_def
  by (rule put_blocks_at[OF assms(2,3)]) (rule blocks_apart[OF assms(1) _ assms(2,3)])

lemma update_probs_constants:
  assumes "vp8_frame_ok frame" "2048 \<le> a" "a < 0x1008 \<or> 0x1060 \<le> a"
  shows "cedrus_vp8_update_probs frame mem a = mem a"
  unfolding cedrus_vp8_update_probs_def
proof (rule put_blocks_out)
  fix p b assume "(p, b) \<in> set (vp8_prob_blocks frame)"
  then consider "(p, b) \<in> set (mode_blocks frame)" | "p + 16 \<le> 2048" "length b = 11"
    using frame_lengths(5)[OF assms(1)] unfolding blocks_cases by fastforce
  then show "a < p \<or> p + length b \<le> a"
    by cases (use mode_blocks_fit[OF assms(1), of p b] assms(2,3) in linarith)+
qed

lemma mode_blocks_mem:
  "(0x1008, y_mode_probs (v8_entropy frame)) \<in> set (vp8_prob_blocks frame)"
  "(0x1010, uv_mode_probs (v8_entropy frame)) \<in> set (vp8_prob_blocks frame)"
  "(0x1018, segment_probs (v8_segment frame)) \<in> set (vp8_prob_blocks frame)"
  "(0x101c, [prob_skip_false frame]) \<in> set (vp8_prob_blocks frame)"
  "(0x101d, [prob_intra frame]) \<in> set (vp8_prob_blocks frame)"
  "(0x101e, [prob_last frame]) \<in> set (vp8_prob_blocks frame)"
  "(0x101f, [prob_gf frame]) \<in> set (vp8_prob_blocks frame)"
  "c < 2 \<Longrightarrow> (0x1020 + 32 * c, mv_probs (v8_entropy frame) ! c) \<in> set (vp8_prob_blocks frame)"
  unfolding blocks_cases by (auto simp: mode_blocks_def vp8_prob_blocks_def Let_def less_2_cases_iff)

lemma update_probs_holds:
  assumes "vp8_frame_ok frame"
  shows "holds_probs frame (cedrus_vp8_update_probs frame mem)"
proof -
  note at = update_probs_at[OF assms] and len = frame_lengths[OF assms]
  let ?mem = "cedrus_vp8_update_probs frame mem"
  have one: "?mem 0x101c = prob_skip_false frame" "?mem 0x101d = prob_intra frame"
    "?mem 0x101e = prob_last frame" "?mem 0x101f = prob_gf frame"
    using at[OF mode_blocks_mem(4), of 0] at[OF mode_blocks_mem(5), of 0] at[OF mode_blocks_mem(6), of 0]
      at[OF mode_blocks_mem(7), of 0] by simp_all
  have four: "[0x101c..<0x1020] = [0x101c, 0x101d, 0x101e, 0x101f :: nat]" by code_simp
  have coef: "?mem (512 * i + 64 * j + 16 * k + l) = coeff_probs (v8_entropy frame) ! i ! j ! k ! l"
    if "i < 4" "j < 8" "k < 3" "l < 11" for i j k l
  proof -
    have "(i * 512 + j * 64 + k * 16, coeff_probs (v8_entropy frame) ! i ! j ! k) \<in> set (vp8_prob_blocks frame)"
      using that unfolding blocks_cases by blast
    from at[OF this, of l] show ?thesis using that len(5) by (simp add: ac_simps)
  qed
  show ?thesis
    unfolding holds_probs_def four
    using at[OF mode_blocks_mem(1)] at[OF mode_blocks_mem(2)] at[OF mode_blocks_mem(3)]
      at[OF mode_blocks_mem(8)] len one coef by simp
qed

lemma update_probs_keeps:
  assumes "vp8_frame_ok frame" "holds_constants mem"
  shows "holds_constants (cedrus_vp8_update_probs frame mem)"
  using assms(2) unfolding holds_constants_def by (simp add: update_probs_constants[OF assms(1)])

section \<open>A session\<close>

text \<open>Jobs of a context: the coded data, the control, the index of the picture and the pictures of the
  queue.\<close>

type_synonym vp8_run = "(u64 \<times> u32) \<times> vp8_frame \<times> nat \<times> unit picture list"

fun vp8_session :: "hw_read \<Rightarrow> unit picture_find \<Rightarrow> pix_format \<Rightarrow> vp8_run list \<Rightarrow> vp8_context \<times> io_log \<Rightarrow>
    vp8_context \<times> io_log" where
  "vp8_session hw lookup pix [] s = s"
| "vp8_session hw lookup pix ((stream, frame, cur, pics) # jobs) (ctx, log) =
    (case cedrus_dec_vp8_job_configure hw lookup pix stream frame cur pics ctx log of
       (_, ctx, log) \<Rightarrow> vp8_session hw lookup pix jobs (ctx, cedrus_dec_vp8_job_trigger log))"

lemma vp8_session_append:
  "vp8_session hw lookup pix (js @ ks) s = vp8_session hw lookup pix ks (vp8_session hw lookup pix js s)"
  by (induction hw lookup pix js s rule: vp8_session.induct) (simp_all split: prod.splits)

abbreviation run_frame :: "vp8_run \<Rightarrow> vp8_frame" where
  "run_frame j \<equiv> fst (snd j)"

text \<open>What a job makes of the context.\<close>

definition vp8_next :: "vp8_frame \<Rightarrow> vp8_context \<Rightarrow> vp8_context" where
  "vp8_next frame ctx =
    vp8_remember frame (ctx\<lparr>entropy_probs_buf := cedrus_vp8_update_probs frame (entropy_probs_buf ctx)\<rparr>)"

lemma vp8_session_ctx:
  "fst (vp8_session hw lookup pix js s) = fold (\<lambda>j. vp8_next (run_frame j)) js (fst s)"
  by (induction hw lookup pix js s rule: vp8_session.induct)
    (simp_all add: cedrus_dec_vp8_job_configure_def Let_def vp8_next_def)

lemma vp8_next_simps [simp]:
  "entropy_probs_buf (vp8_next frame ctx) = cedrus_vp8_update_probs frame (entropy_probs_buf ctx)"
  "entropy_probs_buf_dma (vp8_next frame ctx) = entropy_probs_buf_dma ctx"
  by (simp_all add: vp8_next_def vp8_remember_def)

lemma session_image:
  assumes "list_all vp8_frame_ok fs" "holds_constants (entropy_probs_buf ctx)"
  defines "ctx' \<equiv> fold vp8_next fs ctx"
  shows "holds_constants (entropy_probs_buf ctx') \<and> (fs \<noteq> [] \<longrightarrow> holds_probs (last fs) (entropy_probs_buf ctx')) \<and>
    entropy_probs_buf_dma ctx' = entropy_probs_buf_dma ctx"
  unfolding ctx'_def using assms(1)
  by (induction fs rule: rev_induct) (use assms(2) in \<open>simp_all add: update_probs_keeps update_probs_holds\<close>)

lemma setup_cases:
  assumes "cedrus_dec_vp8_setup alloc ctx heap = (None, ctx', heap')"
  obtains addr where "ctx' = ctx\<lparr>entropy_probs_buf := put_block 2048 prob_table_init (\<lambda>_. 0),
      entropy_probs_buf_dma := Some addr\<rparr>"
    "heap' = (addr, CEDRUS_DEC_VP8_ENTROPY_PROBS_SIZE) # heap"
  using assms by (auto simp: cedrus_dec_vp8_setup_def split: option.splits)

lemma setup_constants: "holds_constants (put_block 2048 prob_table_init (\<lambda>_. 0))"
  by (simp add: holds_constants_def put_block_def length_prob_table_init)

text \<open>C13: From a successful setup through any frames, the memory of the hardware holds the constants
  setup put there, and the probabilities of the last frame, each at its place; nothing is written behind
  the constants, which is inside the allocation, and cleanup gives the allocation back.\<close>

theorem vp8_probs_image:
  assumes "cedrus_dec_vp8_setup alloc vp8_context_init heap = (None, ctx, heap')"
    and "\<forall>j\<in>set js. vp8_frame_ok (run_frame j)" "js \<noteq> []"
  shows "let ctx' = fst (vp8_session hw lookup pix js (ctx, log))
    in holds_constants (entropy_probs_buf ctx') \<and>
      holds_probs (run_frame (last js)) (entropy_probs_buf ctx') \<and>
      cedrus_dec_vp8_cleanup ctx' heap' = heap"
proof -
  define ctx' where "ctx' = fst (vp8_session hw lookup pix js (ctx, log))"
  obtain addr where s: "ctx = vp8_context_init\<lparr>entropy_probs_buf := put_block 2048 prob_table_init (\<lambda>_. 0),
      entropy_probs_buf_dma := Some addr\<rparr>"
    "heap' = (addr, CEDRUS_DEC_VP8_ENTROPY_PROBS_SIZE) # heap"
    by (rule setup_cases[OF assms(1)])
  have c: "ctx' = fold vp8_next (map run_frame js) ctx"
    by (simp add: ctx'_def vp8_session_ctx fold_map comp_def)
  have "list_all vp8_frame_ok (map run_frame js)" using assms(2) by (simp add: list_all_iff)
  moreover have "holds_constants (entropy_probs_buf ctx)" using setup_constants s(1) by simp
  ultimately have "holds_constants (entropy_probs_buf ctx')" "holds_probs (run_frame (last js)) (entropy_probs_buf ctx')"
      "entropy_probs_buf_dma ctx' = Some addr"
    using session_image[of "map run_frame js" ctx] assms(3) s(1) by (simp_all add: c last_map)
  moreover from this(3) have "cedrus_dec_vp8_cleanup ctx' heap' = heap"
    by (simp add: cedrus_dec_vp8_cleanup_def dma_free_def s(2))
  ultimately show ?thesis unfolding ctx'_def[symmetric] Let_def by blast
qed

section \<open>What the hardware is told of the frame before\<close>

text \<open>Parsing a header writes the trigger and the status register only.\<close>

definition leaves :: "u32 \<Rightarrow> (io_log \<Rightarrow> io_log) \<Rightarrow> bool" where
  "leaves r f \<longleftrightarrow> (\<forall>log. last_write r (f log) = last_write r log)"

lemma leavesD: "leaves r f \<Longrightarrow> last_write r (f log) = last_write r log"
  by (simp add: leaves_def)

lemma leaves_seq: "leaves r f \<Longrightarrow> leaves r g \<Longrightarrow> leaves r (\<lambda>log. g (f log))"
  by (simp add: leaves_def)

lemma leaves_if: "leaves r f \<Longrightarrow> leaves r (\<lambda>log. if b then f log else log)"
  by (simp add: leaves_def)

lemma leaves_fold: "(\<And>i. i \<in> set is \<Longrightarrow> leaves r (f i)) \<Longrightarrow> leaves r (fold f is)"
  unfolding leaves_def by (induction "is") simp_all

lemma leaves_repeat: "leaves r f \<Longrightarrow> leaves r (repeat n f)"
  unfolding leaves_def repeat_def[abs_def] by (induction n) simp_all

lemma leaves_read:
  assumes "r \<noteq> VE_H264_TRIGGER_TYPE" "r \<noteq> VE_H264_STATUS"
  shows "last_write r (snd (read_bits hw n p log)) = last_write r log"
  using assms by (simp add: read_bits_def Let_def)

lemma leaves_if_flag:
  assumes "r \<noteq> VE_H264_TRIGGER_TYPE" "r \<noteq> VE_H264_STATUS" "leaves r body"
  shows "leaves r (if_flag hw p body)"
  using leaves_read[OF assms(1,2)] assms(3)
  by (simp add: leaves_def if_flag_def[abs_def] case_prod_beta)

lemma leaves_header:
  assumes "r \<noteq> VE_H264_TRIGGER_TYPE" "r \<noteq> VE_H264_STATUS"
  shows "last_write r (cedrus_read_header hw frame log) = last_write r log"
proof -
  note read = leaves_read[OF assms] and flag = leaves_if_flag[OF assms]
  have drop: "leaves r (drop_bits hw n)" for n using read by (simp add: leaves_def)
  have two: "leaves r (\<lambda>log. drop_bits hw n (drop_bits hw m log))" for n m
    by (rule leaves_seq[OF drop drop])
  have opt: "leaves r (repeat k (if_flag hw VP8_PROB_HALF (\<lambda>log. drop_bits hw n (drop_bits hw m log))))" for k n m
    by (rule leaves_repeat[OF flag[OF two]])
  have bytes: "leaves r (repeat k (drop_bits hw n))" for k n by (rule leaves_repeat[OF drop])
  have flags: "leaves r (repeat k (if_flag hw VP8_PROB_HALF (drop_bits hw n)))" for k n
    by (rule leaves_repeat[OF flag[OF drop]])
  have segdata: "leaves r (if_flag hw VP8_PROB_HALF (\<lambda>log.
      repeat 4 (if_flag hw VP8_PROB_HALF (\<lambda>log. drop_bits hw 1 (drop_bits hw 6 log)))
        (repeat 4 (if_flag hw VP8_PROB_HALF (\<lambda>log. drop_bits hw 1 (drop_bits hw 7 log))) (drop_bits hw 1 log))))"
    by (rule flag, rule leaves_seq[OF drop leaves_seq[OF opt opt]])
  have seg: "leaves r (process_segmentation_info hw)"
    unfolding leaves_def process_segmentation_info_def Let_def case_prod_beta
    using segdata flags read by (simp add: leaves_def)
  have deltas: "leaves r (process_ref_lf_delta_info hw)"
    unfolding process_ref_lf_delta_info_def Let_def by (rule flag, rule leaves_seq[OF opt opt])
  have refs: "leaves r (process_ref_frame_info hw)"
    unfolding leaves_def process_ref_frame_info_def Let_def case_prod_beta using read by simp
  have mv: "leaves r (read_mv_probs hw)"
    unfolding read_mv_probs_def[abs_def] by (intro leaves_fold flag drop)
  have q: "leaves r (repeat k (get_delta_q hw))" for k
    unfolding get_delta_q_def Let_def by (rule opt)
  have s: "last_write r (read_header_start hw key l) = last_write r l" for key l
    unfolding read_header_start_def Let_def
    by (simp add: read leavesD[OF flag[OF seg]] leavesD[OF flag[OF deltas]] leavesD[OF q] leavesD[OF refs])
  have u: "last_write r (read_header_update_coef l) = last_write r l" for l
    using assms by (simp add: read_header_update_coef_def)
  have e: "last_write r (read_header_end hw key l) = last_write r l" for key l
    unfolding read_header_end_def Let_def
    by (simp add: read leavesD[OF flag[OF drop]] leavesD[OF flag[OF bytes]] leavesD[OF mv])
  show ?thesis unfolding cedrus_read_header_def Let_def by (simp add: s u e)
qed

text \<open>The word of a job is the last one written to the picture parameters.\<close>

lemma job_writes_pps:
  "last_write VE_VP8_PPS (snd (snd (cedrus_dec_vp8_job_configure hw lookup pix stream frame cur pics ctx log))) =
    Some (vp8_pps_value ctx frame)"
proof -
  have r: "VE_VP8_PPS \<noteq> VE_H264_TRIGGER_TYPE" "VE_VP8_PPS \<noteq> VE_H264_STATUS" by code_simp+
  have pic: "last_write VE_VP8_PPS (writes (vp8_picture_registers frame) l) = last_write VE_VP8_PPS l" for l
    by (simp add: vp8_picture_registers_def Let_def last_write_writes hdr_simps)
  have plane: "last_write VE_VP8_PPS (writes (vp8_plane_registers lookup pix frame cur pics) l) =
      last_write VE_VP8_PPS l" for l
    by (simp add: vp8_plane_registers_def Let_def case_prod_beta last_write_writes hdr_simps)
  have pps: "vp8_pps_value (ctx\<lparr>entropy_probs_buf := b\<rparr>) frame = vp8_pps_value ctx frame" for b
    by (simp add: vp8_pps_value_def)
  show ?thesis
    by (simp add: cedrus_dec_vp8_job_configure_def Let_def pic plane leaves_header[OF r] pps
      last_write_writes[of _ "[_]"])
qed

lemma bit_version:
  "bit (vp8_version_value version) n \<longleftrightarrow> n = 0 \<and> (version = 2 \<or> version = 3) \<or> n = 1 \<and> version = 1 \<or>
    n = 2 \<and> (version = 1 \<or> version = 2) \<or> n = 3 \<and> version = 3"
  by (auto simp: vp8_version_value_def VE_VP8_PPS_FILTER_TYPE_SIMPLE_def VE_VP8_PPS_BILINEAR_MC_FILTER_def
    VE_VP8_PPS_LPF_DISABLE_def VE_VP8_PPS_FULL_PIXEL_def bit_or_iff bit_BIT)

lemma bit_flag_value: "bit (flag_value b (BIT k)) n \<longleftrightarrow> b \<and> n = k \<and> k < 32"
  by (simp add: bit_BIT)

lemma bit_pps:
  "bit (vp8_pps_value ctx frame) n \<longleftrightarrow>
    bit (vp8_version_value (v8_version frame)) n \<or>
    n = 4 \<and> VP8_SEGMENT_FLAG_UPDATE_MAP \<in> vs_flags (v8_segment frame) \<or>
    n = 5 \<and> VP8_SEGMENT_FLAG_DELTA_VALUE_MODE \<notin> vs_flags (v8_segment frame) \<or>
    n = 6 \<and> VP8_SEGMENT_FLAG_ENABLED \<in> vs_flags (v8_segment frame) \<or>
    n = 7 \<and> last_filter_type ctx \<or>
    8 \<le> n \<and> n \<le> 10 \<and> bit (uint (sharpness_level (v8_lf frame))) (n - 8) \<or>
    n = 11 \<and> VP8_LF_FILTER_TYPE_SIMPLE \<in> vl_flags (v8_lf frame) \<or>
    12 \<le> n \<and> n \<le> 17 \<and> bit (uint (vl_level (v8_lf frame))) (n - 12) \<or>
    n = 18 \<and> VP8_LF_ADJ_ENABLE \<in> vl_flags (v8_lf frame) \<or>
    n = 19 \<and> VP8_LF_DELTA_UPDATE \<in> vl_flags (v8_lf frame) \<or>
    20 \<le> n \<and> n \<le> 21 \<and> bit (kernel_ilog2 (unat (num_dct_parts frame))) (n - 20) \<or>
    n = 22 \<and> VP8_FRAME_FLAG_MB_NO_SKIP_COEFF \<in> v8_flags frame \<or> n = 24 \<or>
    n = 25 \<and> VP8_FRAME_FLAG_SIGN_BIAS_GOLDEN \<in> v8_flags frame \<or>
    n = 26 \<and> VP8_FRAME_FLAG_SIGN_BIAS_ALT \<in> v8_flags frame \<or>
    n = 27 \<and> last_frame_p_type ctx \<or>
    28 \<le> n \<and> n \<le> 30 \<and> bit (uint (last_sharpness_level ctx)) (n - 28) \<or>
    n = 31 \<and> \<not> vp8_is_key_frame frame"
  unfolding vp8_pps_value_def Let_def bit_or_iff VE_VP8_PPS_UPDATE_MB_SEGMENTATION_MAP_def
    VE_VP8_PPS_MB_SEGMENT_ABS_DELTA_def VE_VP8_PPS_SEGMENTATION_ENABLE_def VE_VP8_PPS_LAST_LOOP_FILTER_SIMPLE_def
    VE_VP8_PPS_SHARPNESS_LEVEL_def VE_VP8_PPS_LOOP_FILTER_SIMPLE_def VE_VP8_PPS_LOOP_FILTER_LEVEL_def
    VE_VP8_PPS_MODE_REF_LF_DELTA_ENABLE_def VE_VP8_PPS_MODE_REF_LF_DELTA_UPDATE_def VE_VP8_PPS_TOKEN_PARTITION_def
    VE_VP8_PPS_MB_NO_COEFF_SKIP_def VE_VP8_PPS_RELOAD_ENTROPY_PROBS_def VE_VP8_PPS_GOLDEN_SIGN_BIAS_def
    VE_VP8_PPS_ALTREF_SIGN_BIAS_def VE_VP8_PPS_LAST_PIC_TYPE_P_FRAME_def VE_VP8_PPS_LAST_SHARPNESS_LEVEL_def
    VE_VP8_PPS_PIC_TYPE_P_FRAME_def bit_flag_value bit_BIT
  by (simp add: bit_SHIFT_AND_MASK_BITS vp8_is_key_frame_def conj_commute)

lemma pps_fields:
  fixes ctx :: vp8_context and frame :: vp8_frame
  defines "w \<equiv> vp8_pps_value ctx frame"
  shows "field 10 8 w = uint (sharpness_level (v8_lf frame)) mod 8"
    "field 17 12 w = uint (vl_level (v8_lf frame)) mod 64"
    "field 21 20 w = kernel_ilog2 (unat (num_dct_parts frame)) mod 4"
    "field 30 28 w = uint (last_sharpness_level ctx) mod 8"
proof -
  note v = bit_pps bit_version
  have "field 10 8 w = take_bit (10 + 1 - 8) (uint (sharpness_level (v8_lf frame)))"
    unfolding w_def by (rule field_eq) (simp_all add: v)
  moreover have "field 17 12 w = take_bit (17 + 1 - 12) (uint (vl_level (v8_lf frame)))"
    unfolding w_def by (rule field_eq) (simp_all add: v)
  moreover have "field 21 20 w = take_bit (21 + 1 - 20) (kernel_ilog2 (unat (num_dct_parts frame)))"
    unfolding w_def by (rule field_eq) (simp_all add: v)
  moreover have "field 30 28 w = take_bit (30 + 1 - 28) (uint (last_sharpness_level ctx))"
    unfolding w_def by (rule field_eq) (simp_all add: v)
  ultimately show "field 10 8 w = uint (sharpness_level (v8_lf frame)) mod 8"
    "field 17 12 w = uint (vl_level (v8_lf frame)) mod 64"
    "field 21 20 w = kernel_ilog2 (unat (num_dct_parts frame)) mod 4"
    "field 30 28 w = uint (last_sharpness_level ctx) mod 8"
    by (simp_all add: take_bit_eq_mod)
qed

lemma kernel_ilog2_parts: "kernel_ilog2 1 = 0" "kernel_ilog2 (Suc 0) = 0" "kernel_ilog2 2 = 1" "kernel_ilog2 4 = 2" "kernel_ilog2 8 = 3"
  by code_simp+

text \<open>The last frame that was filtered.\<close>

definition last_filtered :: "vp8_frame list \<Rightarrow> vp8_frame option" where
  "last_filtered fs = (let gs = filter (\<lambda>f. vl_level (v8_lf f) \<noteq> 0) fs in if gs = [] then None else Some (last gs))"

lemma session_last:
  "last_frame_p_type (fold vp8_next fs vp8_ctx) = (case last_filtered fs of None \<Rightarrow> last_frame_p_type vp8_ctx
     | Some f \<Rightarrow> \<not> vp8_is_key_frame f)"
  "last_filter_type (fold vp8_next fs vp8_ctx) = (case last_filtered fs of None \<Rightarrow> last_filter_type vp8_ctx
     | Some f \<Rightarrow> VP8_LF_FILTER_TYPE_SIMPLE \<in> vl_flags (v8_lf f))"
  "last_sharpness_level (fold vp8_next fs vp8_ctx) = (case last_filtered fs of None \<Rightarrow> last_sharpness_level vp8_ctx
     | Some f \<Rightarrow> sharpness_level (v8_lf f))"
  by (induction fs rule: rev_induct)
    (simp_all add: last_filtered_def Let_def vp8_next_def vp8_remember_def)

text \<open>C25: The picture parameters of a job, whatever the frames before it: the type, the loop filter and the
  token partitions are those of its frame, and the type, the filter and the sharpness of the frame before are those of
  the last frame that was filtered at all, none if there was none.\<close>

theorem vp8_picture_parameters:
  fixes js :: "vp8_run list"
  assumes "cedrus_dec_vp8_setup alloc vp8_context_init heap = (None, ctx, heap')"
    and "num_dct_parts frame \<in> {1, 2, 4, 8}"
  defines "before \<equiv> last_filtered (map run_frame js)"
  shows "\<exists>w. last_write VE_VP8_PPS (snd (vp8_session hw lookup pix (js @ [(stream, frame, cur, pics)]) (ctx, log))) = Some w \<and>
    bit w 31 = (\<not> vp8_is_key_frame frame) \<and>
    bit w 11 = (VP8_LF_FILTER_TYPE_SIMPLE \<in> vl_flags (v8_lf frame)) \<and>
    field 10 8 w = uint (sharpness_level (v8_lf frame)) mod 8 \<and>
    field 17 12 w = uint (vl_level (v8_lf frame)) mod 64 \<and>
    2 ^ nat (field 21 20 w) = unat (num_dct_parts frame) \<and>
    bit w 27 = (\<exists>f. before = Some f \<and> \<not> vp8_is_key_frame f) \<and>
    bit w 7 = (\<exists>f. before = Some f \<and> VP8_LF_FILTER_TYPE_SIMPLE \<in> vl_flags (v8_lf f)) \<and>
    field 30 28 w = (case before of None \<Rightarrow> 0 | Some f \<Rightarrow> uint (sharpness_level (v8_lf f)) mod 8)"
proof -
  define ctx' where "ctx' = fold vp8_next (map run_frame js) ctx"
  obtain log' where s: "vp8_session hw lookup pix js (ctx, log) = (ctx', log')"
    using vp8_session_ctx[of hw lookup pix js "(ctx, log)"]
    by (cases "vp8_session hw lookup pix js (ctx, log)") (simp add: ctx'_def fold_map comp_def)
  have init: "\<not> last_frame_p_type ctx" "\<not> last_filter_type ctx" "last_sharpness_level ctx = 0"
    by (rule setup_cases[OF assms(1)]; simp add: vp8_context_init_def)+
  note kept = session_last[of "map run_frame js" ctx, folded ctx'_def before_def]
  let ?w = "vp8_pps_value ctx' frame"
  have "VE_VP8_PPS \<noteq> VE_H264_TRIGGER_TYPE" by code_simp
  then have "last_write VE_VP8_PPS (snd (vp8_session hw lookup pix (js @ [(stream, frame, cur, pics)]) (ctx, log))) = Some ?w"
    using job_writes_pps[of hw lookup pix stream frame cur pics ctx' log']
    by (simp add: vp8_session_append s cedrus_dec_vp8_job_trigger_def case_prod_beta)
  moreover have "2 ^ nat (field 21 20 ?w) = unat (num_dct_parts frame)"
    using assms(2) by (auto simp: pps_fields kernel_ilog2_parts)
  moreover have "bit ?w 27 = (\<exists>f. before = Some f \<and> \<not> vp8_is_key_frame f)"
      "bit ?w 7 = (\<exists>f. before = Some f \<and> VP8_LF_FILTER_TYPE_SIMPLE \<in> vl_flags (v8_lf f))"
      "field 30 28 ?w = (case before of None \<Rightarrow> 0 | Some f \<Rightarrow> uint (sharpness_level (v8_lf f)) mod 8)"
    using init by (simp_all add: bit_pps bit_version pps_fields kept split: option.splits)
  ultimately show ?thesis
    by (intro exI[of _ ?w] conjI) (simp_all add: bit_pps bit_version pps_fields)
qed

section \<open>Two frames\<close>

definition ex_vp8_alloc :: dma_alloc where
  "ex_vp8_alloc heap n = Some 0x45000000"

definition ex_vp8_ctx :: vp8_context where
  "ex_vp8_ctx = fst (snd (cedrus_dec_vp8_setup ex_vp8_alloc vp8_context_init []))"

definition ex_vp8_run :: vp8_run where
  "ex_vp8_run = ((0x46000000, 1500), ex_vp8_frame, 0, [\<lparr>pic_addr = 0x48000000, pic_timestamp = 1000, pic_engine = ()\<rparr>])"

lemma ex_vp8_setup:
  "cedrus_dec_vp8_setup ex_vp8_alloc vp8_context_init [] = (None, ex_vp8_ctx, [(0x45000000, 0x2400)])"
  by (simp add: ex_vp8_ctx_def cedrus_dec_vp8_setup_def ex_vp8_alloc_def CEDRUS_DEC_VP8_ENTROPY_PROBS_SIZE_def)

lemma ex_vp8_frame_ok: "vp8_frame_ok ex_vp8_frame" "num_dct_parts ex_vp8_frame \<in> {1, 2, 4, 8}"
  by code_simp+

theorem vp8_probs_image_witness:
  "let ctx' = fst (vp8_session (\<lambda>_ _. 0) first_with_timestamp zero_pix [ex_vp8_run] (ex_vp8_ctx, []))
   in holds_constants (entropy_probs_buf ctx') \<and> holds_probs ex_vp8_frame (entropy_probs_buf ctx') \<and>
     cedrus_dec_vp8_cleanup ctx' [(0x45000000, 0x2400)] = []"
  using vp8_probs_image[OF ex_vp8_setup, of "[ex_vp8_run]" "\<lambda>_ _. 0" first_with_timestamp zero_pix "[]"] ex_vp8_frame_ok(1)
  by (simp add: ex_vp8_run_def)

theorem vp8_picture_parameters_witness:
  "\<exists>w. last_write VE_VP8_PPS (snd (vp8_session (\<lambda>_ _. 0) first_with_timestamp zero_pix
      [ex_vp8_run, ex_vp8_run] (ex_vp8_ctx, []))) = Some w \<and>
    bit w 31 \<and> bit w 27 \<and> bit w 7 \<and> field 21 20 w = 2 \<and> field 30 28 w = 5"
proof -
  have f: "\<not> vp8_is_key_frame ex_vp8_frame" "vl_level (v8_lf ex_vp8_frame) = 33"
      "VP8_LF_FILTER_TYPE_SIMPLE \<in> vl_flags (v8_lf ex_vp8_frame)" "sharpness_level (v8_lf ex_vp8_frame) = 5"
      "num_dct_parts ex_vp8_frame = 4" by code_simp+
  have b: "last_filtered (map run_frame [ex_vp8_run]) = Some ex_vp8_frame"
    by (simp add: last_filtered_def ex_vp8_run_def f)
  have e: "[ex_vp8_run] @ [(fst ex_vp8_run, ex_vp8_frame, fst (snd (snd ex_vp8_run)), snd (snd (snd ex_vp8_run)))] =
      [ex_vp8_run, ex_vp8_run]" by (simp add: ex_vp8_run_def)
  from vp8_picture_parameters[OF ex_vp8_setup ex_vp8_frame_ok(2), where js = "[ex_vp8_run]" and hw = "\<lambda>_ _. 0" and
      lookup = first_with_timestamp and pix = zero_pix and stream = "fst ex_vp8_run" and
      cur = "fst (snd (snd ex_vp8_run))" and pics = "snd (snd (snd ex_vp8_run))" and log = "[]",
      unfolded e b option.case f]
  obtain w where w: "last_write VE_VP8_PPS (snd (vp8_session (\<lambda>_ _. 0) first_with_timestamp zero_pix
        [ex_vp8_run, ex_vp8_run] (ex_vp8_ctx, []))) = Some w"
      "bit w 31" "bit w 27" "bit w 7" "2 ^ nat (field 21 20 w) = unat (4 :: u8)" "field 30 28 w = 5"
    using f by auto
  have "nat (field 21 20 w) = 2"
    using w(5) power_inject_exp[of "2 :: nat" "nat (field 21 20 w)" 2] by simp
  then have "field 21 20 w = 2" by linarith
  then show ?thesis using w by blast
qed

end
