(* ===== verification/Cedrus_Dec_H265.thy ===== *)
theory Cedrus_Dec_H265
  imports Cedrus_Buffers Cedrus_Dec_Regs "HOL-Library.Monad_Syntax"
begin

text \<open>The H.265 decoder (\<open>cedrus_dec_h265.c\<close>, \<open>.h\<close>): the memory of a context and of a buffer, the tables in
  the memory of the engine, the tiles and entry points, skipping the slice header, and the registers of a
  slice.

  The controls come from the application, and the kernel does not check all their indices.  A read
  outside an array, a write behind the entry points and a division by zero have no meaning: the result
  None stands for them.\<close>

section \<open>Controls\<close>

datatype hevc_slice_type = HEVC_SLICE_TYPE_B | HEVC_SLICE_TYPE_P | HEVC_SLICE_TYPE_I

datatype hevc_sps_flag = HEVC_SPS_FLAG_SEPARATE_COLOUR_PLANE | HEVC_SPS_FLAG_SCALING_LIST_ENABLED |
  HEVC_SPS_FLAG_AMP_ENABLED | HEVC_SPS_FLAG_SAMPLE_ADAPTIVE_OFFSET | HEVC_SPS_FLAG_PCM_ENABLED |
  HEVC_SPS_FLAG_PCM_LOOP_FILTER_DISABLED | HEVC_SPS_FLAG_SPS_TEMPORAL_MVP_ENABLED |
  HEVC_SPS_FLAG_STRONG_INTRA_SMOOTHING_ENABLED

datatype hevc_pps_flag = HEVC_PPS_FLAG_SIGN_DATA_HIDING_ENABLED | HEVC_PPS_FLAG_CONSTRAINED_INTRA_PRED |
  HEVC_PPS_FLAG_TRANSFORM_SKIP_ENABLED | HEVC_PPS_FLAG_CU_QP_DELTA_ENABLED | HEVC_PPS_FLAG_WEIGHTED_PRED |
  HEVC_PPS_FLAG_WEIGHTED_BIPRED | HEVC_PPS_FLAG_TRANSQUANT_BYPASS_ENABLED | HEVC_PPS_FLAG_TILES_ENABLED |
  HEVC_PPS_FLAG_ENTROPY_CODING_SYNC_ENABLED | HEVC_PPS_FLAG_LOOP_FILTER_ACROSS_TILES_ENABLED |
  HEVC_PPS_FLAG_PPS_LOOP_FILTER_ACROSS_SLICES_ENABLED

datatype hevc_slice_flag = HEVC_SLICE_PARAMS_FLAG_SLICE_SAO_LUMA | HEVC_SLICE_PARAMS_FLAG_SLICE_SAO_CHROMA |
  HEVC_SLICE_PARAMS_FLAG_SLICE_TEMPORAL_MVP_ENABLED | HEVC_SLICE_PARAMS_FLAG_MVD_L1_ZERO |
  HEVC_SLICE_PARAMS_FLAG_CABAC_INIT | HEVC_SLICE_PARAMS_FLAG_COLLOCATED_FROM_L0 |
  HEVC_SLICE_PARAMS_FLAG_SLICE_DEBLOCKING_FILTER_DISABLED |
  HEVC_SLICE_PARAMS_FLAG_SLICE_LOOP_FILTER_ACROSS_SLICES_ENABLED |
  HEVC_SLICE_PARAMS_FLAG_DEPENDENT_SLICE_SEGMENT

record hevc_sps =
  pic_width_in_luma_samples :: u16
  bit_depth_luma_minus8 :: u8
  bit_depth_chroma_minus8 :: u8
  log2_min_luma_coding_block_size_minus3 :: u8
  log2_diff_max_min_luma_coding_block_size :: u8
  log2_min_luma_transform_block_size_minus2 :: u8
  log2_diff_max_min_luma_transform_block_size :: u8
  max_transform_hierarchy_depth_inter :: u8
  max_transform_hierarchy_depth_intra :: u8
  pcm_sample_bit_depth_luma_minus1 :: u8
  pcm_sample_bit_depth_chroma_minus1 :: u8
  log2_min_pcm_luma_coding_block_size_minus3 :: u8
  log2_diff_max_min_pcm_luma_coding_block_size :: u8
  hs_chroma_format_idc :: u8
  hs_flags :: "hevc_sps_flag set"

record hevc_pps =
  diff_cu_qp_delta_depth :: u8
  hp_init_qp_minus26 :: int
  pps_cb_qp_offset :: int
  pps_cr_qp_offset :: int
  num_tile_columns_minus1 :: u8
  num_tile_rows_minus1 :: u8
  column_width_minus1 :: "u8 list"
  row_height_minus1 :: "u8 list"
  log2_parallel_merge_level_minus2 :: u8
  hp_flags :: "hevc_pps_flag set"

record hevc_pred_weights =
  hw_luma_log2_weight_denom :: u8
  delta_chroma_log2_weight_denom :: int
  delta_luma_weight_l0 :: "int list"
  luma_offset_l0 :: "int list"
  delta_chroma_weight_l0 :: "int list list"
  chroma_offset_l0 :: "int list list"
  delta_luma_weight_l1 :: "int list"
  luma_offset_l1 :: "int list"
  delta_chroma_weight_l1 :: "int list list"
  chroma_offset_l1 :: "int list list"

record hevc_slice_params =
  data_byte_offset :: u32
  num_entry_point_offsets :: u32
  nal_unit_type :: u8
  nuh_temporal_id_plus1 :: u8
  hl_slice_type :: hevc_slice_type
  colour_plane_id :: u8
  slice_pic_order_cnt :: int
  num_ref_idx_l0_active_minus1 :: u8
  num_ref_idx_l1_active_minus1 :: u8
  collocated_ref_idx :: u8
  five_minus_max_num_merge_cand :: u8
  hl_slice_qp_delta :: int
  slice_cb_qp_offset :: int
  slice_cr_qp_offset :: int
  slice_beta_offset_div2 :: int
  slice_tc_offset_div2 :: int
  pic_struct :: u8
  slice_segment_addr :: u32
  ref_idx_l0 :: "u8 list"
  ref_idx_l1 :: "u8 list"
  pred_weight_table :: hevc_pred_weights
  hl_flags :: "hevc_slice_flag set"

record hevc_dpb_entry =
  he_timestamp :: u64
  he_long_term :: bool
  he_field_pic :: u8
  he_pic_order_cnt_val :: int

record hevc_decode_params =
  hd_pic_order_cnt_val :: int
  num_active_dpb_entries :: u8
  hd_dpb :: "hevc_dpb_entry list"

record hevc_scaling_matrix =
  hm_4x4 :: "u8 list list"
  hm_8x8 :: "u8 list list"
  hm_16x16 :: "u8 list list"
  hm_32x32 :: "u8 list list"
  scaling_list_dc_coef_16x16 :: "u8 list"
  scaling_list_dc_coef_32x32 :: "u8 list"

record h265_job =
  h5_sps :: hevc_sps
  h5_pps :: hevc_pps
  h5_scaling_matrix :: hevc_scaling_matrix
  h5_slice_params :: hevc_slice_params
  h5_entry_point_offsets :: "u32 list"
  h5_decode_params :: hevc_decode_params

definition V4L2_HEVC_DPB_ENTRIES_NUM_MAX :: nat where
  "V4L2_HEVC_DPB_ENTRIES_NUM_MAX = 16"

text \<open>An element of an array.\<close>

definition at_index :: "'a list \<Rightarrow> nat \<Rightarrow> 'a option" where
  "at_index xs i = (if i < length xs then Some (xs ! i) else None)"

section \<open>Memory of a context and of a buffer\<close>

definition CEDRUS_DEC_H265_NEIGHBOR_INFO_BUF_SIZE :: nat where
  "CEDRUS_DEC_H265_NEIGHBOR_INFO_BUF_SIZE = 794 * 1024"
definition CEDRUS_DEC_H265_ENTRY_POINTS_BUF_SIZE :: nat where
  "CEDRUS_DEC_H265_ENTRY_POINTS_BUF_SIZE = 4 * 1024"
definition CEDRUS_DEC_H265_MV_COL_BUF_UNIT_CTB_SIZE :: u32 where
  "CEDRUS_DEC_H265_MV_COL_BUF_UNIT_CTB_SIZE = 160"

text \<open>The entry points are words the CPU writes.\<close>

record h265_context =
  h5_neighbor_info_buf_addr :: "u64 option"
  h5_entry_points_buf_addr :: "u64 option"
  h5_entry_points_buf :: "nat \<Rightarrow> u32"

record h265_buffer =
  h5_mv_col_buf_dma :: u64
  h5_mv_col_buf_size :: nat

type_synonym h265_pictures = "h265_buffer picture list"

definition cedrus_dec_h265_setup :: "dma_alloc \<Rightarrow> h265_context \<Rightarrow> dma_heap \<Rightarrow> errno option \<times> h265_context \<times> dma_heap" where
  "cedrus_dec_h265_setup alloc ctx heap =
    (case alloc heap CEDRUS_DEC_H265_NEIGHBOR_INFO_BUF_SIZE of
       None \<Rightarrow> (Some ENOMEM, ctx\<lparr>h5_neighbor_info_buf_addr := None\<rparr>, heap)
     | Some ni \<Rightarrow>
       let ctx = ctx\<lparr>h5_neighbor_info_buf_addr := Some ni\<rparr>;
           heap = (ni, CEDRUS_DEC_H265_NEIGHBOR_INFO_BUF_SIZE) # heap
       in case alloc heap CEDRUS_DEC_H265_ENTRY_POINTS_BUF_SIZE of
            None \<Rightarrow> (Some ENOMEM, ctx\<lparr>h5_entry_points_buf_addr := None\<rparr>,
              dma_free CEDRUS_DEC_H265_NEIGHBOR_INFO_BUF_SIZE ni heap)
          | Some ep \<Rightarrow> (None, ctx\<lparr>h5_entry_points_buf_addr := Some ep, h5_entry_points_buf := (\<lambda>_. 0)\<rparr>,
              (ep, CEDRUS_DEC_H265_ENTRY_POINTS_BUF_SIZE) # heap))"

definition cedrus_dec_h265_cleanup :: "h265_context \<Rightarrow> dma_heap \<Rightarrow> dma_heap" where
  "cedrus_dec_h265_cleanup ctx heap =
    (let heap = dma_free CEDRUS_DEC_H265_NEIGHBOR_INFO_BUF_SIZE (the (h5_neighbor_info_buf_addr ctx)) heap
     in dma_free CEDRUS_DEC_H265_ENTRY_POINTS_BUF_SIZE (the (h5_entry_points_buf_addr ctx)) heap)"

definition cedrus_dec_h265_buffer_cleanup :: "h265_buffer \<Rightarrow> dma_heap \<Rightarrow> h265_buffer \<times> dma_heap" where
  "cedrus_dec_h265_buffer_cleanup buf heap =
    (if h5_mv_col_buf_size buf \<noteq> 0
     then (buf\<lparr>h5_mv_col_buf_size := 0\<rparr>, dma_free (h5_mv_col_buf_size buf) (h5_mv_col_buf_dma buf) heap)
     else (buf, heap))"

definition cedrus_dec_h265_mv_col_buf_dma :: "h265_buffer \<Rightarrow> u64 \<times> u64" where
  "cedrus_dec_h265_mv_col_buf_dma buf =
    (h5_mv_col_buf_dma buf, h5_mv_col_buf_dma buf + word_of_nat (h5_mv_col_buf_size buf div 2))"

text \<open>The buffer of a picture gets its motion vectors in its first job.\<close>

definition h265_ensure_mv_col :: "dma_alloc \<Rightarrow> pix_format \<Rightarrow> u32 \<Rightarrow> h265_buffer \<Rightarrow> dma_heap \<Rightarrow>
    errno option \<times> h265_buffer \<times> dma_heap" where
  "h265_ensure_mv_col alloc coded ctb_size_luma buf heap =
    (if h5_mv_col_buf_size buf \<noteq> 0 then (None, buf, heap)
     else (let size = unat (div_round_up (pix_width coded) ctb_size_luma * div_round_up (pix_height coded) ctb_size_luma *
             CEDRUS_DEC_H265_MV_COL_BUF_UNIT_CTB_SIZE + 0x400)
           in case alloc heap size of
                None \<Rightarrow> (Some ENOMEM, buf\<lparr>h5_mv_col_buf_size := 0\<rparr>, heap)
              | Some addr \<Rightarrow> (None, buf\<lparr>h5_mv_col_buf_dma := addr, h5_mv_col_buf_size := size\<rparr>, (addr, size) # heap)))"

section \<open>The memory of the engine\<close>

definition h265_sram_write :: "u32 \<Rightarrow> u32 list \<Rightarrow> io_log \<Rightarrow> io_log" where
  "h265_sram_write off ws log =
    writes ((VE_DEC_H265_SRAM_OFFSET, off) # map (Pair VE_DEC_H265_SRAM_DATA) ws) log"

definition h265_frame_info_words :: "pix_format \<Rightarrow> h265_buffer picture \<Rightarrow> bool \<Rightarrow> int \<Rightarrow> int \<Rightarrow> u32 list" where
  "h265_frame_info_words pix pic field_pic top_pic_order_cnt bottom_pic_order_cnt =
    (let (luma, chroma) = cedrus_buffer_picture_dma pix (pic_addr pic);
         (mv_top, mv_bottom) = cedrus_dec_h265_mv_col_buf_dma (pic_engine pic);
         base = VE_DEC_H265_SRAM_DATA_ADDR_BASE
     in [word_of_int top_pic_order_cnt,
         if field_pic then word_of_int bottom_pic_order_cnt else word_of_int top_pic_order_cnt,
         base mv_top, if field_pic then base mv_bottom else base mv_top, base luma, base chroma])"

definition cedrus_dec_h265_frame_info_write_single :: "pix_format \<Rightarrow> h265_buffer picture \<Rightarrow> nat \<Rightarrow> bool \<Rightarrow>
    int \<Rightarrow> int \<Rightarrow> io_log \<Rightarrow> io_log" where
  "cedrus_dec_h265_frame_info_write_single pix pic index field_pic top_pic_order_cnt bottom_pic_order_cnt log =
    h265_sram_write (VE_DEC_H265_SRAM_OFFSET_FRAME_INFO + VE_DEC_H265_SRAM_OFFSET_FRAME_INFO_UNIT * word_of_nat index)
      (h265_frame_info_words pix pic field_pic top_pic_order_cnt bottom_pic_order_cnt) log"

fun h265_dpb_loop :: "h265_buffer picture_find \<Rightarrow> pix_format \<Rightarrow> h265_pictures \<Rightarrow> hevc_dpb_entry list \<Rightarrow> nat \<Rightarrow> nat \<Rightarrow>
    io_log \<Rightarrow> io_log option" where
  "h265_dpb_loop lookup pix pics dpb i 0 log = Some log"
| "h265_dpb_loop lookup pix pics dpb i (Suc n) log = do {
     entry \<leftarrow> at_index dpb i;
     h265_dpb_loop lookup pix pics dpb (Suc i) n
       (case lookup pics (he_timestamp entry) of
          None \<Rightarrow> log
        | Some b \<Rightarrow> cedrus_dec_h265_frame_info_write_single pix (pics ! b) i (he_field_pic entry \<noteq> 0)
            (he_pic_order_cnt_val entry) (he_pic_order_cnt_val entry) log) }"

definition cedrus_dec_h265_frame_info_write_dpb :: "h265_buffer picture_find \<Rightarrow> pix_format \<Rightarrow> h265_pictures \<Rightarrow>
    hevc_dpb_entry list \<Rightarrow> u8 \<Rightarrow> io_log \<Rightarrow> io_log option" where
  "cedrus_dec_h265_frame_info_write_dpb lookup pix pics dpb num log =
    h265_dpb_loop lookup pix pics dpb 0 (unat num) log"

text \<open>Up to four references in a word; \<open>n\<close> are left from reference \<open>i\<close> on.\<close>

fun h265_ref_loop :: "hevc_dpb_entry list \<Rightarrow> u8 list \<Rightarrow> nat \<Rightarrow> nat \<Rightarrow> u32 \<Rightarrow> io_log \<Rightarrow> io_log option" where
  "h265_ref_loop dpb ls i 0 word log = Some log"
| "h265_ref_loop dpb ls i (Suc n) word log = do {
     index \<leftarrow> at_index ls i;
     entry \<leftarrow> at_index dpb (unat index);
     let value = (if he_long_term entry then ucast index OR VE_DEC_H265_SRAM_REF_PIC_LIST_LT_REF else ucast index);
         word = word OR push_bit (i mod 4 * 8) value
     in if i mod 4 = 3 \<or> n = 0
        then h265_ref_loop dpb ls (Suc i) n 0 (cedrus_write VE_DEC_H265_SRAM_DATA word log)
        else h265_ref_loop dpb ls (Suc i) n word log }"

definition cedrus_dec_h265_ref_pic_list_write :: "hevc_dpb_entry list \<Rightarrow> u8 list \<Rightarrow> u8 \<Rightarrow> u32 \<Rightarrow> io_log \<Rightarrow> io_log option" where
  "cedrus_dec_h265_ref_pic_list_write dpb ls num sram_offset log =
    h265_ref_loop dpb ls 0 (unat num) 0 (cedrus_write VE_DEC_H265_SRAM_OFFSET sram_offset log)"

text \<open>The weights of two references, or of the two chroma components of one, share a word.\<close>

definition weights_word :: "int list \<Rightarrow> u32" where
  "weights_word bytes = le32_words (map word_of_int bytes) ! 0"

fun h265_luma_loop :: "int list \<Rightarrow> int list \<Rightarrow> nat \<Rightarrow> nat \<Rightarrow> int list \<Rightarrow> io_log \<Rightarrow> io_log option" where
  "h265_luma_loop weights offsets i 0 pw log = Some log"
| "h265_luma_loop weights offsets i (Suc n) pw log = do {
     w \<leftarrow> at_index weights i;
     offset \<leftarrow> at_index offsets i;
     let index = i mod 2;
         pw = pw[index * 2 := w, index * 2 + 1 := offset]
     in h265_luma_loop weights offsets (Suc i) n pw
          (if index = 1 \<or> n = 0 then cedrus_write VE_DEC_H265_SRAM_DATA (weights_word pw) log else log) }"

fun h265_chroma_loop :: "int list list \<Rightarrow> int list list \<Rightarrow> nat \<Rightarrow> nat \<Rightarrow> io_log \<Rightarrow> io_log option" where
  "h265_chroma_loop weights offsets i 0 log = Some log"
| "h265_chroma_loop weights offsets i (Suc n) log = do {
     w \<leftarrow> at_index weights i;
     offset \<leftarrow> at_index offsets i;
     h265_chroma_loop weights offsets (Suc i) n (cedrus_write VE_DEC_H265_SRAM_DATA
       (weights_word [w ! 0, offset ! 0, w ! 1, offset ! 1]) log) }"

definition cedrus_dec_h265_pred_weight_write :: "int list \<Rightarrow> int list \<Rightarrow> int list list \<Rightarrow> int list list \<Rightarrow> u8 \<Rightarrow>
    u32 \<Rightarrow> u32 \<Rightarrow> io_log \<Rightarrow> io_log option" where
  "cedrus_dec_h265_pred_weight_write luma_weight luma_offset chroma_weight chroma_offset num sram_luma sram_chroma log = do {
     log \<leftarrow> h265_luma_loop luma_weight luma_offset 0 (unat num) [0, 0, 0, 0]
       (cedrus_write VE_DEC_H265_SRAM_OFFSET sram_luma log);
     h265_chroma_loop chroma_weight chroma_offset 0 (unat num) (cedrus_write VE_DEC_H265_SRAM_OFFSET sram_chroma log) }"

text \<open>The scaling lists, column by column; the dimensions of the matrices are fixed by their types.\<close>

definition scaling_word :: "u8 list \<Rightarrow> nat \<Rightarrow> nat \<Rightarrow> nat \<Rightarrow> u32" where
  "scaling_word m n j k =
    push_bit 24 (ucast (m ! (j + (k + 3) * n))) OR push_bit 16 (ucast (m ! (j + (k + 2) * n))) OR
    push_bit 8 (ucast (m ! (j + (k + 1) * n))) OR ucast (m ! (j + k * n))"

definition scaling_words_8 :: "u8 list \<Rightarrow> u32 list" where
  "scaling_words_8 m = [scaling_word m 8 j k. j \<leftarrow> [0..<8], k \<leftarrow> [0, 4]]"

definition scaling_words_4 :: "u8 list \<Rightarrow> u32 list" where
  "scaling_words_4 m = [scaling_word m 4 j 0. j \<leftarrow> [0..<4]]"

definition h265_scaling_words :: "hevc_scaling_matrix \<Rightarrow> u32 list" where
  "h265_scaling_words scaling =
    concat (map (\<lambda>i. scaling_words_8 (hm_8x8 scaling ! i)) [0..<6]) @
    concat (map (\<lambda>i. scaling_words_8 (hm_32x32 scaling ! i)) [0..<2]) @
    concat (map (\<lambda>i. scaling_words_8 (hm_16x16 scaling ! i)) [0..<6]) @
    concat (map (\<lambda>i. scaling_words_4 (hm_4x4 scaling ! i)) [0..<6])"

definition dc_coefs_word :: "u8 \<Rightarrow> u8 \<Rightarrow> u8 \<Rightarrow> u8 \<Rightarrow> u32" where
  "dc_coefs_word d c b a = push_bit 24 (ucast d) OR push_bit 16 (ucast c) OR push_bit 8 (ucast b) OR push_bit 0 (ucast a)"

definition cedrus_dec_h265_scaling_list_write :: "hevc_scaling_matrix \<Rightarrow> io_log \<Rightarrow> io_log" where
  "cedrus_dec_h265_scaling_list_write scaling log =
    (let dc16 = scaling_list_dc_coef_16x16 scaling; dc32 = scaling_list_dc_coef_32x32 scaling;
         log = cedrus_write VE_DEC_H265_SCALING_LIST_DC_COEF0 (dc_coefs_word (dc32 ! 1) (dc32 ! 0) (dc16 ! 1) (dc16 ! 0)) log;
         log = cedrus_write VE_DEC_H265_SCALING_LIST_DC_COEF1 (dc_coefs_word (dc16 ! 5) (dc16 ! 4) (dc16 ! 3) (dc16 ! 2)) log
     in h265_sram_write VE_DEC_H265_SRAM_OFFSET_SCALING_LISTS (h265_scaling_words scaling) log)"

section \<open>Bits of the slice header\<close>

function cedrus_dec_h265_bits_skip :: "nat \<Rightarrow> nat \<Rightarrow> io_log \<Rightarrow> io_log" where
  "cedrus_dec_h265_bits_skip num written log =
    (if written < num
     then (let skip_count = min (num - written) 32;
               log = cedrus_write VE_DEC_H265_TRIGGER (VE_DEC_H265_TRIGGER_FLUSH_BITS OR
                 VE_DEC_H265_TRIGGER_TYPE_N_BITS (word_of_nat skip_count)) log;
               log = cedrus_poll VE_DEC_H265_STATUS VE_DEC_H265_STATUS_VLD_BUSY log
           in cedrus_dec_h265_bits_skip num (written + skip_count) log)
     else log)"
  by pat_completeness auto

termination
  by (relation "measure (\<lambda>(num, written, log). num - written)") auto

definition cedrus_dec_h265_bits_read :: "hw_read \<Rightarrow> nat \<Rightarrow> io_log \<Rightarrow> u32 \<times> io_log" where
  "cedrus_dec_h265_bits_read hw num log =
    (let log = cedrus_write VE_DEC_H265_TRIGGER (VE_DEC_H265_TRIGGER_SHOW_BITS OR
           VE_DEC_H265_TRIGGER_TYPE_N_BITS (word_of_nat num)) log;
         log = cedrus_poll VE_DEC_H265_STATUS VE_DEC_H265_STATUS_VLD_BUSY log
     in (cedrus_read hw VE_DEC_H265_BITS_READ log, log))"

text \<open>From the start of the slice data to the end of the slice header: the bit that ends the header and
  the zeros behind it are in the byte before the data.\<close>

definition h265_skip_header :: "hw_read \<Rightarrow> u32 \<Rightarrow> io_log \<Rightarrow> errno option \<times> io_log" where
  "h265_skip_header hw offset log =
    (if offset = 0 then (Some EOPNOTSUPP, log)
     else (let log = cedrus_dec_h265_bits_skip (unat ((offset - 1) * 8)) 0 log;
               (value, log) = cedrus_dec_h265_bits_read hw 8 log;
               padding = ucast value :: u8
           in if padding = 0 then (Some EINVAL, log)
              else (let num = (case find (bit padding) [0..<8] of Some c \<Rightarrow> c | None \<Rightarrow> 8);
                        num = num + 1
                    in (None, cedrus_dec_h265_bits_skip (8 - num) 0 log))))"

section \<open>References in the future\<close>

fun h265_future_loop :: "hevc_dpb_entry list \<Rightarrow> int \<Rightarrow> u8 list \<Rightarrow> nat \<Rightarrow> nat \<Rightarrow> bool option" where
  "h265_future_loop dpb poc ls i 0 = Some False"
| "h265_future_loop dpb poc ls i (Suc n) = do {
     index \<leftarrow> at_index ls i;
     entry \<leftarrow> at_index dpb (unat index);
     if poc < he_pic_order_cnt_val entry then Some True else h265_future_loop dpb poc ls (Suc i) n }"

definition cedrus_h265_is_low_delay :: "h265_job \<Rightarrow> bool option" where
  "cedrus_h265_is_low_delay job =
    (let slice_params = h5_slice_params job; dpb = hd_dpb (h5_decode_params job);
         poc = hd_pic_order_cnt_val (h5_decode_params job)
     in do {
       future \<leftarrow> h265_future_loop dpb poc (ref_idx_l0 slice_params) 0 (unat (num_ref_idx_l0_active_minus1 slice_params) + 1);
       if future then Some True
       else if hl_slice_type slice_params \<noteq> HEVC_SLICE_TYPE_B then Some False
       else h265_future_loop dpb poc (ref_idx_l1 slice_params) 0 (unat (num_ref_idx_l1_active_minus1 slice_params) + 1) })"

section \<open>Tiles\<close>

text \<open>The column, or row, a coding tree block is in, and where it starts.\<close>

function h265_find_tile :: "u8 list \<Rightarrow> nat \<Rightarrow> nat \<Rightarrow> nat \<Rightarrow> nat \<Rightarrow> (nat \<times> nat) option" where
  "h265_find_tile sizes num addr t x =
    (if t < num
     then do {
       s \<leftarrow> at_index sizes t;
       if addr < x + unat s + 1 then Some (t, x) else h265_find_tile sizes num addr (t + 1) (x + unat s + 1) }
     else Some (t, x))"
  by pat_completeness auto

termination
  by (relation "measure (\<lambda>(sizes, num, addr, t, x). num - t)") auto

definition tile_word :: "nat \<Rightarrow> nat \<Rightarrow> u32" where
  "tile_word y x = push_bit 16 (word_of_nat y) OR push_bit 0 (word_of_nat x)"

definition put_word :: "nat \<Rightarrow> u32 \<Rightarrow> (nat \<Rightarrow> u32) \<Rightarrow> (nat \<Rightarrow> u32) option" where
  "put_word i w buf = (if i < CEDRUS_DEC_H265_ENTRY_POINTS_BUF_SIZE div 4 then Some (buf(i := w)) else None)"

text \<open>With wavefronts an entry point is its offset.\<close>

fun h265_sync_loop :: "u32 list \<Rightarrow> nat \<Rightarrow> nat \<Rightarrow> (nat \<Rightarrow> u32) \<Rightarrow> (nat \<Rightarrow> u32) option" where
  "h265_sync_loop offsets i 0 buf = Some buf"
| "h265_sync_loop offsets i (Suc n) buf = do {
     offset \<leftarrow> at_index offsets i;
     buf \<leftarrow> put_word i offset buf;
     h265_sync_loop offsets (Suc i) n buf }"

text \<open>With tiles it is the offset and the two corners of the next tile.\<close>

definition h265_next_tile :: "hevc_pps \<Rightarrow> nat \<times> nat \<times> nat \<times> nat \<Rightarrow> (nat \<times> nat \<times> nat \<times> nat) option" where
  "h265_next_tile pps = (\<lambda>(tx, ty, x, y).
     if unat (num_tile_columns_minus1 pps) + 1 \<le> tx + 1
     then do { h \<leftarrow> at_index (row_height_minus1 pps) ty; Some (0, ty + 1, 0, y + unat h + 1) }
     else do { w \<leftarrow> at_index (column_width_minus1 pps) tx; Some (tx + 1, ty, x + unat w + 1, y) })"

fun h265_tile_loop :: "hevc_pps \<Rightarrow> u32 list \<Rightarrow> nat \<Rightarrow> nat \<Rightarrow> nat \<times> nat \<times> nat \<times> nat \<Rightarrow> (nat \<Rightarrow> u32) \<Rightarrow> (nat \<Rightarrow> u32) option" where
  "h265_tile_loop pps offsets i 0 tile buf = Some buf"
| "h265_tile_loop pps offsets i (Suc n) tile buf = do {
     tile \<leftarrow> h265_next_tile pps tile;
     let (tx, ty, x, y) = tile
     in do {
       offset \<leftarrow> at_index offsets i;
       h \<leftarrow> at_index (row_height_minus1 pps) ty;
       w \<leftarrow> at_index (column_width_minus1 pps) tx;
       buf \<leftarrow> put_word (i * 4 + 0) offset buf;
       buf \<leftarrow> put_word (i * 4 + 1) 0 buf;
       buf \<leftarrow> put_word (i * 4 + 2) (tile_word y x) buf;
       buf \<leftarrow> put_word (i * 4 + 3) (tile_word (y + unat h) (x + unat w)) buf;
       h265_tile_loop pps offsets (Suc i) n tile buf } }"

definition cedrus_dec_h265_tiles_write :: "h265_job \<Rightarrow> nat \<Rightarrow> nat \<Rightarrow> (nat \<Rightarrow> u32) \<Rightarrow> io_log \<Rightarrow>
    ((nat \<Rightarrow> u32) \<times> io_log) option" where
  "cedrus_dec_h265_tiles_write job ctb_addr_x ctb_addr_y buf log =
    (let pps = h5_pps job; n = unat (num_entry_point_offsets (h5_slice_params job)) in do {
       (tx, x) \<leftarrow> h265_find_tile (column_width_minus1 pps) (unat (num_tile_columns_minus1 pps) + 1) ctb_addr_x 0 0;
       (ty, y) \<leftarrow> h265_find_tile (row_height_minus1 pps) (unat (num_tile_rows_minus1 pps) + 1) ctb_addr_y 0 0;
       h \<leftarrow> at_index (row_height_minus1 pps) ty;
       w \<leftarrow> at_index (column_width_minus1 pps) tx;
       buf \<leftarrow> (if HEVC_PPS_FLAG_ENTROPY_CODING_SYNC_ENABLED \<in> hp_flags pps
         then h265_sync_loop (h5_entry_point_offsets job) 0 n buf
         else h265_tile_loop pps (h5_entry_point_offsets job) 0 n (tx, ty, x, y) buf);
       Some (buf, writes [(VE_DEC_H265_TILE_START_CTB, tile_word y x),
         (VE_DEC_H265_TILE_END_CTB, tile_word (y + unat h) (x + unat w))] log) })"

section \<open>The registers of a slice\<close>

definition h265_sps_value :: "hevc_sps \<Rightarrow> u32" where
  "h265_sps_value sps =
    (let value =
       VE_DEC_H265_DEC_SPS_HDR_MAX_TRANSFORM_HIERARCHY_DEPTH_INTRA (uint (max_transform_hierarchy_depth_intra sps)) OR
       VE_DEC_H265_DEC_SPS_HDR_MAX_TRANSFORM_HIERARCHY_DEPTH_INTER (uint (max_transform_hierarchy_depth_inter sps)) OR
       VE_DEC_H265_DEC_SPS_HDR_LOG2_DIFF_MAX_MIN_TRANSFORM_BLOCK_SIZE (uint (log2_diff_max_min_luma_transform_block_size sps)) OR
       VE_DEC_H265_DEC_SPS_HDR_LOG2_MIN_TRANSFORM_BLOCK_SIZE_MINUS2 (uint (log2_min_luma_transform_block_size_minus2 sps)) OR
       VE_DEC_H265_DEC_SPS_HDR_LOG2_DIFF_MAX_MIN_LUMA_CODING_BLOCK_SIZE (uint (log2_diff_max_min_luma_coding_block_size sps)) OR
       VE_DEC_H265_DEC_SPS_HDR_LOG2_MIN_LUMA_CODING_BLOCK_SIZE_MINUS3 (uint (log2_min_luma_coding_block_size_minus3 sps)) OR
       VE_DEC_H265_DEC_SPS_HDR_BIT_DEPTH_CHROMA_MINUS8 (uint (bit_depth_chroma_minus8 sps)) OR
       VE_DEC_H265_DEC_SPS_HDR_BIT_DEPTH_LUMA_MINUS8 (uint (bit_depth_luma_minus8 sps)) OR
       VE_DEC_H265_DEC_SPS_HDR_CHROMA_FORMAT_IDC (uint (hs_chroma_format_idc sps));
       value = value OR VE_DEC_H265_FLAG VE_DEC_H265_DEC_SPS_HDR_FLAG_STRONG_INTRA_SMOOTHING_ENABLE
         HEVC_SPS_FLAG_STRONG_INTRA_SMOOTHING_ENABLED (hs_flags sps);
       value = value OR VE_DEC_H265_FLAG VE_DEC_H265_DEC_SPS_HDR_FLAG_SPS_TEMPORAL_MVP_ENABLED
         HEVC_SPS_FLAG_SPS_TEMPORAL_MVP_ENABLED (hs_flags sps);
       value = value OR VE_DEC_H265_FLAG VE_DEC_H265_DEC_SPS_HDR_FLAG_SAMPLE_ADAPTIVE_OFFSET_ENABLED
         HEVC_SPS_FLAG_SAMPLE_ADAPTIVE_OFFSET (hs_flags sps);
       value = value OR VE_DEC_H265_FLAG VE_DEC_H265_DEC_SPS_HDR_FLAG_AMP_ENABLED HEVC_SPS_FLAG_AMP_ENABLED (hs_flags sps)
     in value OR VE_DEC_H265_FLAG VE_DEC_H265_DEC_SPS_HDR_FLAG_SEPARATE_COLOUR_PLANE
         HEVC_SPS_FLAG_SEPARATE_COLOUR_PLANE (hs_flags sps))"

definition h265_pcm_value :: "hevc_sps \<Rightarrow> u32" where
  "h265_pcm_value sps =
    (let value =
       VE_DEC_H265_DEC_PCM_CTRL_LOG2_DIFF_MAX_MIN_PCM_LUMA_CODING_BLOCK_SIZE (uint (log2_diff_max_min_pcm_luma_coding_block_size sps)) OR
       VE_DEC_H265_DEC_PCM_CTRL_LOG2_MIN_PCM_LUMA_CODING_BLOCK_SIZE_MINUS3 (uint (log2_min_pcm_luma_coding_block_size_minus3 sps)) OR
       VE_DEC_H265_DEC_PCM_CTRL_PCM_SAMPLE_BIT_DEPTH_CHROMA_MINUS1 (uint (pcm_sample_bit_depth_chroma_minus1 sps)) OR
       VE_DEC_H265_DEC_PCM_CTRL_PCM_SAMPLE_BIT_DEPTH_LUMA_MINUS1 (uint (pcm_sample_bit_depth_luma_minus1 sps));
       value = value OR VE_DEC_H265_FLAG VE_DEC_H265_DEC_PCM_CTRL_FLAG_PCM_ENABLED HEVC_SPS_FLAG_PCM_ENABLED (hs_flags sps)
     in value OR VE_DEC_H265_FLAG VE_DEC_H265_DEC_PCM_CTRL_FLAG_PCM_LOOP_FILTER_DISABLED
         HEVC_SPS_FLAG_PCM_LOOP_FILTER_DISABLED (hs_flags sps))"

definition h265_pps_value0 :: "hevc_pps \<Rightarrow> u32" where
  "h265_pps_value0 pps =
    (let value =
       VE_DEC_H265_DEC_PPS_CTRL0_PPS_CR_QP_OFFSET (pps_cr_qp_offset pps) OR
       VE_DEC_H265_DEC_PPS_CTRL0_PPS_CB_QP_OFFSET (pps_cb_qp_offset pps) OR
       VE_DEC_H265_DEC_PPS_CTRL0_INIT_QP_MINUS26 (hp_init_qp_minus26 pps) OR
       VE_DEC_H265_DEC_PPS_CTRL0_DIFF_CU_QP_DELTA_DEPTH (uint (diff_cu_qp_delta_depth pps));
       value = value OR VE_DEC_H265_FLAG VE_DEC_H265_DEC_PPS_CTRL0_FLAG_CU_QP_DELTA_ENABLED
         HEVC_PPS_FLAG_CU_QP_DELTA_ENABLED (hp_flags pps);
       value = value OR VE_DEC_H265_FLAG VE_DEC_H265_DEC_PPS_CTRL0_FLAG_TRANSFORM_SKIP_ENABLED
         HEVC_PPS_FLAG_TRANSFORM_SKIP_ENABLED (hp_flags pps);
       value = value OR VE_DEC_H265_FLAG VE_DEC_H265_DEC_PPS_CTRL0_FLAG_CONSTRAINED_INTRA_PRED
         HEVC_PPS_FLAG_CONSTRAINED_INTRA_PRED (hp_flags pps)
     in value OR VE_DEC_H265_FLAG VE_DEC_H265_DEC_PPS_CTRL0_FLAG_SIGN_DATA_HIDING_ENABLED
         HEVC_PPS_FLAG_SIGN_DATA_HIDING_ENABLED (hp_flags pps))"

definition h265_pps_value1 :: "hevc_pps \<Rightarrow> u32" where
  "h265_pps_value1 pps =
    (let value = VE_DEC_H265_DEC_PPS_CTRL1_LOG2_PARALLEL_MERGE_LEVEL_MINUS2 (uint (log2_parallel_merge_level_minus2 pps));
       value = value OR VE_DEC_H265_FLAG VE_DEC_H265_DEC_PPS_CTRL1_FLAG_PPS_LOOP_FILTER_ACROSS_SLICES_ENABLED
         HEVC_PPS_FLAG_PPS_LOOP_FILTER_ACROSS_SLICES_ENABLED (hp_flags pps);
       value = value OR VE_DEC_H265_FLAG VE_DEC_H265_DEC_PPS_CTRL1_FLAG_LOOP_FILTER_ACROSS_TILES_ENABLED
         HEVC_PPS_FLAG_LOOP_FILTER_ACROSS_TILES_ENABLED (hp_flags pps);
       value = value OR VE_DEC_H265_FLAG VE_DEC_H265_DEC_PPS_CTRL1_FLAG_ENTROPY_CODING_SYNC_ENABLED
         HEVC_PPS_FLAG_ENTROPY_CODING_SYNC_ENABLED (hp_flags pps);
       value = value OR VE_DEC_H265_FLAG VE_DEC_H265_DEC_PPS_CTRL1_FLAG_TILES_ENABLED
         HEVC_PPS_FLAG_TILES_ENABLED (hp_flags pps);
       value = value OR VE_DEC_H265_FLAG VE_DEC_H265_DEC_PPS_CTRL1_FLAG_TRANSQUANT_BYPASS_ENABLED
         HEVC_PPS_FLAG_TRANSQUANT_BYPASS_ENABLED (hp_flags pps);
       value = value OR VE_DEC_H265_FLAG VE_DEC_H265_DEC_PPS_CTRL1_FLAG_WEIGHTED_BIPRED
         HEVC_PPS_FLAG_WEIGHTED_BIPRED (hp_flags pps)
     in value OR VE_DEC_H265_FLAG VE_DEC_H265_DEC_PPS_CTRL1_FLAG_WEIGHTED_PRED
         HEVC_PPS_FLAG_WEIGHTED_PRED (hp_flags pps))"

definition hevc_slice_type_code :: "hevc_slice_type \<Rightarrow> int" where
  "hevc_slice_type_code st = (case st of HEVC_SLICE_TYPE_B \<Rightarrow> 0 | HEVC_SLICE_TYPE_P \<Rightarrow> 1 | HEVC_SLICE_TYPE_I \<Rightarrow> 2)"

definition h265_slice_value0 :: "hevc_slice_params \<Rightarrow> bool \<Rightarrow> u32" where
  "h265_slice_value0 sp new_frame =
    (let value =
       VE_DEC_H265_DEC_SLICE_HDR_INFO0_PICTURE_TYPE (uint (pic_struct sp)) OR
       VE_DEC_H265_DEC_SLICE_HDR_INFO0_FIVE_MINUS_MAX_NUM_MERGE_CAND (uint (five_minus_max_num_merge_cand sp)) OR
       VE_DEC_H265_DEC_SLICE_HDR_INFO0_NUM_REF_IDX_L1_ACTIVE_MINUS1 (uint (num_ref_idx_l1_active_minus1 sp)) OR
       VE_DEC_H265_DEC_SLICE_HDR_INFO0_NUM_REF_IDX_L0_ACTIVE_MINUS1 (uint (num_ref_idx_l0_active_minus1 sp)) OR
       VE_DEC_H265_DEC_SLICE_HDR_INFO0_COLLOCATED_REF_IDX (uint (collocated_ref_idx sp)) OR
       VE_DEC_H265_DEC_SLICE_HDR_INFO0_COLOUR_PLANE_ID (uint (colour_plane_id sp)) OR
       VE_DEC_H265_DEC_SLICE_HDR_INFO0_SLICE_TYPE (hevc_slice_type_code (hl_slice_type sp));
       value = value OR VE_DEC_H265_FLAG VE_DEC_H265_DEC_SLICE_HDR_INFO0_FLAG_COLLOCATED_FROM_L0
         HEVC_SLICE_PARAMS_FLAG_COLLOCATED_FROM_L0 (hl_flags sp);
       value = value OR VE_DEC_H265_FLAG VE_DEC_H265_DEC_SLICE_HDR_INFO0_FLAG_CABAC_INIT
         HEVC_SLICE_PARAMS_FLAG_CABAC_INIT (hl_flags sp);
       value = value OR VE_DEC_H265_FLAG VE_DEC_H265_DEC_SLICE_HDR_INFO0_FLAG_MVD_L1_ZERO
         HEVC_SLICE_PARAMS_FLAG_MVD_L1_ZERO (hl_flags sp);
       value = value OR VE_DEC_H265_FLAG VE_DEC_H265_DEC_SLICE_HDR_INFO0_FLAG_SLICE_SAO_CHROMA
         HEVC_SLICE_PARAMS_FLAG_SLICE_SAO_CHROMA (hl_flags sp);
       value = value OR VE_DEC_H265_FLAG VE_DEC_H265_DEC_SLICE_HDR_INFO0_FLAG_SLICE_SAO_LUMA
         HEVC_SLICE_PARAMS_FLAG_SLICE_SAO_LUMA (hl_flags sp);
       value = value OR VE_DEC_H265_FLAG VE_DEC_H265_DEC_SLICE_HDR_INFO0_FLAG_SLICE_TEMPORAL_MVP_ENABLE
         HEVC_SLICE_PARAMS_FLAG_SLICE_TEMPORAL_MVP_ENABLED (hl_flags sp);
       value = value OR VE_DEC_H265_FLAG VE_DEC_H265_DEC_SLICE_HDR_INFO0_FLAG_DEPENDENT_SLICE_SEGMENT
         HEVC_SLICE_PARAMS_FLAG_DEPENDENT_SLICE_SEGMENT (hl_flags sp)
     in if new_frame then value OR VE_DEC_H265_DEC_SLICE_HDR_INFO0_FLAG_FIRST_SLICE_SEGMENT_IN_PIC else value)"

definition h265_slice_value1 :: "hevc_slice_params \<Rightarrow> bool \<Rightarrow> u32" where
  "h265_slice_value1 sp low_delay =
    (let value =
       VE_DEC_H265_DEC_SLICE_HDR_INFO1_SLICE_TC_OFFSET_DIV2 (slice_tc_offset_div2 sp) OR
       VE_DEC_H265_DEC_SLICE_HDR_INFO1_SLICE_BETA_OFFSET_DIV2 (slice_beta_offset_div2 sp) OR
       VE_DEC_H265_DEC_SLICE_HDR_INFO1_SLICE_CR_QP_OFFSET (slice_cr_qp_offset sp) OR
       VE_DEC_H265_DEC_SLICE_HDR_INFO1_SLICE_CB_QP_OFFSET (slice_cb_qp_offset sp) OR
       VE_DEC_H265_DEC_SLICE_HDR_INFO1_SLICE_QP_DELTA (hl_slice_qp_delta sp);
       value = value OR VE_DEC_H265_FLAG VE_DEC_H265_DEC_SLICE_HDR_INFO1_FLAG_SLICE_DEBLOCKING_FILTER_DISABLED
         HEVC_SLICE_PARAMS_FLAG_SLICE_DEBLOCKING_FILTER_DISABLED (hl_flags sp);
       value = value OR VE_DEC_H265_FLAG VE_DEC_H265_DEC_SLICE_HDR_INFO1_FLAG_SLICE_LOOP_FILTER_ACROSS_SLICES_ENABLED
         HEVC_SLICE_PARAMS_FLAG_SLICE_LOOP_FILTER_ACROSS_SLICES_ENABLED (hl_flags sp)
     in if hl_slice_type sp \<noteq> HEVC_SLICE_TYPE_I \<and> \<not> low_delay
        then value OR VE_DEC_H265_DEC_SLICE_HDR_INFO1_FLAG_SLICE_NOT_LOW_DELAY else value)"

text \<open>The denominators are added as 32-bit words.\<close>

definition h265_slice_value2 :: "hevc_slice_params \<Rightarrow> u32" where
  "h265_slice_value2 sp =
    (let pw = pred_weight_table sp;
         chroma_log2_weight_denom = ucast (hw_luma_log2_weight_denom pw) + word_of_int (delta_chroma_log2_weight_denom pw) :: u32
     in VE_DEC_H265_DEC_SLICE_HDR_INFO2_NUM_ENTRY_POINT_OFFSETS (uint (num_entry_point_offsets sp)) OR
        VE_DEC_H265_DEC_SLICE_HDR_INFO2_CHROMA_LOG2_WEIGHT_DENOM (uint chroma_log2_weight_denom) OR
        VE_DEC_H265_DEC_SLICE_HDR_INFO2_LUMA_LOG2_WEIGHT_DENOM (uint (hw_luma_log2_weight_denom pw)))"

definition h265_source_registers :: "u64 \<times> u32 \<Rightarrow> nat \<Rightarrow> nat \<Rightarrow> (u32 \<times> u32) list" where
  "h265_source_registers = (\<lambda>(coded_addr, coded_size) ctb_addr_x ctb_addr_y.
    [(VE_DEC_H265_BITS_OFFSET, 0), (VE_DEC_H265_BITS_LEN, coded_size * 8),
     (VE_DEC_H265_BITS_ADDR, VE_DEC_H265_BITS_ADDR_BASE coded_addr OR VE_DEC_H265_BITS_ADDR_VALID_SLICE_DATA OR
       VE_DEC_H265_BITS_ADDR_LAST_SLICE_DATA OR VE_DEC_H265_BITS_ADDR_FIRST_SLICE_DATA),
     (VE_DEC_H265_BITS_END_ADDR, VE_DEC_H265_BITS_END_ADDR_BASE (coded_addr + ucast coded_size)),
     (VE_DEC_H265_DEC_CTB_ADDR, VE_DEC_H265_DEC_CTB_ADDR_X (int ctb_addr_x) OR VE_DEC_H265_DEC_CTB_ADDR_Y (int ctb_addr_y))])"

definition h265_param_registers :: "h265_context \<Rightarrow> pix_format \<Rightarrow> h265_job \<Rightarrow> bool \<Rightarrow> bool \<Rightarrow> (u32 \<times> u32) list" where
  "h265_param_registers ctx coded job new_frame low_delay =
    (let sp = h5_slice_params job; sps = h5_sps job; pps = h5_pps job
     in [(VE_DEC_H265_DEC_NAL_HDR, VE_DEC_H265_DEC_NAL_HDR_NAL_UNIT_TYPE (uint (nal_unit_type sp)) OR
          VE_DEC_H265_DEC_NAL_HDR_NUH_TEMPORAL_ID_PLUS1 (uint (nuh_temporal_id_plus1 sp))),
         (VE_DEC_H265_DEC_SPS_HDR, h265_sps_value sps), (VE_DEC_H265_DEC_PCM_CTRL, h265_pcm_value sps),
         (VE_DEC_H265_DEC_PPS_CTRL0, h265_pps_value0 pps), (VE_DEC_H265_DEC_PPS_CTRL1, h265_pps_value1 pps),
         (VE_DEC_H265_DEC_SLICE_HDR_INFO0, h265_slice_value0 sp new_frame),
         (VE_DEC_H265_DEC_SLICE_HDR_INFO1, h265_slice_value1 sp low_delay),
         (VE_DEC_H265_DEC_SLICE_HDR_INFO2, h265_slice_value2 sp),
         (VE_DEC_H265_ENTRY_POINT_OFFSET_ADDR, VE_DEC_H265_ENTRY_POINT_OFFSET_ADDR_BASE (the (h5_entry_points_buf_addr ctx))),
         (VE_DEC_H265_DEC_PIC_SIZE, VE_DEC_H265_DEC_PIC_SIZE_WIDTH (pix_width coded) OR
           VE_DEC_H265_DEC_PIC_SIZE_HEIGHT (pix_height coded))])"

definition h265_scaling_registers :: "h265_context \<Rightarrow> h265_job \<Rightarrow> io_log \<Rightarrow> io_log" where
  "h265_scaling_registers ctx job log =
    (let (value, log) = (if HEVC_SPS_FLAG_SCALING_LIST_ENABLED \<in> hs_flags (h5_sps job)
           then (VE_DEC_H265_SCALING_LIST_CTRL0_FLAG_ENABLED, cedrus_dec_h265_scaling_list_write (h5_scaling_matrix job) log)
           else (VE_DEC_H265_SCALING_LIST_CTRL0_DEFAULT, log))
     in writes [(VE_DEC_H265_SCALING_LIST_CTRL0, value),
          (VE_DEC_H265_NEIGHBOR_INFO_ADDR, VE_DEC_H265_NEIGHBOR_INFO_ADDR_BASE (the (h5_neighbor_info_buf_addr ctx)))] log)"

text \<open>The frame information of the references and of the picture, the reference lists and the weights.\<close>

definition h265_reference_tables :: "h265_buffer picture_find \<Rightarrow> pix_format \<Rightarrow> h265_job \<Rightarrow> nat \<Rightarrow> h265_pictures \<Rightarrow>
    io_log \<Rightarrow> io_log option" where
  "h265_reference_tables lookup pix job cur pics log =
    (let sp = h5_slice_params job; pw = pred_weight_table sp; dpb = hd_dpb (h5_decode_params job); pps = h5_pps job
     in do {
       log \<leftarrow> cedrus_dec_h265_frame_info_write_dpb lookup pix pics dpb (num_active_dpb_entries (h5_decode_params job)) log;
       let log = cedrus_dec_h265_frame_info_write_single pix (pics ! cur) V4L2_HEVC_DPB_ENTRIES_NUM_MAX (pic_struct sp \<noteq> 0)
             (slice_pic_order_cnt sp) (slice_pic_order_cnt sp) log;
           log = cedrus_write VE_DEC_H265_OUTPUT_FRAME_IDX (word_of_nat V4L2_HEVC_DPB_ENTRIES_NUM_MAX) log
       in do {
         log \<leftarrow> (if hl_slice_type sp \<noteq> HEVC_SLICE_TYPE_I then do {
             log \<leftarrow> cedrus_dec_h265_ref_pic_list_write dpb (ref_idx_l0 sp) (num_ref_idx_l0_active_minus1 sp + 1)
               VE_DEC_H265_SRAM_OFFSET_REF_PIC_LIST0 log;
             if HEVC_PPS_FLAG_WEIGHTED_PRED \<in> hp_flags pps \<or> HEVC_PPS_FLAG_WEIGHTED_BIPRED \<in> hp_flags pps
             then cedrus_dec_h265_pred_weight_write (delta_luma_weight_l0 pw) (luma_offset_l0 pw)
               (delta_chroma_weight_l0 pw) (chroma_offset_l0 pw) (num_ref_idx_l0_active_minus1 sp + 1)
               VE_DEC_H265_SRAM_OFFSET_PRED_WEIGHT_LUMA_L0 VE_DEC_H265_SRAM_OFFSET_PRED_WEIGHT_CHROMA_L0 log
             else Some log } else Some log);
         if hl_slice_type sp = HEVC_SLICE_TYPE_B then do {
             log \<leftarrow> cedrus_dec_h265_ref_pic_list_write dpb (ref_idx_l1 sp) (num_ref_idx_l1_active_minus1 sp + 1)
               VE_DEC_H265_SRAM_OFFSET_REF_PIC_LIST1 log;
             if HEVC_PPS_FLAG_WEIGHTED_BIPRED \<in> hp_flags pps
             then cedrus_dec_h265_pred_weight_write (delta_luma_weight_l1 pw) (luma_offset_l1 pw)
               (delta_chroma_weight_l1 pw) (chroma_offset_l1 pw) (num_ref_idx_l1_active_minus1 sp + 1)
               VE_DEC_H265_SRAM_OFFSET_PRED_WEIGHT_LUMA_L1 VE_DEC_H265_SRAM_OFFSET_PRED_WEIGHT_CHROMA_L1 log
             else Some log }
         else Some log } })"

section \<open>A job\<close>

text \<open>The job holds the controls of the request; the entry points come with their count, here the length.\<close>

definition cedrus_dec_h265_job_prepare :: "hevc_sps \<Rightarrow> hevc_pps \<Rightarrow> hevc_scaling_matrix \<Rightarrow> hevc_slice_params \<Rightarrow>
    u32 list \<Rightarrow> hevc_decode_params \<Rightarrow> errno option \<times> h265_job" where
  "cedrus_dec_h265_job_prepare sps pps scaling slice_params entry_points decode = (None,
     \<lparr>h5_sps = sps, h5_pps = pps, h5_scaling_matrix = scaling, h5_slice_params = slice_params,
      h5_entry_point_offsets = entry_points, h5_decode_params = decode\<rparr>)"

text \<open>\<open>1UL << log2\<close> cut to an \<open>unsigned int\<close>: from 32 on it is zero, or has no meaning at all, and the
  divisions by it have none.\<close>

definition h265_ctb_size :: "hevc_sps \<Rightarrow> u32 option" where
  "h265_ctb_size sps =
    (let log2 = unat (log2_min_luma_coding_block_size_minus3 sps) + 3 + unat (log2_diff_max_min_luma_coding_block_size sps)
     in if log2 < 32 then Some (2 ^ log2) else None)"

definition h265_write_slice :: "hw_read \<Rightarrow> h265_buffer picture_find \<Rightarrow> pix_format \<Rightarrow> pix_format \<Rightarrow> u64 \<times> u32 \<Rightarrow>
    h265_job \<Rightarrow> bool \<Rightarrow> nat \<Rightarrow> h265_pictures \<Rightarrow> u32 \<Rightarrow> h265_context \<Rightarrow> io_log \<Rightarrow>
    (errno option \<times> h265_context \<times> io_log) option" where
  "h265_write_slice hw lookup coded picture stream job new_frame cur pics width_in_ctb ctx log =
    (let sp = h5_slice_params job;
         ctb_addr_x = unat (slice_segment_addr sp mod width_in_ctb);
         ctb_addr_y = unat (slice_segment_addr sp div width_in_ctb);
         log = writes (h265_source_registers stream ctb_addr_x ctb_addr_y) log
     in do {
       (buf, log) \<leftarrow>
         (if HEVC_PPS_FLAG_TILES_ENABLED \<in> hp_flags (h5_pps job) \<or>
             HEVC_PPS_FLAG_ENTROPY_CODING_SYNC_ENABLED \<in> hp_flags (h5_pps job)
          then cedrus_dec_h265_tiles_write job ctb_addr_x ctb_addr_y (h5_entry_points_buf ctx) log
          else Some (h5_entry_points_buf ctx,
            writes [(VE_DEC_H265_TILE_START_CTB, 0), (VE_DEC_H265_TILE_END_CTB, 0)] log));
       let ctx = ctx\<lparr>h5_entry_points_buf := buf\<rparr>;
           log = (if new_frame then cedrus_write VE_DEC_H265_DEC_CTB_NUM 0 log else log);
           log = cedrus_write VE_DEC_H265_TRIGGER VE_DEC_H265_TRIGGER_INIT_SWDEC log;
           (ret, log) = h265_skip_header hw (data_byte_offset sp) log
       in if ret \<noteq> None then Some (ret, ctx, log)
          else do {
            low_delay \<leftarrow> (if hl_slice_type sp = HEVC_SLICE_TYPE_I then Some False else cedrus_h265_is_low_delay job);
            log \<leftarrow> h265_reference_tables lookup picture job cur pics
              (h265_scaling_registers ctx job (writes (h265_param_registers ctx coded job new_frame low_delay) log));
            Some (None, ctx, cedrus_write VE_DEC_H265_CTRL VE_DEC_H265_CTRL_IRQ_MASK log) } })"

definition cedrus_dec_h265_job_configure :: "hw_read \<Rightarrow> h265_buffer picture_find \<Rightarrow> dma_alloc \<Rightarrow> pix_format \<Rightarrow>
    pix_format \<Rightarrow> u64 \<times> u32 \<Rightarrow> h265_job \<Rightarrow> bool \<Rightarrow> nat \<Rightarrow> h265_context \<Rightarrow> h265_pictures \<Rightarrow> dma_heap \<Rightarrow> io_log \<Rightarrow>
    (errno option \<times> h265_context \<times> h265_pictures \<times> dma_heap \<times> io_log) option" where
  "cedrus_dec_h265_job_configure hw lookup alloc coded picture stream job new_frame cur ctx pics heap log =
    (let num = num_entry_point_offsets (h5_slice_params job)
     in if num \<noteq> 0 \<and> unat num \<noteq> length (h5_entry_point_offsets job) then Some (Some ERANGE, ctx, pics, heap, log)
        else do {
          ctb_size_luma \<leftarrow> h265_ctb_size (h5_sps job);
          let width_in_ctb = div_round_up (ucast (pic_width_in_luma_samples (h5_sps job))) ctb_size_luma;
              (ret, buf, heap) = h265_ensure_mv_col alloc coded ctb_size_luma (pic_engine (pics ! cur)) heap;
              pics = pics[cur := (pics ! cur)\<lparr>pic_engine := buf\<rparr>]
          in if ret \<noteq> None then Some (ret, ctx, pics, heap, log)
             else if width_in_ctb = 0 then None
             else do {
               (ret, ctx, log) \<leftarrow> h265_write_slice hw lookup coded picture stream job new_frame cur pics width_in_ctb ctx log;
               Some (ret, ctx, pics, heap, log) } })"

definition cedrus_dec_h265_job_trigger :: "io_log \<Rightarrow> io_log" where
  "cedrus_dec_h265_job_trigger log = cedrus_write VE_DEC_H265_TRIGGER VE_DEC_H265_TRIGGER_DEC_SLICE log"

section \<open>Interrupts\<close>

definition cedrus_dec_h265_irq_status :: "hw_read \<Rightarrow> io_log \<Rightarrow> cedrus_irq_status" where
  "cedrus_dec_h265_irq_status hw log =
    (let status = cedrus_read hw VE_DEC_H265_STATUS log AND VE_DEC_H265_STATUS_CHECK_MASK
     in if status = 0 then CEDRUS_IRQ_NONE
        else if status AND VE_DEC_H265_STATUS_SUCCESS = 0 \<or> status AND VE_DEC_H265_STATUS_CHECK_ERROR \<noteq> 0
        then CEDRUS_IRQ_ERROR else CEDRUS_IRQ_SUCCESS)"

definition cedrus_dec_h265_irq_clear :: "io_log \<Rightarrow> io_log" where
  "cedrus_dec_h265_irq_clear log = cedrus_write VE_DEC_H265_STATUS VE_DEC_H265_STATUS_CHECK_MASK log"

definition cedrus_dec_h265_irq_disable :: "hw_read \<Rightarrow> io_log \<Rightarrow> io_log" where
  "cedrus_dec_h265_irq_disable hw log =
    cedrus_write VE_DEC_H265_CTRL (cedrus_read hw VE_DEC_H265_CTRL log AND NOT VE_DEC_H265_CTRL_IRQ_MASK) log"

end
