(* ===== verification/H265_Dec_Tiles.thy ===== *)
theory H265_Dec_Tiles
  imports Cedrus_Dec_H265
begin

text \<open>The tiles and entry points of an H.265 slice, against the tile structure of the standard (6.5.1), and
  the end of the slice header.\<close>

section \<open>The tile structure\<close>

text \<open>Where a column or row of tiles starts, in coding tree blocks.\<close>

definition tile_bd :: "u8 list \<Rightarrow> nat \<Rightarrow> nat" where
  "tile_bd sizes t = sum_list (map (\<lambda>s. unat s + 1) (take t sizes))"

definition tile_columns :: "hevc_pps \<Rightarrow> nat" where
  "tile_columns pps = unat (num_tile_columns_minus1 pps) + 1"

definition tile_rows :: "hevc_pps \<Rightarrow> nat" where
  "tile_rows pps = unat (num_tile_rows_minus1 pps) + 1"

text \<open>The corners of tile \<open>t\<close>, in raster order.\<close>

definition tile_first :: "hevc_pps \<Rightarrow> nat \<Rightarrow> u32" where
  "tile_first pps t = tile_word (tile_bd (row_height_minus1 pps) (t div tile_columns pps))
     (tile_bd (column_width_minus1 pps) (t mod tile_columns pps))"

definition tile_last :: "hevc_pps \<Rightarrow> nat \<Rightarrow> u32" where
  "tile_last pps t = tile_word (tile_bd (row_height_minus1 pps) (t div tile_columns pps + 1) - 1)
     (tile_bd (column_width_minus1 pps) (t mod tile_columns pps + 1) - 1)"

text \<open>Tile \<open>t\<close> contains a block.\<close>

definition in_h265_tile :: "hevc_pps \<Rightarrow> nat \<Rightarrow> nat \<Rightarrow> nat \<Rightarrow> bool" where
  "in_h265_tile pps t x y \<longleftrightarrow>
    tile_bd (column_width_minus1 pps) (t mod tile_columns pps) \<le> x \<and>
    x < tile_bd (column_width_minus1 pps) (t mod tile_columns pps + 1) \<and>
    tile_bd (row_height_minus1 pps) (t div tile_columns pps) \<le> y \<and>
    y < tile_bd (row_height_minus1 pps) (t div tile_columns pps + 1)"

text \<open>Parameter sets the standard allows: the tiles cover a picture of \<open>w\<close> by \<open>h\<close> blocks.\<close>

definition tiles_ok :: "hevc_pps \<Rightarrow> nat \<Rightarrow> nat \<Rightarrow> bool" where
  "tiles_ok pps w h \<longleftrightarrow> length (column_width_minus1 pps) = 20 \<and> length (row_height_minus1 pps) = 22 \<and>
    tile_columns pps \<le> 20 \<and> tile_rows pps \<le> 22 \<and>
    tile_bd (column_width_minus1 pps) (tile_columns pps) = w \<and> tile_bd (row_height_minus1 pps) (tile_rows pps) = h"

lemma tile_bd_0 [simp]: "tile_bd sizes 0 = 0"
  by (simp add: tile_bd_def)

lemma tile_bd_Suc: "t < length sizes \<Longrightarrow> tile_bd sizes (Suc t) = tile_bd sizes t + unat (sizes ! t) + 1"
  by (simp add: tile_bd_def take_Suc_conv_app_nth)

declare h265_find_tile.simps [simp del] cedrus_dec_h265_bits_skip.simps [simp del]

lemma find_tile:
  assumes "num \<le> length sizes" "addr < tile_bd sizes num" "t \<le> num" "tile_bd sizes t \<le> addr"
  shows "\<exists>t'<num. h265_find_tile sizes num addr t (tile_bd sizes t) = Some (t', tile_bd sizes t') \<and>
    tile_bd sizes t' \<le> addr \<and> addr < tile_bd sizes (t' + 1)"
  using assms
proof (induction "num - t" arbitrary: t)
  case 0
  then have "t = num" by simp
  then show ?case using 0 by simp
next
  case (Suc n)
  then have t: "t < num" "t < length sizes" by simp_all
  note bd = tile_bd_Suc[OF t(2)]
  show ?case
  proof (cases "addr < tile_bd sizes t + unat (sizes ! t) + 1")
    case True
    then show ?thesis using t Suc.prems bd
      by (intro exI[of _ t]) (simp add: h265_find_tile.simps[of sizes num addr t] at_index_def)
  next
    case False
    have "\<exists>t'<num. h265_find_tile sizes num addr (Suc t) (tile_bd sizes (Suc t)) = Some (t', tile_bd sizes t') \<and>
        tile_bd sizes t' \<le> addr \<and> addr < tile_bd sizes (t' + 1)"
      by (rule Suc.hyps(1)) (use Suc False t bd in simp_all)
    moreover have "h265_find_tile sizes num addr t (tile_bd sizes t) =
        h265_find_tile sizes num addr (Suc t) (tile_bd sizes (Suc t))"
      using False t by (simp add: h265_find_tile.simps[of sizes num addr t] at_index_def bd add.assoc)
    ultimately show ?thesis by simp
  qed
qed

text \<open>The loop is at tile \<open>t\<close> of the raster order.\<close>

definition at_tile :: "hevc_pps \<Rightarrow> nat \<Rightarrow> nat \<times> nat \<times> nat \<times> nat" where
  "at_tile pps t = (t mod tile_columns pps, t div tile_columns pps,
     tile_bd (column_width_minus1 pps) (t mod tile_columns pps), tile_bd (row_height_minus1 pps) (t div tile_columns pps))"

lemma next_tile_cases:
  "h265_next_tile pps (tx, ty, x, y) =
    (if tile_columns pps \<le> tx + 1
     then do { h \<leftarrow> at_index (row_height_minus1 pps) ty; Some (0, ty + 1, 0, y + unat h + 1) }
     else do { w \<leftarrow> at_index (column_width_minus1 pps) tx; Some (tx + 1, ty, x + unat w + 1, y) })"
  by (simp add: h265_next_tile_def tile_columns_def)

lemma tile_coordinates:
  assumes "tiles_ok pps w h" "t < tile_columns pps * tile_rows pps"
  shows "t mod tile_columns pps < tile_columns pps" "t mod tile_columns pps < length (column_width_minus1 pps)"
    "t div tile_columns pps < length (row_height_minus1 pps)"
proof -
  have c: "0 < tile_columns pps" by (simp add: tile_columns_def)
  show tx: "t mod tile_columns pps < tile_columns pps" by (rule mod_less_divisor[OF c])
  then show "t mod tile_columns pps < length (column_width_minus1 pps)" using assms(1) by (simp add: tiles_ok_def)
  have "t div tile_columns pps < tile_rows pps"
    using assms(2) by (simp add: less_mult_imp_div_less mult.commute)
  then show "t div tile_columns pps < length (row_height_minus1 pps)" using assms(1) by (simp add: tiles_ok_def)
qed

lemma next_tile:
  assumes "tiles_ok pps w h" "t < tile_columns pps * tile_rows pps"
  shows "h265_next_tile pps (at_tile pps t) = Some (at_tile pps (t + 1))"
  using tile_coordinates[OF assms]
  by (cases "Suc (t mod tile_columns pps) = tile_columns pps")
    (simp_all add: next_tile_cases at_tile_def at_index_def mod_Suc div_Suc tile_bd_Suc)

lemma tile_corners:
  assumes "tiles_ok pps w h" "t < tile_columns pps * tile_rows pps" "at_tile pps t = (tx, ty, x, y)"
  shows "tile_word y x = tile_first pps t" "at_index (row_height_minus1 pps) ty = Some (row_height_minus1 pps ! ty)"
    "at_index (column_width_minus1 pps) tx = Some (column_width_minus1 pps ! tx)"
    "tile_word (y + unat (row_height_minus1 pps ! ty)) (x + unat (column_width_minus1 pps ! tx)) = tile_last pps t"
  using tile_coordinates[OF assms(1,2)] assms(3)
  by (auto simp: at_tile_def tile_first_def tile_last_def at_index_def tile_bd_Suc)

text \<open>The record of an entry point.\<close>

definition entry_record :: "hevc_pps \<Rightarrow> u32 \<Rightarrow> nat \<Rightarrow> u32 list" where
  "entry_record pps offset t = [offset, 0, tile_first pps t, tile_last pps t]"

lemma put_record:
  assumes "i < 256"
  shows "do { buf \<leftarrow> put_word (i * 4 + 0) a buf; buf \<leftarrow> put_word (i * 4 + 1) b buf;
      buf \<leftarrow> put_word (i * 4 + 2) c buf; buf \<leftarrow> put_word (i * 4 + 3) d buf; f buf } =
    f (put_block (i * 4) [a, b, c, d] buf)"
proof -
  have "buf(i * 4 := a, Suc (i * 4) := b, i * 4 + 2 := c, i * 4 + 3 := d) = put_block (i * 4) [a, b, c, d] buf"
    by (rule ext) (auto simp: put_block_def nth_Cons' split: nat.splits)
  then show ?thesis using assms by (simp add: put_word_def CEDRUS_DEC_H265_ENTRY_POINTS_BUF_SIZE_def)
qed

lemma tile_loop:
  assumes "tiles_ok pps w h" "t + n < tile_columns pps * tile_rows pps" "i + n \<le> length offsets" "i + n \<le> 256"
  shows "h265_tile_loop pps offsets i n (at_tile pps t) buf = Some (fold
    (\<lambda>k. put_block ((i + k) * 4) (entry_record pps (offsets ! (i + k)) (t + 1 + k))) [0..<n] buf)"
  using assms(2-4)
proof (induction n arbitrary: i t buf)
  case (Suc n)
  obtain tx ty x y where tile: "at_tile pps (t + 1) = (tx, ty, x, y)" by (metis prod_cases4)
  have t: "t + 1 < tile_columns pps * tile_rows pps" using Suc.prems(1) by simp
  note c = tile_corners[OF assms(1) t tile] 
  have nxt': "h265_next_tile pps (at_tile pps t) = Some (tx, ty, x, y)"
    using next_tile[OF assms(1), of t] t tile by simp
  have offset: "at_index offsets i = Some (offsets ! i)" using Suc.prems(2) by (simp add: at_index_def)
  have IH: "h265_tile_loop pps offsets (Suc i) n (at_tile pps (t + 1)) b = Some (fold
      (\<lambda>k. put_block ((Suc i + k) * 4) (entry_record pps (offsets ! (Suc i + k)) (t + 1 + 1 + k))) [0..<n] b)" for b
    by (rule Suc.IH) (use Suc.prems in simp_all)
  have up: "[0..<Suc n] = 0 # map Suc [0..<n]" by (simp add: upt_conv_Cons map_Suc_upt del: upt_Suc)
  have "h265_tile_loop pps offsets i (Suc n) (at_tile pps t) buf =
      h265_tile_loop pps offsets (Suc i) n (at_tile pps (t + 1))
        (put_block (i * 4) (entry_record pps (offsets ! i) (t + 1)) buf)"
    using nxt' offset put_record[where i = i and a = "offsets ! i" and b = 0 and c = "tile_first pps (t + 1)" and
        d = "tile_last pps (t + 1)" and buf = buf and f = "h265_tile_loop pps offsets (Suc i) n (tx, ty, x, y)"] Suc.prems(3)
    by (simp only: h265_tile_loop.simps Option.bind_lunit Let_def prod.case c tile entry_record_def)
  also have "\<dots> = Some (fold (\<lambda>k. put_block ((i + k) * 4) (entry_record pps (offsets ! (i + k)) (t + 1 + k)))
      [0..<Suc n] buf)"
    unfolding IH up by (simp add: fold_map comp_def add.left_commute add.assoc)
  finally show ?case .
qed simp


definition tiles_tile :: "hevc_pps \<Rightarrow> nat \<Rightarrow> nat \<Rightarrow> nat \<Rightarrow> bool" where
  "tiles_tile pps x y t \<longleftrightarrow> t < tile_columns pps * tile_rows pps \<and> in_h265_tile pps t x y"

lemma find_tiles:
  assumes "tiles_ok pps w h" "x < w" "y < h"
  shows "\<exists>t. tiles_tile pps x y t \<and>
    h265_find_tile (column_width_minus1 pps) (tile_columns pps) x 0 0 =
      Some (t mod tile_columns pps, tile_bd (column_width_minus1 pps) (t mod tile_columns pps)) \<and>
    h265_find_tile (row_height_minus1 pps) (tile_rows pps) y 0 0 =
      Some (t div tile_columns pps, tile_bd (row_height_minus1 pps) (t div tile_columns pps))"
proof -
  obtain tx where tx: "tx < tile_columns pps"
      "h265_find_tile (column_width_minus1 pps) (tile_columns pps) x 0 0 = Some (tx, tile_bd (column_width_minus1 pps) tx)"
      "tile_bd (column_width_minus1 pps) tx \<le> x" "x < tile_bd (column_width_minus1 pps) (tx + 1)"
    using find_tile[of "tile_columns pps" "column_width_minus1 pps" x 0] assms by (auto simp: tiles_ok_def)
  obtain ty where ty: "ty < tile_rows pps"
      "h265_find_tile (row_height_minus1 pps) (tile_rows pps) y 0 0 = Some (ty, tile_bd (row_height_minus1 pps) ty)"
      "tile_bd (row_height_minus1 pps) ty \<le> y" "y < tile_bd (row_height_minus1 pps) (ty + 1)"
    using find_tile[of "tile_rows pps" "row_height_minus1 pps" y 0] assms by (auto simp: tiles_ok_def)
  let ?t = "ty * tile_columns pps + tx"
  have m: "?t mod tile_columns pps = tx" "?t div tile_columns pps = ty" using tx(1) by simp_all
  have "ty * tile_columns pps + tx < Suc ty * tile_columns pps" using tx(1) by simp
  also have "\<dots> \<le> tile_rows pps * tile_columns pps" using ty(1) by (intro mult_le_mono1) simp
  finally have "?t < tile_columns pps * tile_rows pps" by (simp add: mult.commute)
  then show ?thesis using tx ty m by (intro exI[of _ ?t]) (simp add: tiles_tile_def in_h265_tile_def)
qed

text \<open>Tiles do not overlap.\<close>

lemma tile_bd_mono:
  assumes "t \<le> t'" "t' \<le> length sizes"
  shows "tile_bd sizes t \<le> tile_bd sizes t'"
  using assms by (induction t' rule: dec_induct) (simp_all add: tile_bd_Suc)

lemma tile_bd_unique:
  assumes "tile_bd sizes t \<le> x" "x < tile_bd sizes (t + 1)" "tile_bd sizes t' \<le> x" "x < tile_bd sizes (t' + 1)"
    "t < length sizes" "t' < length sizes"
  shows "t = t'"
proof (rule ccontr)
  assume "t \<noteq> t'"
  then consider "t + 1 \<le> t'" | "t' + 1 \<le> t" by linarith
  then show False
    by cases (use tile_bd_mono[of "t + 1" t' sizes] tile_bd_mono[of "t' + 1" t sizes] assms in simp_all)
qed

lemma tile_unique:
  assumes "tiles_ok pps w h" "tiles_tile pps x y t" "tiles_tile pps x y t'"
  shows "t = t'"
proof -
  have "t mod tile_columns pps = t' mod tile_columns pps"
    by (rule tile_bd_unique[of "column_width_minus1 pps" _ x])
      (use assms tile_coordinates[OF assms(1)] in \<open>simp_all add: tiles_tile_def in_h265_tile_def\<close>)
  moreover have "t div tile_columns pps = t' div tile_columns pps"
    by (rule tile_bd_unique[of "row_height_minus1 pps" _ y])
      (use assms tile_coordinates[OF assms(1)] in \<open>simp_all add: tiles_tile_def in_h265_tile_def\<close>)
  ultimately show ?thesis by (metis div_mult_mod_eq)
qed

lemma tiles_write_value:
  assumes "tiles_ok (h5_pps job) w h" "x < w" "y < h" "tiles_tile (h5_pps job) x y t"
    and "HEVC_PPS_FLAG_ENTROPY_CODING_SYNC_ENABLED \<notin> hp_flags (h5_pps job)"
    and "n = unat (num_entry_point_offsets (h5_slice_params job))" "length (h5_entry_point_offsets job) = n" "n \<le> 256"
    and "t + n < tile_columns (h5_pps job) * tile_rows (h5_pps job)"
  shows "cedrus_dec_h265_tiles_write job x y buf log = Some (fold
      (\<lambda>k. put_block (k * 4) (entry_record (h5_pps job) (h5_entry_point_offsets job ! k) (t + 1 + k))) [0..<n] buf,
    writes [(VE_DEC_H265_TILE_START_CTB, tile_first (h5_pps job) t), (VE_DEC_H265_TILE_END_CTB, tile_last (h5_pps job) t)] log)"
proof -
  let ?pps = "h5_pps job"
  obtain t' where f: "tiles_tile ?pps x y t'"
    "h265_find_tile (column_width_minus1 ?pps) (tile_columns ?pps) x 0 0 =
      Some (t' mod tile_columns ?pps, tile_bd (column_width_minus1 ?pps) (t' mod tile_columns ?pps))"
    "h265_find_tile (row_height_minus1 ?pps) (tile_rows ?pps) y 0 0 =
      Some (t' div tile_columns ?pps, tile_bd (row_height_minus1 ?pps) (t' div tile_columns ?pps))"
    using find_tiles[OF assms(1-3)] by blast
  have "t' = t" by (rule tile_unique[OF assms(1) f(1) assms(4)])
  note f = f(2,3)[unfolded this, unfolded tile_columns_def[of ?pps] tile_rows_def[of ?pps], folded tile_columns_def[of ?pps]]
  have t: "t < tile_columns ?pps * tile_rows ?pps" using assms(4) by (simp add: tiles_tile_def)
  note c = tile_corners[OF assms(1) t at_tile_def]
  have "h265_tile_loop ?pps (h5_entry_point_offsets job) 0 n (at_tile ?pps t) buf = Some (fold
      (\<lambda>k. put_block ((0 + k) * 4) (entry_record ?pps (h5_entry_point_offsets job ! (0 + k)) (t + 1 + k))) [0..<n] buf)"
    by (rule tile_loop[OF assms(1)]) (use assms in simp_all)
  then show ?thesis
    using f c assms(5) unfolding cedrus_dec_h265_tiles_write_def Let_def assms(6)[symmetric]
    by (simp add: at_tile_def tile_columns_def[of ?pps] tile_rows_def[of ?pps])
qed


text \<open>A corner, read back from a word.\<close>

definition corner :: "u32 \<Rightarrow> nat \<Rightarrow> nat \<Rightarrow> bool" where
  "corner v x y \<longleftrightarrow> field 15 0 v = int x \<and> field 31 16 v = int y"

definition first_corner :: "hevc_pps \<Rightarrow> nat \<Rightarrow> u32 \<Rightarrow> bool" where
  "first_corner pps t v \<longleftrightarrow> corner v (tile_bd (column_width_minus1 pps) (t mod tile_columns pps))
     (tile_bd (row_height_minus1 pps) (t div tile_columns pps))"

definition last_corner :: "hevc_pps \<Rightarrow> nat \<Rightarrow> u32 \<Rightarrow> bool" where
  "last_corner pps t v \<longleftrightarrow> corner v (tile_bd (column_width_minus1 pps) (t mod tile_columns pps + 1) - 1)
     (tile_bd (row_height_minus1 pps) (t div tile_columns pps + 1) - 1)"

lemma corner_tile_word:
  assumes "x < 2 ^ 16" "y < 2 ^ 16"
  shows "corner (tile_word y x) x y"
proof -
  have small: "bit (int v) k \<Longrightarrow> k < 16" if "v < 2 ^ 16" for v k
    using that by (metis bit_take_bit_iff of_nat_0_le_iff of_nat_less_iff of_nat_numeral of_nat_power take_bit_int_eq_self)
  have "field 15 0 (tile_word y x) = take_bit (15 + 1 - 0) (int x)"
    by (rule field_eq) (auto simp: tile_word_def bit_simps)
  moreover have "field 31 16 (tile_word y x) = take_bit (31 + 1 - 16) (int y)"
    by (rule field_eq) (use small[OF assms(1)] in \<open>auto simp: tile_word_def bit_simps\<close>)
  ultimately show ?thesis using assms by (simp add: corner_def take_bit_int_eq_self)
qed

lemma tile_bd_bound: "tile_bd sizes t \<le> t * 256"
proof -
  have "sum_list (map (\<lambda>s. unat s + 1) l) \<le> length l * 256" for l :: "u8 list"
  proof (induction l)
    case (Cons a l)
    then show ?case using unat_lt2p[of a] by simp
  qed simp
  from this[of "take t sizes"] show ?thesis
    unfolding tile_bd_def by (rule le_trans) (simp add: min_le_iff_disj)
qed

lemma h265_tile_words:
  assumes "tiles_ok pps w h" "t < tile_columns pps * tile_rows pps"
  shows "first_corner pps t (tile_first pps t)" "last_corner pps t (tile_last pps t)"
proof -
  have t: "t mod tile_columns pps < 20" "t div tile_columns pps < 22"
    using tile_coordinates[OF assms] assms(1) by (simp_all add: tiles_ok_def)
  note b = tile_bd_bound[of "column_width_minus1 pps" "t mod tile_columns pps"]
    tile_bd_bound[of "row_height_minus1 pps" "t div tile_columns pps"]
    tile_bd_bound[of "column_width_minus1 pps" "t mod tile_columns pps + 1"]
    tile_bd_bound[of "row_height_minus1 pps" "t div tile_columns pps + 1"]
  show "first_corner pps t (tile_first pps t)"
    unfolding first_corner_def tile_first_def by (rule corner_tile_word) (use b t in simp_all)
  show "last_corner pps t (tile_last pps t)"
    unfolding last_corner_def tile_last_def by (rule corner_tile_word) (use b t in simp_all)
qed

text \<open>C11: For a picture parameter set that tiles the picture and a slice that starts in tile \<open>t\<close>, the tile
  registers hold the corners of \<open>t\<close>, and the record of each entry point its offset and the corners of
  the tile that follows in raster order; nothing else in the memory of the entry points changes.\<close>

theorem h265_tiles:
  assumes "tiles_ok (h5_pps job) w h" "x < w" "y < h"
    and "t < tile_columns (h5_pps job) * tile_rows (h5_pps job)" "in_h265_tile (h5_pps job) t x y"
    and "HEVC_PPS_FLAG_ENTROPY_CODING_SYNC_ENABLED \<notin> hp_flags (h5_pps job)"
    and "n = unat (num_entry_point_offsets (h5_slice_params job))" "length (h5_entry_point_offsets job) = n" "n \<le> 256"
    and "t + n < tile_columns (h5_pps job) * tile_rows (h5_pps job)"
  shows "\<exists>buf' log' s e. cedrus_dec_h265_tiles_write job x y buf log = Some (buf', log') \<and>
    last_write VE_DEC_H265_TILE_START_CTB log' = Some s \<and> first_corner (h5_pps job) t s \<and>
    last_write VE_DEC_H265_TILE_END_CTB log' = Some e \<and> last_corner (h5_pps job) t e \<and>
    (\<forall>k<n. buf' (4 * k) = h5_entry_point_offsets job ! k \<and> buf' (4 * k + 1) = 0 \<and>
      first_corner (h5_pps job) (t + 1 + k) (buf' (4 * k + 2)) \<and> last_corner (h5_pps job) (t + 1 + k) (buf' (4 * k + 3))) \<and>
    (\<forall>a\<ge>4 * n. buf' a = buf a)"
proof -
  let ?pps = "h5_pps job"
  let ?rec = "\<lambda>k. entry_record ?pps (h5_entry_point_offsets job ! k) (t + 1 + k)"
  let ?buf = "fold (\<lambda>k. put_block (k * 4) (?rec k)) [0..<n] buf"
  let ?log = "writes [(VE_DEC_H265_TILE_START_CTB, tile_first ?pps t), (VE_DEC_H265_TILE_END_CTB, tile_last ?pps t)] log"
  have v: "cedrus_dec_h265_tiles_write job x y buf log = Some (?buf, ?log)"
    by (rule tiles_write_value) (use assms in \<open>simp_all add: tiles_tile_def\<close>)
  have b: "?buf (k * 4 + i) = ?rec k ! i" if "k < n" "i < 4" for k i
    by (rule fold_put_block) (use that in \<open>simp_all add: entry_record_def\<close>)
  have rest: "?buf a = buf a" if "4 * n \<le> a" for a
    by (rule fold_put_block_out) (use that in \<open>auto simp: entry_record_def\<close>)
  have rd: "?buf (4 * k) = h5_entry_point_offsets job ! k" "?buf (4 * k + 1) = 0"
    "?buf (4 * k + 2) = tile_first ?pps (t + 1 + k)" "?buf (4 * k + 3) = tile_last ?pps (t + 1 + k)" if "k < n" for k
    using b[OF that, of 0] b[OF that, of 1] b[OF that, of 2] b[OF that, of 3]
    by (simp_all add: entry_record_def mult.commute)
  have w: "first_corner ?pps (t + 1 + k) (tile_first ?pps (t + 1 + k))"
      "last_corner ?pps (t + 1 + k) (tile_last ?pps (t + 1 + k))" if "k < n" for k
    using h265_tile_words[OF assms(1), of "t + 1 + k"] that assms(10) by simp_all
  have l: "last_write VE_DEC_H265_TILE_START_CTB ?log = Some (tile_first ?pps t)"
      "last_write VE_DEC_H265_TILE_END_CTB ?log = Some (tile_last ?pps t)"
    by (simp_all add: last_write_writes hdr_simps)
  show ?thesis
    by (rule exI[of _ ?buf], rule exI[of _ ?log], rule exI[of _ "tile_first ?pps t"], rule exI[of _ "tile_last ?pps t"])
      (use v l rd w rest h265_tile_words[OF assms(1,4)] in simp)
qed


section \<open>Entry points without a tile\<close>

lemma tile_loop_outside:
  assumes "tile_columns pps = 1" "length (row_height_minus1 pps) \<le> ty + n" "0 < n"
  shows "h265_tile_loop pps offsets i n (tx, ty, x, y) buf = None"
  using assms(2,3)
proof (induction n arbitrary: i tx ty x y buf)
  case (Suc n)
  show ?case
  proof (cases "ty + 1 < length (row_height_minus1 pps)")
    case True
    then have IH: "h265_tile_loop pps offsets (Suc i) n (0, ty + 1, 0, y') b = None" for y' b
      using Suc by simp
    show ?thesis using assms(1)
      by (simp add: next_tile_cases at_index_def bind_eq_None_conv IH[simplified] put_word_def)
  next
    case False
    then show ?thesis using assms(1) by (simp add: next_tile_cases at_index_def bind_eq_None_conv)
  qed
qed simp

text \<open>The number of entry points is only compared with the length of its own control: with a single
  column of tiles, any slice with 22 entry points or more that passes this check makes the driver read
  the row heights outside their array.\<close>

theorem h265_entry_points_unchecked:
  assumes "HEVC_PPS_FLAG_TILES_ENABLED \<in> hp_flags (h5_pps job)"
    "HEVC_PPS_FLAG_ENTROPY_CODING_SYNC_ENABLED \<notin> hp_flags (h5_pps job)"
    "num_tile_columns_minus1 (h5_pps job) = 0" "length (row_height_minus1 (h5_pps job)) = 22"
    "unat (num_entry_point_offsets (h5_slice_params job)) = length (h5_entry_point_offsets job)"
    "22 \<le> length (h5_entry_point_offsets job)" "\<forall>heap n. alloc heap n \<noteq> None"
  shows "cedrus_dec_h265_job_configure hw lookup alloc coded picture stream job new_frame cur ctx pics heap log = None"
proof -
  have c: "tile_columns (h5_pps job) = 1" by (simp add: tile_columns_def assms(3))
  have "h265_tile_loop (h5_pps job) (h5_entry_point_offsets job) 0 (length (h5_entry_point_offsets job))
      (tx, ty, x, y) buf = None" for tx ty x y buf
    by (rule tile_loop_outside[OF c]) (use assms(4,6) in auto)
  then have "cedrus_dec_h265_tiles_write job x y buf log = None" for x y buf log
    using assms(2,5)
    by (simp add: cedrus_dec_h265_tiles_write_def Let_def bind_eq_None_conv split: prod.split)
  then have w: "h265_write_slice hw lookup coded picture stream job new_frame cur ps width ctx log = None" for ps width
    using assms(1) by (simp add: h265_write_slice_def Let_def)
  have "fst (h265_ensure_mv_col alloc coded s b heap) = None" for s b
    using assms(7) by (simp add: h265_ensure_mv_col_def Let_def split: option.split) (metis option.distinct(1))
  then show ?thesis
    using assms(5) w
    by (simp add: cedrus_dec_h265_job_configure_def Let_def case_prod_beta bind_eq_None_conv)
qed

section \<open>The end of the slice header\<close>

text \<open>How many bits of the data the hardware has gone past: the initialisation starts over, and each flush
  skips the number of bits in its field.\<close>

fun h265_seek :: "io \<Rightarrow> nat \<Rightarrow> nat" where
  "h265_seek (Write r v) pos = (if r \<noteq> VE_DEC_H265_TRIGGER then pos
     else if field 3 0 v = 7 then 0 else if field 3 0 v = 3 then pos + nat (field 13 8 v) else pos)"
| "h265_seek _ pos = pos"

definition h265_position :: "io_log \<Rightarrow> nat" where
  "h265_position log = fold h265_seek log 0"

lemma position_write [simp]:
  "h265_position (cedrus_write r v log) = h265_seek (Write r v) (h265_position log)"
  "h265_position (cedrus_poll r v log) = h265_position log"
  by (simp_all add: h265_position_def cedrus_write_def cedrus_poll_def)

text \<open>Hardware that shows the byte of the data at its position.\<close>

definition shows_data :: "hw_read \<Rightarrow> u8 list \<Rightarrow> bool" where
  "shows_data hw data \<longleftrightarrow> (\<forall>log i. h265_position log = 8 * i \<longrightarrow> i < length data \<longrightarrow>
     ucast (hw log VE_DEC_H265_BITS_READ) = data ! i)"

lemma bit_3: "bit (3 :: int) k \<longleftrightarrow> k < 2" "bit (1 :: int) k \<longleftrightarrow> k = 0"
  using bit_mask_iff[of 2 k, where ?'a = int] by (simp_all add: mask_eq_exp_minus_1 numeral_eq_Suc bit_1_iff)

lemma flush_fields:
  assumes "m \<le> 32"
  defines "v \<equiv> VE_DEC_H265_TRIGGER_FLUSH_BITS OR VE_DEC_H265_TRIGGER_TYPE_N_BITS (word_of_nat m)"
  shows "field 3 0 v = 3" "field 13 8 v = int m"
proof -
  have n: "m < 2 ^ 6" using assms(1) by simp
  have three: "bit (3 :: u32) k \<longleftrightarrow> k < 2" for k
    using bit_mask_iff[of 2 k, where ?'a = u32] by (auto simp: mask_eq_exp_minus_1)
  have sixtythree: "bit (63 :: u32) k \<longleftrightarrow> k < 6" for k
    using bit_mask_iff[of 6 k, where ?'a = u32] by (auto simp: mask_eq_exp_minus_1)
  have b: "bit v k \<longleftrightarrow> k < 2 \<or> (8 \<le> k \<and> k < 14 \<and> bit m (k - 8))" for k
    unfolding v_def VE_DEC_H265_TRIGGER_FLUSH_BITS_def VE_DEC_H265_TRIGGER_TYPE_N_BITS_def push_bit_0_id id_apply
      bit_or_iff three bit_push_bit_iff bit_and_iff sixtythree
    by (auto simp: bit_simps)
  have "field 3 0 v = take_bit (3 + 1 - 0) 3"
    by (rule field_eq) (simp_all add: b bit_3)
  then show "field 3 0 v = 3" by (simp add: take_bit_eq_mod)
  have "field 13 8 v = take_bit (13 + 1 - 8) (int m)"
    by (rule field_eq) (simp_all add: b bit_simps)
  then show "field 13 8 v = int m" using n by (simp add: take_bit_int_eq_self)
qed


lemma skip_position:
  "written \<le> num \<Longrightarrow>
    h265_position (cedrus_dec_h265_bits_skip num written log) = h265_position log + (num - written)"
proof (induction num written log rule: cedrus_dec_h265_bits_skip.induct)
  case (1 num written log)
  show ?case
  proof (cases "written < num")
    case True
    let ?k = "min (num - written) 32"
    have "h265_position (cedrus_dec_h265_bits_skip num (written + ?k) l) = h265_position l + (num - (written + ?k))"
      if "l = cedrus_poll VE_DEC_H265_STATUS VE_DEC_H265_STATUS_VLD_BUSY (cedrus_write VE_DEC_H265_TRIGGER
        (VE_DEC_H265_TRIGGER_FLUSH_BITS OR VE_DEC_H265_TRIGGER_TYPE_N_BITS (word_of_nat ?k)) log)" for l
      using 1(1)[OF True refl refl that] True by simp
    then show ?thesis using True flush_fields[of ?k]
      by (subst cedrus_dec_h265_bits_skip.simps) (simp add: Let_def)
  next
    case False
    then show ?thesis using 1(2) by (subst cedrus_dec_h265_bits_skip.simps) simp
  qed
qed

lemma read_position:
  assumes "shows_data hw data" "h265_position log = 8 * i" "i < length data"
  shows "\<exists>v log'. cedrus_dec_h265_bits_read hw 8 log = (v, log') \<and> ucast v = data ! i \<and> h265_position log' = 8 * i"
proof -
  let ?v = "VE_DEC_H265_TRIGGER_SHOW_BITS OR VE_DEC_H265_TRIGGER_TYPE_N_BITS (word_of_nat 8)"
  have "field 3 0 ?v = 1" by code_simp
  then show ?thesis using assms(1)[unfolded shows_data_def, rule_format, OF _ assms(3)] assms(2)
    by (simp add: cedrus_dec_h265_bits_read_def cedrus_read_def Let_def)
qed

text \<open>The last set bit of a byte, from the left, is the first from the right.\<close>

lemma find_set_bit:
  assumes "v \<noteq> (0 :: u8)"
  shows "\<exists>c<8. find (bit v) [0..<8] = Some c \<and> bit v c \<and> (\<forall>k<c. \<not> bit v k)"
proof -
  obtain k where k: "bit v k" using assms by (auto simp: bit_eq_iff)
  then have "k < 8" using bit_imp_le_length[of v k] by simp
  then obtain c where c: "find (bit v) [0..<8] = Some c"
    using k by (metis (no_types, lifting) find_None_iff atLeastLessThan_iff le0 not_None_eq set_upt)
  then show ?thesis by (auto simp: find_Some_iff intro!: exI[of _ c])
qed

lemma skip_header_value:
  assumes "shows_data hw data" "h265_position log = 0" "unat offset \<le> length data" "offset < 2 ^ 29" "offset \<noteq> 0"
  shows "data ! (unat offset - 1) = 0 \<Longrightarrow> fst (h265_skip_header hw offset log) = Some EINVAL"
    and "data ! (unat offset - 1) \<noteq> 0 \<Longrightarrow> \<exists>log' b. h265_skip_header hw offset log = (None, log') \<and> b < 8 \<and>
      h265_position log' = 8 * (unat offset - 1) + b \<and> bit (data ! (unat offset - 1)) (7 - b) \<and>
      (\<forall>k<7 - b. \<not> bit (data ! (unat offset - 1)) k)"
proof -
  define i where "i = unat offset - 1"
  have "unat (offset - 1) = i" using assms(5) by (simp add: i_def unat_minus_one)
  moreover have "i < 2 ^ 29" using assms(4,5) by (simp add: i_def word_less_nat_alt)
  ultimately have num: "unat ((offset - 1) * 8) = 8 * i"
    by (subst unat_mult_lem[THEN iffD1]) simp_all
  have i': "unat offset - Suc 0 = i" by (simp add: i_def)
  have i: "i < length data" using assms(3,5) unat_gt_0[of offset] by (simp add: i_def)
  let ?log = "cedrus_dec_h265_bits_skip (8 * i) 0 log"
  have p: "h265_position ?log = 8 * i" using skip_position[of 0 "8 * i" log] assms(2) by simp
  obtain v log' where r: "cedrus_dec_h265_bits_read hw 8 ?log = (v, log')" "ucast v = data ! i" "h265_position log' = 8 * i"
    using read_position[OF assms(1) p i] by blast
  show "data ! (unat offset - 1) = 0 \<Longrightarrow> fst (h265_skip_header hw offset log) = Some EINVAL"
    using assms(5) num r by (simp add: h265_skip_header_def i')
  assume "data ! (unat offset - 1) \<noteq> 0"
  then have nonzero: "data ! i \<noteq> 0" by (simp add: i')
  obtain c where c: "c < 8" "find (bit (data ! i)) [0..<8] = Some c" "bit (data ! i) c" "\<forall>k<c. \<not> bit (data ! i) k"
    using find_set_bit[OF nonzero] by blast
  let ?stop = "cedrus_dec_h265_bits_skip (8 - (c + 1)) 0 log'"
  have "h265_skip_header hw offset log = (None, ?stop)"
    using assms(5) num r c(2) nonzero by (simp add: h265_skip_header_def)
  moreover have "h265_position ?stop = 8 * i + (7 - c)"
    using skip_position[of 0 "8 - (c + 1)" log'] r(3) by simp
  moreover have "7 - (7 - c) = c" using c(1) by simp
  ultimately show "\<exists>log' b. h265_skip_header hw offset log = (None, log') \<and> b < 8 \<and>
      h265_position log' = 8 * (unat offset - 1) + b \<and> bit (data ! (unat offset - 1)) (7 - b) \<and>
      (\<forall>k<7 - b. \<not> bit (data ! (unat offset - 1)) k)"
    using c by (auto simp: i' intro!: exI[of _ ?stop] exI[of _ "7 - c"])
qed

text \<open>C26: Before the slice data the driver moves the hardware to the bit that ends the slice header, the
  last bit set in the byte before the data, and refuses an offset of zero and a byte without such a
  bit.\<close>

theorem h265_skip_header_position:
  assumes "shows_data hw data" "h265_position log = 0" "unat offset \<le> length data" "offset < 2 ^ 29"
  shows "if offset = 0 then fst (h265_skip_header hw offset log) = Some EOPNOTSUPP
    else if data ! (unat offset - 1) = 0 then fst (h265_skip_header hw offset log) = Some EINVAL
    else \<exists>log' b. h265_skip_header hw offset log = (None, log') \<and> b < 8 \<and>
      h265_position log' = 8 * (unat offset - 1) + b \<and> bit (data ! (unat offset - 1)) (7 - b) \<and>
      (\<forall>k<7 - b. \<not> bit (data ! (unat offset - 1)) k)"
  using skip_header_value[OF assms] by (cases "offset = 0") (simp_all add: h265_skip_header_def)

section \<open>A picture of four tiles\<close>

definition ex_h265_pps :: hevc_pps where
  "ex_h265_pps = \<lparr>diff_cu_qp_delta_depth = 1, hp_init_qp_minus26 = -2, pps_cb_qp_offset = 1, pps_cr_qp_offset = -1,
     num_tile_columns_minus1 = 1, num_tile_rows_minus1 = 1, column_width_minus1 = [29, 29] @ replicate 18 0,
     row_height_minus1 = [16, 16] @ replicate 20 0, log2_parallel_merge_level_minus2 = 0,
     hp_flags = {HEVC_PPS_FLAG_TILES_ENABLED, HEVC_PPS_FLAG_WEIGHTED_PRED}\<rparr>"

definition ex_h265_sps :: hevc_sps where
  "ex_h265_sps = \<lparr>pic_width_in_luma_samples = 1920, bit_depth_luma_minus8 = 0, bit_depth_chroma_minus8 = 0,
     log2_min_luma_coding_block_size_minus3 = 0, log2_diff_max_min_luma_coding_block_size = 2,
     log2_min_luma_transform_block_size_minus2 = 0, log2_diff_max_min_luma_transform_block_size = 3,
     max_transform_hierarchy_depth_inter = 1, max_transform_hierarchy_depth_intra = 1,
     pcm_sample_bit_depth_luma_minus1 = 0, pcm_sample_bit_depth_chroma_minus1 = 0,
     log2_min_pcm_luma_coding_block_size_minus3 = 0, log2_diff_max_min_pcm_luma_coding_block_size = 0,
     hs_chroma_format_idc = 1, hs_flags = {HEVC_SPS_FLAG_AMP_ENABLED, HEVC_SPS_FLAG_SCALING_LIST_ENABLED}\<rparr>"

definition ex_h265_weights :: hevc_pred_weights where
  "ex_h265_weights = \<lparr>hw_luma_log2_weight_denom = 5, delta_chroma_log2_weight_denom = -1,
     delta_luma_weight_l0 = [3, -2, 7] @ replicate 13 0, luma_offset_l0 = [-4, 0, 1] @ replicate 13 0,
     delta_chroma_weight_l0 = [[1, -1], [0, 2], [5, 5]] @ replicate 13 [0, 0],
     chroma_offset_l0 = [[0, -3], [9, 0], [0, 0]] @ replicate 13 [0, 0],
     delta_luma_weight_l1 = replicate 16 0, luma_offset_l1 = replicate 16 0,
     delta_chroma_weight_l1 = replicate 16 [0, 0], chroma_offset_l1 = replicate 16 [0, 0]\<rparr>"

definition ex_h265_slice :: "hevc_slice_type \<Rightarrow> nat \<Rightarrow> hevc_slice_params" where
  "ex_h265_slice st n = \<lparr>data_byte_offset = 3, num_entry_point_offsets = word_of_nat n, nal_unit_type = 1,
     nuh_temporal_id_plus1 = 1, hl_slice_type = st, colour_plane_id = 0, slice_pic_order_cnt = 8,
     num_ref_idx_l0_active_minus1 = 2, num_ref_idx_l1_active_minus1 = 0, collocated_ref_idx = 0,
     five_minus_max_num_merge_cand = 0, hl_slice_qp_delta = 3, slice_cb_qp_offset = 0, slice_cr_qp_offset = 0,
     slice_beta_offset_div2 = 0, slice_tc_offset_div2 = 0, pic_struct = 0, slice_segment_addr = 0,
     ref_idx_l0 = [1, 0, 1] @ replicate 13 0, ref_idx_l1 = replicate 16 0, pred_weight_table = ex_h265_weights,
     hl_flags = {HEVC_SLICE_PARAMS_FLAG_SLICE_SAO_LUMA}\<rparr>"

definition ex_h265_dpb :: "hevc_dpb_entry list" where
  "ex_h265_dpb = \<lparr>he_timestamp = 1000, he_long_term = False, he_field_pic = 0, he_pic_order_cnt_val = 4\<rparr> #
     \<lparr>he_timestamp = 2000, he_long_term = True, he_field_pic = 0, he_pic_order_cnt_val = 0\<rparr> #
     replicate 14 \<lparr>he_timestamp = 0, he_long_term = False, he_field_pic = 0, he_pic_order_cnt_val = 0\<rparr>"

definition ex_h265_job :: "hevc_slice_type \<Rightarrow> u32 list \<Rightarrow> h265_job" where
  "ex_h265_job st offsets = \<lparr>h5_sps = ex_h265_sps, h5_pps = ex_h265_pps,
     h5_scaling_matrix = \<lparr>hm_4x4 = replicate 6 (replicate 16 16), hm_8x8 = replicate 6 (replicate 64 16),
       hm_16x16 = replicate 6 (replicate 64 16), hm_32x32 = replicate 2 (replicate 64 16),
       scaling_list_dc_coef_16x16 = replicate 6 16, scaling_list_dc_coef_32x32 = replicate 2 16\<rparr>,
     h5_slice_params = ex_h265_slice st (length offsets), h5_entry_point_offsets = offsets,
     h5_decode_params = \<lparr>hd_pic_order_cnt_val = 8, num_active_dpb_entries = 2, hd_dpb = ex_h265_dpb\<rparr>\<rparr>"

lemma ex_h265_tiles_ok: "tiles_ok ex_h265_pps 60 34" "in_h265_tile ex_h265_pps 0 0 0"
    "tile_columns ex_h265_pps = 2" "tile_rows ex_h265_pps = 2"
  by code_simp+

lemma ex_h265_bds:
  "tile_bd (column_width_minus1 ex_h265_pps) 2 = 60" "tile_bd (row_height_minus1 ex_h265_pps) 2 = 34"
  "tile_bd (row_height_minus1 ex_h265_pps) 1 = 17" "tile_bd (column_width_minus1 ex_h265_pps) 1 = 30"
  "tile_bd (row_height_minus1 ex_h265_pps) (Suc 0) = 17" "tile_bd (column_width_minus1 ex_h265_pps) (Suc (Suc 0)) = 60"
  "tile_bd (row_height_minus1 ex_h265_pps) (Suc (Suc 0)) = 34"
  by code_simp+

theorem h265_tiles_witness:
  "\<exists>buf log s. cedrus_dec_h265_tiles_write (ex_h265_job HEVC_SLICE_TYPE_P [700, 350, 512]) 0 0 (\<lambda>_. 0) [] = Some (buf, log) \<and>
    last_write VE_DEC_H265_TILE_START_CTB log = Some s \<and> corner s 0 0 \<and>
    buf 8 = 512 \<and> corner (buf 6) 0 17 \<and> corner (buf 11) 59 33 \<and> buf 12 = 0"
proof -
  let ?job = "ex_h265_job HEVC_SLICE_TYPE_P [700, 350, 512]"
  have j: "h5_pps ?job = ex_h265_pps" "h5_entry_point_offsets ?job = [700, 350, 512]"
      "num_entry_point_offsets (h5_slice_params ?job) = 3" "hp_flags ex_h265_pps = {HEVC_PPS_FLAG_TILES_ENABLED, HEVC_PPS_FLAG_WEIGHTED_PRED}"
    by (simp_all add: ex_h265_job_def ex_h265_slice_def ex_h265_pps_def)
  have c: "first_corner ex_h265_pps 0 v \<longleftrightarrow> corner v 0 0" "first_corner ex_h265_pps 2 v \<longleftrightarrow> corner v 0 17"
      "last_corner ex_h265_pps 3 v \<longleftrightarrow> corner v 59 33" for v
    by (simp_all add: first_corner_def last_corner_def ex_h265_tiles_ok(3) ex_h265_bds)
  obtain buf log s e where w: "cedrus_dec_h265_tiles_write ?job 0 0 (\<lambda>_. 0) [] = Some (buf, log)"
      "last_write VE_DEC_H265_TILE_START_CTB log = Some s" "first_corner ex_h265_pps 0 s"
      "\<forall>k<3. buf (4 * k) = [700, 350, 512] ! k \<and> buf (4 * k + 1) = 0 \<and>
        first_corner ex_h265_pps (0 + 1 + k) (buf (4 * k + 2)) \<and> last_corner ex_h265_pps (0 + 1 + k) (buf (4 * k + 3))"
      "\<forall>a\<ge>4 * 3. buf a = 0"
    using h265_tiles[where job = ?job and w = 60 and h = 34 and x = 0 and y = 0 and t = 0 and n = 3 and
        buf = "\<lambda>_. 0" and log = "[]"] ex_h265_tiles_ok unfolding j by auto
  have "first_corner ex_h265_pps 2 (buf 6)" "buf 8 = 512" "last_corner ex_h265_pps 3 (buf 11)"
    using w(4)[rule_format, of 1] w(4)[rule_format, of 2] by (simp_all add: numeral_2_eq_2 numeral_3_eq_3)
  then show ?thesis using w c by auto
qed

definition ex_single_tile_job :: h265_job where
  "ex_single_tile_job = (ex_h265_job HEVC_SLICE_TYPE_I (replicate 22 64))
     \<lparr>h5_pps := ex_h265_pps\<lparr>num_tile_columns_minus1 := 0, num_tile_rows_minus1 := 0\<rparr>\<rparr>"

theorem h265_entry_points_unchecked_witness:
  "cedrus_dec_h265_job_configure (\<lambda>_ _. 0) first_with_timestamp (\<lambda>_ _. Some 0x45000000) zero_pix zero_pix
    (0x46000000, 4000) ex_single_tile_job True 0
    \<lparr>h5_neighbor_info_buf_addr = Some 0x44000000, h5_entry_points_buf_addr = Some 0x44100000, h5_entry_points_buf = (\<lambda>_. 0)\<rparr>
    [\<lparr>pic_addr = 0x48000000, pic_timestamp = 3000, pic_engine = \<lparr>h5_mv_col_buf_dma = 0, h5_mv_col_buf_size = 0\<rparr>\<rparr>] [] [] = None"
  by (rule h265_entry_points_unchecked)
    (simp_all add: ex_single_tile_job_def ex_h265_job_def ex_h265_pps_def ex_h265_slice_def)

definition ex_showing :: "u8 list \<Rightarrow> hw_read" where
  "ex_showing data log reg = (if reg = VE_DEC_H265_BITS_READ then ucast (data ! (h265_position log div 8)) else 0)"

lemma ex_shows_data: "shows_data (ex_showing data) data"
proof -
  have "ucast (ucast v :: u32) = v" for v :: u8
    by (rule bit_word_eqI) (simp add: bit_simps)
  then show ?thesis by (simp add: shows_data_def ex_showing_def)
qed

theorem h265_skip_header_position_witness:
  "\<exists>log'. h265_skip_header (ex_showing [0x26, 0x01, 0xe8, 0x55]) 3 [] = (None, log') \<and> h265_position log' = 20"
proof -
  have b: "bit (0xe8 :: u8) (7 - b) \<and> (\<forall>k<7 - b. \<not> bit (0xe8 :: u8) k) \<Longrightarrow> b < 8 \<Longrightarrow> b = 4" for b
  proof -
    assume a: "bit (0xe8 :: u8) (7 - b) \<and> (\<forall>k<7 - b. \<not> bit (0xe8 :: u8) k)" "b < 8"
    have s: "bit (0xe8 :: u8) 3" "\<not> bit (0xe8 :: u8) 0" "\<not> bit (0xe8 :: u8) 1" "\<not> bit (0xe8 :: u8) 2" by simp_all
    have "7 - b \<le> 3" using a(1) s(1) by (meson not_le)
    moreover have "7 - b \<noteq> 0" "7 - b \<noteq> 1" "7 - b \<noteq> 2" using a(1) s(2-4) by metis+
    ultimately show "b = 4" using a(2) by linarith
  qed
  have d: "[0x26, 0x01, 0xe8, 0x55] ! (unat (3 :: u32) - 1) = (0xe8 :: u8)"
      "((3 :: u32) = 0) = False" "((0xe8 :: u8) = 0) = False" by simp_all
  have p: "h265_position [] = 0" "unat (3 :: u32) \<le> length [0x26 :: u8, 0x01, 0xe8, 0x55]" "(3 :: u32) < 2 ^ 29"
    by (simp_all add: h265_position_def)
  from h265_skip_header_position[OF ex_shows_data p, unfolded d if_False]
  obtain log' n where w: "h265_skip_header (ex_showing [0x26, 0x01, 0xe8, 0x55]) 3 [] = (None, log')" "n < 8"
      "h265_position log' = 8 * (unat (3 :: u32) - 1) + n" "bit (0xe8 :: u8) (7 - n) \<and> (\<forall>k<7 - n. \<not> bit (0xe8 :: u8) k)"
    by blast
  then show ?thesis using b[OF w(4,2)] by auto
qed

end
