(* ===== verification/H265_Dec_Session.thy ===== *)
theory H265_Dec_Session
  imports H265_Dec_Tiles
begin





section \<open>The loops as blocks of words\<close>

lemma data_write:
  "cedrus_write VE_DEC_H265_SRAM_DATA v log = writes (map (Pair VE_DEC_H265_SRAM_DATA) [v]) log"
  by (simp add: writes_Cons)

















section \<open>Frames\<close>





lemma put_block_Nil [simp]: "put_block a [] mem = mem"
  by (rule ext) (auto simp: put_block_def)


section \<open>The tables of a slice\<close>
















section \<open>A slice\<close>















end
