(* ===== verification/Spec2Isabelle.thy ===== *)
theory Spec2Isabelle
  imports Vp9_Adapt H264_Session Jpeg_Encoder Cedrus_Core Cedrus_Stream H264_Dec_Session Cedrus_Dec_MPEG2 Vp9_Dec_Session Vp8_Dec_Session H265_Dec_Session
begin

text \<open>Verification of the Cedrus driver port for the Allwinner H618 video engine (\<open>cedrus-v4l2/\<close>).

  The program is a Linux V4L2 memory-to-memory driver.  User space opens a context on one of two
  processing units (decoder, encoder), negotiates a coded and a picture format, queues buffers and
  starts streaming; the framework then runs one job at a time, which programs the registers of the
  engine that belongs to the coded format and waits for its interrupt.

  Theories, in the order of the calls:

  \<^item> \<^verbatim>\<open>Cedrus_Prelude\<close>: integer types, kernel macros, C arrays and the loops over them, bit strings.
  \<^item> \<^verbatim>\<open>Cedrus_Device\<close>, \<^verbatim>\<open>Cedrus_Regs\<close> (\<open>cedrus.h\<close>, \<open>cedrus.c\<close>, \<open>cedrus_regs.h\<close>): device variants, DMA
    addresses, register access.  What the driver does to the hardware is a log of accesses; what the
    hardware answers is a parameter \<open>hw\<close>, a function of that log.
  \<^item> \<^verbatim>\<open>Cedrus_Format\<close> (\<open>cedrus_proc.c\<close>, \<open>cedrus_enc.c\<close>, \<open>cedrus_dec.c\<close>, the engine tables of the
    \<open>cedrus_*_*.c\<close> files): engines and formats of a unit, and how a requested format is adjusted.
    The locale \<open>format_ops\<close> states what the four adjusting callbacks promise.
  \<^item> \<^verbatim>\<open>Cedrus_Context\<close> (\<open>cedrus_proc.c\<close>, \<open>cedrus_context.c\<close>): the format, size, selection and frame
    rate ioctls as operations on a context, \<open>context_step\<close> and \<open>context_reach\<close> their executions and
    \<open>format_inv\<close> what always holds.
  \<^item> \<^verbatim>\<open>Cedrus_Stream\<close> (\<open>cedrus_context.c\<close>): buffers, starting and stopping an engine with every failure
    path; \<open>stream_step\<close> refines \<open>context_step\<close>.
  \<^item> \<^verbatim>\<open>Cedrus_Core\<close> (\<open>cedrus_context.c\<close>, \<open>cedrus.c\<close>): running a job, the interrupt handler, the watchdog
    and closing a context, as a step relation whose interleavings the properties quantify over.
  \<^item> \<^verbatim>\<open>H264_Bitstream\<close>, \<^verbatim>\<open>H264_Encoder\<close>, \<^verbatim>\<open>H264_Syntax\<close>, \<^verbatim>\<open>H264_Job\<close>, \<^verbatim>\<open>H264_Session\<close>
    (\<open>cedrus_enc_h264.c\<close>, \<open>.h\<close>): bit writers, controls and job preparation, headers, the registers of
    a job, and whole sessions.  \<^verbatim>\<open>H264_Parse\<close> and \<^verbatim>\<open>H264_Decoder\<close> are the specification: a parser of the
    parameter sets and slice headers and a decoder of NAL units, written from the standard.
  \<^item> \<^verbatim>\<open>Jpeg_Encoder\<close> (\<open>cedrus_enc_jpeg.c\<close>, \<open>.h\<close>, \<open>cedrus_enc_jpeg_tables.h\<close>): quantisation tables, header
    writer, job and buffer completion; the specification is a reader of JPEG segments.
  \<^item> \<^verbatim>\<open>Cedrus_Buffers\<close> (\<open>cedrus.h\<close>, \<open>cedrus_enc.c\<close>, \<open>cedrus_dec.c\<close>): planes of a picture, finding a picture by
    its timestamp, the registers of the formats, waits on the hardware, and the locale \<open>sram_port\<close> for
    tables written through an address and a data register.
  \<^item> \<^verbatim>\<open>Cedrus_Dec_H264\<close>, \<^verbatim>\<open>H264_Dec_Session\<close> (\<open>cedrus_dec_h264.c\<close>, \<open>.h\<close>): the H.264 decoder; \<open>h264d_session\<close>
    are its executions, with the frames that may be referenced and the DMA memory in use.
  \<^item> \<^verbatim>\<open>Cedrus_Dec_Regs\<close> (\<open>cedrus_regs.h\<close>): the registers of the other decoders.
  \<^item> \<^verbatim>\<open>Cedrus_Dec_MPEG2\<close> (\<open>cedrus_dec_mpeg2.c\<close>): the MPEG-2 decoder; the specification reads the registers
    and the quantisation matrices of the engine back.
  \<^item> \<^verbatim>\<open>Vp9_Quant\<close>, \<^verbatim>\<open>Cedrus_Dec_VP9\<close> (\<open>cedrus_dec_vp9.c\<close>, \<open>.h\<close>, \<open>cedrus_dec_vp9_quant.h\<close>): the VP9 decoder;
    \<^verbatim>\<open>Vp9_Dec_Tables\<close> and \<^verbatim>\<open>Vp9_Dec_Tiles\<close> read a job back and compare it with the VP9 specification,
    \<^verbatim>\<open>Vp9_Dec_Session\<close> has its executions (\<open>vp9_session\<close>) and its memory.
  \<^item> \<^verbatim>\<open>Vp8_Tables\<close>, \<^verbatim>\<open>Cedrus_Dec_VP8\<close> (\<open>cedrus_dec_vp8.c\<close>, \<open>.h\<close>): the VP8 decoder; \<^verbatim>\<open>Vp8_Dec_Header\<close> has the
    syntax of a frame header, written from RFC 6386, and what the driver asks the hardware while it parses
    one, \<^verbatim>\<open>Vp8_Dec_Session\<close> its executions (\<open>vp8_session\<close>), the probability image and the picture parameters.
  \<^item> \<^verbatim>\<open>Cedrus_Dec_H265\<close> (\<open>cedrus_dec_h265.c\<close>, \<open>.h\<close>): the H.265 decoder; the controls of a request are the record
    \<open>h265_job\<close>, and what has no meaning in C (an index outside an array, a division by zero) is None.
    \<^verbatim>\<open>H265_Dec_Tiles\<close> has the tiles, the entry points and the slice header, \<^verbatim>\<open>H265_Dec_Session\<close> reads the memory
    of the engine back: reference lists, frames and weights.
  \<^item> \<^verbatim>\<open>Vp9_Tables\<close>, \<^verbatim>\<open>Vp9_Probs\<close>, \<^verbatim>\<open>Vp9_Adapt\<close> (\<open>cedrus_vp9_helper.c\<close>): default probabilities, the forward
    update from the compressed header and the backward adaptation from the symbol counts, with the
    recursive tree merge of the VP9 specification as reference.

  State is explicit: a record per structure of the source, returned updated; errors are values of
  \<open>errno option\<close> or \<open>errno + 'a\<close>; machine integers are words of their width, and nat where the source
  cannot wrap (dimensions of at most 4096, indices of fixed arrays).

  What the kernel does is a parameter with a named hypothesis: \<open>frmsize_contract\<close>
  (\<open>v4l2_apply_frmsize_constraints\<close> keeps a size in the range and on the grid of an engine),
  \<open>keeps_mb_info\<close> (setting up the controls leaves the macroblock information alone), allocators that
  may fail, \<open>find_contract\<close> (\<open>vb2_find_buffer\<close> gives a buffer of the queue with the timestamp),
  \<open>eventually_clear\<close> (the hardware finishes what it was told), \<open>answers\<close> and \<open>shows_data\<close> (the bit
  readers of the hardware answer with the symbols of a VP8 header and with the bits of the coded data).
  The control handler of the kernel is the function \<open>set_ctrl\<close> of \<^verbatim>\<open>H264_Encoder\<close>: it validates a value,
  does nothing if it is already current, calls the driver, which still sees the old value as the current
  one, and only then makes the new value current; \<open>s_ctrl_contract\<close> says that the setter the driver calls
  from its callback is that function.
  The schedulers are step relations: the memory-to-memory framework runs one job at a time, the watchdog
  is a delayed work that is pending until its timer fires or it is cancelled, videobuf2 orders the calls
  on a queue.  An interrupt handler is one step.

  No fuel is used: every loop of the model is structural or has a termination proof, but the wait for
  the hardware, a partial function that returns None when it does not end.

  Not modelled: probing, clocks, resets, power domains and the registration of devices
  (\<open>cedrus_probe\<close>, \<open>cedrus_resources_setup\<close>, \<open>cedrus_v4l2_setup\<close>, \<open>cedrus_proc_v4l2_setup\<close>), which are calls
  into the kernel with no logic of their own beyond undoing them in reverse order; suspend and
  resume; the dispatch functions of \<open>cedrus_engine.c\<close>, which call the function of an engine if it has one;
  the lookup of controls in the list of the kernel (the values are the records of the jobs); the legacy
  driver \<open>legacy-driver/\<close>, the Android and native bridges, the tools and scripts, which are separate
  programs around the driver.\<close>

end
